(* ===== verification/Prelude.thy ===== *)
theory Prelude
  imports Main "HOL-Library.Word"
begin

text \<open>
  Shared base of the development: the collections of rewrite rules the component proofs use,
  the few operators of JavaScript whose meaning differs from the HOL operator of the same
  look, and generic lemmas on lists and options.
  A value that JavaScript may leave \<open>null\<close> or \<open>undefined\<close> is an \<open>option\<close>; the code tests
  both with \<open>== null\<close>, so one \<open>None\<close> stands for the two.  Integers of the code are
  \<open>int\<close>: every integer the modelled code computes stays far below \<open>2^53\<close>, where a
  JavaScript number is exact.
\<close>

named_theorems js_simps \<open>unfolding rules of the JavaScript operators\<close>
named_theorems frame_simps \<open>which fields of a state an operation leaves alone\<close>

subsection \<open>Arithmetic of JavaScript integers\<close>

text \<open>The operator \<open>%\<close> takes the sign of its left operand (the divisor is positive here).\<close>

definition js_rem :: "int \<Rightarrow> int \<Rightarrow> int" where
  "js_rem a b = sgn a * (\<bar>a\<bar> mod \<bar>b\<bar>)"

lemma js_rem_nonneg [js_simps]: "0 \<le> a \<Longrightarrow> 0 < b \<Longrightarrow> js_rem a b = a mod b"
  by (cases "a = 0") (simp_all add: js_rem_def)

lemma js_rem_neg: "a < 0 \<Longrightarrow> 0 < b \<Longrightarrow> js_rem a b = - ((- a) mod b)"
  by (simp add: js_rem_def)

lemma js_rem_abs_less:
  assumes "0 < b"
  shows "\<bar>js_rem a b\<bar> < b"
proof (cases "0 \<le> a")
  case True
  with assms show ?thesis by (simp add: js_rem_nonneg)
next
  case False
  have "0 \<le> (- a) mod b" "(- a) mod b < b" using assms by simp_all
  with False assms show ?thesis by (simp add: js_rem_neg)
qed

lemma js_rem_dvd: "0 < b \<Longrightarrow> b dvd (a - js_rem a b)"
proof (cases "0 \<le> a")
  case True
  assume "0 < b"
  with True show ?thesis by (simp add: js_rem_nonneg)
next
  case False
  assume b: "0 < b"
  have "b dvd ((- a) - (- a) mod b)" by (rule dvd_minus_mod)
  then have "b dvd - ((- a) - (- a) mod b)" by (simp only: dvd_minus_iff)
  with False b show ?thesis by (simp add: js_rem_neg algebra_simps)
qed

lemma js_rem_mod: "0 < b \<Longrightarrow> js_rem a b mod b = a mod b"
  using js_rem_dvd [of b a] by (metis mod_eq_dvd_iff)

lemma js_rem_zero_iff: "0 < b \<Longrightarrow> js_rem a b = 0 \<longleftrightarrow> b dvd a"
proof (cases "0 \<le> a")
  case True
  assume "0 < b"
  with True show ?thesis by (simp add: js_rem_nonneg dvd_eq_mod_eq_0)
next
  case False
  assume b: "0 < b"
  then have "b dvd a \<longleftrightarrow> (- a) mod b = 0"
    by (simp add: dvd_eq_mod_eq_0 [symmetric])
  with False b show ?thesis by (simp add: js_rem_neg)
qed

subsection \<open>Arrays\<close>

text \<open>
  An array of the code is a list.  Where the code may read or write out of range the elements
  are options: reading outside gives \<open>undefined\<close>, writing past the end extends the array with
  \<open>undefined\<close> elements, writing at a negative index adds a property that is no element.
\<close>

definition js_at :: "'a option list \<Rightarrow> int \<Rightarrow> 'a option" where
  "js_at xs i = (if 0 \<le> i \<and> i < int (length xs) then xs ! nat i else None)"

definition js_put :: "'a option list \<Rightarrow> int \<Rightarrow> 'a option \<Rightarrow> 'a option list" where
  "js_put xs i v =
     (if i < 0 then xs
      else if i < int (length xs) then xs[nat i := v]
      else xs @ replicate (nat i - length xs) None @ [v])"

text \<open>\<open>xs.splice(i, n, ...ys)\<close>: a negative start counts from the end.\<close>

definition js_splice :: "int \<Rightarrow> nat \<Rightarrow> 'a list \<Rightarrow> 'a list \<Rightarrow> 'a list" where
  "js_splice i n ys xs =
     (let len = int (length xs);
          k = nat (if i < 0 then max 0 (len + i) else min i len)
      in take k xs @ ys @ drop (k + n) xs)"

lemma js_at_nth: "0 \<le> i \<Longrightarrow> i < int (length xs) \<Longrightarrow> js_at xs i = xs ! nat i"
  by (simp add: js_at_def)

lemma length_js_put: "i < int (length xs) \<Longrightarrow> length (js_put xs i v) = length xs"
  by (simp add: js_put_def)

lemma js_at_put:
  "0 \<le> i \<Longrightarrow> i < int (length xs) \<Longrightarrow> js_at (js_put xs i v) j = (if j = i then v else js_at xs j)"
  by (auto simp: js_at_def js_put_def nth_list_update nat_eq_iff)

lemma js_splice_remove:
  "0 \<le> i \<Longrightarrow> i < int (length xs) \<Longrightarrow> js_splice i 1 [] xs = take (nat i) xs @ drop (Suc (nat i)) xs"
  by (simp add: js_splice_def Let_def min_def)

lemma js_splice_insert:
  "0 \<le> i \<Longrightarrow> i \<le> int (length xs) \<Longrightarrow> js_splice i 0 ys xs = take (nat i) xs @ ys @ drop (nat i) xs"
  by (simp add: js_splice_def Let_def min_def)

subsection \<open>Numbers as text\<close>

text \<open>The decimal text of an integer, as string concatenation writes it.\<close>

definition digit_char :: "nat \<Rightarrow> char" where
  "digit_char d = char_of (48 + d)"

fun nat_text :: "nat \<Rightarrow> string" where
  "nat_text n = (if n < 10 then [digit_char n] else nat_text (n div 10) @ [digit_char (n mod 10)])"

declare nat_text.simps [simp del]

definition int_text :: "int \<Rightarrow> string" where
  "int_text i = (if i < 0 then CHR ''-'' # nat_text (nat (- i)) else nat_text (nat i))"

text \<open>The number a run of digits denotes, as \<open>parseInt\<close> reads it.\<close>

fun text_nat :: "nat \<Rightarrow> string \<Rightarrow> nat" where
  "text_nat acc [] = acc"
| "text_nat acc (c # cs) = text_nat (10 * acc + (of_char c - 48)) cs"

lemma text_nat_append: "text_nat acc (xs @ ys) = text_nat (text_nat acc xs) ys"
  by (induction xs arbitrary: acc) simp_all

lemma of_char_digit: "d < 10 \<Longrightarrow> (of_char (digit_char d) :: nat) = 48 + d"
  unfolding digit_char_def of_char_of by simp

lemma text_nat_text: "text_nat 0 (nat_text n) = n"
proof (induction n rule: nat_text.induct)
  case (1 n)
  show ?case
    by (subst nat_text.simps) (use 1 in \<open>simp add: of_char_digit text_nat_append\<close>)
qed

lemma nat_text_inject: "nat_text m = nat_text n \<Longrightarrow> m = n"
  by (metis text_nat_text)

subsection \<open>Options\<close>

text \<open>\<open>x == v\<close> where \<open>x\<close> may be undefined and \<open>v\<close> is a value: false when undefined.\<close>

definition opt_eq :: "'a option \<Rightarrow> 'a \<Rightarrow> bool" where
  "opt_eq x v \<longleftrightarrow> x = Some v"

definition opt_test :: "('a \<Rightarrow> bool) \<Rightarrow> 'a option \<Rightarrow> bool" where
  "opt_test P x = (case x of None \<Rightarrow> False | Some v \<Rightarrow> P v)"

lemma opt_eq_simps [simp]: "opt_eq None v = False" "opt_eq (Some u) v = (u = v)"
  by (simp_all add: opt_eq_def)

lemma opt_test_simps [simp]: "opt_test P None = False" "opt_test P (Some u) = P u"
  by (simp_all add: opt_test_def)

text \<open>\<open>$.extend\<close> on one field: a field the packet carries replaces the stored one.\<close>

definition override :: "'a option \<Rightarrow> 'a option \<Rightarrow> 'a option" where
  "override old new = (case new of None \<Rightarrow> old | Some v \<Rightarrow> Some v)"

lemma override_simps [simp]:
  "override old None = old" "override old (Some v) = Some v" "override x x = x"
  by (simp_all add: override_def split: option.split)

lemma override_assoc: "override (override a b) c = override a (override b c)"
  by (simp add: override_def split: option.split)

subsection \<open>Lists\<close>

text \<open>The first element that satisfies a test, with the rest of the loop not run.\<close>

lemma find_Some_filter: "List.find P xs = Some x \<longleftrightarrow> (\<exists>ys. filter P xs = x # ys)"
  by (induction xs) auto

lemma find_in_set: "List.find P xs = Some x \<Longrightarrow> x \<in> set xs \<and> P x"
  by (induction xs) (auto split: if_splits)

lemma find_None_all: "List.find P xs = None \<longleftrightarrow> (\<forall>x\<in>set xs. \<not> P x)"
  by (induction xs) auto

lemma foldl_invariant:
  assumes "I s" and "\<And>s x. x \<in> set xs \<Longrightarrow> I s \<Longrightarrow> I (f s x)"
  shows "I (foldl f s xs)"
  using assms by (induction xs arbitrary: s) auto

lemma foldl_frame:
  assumes "\<And>s x. g (f s x) = g s"
  shows "g (foldl f s xs) = g s"
  using assms by (induction xs arbitrary: s) auto

lemma sorted_wrt_filter_mono: "sorted_wrt P xs \<Longrightarrow> sorted_wrt P (filter Q xs)"
  by (induction xs) auto

lemma sorted_le_last: "sorted xs \<Longrightarrow> x \<in> set xs \<Longrightarrow> x \<le> last xs"
  by (induction xs) (auto split: if_splits)

lemma upto_Cons_nat: "[0..<Suc n] = 0 # map Suc [0..<n]"
  by (simp add: upt_conv_Cons map_Suc_upt del: upt_Suc)

end
