(* ===== verification/Fc_Types.thy ===== *)
theory Fc_Types
  imports Prelude
begin

text \<open>
  The constants of \<open>fc_types.js\<close> (and the few constants other files declare at their top):
  the enumerations the client shares with the server.  Each enumeration that the client
  indexes by number is a table of its names in declaration order; the constants the modelled
  code uses are abbreviations of their numbers.
\<close>

definition fc_activities :: "(string \<times> int) list" where
  "fc_activities =
    [(''ACTIVITY_IDLE'', 0), (''ACTIVITY_POLLUTION'', 1), (''ACTIVITY_MINE'', 2), 
     (''ACTIVITY_IRRIGATE'', 3), (''ACTIVITY_FORTIFIED'', 4), (''ACTIVITY_SENTRY'', 5), 
     (''ACTIVITY_PILLAGE'', 6), (''ACTIVITY_GOTO'', 7), (''ACTIVITY_EXPLORE'', 8), 
     (''ACTIVITY_TRANSFORM'', 9), (''ACTIVITY_FORTIFYING'', 10), (''ACTIVITY_FALLOUT'', 11), 
     (''ACTIVITY_BASE'', 12), (''ACTIVITY_GEN_ROAD'', 13), (''ACTIVITY_CONVERT'', 14), 
     (''ACTIVITY_CULTIVATE'', 15), (''ACTIVITY_PLANT'', 16), (''ACTIVITY_CLEAN'', 17)]"

definition fc_action_results :: "(string \<times> int) list" where
  "fc_action_results =
    [(''ACTRES_ESTABLISH_EMBASSY'', 0), (''ACTRES_SPY_INVESTIGATE_CITY'', 1), 
     (''ACTRES_SPY_POISON'', 2), (''ACTRES_SPY_STEAL_GOLD'', 3), 
     (''ACTRES_SPY_SABOTAGE_CITY'', 4), (''ACTRES_SPY_TARGETED_SABOTAGE_CITY'', 5), 
     (''ACTRES_SPY_SABOTAGE_CITY_PRODUCTION'', 6), (''ACTRES_SPY_STEAL_TECH'', 7), 
     (''ACTRES_SPY_TARGETED_STEAL_TECH'', 8), (''ACTRES_SPY_INCITE_CITY'', 9), 
     (''ACTRES_TRADE_ROUTE'', 10), (''ACTRES_MARKETPLACE'', 11), (''ACTRES_HELP_WONDER'', 12), 
     (''ACTRES_SPY_BRIBE_UNIT'', 13), (''ACTRES_SPY_SABOTAGE_UNIT'', 14), 
     (''ACTRES_CAPTURE_UNITS'', 15), (''ACTRES_FOUND_CITY'', 16), (''ACTRES_JOIN_CITY'', 17), 
     (''ACTRES_STEAL_MAPS'', 18), (''ACTRES_BOMBARD'', 19), (''ACTRES_SPY_NUKE'', 20), 
     (''ACTRES_NUKE'', 21), (''ACTRES_NUKE_UNITS'', 22), (''ACTRES_DESTROY_CITY'', 23), 
     (''ACTRES_EXPEL_UNIT'', 24), (''ACTRES_RECYCLE_UNIT'', 25), (''ACTRES_DISBAND_UNIT'', 26), 
     (''ACTRES_HOME_CITY'', 27), (''ACTRES_UPGRADE_UNIT'', 28), (''ACTRES_PARADROP'', 29), 
     (''ACTRES_AIRLIFT'', 30), (''ACTRES_ATTACK'', 31), (''ACTRES_STRIKE_BUILDING'', 32), 
     (''ACTRES_STRIKE_PRODUCTION'', 33), (''ACTRES_CONQUER_CITY'', 34), 
     (''ACTRES_HEAL_UNIT'', 35), (''ACTRES_TRANSFORM_TERRAIN'', 36), (''ACTRES_CULTIVATE'', 37), 
     (''ACTRES_PLANT'', 38), (''ACTRES_PILLAGE'', 39), (''ACTRES_FORTIFY'', 40), 
     (''ACTRES_ROAD'', 41), (''ACTRES_CONVERT'', 42), (''ACTRES_BASE'', 43), 
     (''ACTRES_MINE'', 44), (''ACTRES_IRRIGATE'', 45), (''ACTRES_CLEAN_POLLUTION'', 46), 
     (''ACTRES_CLEAN_FALLOUT'', 47), (''ACTRES_TRANSPORT_DEBOARD'', 48), 
     (''ACTRES_TRANSPORT_UNLOAD'', 49), (''ACTRES_TRANSPORT_DISEMBARK'', 50), 
     (''ACTRES_TRANSPORT_BOARD'', 51), (''ACTRES_TRANSPORT_EMBARK'', 52), 
     (''ACTRES_SPY_SPREAD_PLAGUE'', 53), (''ACTRES_SPY_ATTACK'', 54), 
     (''ACTRES_CONQUER_EXTRAS'', 55), (''ACTRES_HUT_ENTER'', 56), (''ACTRES_HUT_FRIGHTEN'', 57), 
     (''ACTRES_UNIT_MOVE'', 58), (''ACTRES_PARADROP_CONQUER'', 59), (''ACTRES_HOMELESS'', 60), 
     (''ACTRES_WIPE_UNITS'', 61), (''ACTRES_SPY_ESCAPE'', 62), (''ACTRES_TRANSPORT_LOAD'', 63), 
     (''ACTRES_CLEAN'', 64), (''ACTRES_TELEPORT'', 65), (''ACTRES_ENABLER_CHECK'', 66), 
     (''ACTRES_NONE'', 67)]"

definition fc_actions :: "(string \<times> int) list" where
  "fc_actions =
    [(''ACTION_ESTABLISH_EMBASSY'', 0), (''ACTION_ESTABLISH_EMBASSY_STAY'', 1), 
     (''ACTION_SPY_INVESTIGATE_CITY'', 2), (''ACTION_INV_CITY_SPEND'', 3), 
     (''ACTION_SPY_POISON'', 4), (''ACTION_SPY_POISON_ESC'', 5), (''ACTION_SPY_STEAL_GOLD'', 6), 
     (''ACTION_SPY_STEAL_GOLD_ESC'', 7), (''ACTION_SPY_SABOTAGE_CITY'', 8), 
     (''ACTION_SPY_SABOTAGE_CITY_ESC'', 9), (''ACTION_SPY_TARGETED_SABOTAGE_CITY'', 10), 
     (''ACTION_SPY_TARGETED_SABOTAGE_CITY_ESC'', 11), 
     (''ACTION_SPY_SABOTAGE_CITY_PRODUCTION'', 12), 
     (''ACTION_SPY_SABOTAGE_CITY_PRODUCTION_ESC'', 13), (''ACTION_SPY_STEAL_TECH'', 14), 
     (''ACTION_SPY_STEAL_TECH_ESC'', 15), (''ACTION_SPY_TARGETED_STEAL_TECH'', 16), 
     (''ACTION_SPY_TARGETED_STEAL_TECH_ESC'', 17), (''ACTION_SPY_INCITE_CITY'', 18), 
     (''ACTION_SPY_INCITE_CITY_ESC'', 19), (''ACTION_TRADE_ROUTE'', 20), 
     (''ACTION_MARKETPLACE'', 21), (''ACTION_HELP_WONDER'', 22), 
     (''ACTION_SPY_BRIBE_UNIT'', 23), (''ACTION_CAPTURE_UNITS'', 24), 
     (''ACTION_SPY_SABOTAGE_UNIT'', 25), (''ACTION_SPY_SABOTAGE_UNIT_ESC'', 26), 
     (''ACTION_FOUND_CITY'', 27), (''ACTION_JOIN_CITY'', 28), (''ACTION_STEAL_MAPS'', 29), 
     (''ACTION_STEAL_MAPS_ESC'', 30), (''ACTION_SPY_NUKE'', 31), (''ACTION_SPY_NUKE_ESC'', 32), 
     (''ACTION_NUKE'', 33), (''ACTION_NUKE_CITY'', 34), (''ACTION_NUKE_UNITS'', 35), 
     (''ACTION_DESTROY_CITY'', 36), (''ACTION_EXPEL_UNIT'', 37), (''ACTION_RECYCLE_UNIT'', 38), 
     (''ACTION_DISBAND_UNIT'', 39), (''ACTION_HOME_CITY'', 40), (''ACTION_HOMELESS'', 41), 
     (''ACTION_UPGRADE_UNIT'', 42), (''ACTION_CONVERT'', 43), (''ACTION_AIRLIFT'', 44), 
     (''ACTION_ATTACK'', 45), (''ACTION_SUICIDE_ATTACK'', 46), (''ACTION_STRIKE_BUILDING'', 47), 
     (''ACTION_STRIKE_PRODUCTION'', 48), (''ACTION_CONQUER_CITY'', 49), 
     (''ACTION_CONQUER_CITY2'', 50), (''ACTION_CONQUER_CITY3'', 51), 
     (''ACTION_CONQUER_CITY4'', 52), (''ACTION_BOMBARD'', 53), (''ACTION_BOMBARD2'', 54), 
     (''ACTION_BOMBARD3'', 55), (''ACTION_BOMBARD_LETHAL'', 56), (''ACTION_FORTIFY'', 57), 
     (''ACTION_CULTIVATE'', 58), (''ACTION_PLANT'', 59), (''ACTION_TRANSFORM_TERRAIN'', 60), 
     (''ACTION_ROAD'', 61), (''ACTION_IRRIGATE'', 62), (''ACTION_MINE'', 63), 
     (''ACTION_BASE'', 64), (''ACTION_PILLAGE'', 65), (''ACTION_CLEAN_POLLUTION'', 66), 
     (''ACTION_CLEAN_FALLOUT'', 67), (''ACTION_TRANSPORT_BOARD'', 68), 
     (''ACTION_TRANSPORT_BOARD2'', 69), (''ACTION_TRANSPORT_BOARD3'', 70), 
     (''ACTION_TRANSPORT_DEBOARD'', 71), (''ACTION_TRANSPORT_EMBARK'', 72), 
     (''ACTION_TRANSPORT_EMBARK2'', 73), (''ACTION_TRANSPORT_EMBARK3'', 74), 
     (''ACTION_TRANSPORT_EMBARK4'', 75), (''ACTION_TRANSPORT_DISEMBARK1'', 76), 
     (''ACTION_TRANSPORT_DISEMBARK2'', 77), (''ACTION_TRANSPORT_DISEMBARK3'', 78), 
     (''ACTION_TRANSPORT_DISEMBARK4'', 79), (''ACTION_TRANSPORT_LOAD'', 80), 
     (''ACTION_TRANSPORT_LOAD2'', 81), (''ACTION_TRANSPORT_LOAD3'', 82), 
     (''ACTION_TRANSPORT_UNLOAD'', 83), (''ACTION_SPY_SPREAD_PLAGUE'', 84), 
     (''ACTION_SPY_ATTACK'', 85), (''ACTION_CONQUER_EXTRAS'', 86), 
     (''ACTION_CONQUER_EXTRAS2'', 87), (''ACTION_CONQUER_EXTRAS3'', 88), 
     (''ACTION_CONQUER_EXTRAS4'', 89), (''ACTION_HUT_ENTER'', 90), (''ACTION_HUT_ENTER2'', 91), 
     (''ACTION_HUT_ENTER3'', 92), (''ACTION_HUT_ENTER4'', 93), (''ACTION_HUT_FRIGHTEN'', 94), 
     (''ACTION_HUT_FRIGHTEN2'', 95), (''ACTION_HUT_FRIGHTEN3'', 96), 
     (''ACTION_HUT_FRIGHTEN4'', 97), (''ACTION_HEAL_UNIT'', 98), (''ACTION_HEAL_UNIT2'', 99), 
     (''ACTION_PARADROP'', 100), (''ACTION_PARADROP_CONQUER'', 101), 
     (''ACTION_PARADROP_FRIGHTEN'', 102), (''ACTION_PARADROP_FRIGHTEN_CONQUER'', 103), 
     (''ACTION_PARADROP_ENTER'', 104), (''ACTION_PARADROP_ENTER_CONQUER'', 105), 
     (''ACTION_WIPE_UNITS'', 106), (''ACTION_SPY_ESCAPE'', 107), (''ACTION_UNIT_MOVE'', 108), 
     (''ACTION_UNIT_MOVE2'', 109), (''ACTION_UNIT_MOVE3'', 110), (''ACTION_CLEAN'', 111), 
     (''ACTION_USER_ACTION1'', 112), (''ACTION_USER_ACTION2'', 113), 
     (''ACTION_USER_ACTION3'', 114), (''ACTION_USER_ACTION4'', 115)]"

definition fc_universals :: "(string \<times> int) list" where
  "fc_universals =
    [(''VUT_NONE'', 0), (''VUT_ADVANCE'', 1), (''VUT_GOVERNMENT'', 2), (''VUT_IMPROVEMENT'', 3), 
     (''VUT_TERRAIN'', 4), (''VUT_NATION'', 5), (''VUT_UTYPE'', 6), (''VUT_UTFLAG'', 7), 
     (''VUT_UCLASS'', 8), (''VUT_UCFLAG'', 9), (''VUT_OTYPE'', 10), (''VUT_SPECIALIST'', 11), 
     (''VUT_MINSIZE'', 12), (''VUT_AI_LEVEL'', 13), (''VUT_TERRAINCLASS'', 14), 
     (''VUT_MINYEAR'', 15), (''VUT_TERRAINALTER'', 16), (''VUT_CITYTILE'', 17), 
     (''VUT_GOOD'', 18), (''VUT_TERRFLAG'', 19), (''VUT_NATIONALITY'', 20), 
     (''VUT_ROADFLAG'', 21), (''VUT_EXTRA'', 22), (''VUT_TECHFLAG'', 23), 
     (''VUT_ACHIEVEMENT'', 24), (''VUT_DIPLREL'', 25), (''VUT_MAXTILEUNITS'', 26), 
     (''VUT_STYLE'', 27), (''VUT_MINCULTURE'', 28), (''VUT_UNITSTATE'', 29), 
     (''VUT_MINMOVES'', 30), (''VUT_MINVETERAN'', 31), (''VUT_MINHP'', 32), (''VUT_AGE'', 33), 
     (''VUT_NATIONGROUP'', 34), (''VUT_TOPO'', 35), (''VUT_IMPR_GENUS'', 36), 
     (''VUT_ACTION'', 37), (''VUT_MINTECHS'', 38), (''VUT_EXTRAFLAG'', 39), 
     (''VUT_MINCALFRAG'', 40), (''VUT_SERVERSETTING'', 41), (''VUT_CITYSTATUS'', 42), 
     (''VUT_MINFOREIGNPCT'', 43), (''VUT_ACTIVITY'', 44), (''VUT_DIPLREL_TILE'', 45), 
     (''VUT_DIPLREL_TILE_O'', 46), (''VUT_DIPLREL_UNITANY'', 47), 
     (''VUT_DIPLREL_UNITANY_O'', 48)]"

definition fc_act_targets :: "(string \<times> int) list" where
  "fc_act_targets =
    [(''ATK_CITY'', 0), (''ATK_UNIT'', 1), (''ATK_UNITS'', 2), (''ATK_TILE'', 3), 
     (''ATK_EXTRAS'', 4), (''ATK_SELF'', 5)]"

definition fc_extra_causes :: "(string \<times> int) list" where
  "fc_extra_causes =
    [(''EC_IRRIGATION'', 0), (''EC_MINE'', 1), (''EC_ROAD'', 2), (''EC_BASE'', 3), 
     (''EC_POLLUTION'', 4), (''EC_FALLOUT'', 5), (''EC_HUT'', 6), (''EC_APPEARANCE'', 7), 
     (''EC_RESOURCE'', 8)]"

definition fc_table_ok :: "(string \<times> int) list \<Rightarrow> int \<Rightarrow> bool" where
  "fc_table_ok t n \<longleftrightarrow> map snd t = map int [0..<nat n]"

subsection \<open>Names of the constants\<close>

abbreviation (input) TRI_NO :: int where "TRI_NO \<equiv> 0"
abbreviation (input) TRI_YES :: int where "TRI_YES \<equiv> 1"
abbreviation (input) TRI_MAYBE :: int where "TRI_MAYBE \<equiv> 2"
abbreviation (input) MAX_NUM_ITEMS :: int where "MAX_NUM_ITEMS \<equiv> 200"
abbreviation (input) MAX_NUM_ADVANCES :: int where "MAX_NUM_ADVANCES \<equiv> 250"
abbreviation (input) MAX_NUM_UNITS :: int where "MAX_NUM_UNITS \<equiv> 250"
abbreviation (input) MAX_NUM_BUILDINGS :: int where "MAX_NUM_BUILDINGS \<equiv> 200"
abbreviation (input) MAX_EXTRA_TYPES :: int where "MAX_EXTRA_TYPES \<equiv> 128"
abbreviation (input) MAX_LEN_NAME :: int where "MAX_LEN_NAME \<equiv> 48"
abbreviation (input) MAX_LEN_CITYNAME :: int where "MAX_LEN_CITYNAME \<equiv> 50"
abbreviation (input) ACTIVITY_IDLE :: int where "ACTIVITY_IDLE \<equiv> 0"
abbreviation (input) ACTIVITY_POLLUTION :: int where "ACTIVITY_POLLUTION \<equiv> 1"
abbreviation (input) ACTIVITY_MINE :: int where "ACTIVITY_MINE \<equiv> 2"
abbreviation (input) ACTIVITY_IRRIGATE :: int where "ACTIVITY_IRRIGATE \<equiv> 3"
abbreviation (input) ACTIVITY_FORTIFIED :: int where "ACTIVITY_FORTIFIED \<equiv> 4"
abbreviation (input) ACTIVITY_SENTRY :: int where "ACTIVITY_SENTRY \<equiv> 5"
abbreviation (input) ACTIVITY_PILLAGE :: int where "ACTIVITY_PILLAGE \<equiv> 6"
abbreviation (input) ACTIVITY_GOTO :: int where "ACTIVITY_GOTO \<equiv> 7"
abbreviation (input) ACTIVITY_EXPLORE :: int where "ACTIVITY_EXPLORE \<equiv> 8"
abbreviation (input) ACTIVITY_TRANSFORM :: int where "ACTIVITY_TRANSFORM \<equiv> 9"
abbreviation (input) ACTIVITY_FORTIFYING :: int where "ACTIVITY_FORTIFYING \<equiv> 10"
abbreviation (input) ACTIVITY_FALLOUT :: int where "ACTIVITY_FALLOUT \<equiv> 11"
abbreviation (input) ACTIVITY_BASE :: int where "ACTIVITY_BASE \<equiv> 12"
abbreviation (input) ACTIVITY_GEN_ROAD :: int where "ACTIVITY_GEN_ROAD \<equiv> 13"
abbreviation (input) ACTIVITY_CONVERT :: int where "ACTIVITY_CONVERT \<equiv> 14"
abbreviation (input) ACTIVITY_CULTIVATE :: int where "ACTIVITY_CULTIVATE \<equiv> 15"
abbreviation (input) ACTIVITY_PLANT :: int where "ACTIVITY_PLANT \<equiv> 16"
abbreviation (input) ACTIVITY_CLEAN :: int where "ACTIVITY_CLEAN \<equiv> 17"
abbreviation (input) ACTIVITY_LAST :: int where "ACTIVITY_LAST \<equiv> 18"
abbreviation (input) ACTRES_ESTABLISH_EMBASSY :: int where "ACTRES_ESTABLISH_EMBASSY \<equiv> 0"
abbreviation (input) ACTRES_SPY_INVESTIGATE_CITY :: int where "ACTRES_SPY_INVESTIGATE_CITY \<equiv> 1"
abbreviation (input) ACTRES_SPY_POISON :: int where "ACTRES_SPY_POISON \<equiv> 2"
abbreviation (input) ACTRES_SPY_STEAL_GOLD :: int where "ACTRES_SPY_STEAL_GOLD \<equiv> 3"
abbreviation (input) ACTRES_SPY_SABOTAGE_CITY :: int where "ACTRES_SPY_SABOTAGE_CITY \<equiv> 4"
abbreviation (input) ACTRES_SPY_TARGETED_SABOTAGE_CITY :: int where "ACTRES_SPY_TARGETED_SABOTAGE_CITY \<equiv> 5"
abbreviation (input) ACTRES_SPY_SABOTAGE_CITY_PRODUCTION :: int where "ACTRES_SPY_SABOTAGE_CITY_PRODUCTION \<equiv> 6"
abbreviation (input) ACTRES_SPY_STEAL_TECH :: int where "ACTRES_SPY_STEAL_TECH \<equiv> 7"
abbreviation (input) ACTRES_SPY_TARGETED_STEAL_TECH :: int where "ACTRES_SPY_TARGETED_STEAL_TECH \<equiv> 8"
abbreviation (input) ACTRES_SPY_INCITE_CITY :: int where "ACTRES_SPY_INCITE_CITY \<equiv> 9"
abbreviation (input) ACTRES_TRADE_ROUTE :: int where "ACTRES_TRADE_ROUTE \<equiv> 10"
abbreviation (input) ACTRES_MARKETPLACE :: int where "ACTRES_MARKETPLACE \<equiv> 11"
abbreviation (input) ACTRES_HELP_WONDER :: int where "ACTRES_HELP_WONDER \<equiv> 12"
abbreviation (input) ACTRES_SPY_BRIBE_UNIT :: int where "ACTRES_SPY_BRIBE_UNIT \<equiv> 13"
abbreviation (input) ACTRES_SPY_SABOTAGE_UNIT :: int where "ACTRES_SPY_SABOTAGE_UNIT \<equiv> 14"
abbreviation (input) ACTRES_CAPTURE_UNITS :: int where "ACTRES_CAPTURE_UNITS \<equiv> 15"
abbreviation (input) ACTRES_FOUND_CITY :: int where "ACTRES_FOUND_CITY \<equiv> 16"
abbreviation (input) ACTRES_JOIN_CITY :: int where "ACTRES_JOIN_CITY \<equiv> 17"
abbreviation (input) ACTRES_STEAL_MAPS :: int where "ACTRES_STEAL_MAPS \<equiv> 18"
abbreviation (input) ACTRES_BOMBARD :: int where "ACTRES_BOMBARD \<equiv> 19"
abbreviation (input) ACTRES_SPY_NUKE :: int where "ACTRES_SPY_NUKE \<equiv> 20"
abbreviation (input) ACTRES_NUKE :: int where "ACTRES_NUKE \<equiv> 21"
abbreviation (input) ACTRES_NUKE_UNITS :: int where "ACTRES_NUKE_UNITS \<equiv> 22"
abbreviation (input) ACTRES_DESTROY_CITY :: int where "ACTRES_DESTROY_CITY \<equiv> 23"
abbreviation (input) ACTRES_EXPEL_UNIT :: int where "ACTRES_EXPEL_UNIT \<equiv> 24"
abbreviation (input) ACTRES_RECYCLE_UNIT :: int where "ACTRES_RECYCLE_UNIT \<equiv> 25"
abbreviation (input) ACTRES_DISBAND_UNIT :: int where "ACTRES_DISBAND_UNIT \<equiv> 26"
abbreviation (input) ACTRES_HOME_CITY :: int where "ACTRES_HOME_CITY \<equiv> 27"
abbreviation (input) ACTRES_UPGRADE_UNIT :: int where "ACTRES_UPGRADE_UNIT \<equiv> 28"
abbreviation (input) ACTRES_PARADROP :: int where "ACTRES_PARADROP \<equiv> 29"
abbreviation (input) ACTRES_AIRLIFT :: int where "ACTRES_AIRLIFT \<equiv> 30"
abbreviation (input) ACTRES_ATTACK :: int where "ACTRES_ATTACK \<equiv> 31"
abbreviation (input) ACTRES_STRIKE_BUILDING :: int where "ACTRES_STRIKE_BUILDING \<equiv> 32"
abbreviation (input) ACTRES_STRIKE_PRODUCTION :: int where "ACTRES_STRIKE_PRODUCTION \<equiv> 33"
abbreviation (input) ACTRES_CONQUER_CITY :: int where "ACTRES_CONQUER_CITY \<equiv> 34"
abbreviation (input) ACTRES_HEAL_UNIT :: int where "ACTRES_HEAL_UNIT \<equiv> 35"
abbreviation (input) ACTRES_TRANSFORM_TERRAIN :: int where "ACTRES_TRANSFORM_TERRAIN \<equiv> 36"
abbreviation (input) ACTRES_CULTIVATE :: int where "ACTRES_CULTIVATE \<equiv> 37"
abbreviation (input) ACTRES_PLANT :: int where "ACTRES_PLANT \<equiv> 38"
abbreviation (input) ACTRES_PILLAGE :: int where "ACTRES_PILLAGE \<equiv> 39"
abbreviation (input) ACTRES_FORTIFY :: int where "ACTRES_FORTIFY \<equiv> 40"
abbreviation (input) ACTRES_ROAD :: int where "ACTRES_ROAD \<equiv> 41"
abbreviation (input) ACTRES_CONVERT :: int where "ACTRES_CONVERT \<equiv> 42"
abbreviation (input) ACTRES_BASE :: int where "ACTRES_BASE \<equiv> 43"
abbreviation (input) ACTRES_MINE :: int where "ACTRES_MINE \<equiv> 44"
abbreviation (input) ACTRES_IRRIGATE :: int where "ACTRES_IRRIGATE \<equiv> 45"
abbreviation (input) ACTRES_CLEAN_POLLUTION :: int where "ACTRES_CLEAN_POLLUTION \<equiv> 46"
abbreviation (input) ACTRES_CLEAN_FALLOUT :: int where "ACTRES_CLEAN_FALLOUT \<equiv> 47"
abbreviation (input) ACTRES_TRANSPORT_DEBOARD :: int where "ACTRES_TRANSPORT_DEBOARD \<equiv> 48"
abbreviation (input) ACTRES_TRANSPORT_UNLOAD :: int where "ACTRES_TRANSPORT_UNLOAD \<equiv> 49"
abbreviation (input) ACTRES_TRANSPORT_DISEMBARK :: int where "ACTRES_TRANSPORT_DISEMBARK \<equiv> 50"
abbreviation (input) ACTRES_TRANSPORT_BOARD :: int where "ACTRES_TRANSPORT_BOARD \<equiv> 51"
abbreviation (input) ACTRES_TRANSPORT_EMBARK :: int where "ACTRES_TRANSPORT_EMBARK \<equiv> 52"
abbreviation (input) ACTRES_SPY_SPREAD_PLAGUE :: int where "ACTRES_SPY_SPREAD_PLAGUE \<equiv> 53"
abbreviation (input) ACTRES_SPY_ATTACK :: int where "ACTRES_SPY_ATTACK \<equiv> 54"
abbreviation (input) ACTRES_CONQUER_EXTRAS :: int where "ACTRES_CONQUER_EXTRAS \<equiv> 55"
abbreviation (input) ACTRES_HUT_ENTER :: int where "ACTRES_HUT_ENTER \<equiv> 56"
abbreviation (input) ACTRES_HUT_FRIGHTEN :: int where "ACTRES_HUT_FRIGHTEN \<equiv> 57"
abbreviation (input) ACTRES_UNIT_MOVE :: int where "ACTRES_UNIT_MOVE \<equiv> 58"
abbreviation (input) ACTRES_PARADROP_CONQUER :: int where "ACTRES_PARADROP_CONQUER \<equiv> 59"
abbreviation (input) ACTRES_HOMELESS :: int where "ACTRES_HOMELESS \<equiv> 60"
abbreviation (input) ACTRES_WIPE_UNITS :: int where "ACTRES_WIPE_UNITS \<equiv> 61"
abbreviation (input) ACTRES_SPY_ESCAPE :: int where "ACTRES_SPY_ESCAPE \<equiv> 62"
abbreviation (input) ACTRES_TRANSPORT_LOAD :: int where "ACTRES_TRANSPORT_LOAD \<equiv> 63"
abbreviation (input) ACTRES_CLEAN :: int where "ACTRES_CLEAN \<equiv> 64"
abbreviation (input) ACTRES_TELEPORT :: int where "ACTRES_TELEPORT \<equiv> 65"
abbreviation (input) ACTRES_ENABLER_CHECK :: int where "ACTRES_ENABLER_CHECK \<equiv> 66"
abbreviation (input) ACTRES_NONE :: int where "ACTRES_NONE \<equiv> 67"
abbreviation (input) ACT_SUB_RES_HUT_ENTER :: int where "ACT_SUB_RES_HUT_ENTER \<equiv> 0"
abbreviation (input) ACT_SUB_RES_HUT_FRIGHTEN :: int where "ACT_SUB_RES_HUT_FRIGHTEN \<equiv> 1"
abbreviation (input) ACT_SUB_RES_MAY_EMBARK :: int where "ACT_SUB_RES_MAY_EMBARK \<equiv> 2"
abbreviation (input) ACT_SUB_RES_NON_LETHAL :: int where "ACT_SUB_RES_NON_LETHAL \<equiv> 3"
abbreviation (input) ACT_SUB_RES_COUNT :: int where "ACT_SUB_RES_COUNT \<equiv> 4"
abbreviation (input) IDENTITY_NUMBER_ZERO :: int where "IDENTITY_NUMBER_ZERO \<equiv> 0"
abbreviation (input) ATK_CITY :: int where "ATK_CITY \<equiv> 0"
abbreviation (input) ATK_UNIT :: int where "ATK_UNIT \<equiv> 1"
abbreviation (input) ATK_UNITS :: int where "ATK_UNITS \<equiv> 2"
abbreviation (input) ATK_TILE :: int where "ATK_TILE \<equiv> 3"
abbreviation (input) ATK_EXTRAS :: int where "ATK_EXTRAS \<equiv> 4"
abbreviation (input) ATK_SELF :: int where "ATK_SELF \<equiv> 5"
abbreviation (input) ATK_COUNT :: int where "ATK_COUNT \<equiv> 6"
abbreviation (input) ASTK_NONE :: int where "ASTK_NONE \<equiv> 0"
abbreviation (input) ASTK_BUILDING :: int where "ASTK_BUILDING \<equiv> 1"
abbreviation (input) ASTK_TECH :: int where "ASTK_TECH \<equiv> 2"
abbreviation (input) ASTK_EXTRA :: int where "ASTK_EXTRA \<equiv> 3"
abbreviation (input) ASTK_EXTRA_NOT_THERE :: int where "ASTK_EXTRA_NOT_THERE \<equiv> 4"
abbreviation (input) ASTK_COUNT :: int where "ASTK_COUNT \<equiv> 5"
abbreviation (input) ACTION_ESTABLISH_EMBASSY :: int where "ACTION_ESTABLISH_EMBASSY \<equiv> 0"
abbreviation (input) ACTION_ESTABLISH_EMBASSY_STAY :: int where "ACTION_ESTABLISH_EMBASSY_STAY \<equiv> 1"
abbreviation (input) ACTION_SPY_INVESTIGATE_CITY :: int where "ACTION_SPY_INVESTIGATE_CITY \<equiv> 2"
abbreviation (input) ACTION_INV_CITY_SPEND :: int where "ACTION_INV_CITY_SPEND \<equiv> 3"
abbreviation (input) ACTION_SPY_POISON :: int where "ACTION_SPY_POISON \<equiv> 4"
abbreviation (input) ACTION_SPY_POISON_ESC :: int where "ACTION_SPY_POISON_ESC \<equiv> 5"
abbreviation (input) ACTION_SPY_STEAL_GOLD :: int where "ACTION_SPY_STEAL_GOLD \<equiv> 6"
abbreviation (input) ACTION_SPY_STEAL_GOLD_ESC :: int where "ACTION_SPY_STEAL_GOLD_ESC \<equiv> 7"
abbreviation (input) ACTION_SPY_SABOTAGE_CITY :: int where "ACTION_SPY_SABOTAGE_CITY \<equiv> 8"
abbreviation (input) ACTION_SPY_SABOTAGE_CITY_ESC :: int where "ACTION_SPY_SABOTAGE_CITY_ESC \<equiv> 9"
abbreviation (input) ACTION_SPY_TARGETED_SABOTAGE_CITY :: int where "ACTION_SPY_TARGETED_SABOTAGE_CITY \<equiv> 10"
abbreviation (input) ACTION_SPY_TARGETED_SABOTAGE_CITY_ESC :: int where "ACTION_SPY_TARGETED_SABOTAGE_CITY_ESC \<equiv> 11"
abbreviation (input) ACTION_SPY_SABOTAGE_CITY_PRODUCTION :: int where "ACTION_SPY_SABOTAGE_CITY_PRODUCTION \<equiv> 12"
abbreviation (input) ACTION_SPY_SABOTAGE_CITY_PRODUCTION_ESC :: int where "ACTION_SPY_SABOTAGE_CITY_PRODUCTION_ESC \<equiv> 13"
abbreviation (input) ACTION_SPY_STEAL_TECH :: int where "ACTION_SPY_STEAL_TECH \<equiv> 14"
abbreviation (input) ACTION_SPY_STEAL_TECH_ESC :: int where "ACTION_SPY_STEAL_TECH_ESC \<equiv> 15"
abbreviation (input) ACTION_SPY_TARGETED_STEAL_TECH :: int where "ACTION_SPY_TARGETED_STEAL_TECH \<equiv> 16"
abbreviation (input) ACTION_SPY_TARGETED_STEAL_TECH_ESC :: int where "ACTION_SPY_TARGETED_STEAL_TECH_ESC \<equiv> 17"
abbreviation (input) ACTION_SPY_INCITE_CITY :: int where "ACTION_SPY_INCITE_CITY \<equiv> 18"
abbreviation (input) ACTION_SPY_INCITE_CITY_ESC :: int where "ACTION_SPY_INCITE_CITY_ESC \<equiv> 19"
abbreviation (input) ACTION_TRADE_ROUTE :: int where "ACTION_TRADE_ROUTE \<equiv> 20"
abbreviation (input) ACTION_MARKETPLACE :: int where "ACTION_MARKETPLACE \<equiv> 21"
abbreviation (input) ACTION_HELP_WONDER :: int where "ACTION_HELP_WONDER \<equiv> 22"
abbreviation (input) ACTION_SPY_BRIBE_UNIT :: int where "ACTION_SPY_BRIBE_UNIT \<equiv> 23"
abbreviation (input) ACTION_CAPTURE_UNITS :: int where "ACTION_CAPTURE_UNITS \<equiv> 24"
abbreviation (input) ACTION_SPY_SABOTAGE_UNIT :: int where "ACTION_SPY_SABOTAGE_UNIT \<equiv> 25"
abbreviation (input) ACTION_SPY_SABOTAGE_UNIT_ESC :: int where "ACTION_SPY_SABOTAGE_UNIT_ESC \<equiv> 26"
abbreviation (input) ACTION_FOUND_CITY :: int where "ACTION_FOUND_CITY \<equiv> 27"
abbreviation (input) ACTION_JOIN_CITY :: int where "ACTION_JOIN_CITY \<equiv> 28"
abbreviation (input) ACTION_STEAL_MAPS :: int where "ACTION_STEAL_MAPS \<equiv> 29"
abbreviation (input) ACTION_STEAL_MAPS_ESC :: int where "ACTION_STEAL_MAPS_ESC \<equiv> 30"
abbreviation (input) ACTION_SPY_NUKE :: int where "ACTION_SPY_NUKE \<equiv> 31"
abbreviation (input) ACTION_SPY_NUKE_ESC :: int where "ACTION_SPY_NUKE_ESC \<equiv> 32"
abbreviation (input) ACTION_NUKE :: int where "ACTION_NUKE \<equiv> 33"
abbreviation (input) ACTION_NUKE_CITY :: int where "ACTION_NUKE_CITY \<equiv> 34"
abbreviation (input) ACTION_NUKE_UNITS :: int where "ACTION_NUKE_UNITS \<equiv> 35"
abbreviation (input) ACTION_DESTROY_CITY :: int where "ACTION_DESTROY_CITY \<equiv> 36"
abbreviation (input) ACTION_EXPEL_UNIT :: int where "ACTION_EXPEL_UNIT \<equiv> 37"
abbreviation (input) ACTION_RECYCLE_UNIT :: int where "ACTION_RECYCLE_UNIT \<equiv> 38"
abbreviation (input) ACTION_DISBAND_UNIT :: int where "ACTION_DISBAND_UNIT \<equiv> 39"
abbreviation (input) ACTION_HOME_CITY :: int where "ACTION_HOME_CITY \<equiv> 40"
abbreviation (input) ACTION_HOMELESS :: int where "ACTION_HOMELESS \<equiv> 41"
abbreviation (input) ACTION_UPGRADE_UNIT :: int where "ACTION_UPGRADE_UNIT \<equiv> 42"
abbreviation (input) ACTION_CONVERT :: int where "ACTION_CONVERT \<equiv> 43"
abbreviation (input) ACTION_AIRLIFT :: int where "ACTION_AIRLIFT \<equiv> 44"
abbreviation (input) ACTION_ATTACK :: int where "ACTION_ATTACK \<equiv> 45"
abbreviation (input) ACTION_SUICIDE_ATTACK :: int where "ACTION_SUICIDE_ATTACK \<equiv> 46"
abbreviation (input) ACTION_STRIKE_BUILDING :: int where "ACTION_STRIKE_BUILDING \<equiv> 47"
abbreviation (input) ACTION_STRIKE_PRODUCTION :: int where "ACTION_STRIKE_PRODUCTION \<equiv> 48"
abbreviation (input) ACTION_CONQUER_CITY :: int where "ACTION_CONQUER_CITY \<equiv> 49"
abbreviation (input) ACTION_CONQUER_CITY2 :: int where "ACTION_CONQUER_CITY2 \<equiv> 50"
abbreviation (input) ACTION_CONQUER_CITY3 :: int where "ACTION_CONQUER_CITY3 \<equiv> 51"
abbreviation (input) ACTION_CONQUER_CITY4 :: int where "ACTION_CONQUER_CITY4 \<equiv> 52"
abbreviation (input) ACTION_BOMBARD :: int where "ACTION_BOMBARD \<equiv> 53"
abbreviation (input) ACTION_BOMBARD2 :: int where "ACTION_BOMBARD2 \<equiv> 54"
abbreviation (input) ACTION_BOMBARD3 :: int where "ACTION_BOMBARD3 \<equiv> 55"
abbreviation (input) ACTION_BOMBARD_LETHAL :: int where "ACTION_BOMBARD_LETHAL \<equiv> 56"
abbreviation (input) ACTION_FORTIFY :: int where "ACTION_FORTIFY \<equiv> 57"
abbreviation (input) ACTION_CULTIVATE :: int where "ACTION_CULTIVATE \<equiv> 58"
abbreviation (input) ACTION_PLANT :: int where "ACTION_PLANT \<equiv> 59"
abbreviation (input) ACTION_TRANSFORM_TERRAIN :: int where "ACTION_TRANSFORM_TERRAIN \<equiv> 60"
abbreviation (input) ACTION_ROAD :: int where "ACTION_ROAD \<equiv> 61"
abbreviation (input) ACTION_IRRIGATE :: int where "ACTION_IRRIGATE \<equiv> 62"
abbreviation (input) ACTION_MINE :: int where "ACTION_MINE \<equiv> 63"
abbreviation (input) ACTION_BASE :: int where "ACTION_BASE \<equiv> 64"
abbreviation (input) ACTION_PILLAGE :: int where "ACTION_PILLAGE \<equiv> 65"
abbreviation (input) ACTION_CLEAN_POLLUTION :: int where "ACTION_CLEAN_POLLUTION \<equiv> 66"
abbreviation (input) ACTION_CLEAN_FALLOUT :: int where "ACTION_CLEAN_FALLOUT \<equiv> 67"
abbreviation (input) ACTION_TRANSPORT_BOARD :: int where "ACTION_TRANSPORT_BOARD \<equiv> 68"
abbreviation (input) ACTION_TRANSPORT_BOARD2 :: int where "ACTION_TRANSPORT_BOARD2 \<equiv> 69"
abbreviation (input) ACTION_TRANSPORT_BOARD3 :: int where "ACTION_TRANSPORT_BOARD3 \<equiv> 70"
abbreviation (input) ACTION_TRANSPORT_DEBOARD :: int where "ACTION_TRANSPORT_DEBOARD \<equiv> 71"
abbreviation (input) ACTION_TRANSPORT_EMBARK :: int where "ACTION_TRANSPORT_EMBARK \<equiv> 72"
abbreviation (input) ACTION_TRANSPORT_EMBARK2 :: int where "ACTION_TRANSPORT_EMBARK2 \<equiv> 73"
abbreviation (input) ACTION_TRANSPORT_EMBARK3 :: int where "ACTION_TRANSPORT_EMBARK3 \<equiv> 74"
abbreviation (input) ACTION_TRANSPORT_EMBARK4 :: int where "ACTION_TRANSPORT_EMBARK4 \<equiv> 75"
abbreviation (input) ACTION_TRANSPORT_DISEMBARK1 :: int where "ACTION_TRANSPORT_DISEMBARK1 \<equiv> 76"
abbreviation (input) ACTION_TRANSPORT_DISEMBARK2 :: int where "ACTION_TRANSPORT_DISEMBARK2 \<equiv> 77"
abbreviation (input) ACTION_TRANSPORT_DISEMBARK3 :: int where "ACTION_TRANSPORT_DISEMBARK3 \<equiv> 78"
abbreviation (input) ACTION_TRANSPORT_DISEMBARK4 :: int where "ACTION_TRANSPORT_DISEMBARK4 \<equiv> 79"
abbreviation (input) ACTION_TRANSPORT_LOAD :: int where "ACTION_TRANSPORT_LOAD \<equiv> 80"
abbreviation (input) ACTION_TRANSPORT_LOAD2 :: int where "ACTION_TRANSPORT_LOAD2 \<equiv> 81"
abbreviation (input) ACTION_TRANSPORT_LOAD3 :: int where "ACTION_TRANSPORT_LOAD3 \<equiv> 82"
abbreviation (input) ACTION_TRANSPORT_UNLOAD :: int where "ACTION_TRANSPORT_UNLOAD \<equiv> 83"
abbreviation (input) ACTION_SPY_SPREAD_PLAGUE :: int where "ACTION_SPY_SPREAD_PLAGUE \<equiv> 84"
abbreviation (input) ACTION_SPY_ATTACK :: int where "ACTION_SPY_ATTACK \<equiv> 85"
abbreviation (input) ACTION_CONQUER_EXTRAS :: int where "ACTION_CONQUER_EXTRAS \<equiv> 86"
abbreviation (input) ACTION_CONQUER_EXTRAS2 :: int where "ACTION_CONQUER_EXTRAS2 \<equiv> 87"
abbreviation (input) ACTION_CONQUER_EXTRAS3 :: int where "ACTION_CONQUER_EXTRAS3 \<equiv> 88"
abbreviation (input) ACTION_CONQUER_EXTRAS4 :: int where "ACTION_CONQUER_EXTRAS4 \<equiv> 89"
abbreviation (input) ACTION_HUT_ENTER :: int where "ACTION_HUT_ENTER \<equiv> 90"
abbreviation (input) ACTION_HUT_ENTER2 :: int where "ACTION_HUT_ENTER2 \<equiv> 91"
abbreviation (input) ACTION_HUT_ENTER3 :: int where "ACTION_HUT_ENTER3 \<equiv> 92"
abbreviation (input) ACTION_HUT_ENTER4 :: int where "ACTION_HUT_ENTER4 \<equiv> 93"
abbreviation (input) ACTION_HUT_FRIGHTEN :: int where "ACTION_HUT_FRIGHTEN \<equiv> 94"
abbreviation (input) ACTION_HUT_FRIGHTEN2 :: int where "ACTION_HUT_FRIGHTEN2 \<equiv> 95"
abbreviation (input) ACTION_HUT_FRIGHTEN3 :: int where "ACTION_HUT_FRIGHTEN3 \<equiv> 96"
abbreviation (input) ACTION_HUT_FRIGHTEN4 :: int where "ACTION_HUT_FRIGHTEN4 \<equiv> 97"
abbreviation (input) ACTION_HEAL_UNIT :: int where "ACTION_HEAL_UNIT \<equiv> 98"
abbreviation (input) ACTION_HEAL_UNIT2 :: int where "ACTION_HEAL_UNIT2 \<equiv> 99"
abbreviation (input) ACTION_PARADROP :: int where "ACTION_PARADROP \<equiv> 100"
abbreviation (input) ACTION_PARADROP_CONQUER :: int where "ACTION_PARADROP_CONQUER \<equiv> 101"
abbreviation (input) ACTION_PARADROP_FRIGHTEN :: int where "ACTION_PARADROP_FRIGHTEN \<equiv> 102"
abbreviation (input) ACTION_PARADROP_FRIGHTEN_CONQUER :: int where "ACTION_PARADROP_FRIGHTEN_CONQUER \<equiv> 103"
abbreviation (input) ACTION_PARADROP_ENTER :: int where "ACTION_PARADROP_ENTER \<equiv> 104"
abbreviation (input) ACTION_PARADROP_ENTER_CONQUER :: int where "ACTION_PARADROP_ENTER_CONQUER \<equiv> 105"
abbreviation (input) ACTION_WIPE_UNITS :: int where "ACTION_WIPE_UNITS \<equiv> 106"
abbreviation (input) ACTION_SPY_ESCAPE :: int where "ACTION_SPY_ESCAPE \<equiv> 107"
abbreviation (input) ACTION_UNIT_MOVE :: int where "ACTION_UNIT_MOVE \<equiv> 108"
abbreviation (input) ACTION_UNIT_MOVE2 :: int where "ACTION_UNIT_MOVE2 \<equiv> 109"
abbreviation (input) ACTION_UNIT_MOVE3 :: int where "ACTION_UNIT_MOVE3 \<equiv> 110"
abbreviation (input) ACTION_CLEAN :: int where "ACTION_CLEAN \<equiv> 111"
abbreviation (input) ACTION_USER_ACTION1 :: int where "ACTION_USER_ACTION1 \<equiv> 112"
abbreviation (input) ACTION_USER_ACTION2 :: int where "ACTION_USER_ACTION2 \<equiv> 113"
abbreviation (input) ACTION_USER_ACTION3 :: int where "ACTION_USER_ACTION3 \<equiv> 114"
abbreviation (input) ACTION_USER_ACTION4 :: int where "ACTION_USER_ACTION4 \<equiv> 115"
abbreviation (input) ACTION_COUNT :: int where "ACTION_COUNT \<equiv> 116"
abbreviation (input) ACT_DEC_NOTHING :: int where "ACT_DEC_NOTHING \<equiv> 0"
abbreviation (input) ACT_DEC_PASSIVE :: int where "ACT_DEC_PASSIVE \<equiv> 1"
abbreviation (input) ACT_DEC_ACTIVE :: int where "ACT_DEC_ACTIVE \<equiv> 2"
abbreviation (input) VUT_NONE :: int where "VUT_NONE \<equiv> 0"
abbreviation (input) VUT_ADVANCE :: int where "VUT_ADVANCE \<equiv> 1"
abbreviation (input) VUT_GOVERNMENT :: int where "VUT_GOVERNMENT \<equiv> 2"
abbreviation (input) VUT_IMPROVEMENT :: int where "VUT_IMPROVEMENT \<equiv> 3"
abbreviation (input) VUT_TERRAIN :: int where "VUT_TERRAIN \<equiv> 4"
abbreviation (input) VUT_NATION :: int where "VUT_NATION \<equiv> 5"
abbreviation (input) VUT_UTYPE :: int where "VUT_UTYPE \<equiv> 6"
abbreviation (input) VUT_UTFLAG :: int where "VUT_UTFLAG \<equiv> 7"
abbreviation (input) VUT_UCLASS :: int where "VUT_UCLASS \<equiv> 8"
abbreviation (input) VUT_UCFLAG :: int where "VUT_UCFLAG \<equiv> 9"
abbreviation (input) VUT_OTYPE :: int where "VUT_OTYPE \<equiv> 10"
abbreviation (input) VUT_SPECIALIST :: int where "VUT_SPECIALIST \<equiv> 11"
abbreviation (input) VUT_MINSIZE :: int where "VUT_MINSIZE \<equiv> 12"
abbreviation (input) VUT_AI_LEVEL :: int where "VUT_AI_LEVEL \<equiv> 13"
abbreviation (input) VUT_TERRAINCLASS :: int where "VUT_TERRAINCLASS \<equiv> 14"
abbreviation (input) VUT_MINYEAR :: int where "VUT_MINYEAR \<equiv> 15"
abbreviation (input) VUT_TERRAINALTER :: int where "VUT_TERRAINALTER \<equiv> 16"
abbreviation (input) VUT_CITYTILE :: int where "VUT_CITYTILE \<equiv> 17"
abbreviation (input) VUT_GOOD :: int where "VUT_GOOD \<equiv> 18"
abbreviation (input) VUT_TERRFLAG :: int where "VUT_TERRFLAG \<equiv> 19"
abbreviation (input) VUT_NATIONALITY :: int where "VUT_NATIONALITY \<equiv> 20"
abbreviation (input) VUT_ROADFLAG :: int where "VUT_ROADFLAG \<equiv> 21"
abbreviation (input) VUT_EXTRA :: int where "VUT_EXTRA \<equiv> 22"
abbreviation (input) VUT_TECHFLAG :: int where "VUT_TECHFLAG \<equiv> 23"
abbreviation (input) VUT_ACHIEVEMENT :: int where "VUT_ACHIEVEMENT \<equiv> 24"
abbreviation (input) VUT_DIPLREL :: int where "VUT_DIPLREL \<equiv> 25"
abbreviation (input) VUT_MAXTILEUNITS :: int where "VUT_MAXTILEUNITS \<equiv> 26"
abbreviation (input) VUT_STYLE :: int where "VUT_STYLE \<equiv> 27"
abbreviation (input) VUT_MINCULTURE :: int where "VUT_MINCULTURE \<equiv> 28"
abbreviation (input) VUT_UNITSTATE :: int where "VUT_UNITSTATE \<equiv> 29"
abbreviation (input) VUT_MINMOVES :: int where "VUT_MINMOVES \<equiv> 30"
abbreviation (input) VUT_MINVETERAN :: int where "VUT_MINVETERAN \<equiv> 31"
abbreviation (input) VUT_MINHP :: int where "VUT_MINHP \<equiv> 32"
abbreviation (input) VUT_AGE :: int where "VUT_AGE \<equiv> 33"
abbreviation (input) VUT_NATIONGROUP :: int where "VUT_NATIONGROUP \<equiv> 34"
abbreviation (input) VUT_TOPO :: int where "VUT_TOPO \<equiv> 35"
abbreviation (input) VUT_IMPR_GENUS :: int where "VUT_IMPR_GENUS \<equiv> 36"
abbreviation (input) VUT_ACTION :: int where "VUT_ACTION \<equiv> 37"
abbreviation (input) VUT_MINTECHS :: int where "VUT_MINTECHS \<equiv> 38"
abbreviation (input) VUT_EXTRAFLAG :: int where "VUT_EXTRAFLAG \<equiv> 39"
abbreviation (input) VUT_MINCALFRAG :: int where "VUT_MINCALFRAG \<equiv> 40"
abbreviation (input) VUT_SERVERSETTING :: int where "VUT_SERVERSETTING \<equiv> 41"
abbreviation (input) VUT_CITYSTATUS :: int where "VUT_CITYSTATUS \<equiv> 42"
abbreviation (input) VUT_MINFOREIGNPCT :: int where "VUT_MINFOREIGNPCT \<equiv> 43"
abbreviation (input) VUT_ACTIVITY :: int where "VUT_ACTIVITY \<equiv> 44"
abbreviation (input) VUT_DIPLREL_TILE :: int where "VUT_DIPLREL_TILE \<equiv> 45"
abbreviation (input) VUT_DIPLREL_TILE_O :: int where "VUT_DIPLREL_TILE_O \<equiv> 46"
abbreviation (input) VUT_DIPLREL_UNITANY :: int where "VUT_DIPLREL_UNITANY \<equiv> 47"
abbreviation (input) VUT_DIPLREL_UNITANY_O :: int where "VUT_DIPLREL_UNITANY_O \<equiv> 48"
abbreviation (input) VUT_COUNT :: int where "VUT_COUNT \<equiv> 49"
abbreviation (input) GUI_STUB :: int where "GUI_STUB \<equiv> 0"
abbreviation (input) GUI_GTK2 :: int where "GUI_GTK2 \<equiv> 1"
abbreviation (input) GUI_GTK3 :: int where "GUI_GTK3 \<equiv> 2"
abbreviation (input) GUI_GTK3_22 :: int where "GUI_GTK3_22 \<equiv> 3"
abbreviation (input) GUI_SDL :: int where "GUI_SDL \<equiv> 4"
abbreviation (input) GUI_QT :: int where "GUI_QT \<equiv> 5"
abbreviation (input) GUI_SDL2 :: int where "GUI_SDL2 \<equiv> 6"
abbreviation (input) GUI_WEB :: int where "GUI_WEB \<equiv> 7"
abbreviation (input) GUI_GTK3x :: int where "GUI_GTK3x \<equiv> 8"
abbreviation (input) RPT_POSSIBLE :: int where "RPT_POSSIBLE \<equiv> 0"
abbreviation (input) RPT_CERTAIN :: int where "RPT_CERTAIN \<equiv> 1"
abbreviation (input) O_FOOD :: int where "O_FOOD \<equiv> 0"
abbreviation (input) O_SHIELD :: int where "O_SHIELD \<equiv> 1"
abbreviation (input) O_TRADE :: int where "O_TRADE \<equiv> 2"
abbreviation (input) O_GOLD :: int where "O_GOLD \<equiv> 3"
abbreviation (input) O_LUXURY :: int where "O_LUXURY \<equiv> 4"
abbreviation (input) O_SCIENCE :: int where "O_SCIENCE \<equiv> 5"
abbreviation (input) V_MAIN :: int where "V_MAIN \<equiv> 0"
abbreviation (input) V_INVIS :: int where "V_INVIS \<equiv> 1"
abbreviation (input) V_SUBSURFACE :: int where "V_SUBSURFACE \<equiv> 2"
abbreviation (input) V_COUNT :: int where "V_COUNT \<equiv> 3"
abbreviation (input) EC_IRRIGATION :: int where "EC_IRRIGATION \<equiv> 0"
abbreviation (input) EC_MINE :: int where "EC_MINE \<equiv> 1"
abbreviation (input) EC_ROAD :: int where "EC_ROAD \<equiv> 2"
abbreviation (input) EC_BASE :: int where "EC_BASE \<equiv> 3"
abbreviation (input) EC_POLLUTION :: int where "EC_POLLUTION \<equiv> 4"
abbreviation (input) EC_FALLOUT :: int where "EC_FALLOUT \<equiv> 5"
abbreviation (input) EC_HUT :: int where "EC_HUT \<equiv> 6"
abbreviation (input) EC_APPEARANCE :: int where "EC_APPEARANCE \<equiv> 7"
abbreviation (input) EC_RESOURCE :: int where "EC_RESOURCE \<equiv> 8"
abbreviation (input) ERM_PILLAGE :: int where "ERM_PILLAGE \<equiv> 0"
abbreviation (input) ERM_CLEANPOLLUTION :: int where "ERM_CLEANPOLLUTION \<equiv> 1"
abbreviation (input) ERM_CLEANFALLOUT :: int where "ERM_CLEANFALLOUT \<equiv> 2"
abbreviation (input) ERM_DISAPPEARANCE :: int where "ERM_DISAPPEARANCE \<equiv> 3"
abbreviation (input) ERM_CLEAN :: int where "ERM_CLEAN \<equiv> 1"
abbreviation (input) NOT_A_BARBARIAN :: int where "NOT_A_BARBARIAN \<equiv> 0"
abbreviation (input) LAND_BARBARIAN :: int where "LAND_BARBARIAN \<equiv> 1"
abbreviation (input) SEA_BARBARIAN :: int where "SEA_BARBARIAN \<equiv> 2"
abbreviation (input) ANIMAL_BARBARIAN :: int where "ANIMAL_BARBARIAN \<equiv> 3"
abbreviation (input) LAND_AND_SEA_BARBARIAN :: int where "LAND_AND_SEA_BARBARIAN \<equiv> 4"
abbreviation (input) CAPITAL_NOT :: int where "CAPITAL_NOT \<equiv> 0"
abbreviation (input) CAPITAL_SECONDARY :: int where "CAPITAL_SECONDARY \<equiv> 1"
abbreviation (input) CAPITAL_PRIMARY :: int where "CAPITAL_PRIMARY \<equiv> 2"
abbreviation (input) FC_INFINITY :: int where "FC_INFINITY \<equiv> 1000000000"

text \<open>From \<open>map.js\<close>.\<close>

abbreviation (input) DIR8_NORTHWEST :: int where "DIR8_NORTHWEST \<equiv> 0"
abbreviation (input) DIR8_NORTH :: int where "DIR8_NORTH \<equiv> 1"
abbreviation (input) DIR8_NORTHEAST :: int where "DIR8_NORTHEAST \<equiv> 2"
abbreviation (input) DIR8_WEST :: int where "DIR8_WEST \<equiv> 3"
abbreviation (input) DIR8_EAST :: int where "DIR8_EAST \<equiv> 4"
abbreviation (input) DIR8_SOUTHWEST :: int where "DIR8_SOUTHWEST \<equiv> 5"
abbreviation (input) DIR8_SOUTH :: int where "DIR8_SOUTH \<equiv> 6"
abbreviation (input) DIR8_SOUTHEAST :: int where "DIR8_SOUTHEAST \<equiv> 7"
abbreviation (input) WRAP_X :: int where "WRAP_X \<equiv> 1"
abbreviation (input) WRAP_Y :: int where "WRAP_Y \<equiv> 2"
abbreviation (input) TF_ISO :: int where "TF_ISO \<equiv> 1"
abbreviation (input) TF_HEX :: int where "TF_HEX \<equiv> 2"
abbreviation (input) T_UNKNOWN :: int where "T_UNKNOWN \<equiv> 0"

text \<open>From \<open>tile.js\<close>.\<close>

abbreviation (input) TILE_UNKNOWN :: int where "TILE_UNKNOWN \<equiv> 0"
abbreviation (input) TILE_KNOWN_UNSEEN :: int where "TILE_KNOWN_UNSEEN \<equiv> 1"
abbreviation (input) TILE_KNOWN_SEEN :: int where "TILE_KNOWN_SEEN \<equiv> 2"
abbreviation (input) TILE_INDEX_NONE :: int where "TILE_INDEX_NONE \<equiv> -1"

text \<open>From \<open>unit.js\<close>.\<close>

abbreviation (input) ORDER_MOVE :: int where "ORDER_MOVE \<equiv> 0"
abbreviation (input) ORDER_ACTIVITY :: int where "ORDER_ACTIVITY \<equiv> 1"
abbreviation (input) ORDER_FULL_MP :: int where "ORDER_FULL_MP \<equiv> 2"
abbreviation (input) ORDER_ACTION_MOVE :: int where "ORDER_ACTION_MOVE \<equiv> 3"
abbreviation (input) ORDER_PERFORM_ACTION :: int where "ORDER_PERFORM_ACTION \<equiv> 4"
abbreviation (input) ORDER_LAST :: int where "ORDER_LAST \<equiv> 5"
abbreviation (input) ANIM_STEPS :: int where "ANIM_STEPS \<equiv> 6"
abbreviation (input) USSDT_QUEUE :: int where "USSDT_QUEUE \<equiv> 0"
abbreviation (input) USSDT_UNQUEUE :: int where "USSDT_UNQUEUE \<equiv> 1"
abbreviation (input) SSA_NONE :: int where "SSA_NONE \<equiv> 0"
abbreviation (input) SSA_AUTOSETTLER :: int where "SSA_AUTOSETTLER \<equiv> 1"
abbreviation (input) SSA_AUTOEXPLORE :: int where "SSA_AUTOEXPLORE \<equiv> 2"

text \<open>From \<open>player.js\<close>.\<close>

abbreviation (input) DS_ARMISTICE :: int where "DS_ARMISTICE \<equiv> 0"
abbreviation (input) DS_WAR :: int where "DS_WAR \<equiv> 1"
abbreviation (input) DS_CEASEFIRE :: int where "DS_CEASEFIRE \<equiv> 2"
abbreviation (input) DS_PEACE :: int where "DS_PEACE \<equiv> 3"
abbreviation (input) DS_ALLIANCE :: int where "DS_ALLIANCE \<equiv> 4"
abbreviation (input) DS_NO_CONTACT :: int where "DS_NO_CONTACT \<equiv> 5"
abbreviation (input) DS_TEAM :: int where "DS_TEAM \<equiv> 6"
abbreviation (input) DS_LAST :: int where "DS_LAST \<equiv> 7"
abbreviation (input) PLRF_AI :: int where "PLRF_AI \<equiv> 0"
abbreviation (input) MAX_AI_LOVE :: int where "MAX_AI_LOVE \<equiv> 1000"
abbreviation (input) MAX_NUM_PLAYERS :: int where "MAX_NUM_PLAYERS \<equiv> 30"

text \<open>From \<open>packhand.js\<close>.\<close>

abbreviation (input) REQEST_PLAYER_INITIATED :: int where "REQEST_PLAYER_INITIATED \<equiv> 0"
abbreviation (input) REQEST_BACKGROUND_REFRESH :: int where "REQEST_BACKGROUND_REFRESH \<equiv> 1"
abbreviation (input) REQEST_BACKGROUND_FAST_AUTO_ATTACK :: int where "REQEST_BACKGROUND_FAST_AUTO_ATTACK \<equiv> 2"
abbreviation (input) MAX_PENDING_TILE_PACKETS :: int where "MAX_PENDING_TILE_PACKETS \<equiv> 10000"

text \<open>From \<open>requirements.js\<close>.\<close>

abbreviation (input) REQ_RANGE_LOCAL :: int where "REQ_RANGE_LOCAL \<equiv> 0"
abbreviation (input) REQ_RANGE_TILE :: int where "REQ_RANGE_TILE \<equiv> 1"
abbreviation (input) REQ_RANGE_CADJACENT :: int where "REQ_RANGE_CADJACENT \<equiv> 2"
abbreviation (input) REQ_RANGE_ADJACENT :: int where "REQ_RANGE_ADJACENT \<equiv> 3"
abbreviation (input) REQ_RANGE_CITY :: int where "REQ_RANGE_CITY \<equiv> 4"
abbreviation (input) REQ_RANGE_TRADEROUTE :: int where "REQ_RANGE_TRADEROUTE \<equiv> 5"
abbreviation (input) REQ_RANGE_CONTINENT :: int where "REQ_RANGE_CONTINENT \<equiv> 6"
abbreviation (input) REQ_RANGE_PLAYER :: int where "REQ_RANGE_PLAYER \<equiv> 7"
abbreviation (input) REQ_RANGE_TEAM :: int where "REQ_RANGE_TEAM \<equiv> 8"
abbreviation (input) REQ_RANGE_ALLIANCE :: int where "REQ_RANGE_ALLIANCE \<equiv> 9"
abbreviation (input) REQ_RANGE_WORLD :: int where "REQ_RANGE_WORLD \<equiv> 10"
abbreviation (input) REQ_RANGE_COUNT :: int where "REQ_RANGE_COUNT \<equiv> 11"

text \<open>From \<open>extra.js\<close>.\<close>

abbreviation (input) EXTRA_NONE :: int where "EXTRA_NONE \<equiv> -1"

text \<open>From \<open>tech.js\<close>.\<close>

abbreviation (input) TECH_UNKNOWN :: int where "TECH_UNKNOWN \<equiv> 0"
abbreviation (input) TECH_PREREQS_KNOWN :: int where "TECH_PREREQS_KNOWN \<equiv> 1"
abbreviation (input) TECH_KNOWN :: int where "TECH_KNOWN \<equiv> 2"
abbreviation (input) A_NONE :: int where "A_NONE \<equiv> 0"

text \<open>From \<open>client_main.js\<close>.\<close>

abbreviation (input) C_S_INITIAL :: int where "C_S_INITIAL \<equiv> 0"
abbreviation (input) C_S_PREPARING :: int where "C_S_PREPARING \<equiv> 1"
abbreviation (input) C_S_RUNNING :: int where "C_S_RUNNING \<equiv> 2"
abbreviation (input) C_S_OVER :: int where "C_S_OVER \<equiv> 3"

subsection \<open>The tables are contiguous\<close>

lemma fc_table_nth:
  assumes "fc_table_ok t n" and "0 \<le> i" and "i < n"
  shows "\<exists>name. t ! nat i = (name, i) \<and> nat i < length t"
proof -
  from assms have len: "length t = nat n"
    unfolding fc_table_ok_def by (metis diff_zero length_map length_upt)
  with assms have "snd (t ! nat i) = i"
    unfolding fc_table_ok_def
    by (metis add_0 int_nat_eq length_map length_upt nat_less_iff nth_map nth_upt diff_zero
        nat_mono_iff order_le_less_trans)
  with len assms show ?thesis by (metis nat_less_iff nat_mono_iff order_le_less_trans prod.collapse)
qed

text \<open>
   The enumerations the server and the client index by number have no gap and no clash:
  the numbers of the declarations are 0, 1, ... in order, up to the declared count.
\<close>

theorem fc_tables_contiguous:
  "fc_table_ok fc_actions ACTION_COUNT \<and> fc_table_ok fc_activities ACTIVITY_LAST
   \<and> fc_table_ok fc_action_results 68 \<and> fc_table_ok fc_universals VUT_COUNT
   \<and> fc_table_ok fc_act_targets ATK_COUNT"
  by (intro conjI; code_simp)

end
