(* ===== verification/Js_Store.thy ===== *)
theory Js_Store
  imports Prelude
begin

text \<open>
  The dictionaries of the client (\<open>units\<close>, \<open>cities\<close>, \<open>tiles\<close>, \<open>players\<close>, the ruleset
  tables) are JavaScript objects whose property names are ids.  A \<open>for (var k in obj)\<close> loop
  visits such integer names in ascending order, and several functions depend on that order
  (the first city that matches, the list that is returned).  A dictionary is therefore an
  association list that the operations keep in ascending key order: \<open>st_get\<close> reads
  \<open>obj[k]\<close>, \<open>st_put\<close> is \<open>obj[k] = v\<close>, \<open>st_del\<close> is \<open>delete obj[k]\<close>,
  \<open>st_vals\<close> is what a \<open>for-in\<close> loop visits.
  The locale \<open>kv_store\<close> states the contract the components use; its instance \<open>js\<close> is the
  model's own dictionary, and every later proof about a dictionary goes through it.
\<close>

type_synonym 'v store = "(int \<times> 'v) list"

definition st_empty :: "'v store" where
  "st_empty = []"

definition st_get :: "'v store \<Rightarrow> int \<Rightarrow> 'v option" where
  "st_get s k = map_of s k"

fun st_put :: "int \<Rightarrow> 'v \<Rightarrow> 'v store \<Rightarrow> 'v store" where
  "st_put k v [] = [(k, v)]"
| "st_put k v ((k', v') # s) =
     (if k < k' then (k, v) # (k', v') # s
      else if k = k' then (k, v) # s
      else (k', v') # st_put k v s)"

definition st_del :: "int \<Rightarrow> 'v store \<Rightarrow> 'v store" where
  "st_del k s = filter (\<lambda>(k', _). k' \<noteq> k) s"

definition st_keys :: "'v store \<Rightarrow> int list" where
  "st_keys s = map fst s"

definition st_vals :: "'v store \<Rightarrow> 'v list" where
  "st_vals s = map snd s"

definition store_ok :: "'v store \<Rightarrow> bool" where
  "store_ok s = sorted_wrt (<) (st_keys s)"

text \<open>Change the object stored under a key in place; nothing happens for a missing key.\<close>

definition st_upd :: "int \<Rightarrow> ('v \<Rightarrow> 'v) \<Rightarrow> 'v store \<Rightarrow> 'v store" where
  "st_upd k f s = (case st_get s k of None \<Rightarrow> s | Some v \<Rightarrow> st_put k (f v) s)"

definition st_map :: "('v \<Rightarrow> 'v) \<Rightarrow> 'v store \<Rightarrow> 'v store" where
  "st_map f s = map (\<lambda>(k, v). (k, f v)) s"

subsection \<open>The contract\<close>

locale kv_store =
  fixes get :: "'s \<Rightarrow> 'k \<Rightarrow> 'v option"
    and put :: "'k \<Rightarrow> 'v \<Rightarrow> 's \<Rightarrow> 's"
    and del :: "'k \<Rightarrow> 's \<Rightarrow> 's"
    and keys :: "'s \<Rightarrow> 'k list"
    and ok :: "'s \<Rightarrow> bool"
  assumes get_put: "get (put k v s) k' = (if k' = k then Some v else get s k')"
    and get_del: "get (del k s) k' = (if k' = k then None else get s k')"
    and set_keys: "set (keys s) = {k. get s k \<noteq> None}"
    and ok_put: "ok s \<Longrightarrow> ok (put k v s)"
    and ok_del: "ok s \<Longrightarrow> ok (del k s)"
    and ok_distinct: "ok s \<Longrightarrow> distinct (keys s)"
begin

lemma get_put_same [simp]: "get (put k v s) k = Some v"
  by (simp add: get_put)

lemma get_put_other: "k' \<noteq> k \<Longrightarrow> get (put k v s) k' = get s k'"
  by (simp add: get_put)

lemma put_last_wins: "get (put k v (put k w s)) = get (put k v s)"
  by (rule ext) (simp add: get_put)

lemma put_commute: "k \<noteq> k' \<Longrightarrow> get (put k v (put k' w s)) = get (put k' w (put k v s))"
  by (rule ext) (simp add: get_put)

lemma del_put: "get (del k (put k v s)) = get (del k s)"
  by (rule ext) (simp add: get_put get_del)

lemma keys_put: "set (keys (put k v s)) = insert k (set (keys s))"
  by (auto simp: set_keys get_put)

lemma keys_del: "set (keys (del k s)) = set (keys s) - {k}"
  by (auto simp: set_keys get_del)

lemma put_all_get:
  "get (foldl (\<lambda>s (k, v). put k v s) s kvs) k =
     (case map_of (rev kvs) k of None \<Rightarrow> get s k | Some v \<Rightarrow> Some v)"
  by (induction kvs arbitrary: s)
    (auto simp: get_put map_add_def split: option.splits)

lemma ok_put_all: "ok s \<Longrightarrow> ok (foldl (\<lambda>s (k, v). put k v s) s kvs)"
  by (induction kvs arbitrary: s) (auto intro: ok_put)

end

text \<open>A store whose enumeration order is fixed by its contents: ascending keys.\<close>

locale ordered_store = kv_store get put del keys ok
  for get :: "'s \<Rightarrow> 'k::linorder \<Rightarrow> 'v option" and put del keys ok +
  assumes ok_sorted: "ok s \<Longrightarrow> sorted (keys s)"
begin

lemma keys_determined:
  assumes "ok s" and "ok t" and "\<And>k. (get s k = None) = (get t k = None)"
  shows "keys s = keys t"
proof -
  have "set (keys s) = set (keys t)"
    using assms(3) by (auto simp: set_keys)
  then show ?thesis
    using assms(1,2) by (metis ok_distinct ok_sorted sorted_distinct_set_unique)
qed

lemma keys_sorted_list: "ok s \<Longrightarrow> keys s = sorted_list_of_set (set (keys s))"
  by (metis ok_distinct ok_sorted sorted_list_of_set.idem_if_sorted_distinct)

end

subsection \<open>The dictionary of the model\<close>

lemma st_get_put: "st_get (st_put k v s) k' = (if k' = k then Some v else st_get s k')"
  unfolding st_get_def by (induction k v s rule: st_put.induct) auto

lemma st_get_del: "st_get (st_del k s) k' = (if k' = k then None else st_get s k')"
  unfolding st_get_def st_del_def by (induction s) auto

lemma st_keys_put_bound:
  "sorted_wrt (<) (map fst s) \<Longrightarrow> sorted_wrt (<) (map fst (st_put k v s)) \<and>
     set (map fst (st_put k v s)) = insert k (set (map fst s))"
  by (induction k v s rule: st_put.induct) auto

interpretation js: ordered_store st_get st_put st_del st_keys store_ok
proof (unfold_locales, goal_cases)
  case (1 k v s k')
  show ?case by (rule st_get_put)
next
  case (2 k s k')
  show ?case by (rule st_get_del)
next
  case (3 s)
  show ?case
    by (auto simp: st_keys_def st_get_def map_of_eq_None_iff)
next
  case (4 s k v)
  then show ?case
    using st_keys_put_bound [of s k v] by (simp add: store_ok_def st_keys_def)
next
  case (5 s k)
  have "map fst (st_del k s) = filter (\<lambda>k'. k' \<noteq> k) (map fst s)"
    unfolding st_del_def by (induction s) auto
  with 5 show ?case
    by (simp add: store_ok_def st_keys_def sorted_wrt_filter_mono)
next
  case (6 s)
  then show ?case by (simp add: store_ok_def strict_sorted_iff)
next
  case (7 s)
  then show ?case by (simp add: store_ok_def strict_sorted_iff)
qed

lemma store_ok_empty [simp]: "store_ok st_empty"
  by (simp add: store_ok_def st_keys_def st_empty_def)

lemma st_get_empty [simp]: "st_get st_empty k = None"
  by (simp add: st_get_def st_empty_def)

lemma st_get_upd: "st_get (st_upd k f s) k' = (if k' = k then map_option f (st_get s k) else st_get s k')"
  by (auto simp: st_upd_def js.get_put split: option.split)

lemma store_ok_upd: "store_ok s \<Longrightarrow> store_ok (st_upd k f s)"
  by (auto simp: st_upd_def intro: js.ok_put split: option.split)

lemma st_get_map: "st_get (st_map f s) k = map_option f (st_get s k)"
  unfolding st_get_def st_map_def by (induction s) auto

lemma st_keys_map [simp]: "st_keys (st_map f s) = st_keys s"
  by (simp add: st_keys_def st_map_def case_prod_unfold)

lemma store_ok_map [simp]: "store_ok (st_map f s) = store_ok s"
  by (simp add: store_ok_def)

lemma st_vals_map [simp]: "st_vals (st_map f s) = map f (st_vals s)"
  by (simp add: st_vals_def st_map_def case_prod_unfold)

lemma set_st_vals: "store_ok s \<Longrightarrow> set (st_vals s) = {v. \<exists>k. st_get s k = Some v}"
  unfolding st_get_def st_vals_def store_ok_def st_keys_def
  by (force simp: strict_sorted_iff image_iff intro: map_of_is_SomeI dest: map_of_SomeD)

lemma st_vals_getI: "st_get s k = Some v \<Longrightarrow> v \<in> set (st_vals s)"
  by (force simp: st_get_def st_vals_def dest: map_of_SomeD)

lemmas store_simps = st_get_put st_get_del st_get_upd st_get_map

end
