(* ===== verification/Bit_Vector.thy ===== *)
theory Bit_Vector
  imports Js_Store
begin

unbundle bit_operations_syntax

text \<open>
  \<open>bitvector.js\<close>: a set of small numbers packed in the bytes of an array, as the server
  sends it.  The array is the dictionary of its elements (JavaScript's own view of an array):
  a byte that is missing reads as \<open>undefined\<close>, which the bit operators take as 0, and a
  write past the end extends the array, leaving holes.  The bit operators work on 32 bits.
\<close>

type_synonym bitvector = "32 word store"

text \<open>\<open>new BitVector(raw)\<close> on an array of bytes.\<close>

definition BitVector :: "32 word list \<Rightarrow> bitvector" where
  "BitVector raw = zip (map int [0..<length raw]) raw"

text \<open>\<open>raw[i]\<close> as an operand of a bit operator.\<close>

definition bv_byte :: "bitvector \<Rightarrow> int \<Rightarrow> 32 word" where
  "bv_byte raw i = (case st_get raw i of None \<Rightarrow> 0 | Some b \<Rightarrow> b)"

text \<open>\<open>1 << (bitNumber % 8)\<close>: a shift uses the low five bits of its count.\<close>

definition bv_mask :: "int \<Rightarrow> 32 word" where
  "bv_mask n = push_bit (nat (js_rem n 8 mod 32)) 1"

definition bv_isSet :: "bitvector \<Rightarrow> int \<Rightarrow> bool" where
  "bv_isSet raw n = ((bv_byte raw (n div 8) AND bv_mask n) \<noteq> 0)"

definition bv_set :: "int \<Rightarrow> bitvector \<Rightarrow> bitvector" where
  "bv_set n raw = (let byteNumber = n div 8 in
     st_put byteNumber (bv_byte raw byteNumber OR bv_mask n) raw)"

definition bv_unset :: "int \<Rightarrow> bitvector \<Rightarrow> bitvector" where
  "bv_unset n raw = (let byteNumber = n div 8 in
     st_put byteNumber (bv_byte raw byteNumber AND NOT (bv_mask n)) raw)"

text \<open>\<open>raw.length\<close>: one more than the largest array index.\<close>

definition bv_length :: "bitvector \<Rightarrow> nat" where
  "bv_length raw = (case filter (\<lambda>k. 0 \<le> k) (st_keys raw) of
     [] \<Rightarrow> 0 | ks \<Rightarrow> nat (last ks) + 1)"

definition bv_toString :: "bitvector \<Rightarrow> string" where
  "bv_toString raw =
     map (\<lambda>i. if bv_isSet raw (int i) then CHR ''1'' else CHR ''0'') [0..<bv_length raw * 8]"

definition bv_toBitSet :: "bitvector \<Rightarrow> int list" where
  "bv_toBitSet raw = filter (bv_isSet raw) (map int [0..<bv_length raw * 8])"

subsection \<open>The contract of a set of flags\<close>

locale flag_set =
  fixes has :: "'s \<Rightarrow> 'n \<Rightarrow> bool"
    and add :: "'n \<Rightarrow> 's \<Rightarrow> 's"
    and rem :: "'n \<Rightarrow> 's \<Rightarrow> 's"
    and valid :: "'n \<Rightarrow> bool"
  assumes has_add: "valid n \<Longrightarrow> valid m \<Longrightarrow> has (add n s) m = (m = n \<or> has s m)"
    and has_rem: "valid n \<Longrightarrow> valid m \<Longrightarrow> has (rem n s) m = (m \<noteq> n \<and> has s m)"
begin

definition flags :: "'s \<Rightarrow> 'n set" where
  "flags s = {n. valid n \<and> has s n}"

lemma flags_add: "valid n \<Longrightarrow> flags (add n s) = insert n (flags s)"
  by (auto simp: flags_def has_add)

lemma flags_rem: "valid n \<Longrightarrow> flags (rem n s) = flags s - {n}"
  by (auto simp: flags_def has_rem)

lemma flags_add_all: "(\<And>n. n \<in> set ns \<Longrightarrow> valid n) \<Longrightarrow>
    flags (foldl (\<lambda>s n. add n s) s ns) = set ns \<union> flags s"
  by (induction ns arbitrary: s) (auto simp: flags_add)

lemma add_rem_cancel: "valid n \<Longrightarrow> n \<notin> flags s \<Longrightarrow> flags (rem n (add n s)) = flags s"
  by (simp add: flags_add flags_rem)

end

subsection \<open>The bytes implement it\<close>

lemma bv_mask_nonneg: "0 \<le> n \<Longrightarrow> bv_mask n = push_bit (nat (n mod 8)) 1"
proof -
  assume "0 \<le> n"
  have "n mod 8 mod 32 = n mod (8::int)" by (intro mod_pos_pos_trivial) (auto intro: less_trans [of _ 8])
  with \<open>0 \<le> n\<close> show ?thesis by (simp add: bv_mask_def js_rem_nonneg)
qed

lemma bv_isSet_bit: "0 \<le> n \<Longrightarrow> bv_isSet raw n = bit (bv_byte raw (n div 8)) (nat (n mod 8))"
  by (simp add: bv_isSet_def bv_mask_nonneg bit_iff_and_push_bit_not_eq_0)

lemma bit_bv_mask: "0 \<le> n \<Longrightarrow> bit (bv_mask n) k \<longleftrightarrow> k = nat (n mod 8)"
proof -
  assume n: "0 \<le> n"
  have "nat (n mod 8) < 32"
    using pos_mod_bound [of 8 n] by linarith
  then have "bit (push_bit (nat (n mod 8)) (1 :: 32 word)) k \<longleftrightarrow> nat (n mod 8) = k"
    unfolding push_bit_of_1 by (simp only: bit_exp_iff possible_bit_word) auto
  with n show ?thesis
    by (auto simp: bv_mask_nonneg)
qed

lemma bv_byte_put: "bv_byte (st_put i b raw) j = (if j = i then b else bv_byte raw j)"
  by (simp add: bv_byte_def js.get_put)

lemma same_bit_iff:
  "0 \<le> (n::int) \<Longrightarrow> 0 \<le> m \<Longrightarrow> (m div 8 = n div 8 \<and> nat (m mod 8) = nat (n mod 8)) \<longleftrightarrow> m = n"
  by (metis div_mult_mod_eq eq_nat_nat_iff pos_mod_sign zero_less_numeral)

lemma bv_isSet_set:
  assumes "0 \<le> n" and "0 \<le> m"
  shows "bv_isSet (bv_set n raw) m = (m = n \<or> bv_isSet raw m)"
proof (cases "m div 8 = n div 8")
  case True
  with assms same_bit_iff [OF assms] show ?thesis
    by (simp add: bv_set_def Let_def bv_isSet_bit bv_byte_put bit_or_iff bit_bv_mask) blast
next
  case False
  then have "m \<noteq> n" by blast
  with False assms show ?thesis
    by (simp add: bv_set_def Let_def bv_isSet_bit bv_byte_put)
qed

lemma bv_isSet_unset:
  assumes "0 \<le> n" and "0 \<le> m"
  shows "bv_isSet (bv_unset n raw) m = (m \<noteq> n \<and> bv_isSet raw m)"
proof (cases "m div 8 = n div 8")
  case True
  with assms same_bit_iff [OF assms] show ?thesis
    by (auto simp: bv_unset_def Let_def bv_isSet_bit bv_byte_put bit_and_iff bit_not_iff bit_bv_mask
        dest: bit_imp_le_length)
next
  case False
  then have "m \<noteq> n" by blast
  with False assms show ?thesis
    by (simp add: bv_unset_def Let_def bv_isSet_bit bv_byte_put)
qed

interpretation bv: flag_set bv_isSet bv_set bv_unset "\<lambda>n. 0 \<le> n"
  by unfold_locales (simp_all add: bv_isSet_set bv_isSet_unset)

lemma bv_isSet_below_length:
  assumes "store_ok raw" and "0 \<le> n" and "bv_isSet raw n"
  shows "n < int (bv_length raw) * 8"
proof -
  let ?ks = "filter (\<lambda>k. 0 \<le> k) (st_keys raw)"
  have "st_get raw (n div 8) \<noteq> None"
    using assms(3) by (auto simp: bv_isSet_def bv_byte_def split: option.splits)
  then have k: "n div 8 \<in> set ?ks"
    using assms(2) by (simp add: js.set_keys)
  have "sorted ?ks" using js.ok_sorted [OF assms(1)] sorted_filter [of "\<lambda>x. x"] by simp
  with k have le: "n div 8 \<le> last ?ks" by (simp add: sorted_le_last)
  have "int (bv_length raw) = last ?ks + 1"
    using k le assms(2) pos_imp_zdiv_nonneg_iff [of 8 n]
    by (cases ?ks) (auto simp: bv_length_def)
  with le show ?thesis using assms(2) by linarith
qed

lemma set_bv_toBitSet:
  assumes "store_ok raw"
  shows "set (bv_toBitSet raw) = bv.flags raw"
proof (rule set_eqI)
  fix n
  show "n \<in> set (bv_toBitSet raw) \<longleftrightarrow> n \<in> bv.flags raw"
  proof
    assume "n \<in> bv.flags raw"
    then have n: "0 \<le> n" "bv_isSet raw n" by (simp_all add: bv.flags_def)
    from bv_isSet_below_length [OF assms n] n(1) have "nat n \<in> set [0..<bv_length raw * 8]"
      by simp
    with n show "n \<in> set (bv_toBitSet raw)"
      unfolding bv_toBitSet_def by (force intro: image_eqI [of _ _ "nat n"])
  qed (auto simp: bv_toBitSet_def bv.flags_def)
qed

lemma sorted_bv_toBitSet: "sorted_wrt (<) (bv_toBitSet raw)"
  unfolding bv_toBitSet_def
  by (rule sorted_wrt_filter_mono) (simp add: sorted_wrt_map strict_sorted_iff)

lemma store_ok_BitVector: "store_ok (BitVector bytes)"
  by (simp add: store_ok_def st_keys_def BitVector_def sorted_wrt_map strict_sorted_iff)

lemma store_ok_bv_set [simp]: "store_ok raw \<Longrightarrow> store_ok (bv_set n raw)"
  by (simp add: bv_set_def Let_def js.ok_put)

lemma store_ok_bv_unset [simp]: "store_ok raw \<Longrightarrow> store_ok (bv_unset n raw)"
  by (simp add: bv_unset_def Let_def js.ok_put)

subsection \<open>Refinement of sets\<close>

datatype bv_op = BvSet int | BvUnset int

fun bv_index :: "bv_op \<Rightarrow> int" where
  "bv_index (BvSet n) = n"
| "bv_index (BvUnset n) = n"

fun bv_step :: "bv_op \<Rightarrow> bitvector \<Rightarrow> bitvector" where
  "bv_step (BvSet n) raw = bv_set n raw"
| "bv_step (BvUnset n) raw = bv_unset n raw"

fun set_step :: "bv_op \<Rightarrow> int set \<Rightarrow> int set" where
  "set_step (BvSet n) s = insert n s"
| "set_step (BvUnset n) s = s - {n}"

lemma bv_step_refines:
  "store_ok raw \<Longrightarrow> 0 \<le> bv_index op \<Longrightarrow>
     store_ok (bv_step op raw) \<and> set (bv_toBitSet (bv_step op raw)) = set_step op (set (bv_toBitSet raw))"
  by (cases op) (simp_all add: set_bv_toBitSet bv.flags_add bv.flags_rem)

text \<open>
  C14. A bit vector built from the bytes of a packet behaves as the set of its bits: any sequence of
  settings and clearings of non-negative bits gives the set that the same insertions and removals
  give, and the enumeration of the bits is ascending and has no repetitions.
\<close>

theorem bitvector_refines_set:
  assumes "\<forall>op \<in> set ops. 0 \<le> bv_index op"
  shows "set (bv_toBitSet (foldl (\<lambda>raw op. bv_step op raw) (BitVector bytes) ops)) =
           foldl (\<lambda>s op. set_step op s) (set (bv_toBitSet (BitVector bytes))) ops
    \<and> sorted_wrt (<) (bv_toBitSet (foldl (\<lambda>raw op. bv_step op raw) (BitVector bytes) ops))"
proof -
  have "set (bv_toBitSet (foldl (\<lambda>raw op. bv_step op raw) raw ops)) =
           foldl (\<lambda>s op. set_step op s) (set (bv_toBitSet raw)) ops" if "store_ok raw" for raw
    using that assms by (induction ops arbitrary: raw) (simp_all add: bv_step_refines)
  with store_ok_BitVector sorted_bv_toBitSet show ?thesis by blast
qed

theorem bitvector_refines_set_witness:
  "set (bv_toBitSet (foldl (\<lambda>raw op. bv_step op raw) (BitVector []) [BvSet 9, BvSet 3, BvUnset 9])) = {3}"
  using bitvector_refines_set [of "[BvSet 9, BvSet 3, BvUnset 9]" "[]"]
  by (auto simp: bv_toBitSet_def BitVector_def bv_length_def st_keys_def)

end
