(* ===== verification/World.thy ===== *)
theory World
  imports Complex_Main Fc_Types Bit_Vector
begin

text \<open>
  The objects of the client: the ruleset entries, tiles, units, cities and players, each a
  record of the fields the modelled code reads or writes.  The server sends them as packets
  and the client stores the packet object itself, so the field names are those of the packets
  (prefixed by the kind of object).  A field that a packet may lack is an \<open>option\<close>.
  Wherever an object holds another one (the units of a tile, the units in focus), the model
  holds its id: an id has one live object, the one in the dictionary.
\<close>

subsection \<open>Ruleset entries\<close>

record requirement =
  r_kind :: int
  r_range :: int
  r_value :: int
  r_present :: bool

record terrain =
  te_id :: int
  te_name :: string
  te_graphic_str :: string
  te_graphic_alt :: string
  te_pillage_time :: int

record extra =
  x_id :: int
  x_name :: string
  x_rule_name :: string
  x_causes :: bitvector
  x_rmcauses :: bitvector
  x_buildable :: bool
  x_reqs :: "requirement list"
  x_base :: "int option"  \<comment> \<open>\<open>base['border_sq']\<close> once the base packet has come\<close>
  x_road :: "int option"  \<comment> \<open>the road packet, once it has come\<close>

record unit_type =
  ut_id :: int
  ut_name :: string
  ut_rule_name :: string
  ut_actions :: "bitvector option"
  ut_build_cost :: int
  ut_build_reqs :: "requirement list"
  ut_tech_requirement :: int
  ut_flags :: "32 word list"
  ut_transport_capacity :: int
  ut_attack_strength :: int
  ut_defense_strength :: int
  ut_power_fact :: "int list"
  ut_move_bonus :: "int list"
  ut_move_rate :: int
  ut_firepower :: int

record improvement =
  im_id :: int
  im_name :: string
  im_rule_name :: string
  im_build_cost :: int
  im_reqs :: "requirement list option"
  im_soundtag :: string
  im_sabotage :: int

record action =
  ac_id :: int
  ac_result :: "int option"
  ac_tgt_kind :: int
  ac_min_distance :: int
  ac_max_distance :: int
  ac_ui_name :: string
  ac_enablers :: "int list"  \<comment> \<open>the enabler packets, by id\<close>

subsection \<open>Tiles, units, cities, players\<close>

record tile =
  t_index :: int
  t_x :: "int option"
  t_y :: "int option"
  t_known :: "int option"
  t_extras :: "bitvector option"
  t_terrain :: int
  t_units :: "int list"
  t_owner :: "int option"
  t_worked :: "int option"
  t_extras_owner :: "int option"
  t_height :: real

record unit_rec =
  u_id :: int
  u_owner :: int
  u_tile :: int
  u_type :: int
  u_activity :: "int option"
  u_activity_tgt :: int
  u_transported :: bool
  u_transported_by :: int
  u_movesleft :: "int option"
  u_done_moving :: "bool option"
  u_ssa_controller :: "int option"
  u_has_orders :: "bool option"
  u_adw :: "int option"           \<comment> \<open>\<open>action_decision_want\<close>\<close>
  u_ad_tile :: "int option"       \<comment> \<open>\<open>action_decision_tile\<close>\<close>
  u_homecity :: "int option"
  u_goto_tile :: "int option"
  u_anim_list :: "(int \<times> int) list option"  \<comment> \<open>pairs of tile and step\<close>
  u_facing :: int

record universal =
  un_kind :: int
  un_value :: int

record city =
  c_id :: int
  c_owner :: int
  c_tile :: int
  c_name :: string
  c_size :: int
  c_capital :: int
  c_production_kind :: int
  c_production_value :: int
  c_shield_stock :: int
  c_shield_surplus :: int
  c_buy_cost :: int
  c_did_buy :: bool
  c_turn_founded :: int
  c_worklist :: "universal option list"  \<comment> \<open>an element can become undefined\<close>
  c_city_radius_sq :: int
  c_improvements :: "bitvector option"
  c_can_build_unit :: "bitvector option"
  c_can_build_improvement :: "bitvector option"
  c_ppl_happy :: "int list"
  c_ppl_unhappy :: "int list"
  c_ppl_angry :: "int list"
  c_was_happy :: bool
  c_unhappy :: bool
  c_granary_turns :: int
  c_style :: int
  c_prod_science :: int
  c_diplomat_investigate :: bool

record player =
  p_playerno :: int
  p_name :: string
  p_username :: string
  p_flags :: bitvector
  p_nation :: int
  p_is_alive :: bool
  p_team :: int
  p_government :: int
  p_gold :: int
  p_inventions :: "int store option"
  p_real_embassy :: "bool store"
  p_phase_done :: bool
  p_nturns_idle :: int
  p_ai_skill_level :: int
  p_real_name :: string
  p_diplstates :: "int store"
  p_love :: "int list"
  p_score :: int
  p_researching :: int
  p_tech_goal :: int
  p_tech_upkeep :: int
  p_bulbs_researched :: int
  p_researching_cost :: int

subsection \<open>Further ruleset entries\<close>

record tech =
  tc_id :: int
  tc_name :: string
  tc_req :: "int list"
  tc_research_reqs :: "requirement list"
  tc_cost :: int

record research =
  re_total_bulbs_prod :: int
  re_inventions :: "int store"
  re_researching :: int
  re_tech_goal :: int
  re_researching_cost :: int
  re_bulbs_researched :: int

record government =
  gv_id :: int
  gv_name :: string
  gv_reqs :: "requirement list"

record nation =
  na_id :: int
  na_adjective :: string
  na_barbarian_type :: "int option"

end
