(* ===== verification/Geometry.thy ===== *)
theory Geometry
  imports World
begin

unbundle bit_operations_syntax

text \<open>
  \<open>map.js\<close> and \<open>tile.js\<close>: the shape of the map (topology and wrapping flags), the eight
  directions, stepping from a tile to its neighbour, the coordinate systems, distances.
  The global \<open>map\<close> is the record \<open>map_info\<close>, the global \<open>tiles\<close> a dictionary by tile
  index.  A coordinate can be missing (a tile packet has no \<open>x\<close> and \<open>y\<close>); arithmetic on a
  missing coordinate is \<open>NaN\<close>, which is no key of \<open>tiles\<close>.
\<close>

record map_info =
  m_topology_id :: int
  m_wrap_id :: int
  m_xsize :: int
  m_ysize :: int

definition topo_has_flag :: "map_info \<Rightarrow> int \<Rightarrow> bool" where
  "topo_has_flag m flag = ((m_topology_id m AND flag) \<noteq> 0)"

definition wrap_has_flag :: "map_info \<Rightarrow> int \<Rightarrow> bool" where
  "wrap_has_flag m flag = ((m_wrap_id m AND flag) \<noteq> 0)"

subsection \<open>Directions\<close>

definition DIR_DX :: "int list" where
  "DIR_DX = [-1, 0, 1, -1, 1, -1, 0, 1]"

definition DIR_DY :: "int list" where
  "DIR_DY = [-1, -1, -1, 0, 0, 1, 1, 1]"

definition is_valid_dir :: "map_info \<Rightarrow> int \<Rightarrow> bool" where
  "is_valid_dir m dir =
     (if dir = DIR8_SOUTHEAST \<or> dir = DIR8_NORTHWEST then
        \<not> (topo_has_flag m TF_HEX \<and> \<not> topo_has_flag m TF_ISO)
      else if dir = DIR8_NORTHEAST \<or> dir = DIR8_SOUTHWEST then
        \<not> (topo_has_flag m TF_HEX \<and> topo_has_flag m TF_ISO)
      else dir = DIR8_NORTH \<or> dir = DIR8_EAST \<or> dir = DIR8_SOUTH \<or> dir = DIR8_WEST)"

definition is_cardinal_dir :: "map_info \<Rightarrow> int \<Rightarrow> bool" where
  "is_cardinal_dir m dir =
     (if dir = DIR8_NORTH \<or> dir = DIR8_SOUTH \<or> dir = DIR8_EAST \<or> dir = DIR8_WEST then True
      else if dir = DIR8_SOUTHEAST \<or> dir = DIR8_NORTHWEST then
        topo_has_flag m TF_HEX \<and> topo_has_flag m TF_ISO
      else if dir = DIR8_NORTHEAST \<or> dir = DIR8_SOUTHWEST then
        topo_has_flag m TF_HEX \<and> \<not> topo_has_flag m TF_ISO
      else False)"

text \<open>The direction lists \<open>map_init_topology\<close> stores: \<open>valid_dirs\<close> and \<open>cardinal_dirs\<close>,
  indexed 0, 1, ..., with their counts.\<close>

record dir_table =
  valid_dirs :: "int list"
  cardinal_dirs :: "int list"
  num_valid_dirs :: nat
  num_cardinal_dirs :: nat

fun init_topology_loop :: "map_info \<Rightarrow> int list \<Rightarrow> dir_table \<Rightarrow> dir_table" where
  "init_topology_loop m [] t = t"
| "init_topology_loop m (dir # ds) t =
     (let t1 = (if is_valid_dir m dir
                then t\<lparr>valid_dirs := valid_dirs t @ [dir], num_valid_dirs := num_valid_dirs t + 1\<rparr>
                else t);
          t2 = (if is_cardinal_dir m dir
                then t1\<lparr>cardinal_dirs := cardinal_dirs t1 @ [dir],
                        num_cardinal_dirs := num_cardinal_dirs t1 + 1\<rparr>
                else t1)
      in init_topology_loop m ds t2)"

definition map_init_topology :: "map_info \<Rightarrow> dir_table" where
  "map_init_topology m = init_topology_loop m [0..7]
     \<lparr>valid_dirs = [], cardinal_dirs = [], num_valid_dirs = 0, num_cardinal_dirs = 0\<rparr>"

definition dir_get_name :: "int \<Rightarrow> string" where
  "dir_get_name dir =
     (if dir = DIR8_NORTH then ''N'' else if dir = DIR8_NORTHEAST then ''NE''
      else if dir = DIR8_EAST then ''E'' else if dir = DIR8_SOUTHEAST then ''SE''
      else if dir = DIR8_SOUTH then ''S'' else if dir = DIR8_SOUTHWEST then ''SW''
      else if dir = DIR8_WEST then ''W'' else if dir = DIR8_NORTHWEST then ''NW''
      else ''[Undef]'')"

definition dir_cw :: "int \<Rightarrow> int" where
  "dir_cw dir =
     (if dir = DIR8_NORTH then DIR8_NORTHEAST else if dir = DIR8_NORTHEAST then DIR8_EAST
      else if dir = DIR8_EAST then DIR8_SOUTHEAST else if dir = DIR8_SOUTHEAST then DIR8_SOUTH
      else if dir = DIR8_SOUTH then DIR8_SOUTHWEST else if dir = DIR8_SOUTHWEST then DIR8_WEST
      else if dir = DIR8_WEST then DIR8_NORTHWEST else if dir = DIR8_NORTHWEST then DIR8_NORTH
      else - 1)"

definition dir_ccw :: "int \<Rightarrow> int" where
  "dir_ccw dir =
     (if dir = DIR8_NORTH then DIR8_NORTHWEST else if dir = DIR8_NORTHEAST then DIR8_NORTH
      else if dir = DIR8_EAST then DIR8_NORTHEAST else if dir = DIR8_SOUTHEAST then DIR8_EAST
      else if dir = DIR8_SOUTH then DIR8_SOUTHEAST else if dir = DIR8_SOUTHWEST then DIR8_SOUTH
      else if dir = DIR8_WEST then DIR8_SOUTHWEST else if dir = DIR8_NORTHWEST then DIR8_WEST
      else - 1)"

subsection \<open>Tiles of the map\<close>

definition tile_init :: "int \<Rightarrow> int \<Rightarrow> int \<Rightarrow> tile" where
  "tile_init index x y =
     \<lparr>t_index = index, t_x = Some x, t_y = Some y, t_known = None, t_extras = None,
      t_terrain = T_UNKNOWN, t_units = [], t_owner = None, t_worked = None,
      t_extras_owner = None, t_height = 0\<rparr>"

definition map_allocate :: "map_info \<Rightarrow> tile store" where
  "map_allocate m =
     foldl (\<lambda>ts (x, y). let index = x + y * m_xsize m in st_put index (tile_init index x y) ts)
       st_empty
       (concat (map (\<lambda>x. map (\<lambda>y. (x, y)) [0..m_ysize m - 1]) [0..m_xsize m - 1]))"

definition index_to_tile :: "tile store \<Rightarrow> int \<Rightarrow> tile option" where
  "index_to_tile ts index = st_get ts index"

definition map_pos_to_tile :: "map_info \<Rightarrow> tile store \<Rightarrow> int \<Rightarrow> int \<Rightarrow> tile option" where
  "map_pos_to_tile m ts x y =
     (let y' = (if m_xsize m \<le> x then y - 1 else if x < 0 then y + 1 else y)
      in st_get ts (x + y' * m_xsize m))"

definition mapstep :: "map_info \<Rightarrow> tile store \<Rightarrow> tile \<Rightarrow> int \<Rightarrow> tile option" where
  "mapstep m ts ptile dir =
     (if \<not> is_valid_dir m dir then None
      else case (t_x ptile, t_y ptile) of
        (Some x, Some y) \<Rightarrow> map_pos_to_tile m ts (DIR_DX ! nat dir + x) (DIR_DY ! nat dir + y)
      | _ \<Rightarrow> None)"

text \<open>The loop of \<open>get_direction_for_step\<close>; tiles are compared as objects, by index.\<close>

definition get_direction_for_step :: "map_info \<Rightarrow> tile store \<Rightarrow> tile \<Rightarrow> tile \<Rightarrow> int" where
  "get_direction_for_step m ts start_tile end_tile =
     (case List.find (\<lambda>dir. map_option t_index (mapstep m ts start_tile dir) = Some (t_index end_tile))
             [0..7] of
        Some dir \<Rightarrow> dir | None \<Rightarrow> - 1)"

definition tile_get_known :: "tile option \<Rightarrow> int option" where
  "tile_get_known ptile =
     (case ptile of None \<Rightarrow> Some TILE_UNKNOWN
      | Some t \<Rightarrow>
          (if t_known t = None \<or> t_known t = Some TILE_UNKNOWN then Some TILE_UNKNOWN
           else if t_known t = Some TILE_KNOWN_UNSEEN then Some TILE_KNOWN_UNSEEN
           else if t_known t = Some TILE_KNOWN_SEEN then Some TILE_KNOWN_SEEN
           else None))"

definition tile_has_extra :: "tile option \<Rightarrow> int \<Rightarrow> bool" where
  "tile_has_extra ptile extra =
     (case ptile of None \<Rightarrow> False
      | Some t \<Rightarrow> (case t_extras t of None \<Rightarrow> False | Some bv \<Rightarrow> bv_isSet bv extra))"

subsection \<open>Coordinates and distances\<close>

definition FC_WRAP :: "int \<Rightarrow> int \<Rightarrow> int" where
  "FC_WRAP value rng =
     (if value < 0 then (if js_rem value rng \<noteq> 0 then js_rem value rng + rng else 0)
      else if rng \<le> value then js_rem value rng else value)"

text \<open>\<open>NATIVE_TO_MAP_POS\<close> returns the pair \<open>(map_x, map_y)\<close>, \<open>MAP_TO_NATIVE_POS\<close> the pair
  \<open>(nat_x, nat_y)\<close>; \<open>div\<close> is the \<open>Math.floor\<close> of the quotient.\<close>

definition NATIVE_TO_MAP_POS :: "map_info \<Rightarrow> int \<Rightarrow> int \<Rightarrow> int \<times> int" where
  "NATIVE_TO_MAP_POS m nat_x nat_y =
     (let pmap_x = (nat_y + (nat_y AND 1)) div 2 + nat_x;
          pmap_y = nat_y - pmap_x + m_xsize m
      in (pmap_x, pmap_y))"

definition MAP_TO_NATIVE_POS :: "map_info \<Rightarrow> int \<Rightarrow> int \<Rightarrow> int \<times> int" where
  "MAP_TO_NATIVE_POS m map_x map_y =
     (let pnat_y = map_x + map_y - m_xsize m;
          pnat_x = (2 * map_x - pnat_y - (pnat_y AND 1)) div 2
      in (pnat_x, pnat_y))"

definition NATURAL_TO_MAP_POS :: "map_info \<Rightarrow> int \<Rightarrow> int \<Rightarrow> int \<times> int" where
  "NATURAL_TO_MAP_POS m nat_x nat_y =
     (let pmap_x = (nat_y + nat_x) div 2;
          pmap_y = nat_y - pmap_x + m_xsize m
      in (pmap_x, pmap_y))"

definition MAP_TO_NATURAL_POS :: "map_info \<Rightarrow> int \<Rightarrow> int \<Rightarrow> int \<times> int" where
  "MAP_TO_NATURAL_POS m map_x map_y =
     (let pnat_y = map_x + map_y - m_xsize m;
          pnat_x = 2 * map_x - pnat_y
      in (pnat_x, pnat_y))"

text \<open>
  \<open>map_vector_to_distance\<close> replaces itself at its first call by the variant for the topology
  of that moment.  The variant chosen so far is a state; \<open>None\<close> before the first call.
\<close>

datatype dist_kind = DistIsoHex | DistHex | DistRect
datatype sq_kind = SqHex | SqRect

definition dist_kind_of :: "map_info \<Rightarrow> dist_kind" where
  "dist_kind_of m =
     (if topo_has_flag m TF_HEX
      then (if topo_has_flag m TF_ISO then DistIsoHex else DistHex)
      else DistRect)"

fun dist_of_kind :: "dist_kind \<Rightarrow> int \<Rightarrow> int \<Rightarrow> int" where
  "dist_of_kind DistIsoHex dx dy =
     (if (dx < 0 \<and> dy > 0) \<or> (dx > 0 \<and> dy < 0) then \<bar>dx\<bar> + \<bar>dy\<bar> else max \<bar>dx\<bar> \<bar>dy\<bar>)"
| "dist_of_kind DistHex dx dy =
     (if (dx > 0 \<and> dy > 0) \<or> (dx < 0 \<and> dy < 0) then \<bar>dx\<bar> + \<bar>dy\<bar> else max \<bar>dx\<bar> \<bar>dy\<bar>)"
| "dist_of_kind DistRect dx dy = max \<bar>dx\<bar> \<bar>dy\<bar>"

record dist_state =
  ds_dist :: "dist_kind option"
  ds_sq :: "sq_kind option"

definition map_vector_to_distance ::
    "map_info \<Rightarrow> dist_state \<Rightarrow> int \<Rightarrow> int \<Rightarrow> int \<times> dist_state" where
  "map_vector_to_distance m s dx dy =
     (let k = (case ds_dist s of None \<Rightarrow> dist_kind_of m | Some k \<Rightarrow> k)
      in (dist_of_kind k dx dy, s\<lparr>ds_dist := Some k\<rparr>))"

definition map_vector_to_sq_distance ::
    "map_info \<Rightarrow> dist_state \<Rightarrow> int \<Rightarrow> int \<Rightarrow> int \<times> dist_state" where
  "map_vector_to_sq_distance m s dx dy =
     (let k = (case ds_sq s of None \<Rightarrow> (if topo_has_flag m TF_HEX then SqHex else SqRect) | Some k \<Rightarrow> k);
          s' = s\<lparr>ds_sq := Some k\<rparr>
      in case k of
           SqHex \<Rightarrow> (let (d, s'') = map_vector_to_distance m s' dx dy in (d * d, s''))
         | SqRect \<Rightarrow> (dx * dx + dy * dy, s'))"

text \<open>Both tiles come from the map, so their coordinates are present.\<close>

definition map_distance_vector :: "map_info \<Rightarrow> int \<times> int \<Rightarrow> int \<times> int \<Rightarrow> int \<times> int" where
  "map_distance_vector m tile0 tile1 =
     (let dx = fst tile1 - fst tile0;
          dx1 = (if wrap_has_flag m WRAP_X
                 then let half_world = m_xsize m div 2
                      in FC_WRAP (dx + half_world) (m_xsize m) - half_world
                 else dx);
          dy = snd tile1 - snd tile0;
          dx2 = (if wrap_has_flag m WRAP_Y
                 then let half_world = m_ysize m div 2
                      in FC_WRAP (dy + half_world) (m_ysize m) - half_world
                 else dx1)
      in (dx2, dy))"

definition map_tile_distance :: "(int \<times> int) option \<Rightarrow> (int \<times> int) option \<Rightarrow> real" where
  "map_tile_distance ptile1 ptile2 =
     (case (ptile1, ptile2) of
        (Some (x1, y1), Some (x2, y2)) \<Rightarrow>
          (let dx = x2 - x1; dy = y2 - y1 in sqrt (real_of_int (dx * dx + dy * dy)))
      | _ \<Rightarrow> 0)"

end
