(* ===== verification/Geometry_Facts.thy ===== *)
theory Geometry_Facts
  imports Geometry
begin

text \<open>
  What makes \<open>map.js\<close> correct: the wrap function is the remainder, the allocated map has one
  tile per position, a step is undone by the opposite step, the direction found for a step
  leads there, the coordinate conversions invert each other, the distances are metrics.
\<close>

subsection \<open>Wrapping\<close>

lemma FC_WRAP_mod: "0 < n \<Longrightarrow> FC_WRAP v n = v mod n"
proof -
  assume n: "0 < n"
  show ?thesis
  proof (cases "v < 0")
    case True
    show ?thesis
    proof (cases "js_rem v n = 0")
      case True
      with n \<open>v < 0\<close> show ?thesis by (simp add: FC_WRAP_def js_rem_zero_iff)
    next
      case False
      have "js_rem v n = - ((- v) mod n)" "0 \<le> (- v) mod n" "(- v) mod n < n"
        using n \<open>v < 0\<close> by (simp_all add: js_rem_neg)
      with False have "- n < js_rem v n" "js_rem v n < 0" by linarith+
      then have "js_rem v n + n = (js_rem v n + n) mod n"
        by (intro mod_pos_pos_trivial [symmetric]) linarith+
      also have "\<dots> = v mod n" using js_rem_mod [OF n, of v] by simp
      finally show ?thesis using False \<open>v < 0\<close> by (simp add: FC_WRAP_def)
    qed
  next
    case False
    with n show ?thesis by (auto simp: FC_WRAP_def js_rem_nonneg)
  qed
qed

lemma FC_WRAP_range: "0 < n \<Longrightarrow> 0 \<le> FC_WRAP v n \<and> FC_WRAP v n < n"
  by (simp add: FC_WRAP_mod)

subsection \<open>The allocated map\<close>

abbreviation on_map :: "map_info \<Rightarrow> int \<Rightarrow> int \<Rightarrow> bool" where
  "on_map m x y \<equiv> 0 \<le> x \<and> x < m_xsize m \<and> 0 \<le> y \<and> y < m_ysize m"

definition allocated :: "map_info \<Rightarrow> tile store \<Rightarrow> bool" where
  "allocated m ts \<longleftrightarrow>
     (\<forall>k t. st_get ts k = Some t \<longrightarrow>
        (\<exists>x y. on_map m x y \<and> k = x + y * m_xsize m \<and> t_index t = k
               \<and> t_x t = Some x \<and> t_y t = Some y)) \<and>
     (\<forall>x y. on_map m x y \<longrightarrow> st_get ts (x + y * m_xsize m) \<noteq> None)"

lemma index_unique:
  fixes w :: int
  assumes "0 \<le> x" "x < w" "0 \<le> x'" "x' < w" "x + y * w = x' + y' * w"
  shows "x = x' \<and> y = y'"
proof -
  have "(x + y * w) mod w = x" "(x' + y' * w) mod w = x'"
    using assms(1-4) by simp_all
  then have x: "x = x'" using assms(5) by (metis (no_types))
  have "w \<noteq> 0" using assms(1,2) by linarith
  then show ?thesis using assms(5) unfolding x by simp
qed

definition map_positions :: "map_info \<Rightarrow> (int \<times> int) list" where
  "map_positions m = concat (map (\<lambda>x. map (\<lambda>y. (x, y)) [0..m_ysize m - 1]) [0..m_xsize m - 1])"

lemma set_map_positions: "(x, y) \<in> set (map_positions m) \<longleftrightarrow> on_map m x y"
proof -
  have "(x, y) \<in> set (map_positions m) \<longleftrightarrow> x \<in> set [0..m_xsize m - 1] \<and> y \<in> set [0..m_ysize m - 1]"
    unfolding map_positions_def by (auto simp: image_iff)
  then show ?thesis by auto
qed

definition fresh_tiles :: "map_info \<Rightarrow> (int \<times> tile) list" where
  "fresh_tiles m = map (\<lambda>(x, y). (x + y * m_xsize m, tile_init (x + y * m_xsize m) x y))
     (map_positions m)"

lemma map_allocate_puts: "map_allocate m = foldl (\<lambda>s (k, v). st_put k v s) st_empty (fresh_tiles m)"
  unfolding map_allocate_def fresh_tiles_def map_positions_def foldl_map
  by (simp add: case_prod_unfold Let_def)

lemma fresh_tiles_iff:
  "(k, t) \<in> set (fresh_tiles m) \<longleftrightarrow>
     (\<exists>x y. on_map m x y \<and> k = x + y * m_xsize m \<and> t = tile_init k x y)"
  by (auto simp: fresh_tiles_def set_map_positions image_iff split: prod.splits)

lemma map_allocate_get:
  "st_get (map_allocate m) k = Some t \<longleftrightarrow>
     (\<exists>x y. on_map m x y \<and> k = x + y * m_xsize m \<and> t = tile_init k x y)"
proof -
  have look: "st_get (map_allocate m) k = map_of (rev (fresh_tiles m)) k"
    by (simp add: map_allocate_puts js.put_all_get option.case_eq_if)
  have same: "t = t'" if "(k, t) \<in> set (fresh_tiles m)" "(k, t') \<in> set (fresh_tiles m)" for t'
    using that index_unique unfolding fresh_tiles_iff by metis
  show ?thesis
  proof
    assume "st_get (map_allocate m) k = Some t"
    then have "(k, t) \<in> set (fresh_tiles m)" unfolding look by (metis map_of_SomeD set_rev)
    then show "\<exists>x y. on_map m x y \<and> k = x + y * m_xsize m \<and> t = tile_init k x y"
      by (simp only: fresh_tiles_iff)
  next
    assume "\<exists>x y. on_map m x y \<and> k = x + y * m_xsize m \<and> t = tile_init k x y"
    then have t: "(k, t) \<in> set (fresh_tiles m)" by (simp only: fresh_tiles_iff)
    then have "k \<in> fst ` set (rev (fresh_tiles m))" by (metis fst_conv image_eqI set_rev)
    then have "map_of (rev (fresh_tiles m)) k \<noteq> None"
      by (simp only: map_of_eq_None_iff not_not)
    then obtain t' where t': "map_of (rev (fresh_tiles m)) k = Some t'" by auto
    then have "(k, t') \<in> set (fresh_tiles m)" by (metis map_of_SomeD set_rev)
    with same [OF t] t' look show "st_get (map_allocate m) k = Some t" by simp
  qed
qed

lemma allocated_map_allocate: "allocated m (map_allocate m)"
  unfolding allocated_def
proof (intro conjI allI impI)
  fix k t
  assume "st_get (map_allocate m) k = Some t"
  then show "\<exists>x y. on_map m x y \<and> k = x + y * m_xsize m \<and> t_index t = k
      \<and> t_x t = Some x \<and> t_y t = Some y"
    unfolding map_allocate_get by (auto simp: tile_init_def)
next
  fix x y
  assume "on_map m x y"
  then have "st_get (map_allocate m) (x + y * m_xsize m) =
      Some (tile_init (x + y * m_xsize m) x y)"
    by (auto simp: map_allocate_get)
  then show "st_get (map_allocate m) (x + y * m_xsize m) \<noteq> None" by simp
qed

lemma store_ok_map_allocate: "store_ok (map_allocate m)"
  by (simp add: map_allocate_puts js.ok_put_all)

text \<open>The tile found for a position up to one map width outside: the column wraps around.\<close>

lemma map_pos_to_tile_wraps:
  assumes al: "allocated m ts" and x: "- m_xsize m \<le> x" "x < 2 * m_xsize m"
    and y: "0 \<le> y" "y < m_ysize m"
  obtains t where "map_pos_to_tile m ts x y = Some t"
    and "t_x t = Some (x mod m_xsize m)" and "t_y t = Some y"
    and "t_index t = x mod m_xsize m + y * m_xsize m"
proof -
  let ?w = "m_xsize m"
  have w: "0 < ?w" using x by linarith
  have xm: "on_map m (x mod ?w) y" using w y by simp
  have key: "x + (if ?w \<le> x then y - 1 else if x < 0 then y + 1 else y) * ?w = x mod ?w + y * ?w"
  proof (cases "?w \<le> x")
    case True
    then have "x mod ?w = x - ?w"
      using x(2) by (metis add_diff_cancel_left' diff_ge_0_iff_ge minus_mod_self2 mod_pos_pos_trivial
          mult_2 diff_less_eq)
    with True show ?thesis by (simp add: algebra_simps)
  next
    case False
    show ?thesis
    proof (cases "x < 0")
      case True
      then have "x mod ?w = x + ?w"
        using x(1) by (metis add.commute add_less_same_cancel2 le_add_same_cancel2 mod_add_self2
            mod_pos_pos_trivial neg_le_iff_le diff_0 diff_le_eq)
      with True False show ?thesis by (simp add: algebra_simps)
    next
      case False
      with \<open>\<not> ?w \<le> x\<close> show ?thesis by (simp add: mod_pos_pos_trivial)
    qed
  qed
  obtain t where t: "st_get ts (x mod ?w + y * ?w) = Some t"
    using al xm unfolding allocated_def by blast
  with al obtain x' y' where x'y': "on_map m x' y'" "x mod ?w + y * ?w = x' + y' * ?w"
      "t_index t = x mod ?w + y * ?w" "t_x t = Some x'" "t_y t = Some y'"
    unfolding allocated_def by blast
  have eq: "x' = x mod ?w" "y' = y"
    using index_unique [of "x mod ?w" ?w x' y y'] xm x'y'(1,2) by simp_all
  have "map_pos_to_tile m ts x y = Some t"
    unfolding map_pos_to_tile_def Let_def key by (rule t)
  with x'y'(3-5) show ?thesis by (intro that [of t]) (simp_all add: eq)
qed

lemma map_pos_to_tile_Some:
  assumes al: "allocated m ts" and x: "- m_xsize m \<le> x" "x < 2 * m_xsize m"
    and t: "map_pos_to_tile m ts x y = Some t"
  shows "0 \<le> y \<and> y < m_ysize m"
proof -
  let ?w = "m_xsize m"
  let ?y = "if ?w \<le> x then y - 1 else if x < 0 then y + 1 else y"
  from t have "st_get ts (x + ?y * ?w) = Some t" by (simp add: map_pos_to_tile_def Let_def)
  with al obtain x' y' where xy: "on_map m x' y'" "x + ?y * ?w = x' + y' * ?w"
    unfolding allocated_def by blast
  have "y = y'"
  proof (cases "?w \<le> x")
    case True
    with xy index_unique [of "x - ?w" ?w x' y y'] x show ?thesis by (simp add: algebra_simps)
  next
    case False
    with xy index_unique [of "x + ?w" ?w x' y y'] index_unique [of x ?w x' y y'] x
    show ?thesis by (cases "x < 0") (simp_all add: algebra_simps)
  qed
  with xy show ?thesis by simp
qed

subsection \<open>Stepping\<close>

abbreviation at_pos :: "map_info \<Rightarrow> tile store \<Rightarrow> tile \<Rightarrow> int \<Rightarrow> int \<Rightarrow> bool" where
  "at_pos m ts t x y \<equiv> on_map m x y \<and> t_x t = Some x \<and> t_y t = Some y
     \<and> t_index t = x + y * m_xsize m \<and> st_get ts (x + y * m_xsize m) = Some t"

definition opposite_dir :: "int \<Rightarrow> int" where
  "opposite_dir dir = 7 - dir"

lemma dir_cases:
  "0 \<le> dir \<Longrightarrow> dir < (8::int) \<Longrightarrow>
     dir = 0 \<or> dir = 1 \<or> dir = 2 \<or> dir = 3 \<or> dir = 4 \<or> dir = 5 \<or> dir = 6 \<or> dir = 7"
  by presburger

lemma is_valid_dir_range: "is_valid_dir m dir \<Longrightarrow> 0 \<le> dir \<and> dir < 8"
  by (auto simp: is_valid_dir_def split: if_splits)

lemma is_valid_dir_opposite: "is_valid_dir m (opposite_dir dir) = is_valid_dir m dir"
  by (auto simp: is_valid_dir_def opposite_dir_def)

lemma dir_vectors_opposite:
  "0 \<le> dir \<Longrightarrow> dir < 8 \<Longrightarrow>
     DIR_DX ! nat (opposite_dir dir) = - (DIR_DX ! nat dir)
     \<and> DIR_DY ! nat (opposite_dir dir) = - (DIR_DY ! nat dir)"
  by (drule (1) dir_cases, elim disjE) (simp_all add: DIR_DX_def DIR_DY_def opposite_dir_def)

lemma dir_vectors_bound:
  "0 \<le> dir \<Longrightarrow> dir < 8 \<Longrightarrow> \<bar>DIR_DX ! nat dir\<bar> \<le> 1 \<and> \<bar>DIR_DY ! nat dir\<bar> \<le> 1"
  by (drule (1) dir_cases, elim disjE) (simp_all add: DIR_DX_def DIR_DY_def)

lemma at_posI:
  assumes "allocated m ts" and "st_get ts k = Some t"
  obtains x y where "at_pos m ts t x y" and "t_index t = k"
  using assms unfolding allocated_def by metis

text \<open>A step from a tile of the map: the column wraps, the row does not.\<close>

lemma mapstep_at:
  assumes al: "allocated m ts" and t: "at_pos m ts t x y" and d: "is_valid_dir m dir"
    and w: "0 < m_xsize m"
  shows "mapstep m ts t dir =
    (if 0 \<le> y + DIR_DY ! nat dir \<and> y + DIR_DY ! nat dir < m_ysize m
     then st_get ts ((x + DIR_DX ! nat dir) mod m_xsize m + (y + DIR_DY ! nat dir) * m_xsize m)
     else None)"
proof -
  let ?x = "DIR_DX ! nat dir + x" and ?y = "DIR_DY ! nat dir + y"
  have b: "\<bar>DIR_DX ! nat dir\<bar> \<le> 1" using dir_vectors_bound is_valid_dir_range [OF d] by blast
  have x: "- m_xsize m \<le> ?x" "?x < 2 * m_xsize m" using b t w by linarith+
  have step: "mapstep m ts t dir = map_pos_to_tile m ts ?x ?y"
    using t d by (simp add: mapstep_def)
  show ?thesis
  proof (cases "0 \<le> ?y \<and> ?y < m_ysize m")
    case True
    then obtain t' where t': "map_pos_to_tile m ts ?x ?y = Some t'"
        "t_index t' = ?x mod m_xsize m + ?y * m_xsize m"
      using map_pos_to_tile_wraps [OF al x, of ?y] by metis
    obtain k where k: "st_get ts k = Some t'"
      using t'(1) by (auto simp: map_pos_to_tile_def Let_def)
    then have "t_index t' = k" using al by (metis at_posI)
    with k t' True step show ?thesis by (simp add: add.commute)
  next
    case False
    then have "map_pos_to_tile m ts ?x ?y = None"
      using map_pos_to_tile_Some [OF al x, of ?y] by (cases "map_pos_to_tile m ts ?x ?y") auto
    with False step show ?thesis by (auto simp: add.commute)
  qed
qed

lemma mapstep_Some_at:
  assumes "allocated m ts" and "at_pos m ts t x y" and "0 < m_xsize m"
    and step: "mapstep m ts t dir = Some t'"
  shows "is_valid_dir m dir \<and>
    at_pos m ts t' ((x + DIR_DX ! nat dir) mod m_xsize m) (y + DIR_DY ! nat dir)"
proof -
  have d: "is_valid_dir m dir" using step by (auto simp: mapstep_def split: if_splits)
  from step mapstep_at [OF assms(1,2) d assms(3)]
  have get: "st_get ts ((x + DIR_DX ! nat dir) mod m_xsize m + (y + DIR_DY ! nat dir) * m_xsize m) = Some t'"
    and y: "0 \<le> y + DIR_DY ! nat dir" "y + DIR_DY ! nat dir < m_ysize m"
    by (auto split: if_splits)
  from at_posI [OF assms(1) get] obtain x' y' where
    at: "at_pos m ts t' x' y'"
    and k: "t_index t' = (x + DIR_DX ! nat dir) mod m_xsize m + (y + DIR_DY ! nat dir) * m_xsize m"
    by metis
  then have "x' = (x + DIR_DX ! nat dir) mod m_xsize m \<and> y' = y + DIR_DY ! nat dir"
    using index_unique [of "(x + DIR_DX ! nat dir) mod m_xsize m" "m_xsize m" x' "y + DIR_DY ! nat dir" y'] assms(3)
    by simp
  with at d show ?thesis by blast
qed

text \<open>
  C28.  On an allocated map every step can be taken back: if a step in direction \<open>dir\<close> from a
  tile leads to another tile, the step in the opposite direction from there leads back to it,
  over the date line as well.
\<close>

theorem mapstep_reversible:
  assumes "allocated m ts" and "at_pos m ts t x y" and "0 < m_xsize m"
    and "mapstep m ts t dir = Some t'"
  shows "mapstep m ts t' (opposite_dir dir) = Some t"
proof -
  have d: "is_valid_dir m dir"
    and at': "at_pos m ts t' ((x + DIR_DX ! nat dir) mod m_xsize m) (y + DIR_DY ! nat dir)"
    using mapstep_Some_at [OF assms] by blast+
  have r: "0 \<le> dir" "dir < 8" using is_valid_dir_range [OF d] by blast+
  have d': "is_valid_dir m (opposite_dir dir)" using d by (simp add: is_valid_dir_opposite)
  have "mapstep m ts t' (opposite_dir dir) =
     st_get ts (((x + DIR_DX ! nat dir) mod m_xsize m - DIR_DX ! nat dir) mod m_xsize m + y * m_xsize m)"
    using mapstep_at [OF assms(1) at' d' assms(3)] dir_vectors_opposite [OF r] assms(2)
    by simp
  also have "((x + DIR_DX ! nat dir) mod m_xsize m - DIR_DX ! nat dir) mod m_xsize m = x"
    using assms(2) by (simp add: mod_diff_left_eq)
  finally show ?thesis using assms(2) by simp
qed


theorem mapstep_reversible_witness:
  "let m = \<lparr>m_topology_id = 0, m_wrap_id = 1, m_xsize = 3, m_ysize = 2\<rparr>
   in mapstep m (map_allocate m) (tile_init 0 0 0) 4 = Some (tile_init 1 1 0)
      \<and> mapstep m (map_allocate m) (tile_init 1 1 0) 3 = Some (tile_init 0 0 0)"
proof -
  let ?m = "\<lparr>m_topology_id = 0, m_wrap_id = 1, m_xsize = 3, m_ysize = 2\<rparr>"
  have at: "at_pos ?m (map_allocate ?m) (tile_init 0 0 0) 0 0"
    by (simp add: map_allocate_get) (simp add: tile_init_def)
  have step: "mapstep ?m (map_allocate ?m) (tile_init 0 0 0) 4 = Some (tile_init 1 1 0)"
    by (simp add: mapstep_def is_valid_dir_def tile_init_def DIR_DX_def DIR_DY_def
        map_pos_to_tile_def) (simp add: map_allocate_get tile_init_def)
  from mapstep_reversible [OF allocated_map_allocate at _ step]
  show ?thesis using step by (simp add: Let_def opposite_dir_def)
qed

subsection \<open>The direction of a step\<close>

text \<open>
  \<open>get_direction_for_step\<close> answers \<open>- 1\<close> exactly when the end tile is no neighbour of the
  start tile; otherwise it answers the first of the eight directions whose step leads there.
\<close>

theorem get_direction_for_step_correct:
  "let d = get_direction_for_step m ts a b;
       leads = (\<lambda>dir. map_option t_index (mapstep m ts a dir) = Some (t_index b))
   in if \<exists>dir. 0 \<le> dir \<and> dir < 8 \<and> leads dir
      then 0 \<le> d \<and> d < 8 \<and> leads d \<and> \<not> (\<exists>d'. 0 \<le> d' \<and> d' < d \<and> leads d')
      else d = - 1"
proof -
  let ?leads = "\<lambda>dir. map_option t_index (mapstep m ts a dir) = Some (t_index b)"
  have find_upto: "(case List.find P [i..7] of Some d \<Rightarrow> i \<le> d \<and> d < 8 \<and> P d \<and> (\<forall>d'. i \<le> d' \<and> d' < d \<longrightarrow> \<not> P d')
      | None \<Rightarrow> (\<forall>d'. i \<le> d' \<and> d' < 8 \<longrightarrow> \<not> P d'))" for P :: "int \<Rightarrow> bool" and i
  proof (induction "nat (8 - i)" arbitrary: i)
    case 0
    then have "8 \<le> i" by simp
    then show ?case by auto
  next
    case (Suc n)
    then have e: "[i..7] = i # [i + 1..7]" by (simp add: upto_rec1)
    have "n = nat (8 - (i + 1))" using Suc(2) by linarith
    from Suc(1) [OF this] show ?case
      unfolding e using Suc(2)
      by (auto split: option.splits) (metis int_one_le_iff_zero_less zle_add1_eq_le add.commute
          le_less zless_imp_add1_zle)+
  qed
  show ?thesis
    using find_upto [where P = ?leads and i = 0]
    by (simp add: get_direction_for_step_def Let_def split: option.splits) blast
qed

subsection \<open>Rotations and names\<close>

lemma dir_cw_ccw: "0 \<le> dir \<Longrightarrow> dir < 8 \<Longrightarrow> dir_ccw (dir_cw dir) = dir \<and> dir_cw (dir_ccw dir) = dir"
  by (drule (1) dir_cases, elim disjE) (simp_all add: dir_cw_def dir_ccw_def)

lemma dir_cw_opposite:
  "0 \<le> dir \<Longrightarrow> dir < 8 \<Longrightarrow> (dir_cw ^^ 4) dir = opposite_dir dir"
  by (drule (1) dir_cases, elim disjE)
    (simp_all add: dir_cw_def opposite_dir_def numeral_eq_Suc)

text \<open>
  Turning clockwise and turning back are inverse, a direction and its half turn (four
  turns) have opposite vectors, and a full turn visits all eight directions.
\<close>

theorem dir_rotation:
  assumes "0 \<le> dir" and "dir < 8"
  shows "dir_ccw (dir_cw dir) = dir \<and> dir_cw (dir_ccw dir) = dir
    \<and> DIR_DX ! nat ((dir_cw ^^ 4) dir) = - (DIR_DX ! nat dir)
    \<and> DIR_DY ! nat ((dir_cw ^^ 4) dir) = - (DIR_DY ! nat dir)
    \<and> {(dir_cw ^^ k) dir |k. k < 8} = {0..7}"
proof -
  have eight: "{(dir_cw ^^ k) dir |k. k < 8} = set (map (\<lambda>k. (dir_cw ^^ k) dir) [0..<8])"
    by auto
  have "set (map (\<lambda>k. (dir_cw ^^ k) dir) [0..<8]) = {0, 1, 2, 3, 4, 5, 6, 7}"
    using dir_cases [OF assms]
    by (elim disjE) (auto simp: dir_cw_def upt_rec numeral_eq_Suc)
  also have "\<dots> = {0..7}" by auto
  finally have "{(dir_cw ^^ k) dir |k. k < 8} = {0..7}" unfolding eight .
  with dir_cw_ccw [OF assms] dir_cw_opposite [OF assms] dir_vectors_opposite [OF assms]
  show ?thesis by simp
qed

theorem dir_rotation_witness:
  "dir_ccw (dir_cw 3) = 3 \<and> DIR_DX ! nat ((dir_cw ^^ 4) 3) = - (DIR_DX ! nat 3)"
  using dir_rotation [of 3] by simp

subsection \<open>Coordinate systems\<close>

lemma parity: "(n::int) AND 1 = n mod 2"
  by (rule and_one_eq)

text \<open>
  Native and map coordinates convert into each other without loss, in both directions,
  for every integer position; natural coordinates convert back from map coordinates.
\<close>

theorem native_map_roundtrip:
  "(case NATIVE_TO_MAP_POS m nx ny of (x, y) \<Rightarrow> MAP_TO_NATIVE_POS m x y) = (nx, ny)
   \<and> (case MAP_TO_NATIVE_POS m x y of (nx, ny) \<Rightarrow> NATIVE_TO_MAP_POS m nx ny) = (x, y)
   \<and> (case MAP_TO_NATURAL_POS m x y of (nx, ny) \<Rightarrow> NATURAL_TO_MAP_POS m nx ny) = (x, y)"
proof -
  have half: "2 * ((n + n mod 2) div 2) = n + n mod 2" for n :: int by presburger
  have "MAP_TO_NATIVE_POS m ((ny + ny mod 2) div 2 + nx) (ny - ((ny + ny mod 2) div 2 + nx) + m_xsize m) = (nx, ny)"
    using half [of ny] by (simp add: MAP_TO_NATIVE_POS_def parity Let_def)
  moreover have "(let q = x + y - m_xsize m in (q + q mod 2) div 2 + (2 * x - q - q mod 2) div 2) = x"
    unfolding Let_def by presburger
  ultimately show ?thesis
    by (simp add: NATIVE_TO_MAP_POS_def MAP_TO_NATIVE_POS_def MAP_TO_NATURAL_POS_def
        NATURAL_TO_MAP_POS_def parity Let_def)
qed

subsection \<open>Distances\<close>

lemma dist_of_kind_nonneg: "0 \<le> dist_of_kind k dx dy"
  by (cases k) auto

lemma dist_of_kind_zero: "dist_of_kind k dx dy = 0 \<longleftrightarrow> dx = 0 \<and> dy = 0"
  by (cases k) (auto simp: max_def)

lemma dist_of_kind_neg: "dist_of_kind k (- dx) (- dy) = dist_of_kind k dx dy"
  by (cases k) auto

lemma dist_iso_hex_max: "dist_of_kind DistIsoHex dx dy = max (max \<bar>dx\<bar> \<bar>dy\<bar>) \<bar>dx - dy\<bar>"
  by (auto simp: max_def)

lemma dist_hex_max: "dist_of_kind DistHex dx dy = max (max \<bar>dx\<bar> \<bar>dy\<bar>) \<bar>dx + dy\<bar>"
  by (auto simp: max_def)

lemma max_add_bound:
  fixes a b c d :: int
  shows "u \<le> a + c \<Longrightarrow> v \<le> b + d \<Longrightarrow> max u v \<le> max a b + max c d"
  by (auto simp: max_def)

lemma dist_of_kind_triangle:
  "dist_of_kind k (a + c) (b + d) \<le> dist_of_kind k a b + dist_of_kind k c d"
proof (cases k)
  case DistIsoHex
  have "\<bar>a + c - (b + d)\<bar> \<le> \<bar>a - b\<bar> + \<bar>c - d\<bar>" by linarith
  then show ?thesis unfolding DistIsoHex dist_iso_hex_max
    by (intro max_add_bound abs_triangle_ineq)
next
  case DistHex
  have "\<bar>a + c + (b + d)\<bar> \<le> \<bar>a + b\<bar> + \<bar>c + d\<bar>" by linarith
  then show ?thesis unfolding DistHex dist_hex_max
    by (intro max_add_bound abs_triangle_ineq)
next
  case DistRect
  show ?thesis unfolding DistRect dist_of_kind.simps
    by (intro max_add_bound abs_triangle_ineq)
qed

text \<open>
  Whatever topology the first call fixed, the vector distance the client computes is a
  metric: zero only for the zero vector, the same in both directions, and it obeys the triangle
  inequality.
\<close>

theorem map_vector_distance_metric:
  "let d = (\<lambda>dx dy. fst (map_vector_to_distance m s dx dy))
   in (d dx dy = 0 \<longleftrightarrow> dx = 0 \<and> dy = 0) \<and> 0 \<le> d dx dy \<and> d (- dx) (- dy) = d dx dy
      \<and> d (dx + ex) (dy + ey) \<le> d dx dy + d ex ey"
  by (simp add: map_vector_to_distance_def Let_def dist_of_kind_nonneg dist_of_kind_zero
      dist_of_kind_neg dist_of_kind_triangle split: option.split del: dist_of_kind.simps)

text \<open>
   The variant is chosen once: after any first call, the distances of a later map with
  another topology are still computed with the first map's rule.
\<close>

theorem map_vector_distance_sticky:
  "fst (map_vector_to_distance m2 (snd (map_vector_to_distance m1 s a b)) dx dy)
     = fst (map_vector_to_distance m1 s dx dy)"
  by (simp add: map_vector_to_distance_def Let_def split: option.split)

text \<open>
   On a map that wraps in x only, \<open>map_distance_vector\<close> returns the horizontal difference
  reduced to the representative nearest to zero (congruent to it modulo the width and within
  half a width) and the plain vertical difference.
\<close>

theorem map_distance_vector_wrap_x:
  assumes "wrap_has_flag m WRAP_X" and "\<not> wrap_has_flag m WRAP_Y" and "0 < m_xsize m"
  shows "case map_distance_vector m a b of (dx, dy) \<Rightarrow>
     (dx - (fst b - fst a)) mod m_xsize m = 0
     \<and> - (m_xsize m div 2) \<le> dx \<and> dx < m_xsize m - m_xsize m div 2
     \<and> dy = snd b - snd a"
proof -
  let ?w = "m_xsize m" and ?d = "fst b - fst a"
  have "map_distance_vector m a b = ((?d + ?w div 2) mod ?w - ?w div 2, snd b - snd a)"
    using assms by (simp add: map_distance_vector_def FC_WRAP_mod Let_def)
  moreover have "((?d + ?w div 2) mod ?w - ?w div 2 - ?d) mod ?w = 0"
    by (metis (no_types, opaque_lifting) add_diff_cancel_right' diff_diff_add add.commute
        mod_diff_left_eq cancel_comm_monoid_add_class.diff_cancel mod_0)
  moreover have "0 \<le> (?d + ?w div 2) mod ?w" "(?d + ?w div 2) mod ?w < ?w"
    using assms(3) by simp_all
  ultimately show ?thesis by simp
qed

theorem map_distance_vector_wrap_x_witness:
  "let m = \<lparr>m_topology_id = 0, m_wrap_id = 1, m_xsize = 80, m_ysize = 50\<rparr>
   in map_distance_vector m (2, 3) (79, 5) = (- 3, 2)
      \<and> - 40 \<le> fst (map_distance_vector m (2, 3) (79, 5))"
proof -
  let ?m = "\<lparr>m_topology_id = 0, m_wrap_id = 1, m_xsize = 80, m_ysize = 50\<rparr>"
  have "wrap_has_flag ?m WRAP_X" "\<not> wrap_has_flag ?m WRAP_Y" "0 < m_xsize ?m"
    by (simp_all add: wrap_has_flag_def)
  from map_distance_vector_wrap_x [OF this, of "(2, 3)" "(79, 5)"]
  show ?thesis
    by (simp add: Let_def map_distance_vector_def wrap_has_flag_def FC_WRAP_def js_rem_def)
qed

text \<open>
  On a map that wraps in y, \<open>map_distance_vector\<close> puts the wrapped vertical difference in
  the horizontal component: the first component no longer depends on the columns of the two
  tiles, and the second is not wrapped.
\<close>

theorem map_distance_vector_wrap_y_misplaced:
  assumes "wrap_has_flag m WRAP_Y"
  shows "map_distance_vector m (x0, y0) (x1, y1) =
     (FC_WRAP (y1 - y0 + m_ysize m div 2) (m_ysize m) - m_ysize m div 2, y1 - y0)"
  using assms by (simp add: map_distance_vector_def Let_def)

theorem map_distance_vector_wrap_y_misplaced_witness:
  "map_distance_vector \<lparr>m_topology_id = 0, m_wrap_id = 2, m_xsize = 80, m_ysize = 50\<rparr> (10, 3) (60, 3)
     = (0, 0)"
  using map_distance_vector_wrap_y_misplaced
    [of "\<lparr>m_topology_id = 0, m_wrap_id = 2, m_xsize = 80, m_ysize = 50\<rparr>" 10 3 60 3]
  by (simp add: wrap_has_flag_def FC_WRAP_def js_rem_def)

end
