(* ===== verification/Terrain.thy ===== *)
theory Terrain
  imports Geometry_Facts "HOL-Library.Monad_Syntax"
begin

text \<open>
  \<open>terrain.js\<close>, \<open>extra.js\<close>, the rest of \<open>tile.js\<close> and the height adjustment of \<open>map.js\<close>.
  A function that reads a property of a terrain or extra that is not loaded throws a
  \<open>TypeError\<close>: its result is an \<open>option\<close>, with \<open>None\<close> for the exception, and a caller that
  does not catch it passes it on (the option monad).  The record \<open>ruleset\<close> holds the ruleset
  dictionaries and the ids that \<open>handle_ruleset_extra\<close> stores in the globals \<open>EXTRA_...\<close>.
\<close>

record ruleset =
  rs_terrains :: "terrain store"
  rs_extras :: "extra store"
  rs_EXTRA_RIVER :: int
  rs_EXTRA_ROAD :: int
  rs_EXTRA_RAIL :: int
  rs_EXTRA_HUT :: int
  rs_EXTRA_AIRBASE :: int

subsection \<open>Extras\<close>

definition extra_by_number :: "extra store \<Rightarrow> int \<Rightarrow> extra option" where
  "extra_by_number extras eid =
     (if eid = EXTRA_NONE then None
      else if 0 \<le> eid \<and> eid < MAX_EXTRA_TYPES then st_get extras eid
      else None)"

definition is_extra_caused_by :: "extra \<Rightarrow> int \<Rightarrow> bool" where
  "is_extra_caused_by pextra cause = bv_isSet (x_causes pextra) cause"

definition is_extra_removed_by :: "extra \<Rightarrow> int \<Rightarrow> bool" where
  "is_extra_removed_by pextra rmcause = bv_isSet (x_rmcauses pextra) rmcause"

text \<open>\<open>pextra['base'] && pextra['base']['border_sq'] > -1\<close>; an undefined extra throws.\<close>

definition territory_claiming_extra :: "extra option \<Rightarrow> bool option" where
  "territory_claiming_extra pextra =
     map_option (\<lambda>x. opt_test (\<lambda>sq. sq > - 1) (x_base x)) pextra"

fun claiming_loop :: "extra store \<Rightarrow> tile option \<Rightarrow> int list \<Rightarrow> bool option" where
  "claiming_loop extras ptile [] = Some False"
| "claiming_loop extras ptile (extra # es) =
     (if tile_has_extra ptile extra
      then do { b \<leftarrow> territory_claiming_extra (extra_by_number extras extra);
                if b then Some True else claiming_loop extras ptile es }
      else claiming_loop extras ptile es)"

definition tile_has_territory_claiming_extra :: "extra store \<Rightarrow> tile option \<Rightarrow> bool option" where
  "tile_has_territory_claiming_extra extras ptile =
     claiming_loop extras ptile [0..MAX_EXTRA_TYPES - 1]"

fun resource_loop :: "extra store \<Rightarrow> int list \<Rightarrow> int option option" where
  "resource_loop extras [] = Some None"
| "resource_loop extras (e # es) =
     (case st_get extras e of None \<Rightarrow> None
      | Some x \<Rightarrow> if is_extra_caused_by x EC_RESOURCE then Some (Some e) else resource_loop extras es)"

definition tile_resource :: "extra store \<Rightarrow> tile option \<Rightarrow> int option option" where
  "tile_resource extras ptile =
     (case ptile of None \<Rightarrow> Some None
      | Some t \<Rightarrow> (case t_extras t of None \<Rightarrow> Some None
                   | Some bv \<Rightarrow> resource_loop extras (bv_toBitSet bv)))"

subsection \<open>Terrain of a tile and around it\<close>

definition tile_terrain :: "terrain store \<Rightarrow> tile \<Rightarrow> terrain option" where
  "tile_terrain terrains ptile = st_get terrains (t_terrain ptile)"

definition tile_set_terrain :: "tile \<Rightarrow> int \<Rightarrow> tile" where
  "tile_set_terrain ptile pterrain = ptile\<lparr>t_terrain := pterrain\<rparr>"

definition is_ocean_tile :: "terrain store \<Rightarrow> tile option \<Rightarrow> bool option" where
  "is_ocean_tile terrains ptile =
     (case ptile of None \<Rightarrow> Some False
      | Some t \<Rightarrow> do { pterrain \<leftarrow> tile_terrain terrains t;
                      Some (te_graphic_str pterrain = ''floor'' \<or> te_graphic_str pterrain = ''coast'') })"

definition tile_terrain_near :: "map_info \<Rightarrow> tile store \<Rightarrow> terrain store \<Rightarrow> tile \<Rightarrow> terrain option list" where
  "tile_terrain_near m ts terrains ptile =
     map (\<lambda>dir. let tile1 = mapstep m ts ptile dir in
            case tile1 of
              Some t1 \<Rightarrow>
                (if tile_get_known (Some t1) \<noteq> Some TILE_UNKNOWN \<and> tile_terrain terrains t1 \<noteq> None
                 then tile_terrain terrains t1 else tile_terrain terrains ptile)
            | None \<Rightarrow> tile_terrain terrains ptile) [0..7]"

text \<open>The three loops over the eight directions stop at the first hit.\<close>

fun near_loop :: "(tile option \<Rightarrow> bool option) \<Rightarrow> map_info \<Rightarrow> tile store \<Rightarrow> tile \<Rightarrow> int list \<Rightarrow> bool option" where
  "near_loop P m ts ptile [] = Some False"
| "near_loop P m ts ptile (dir # ds) =
     do { b \<leftarrow> P (mapstep m ts ptile dir);
          if b then Some True else near_loop P m ts ptile ds }"

definition is_ocean_tile_near :: "map_info \<Rightarrow> tile store \<Rightarrow> terrain store \<Rightarrow> tile \<Rightarrow> bool option" where
  "is_ocean_tile_near m ts terrains ptile = near_loop (is_ocean_tile terrains) m ts ptile [0..7]"

definition is_land_tile_near :: "map_info \<Rightarrow> tile store \<Rightarrow> terrain store \<Rightarrow> tile \<Rightarrow> bool option" where
  "is_land_tile_near m ts terrains ptile =
     near_loop (\<lambda>t. map_option Not (is_ocean_tile terrains t)) m ts ptile [0..7]"

definition is_river_tile_near :: "map_info \<Rightarrow> tile store \<Rightarrow> int \<Rightarrow> tile \<Rightarrow> bool option" where
  "is_river_tile_near m ts EXTRA_RIVER ptile =
     near_loop (\<lambda>t. Some (tile_has_extra t EXTRA_RIVER)) m ts ptile [0..7]"

subsection \<open>Height of a tile\<close>

text \<open>Server heights to the scale of the client (lines up to the special terrains).\<close>

definition base_height :: "bool \<Rightarrow> real \<Rightarrow> real" where
  "base_height ocean h =
     (if h = 0 then (if ocean then 0.45 else 0.55)
      else let h' = (840 + h) * 0.00037
           in if ocean \<and> h' > 0.5 then 0.45
              else if \<not> ocean \<and> h' < 0.5 then 0.57
              else h')"

definition terrain_height :: "bool \<Rightarrow> string \<Rightarrow> real \<Rightarrow> real" where
  "terrain_height river name h =
     (let h' = (if river then 0.488
                else if name = ''Hills'' then h * 1.11
                else if name = ''Mountains'' then h * 1.17
                else if name = ''Glacier'' \<or> name = ''Tundra'' then 0.52
                else h)
      in if h' < 0.4 then 0.4 else h')"

text \<open>The coast rules: what is ocean, land or river near the tile.\<close>

definition coast_height :: "bool \<Rightarrow> bool \<Rightarrow> bool \<Rightarrow> bool \<Rightarrow> bool \<Rightarrow> real \<Rightarrow> real" where
  "coast_height ocean river ocean_near land_near river_near h =
     (let h1 = (if ocean \<and> land_near then 0.45 else h);
          h2 = (if \<not> ocean \<and> ocean_near \<and> \<not> river then 0.55 else h1);
          h3 = (if \<not> ocean \<and> ocean_near \<and> river then h2 * 1.007 else h2);
          h4 = (if ocean \<and> land_near \<and> river_near then h3 * 1.04 else h3)
      in h4)"

definition map_tile_height_adjust ::
    "map_info \<Rightarrow> tile store \<Rightarrow> ruleset \<Rightarrow> tile \<Rightarrow> tile option" where
  "map_tile_height_adjust m ts rs ptile =
     (case tile_terrain (rs_terrains rs) ptile of
        None \<Rightarrow> Some ptile
      | Some pterrain \<Rightarrow>
          do { ocean \<leftarrow> is_ocean_tile (rs_terrains rs) (Some ptile);
               let river = tile_has_extra (Some ptile) (rs_EXTRA_RIVER rs);
               let h = terrain_height river (te_name pterrain) (base_height ocean (t_height ptile));
               land_near \<leftarrow> (if ocean then is_land_tile_near m ts (rs_terrains rs) ptile else Some False);
               ocean_near \<leftarrow> (if ocean then Some False else is_ocean_tile_near m ts (rs_terrains rs) ptile);
               river_near \<leftarrow> (if ocean \<and> land_near then is_river_tile_near m ts (rs_EXTRA_RIVER rs) ptile
                              else Some False);
               Some (ptile\<lparr>t_height := coast_height ocean river ocean_near land_near river_near h\<rparr>) })"

subsection \<open>Facts\<close>

lemma near_loop_no_coordinates:
  assumes "t_x ptile = None" and "P None = Some b"
  shows "near_loop P m ts ptile (d # ds) = Some b \<or> \<not> b"
  using assms by (simp add: mapstep_def)

lemma mapstep_no_coordinates: "t_x ptile = None \<Longrightarrow> mapstep m ts ptile dir = None"
  by (simp add: mapstep_def)

lemma near_loop_False: "(\<And>d. d \<in> set ds \<Longrightarrow> P (mapstep m ts ptile d) = Some False) \<Longrightarrow>
    near_loop P m ts ptile ds = Some False"
  by (induction ds) auto

lemma near_loop_True: "P (mapstep m ts ptile d) = Some True \<Longrightarrow> near_loop P m ts ptile (d # ds) = Some True"
  by simp

lemma dirs_unfold: "[0..7::int] = [0, 1, 2, 3, 4, 5, 6, 7]"
  by (simp add: upto_rec1)

lemma is_land_near_no_coordinates:
  "t_x ptile = None \<Longrightarrow> is_land_tile_near m ts terrains ptile = Some True"
  by (simp add: is_land_tile_near_def dirs_unfold mapstep_no_coordinates is_ocean_tile_def)

lemma is_ocean_near_no_coordinates:
  "t_x ptile = None \<Longrightarrow> is_ocean_tile_near m ts terrains ptile = Some False"
  unfolding is_ocean_tile_near_def
  by (rule near_loop_False) (simp add: mapstep_no_coordinates is_ocean_tile_def)

lemma is_river_near_no_coordinates:
  "t_x ptile = None \<Longrightarrow> is_river_tile_near m ts river ptile = Some False"
  unfolding is_river_tile_near_def
  by (rule near_loop_False) (simp add: mapstep_no_coordinates tile_has_extra_def)

lemma terrain_height_ge: "0.4 \<le> terrain_height river name h"
  by (simp add: terrain_height_def Let_def)

lemma coast_height_ge: "0.4 \<le> h \<Longrightarrow> 0.4 \<le> coast_height oc ri onear lnear rnear h"
  by (auto simp: coast_height_def Let_def)

lemma coast_height_ocean_le:
  "h \<le> 0.5 \<Longrightarrow> coast_height True river onear lnear rnear h \<le> 0.5"
  by (auto simp: coast_height_def Let_def)

lemma is_ocean_of_terrain:
  "tile_terrain terrains t = Some te \<Longrightarrow>
     is_ocean_tile terrains (Some t) = Some (te_graphic_str te = ''floor'' \<or> te_graphic_str te = ''coast'')"
  by (simp add: is_ocean_tile_def)

text \<open>
   The height the client stores for a tile never falls below the sea floor level 0.4,
  whatever height the server sent and whatever lies around the tile.
\<close>

theorem adjusted_height_floor:
  assumes "tile_terrain (rs_terrains rs) t = Some te"
    and "map_tile_height_adjust m ts rs t = Some t'"
  shows "0.4 \<le> t_height t' \<and> t' = t\<lparr>t_height := t_height t'\<rparr>"
proof -
  from assms obtain oc ri a b c h where
    "t' = t\<lparr>t_height := coast_height oc ri a b c (terrain_height ri (te_name te) h)\<rparr>"
    by (auto simp: map_tile_height_adjust_def Let_def split: bind_splits if_splits)
  then show ?thesis using coast_height_ge [OF terrain_height_ge] by simp
qed

theorem adjusted_height_floor_witness:
  "let m = \<lparr>m_topology_id = 0, m_wrap_id = 1, m_xsize = 3, m_ysize = 2\<rparr>;
       hills = \<lparr>te_id = 0, te_name = ''Hills'', te_graphic_str = ''hills'', te_graphic_alt = ''-'',
                te_pillage_time = 1\<rparr>;
       rs = \<lparr>rs_terrains = [(0, hills)], rs_extras = [], rs_EXTRA_RIVER = 1, rs_EXTRA_ROAD = 2,
             rs_EXTRA_RAIL = 3, rs_EXTRA_HUT = 4, rs_EXTRA_AIRBASE = 5\<rparr>
   in \<exists>t'. map_tile_height_adjust m [] rs (tile_init 0 0 0) = Some t' \<and> 0.4 \<le> t_height t'"
proof -
  let ?m = "\<lparr>m_topology_id = 0, m_wrap_id = 1, m_xsize = 3, m_ysize = 2\<rparr>"
  let ?hills = "\<lparr>te_id = 0, te_name = ''Hills'', te_graphic_str = ''hills'', te_graphic_alt = ''-'',
                te_pillage_time = 1\<rparr>"
  let ?rs = "\<lparr>rs_terrains = [(0, ?hills)], rs_extras = [], rs_EXTRA_RIVER = 1, rs_EXTRA_ROAD = 2,
             rs_EXTRA_RAIL = 3, rs_EXTRA_HUT = 4, rs_EXTRA_AIRBASE = 5\<rparr>"
  have te: "tile_terrain (rs_terrains ?rs) (tile_init 0 0 0) = Some ?hills"
    by (simp add: tile_terrain_def tile_init_def st_get_def)
  have "mapstep ?m [] t d = None" for t d
    by (simp add: mapstep_def map_pos_to_tile_def st_get_def split: option.split)
  then have near: "is_ocean_tile_near ?m [] (rs_terrains ?rs) (tile_init 0 0 0) = Some False"
    unfolding is_ocean_tile_near_def by (intro near_loop_False) (simp add: is_ocean_tile_def)
  have "map_tile_height_adjust ?m [] ?rs (tile_init 0 0 0) \<noteq> None"
    unfolding map_tile_height_adjust_def te is_ocean_of_terrain [OF te] near by (simp add: Let_def)
  then obtain t' where t': "map_tile_height_adjust ?m [] ?rs (tile_init 0 0 0) = Some t'"
    by blast
  show ?thesis
    unfolding Let_def using adjusted_height_floor [OF te t'] t' by blast
qed

text \<open>
   \<open>handle_tile_info\<close> adjusts the packet, not the tile, and a tile packet has no
  coordinates.  Then nothing around the tile is seen: every neighbour is taken for land, so
  every ocean tile gets height 0.45 and no land tile gets the coast height from a neighbouring
  ocean tile; the tiles of the map play no part.
\<close>

theorem packet_height_ignores_neighbours:
  assumes "t_x t = None" and "tile_terrain (rs_terrains rs) t = Some te"
  shows "map_tile_height_adjust m ts rs t =
     Some (t\<lparr>t_height :=
       (if te_graphic_str te = ''floor'' \<or> te_graphic_str te = ''coast'' then 0.45
        else terrain_height (tile_has_extra (Some t) (rs_EXTRA_RIVER rs)) (te_name te)
               (base_height False (t_height t)))\<rparr>)"
  using assms
  by (auto simp: map_tile_height_adjust_def is_ocean_of_terrain is_land_near_no_coordinates
      is_ocean_near_no_coordinates is_river_near_no_coordinates coast_height_def)

theorem packet_height_ignores_neighbours_witness:
  "let deep = \<lparr>te_id = 2, te_name = ''Deep Ocean'', te_graphic_str = ''floor'', te_graphic_alt = ''-'',
                te_pillage_time = 0\<rparr>;
       rs = \<lparr>rs_terrains = [(2, deep)], rs_extras = [], rs_EXTRA_RIVER = 1, rs_EXTRA_ROAD = 2,
             rs_EXTRA_RAIL = 3, rs_EXTRA_HUT = 4, rs_EXTRA_AIRBASE = 5\<rparr>;
       packet = (tile_init 7 0 0)\<lparr>t_x := None, t_y := None, t_terrain := 2, t_height := 100\<rparr>
   in map_tile_height_adjust \<lparr>m_topology_id = 0, m_wrap_id = 1, m_xsize = 3, m_ysize = 2\<rparr> [] rs packet
        = Some (packet\<lparr>t_height := 0.45\<rparr>)"
  unfolding Let_def
  by (subst packet_height_ignores_neighbours [where te = "\<lparr>te_id = 2, te_name = ''Deep Ocean'',
        te_graphic_str = ''floor'', te_graphic_alt = ''-'', te_pillage_time = 0\<rparr>"])
    (simp_all add: tile_terrain_def tile_init_def st_get_def)

end
