(* ===== verification/Client.thy ===== *)
theory Client
  imports Terrain
begin

text \<open>
  The global variables of the client that several components share, and the effects of the
  code outside them.  A handler appends to \<open>cl_out\<close>, in order, the requests it sends to the
  server (\<open>send_request(JSON.stringify(packet))\<close>) and its calls of the user interface (jQuery
  widgets, dialogs, the 3D scene), which the model names and does not describe.  A request is
  the JSON object with its fields in order; the packet numbers are generated by the build, so
  a \<open>pid\<close> is the name of its constant.
  A handler that can throw (a property of \<open>null\<close> or \<open>undefined\<close> is read) returns an option,
  \<open>None\<close> when it throws.
\<close>

datatype jval = JNum int | JStr string | JBool bool | JNull | JConst string
  | JArr "jval list" | JObj "(string \<times> jval) list"

type_synonym packet = "(string \<times> jval) list"

datatype effect = Send packet | SendNull | Ui string "jval list"

record client =
  cl_map :: map_info
  cl_dist :: dist_state
  cl_tiles :: "tile store"
  cl_units :: "unit_rec store"
  cl_cities :: "city store"
  cl_players :: "player store"
  cl_ruleset :: ruleset
  cl_unit_types :: "unit_type store"
  cl_improvements :: "improvement store"
  cl_num_impr_types :: int
  cl_actions :: "action store"
  cl_techs :: "tech store"
  cl_governments :: "government store"
  cl_nations :: "nation store"
  cl_city_rules :: "string store"  \<comment> \<open>the rule name of each city style\<close>
  cl_research :: "research store"
  cl_turn :: int
  cl_team_pooled_research :: bool
  cl_client_state :: int
  cl_playing :: "int option"  \<comment> \<open>\<open>client.conn.playing\<close>, by player number\<close>
  cl_observer :: bool
  cl_out :: "effect list"

definition emit :: "effect \<Rightarrow> 'a client_scheme \<Rightarrow> 'a client_scheme" where
  "emit e s = s\<lparr>cl_out := cl_out s @ [e]\<rparr>"

definition emits :: "effect list \<Rightarrow> 'a client_scheme \<Rightarrow> 'a client_scheme" where
  "emits es s = s\<lparr>cl_out := cl_out s @ es\<rparr>"

lemma emit_frame [simp, frame_simps]:
  "cl_map (emit e s) = cl_map s" "cl_dist (emit e s) = cl_dist s" "cl_tiles (emit e s) = cl_tiles s"
  "cl_units (emit e s) = cl_units s" "cl_cities (emit e s) = cl_cities s"
  "cl_players (emit e s) = cl_players s" "cl_playing (emit e s) = cl_playing s"
  "cl_unit_types (emit e s) = cl_unit_types s" "cl_turn (emit e s) = cl_turn s"
  "cl_out (emit e s) = cl_out s @ [e]" "client.more (emit e s) = client.more s"
  "cl_client_state (emit e s) = cl_client_state s" "cl_observer (emit e s) = cl_observer s"
  by (simp_all add: emit_def)

lemma emits_frame [simp, frame_simps]:
  "cl_map (emits es s) = cl_map s" "cl_dist (emits es s) = cl_dist s" "cl_tiles (emits es s) = cl_tiles s"
  "cl_units (emits es s) = cl_units s" "cl_cities (emits es s) = cl_cities s"
  "cl_players (emits es s) = cl_players s" "cl_playing (emits es s) = cl_playing s"
  "cl_unit_types (emits es s) = cl_unit_types s" "cl_turn (emits es s) = cl_turn s"
  "cl_out (emits es s) = cl_out s @ es" "client.more (emits es s) = client.more s"
  "cl_client_state (emits es s) = cl_client_state s" "cl_observer (emits es s) = cl_observer s"
  by (simp_all add: emits_def)

lemma emits_Nil [simp]: "emits [] s = s"
  by (simp add: emits_def)

text \<open>The packets among the effects.\<close>

fun sent :: "effect list \<Rightarrow> packet list" where
  "sent [] = []"
| "sent (Send p # es) = p # sent es"
| "sent (SendNull # es) = sent es"
| "sent (Ui f args # es) = sent es"

lemma sent_append [simp]: "sent (a @ b) = sent a @ sent b"
  by (induction a rule: sent.induct) simp_all

text \<open>The object in \<open>client.conn.playing\<close>.\<close>

definition playing :: "'a client_scheme \<Rightarrow> player option" where
  "playing s = Option.bind (cl_playing s) (st_get (cl_players s))"

end
