(* ===== verification/Worklist.thy ===== *)
theory Worklist
  imports Client "HOL-Library.Multiset"
begin

text \<open>
  The production tab of the city dialog (\<open>city.js\<close>): the selections in the production list
  and in the worklist, and the operations that edit the worklist of the open city and send it
  to the server.  The open city is its id; the operations edit the object stored in
  \<open>cities\<close>.  A worklist element is an option, since some operations can write \<open>undefined\<close>.
\<close>

record city_client = client +
  ui_active_city :: "int option"
  ui_production_selection :: "universal list"
  ui_worklist_selection :: "int list"

definition MAX_LEN_WORKLIST :: int where
  "MAX_LEN_WORKLIST = 64"

subsection \<open>The buttons\<close>

definition ui_button :: "string \<Rightarrow> bool \<Rightarrow> effect" where
  "ui_button name enable =
     Ui ''button'' [JStr name, JStr (if enable then ''enable'' else ''disable'')]"

definition ui_prop_disabled :: "string \<Rightarrow> bool \<Rightarrow> effect" where
  "ui_prop_disabled caption disabled = Ui ''prop_disabled'' [JStr caption, JBool disabled]"

text \<open>\<open>active_city['worklist']\<close> throws when no city is open.\<close>

definition active_city :: "'a city_client_scheme \<Rightarrow> city option" where
  "active_city s = Option.bind (ui_active_city s) (st_get (cl_cities s))"

definition update_worklist_actions :: "'a city_client_scheme \<Rightarrow> 'a city_client_scheme option" where
  "update_worklist_actions s =
     (let sel = ui_worklist_selection s; prod = ui_production_selection s in do {
        es1 \<leftarrow>
          (if length sel > 0 then do {
             c \<leftarrow> active_city s;
             Some [ui_button ''#city_worklist_up_btn'' True,
                   ui_button ''#city_worklist_remove_btn'' True,
                   ui_button ''#city_worklist_down_btn''
                     (\<not> (last sel = int (length (c_worklist c)) - 1))]
           }
           else Some [ui_button ''#city_worklist_up_btn'' False,
                      ui_button ''#city_worklist_down_btn'' False,
                      ui_button ''#city_worklist_exchange_btn'' False,
                      ui_button ''#city_worklist_remove_btn'' False]);
        let es2 =
          (if length prod > 0 then
             [ui_button ''#city_add_to_worklist_btn'' True,
              ui_button ''#city_worklist_insert_btn'' True,
              ui_button ''#city_worklist_exchange_btn''
                (length prod = length sel \<or> length sel = 1)]
           else
             [ui_button ''#city_add_to_worklist_btn'' False,
              ui_button ''#city_worklist_insert_btn'' False,
              ui_button ''#city_worklist_exchange_btn'' False]);
        let es3 =
          [ui_prop_disabled ''Change production'' (length prod \<noteq> 1),
           ui_prop_disabled ''Add to worklist'' (length prod \<noteq> 1)];
        Some (emits (es1 @ es2 @ es3) s)
      })"

subsection \<open>Selections\<close>

fun find_universal_from :: "nat \<Rightarrow> universal \<Rightarrow> universal list \<Rightarrow> int" where
  "find_universal_from i u [] = - 1"
| "find_universal_from i u (w # ws) =
     (if un_kind w = un_kind u \<and> un_value w = un_value u then int i
      else find_universal_from (Suc i) u ws)"

definition find_universal_in_worklist :: "universal \<Rightarrow> universal list \<Rightarrow> int" where
  "find_universal_in_worklist u worklist = find_universal_from 0 u worklist"

definition handle_worklist_select :: "universal \<Rightarrow> 'a city_client_scheme \<Rightarrow> 'a city_client_scheme option" where
  "handle_worklist_select selected s =
     (let idx = find_universal_in_worklist selected (ui_production_selection s)
      in if idx < 0
         then update_worklist_actions
                (s\<lparr>ui_production_selection := ui_production_selection s @ [selected]\<rparr>)
         else Some s)"

definition handle_worklist_unselect :: "universal \<Rightarrow> 'a city_client_scheme \<Rightarrow> 'a city_client_scheme option" where
  "handle_worklist_unselect selected s =
     (let idx = find_universal_in_worklist selected (ui_production_selection s)
      in if idx \<ge> 0
         then update_worklist_actions
                (s\<lparr>ui_production_selection := js_splice idx 1 [] (ui_production_selection s)\<rparr>)
         else Some s)"

text \<open>The loops below run from the end of the selection; their lists are reversed.\<close>

fun select_from_end :: "int \<Rightarrow> int list \<Rightarrow> int list option" where
  "select_from_end idx [] = Some [idx]"
| "select_from_end idx (x # xs) =
     (if x > idx then map_option ((#) x) (select_from_end idx xs)
      else if x < idx then Some (idx # x # xs)
      else None)"

definition handle_current_worklist_select :: "int \<Rightarrow> 'a city_client_scheme \<Rightarrow> 'a city_client_scheme option" where
  "handle_current_worklist_select idx s =
     (case select_from_end idx (rev (ui_worklist_selection s)) of
        Some sel \<Rightarrow> update_worklist_actions (s\<lparr>ui_worklist_selection := rev sel\<rparr>)
      | None \<Rightarrow> Some s)"

fun unselect_from_end :: "int \<Rightarrow> int list \<Rightarrow> int list option" where
  "unselect_from_end idx [] = None"
| "unselect_from_end idx (x # xs) =
     (if x > idx then map_option ((#) x) (unselect_from_end idx xs)
      else if x = idx then Some xs
      else None)"

definition handle_current_worklist_unselect :: "int \<Rightarrow> 'a city_client_scheme \<Rightarrow> 'a city_client_scheme option" where
  "handle_current_worklist_unselect idx s =
     (case unselect_from_end idx (rev (ui_worklist_selection s)) of
        Some sel \<Rightarrow> update_worklist_actions (s\<lparr>ui_worklist_selection := rev sel\<rparr>)
      | None \<Rightarrow> Some s)"

definition handle_current_worklist_click :: "int \<Rightarrow> 'a city_client_scheme \<Rightarrow> 'a city_client_scheme option" where
  "handle_current_worklist_click item s =
     (if length (ui_worklist_selection s) = 1 \<and> ui_worklist_selection s ! 0 = item
      then update_worklist_actions (s\<lparr>ui_worklist_selection := []\<rparr>)
      else update_worklist_actions (s\<lparr>ui_worklist_selection := [item]\<rparr>))"

subsection \<open>Requests\<close>

definition universal_json :: "universal option \<Rightarrow> jval" where
  "universal_json u = (case u of None \<Rightarrow> JNull
     | Some w \<Rightarrow> JObj [(''kind'', JNum (un_kind w)), (''value'', JNum (un_value w))])"

definition worklist_packet :: "int \<Rightarrow> universal option list \<Rightarrow> packet" where
  "worklist_packet city_id worklist =
     [(''pid'', JConst ''packet_city_worklist''), (''city_id'', JNum city_id),
      (''worklist'', JArr (map universal_json worklist))]"

definition set_worklist :: "int \<Rightarrow> universal option list \<Rightarrow> 'a city_client_scheme \<Rightarrow> 'a city_client_scheme" where
  "set_worklist city_id wl s =
     s\<lparr>cl_cities := st_upd city_id (\<lambda>c. c\<lparr>c_worklist := wl\<rparr>) (cl_cities s)\<rparr>"

definition send_city_worklist :: "int \<Rightarrow> 'a city_client_scheme \<Rightarrow> 'a city_client_scheme option" where
  "send_city_worklist city_id s = do {
     c \<leftarrow> st_get (cl_cities s) city_id;
     let worklist = c_worklist c;
     let overflow = int (length worklist) - MAX_LEN_WORKLIST;
     let wl = (if overflow > 0 then js_splice MAX_LEN_WORKLIST (nat overflow) [] worklist
               else worklist);
     Some (emit (Send (worklist_packet city_id wl)) (set_worklist city_id wl s))
   }"

definition send_city_worklist_add ::
    "int \<Rightarrow> int \<Rightarrow> int \<Rightarrow> 'a city_client_scheme \<Rightarrow> 'a city_client_scheme option" where
  "send_city_worklist_add city_id kind val s = do {
     c \<leftarrow> st_get (cl_cities s) city_id;
     if int (length (c_worklist c)) \<ge> MAX_LEN_WORKLIST then Some s
     else send_city_worklist city_id
            (set_worklist city_id (c_worklist c @ [Some \<lparr>un_kind = kind, un_value = val\<rparr>]) s)
   }"

definition send_city_change :: "int \<Rightarrow> int \<Rightarrow> int \<Rightarrow> 'a client_scheme \<Rightarrow> 'a client_scheme" where
  "send_city_change city_id kind val s =
     emit (Send [(''pid'', JConst ''packet_city_change''), (''city_id'', JNum city_id),
                 (''production_kind'', JNum kind), (''production_value'', JNum val)]) s"

definition city_change_production :: "'a city_client_scheme \<Rightarrow> 'a city_client_scheme option" where
  "city_change_production s =
     (case ui_production_selection s of
        [u] \<Rightarrow> (case ui_active_city s of None \<Rightarrow> None
                | Some cid \<Rightarrow> Some (send_city_change cid (un_kind u) (un_value u) s))
      | _ \<Rightarrow> Some s)"

subsection \<open>Editing\<close>

definition city_add_to_worklist :: "'a city_client_scheme \<Rightarrow> 'a city_client_scheme option" where
  "city_add_to_worklist s =
     (if length (ui_production_selection s) > 0 then do {
        cid \<leftarrow> ui_active_city s;
        c \<leftarrow> st_get (cl_cities s) cid;
        send_city_worklist cid
          (set_worklist cid (c_worklist c @ map Some (ui_production_selection s)) s)
      } else Some s)"

text \<open>The selected indices above the removed one move down, the removed one leaves.\<close>

fun shift_from_end :: "int \<Rightarrow> int list \<Rightarrow> int list" where
  "shift_from_end idx [] = []"
| "shift_from_end idx (x # xs) =
     (if x > idx then (x - 1) # shift_from_end idx xs
      else if x = idx then xs
      else x # xs)"

definition handle_current_worklist_direct_remove ::
    "int \<Rightarrow> 'a city_client_scheme \<Rightarrow> 'a city_client_scheme option" where
  "handle_current_worklist_direct_remove idx s = do {
     cid \<leftarrow> ui_active_city s;
     c \<leftarrow> st_get (cl_cities s) cid;
     let s1 = set_worklist cid (js_splice idx 1 [] (c_worklist c)) s;
     let s2 = s1\<lparr>ui_worklist_selection :=
                   rev (shift_from_end idx (rev (ui_worklist_selection s1)))\<rparr>;
     send_city_worklist cid s2
   }"

definition city_insert_in_worklist :: "'a city_client_scheme \<Rightarrow> 'a city_client_scheme option" where
  "city_insert_in_worklist s =
     (let prod = ui_production_selection s;
          count = min (int (length prod)) MAX_LEN_WORKLIST
      in if count = 0 then Some s
         else do {
           cid \<leftarrow> ui_active_city s;
           c \<leftarrow> st_get (cl_cities s) cid;
           let wl = c_worklist c;
           let s1 =
             (case ui_worklist_selection s of
                [] \<Rightarrow> (set_worklist cid (js_splice 0 0 (map Some prod) wl) s)
                         \<lparr>ui_worklist_selection := map int [0..<nat count]\<rparr>
              | i # is \<Rightarrow> (set_worklist cid (js_splice i 0 (map Some prod) wl) s)
                         \<lparr>ui_worklist_selection := map (\<lambda>j. j + count) (i # is)\<rparr>);
           send_city_worklist cid s1
         })"

fun task_up_loop :: "universal option list \<Rightarrow> int list \<Rightarrow> universal option list \<times> int list" where
  "task_up_loop wl [] = (wl, [])"
| "task_up_loop wl (task_idx # ts) =
     (let swap = js_at wl (task_idx - 1);
          wl1 = js_put wl (task_idx - 1) (js_at wl task_idx);
          wl2 = js_put wl1 task_idx swap;
          (wl', ts') = task_up_loop wl2 ts
      in (wl', (task_idx - 1) # ts'))"

definition city_worklist_task_up :: "'a city_client_scheme \<Rightarrow> 'a city_client_scheme option" where
  "city_worklist_task_up s =
     (case ui_worklist_selection s of
        [] \<Rightarrow> Some s
      | t # ts \<Rightarrow> do {
          cid \<leftarrow> ui_active_city s;
          c \<leftarrow> st_get (cl_cities s) cid;
          let wl = c_worklist c;
          (wl1, sel1, s1) \<leftarrow>
            (if t = 0 then do {
               w \<leftarrow> js_at wl 0;
               Some (if un_kind w \<noteq> c_production_kind c \<or> un_value w \<noteq> c_production_value c
                     then (js_put wl 0 (Some \<lparr>un_kind = c_production_kind c,
                                              un_value = c_production_value c\<rparr>),
                           ts, send_city_change cid (un_kind w) (un_value w) s)
                     else (wl, ts, s))
             } else Some (wl, t # ts, s));
          let (wl2, sel2) = task_up_loop wl1 sel1;
          send_city_worklist cid ((set_worklist cid wl2 s1)\<lparr>ui_worklist_selection := sel2\<rparr>)
        })"

fun task_down_loop :: "universal option list \<Rightarrow> int list \<Rightarrow> universal option list \<times> int list" where
  "task_down_loop wl [] = (wl, [])"
| "task_down_loop wl (task_idx # ts) =
     (let swap = js_at wl (task_idx + 1);
          wl1 = js_put wl (task_idx + 1) (js_at wl task_idx);
          wl2 = js_put wl1 task_idx swap;
          (wl', ts') = task_down_loop wl2 ts
      in (wl', (task_idx + 1) # ts'))"

definition city_worklist_task_down :: "'a city_client_scheme \<Rightarrow> 'a city_client_scheme option" where
  "city_worklist_task_down s =
     (if ui_worklist_selection s = [] then Some s
      else do {
        cid \<leftarrow> ui_active_city s;
        c \<leftarrow> st_get (cl_cities s) cid;
        let wl = c_worklist c;
        if last (ui_worklist_selection s) = int (length wl) - 1 then Some s
        else (let (wl2, sel2) = task_down_loop wl (rev (ui_worklist_selection s))
              in send_city_worklist cid
                   ((set_worklist cid wl2 s)\<lparr>ui_worklist_selection := rev sel2\<rparr>))
      })"

text \<open>The loop of the one-for-one exchange; \<open>same\<close> stays true while nothing changes.\<close>

fun exchange_loop :: "universal option list \<Rightarrow> bool \<Rightarrow> (int \<times> universal) list
    \<Rightarrow> (universal option list \<times> bool) option" where
  "exchange_loop wl same [] = Some (wl, same)"
| "exchange_loop wl same ((i, u) # rest) =
     (if same
      then (case js_at wl i of
              None \<Rightarrow> None
            | Some w \<Rightarrow> exchange_loop (js_put wl i (Some u))
                          (\<not> (un_kind w \<noteq> un_kind u \<or> un_value w \<noteq> un_value u)) rest)
      else exchange_loop (js_put wl i (Some u)) False rest)"

definition city_exchange_worklist_task :: "'a city_client_scheme \<Rightarrow> 'a city_client_scheme option" where
  "city_exchange_worklist_task s =
     (let prod = ui_production_selection s; sel = ui_worklist_selection s
      in if prod = [] then Some s
         else do {
           cid \<leftarrow> ui_active_city s;
           c \<leftarrow> st_get (cl_cities s) cid;
           let wl = c_worklist c;
           if length prod = length sel then do {
             (wl', same) \<leftarrow> exchange_loop wl True (zip sel prod);
             let s1 = set_worklist cid wl' s;
             if same then Some s1 else send_city_worklist cid s1
           }
           else if length sel = 1 then
             send_city_worklist cid
               ((set_worklist cid (js_splice (sel ! 0) 1 (map Some prod) wl) s)
                  \<lparr>ui_worklist_selection :=
                     sel @ map (\<lambda>k. sel ! 0 + 1 + int k) [0..<length prod - 1]\<rparr>)
           else Some s
         })"

definition city_worklist_task_remove :: "'a city_client_scheme \<Rightarrow> 'a city_client_scheme option" where
  "city_worklist_task_remove s =
     (if ui_worklist_selection s = [] then Some s
      else do {
        cid \<leftarrow> ui_active_city s;
        c \<leftarrow> st_get (cl_cities s) cid;
        let wl = foldl (\<lambda>wl i. js_splice i 1 [] wl) (c_worklist c) (rev (ui_worklist_selection s));
        send_city_worklist cid ((set_worklist cid wl s)\<lparr>ui_worklist_selection := []\<rparr>)
      })"

subsection \<open>Rendering the tab\<close>

text \<open>
  The items of the list \<open>city_worklist_dialog\<close> shows (the loop over the worklist): name, kind,
  value and displayed cost, \<open>None\<close> for the dash.  An undefined element or an unknown building
  or unit throws.  An element of another kind is skipped.
\<close>

fun universals_list_loop :: "'a client_scheme \<Rightarrow> universal option list
    \<Rightarrow> (string \<times> int \<times> int \<times> int option) list option" where
  "universals_list_loop s [] = Some []"
| "universals_list_loop s (None # ws) = None"
| "universals_list_loop s (Some w # ws) =
     (if un_kind w = VUT_IMPROVEMENT then do {
        pimpr \<leftarrow> st_get (cl_improvements s) (un_value w);
        let build_cost = (if im_name pimpr = ''Coinage'' then None else Some (im_build_cost pimpr));
        rest \<leftarrow> universals_list_loop s ws;
        Some ((im_name pimpr, un_kind w, un_value w, build_cost) # rest)
      }
      else if un_kind w = VUT_UTYPE then do {
        putype \<leftarrow> st_get (cl_unit_types s) (un_value w);
        rest \<leftarrow> universals_list_loop s ws;
        Some ((ut_name putype, un_kind w, un_value w, Some (ut_build_cost putype)) # rest)
      }
      else universals_list_loop s ws)"

text \<open>The loop that marks the selected items and cuts the selection at the first index that is
  no longer there.\<close>

fun clamp_selection :: "int \<Rightarrow> int list \<Rightarrow> int list" where
  "clamp_selection max_selection [] = []"
| "clamp_selection max_selection (k # ks) =
     (if k \<ge> max_selection then [] else k # clamp_selection max_selection ks)"

definition city_worklist_dialog :: "int \<Rightarrow> 'a city_client_scheme \<Rightarrow> 'a city_client_scheme option" where
  "city_worklist_dialog city_id s = do {
     c \<leftarrow> st_get (cl_cities s) city_id;
     items \<leftarrow> universals_list_loop s (c_worklist c);
     let max_selection = min MAX_LEN_WORKLIST (int (length items));
     update_worklist_actions
       (s\<lparr>ui_worklist_selection := clamp_selection max_selection (ui_worklist_selection s)\<rparr>)
   }"

text \<open>The start of \<open>show_city_dialog\<close>: another city than the open one clears the selections.\<close>

definition open_city :: "int option \<Rightarrow> 'a city_client_scheme \<Rightarrow> 'a city_client_scheme" where
  "open_city pcity s =
     (if ui_active_city s \<noteq> pcity \<or> ui_active_city s = None
      then s\<lparr>ui_production_selection := [], ui_worklist_selection := [], ui_active_city := pcity\<rparr>
      else s\<lparr>ui_active_city := pcity\<rparr>)"

subsection \<open>The production tab as a state machine\<close>

text \<open>What the user does in the tab; the indices come from the rows, so they are not negative.\<close>

datatype wl_op = ProdSelect universal | ProdUnselect universal | TaskSelect nat | TaskUnselect nat
  | TaskClick nat | TaskUp | TaskDown | TaskExchange | TaskInsert | TaskRemove
  | TaskDirectRemove nat | AddToWorklist | ChangeProduction | Render int | OpenCity "int option"

fun wl_step :: "wl_op \<Rightarrow> 'a city_client_scheme \<Rightarrow> 'a city_client_scheme option" where
  "wl_step (ProdSelect u) s = handle_worklist_select u s"
| "wl_step (ProdUnselect u) s = handle_worklist_unselect u s"
| "wl_step (TaskSelect i) s = handle_current_worklist_select (int i) s"
| "wl_step (TaskUnselect i) s = handle_current_worklist_unselect (int i) s"
| "wl_step (TaskClick i) s = handle_current_worklist_click (int i) s"
| "wl_step TaskUp s = city_worklist_task_up s"
| "wl_step TaskDown s = city_worklist_task_down s"
| "wl_step TaskExchange s = city_exchange_worklist_task s"
| "wl_step TaskInsert s = city_insert_in_worklist s"
| "wl_step TaskRemove s = city_worklist_task_remove s"
| "wl_step (TaskDirectRemove i) s = handle_current_worklist_direct_remove (int i) s"
| "wl_step AddToWorklist s = city_add_to_worklist s"
| "wl_step ChangeProduction s = city_change_production s"
| "wl_step (Render cid) s = city_worklist_dialog cid s"
| "wl_step (OpenCity c) s = Some (open_city c s)"

text \<open>The reachable states: from a tab without selections, by these operations and by city
  packets of the server, which may replace the cities at any time.\<close>

inductive wl_reach :: "'a city_client_scheme \<Rightarrow> bool" where
  wl_start: "ui_worklist_selection s = [] \<Longrightarrow> ui_production_selection s = [] \<Longrightarrow> wl_reach s"
| wl_user: "wl_reach s \<Longrightarrow> wl_step opn s = Some s' \<Longrightarrow> wl_reach s'"
| wl_server: "wl_reach s \<Longrightarrow> wl_reach (s\<lparr>cl_cities := cs\<rparr>)"

end
