(* ===== verification/Samples.thy ===== *)
theory Samples
  imports Client
begin

text \<open>
  Objects with every field at its default value.  The concrete instances of the theorems are
  built from them by updating the fields that matter; nothing else uses them.
\<close>

definition ruleset0 :: ruleset where
  "ruleset0 = \<lparr>rs_terrains = [],
     rs_extras = [],
     rs_EXTRA_RIVER = 0,
     rs_EXTRA_ROAD = 0,
     rs_EXTRA_RAIL = 0,
     rs_EXTRA_HUT = 0,
     rs_EXTRA_AIRBASE = 0\<rparr>"

definition requirement0 :: requirement where
  "requirement0 = \<lparr>r_kind = 0,
     r_range = 0,
     r_value = 0,
     r_present = False\<rparr>"

definition unit_type0 :: unit_type where
  "unit_type0 = \<lparr>ut_id = 0,
     ut_name = [],
     ut_rule_name = [],
     ut_actions = None,
     ut_build_cost = 0,
     ut_build_reqs = [],
     ut_tech_requirement = 0,
     ut_flags = [],
     ut_transport_capacity = 0,
     ut_attack_strength = 0,
     ut_defense_strength = 0,
     ut_power_fact = [],
     ut_move_bonus = [],
     ut_move_rate = 0,
     ut_firepower = 0\<rparr>"

definition improvement0 :: improvement where
  "improvement0 = \<lparr>im_id = 0,
     im_name = [],
     im_rule_name = [],
     im_build_cost = 0,
     im_reqs = None,
     im_soundtag = [],
     im_sabotage = 0\<rparr>"

definition action0 :: action where
  "action0 = \<lparr>ac_id = 0,
     ac_result = None,
     ac_tgt_kind = 0,
     ac_min_distance = 0,
     ac_max_distance = 0,
     ac_ui_name = [],
     ac_enablers = []\<rparr>"

definition tile0 :: tile where
  "tile0 = \<lparr>t_index = 0,
     t_x = None,
     t_y = None,
     t_known = None,
     t_extras = None,
     t_terrain = 0,
     t_units = [],
     t_owner = None,
     t_worked = None,
     t_extras_owner = None,
     t_height = 1\<rparr>"

definition unit0 :: unit_rec where
  "unit0 = \<lparr>u_id = 0,
     u_owner = 0,
     u_tile = 0,
     u_type = 0,
     u_activity = None,
     u_activity_tgt = 0,
     u_transported = False,
     u_transported_by = 0,
     u_movesleft = None,
     u_done_moving = None,
     u_ssa_controller = None,
     u_has_orders = None,
     u_adw = None,
     u_ad_tile = None,
     u_homecity = None,
     u_goto_tile = None,
     u_anim_list = None,
     u_facing = 0\<rparr>"

definition city0 :: city where
  "city0 = \<lparr>c_id = 0,
     c_owner = 0,
     c_tile = 0,
     c_name = [],
     c_size = 0,
     c_capital = 0,
     c_production_kind = 0,
     c_production_value = 0,
     c_shield_stock = 0,
     c_shield_surplus = 0,
     c_buy_cost = 0,
     c_did_buy = False,
     c_turn_founded = 0,
     c_worklist = [],
     c_city_radius_sq = 0,
     c_improvements = None,
     c_can_build_unit = None,
     c_can_build_improvement = None,
     c_ppl_happy = [],
     c_ppl_unhappy = [],
     c_ppl_angry = [],
     c_was_happy = False,
     c_unhappy = False,
     c_granary_turns = 0,
     c_style = 0,
     c_prod_science = 0,
     c_diplomat_investigate = False\<rparr>"

definition player0 :: player where
  "player0 = \<lparr>p_playerno = 0,
     p_name = [],
     p_username = [],
     p_flags = [],
     p_nation = 0,
     p_is_alive = False,
     p_team = 0,
     p_government = 0,
     p_gold = 0,
     p_inventions = None,
     p_real_embassy = [],
     p_phase_done = False,
     p_nturns_idle = 0,
     p_ai_skill_level = 0,
     p_real_name = [],
     p_diplstates = [],
     p_love = [],
     p_score = 0,
     p_researching = 0,
     p_tech_goal = 0,
     p_tech_upkeep = 0,
     p_bulbs_researched = 0,
     p_researching_cost = 0\<rparr>"

definition tech0 :: tech where
  "tech0 = \<lparr>tc_id = 0,
     tc_name = [],
     tc_req = [],
     tc_research_reqs = [],
     tc_cost = 0\<rparr>"

text \<open>The state of the client, with the components of an extension.\<close>

definition client0 :: "'a \<Rightarrow> 'a client_scheme" where
  "client0 m = \<lparr>cl_map = \<lparr>m_topology_id = 0, m_wrap_id = 1, m_xsize = 4, m_ysize = 3\<rparr>,
     cl_dist = \<lparr>ds_dist = None, ds_sq = None\<rparr>,
     cl_tiles = [],
     cl_units = [],
     cl_cities = [],
     cl_players = [],
     cl_ruleset = ruleset0,
     cl_unit_types = [],
     cl_improvements = [],
     cl_num_impr_types = 0,
     cl_actions = [],
     cl_techs = [],
     cl_governments = [],
     cl_nations = [],
     cl_city_rules = [],
     cl_research = [],
     cl_turn = 0,
     cl_team_pooled_research = False,
     cl_client_state = 0,
     cl_playing = None,
     cl_observer = False,
     cl_out = [],
     \<dots> = m\<rparr>"

lemmas sample_defs = ruleset0_def requirement0_def unit_type0_def improvement0_def action0_def
  tile0_def unit0_def city0_def player0_def tech0_def client0_def

end
