(* ===== verification/Worklist_Facts.thy ===== *)
theory Worklist_Facts
  imports Worklist Samples
begin

text \<open>
  What makes the worklist editing correct.  The selection of the tab stays strictly ascending
  under every operation, so that the loops that walk it from one end or the other are right;
  under that invariant removing deletes exactly the selected entries, moving permutes them,
  and a move down is undone by a move up.  What is sent is bounded by the length the server
  accepts.
\<close>

lemma MAX_LEN_WORKLIST_simp [simp]: "MAX_LEN_WORKLIST = 64"
  by (simp add: MAX_LEN_WORKLIST_def)

text \<open>The tab of city 7 with a worklist and selections, for the concrete instances below.\<close>

definition tab0 :: "universal option list \<Rightarrow> universal list \<Rightarrow> int list \<Rightarrow> city_client" where
  "tab0 wl products sel = (client0 \<lparr>ui_active_city = Some 7, ui_production_selection = products, ui_worklist_selection = sel\<rparr>)
     \<lparr>cl_cities := [(7, city0\<lparr>c_id := 7, c_worklist := wl\<rparr>)]\<rparr>"

lemma tab0_simps [simp]:
  "ui_active_city (tab0 wl products sel) = Some 7"
  "ui_production_selection (tab0 wl products sel) = products"
  "ui_worklist_selection (tab0 wl products sel) = sel"
  "st_get (cl_cities (tab0 wl products sel)) 7 = Some (city0\<lparr>c_id := 7, c_worklist := wl\<rparr>)"
  by (simp_all add: tab0_def client0_def st_get_def)

subsection \<open>Frames\<close>

definition sel_of :: "'a city_client_scheme \<Rightarrow> int list \<times> universal list \<times> int option" where
  "sel_of s = (ui_worklist_selection s, ui_production_selection s, ui_active_city s)"

lemma ui_emit [simp, frame_simps]:
  "ui_worklist_selection (emit e s) = ui_worklist_selection s"
  "ui_production_selection (emit e s) = ui_production_selection s"
  "ui_active_city (emit e s) = ui_active_city s"
  "ui_worklist_selection (emits es s) = ui_worklist_selection s"
  "ui_production_selection (emits es s) = ui_production_selection s"
  "ui_active_city (emits es s) = ui_active_city s"
  by (simp_all add: emit_def emits_def)

lemma set_worklist_simps [simp, frame_simps]:
  "ui_worklist_selection (set_worklist cid wl s) = ui_worklist_selection s"
  "ui_production_selection (set_worklist cid wl s) = ui_production_selection s"
  "ui_active_city (set_worklist cid wl s) = ui_active_city s"
  "cl_out (set_worklist cid wl s) = cl_out s"
  "st_get (cl_cities (set_worklist cid wl s)) cid =
     map_option (\<lambda>c. c\<lparr>c_worklist := wl\<rparr>) (st_get (cl_cities s) cid)"
  by (simp_all add: set_worklist_def st_get_upd)

lemma send_city_worklist_ui:
  assumes "send_city_worklist cid s = Some s'"
  shows "ui_worklist_selection s' = ui_worklist_selection s"
    and "ui_production_selection s' = ui_production_selection s"
    and "ui_active_city s' = ui_active_city s"
  using assms by (auto simp: send_city_worklist_def Let_def bind_eq_Some_conv)

lemma update_worklist_actions_ui:
  assumes "update_worklist_actions s = Some s'"
  shows "ui_worklist_selection s' = ui_worklist_selection s"
    and "ui_production_selection s' = ui_production_selection s"
    and "ui_active_city s' = ui_active_city s"
    and "cl_cities s' = cl_cities s"
  using assms by (auto simp: update_worklist_actions_def Let_def bind_eq_Some_conv)

lemma send_city_worklist_sel:
  "send_city_worklist cid s = Some s' \<Longrightarrow> ui_worklist_selection s' = ui_worklist_selection s \<and>
     ui_production_selection s' = ui_production_selection s"
  by (simp add: send_city_worklist_ui)

lemma update_worklist_actions_sel:
  "update_worklist_actions s = Some s' \<Longrightarrow> ui_worklist_selection s' = ui_worklist_selection s \<and>
     ui_production_selection s' = ui_production_selection s"
  by (simp add: update_worklist_actions_ui)

lemma send_city_change_ui [simp, frame_simps]:
  "ui_worklist_selection (send_city_change cid k v s) = ui_worklist_selection s"
  "ui_production_selection (send_city_change cid k v s) = ui_production_selection s"
  "ui_active_city (send_city_change cid k v s) = ui_active_city s"
  "cl_cities (send_city_change cid k v s) = cl_cities s"
  by (simp_all add: send_city_change_def)

text \<open>The worklist the server is sent is what the city keeps, cut at the length it accepts.\<close>

lemma send_city_worklist_result:
  assumes "st_get (cl_cities s) cid = Some c"
  shows "send_city_worklist cid s =
    Some (emit (Send (worklist_packet cid (take 64 (c_worklist c)))) (set_worklist cid (take 64 (c_worklist c)) s))"
proof (cases "64 < length (c_worklist c)")
  case True
  have "js_splice MAX_LEN_WORKLIST (nat (int (length (c_worklist c)) - MAX_LEN_WORKLIST)) [] (c_worklist c)
      = take 64 (c_worklist c)"
    using True by (simp add: js_splice_def Let_def min_def)
  with True assms show ?thesis by (simp add: send_city_worklist_def Let_def)
next
  case False
  with assms show ?thesis by (simp add: send_city_worklist_def Let_def)
qed

subsection \<open>The loops that run from the end of the selection\<close>

definition asc :: "int list \<Rightarrow> bool" where
  "asc xs \<longleftrightarrow> sorted_wrt (<) xs \<and> (\<forall>x\<in>set xs. 0 \<le> x)"

lemma asc_Nil [simp]: "asc []"
  by (simp add: asc_def)

lemma asc_single: "0 \<le> i \<Longrightarrow> asc [i]"
  by (simp add: asc_def)

lemma asc_rev: "asc (rev xs) \<longleftrightarrow> sorted_wrt (>) xs \<and> (\<forall>x\<in>set xs. 0 \<le> x)"
  by (simp add: asc_def sorted_wrt_rev)

lemma select_from_end_None:
  "sorted_wrt (>) xs \<Longrightarrow> select_from_end idx xs = None \<longleftrightarrow> idx \<in> set xs"
  by (induction idx xs rule: select_from_end.induct) auto

lemma select_from_end_Some:
  "sorted_wrt (>) xs \<Longrightarrow> select_from_end idx xs = Some ys \<Longrightarrow>
     sorted_wrt (>) ys \<and> set ys = insert idx (set xs)"
proof (induction idx xs arbitrary: ys rule: select_from_end.induct)
  case (2 idx x xs)
  consider "x > idx" | "x < idx" | "x = idx" by linarith
  then show ?case
  proof cases
    case 1
    with 2(3) obtain zs where "select_from_end idx xs = Some zs" and ys: "ys = x # zs" by auto
    with 2(1) [OF 1] 2(2) have "sorted_wrt (>) zs \<and> set zs = insert idx (set xs)" by simp
    with ys 2(2) 1 show ?thesis by auto
  next
    case 2
    with \<open>select_from_end idx (x # xs) = Some ys\<close> \<open>sorted_wrt (>) (x # xs)\<close>
    show ?thesis by fastforce
  qed (use 2(3) in simp)
qed simp

lemma filter_neq_below: "\<forall>x\<in>set xs. x < (i::int) \<Longrightarrow> filter (\<lambda>x. x \<noteq> i) xs = xs"
  by (rule filter_True) auto

lemma unselect_from_end_spec:
  "sorted_wrt (>) xs \<Longrightarrow>
     unselect_from_end idx xs = (if idx \<in> set xs then Some (filter (\<lambda>x. x \<noteq> idx) xs) else None)"
  by (induction idx xs rule: unselect_from_end.induct) (auto simp: filter_neq_below)

lemma shift_below:
  "\<forall>x\<in>set xs. x < (i::int) \<Longrightarrow> map (\<lambda>x. if x > i then x - 1 else x) (filter (\<lambda>x. x \<noteq> i) xs) = xs"
  by (subst filter_neq_below) (auto intro!: map_idI)

lemma shift_from_end_spec:
  "sorted_wrt (>) xs \<Longrightarrow> shift_from_end idx xs =
     map (\<lambda>x. if x > idx then x - 1 else x) (filter (\<lambda>x. x \<noteq> idx) xs)"
proof (induction idx xs rule: shift_from_end.induct)
  case (2 idx x xs)
  consider "x > idx" | "x < idx" | "x = idx" by linarith
  then show ?case
  proof cases
    case 1
    with 2 show ?thesis by simp
  next
    case 2
    with \<open>sorted_wrt (>) (x # xs)\<close> have "\<forall>y\<in>set xs. y < idx" by auto
    from shift_below [OF this] 2 show ?thesis by simp
  next
    case 3
    with 2(2) have "\<forall>y\<in>set xs. y < idx" by auto
    from shift_below [OF this] 3 show ?thesis by simp
  qed
qed simp

lemma asc_select:
  assumes "asc sel" and "0 \<le> idx" and "select_from_end idx (rev sel) = Some ys"
  shows "asc (rev ys) \<and> set ys = insert idx (set sel)"
  using select_from_end_Some [of "rev sel" idx ys] assms
  by (auto simp: asc_rev) (auto simp: asc_def sorted_wrt_rev)

lemma asc_filter: "asc sel \<Longrightarrow> asc (filter P sel)"
  by (auto simp: asc_def intro: sorted_wrt_filter_mono)

lemma asc_shift_down:
  assumes "asc sel" and "0 \<le> idx"
  shows "asc (map (\<lambda>x. if x > idx then x - 1 else x) (filter (\<lambda>x. x \<noteq> idx) sel))"
proof -
  have "sorted_wrt (<) (filter (\<lambda>x. x \<noteq> idx) sel)"
    using assms by (simp add: asc_def sorted_wrt_filter_mono)
  then have "sorted_wrt (\<lambda>x y. (if x > idx then x - 1 else x) < (if y > idx then y - 1 else y))
      (filter (\<lambda>x. x \<noteq> idx) sel)"
    by (rule sorted_wrt_mono_rel [rotated]) auto
  with assms show ?thesis by (auto simp: asc_def sorted_wrt_map)
qed

lemma asc_plus: "asc sel \<Longrightarrow> 0 \<le> k \<Longrightarrow> asc (map (\<lambda>x. x + k) sel)"
  by (auto simp: asc_def sorted_wrt_map)

lemma asc_minus: "asc sel \<Longrightarrow> 0 \<notin> set sel \<Longrightarrow> asc (map (\<lambda>x. x - 1) sel)"
  unfolding asc_def by (auto simp: sorted_wrt_map) (metis int_one_le_iff_zero_less le_less)

lemma asc_Cons_tl: "asc (t # ts) \<Longrightarrow> asc ts \<and> 0 \<notin> set ts"
  by (force simp: asc_def)

lemma asc_upt: "asc (map int [0..<n])"
  by (simp add: asc_def sorted_wrt_map strict_sorted_iff)

lemma asc_from: "0 \<le> i \<Longrightarrow> asc (i # map (\<lambda>k. i + 1 + int k) [0..<n])"
  by (auto simp: asc_def sorted_wrt_map sorted_wrt_upt)

lemma asc_takeWhile: "asc sel \<Longrightarrow> asc (takeWhile P sel)"
  unfolding asc_def by (metis set_takeWhileD sorted_wrt_append takeWhile_dropWhile_id)

subsection \<open>The swaps of the moves\<close>

definition swap_at :: "'a option list \<Rightarrow> int \<Rightarrow> 'a option list" where
  "swap_at wl i = js_put (js_put wl i (js_at wl (i + 1))) (i + 1) (js_at wl i)"

lemma task_up_loop_eq:
  "task_up_loop wl ts = (foldl (\<lambda>w t. swap_at w (t - 1)) wl ts, map (\<lambda>t. t - 1) ts)"
  by (induction wl ts rule: task_up_loop.induct) (simp_all add: Let_def swap_at_def)

lemma swap_at_flip:
  assumes "0 \<le> i" and "i + 1 < int (length wl)"
  shows "js_put (js_put wl (i + 1) (js_at wl i)) i (js_at wl (i + 1)) = swap_at wl i"
proof -
  have "nat i \<noteq> nat (i + 1)" using assms by simp
  with assms show ?thesis
    by (simp add: swap_at_def js_put_def list_update_swap)
qed

lemma length_swap_at: "0 \<le> i \<Longrightarrow> i + 1 < int (length wl) \<Longrightarrow> length (swap_at wl i) = length wl"
  by (simp add: swap_at_def js_put_def)

lemma swap_at_twice:
  assumes "0 \<le> i" and "i + 1 < int (length wl)"
  shows "swap_at (swap_at wl i) i = wl"
proof -
  have ne: "nat i \<noteq> nat (i + 1)" and l: "nat i < length wl" "nat (i + 1) < length wl"
    using assms by linarith+
  have e: "swap_at wl i = wl[nat i := wl ! nat (i + 1), nat (i + 1) := wl ! nat i]"
    using assms by (simp add: swap_at_def js_put_def js_at_def)
  have "swap_at (swap_at wl i) i =
      (swap_at wl i)[nat i := swap_at wl i ! nat (i + 1), nat (i + 1) := swap_at wl i ! nat i]"
    using assms length_swap_at [OF assms] by (simp add: swap_at_def [of "swap_at wl i"] js_put_def js_at_def)
  also have "\<dots> = wl"
    unfolding e using ne l by (intro nth_equalityI) (auto simp: nth_list_update)
  finally show ?thesis .
qed

lemma mset_swap_at:
  assumes "0 \<le> i" and "i + 1 < int (length wl)"
  shows "mset (swap_at wl i) = mset wl"
proof -
  have "nat i < length wl" "nat (i + 1) < length wl" using assms by linarith+
  from mset_swap [OF this(2,1)] assms show ?thesis
    by (simp add: swap_at_def js_put_def js_at_def)
qed

lemma task_down_loop_eq:
  assumes "\<forall>t\<in>set ts. 0 \<le> t \<and> t + 1 < int (length wl)"
  shows "task_down_loop wl ts = (foldl swap_at wl ts, map (\<lambda>t. t + 1) ts)"
  using assms
proof (induction wl ts rule: task_down_loop.induct)
  case (2 wl t ts)
  then have "task_down_loop (swap_at wl t) ts = (foldl swap_at (swap_at wl t) ts, map (\<lambda>t. t + 1) ts)"
    using 2(1) [OF refl refl refl] by (simp add: swap_at_flip length_swap_at)
  with 2(2) show ?case by (simp add: Let_def swap_at_flip)
qed simp

lemma foldl_swap_inv:
  assumes "\<forall>t\<in>set ts. 0 \<le> t \<and> t + 1 < int (length wl)"
  shows "length (foldl swap_at wl ts) = length wl \<and> mset (foldl swap_at wl ts) = mset wl"
  using assms
  by (induction ts arbitrary: wl) (simp_all add: length_swap_at mset_swap_at)

lemma foldl_swap_rev:
  assumes "\<forall>t\<in>set ts. 0 \<le> t \<and> t + 1 < int (length wl)"
  shows "foldl swap_at (foldl swap_at wl (rev ts)) ts = wl"
  using assms
proof (induction ts arbitrary: wl)
  case (Cons t ts)
  have l: "length (foldl swap_at wl (rev ts)) = length wl"
    using foldl_swap_inv [of "rev ts" wl] Cons.prems by simp
  have "swap_at (swap_at (foldl swap_at wl (rev ts)) t) t = foldl swap_at wl (rev ts)"
    using Cons.prems l by (intro swap_at_twice) auto
  with Cons show ?case by simp
qed simp

subsection \<open>Removing\<close>

lemma nths_remove_at:
  "{0..a} \<subseteq> A \<Longrightarrow> take a (nths xs A) @ drop (Suc a) (nths xs A) = nths xs (A - {a})"
proof (induction xs arbitrary: a A)
  case (Cons x xs)
  show ?case
  proof (cases a)
    case 0
    then show ?thesis using Cons.prems by (simp add: nths_Cons)
  next
    case (Suc b)
    have "{0..b} \<subseteq> {j. Suc j \<in> A}" using Cons.prems Suc by auto
    from Cons.IH [OF this] have
      "take b (nths xs {j. Suc j \<in> A}) @ drop (Suc b) (nths xs {j. Suc j \<in> A})
        = nths xs ({j. Suc j \<in> A} - {b})" .
    moreover have "0 \<in> A" using Cons.prems by auto
    moreover have "{j. Suc j \<in> A} - {b} = {j. Suc j \<in> A \<and> j \<noteq> b}" by auto
    ultimately show ?thesis using Suc by (simp add: nths_Cons)
  qed
qed simp

lemma js_splice_one: "0 \<le> i \<Longrightarrow> js_splice i 1 [] xs = take (nat i) xs @ drop (Suc (nat i)) xs"
  by (auto simp: js_splice_def Let_def min_def)

lemma remove_selected:
  "asc sel \<Longrightarrow> foldl (\<lambda>wl i. js_splice i 1 [] wl) wl (rev sel) = nths wl {j. int j \<notin> set sel}"
proof (induction sel)
  case (Cons a sel)
  have asc: "asc sel" using asc_Cons_tl [OF Cons.prems] by blast
  have a: "0 \<le> a" "\<forall>x\<in>set sel. a < x" using Cons.prems by (simp_all add: asc_def)
  have sub: "{0..nat a} \<subseteq> {j. int j \<notin> set sel}" using a by force
  have "foldl (\<lambda>wl i. js_splice i 1 [] wl) wl (rev (a # sel)) =
      js_splice a 1 [] (nths wl {j. int j \<notin> set sel})"
    using Cons.IH [OF asc] by simp
  also have "\<dots> = nths wl ({j. int j \<notin> set sel} - {nat a})"
    using nths_remove_at [OF sub, of wl] by (simp only: js_splice_one [OF a(1)])
  also have "{j. int j \<notin> set sel} - {nat a} = {j. int j \<notin> set (a # sel)}"
    using a(1) by auto
  finally show ?case .
qed (simp add: nths_all)

subsection \<open>The invariant\<close>

definition wl_ok :: "'a city_client_scheme \<Rightarrow> bool" where
  "wl_ok s \<longleftrightarrow> asc (ui_worklist_selection s) \<and> distinct (ui_production_selection s)"

lemma find_universal_from_neg:
  "find_universal_from i u ws < 0 \<Longrightarrow> u \<notin> set ws"
  by (induction i u ws rule: find_universal_from.induct) (auto split: if_splits)

lemma clamp_selection_takeWhile: "clamp_selection m ks = takeWhile (\<lambda>k. k < m) ks"
  by (induction m ks rule: clamp_selection.induct) auto

lemma wl_ok_update_actions: "update_worklist_actions s = Some s' \<Longrightarrow> wl_ok s \<Longrightarrow> wl_ok s'"
  by (simp add: wl_ok_def update_worklist_actions_sel)

lemma wl_ok_send: "send_city_worklist cid s = Some s' \<Longrightarrow> wl_ok s \<Longrightarrow> wl_ok s'"
  by (simp add: wl_ok_def send_city_worklist_ui)

lemma distinct_js_splice: "distinct xs \<Longrightarrow> distinct (js_splice i n [] xs)"
  by (simp add: js_splice_def Let_def set_take_disj_set_drop_if_distinct)

lemma wl_ok_prod_select: "handle_worklist_select u s = Some s' \<Longrightarrow> wl_ok s \<Longrightarrow> wl_ok s'"
  by (auto simp: handle_worklist_select_def find_universal_in_worklist_def wl_ok_def Let_def
      split: if_splits dest!: find_universal_from_neg update_worklist_actions_sel)

lemma wl_ok_prod_unselect: "handle_worklist_unselect u s = Some s' \<Longrightarrow> wl_ok s \<Longrightarrow> wl_ok s'"
  by (auto simp: handle_worklist_unselect_def wl_ok_def Let_def distinct_js_splice
      split: if_splits dest!: update_worklist_actions_sel)

lemma wl_ok_task_select: "handle_current_worklist_select (int i) s = Some s' \<Longrightarrow> wl_ok s \<Longrightarrow> wl_ok s'"
proof -
  assume e: "handle_current_worklist_select (int i) s = Some s'" and ok: "wl_ok s"
  have "asc (rev ys)" if "select_from_end (int i) (rev (ui_worklist_selection s)) = Some ys" for ys
    using asc_select [OF _ _ that] ok by (simp add: wl_ok_def)
  with e ok show ?thesis
    by (auto simp: handle_current_worklist_select_def wl_ok_def split: option.splits
        dest!: update_worklist_actions_sel)
qed

lemma wl_ok_task_unselect: "handle_current_worklist_unselect (int i) s = Some s' \<Longrightarrow> wl_ok s \<Longrightarrow> wl_ok s'"
proof -
  assume e: "handle_current_worklist_unselect (int i) s = Some s'" and ok: "wl_ok s"
  have "sorted_wrt (>) (rev (ui_worklist_selection s))"
    using ok by (simp add: wl_ok_def asc_def sorted_wrt_rev)
  from unselect_from_end_spec [OF this, of "int i"] e ok show ?thesis
    by (auto simp: handle_current_worklist_unselect_def wl_ok_def rev_filter [symmetric] asc_filter
        split: option.splits if_splits dest!: update_worklist_actions_sel)
qed

lemma wl_ok_click: "handle_current_worklist_click (int i) s = Some s' \<Longrightarrow> wl_ok s \<Longrightarrow> wl_ok s'"
  by (auto simp: handle_current_worklist_click_def wl_ok_def asc_single
      split: if_splits dest!: update_worklist_actions_sel)

lemma wl_ok_up: "city_worklist_task_up s = Some s' \<Longrightarrow> wl_ok s \<Longrightarrow> wl_ok s'"
proof (cases "ui_worklist_selection s")
  case (Cons t ts)
  assume e: "city_worklist_task_up s = Some s'" and ok: "wl_ok s"
  have asc: "asc (t # ts)" using ok Cons by (simp add: wl_ok_def)
  have "asc (map (\<lambda>t. t - 1) ts)" using asc_Cons_tl [OF asc] by (simp add: asc_minus)
  moreover have "asc (map (\<lambda>t. t - 1) (t # ts))" if "t \<noteq> 0"
    using asc_minus [OF asc] asc_Cons_tl [OF asc] that by simp
  ultimately show ?thesis using e ok Cons
    by (auto simp: city_worklist_task_up_def wl_ok_def bind_eq_Some_conv Let_def task_up_loop_eq
        split: if_splits dest!: send_city_worklist_sel)
qed (simp add: city_worklist_task_up_def)

lemma last_asc: "asc sel \<Longrightarrow> x \<in> set sel \<Longrightarrow> x \<le> last sel"
  by (auto simp: asc_def strict_sorted_iff sorted_le_last)

lemma task_down_loop_sel: "snd (task_down_loop wl ts) = map (\<lambda>t. t + 1) ts"
proof (induction wl ts rule: task_down_loop.induct)
  case (2 wl t ts)
  then show ?case
    by (cases "task_down_loop (js_put (js_put wl (t + 1) (js_at wl t)) t (js_at wl (t + 1))) ts")
      (simp add: Let_def)
qed simp

lemma wl_ok_down: "city_worklist_task_down s = Some s' \<Longrightarrow> wl_ok s \<Longrightarrow> wl_ok s'"
proof -
  assume e: "city_worklist_task_down s = Some s'" and ok: "wl_ok s"
  have "asc (map (\<lambda>t. t + 1) (ui_worklist_selection s))"
    using ok by (simp add: wl_ok_def asc_plus)
  then have "asc (rev (snd (task_down_loop wl (rev (ui_worklist_selection s)))))" for wl
    by (simp add: task_down_loop_sel rev_map)
  with e ok show ?thesis
    by (auto simp: city_worklist_task_down_def wl_ok_def bind_eq_Some_conv Let_def case_prod_unfold
        split: if_splits dest!: send_city_worklist_sel)
qed

lemma wl_ok_exchange: "city_exchange_worklist_task s = Some s' \<Longrightarrow> wl_ok s \<Longrightarrow> wl_ok s'"
proof -
  assume e: "city_exchange_worklist_task s = Some s'" and ok: "wl_ok s"
  have "asc (ui_worklist_selection s @ map (\<lambda>k. ui_worklist_selection s ! 0 + 1 + int k) [0..<n])"
    if "length (ui_worklist_selection s) = Suc 0" for n
  proof -
    from that obtain i where i: "ui_worklist_selection s = [i]"
      by (auto simp: length_Suc_conv)
    with ok have "0 \<le> i" by (simp add: wl_ok_def asc_def)
    from asc_from [OF this] i show ?thesis by simp
  qed
  with e ok show ?thesis
    by (auto simp: city_exchange_worklist_task_def wl_ok_def bind_eq_Some_conv Let_def
        split: if_splits dest!: send_city_worklist_sel)
qed

lemma wl_ok_insert: "city_insert_in_worklist s = Some s' \<Longrightarrow> wl_ok s \<Longrightarrow> wl_ok s'"
proof -
  assume e: "city_insert_in_worklist s = Some s'" and ok: "wl_ok s"
  have "asc (map (\<lambda>j. j + min (int (length p)) 64) (ui_worklist_selection s))" for p :: "universal list"
    using ok by (simp add: wl_ok_def asc_plus)
  with e ok show ?thesis
    by (cases "ui_worklist_selection s")
      (auto simp: city_insert_in_worklist_def wl_ok_def bind_eq_Some_conv Let_def asc_upt
        split: if_splits dest!: send_city_worklist_sel)
qed

lemma wl_ok_remove: "city_worklist_task_remove s = Some s' \<Longrightarrow> wl_ok s \<Longrightarrow> wl_ok s'"
  by (auto simp: city_worklist_task_remove_def wl_ok_def bind_eq_Some_conv Let_def
      split: if_splits dest!: send_city_worklist_sel)

lemma wl_ok_direct_remove:
  "handle_current_worklist_direct_remove (int i) s = Some s' \<Longrightarrow> wl_ok s \<Longrightarrow> wl_ok s'"
proof -
  assume e: "handle_current_worklist_direct_remove (int i) s = Some s'" and ok: "wl_ok s"
  have "sorted_wrt (>) (rev (ui_worklist_selection s))"
    using ok by (simp add: wl_ok_def asc_def sorted_wrt_rev)
  from shift_from_end_spec [OF this] have
    "asc (rev (shift_from_end (int i) (rev (ui_worklist_selection s))))"
    using asc_shift_down [of "ui_worklist_selection s" "int i"] ok
    by (simp add: wl_ok_def rev_map rev_filter)
  with e ok show ?thesis
    by (auto simp: handle_current_worklist_direct_remove_def wl_ok_def bind_eq_Some_conv Let_def
        dest!: send_city_worklist_sel)
qed

lemma wl_ok_add: "city_add_to_worklist s = Some s' \<Longrightarrow> wl_ok s \<Longrightarrow> wl_ok s'"
  by (auto simp: city_add_to_worklist_def wl_ok_def bind_eq_Some_conv
      split: if_splits dest!: send_city_worklist_sel)

lemma wl_ok_change: "city_change_production s = Some s' \<Longrightarrow> wl_ok s \<Longrightarrow> wl_ok s'"
  by (auto simp: city_change_production_def wl_ok_def split: list.splits option.splits)

lemma wl_ok_render: "city_worklist_dialog cid s = Some s' \<Longrightarrow> wl_ok s \<Longrightarrow> wl_ok s'"
  by (auto simp: city_worklist_dialog_def wl_ok_def bind_eq_Some_conv clamp_selection_takeWhile asc_takeWhile
      dest!: update_worklist_actions_sel)

lemma wl_ok_open: "wl_ok s \<Longrightarrow> wl_ok (open_city c s)"
  by (simp add: wl_ok_def open_city_def)

lemmas wl_ok_steps = wl_ok_prod_select wl_ok_prod_unselect wl_ok_task_select wl_ok_task_unselect
  wl_ok_click wl_ok_up wl_ok_down wl_ok_exchange wl_ok_insert wl_ok_remove wl_ok_direct_remove
  wl_ok_add wl_ok_change wl_ok_render

lemma wl_ok_step: "wl_step opn s = Some s' \<Longrightarrow> wl_ok s \<Longrightarrow> wl_ok s'"
  by (cases opn) (auto simp: wl_ok_open intro: wl_ok_steps)

lemma wl_reach_ok: "wl_reach s \<Longrightarrow> wl_ok s"
proof (induction rule: wl_reach.induct)
  case (wl_start s)
  then show ?case by (simp add: wl_ok_def)
next
  case (wl_user s opn s')
  then show ?case by (blast intro: wl_ok_step)
next
  case (wl_server s cs)
  then show ?case by (simp add: wl_ok_def)
qed

subsection \<open>Properties\<close>

text \<open>
  C5.  However the user clicks and whatever city packets arrive in between, the selected rows of
  the worklist stay strictly ascending and never negative, and no product is selected twice.
\<close>

theorem worklist_selection_invariant:
  assumes "wl_reach s"
  shows "sorted_wrt (<) (ui_worklist_selection s) \<and> 0 \<le> Min (insert 0 (set (ui_worklist_selection s)))
    \<and> distinct (ui_production_selection s)"
proof -
  have "asc (ui_worklist_selection s)" "distinct (ui_production_selection s)"
    using wl_reach_ok [OF assms] by (simp_all add: wl_ok_def)
  then show ?thesis by (auto simp: asc_def)
qed

theorem worklist_selection_invariant_witness:
  "let s = tab0 [Some \<lparr>un_kind = 1, un_value = 2\<rparr>, Some \<lparr>un_kind = 1, un_value = 3\<rparr>] [] []
   in \<exists>s'. Option.bind (wl_step (TaskSelect 1) s) (wl_step (TaskSelect 0)) = Some s'
      \<and> sorted_wrt (<) (ui_worklist_selection s') \<and> ui_worklist_selection s' = [0, 1]"
proof -
  let ?s = "tab0 [Some \<lparr>un_kind = 1, un_value = 2\<rparr>, Some \<lparr>un_kind = 1, un_value = 3\<rparr>] [] []"
  obtain s1 where s1: "wl_step (TaskSelect 1) ?s = Some s1" and sel1: "ui_worklist_selection s1 = [1]"
    and c1: "cl_cities s1 = cl_cities ?s" "ui_active_city s1 = ui_active_city ?s"
    by (simp add: handle_current_worklist_select_def update_worklist_actions_def
        active_city_def Let_def)
  obtain s2 where s2: "wl_step (TaskSelect 0) s1 = Some s2" and sel2: "ui_worklist_selection s2 = [0, 1]"
    using sel1 c1 by (simp add: handle_current_worklist_select_def update_worklist_actions_def
        active_city_def Let_def)
  have "wl_reach ?s" by (rule wl_start) simp_all
  then have "wl_reach s2" using s1 s2 by (blast intro: wl_user)
  from worklist_selection_invariant [OF this] s1 s2 sel2 show ?thesis by (simp add: Let_def)
qed

text \<open>
  C29.  Removing deletes exactly the selected rows: the city keeps the entries whose index is not
  selected, in their order, the selection is empty, and the server is sent that list (cut at
  the length it accepts).
\<close>

theorem worklist_remove_selected:
  assumes "ui_active_city s = Some cid" and "st_get (cl_cities s) cid = Some c"
    and "ui_worklist_selection s = sel" and "sel \<noteq> []" and "asc sel"
  shows "\<exists>s'. city_worklist_task_remove s = Some s'
    \<and> map_option c_worklist (st_get (cl_cities s') cid)
        = Some (take 64 (nths (c_worklist c) {j. int j \<notin> set sel}))
    \<and> ui_worklist_selection s' = []
    \<and> cl_out s' = cl_out s @ [Send (worklist_packet cid (take 64 (nths (c_worklist c) {j. int j \<notin> set sel})))]"
  using assms remove_selected [OF assms(5), of "c_worklist c"]
  by (simp add: city_worklist_task_remove_def send_city_worklist_result Let_def)

definition item :: "int \<Rightarrow> universal option" where
  "item v = Some \<lparr>un_kind = 6, un_value = v\<rparr>"

theorem worklist_remove_selected_witness:
  "\<exists>s'. city_worklist_task_remove (tab0 [item 1, item 2, item 3] [] [0, 2]) = Some s'
    \<and> map_option c_worklist (st_get (cl_cities s') 7) = Some [item 2] \<and> ui_worklist_selection s' = []"
proof -
  have e: "nths [item 1, item 2, item 3] {j. 0 < j \<and> j \<noteq> 2} = [item 2]"
    by (simp add: nths_Cons)
  have a: "asc [0, 2]" by (simp add: asc_def)
  show ?thesis
    using worklist_remove_selected [where s = "tab0 [item 1, item 2, item 3] [] [0, 2]" and cid = 7
        and sel = "[0, 2]" and c = "city0\<lparr>c_id := 7, c_worklist := [item 1, item 2, item 3]\<rparr>"] a
    by (simp add: e) blast
qed

text \<open>
  Moving the selected rows down and up again restores the worklist and the selection, for
  any selection that leaves room below; in between the worklist is a permutation of itself.
\<close>

theorem worklist_down_up:
  assumes "ui_active_city s = Some cid" and "st_get (cl_cities s) cid = Some c"
    and "asc (ui_worklist_selection s)" and "ui_worklist_selection s \<noteq> []"
    and "last (ui_worklist_selection s) < int (length (c_worklist c)) - 1"
    and "length (c_worklist c) \<le> 64"
  shows "\<exists>s1 s2. city_worklist_task_down s = Some s1 \<and> city_worklist_task_up s1 = Some s2
    \<and> (\<exists>c1. st_get (cl_cities s1) cid = Some c1 \<and> mset (c_worklist c1) = mset (c_worklist c)
        \<and> ui_worklist_selection s1 = map (\<lambda>t. t + 1) (ui_worklist_selection s))
    \<and> st_get (cl_cities s2) cid = Some c \<and> ui_worklist_selection s2 = ui_worklist_selection s"
proof -
  let ?sel = "ui_worklist_selection s" and ?wl = "c_worklist c"
  have rg: "\<forall>t\<in>set ?sel. 0 \<le> t \<and> t + 1 < int (length ?wl)"
    using last_asc [OF assms(3)] assms(3,5) by (fastforce simp: asc_def)
  then have rg': "\<forall>t\<in>set (rev ?sel). 0 \<le> t \<and> t + 1 < int (length ?wl)" by simp
  let ?wl1 = "foldl swap_at ?wl (rev ?sel)"
  have len1: "length ?wl1 = length ?wl" and ms: "mset ?wl1 = mset ?wl"
    using foldl_swap_inv [OF rg'] by simp_all
  obtain s1 where s1: "city_worklist_task_down s = Some s1"
    and c1: "st_get (cl_cities s1) cid = Some (c\<lparr>c_worklist := ?wl1\<rparr>)"
    and sel1: "ui_worklist_selection s1 = map (\<lambda>t. t + 1) ?sel"
    and a1: "ui_active_city s1 = Some cid"
    using assms task_down_loop_eq [OF rg'] len1
    by (simp add: city_worklist_task_down_def send_city_worklist_result rev_map Let_def)
  obtain t ts where sel: "?sel = t # ts" using assms(4) by (cases ?sel) auto
  then have t: "t + 1 \<noteq> 0" using rg by auto
  have "foldl (\<lambda>w t. swap_at w (t - 1)) ?wl1 (map (\<lambda>t. t + 1) ?sel) = ?wl"
    using foldl_swap_rev [OF rg] by (simp add: foldl_map)
  then have up: "task_up_loop ?wl1 (map (\<lambda>t. t + 1) ?sel) = (?wl, ?sel)"
    by (simp add: task_up_loop_eq o_def)
  obtain s2 where "city_worklist_task_up s1 = Some s2" and "st_get (cl_cities s2) cid = Some c"
    and "ui_worklist_selection s2 = ?sel"
    using up a1 c1 sel1 t assms(6) sel
    by (simp add: city_worklist_task_up_def send_city_worklist_result Let_def)
  with s1 c1 ms sel1 show ?thesis by simp
qed

theorem worklist_down_up_witness:
  "\<exists>s1 s2. city_worklist_task_down (tab0 [item 1, item 2, item 3] [] [0, 1]) = Some s1
    \<and> city_worklist_task_up s1 = Some s2 \<and> ui_worklist_selection s2 = [0, 1]"
proof -
  have a: "asc [0, 1]" by (simp add: asc_def)
  show ?thesis
    using worklist_down_up [where s = "tab0 [item 1, item 2, item 3] [] [0, 1]" and cid = 7
        and c = "city0\<lparr>c_id := 7, c_worklist := [item 1, item 2, item 3]\<rparr>"] a
    by simp blast
qed

text \<open>
  The selection is not checked against the length limit: inserting one product before the
  selected last row of a full worklist moves the selection past the cut, and moving it up then
  sends a worklist whose last entry is \<open>null\<close>; the inserted product is lost.
\<close>

theorem worklist_insert_full_then_up:
  assumes "ui_active_city s = Some cid" and "st_get (cl_cities s) cid = Some c"
    and "length (c_worklist c) = 64"
    and "ui_worklist_selection s = [63]" and "ui_production_selection s = [u]"
  shows "\<exists>s1 s2. city_insert_in_worklist s = Some s1 \<and> ui_worklist_selection s1 = [64]
    \<and> city_worklist_task_up s1 = Some s2
    \<and> last (sent (cl_out s2)) = worklist_packet cid (take 63 (c_worklist c) @ [None])"
proof -
  let ?wl = "c_worklist c"
  have sp: "take 64 (js_splice 63 0 [Some u] ?wl) = take 63 ?wl @ [Some u]"
    using assms(3) by (simp add: js_splice_def Let_def)
  obtain s1 where s1: "city_insert_in_worklist s = Some s1" and sel1: "ui_worklist_selection s1 = [64]"
    and c1: "st_get (cl_cities s1) cid = Some (c\<lparr>c_worklist := take 63 ?wl @ [Some u]\<rparr>)"
    and a1: "ui_active_city s1 = Some cid"
    using assms sp by (simp add: city_insert_in_worklist_def send_city_worklist_result Let_def)
  have "task_up_loop (take 63 ?wl @ [Some u]) [64] = (take 63 ?wl @ [None, Some u], [63])"
    using assms(3) by (simp add: Let_def js_at_def js_put_def nth_append list_update_append)
  then obtain s2 where "city_worklist_task_up s1 = Some s2"
    and "cl_out s2 = cl_out s1 @ [Send (worklist_packet cid (take 63 ?wl @ [None]))]"
    using a1 c1 sel1 assms(3)
    by (simp add: city_worklist_task_up_def send_city_worklist_result Let_def)
  with s1 sel1 show ?thesis by simp
qed

theorem worklist_insert_full_then_up_witness:
  "\<exists>s1 s2. city_insert_in_worklist (tab0 (replicate 64 (item 2)) [\<lparr>un_kind = 6, un_value = 1\<rparr>] [63]) = Some s1
    \<and> city_worklist_task_up s1 = Some s2
    \<and> last (sent (cl_out s2)) = worklist_packet 7 (replicate 63 (item 2) @ [None])"
  using worklist_insert_full_then_up [where s = "tab0 (replicate 64 (item 2)) [\<lparr>un_kind = 6, un_value = 1\<rparr>] [63]" and cid = 7
      and u = "\<lparr>un_kind = 6, un_value = 1\<rparr>" and c = "city0\<lparr>c_id := 7, c_worklist := replicate 64 (item 2)\<rparr>"]
  by (simp add: city0_def) blast

end
