(* ===== verification/City_Map.thy ===== *)
theory City_Map
  imports Client "HOL-Library.Product_Lexorder"
begin

text \<open>
  The workable tiles of a city (\<open>city.js\<close>): the server numbers the tiles of a city by their
  distance from the centre, and leaves out those beyond the edges of the map.  The client
  computes the numbers for the largest radius asked for so far and caches one table per way
  the map's edges can clip the city.  A sparse array is a dictionary of its elements.
\<close>

record tile_map =
  tm_radius_sq :: int
  tm_radius :: int
  tm_base_sorted :: "(int \<times> int \<times> int \<times> int) list"  \<comment> \<open>dx, dy, squared distance, index\<close>
  tm_maps :: "int store store"

text \<open>\<open>get_city_tile_map_for_pos\<close> replaces itself by the variant for the wrapping of the map.\<close>

datatype pos_kind = Torus | CylinderNS | CylinderEW | Flat

record city_map_state =
  cm_tile_map :: "tile_map option"
  cm_variant :: "pos_kind option"
  cm_dist :: dist_state

text \<open>\<open>Math.floor(Math.sqrt(n))\<close>, as the number of positive squares up to \<open>n\<close>.\<close>

definition floor_sqrt_int :: "int \<Rightarrow> int" where
  "floor_sqrt_int n = int (length (filter (\<lambda>i. i * i \<le> n) [1..n]))"

definition dxy_to_center_index :: "int \<Rightarrow> int \<Rightarrow> int \<Rightarrow> int" where
  "dxy_to_center_index dx dy r = (dx + r) * (2 * r + 1) + dy + r"

fun vectors_loop :: "map_info \<Rightarrow> int \<Rightarrow> int \<Rightarrow> (int \<times> int) list \<Rightarrow> dist_state
    \<Rightarrow> (int \<times> int \<times> int \<times> int) list \<times> dist_state" where
  "vectors_loop m radius_sq r [] ds = ([], ds)"
| "vectors_loop m radius_sq r ((dx, dy) # ps) ds =
     (let (d_sq, ds1) = map_vector_to_sq_distance m ds dx dy;
          (vs, ds2) = vectors_loop m radius_sq r ps ds1
      in (if d_sq \<le> radius_sq then (dx, dy, d_sq, dxy_to_center_index dx dy r) # vs else vs, ds2))"

text \<open>The comparison function of the sort: by distance, then \<open>dx\<close>, then \<open>dy\<close>.\<close>

fun vector_key :: "int \<times> int \<times> int \<times> int \<Rightarrow> int \<times> int \<times> int" where
  "vector_key (dx, dy, d, i) = (d, dx, dy)"

fun number_from :: "int \<Rightarrow> (int \<times> int \<times> int \<times> int) list \<Rightarrow> int store \<Rightarrow> int store" where
  "number_from i [] acc = acc"
| "number_from i ((dx, dy, d, k) # vs) acc = number_from (i + 1) vs (st_put k i acc)"

definition build_city_tile_map :: "map_info \<Rightarrow> int \<Rightarrow> city_map_state \<Rightarrow> city_map_state" where
  "build_city_tile_map m radius_sq st =
     (if (case cm_tile_map st of None \<Rightarrow> True | Some tm \<Rightarrow> tm_radius_sq tm < radius_sq) then
        (let r = floor_sqrt_int radius_sq;
             (vs, ds) = vectors_loop m radius_sq r
                (concat (map (\<lambda>dx. map (\<lambda>dy. (dx, dy)) [- r..r]) [- r..r])) (cm_dist st);
             vectors = sort_key vector_key vs;
             base_map = number_from 0 vectors st_empty
         in st\<lparr>cm_tile_map := Some \<lparr>tm_radius_sq = radius_sq, tm_radius = r,
                 tm_base_sorted = vectors, tm_maps = st_put 0 base_map st_empty\<rparr>,
               cm_dist := ds\<rparr>)
      else st)"

definition delta_tile_helper :: "int \<Rightarrow> int \<Rightarrow> int \<Rightarrow> int \<times> int \<times> int" where
  "delta_tile_helper pos r sz =
     (let d_min = - pos; d_max = (sz - 1) - pos
      in (d_min, d_max,
          if d_min > - r then r + d_min else if d_max < r then 2 * r - d_max else 0))"

definition build_city_tile_map_with_limits ::
    "tile_map \<Rightarrow> int \<Rightarrow> int \<Rightarrow> int \<Rightarrow> int \<Rightarrow> int store" where
  "build_city_tile_map_with_limits tm dx_min dx_max dy_min dy_max =
     number_from 0
       (filter (\<lambda>(dx, dy, d, i). dx \<ge> dx_min \<and> dx \<le> dx_max \<and> dy \<ge> dy_min \<and> dy \<le> dy_max)
          (tm_base_sorted tm)) st_empty"

text \<open>The table under an index of \<open>maps\<close>, built at its first use.\<close>

definition cached_map :: "tile_map \<Rightarrow> int \<Rightarrow> int \<Rightarrow> int \<Rightarrow> int \<Rightarrow> int \<Rightarrow> city_map_state
    \<Rightarrow> int store \<times> city_map_state" where
  "cached_map tm i dx_min dx_max dy_min dy_max st =
     (case st_get (tm_maps tm) i of
        None \<Rightarrow> (let mp = build_city_tile_map_with_limits tm dx_min dx_max dy_min dy_max
                 in (mp, st\<lparr>cm_tile_map := Some (tm\<lparr>tm_maps := st_put i mp (tm_maps tm)\<rparr>)\<rparr>))
      | Some mp \<Rightarrow> (mp, st))"

definition pos_kind_of :: "map_info \<Rightarrow> pos_kind" where
  "pos_kind_of m =
     (if wrap_has_flag m WRAP_X then (if wrap_has_flag m WRAP_Y then Torus else CylinderNS)
      else (if wrap_has_flag m WRAP_Y then CylinderEW else Flat))"

text \<open>\<open>None\<close> when no tile map has been built: \<open>city_tile_map.radius\<close> throws.\<close>

definition get_city_tile_map_for_pos ::
    "map_info \<Rightarrow> city_map_state \<Rightarrow> int \<Rightarrow> int \<Rightarrow> (int store \<times> city_map_state) option" where
  "get_city_tile_map_for_pos m st x y =
     (let k = (case cm_variant st of None \<Rightarrow> pos_kind_of m | Some k \<Rightarrow> k);
          st1 = st\<lparr>cm_variant := Some k\<rparr>
      in case cm_tile_map st of
           None \<Rightarrow> None
         | Some tm \<Rightarrow>
             (let r = tm_radius tm in
              case k of
                Torus \<Rightarrow> map_option (\<lambda>mp. (mp, st1)) (st_get (tm_maps tm) 0)
              | CylinderNS \<Rightarrow>
                  (let (d0, d1, i) = delta_tile_helper y r (m_ysize m)
                   in Some (cached_map tm i (- r) r d0 d1 st1))
              | CylinderEW \<Rightarrow>
                  (let (d0, d1, i) = delta_tile_helper x r (m_xsize m)
                   in Some (cached_map tm i d0 d1 (- r) r st1))
              | Flat \<Rightarrow>
                  (let (dx0, dx1, ix) = delta_tile_helper x r (m_xsize m);
                       (dy0, dy1, iy) = delta_tile_helper y r (m_ysize m)
                   in Some (cached_map tm ((2 * r + 1) * ix + iy) dx0 dx1 dy0 dy1 st1))))"

text \<open>\<open>get_city_dxy_to_index\<close>: the radius is that of \<open>pcity\<close>, the position \<open>(x, y)\<close> that of the
  open city's tile.  The index is \<open>None\<close> when the array has no such element.\<close>

definition get_city_dxy_to_index :: "map_info \<Rightarrow> int \<Rightarrow> int \<Rightarrow> int \<Rightarrow> int \<times> int
    \<Rightarrow> city_map_state \<Rightarrow> (int option \<times> city_map_state) option" where
  "get_city_dxy_to_index m dx dy city_radius_sq ctile st =
     (let st1 = build_city_tile_map m city_radius_sq st
      in case cm_tile_map st1 of
           None \<Rightarrow> None
         | Some tm \<Rightarrow>
             (let city_tile_map_index = dxy_to_center_index dx dy (tm_radius tm)
              in map_option (\<lambda>(mp, st2). (st_get mp city_tile_map_index, st2))
                   (get_city_tile_map_for_pos m st1 (fst ctile) (snd ctile))))"

subsection \<open>The integer root\<close>

lemma floor_sqrt_int_card:
  assumes "0 \<le> r" and "r * r \<le> n" and "n < (r + 1) * (r + 1)"
  shows "floor_sqrt_int n = r"
proof -
  have "i * i \<le> n \<longleftrightarrow> i \<le> r" if "1 \<le> i" for i
  proof
    assume "i * i \<le> n"
    with assms(3) have "i * i < (r + 1) * (r + 1)" by linarith
    show "i \<le> r"
    proof (rule ccontr)
      assume "\<not> i \<le> r"
      then have "(r + 1) * (r + 1) \<le> i * i" using assms(1) by (intro mult_mono) auto
      with \<open>i * i < (r + 1) * (r + 1)\<close> show False by simp
    qed
  next
    assume "i \<le> r"
    then have "i * i \<le> r * r" using that by (intro mult_mono) auto
    with assms(2) show "i * i \<le> n" by linarith
  qed
  then have "filter (\<lambda>i. i * i \<le> n) [1..n] = filter (\<lambda>i. i \<le> r) [1..n]"
    by (intro filter_cong) auto
  also have "r \<le> r * r"
    using assms(1) mult_left_mono [of 1 r r] by (cases "r = 0") auto
  then have "r \<le> n" using assms(2) by linarith
  then have "length (filter (\<lambda>i. i \<le> r) [1..n]) = card ({1..n} \<inter> {..r})"
    by (subst distinct_card [symmetric]) (auto intro!: arg_cong [where f = card] simp del: card_atLeastAtMost_int)
  also have "{1..n} \<inter> {..r} = {1..r}" using \<open>r \<le> n\<close> by auto
  also have "card {1..r} = nat r" by simp
  finally show ?thesis using assms(1) by (simp add: floor_sqrt_int_def)
qed

lemma floor_sqrt_int_bounds:
  assumes "0 \<le> n"
  shows "0 \<le> floor_sqrt_int n" and "floor_sqrt_int n * floor_sqrt_int n \<le> n"
    and "n < (floor_sqrt_int n + 1) * (floor_sqrt_int n + 1)"
proof -
  have "\<exists>r. 0 \<le> r \<and> r * r \<le> n \<and> n < (r + 1) * (r + 1)"
    using assms
  proof (induction rule: int_ge_induct)
    case base
    show ?case by (rule exI [of _ 0]) simp
  next
    case (step n)
    then obtain r where r: "0 \<le> r" "r * r \<le> n" "n < (r + 1) * (r + 1)" by blast
    show ?case
    proof (cases "n + 1 < (r + 1) * (r + 1)")
      case True
      with r show ?thesis by (intro exI [of _ r]) simp
    next
      case False
      with r have "n + 1 = (r + 1) * (r + 1)" by linarith
      with r show ?thesis by (intro exI [of _ "r + 1"]) (simp add: algebra_simps)
    qed
  qed
  then obtain r where r: "0 \<le> r" "r * r \<le> n" "n < (r + 1) * (r + 1)" by blast
  from floor_sqrt_int_card [OF this] have "floor_sqrt_int n = r" .
  with r show "0 \<le> floor_sqrt_int n" and "floor_sqrt_int n * floor_sqrt_int n \<le> n"
    and "n < (floor_sqrt_int n + 1) * (floor_sqrt_int n + 1)" by simp_all
qed

lemma square_le_floor_sqrt: "0 \<le> n \<Longrightarrow> a * a \<le> n \<Longrightarrow> \<bar>a\<bar> \<le> floor_sqrt_int n"
proof (rule ccontr)
  assume n: "0 \<le> n" "a * a \<le> n" and "\<not> \<bar>a\<bar> \<le> floor_sqrt_int n"
  then have le: "floor_sqrt_int n + 1 \<le> \<bar>a\<bar>" by simp
  have "(floor_sqrt_int n + 1) * (floor_sqrt_int n + 1) \<le> \<bar>a\<bar> * \<bar>a\<bar>"
    using le floor_sqrt_int_bounds(1) [OF n(1)] by (intro mult_mono) auto
  with floor_sqrt_int_bounds(3) [OF n(1)] n(2) show False by simp
qed

text \<open>It is the floor of the real square root.\<close>

lemma floor_sqrt_int_real: "0 \<le> n \<Longrightarrow> floor_sqrt_int n = \<lfloor>sqrt (real_of_int n)\<rfloor>"
proof (rule floor_unique [symmetric])
  assume n: "0 \<le> n"
  let ?r = "floor_sqrt_int n"
  have "real_of_int (?r * ?r) \<le> real_of_int n" using floor_sqrt_int_bounds(2) [OF n] by linarith
  then show "real_of_int ?r \<le> sqrt (real_of_int n)"
    by (intro real_le_rsqrt) (simp add: power2_eq_square)
  have "real_of_int n < real_of_int ((?r + 1) * (?r + 1))" using floor_sqrt_int_bounds(3) [OF n] by linarith
  then show "sqrt (real_of_int n) < real_of_int ?r + 1"
    using floor_sqrt_int_bounds(1) [OF n]
    by (intro real_less_lsqrt) (simp_all add: power2_eq_square)
qed

end
