(* ===== verification/City_Map_Facts.thy ===== *)
theory City_Map_Facts
  imports City_Map "HOL-Library.Multiset"
begin

text \<open>
  The numbering of the workable tiles is right: whatever was cached before, the number of a
  tile is the number of city tiles on the map that come before it in the order of distance.
  In particular the answer does not depend on the radius the table was built for, nor on the
  city whose lookup built it.
\<close>

subsection \<open>The squared distance in use\<close>

definition sqd :: "map_info \<Rightarrow> dist_state \<Rightarrow> int \<Rightarrow> int \<Rightarrow> int" where
  "sqd m ds dx dy = fst (map_vector_to_sq_distance m ds dx dy)"

lemma sqd_after_call: "sqd m (snd (map_vector_to_sq_distance m ds a b)) = sqd m ds"
  by (intro ext) (simp add: sqd_def map_vector_to_sq_distance_def map_vector_to_distance_def Let_def
      split: option.split sq_kind.split)

lemma abs_le_dist: "\<bar>dx\<bar> \<le> dist_of_kind k dx dy \<and> \<bar>dy\<bar> \<le> dist_of_kind k dx dy"
  by (cases k) auto

lemma sqd_bounds:
  assumes "0 \<le> n" and "sqd m ds dx dy \<le> n"
  shows "\<bar>dx\<bar> \<le> floor_sqrt_int n" and "\<bar>dy\<bar> \<le> floor_sqrt_int n"
proof -
  have "(\<exists>k. sqd m ds dx dy = dist_of_kind k dx dy * dist_of_kind k dx dy)
      \<or> sqd m ds dx dy = dx * dx + dy * dy"
    by (simp add: sqd_def map_vector_to_sq_distance_def map_vector_to_distance_def Let_def
        split: option.split sq_kind.split) blast
  then have "\<bar>dx\<bar> \<le> floor_sqrt_int n \<and> \<bar>dy\<bar> \<le> floor_sqrt_int n"
  proof
    assume "\<exists>k. sqd m ds dx dy = dist_of_kind k dx dy * dist_of_kind k dx dy"
    then obtain k where "dist_of_kind k dx dy * dist_of_kind k dx dy \<le> n" using assms(2) by auto
    from square_le_floor_sqrt [OF assms(1) this] abs_le_dist [of dx k dy] abs_le_dist [of dy k]
    show ?thesis by linarith
  next
    assume "sqd m ds dx dy = dx * dx + dy * dy"
    then have "dx * dx \<le> n" "dy * dy \<le> n"
      using assms(2) zero_le_square [of dx] zero_le_square [of dy] by linarith+
    with square_le_floor_sqrt [OF assms(1)] show ?thesis by blast
  qed
  then show "\<bar>dx\<bar> \<le> floor_sqrt_int n" and "\<bar>dy\<bar> \<le> floor_sqrt_int n" by blast+
qed

subsection \<open>The sorted vectors\<close>

definition square :: "int \<Rightarrow> (int \<times> int) list" where
  "square r = concat (map (\<lambda>dx. map (\<lambda>dy. (dx, dy)) [- r..r]) [- r..r])"

lemma set_square: "set (square r) = {- r..r} \<times> {- r..r}"
  by (auto simp: square_def)

lemma distinct_square: "distinct (square r)"
  unfolding square_def
  by (rule distinct_concat) (auto simp: distinct_map inj_on_def)

definition vector_of :: "map_info \<Rightarrow> dist_state \<Rightarrow> int \<Rightarrow> int \<times> int \<Rightarrow> int \<times> int \<times> int \<times> int" where
  "vector_of m ds r p = (fst p, snd p, sqd m ds (fst p) (snd p), dxy_to_center_index (fst p) (snd p) r)"

lemma vectors_loop_eq:
  "vectors_loop m n r ps ds = (vs, ds') \<Longrightarrow>
     vs = map (vector_of m ds r) (filter (\<lambda>(dx, dy). sqd m ds dx dy \<le> n) ps) \<and> sqd m ds' = sqd m ds"
proof (induction ps arbitrary: vs ds)
  case (Cons p ps)
  obtain dx dy where p: "p = (dx, dy)" by (cases p)
  obtain d ds1 where d: "map_vector_to_sq_distance m ds dx dy = (d, ds1)" by fastforce
  obtain vs2 ds2 where v: "vectors_loop m n r ps ds1 = (vs2, ds2)" by fastforce
  have s1: "sqd m ds1 = sqd m ds" using sqd_after_call [of m ds dx dy] d by simp
  have "ds2 = ds'" using Cons.prems p d v by simp
  with Cons.IH [OF v [unfolded this]] s1 have
    "vs2 = map (vector_of m ds r) (filter (\<lambda>(dx, dy). sqd m ds dx dy \<le> n) ps)" "sqd m ds' = sqd m ds"
    by (simp_all add: vector_of_def)
  moreover have "d = sqd m ds dx dy" using d by (simp add: sqd_def)
  ultimately show ?case using Cons.prems p d v by (auto simp: vector_of_def)
qed simp

definition city_vectors :: "map_info \<Rightarrow> dist_state \<Rightarrow> int \<Rightarrow> (int \<times> int \<times> int \<times> int) list" where
  "city_vectors m ds n = sort_key vector_key
     (map (vector_of m ds (floor_sqrt_int n))
        (filter (\<lambda>(dx, dy). sqd m ds dx dy \<le> n) (square (floor_sqrt_int n))))"

lemma set_city_vectors:
  assumes "0 \<le> n"
  shows "set (city_vectors m ds n) = vector_of m ds (floor_sqrt_int n) ` {(dx, dy). sqd m ds dx dy \<le> n}"
  using sqd_bounds [OF assms, of m ds] by (force simp: city_vectors_def set_square abs_le_iff)

lemma vector_key_of: "vector_key (vector_of m ds r p) = (sqd m ds (fst p) (snd p), fst p, snd p)"
  by (simp add: vector_of_def)

lemma sorted_city_vectors: "sorted_wrt (\<lambda>v w. vector_key v < vector_key w) (city_vectors m ds n)"
proof -
  let ?vs = "city_vectors m ds n"
  have "inj_on (vector_key \<circ> vector_of m ds (floor_sqrt_int n)) A" for A
    by (auto simp: inj_on_def vector_key_of)
  then have "distinct (map vector_key (map (vector_of m ds (floor_sqrt_int n))
      (filter (\<lambda>(dx, dy). sqd m ds dx dy \<le> n) (square (floor_sqrt_int n)))))"
    by (simp add: distinct_map distinct_square)
  moreover have "mset (map vector_key ?vs) = mset (map vector_key (map (vector_of m ds (floor_sqrt_int n))
      (filter (\<lambda>(dx, dy). sqd m ds dx dy \<le> n) (square (floor_sqrt_int n)))))"
    by (simp add: city_vectors_def multiset.map_comp)
  ultimately have "distinct (map vector_key ?vs)"
    by (metis mset_eq_imp_distinct_iff)
  moreover have "sorted (map vector_key ?vs)" by (simp add: city_vectors_def)
  ultimately have "sorted_wrt (<) (map vector_key ?vs)" by (simp add: strict_sorted_iff)
  then show ?thesis by (simp add: sorted_wrt_map)
qed

subsection \<open>Numbers are ranks\<close>


lemma number_from_other:
  "k \<notin> set (map (\<lambda>(dx, dy, d, k). k) vs) \<Longrightarrow> st_get (number_from i vs acc) k = st_get acc k"
  by (induction i vs acc rule: number_from.induct) (auto simp: js.get_put)

lemma number_from_nth:
  assumes "distinct (map (\<lambda>(dx, dy, d, k). k) vs)" and "j < length vs" and "vs ! j = (dx, dy, d, k)"
  shows "st_get (number_from i vs acc) k = Some (i + int j)"
  using assms
proof (induction i vs acc arbitrary: j rule: number_from.induct)
  case (2 i dx' dy' d' k' vs acc)
  show ?case
  proof (cases j)
    case 0
    with 2 have "k = k'" "k \<notin> set (map (\<lambda>(dx, dy, d, k). k) vs)" by auto
    then show ?thesis using 0 by (simp add: number_from_other)
  next
    case (Suc j')
    with 2 show ?thesis by simp
  qed
qed simp

lemma rank_nth:
  assumes "sorted_wrt (\<lambda>v w. f v < (f w :: 'b::linorder)) vs" and "j < length vs"
  shows "card {w \<in> set vs. f w < f (vs ! j)} = j"
proof -
  have mono: "f (vs ! a) < f (vs ! b)" if "a < b" "b < length vs" for a b
    using assms(1) that by (simp add: sorted_wrt_iff_nth_less)
  have "{w \<in> set vs. f w < f (vs ! j)} = (\<lambda>i. vs ! i) ` {..<j}"
  proof (intro equalityI subsetI)
    fix w assume w: "w \<in> {w \<in> set vs. f w < f (vs ! j)}"
    then obtain i where i: "i < length vs" "w = vs ! i" by (auto simp: in_set_conv_nth)
    have "\<not> j < i" using mono [of j i] i w by auto
    moreover have "i \<noteq> j" using i w by auto
    ultimately show "w \<in> (\<lambda>i. vs ! i) ` {..<j}" using i by auto
  next
    fix w assume "w \<in> (\<lambda>i. vs ! i) ` {..<j}"
    then show "w \<in> {w \<in> set vs. f w < f (vs ! j)}" using mono assms(2) by auto
  qed
  moreover have "inj_on (\<lambda>i. vs ! i) {..<j}"
    using mono assms(2) by (intro inj_onI) (metis less_irrefl less_trans lessThan_iff linorder_neqE_nat)
  ultimately show ?thesis by (simp add: card_image)
qed

lemma center_index_inj:
  assumes "dxy_to_center_index dx dy r = dxy_to_center_index dx' dy' r"
    and "\<bar>dx\<bar> \<le> r" "\<bar>dy\<bar> \<le> r" "\<bar>dx'\<bar> \<le> r" "\<bar>dy'\<bar> \<le> r"
  shows "dx = dx' \<and> dy = dy'"
proof -
  have "dy + r + (dx + r) * (2 * r + 1) = dy' + r + (dx' + r) * (2 * r + 1)"
    using assms(1) by (simp add: dxy_to_center_index_def)
  moreover have "0 \<le> dy + r" "dy + r < 2 * r + 1" "0 \<le> dy' + r" "dy' + r < 2 * r + 1"
    using assms(2-) by auto
  ultimately have "dy + r = dy' + r \<and> dx + r = dx' + r"
    by (intro index_unique) auto
  then show ?thesis by simp
qed

text \<open>The table for a window \<open>W\<close> of the square of radius \<open>r\<close>.\<close>

definition window_table :: "map_info \<Rightarrow> dist_state \<Rightarrow> int \<Rightarrow> (int \<Rightarrow> int \<Rightarrow> bool) \<Rightarrow> int store" where
  "window_table m ds n W = number_from 0 (filter (\<lambda>(dx, dy, d, i). W dx dy) (city_vectors m ds n)) st_empty"

lemma window_table_rank:
  assumes "0 \<le> n" and "sqd m ds dx dy \<le> n" and "W dx dy"
  shows "st_get (window_table m ds n W) (dxy_to_center_index dx dy (floor_sqrt_int n)) =
    Some (int (card {(a, b). W a b \<and> (sqd m ds a b, a, b) < (sqd m ds dx dy, dx, dy)}))"
proof -
  let ?r = "floor_sqrt_int n"
  let ?vs = "filter (\<lambda>(dx, dy, d, i). W dx dy) (city_vectors m ds n)"
  let ?v = "vector_of m ds ?r (dx, dy)"
  have set_vs: "set ?vs = vector_of m ds ?r ` {(a, b). sqd m ds a b \<le> n \<and> W a b}"
    using set_city_vectors [OF assms(1), of m ds] by (auto simp: vector_of_def)
  have sorted: "sorted_wrt (\<lambda>v w. vector_key v < vector_key w) ?vs"
    by (rule sorted_wrt_filter_mono [OF sorted_city_vectors])
  have "?v \<in> set ?vs" using assms(2,3) unfolding set_vs by force
  then obtain j where j: "j < length ?vs" "?vs ! j = ?v"
    unfolding in_set_conv_nth by blast
  have "inj_on (\<lambda>(dx, dy, d, k). k) (set ?vs)"
  proof (rule inj_onI)
    fix v w assume v: "v \<in> set ?vs" and w: "w \<in> set ?vs"
      and e: "(\<lambda>(dx, dy, d, k). k) v = (\<lambda>(dx, dy, d, k). k) w"
    from v w obtain a b a' b' where ab: "v = vector_of m ds ?r (a, b)" "sqd m ds a b \<le> n"
      and ab': "w = vector_of m ds ?r (a', b')" "sqd m ds a' b' \<le> n"
      unfolding set_vs by blast
    have "a = a' \<and> b = b'"
      using e ab ab' sqd_bounds [OF assms(1) ab(2)] sqd_bounds [OF assms(1) ab'(2)]
      by (intro center_index_inj [of a b ?r a' b']) (simp_all add: vector_of_def)
    with ab ab' show "v = w" by simp
  qed
  moreover have "distinct ?vs"
    using sorted by (metis (no_types, lifting) less_irrefl sorted_wrt_iff_nth_less distinct_conv_nth
        linorder_neqE_nat)
  ultimately have "distinct (map (\<lambda>(dx, dy, d, k). k) ?vs)" by (simp add: distinct_map)
  from number_from_nth [OF this j(1), of dx dy "sqd m ds dx dy" "dxy_to_center_index dx dy ?r" 0 st_empty] j(2)
  have "st_get (window_table m ds n W) (dxy_to_center_index dx dy ?r) = Some (int j)"
    by (simp add: window_table_def vector_of_def)
  also have "j = card {w \<in> set ?vs. vector_key w < vector_key ?v}"
    using rank_nth [OF sorted j(1)] j(2) by simp
  also have "{w \<in> set ?vs. vector_key w < vector_key ?v} = vector_of m ds ?r `
      {(a, b). W a b \<and> (sqd m ds a b, a, b) < (sqd m ds dx dy, dx, dy)}"
  proof -
    have "{(a, b). W a b \<and> (sqd m ds a b, a, b) < (sqd m ds dx dy, dx, dy)} =
        {(a, b). sqd m ds a b \<le> n \<and> W a b \<and> (sqd m ds a b, a, b) < (sqd m ds dx dy, dx, dy)}"
      using assms(2) by auto
    then show ?thesis unfolding set_vs by (auto simp: vector_key_of)
  qed
  also have "card \<dots> = card {(a, b). W a b \<and> (sqd m ds a b, a, b) < (sqd m ds dx dy, dx, dy)}"
    by (rule card_image) (auto simp: inj_on_def vector_of_def)
  finally show ?thesis .
qed

lemma window_table_cong:
  assumes "\<And>dx dy. \<bar>dx\<bar> \<le> floor_sqrt_int n \<Longrightarrow> \<bar>dy\<bar> \<le> floor_sqrt_int n \<Longrightarrow> W dx dy = W' dx dy"
    and "0 \<le> n"
  shows "window_table m ds n W = window_table m ds n W'"
proof -
  have "filter (\<lambda>(dx, dy, d, i). W dx dy) (city_vectors m ds n)
      = filter (\<lambda>(dx, dy, d, i). W' dx dy) (city_vectors m ds n)"
    using assms(1) sqd_bounds [OF assms(2), of m ds]
    by (intro filter_cong refl) (auto simp: set_city_vectors [OF assms(2)] vector_of_def)
  then show ?thesis by (simp add: window_table_def)
qed

subsection \<open>The cache\<close>

lemma city_vectors_cong: "sqd m ds = sqd m ds' \<Longrightarrow> city_vectors m ds n = city_vectors m ds' n"
  by (simp add: city_vectors_def vector_of_def [abs_def])

lemma window_table_dist: "sqd m ds = sqd m ds' \<Longrightarrow> window_table m ds n W = window_table m ds' n W"
  unfolding window_table_def by (drule city_vectors_cong [of m ds ds' n]) simp

lemma floor_sqrt_int_mono: "0 \<le> n \<Longrightarrow> n \<le> R \<Longrightarrow> floor_sqrt_int n \<le> floor_sqrt_int R"
  using square_le_floor_sqrt [of R "floor_sqrt_int n"] floor_sqrt_int_bounds(2) [of n] by linarith

text \<open>Which tiles around \<open>(x, y)\<close> the map has.\<close>

definition has_tile :: "map_info \<Rightarrow> int \<Rightarrow> int \<Rightarrow> int \<Rightarrow> int \<Rightarrow> bool" where
  "has_tile m x y dx dy \<longleftrightarrow>
     (wrap_has_flag m WRAP_X \<or> 0 \<le> x + dx \<and> x + dx < m_xsize m) \<and>
     (wrap_has_flag m WRAP_Y \<or> 0 \<le> y + dy \<and> y + dy < m_ysize m)"

definition helper_index :: "int \<Rightarrow> int \<Rightarrow> int \<Rightarrow> int" where
  "helper_index pos r s = snd (snd (delta_tile_helper pos r s))"

definition table_index :: "map_info \<Rightarrow> int \<Rightarrow> int \<Rightarrow> int \<Rightarrow> int" where
  "table_index m r x y =
     (case pos_kind_of m of Torus \<Rightarrow> 0 | CylinderNS \<Rightarrow> helper_index y r (m_ysize m)
      | CylinderEW \<Rightarrow> helper_index x r (m_xsize m)
      | Flat \<Rightarrow> (2 * r + 1) * helper_index x r (m_xsize m) + helper_index y r (m_ysize m))"

lemma helper_index_eq:
  "helper_index p r s = (if p < r then r - p else if s - 1 - p < r then 2 * r - (s - 1 - p) else 0)"
  by (simp add: helper_index_def delta_tile_helper_def Let_def)

lemma helper_index_range:
  "0 \<le> r \<Longrightarrow> 0 \<le> pos \<Longrightarrow> pos < s \<Longrightarrow> 0 \<le> helper_index pos r s \<and> helper_index pos r s < 2 * r + 1"
  by (simp add: helper_index_def delta_tile_helper_def Let_def)

lemma helper_index_zero:
  assumes "helper_index pos r s = 0" and "0 \<le> r" "0 \<le> pos" "pos < s" and "\<bar>d\<bar> \<le> r"
  shows "0 \<le> pos + d \<and> pos + d < s"
proof -
  have "r \<le> pos" "pos + r < s" using assms(1-4) by (simp_all add: helper_index_eq split: if_splits)
  with assms(5) show ?thesis by auto
qed

lemma helper_index_window:
  assumes "helper_index pos r s = helper_index pos' r s"
    and "0 \<le> r" "2 * r < s" "0 \<le> pos" "pos < s" "0 \<le> pos'" "pos' < s" and "\<bar>d\<bar> \<le> r"
  shows "(0 \<le> pos + d \<and> pos + d < s) = (0 \<le> pos' + d \<and> pos' + d < s)"
proof -
  consider "pos = pos'" | "r \<le> pos" "pos + r < s" "r \<le> pos'" "pos' + r < s"
    using assms(1-7) unfolding helper_index_eq by (simp split: if_splits)
  then show ?thesis using assms(8) by cases auto
qed

definition pos_ok :: "map_info \<Rightarrow> int \<Rightarrow> int \<Rightarrow> bool" where
  "pos_ok m x y \<longleftrightarrow> 0 \<le> x \<and> x < m_xsize m \<and> 0 \<le> y \<and> y < m_ysize m"

lemma table_index_window:
  assumes e: "table_index m r x y = table_index m r x' y'"
    and r: "0 \<le> r" "2 * r < m_xsize m" "2 * r < m_ysize m"
    and ok: "pos_ok m x y" "pos_ok m x' y'" and d: "\<bar>dx\<bar> \<le> r" "\<bar>dy\<bar> \<le> r"
  shows "has_tile m x y dx dy = has_tile m x' y' dx dy"
proof -
  let ?i = "\<lambda>x. helper_index x r (m_xsize m)" and ?j = "\<lambda>y. helper_index y r (m_ysize m)"
  have rx: "0 \<le> ?i x" "0 \<le> ?i x'" "?i x < 2 * r + 1" "?i x' < 2 * r + 1"
    and ry: "0 \<le> ?j y" "0 \<le> ?j y'" "?j y < 2 * r + 1" "?j y' < 2 * r + 1"
    using r ok helper_index_range by (auto simp: pos_ok_def)
  have ix: "?i x = ?i x'" if "\<not> wrap_has_flag m WRAP_X"
  proof (cases "wrap_has_flag m WRAP_Y")
    case True
    with e that show ?thesis by (simp add: table_index_def pos_kind_of_def)
  next
    case False
    with e that have "?j y + ?i x * (2 * r + 1) = ?j y' + ?i x' * (2 * r + 1)"
      by (simp add: table_index_def pos_kind_of_def algebra_simps)
    from index_unique [OF ry(1,3,2,4) this] show ?thesis by simp
  qed
  have iy: "?j y = ?j y'" if "\<not> wrap_has_flag m WRAP_Y"
  proof (cases "wrap_has_flag m WRAP_X")
    case True
    with e that show ?thesis by (simp add: table_index_def pos_kind_of_def)
  next
    case False
    with e that have "?j y + ?i x * (2 * r + 1) = ?j y' + ?i x' * (2 * r + 1)"
      by (simp add: table_index_def pos_kind_of_def algebra_simps)
    from index_unique [OF ry(1,3,2,4) this] show ?thesis by simp
  qed
  have "(0 \<le> x + dx \<and> x + dx < m_xsize m) = (0 \<le> x' + dx \<and> x' + dx < m_xsize m)"
    if "\<not> wrap_has_flag m WRAP_X"
    using helper_index_window [OF ix [OF that]] r ok d by (simp add: pos_ok_def)
  moreover have "(0 \<le> y + dy \<and> y + dy < m_ysize m) = (0 \<le> y' + dy \<and> y' + dy < m_ysize m)"
    if "\<not> wrap_has_flag m WRAP_Y"
    using helper_index_window [OF iy [OF that]] r ok d by (simp add: pos_ok_def)
  ultimately show ?thesis by (auto simp: has_tile_def)
qed

lemma table_index_zero:
  assumes "table_index m r x y = 0" and "0 \<le> r" and "pos_ok m x y" and "\<bar>dx\<bar> \<le> r" "\<bar>dy\<bar> \<le> r"
  shows "has_tile m x y dx dy"
proof -
  let ?i = "helper_index x r (m_xsize m)" and ?j = "helper_index y r (m_ysize m)"
  have nn: "0 \<le> ?i" "0 \<le> ?j" using assms(2,3) helper_index_range by (simp_all add: pos_ok_def)
  have "?i = 0" if "\<not> wrap_has_flag m WRAP_X" and "\<not> wrap_has_flag m WRAP_Y"
    using assms(1,2) that nn
    by (simp add: table_index_def pos_kind_of_def) (smt (verit) mult_pos_pos)
  moreover have "?j = 0" if "\<not> wrap_has_flag m WRAP_X" and "\<not> wrap_has_flag m WRAP_Y"
    using calculation that assms(1) by (simp add: table_index_def pos_kind_of_def)
  moreover have "?i = 0" if "\<not> wrap_has_flag m WRAP_X" and "wrap_has_flag m WRAP_Y"
    using assms(1) that by (simp add: table_index_def pos_kind_of_def)
  moreover have "?j = 0" if "wrap_has_flag m WRAP_X" and "\<not> wrap_has_flag m WRAP_Y"
    using assms(1) that by (simp add: table_index_def pos_kind_of_def)
  ultimately have "\<not> wrap_has_flag m WRAP_X \<Longrightarrow> ?i = 0" "\<not> wrap_has_flag m WRAP_Y \<Longrightarrow> ?j = 0"
    by blast+
  then show ?thesis
    using helper_index_zero [of x r "m_xsize m" dx] helper_index_zero [of y r "m_ysize m" dy] assms(2-)
    by (auto simp: has_tile_def pos_ok_def)
qed

text \<open>The tables in the cache are right for every position with their index.\<close>

definition cache_ok :: "map_info \<Rightarrow> dist_state \<Rightarrow> int \<Rightarrow> tile_map \<Rightarrow> bool" where
  "cache_ok m ds R tm \<longleftrightarrow>
     0 \<le> tm_radius_sq tm \<and> tm_radius_sq tm \<le> R \<and> tm_radius tm = floor_sqrt_int (tm_radius_sq tm)
     \<and> tm_base_sorted tm = city_vectors m ds (tm_radius_sq tm)
     \<and> st_get (tm_maps tm) 0 \<noteq> None
     \<and> (\<forall>x y mp. st_get (tm_maps tm) (table_index m (tm_radius tm) x y) = Some mp \<longrightarrow> pos_ok m x y
          \<longrightarrow> mp = window_table m ds (tm_radius_sq tm) (has_tile m x y))"

definition cm_ok :: "map_info \<Rightarrow> int \<Rightarrow> city_map_state \<Rightarrow> bool" where
  "cm_ok m R st \<longleftrightarrow>
     (cm_variant st = None \<or> cm_variant st = Some (pos_kind_of m))
     \<and> (case cm_tile_map st of None \<Rightarrow> True | Some tm \<Rightarrow> cache_ok m (cm_dist st) R tm)"

lemma cache_ok_dist: "sqd m ds = sqd m ds' \<Longrightarrow> cache_ok m ds R tm = cache_ok m ds' R tm"
  unfolding cache_ok_def by (simp add: window_table_dist [of m ds ds'] city_vectors_cong [of m ds ds'])

lemma build_ok:
  assumes "cm_ok m R st" and "0 \<le> n" and "n \<le> R"
  shows "cm_ok m R (build_city_tile_map m n st)"
    and "\<exists>tm. cm_tile_map (build_city_tile_map m n st) = Some tm \<and> n \<le> tm_radius_sq tm"
    and "sqd m (cm_dist (build_city_tile_map m n st)) = sqd m (cm_dist st)"
proof -
  let ?r = "floor_sqrt_int n" and ?ds = "cm_dist st"
  obtain vs ds where v: "vectors_loop m n ?r (square ?r) ?ds = (vs, ds)" by fastforce
  from vectors_loop_eq [OF this] have s: "sqd m ds = sqd m ?ds"
    and vs: "sort_key vector_key vs = city_vectors m ds n"
    by (simp_all add: city_vectors_def vector_of_def [abs_def])
  let ?base = "number_from 0 (city_vectors m ds n) st_empty"
  let ?tm = "\<lparr>tm_radius_sq = n, tm_radius = ?r, tm_base_sorted = city_vectors m ds n,
      tm_maps = st_put 0 ?base st_empty\<rparr>"
  have base: "?base = window_table m ds n (has_tile m x y)"
    if "table_index m ?r x y = 0" and "pos_ok m x y" for x y
  proof -
    have "window_table m ds n (\<lambda>_ _. True) = window_table m ds n (has_tile m x y)"
      using table_index_zero [OF that(1) _ that(2)] floor_sqrt_int_bounds(1) [OF assms(2)] assms(2)
      by (intro window_table_cong) auto
    then show ?thesis by (simp add: window_table_def case_prod_unfold)
  qed
  have ok: "cache_ok m ds R ?tm"
    using assms(2,3) base by (simp add: cache_ok_def js.get_put)
  show "cm_ok m R (build_city_tile_map m n st)"
    and "\<exists>tm. cm_tile_map (build_city_tile_map m n st) = Some tm \<and> n \<le> tm_radius_sq tm"
    and "sqd m (cm_dist (build_city_tile_map m n st)) = sqd m (cm_dist st)"
    using ok assms s v vs unfolding square_def
    by (auto simp: build_city_tile_map_def Let_def cm_ok_def split: option.split)
qed

lemma get_table:
  assumes "cm_ok m R st" and tm: "cm_tile_map st = Some tm" and pos: "pos_ok m x y"
    and R: "0 \<le> R" "2 * floor_sqrt_int R < m_xsize m" "2 * floor_sqrt_int R < m_ysize m"
  shows "\<exists>st'. get_city_tile_map_for_pos m st x y =
      Some (window_table m (cm_dist st) (tm_radius_sq tm) (has_tile m x y), st')
    \<and> cm_ok m R st' \<and> cm_dist st' = cm_dist st"
proof -
  let ?ds = "cm_dist st" and ?n = "tm_radius_sq tm" and ?r = "tm_radius tm"
  have ok: "cache_ok m ?ds R tm" and kind: "cm_variant st = None \<or> cm_variant st = Some (pos_kind_of m)"
    using assms(1) tm by (simp_all add: cm_ok_def)
  then have n: "0 \<le> ?n" "?n \<le> R" and r: "?r = floor_sqrt_int ?n" and b: "tm_base_sorted tm = city_vectors m ?ds ?n"
    by (simp_all add: cache_ok_def)
  have r0: "0 \<le> ?r" and rx: "2 * ?r < m_xsize m" "2 * ?r < m_ysize m"
    using r floor_sqrt_int_bounds(1) [OF n(1)] floor_sqrt_int_mono [OF n] R by simp_all
  let ?st1 = "st\<lparr>cm_variant := Some (pos_kind_of m)\<rparr>"
  let ?W = "window_table m ?ds ?n (has_tile m x y)"
  have limits: "build_city_tile_map_with_limits tm a b' c d = ?W"
    if "\<And>dx dy. \<bar>dx\<bar> \<le> ?r \<Longrightarrow> \<bar>dy\<bar> \<le> ?r \<Longrightarrow> (a \<le> dx \<and> dx \<le> b' \<and> c \<le> dy \<and> dy \<le> d) = has_tile m x y dx dy"
    for a b' c d
  proof -
    have "build_city_tile_map_with_limits tm a b' c d =
        window_table m ?ds ?n (\<lambda>dx dy. a \<le> dx \<and> dx \<le> b' \<and> c \<le> dy \<and> dy \<le> d)"
      by (simp add: build_city_tile_map_with_limits_def window_table_def b)
    also have "\<dots> = ?W" using that r n(1) by (intro window_table_cong) simp_all
    finally show ?thesis .
  qed
  have cached: "\<exists>st'. cached_map tm (table_index m ?r x y) a b' c d ?st1 = (?W, st')
      \<and> cm_ok m R st' \<and> cm_dist st' = ?ds"
    if w: "\<And>dx dy. \<bar>dx\<bar> \<le> ?r \<Longrightarrow> \<bar>dy\<bar> \<le> ?r \<Longrightarrow> (a \<le> dx \<and> dx \<le> b' \<and> c \<le> dy \<and> dy \<le> d) = has_tile m x y dx dy"
    for a b' c d
  proof (cases "st_get (tm_maps tm) (table_index m ?r x y)")
    case (Some mp)
    with ok pos have "mp = ?W" by (auto simp: cache_ok_def)
    with Some show ?thesis using ok tm by (simp add: cached_map_def cm_ok_def)
  next
    case None
    have "window_table m ?ds ?n (has_tile m x' y') = ?W"
      if "table_index m ?r x' y' = table_index m ?r x y" "pos_ok m x' y'" for x' y'
      using table_index_window [OF that(1) r0 rx that(2) pos] r n(1)
      by (intro window_table_cong) simp_all
    then have "cache_ok m ?ds R (tm\<lparr>tm_maps := st_put (table_index m ?r x y) ?W (tm_maps tm)\<rparr>)"
      using ok by (auto simp: cache_ok_def js.get_put)
    with None limits [OF w] show ?thesis by (simp add: cached_map_def Let_def cm_ok_def)
  qed
  have var: "(case cm_variant st of None \<Rightarrow> pos_kind_of m | Some k \<Rightarrow> k) = pos_kind_of m"
    using kind by auto
  show ?thesis
  proof (cases "pos_kind_of m")
    case Torus
    obtain mp where mp: "st_get (tm_maps tm) 0 = Some mp" using ok by (auto simp: cache_ok_def)
    moreover have "table_index m ?r x y = 0" using Torus by (simp add: table_index_def)
    ultimately have "mp = ?W" using ok pos by (auto simp: cache_ok_def)
    with mp Torus var tm ok show ?thesis
      by (simp add: get_city_tile_map_for_pos_def Let_def cm_ok_def)
  next
    case CylinderNS
    then have "(- ?r \<le> dx \<and> dx \<le> ?r \<and> - y \<le> dy \<and> dy \<le> m_ysize m - 1 - y) = has_tile m x y dx dy"
      if "\<bar>dx\<bar> \<le> ?r" for dx dy
      using that by (auto simp: has_tile_def pos_kind_of_def split: if_splits)
    from cached [OF this] CylinderNS var tm show ?thesis
      by (simp add: get_city_tile_map_for_pos_def Let_def table_index_def helper_index_def
          delta_tile_helper_def)
  next
    case CylinderEW
    then have "(- x \<le> dx \<and> dx \<le> m_xsize m - 1 - x \<and> - ?r \<le> dy \<and> dy \<le> ?r) = has_tile m x y dx dy"
      if "\<bar>dy\<bar> \<le> ?r" for dx dy
      using that by (auto simp: has_tile_def pos_kind_of_def split: if_splits)
    from cached [OF this] CylinderEW var tm show ?thesis
      by (simp add: get_city_tile_map_for_pos_def Let_def table_index_def helper_index_def
          delta_tile_helper_def)
  next
    case Flat
    then have "(- x \<le> dx \<and> dx \<le> m_xsize m - 1 - x \<and> - y \<le> dy \<and> dy \<le> m_ysize m - 1 - y) = has_tile m x y dx dy"
      for dx dy
      by (auto simp: has_tile_def pos_kind_of_def split: if_splits)
    from cached [OF this] Flat var tm show ?thesis
      by (simp add: get_city_tile_map_for_pos_def Let_def table_index_def helper_index_def
          delta_tile_helper_def)
  qed
qed

subsection \<open>Every sequence of lookups\<close>

text \<open>The states reached by lookups for cities of radius up to \<open>R\<close> on one map, with other
  distance computations in between.\<close>

inductive cm_reach :: "map_info \<Rightarrow> int \<Rightarrow> city_map_state \<Rightarrow> bool" for m R where
  cm_start: "cm_reach m R \<lparr>cm_tile_map = None, cm_variant = None, cm_dist = ds\<rparr>"
| cm_lookup: "cm_reach m R st \<Longrightarrow> 0 \<le> n \<Longrightarrow> n \<le> R \<Longrightarrow> pos_ok m x y \<Longrightarrow>
    get_city_dxy_to_index m dx dy n (x, y) st = Some (res, st') \<Longrightarrow> cm_reach m R st'"
| cm_other: "cm_reach m R st \<Longrightarrow>
    cm_reach m R (st\<lparr>cm_dist := snd (map_vector_to_sq_distance m (cm_dist st) a b)\<rparr>)"

lemma lookup_ok:
  assumes "cm_ok m R st" and "0 \<le> n" and "n \<le> R" and "pos_ok m x y"
    and R: "2 * floor_sqrt_int R < m_xsize m" "2 * floor_sqrt_int R < m_ysize m"
  shows "\<exists>st' (tm :: tile_map). get_city_dxy_to_index m dx dy n (x, y) st =
      Some (st_get (window_table m (cm_dist st) (tm_radius_sq tm) (has_tile m x y))
              (dxy_to_center_index dx dy (floor_sqrt_int (tm_radius_sq tm))), st')
    \<and> n \<le> tm_radius_sq tm \<and> cm_ok m R st'"
proof -
  let ?st1 = "build_city_tile_map m n st"
  have ok: "cm_ok m R ?st1" using build_ok(1) assms(1-3) .
  obtain tm where tm: "cm_tile_map ?st1 = Some tm" "n \<le> tm_radius_sq tm"
    using build_ok(2) [OF assms(1-3)] by blast
  have "0 \<le> R" using assms(2,3) by simp
  from get_table [OF ok tm(1) assms(4) this R] obtain st' where
    g: "get_city_tile_map_for_pos m ?st1 x y =
      Some (window_table m (cm_dist ?st1) (tm_radius_sq tm) (has_tile m x y), st')" and ok': "cm_ok m R st'"
    by blast
  have "window_table m (cm_dist ?st1) (tm_radius_sq tm) (has_tile m x y) =
      window_table m (cm_dist st) (tm_radius_sq tm) (has_tile m x y)"
    by (rule window_table_dist [OF build_ok(3) [OF assms(1-3)]])
  moreover have "tm_radius tm = floor_sqrt_int (tm_radius_sq tm)"
    using ok tm(1) by (simp add: cm_ok_def cache_ok_def)
  ultimately have "get_city_dxy_to_index m dx dy n (x, y) st =
      Some (st_get (window_table m (cm_dist st) (tm_radius_sq tm) (has_tile m x y))
              (dxy_to_center_index dx dy (floor_sqrt_int (tm_radius_sq tm))), st')"
    using g tm by (simp add: get_city_dxy_to_index_def Let_def)
  with tm(2) ok' show ?thesis by blast
qed

lemma cm_reach_ok:
  assumes "cm_reach m R st" and "2 * floor_sqrt_int R < m_xsize m" "2 * floor_sqrt_int R < m_ysize m"
  shows "cm_ok m R st"
  using assms(1)
proof (induction rule: cm_reach.induct)
  case (cm_lookup st n x y dx dy res st')
  from lookup_ok [OF cm_lookup(6,2,3,4) assms(2,3), of dx dy] cm_lookup(5) show ?case by auto
next
  case (cm_other st a b)
  then show ?case
    using cache_ok_dist [OF sqd_after_call [of m "cm_dist st" a b]] by (simp add: cm_ok_def split: option.splits)
qed (simp add: cm_ok_def)

text \<open>
  C11.  Whatever lookups came before, for whatever cities, and however small or large their
  radius was, the index of a workable tile of a city is its rank: the number of tiles around the
  city centre that lie on the map and come before it by distance, then column, then row.  The
  map must be wider and higher than twice the radius.
\<close>

theorem city_tile_index_is_rank:
  assumes "cm_reach m R st" and "0 \<le> n" and "n \<le> R" and "pos_ok m x y"
    and "2 * floor_sqrt_int R < m_xsize m" "2 * floor_sqrt_int R < m_ysize m"
    and "sqd m (cm_dist st) dx dy \<le> n" and "has_tile m x y dx dy"
  shows "map_option fst (get_city_dxy_to_index m dx dy n (x, y) st) =
    Some (Some (int (card {(a, b). has_tile m x y a b \<and>
      (sqd m (cm_dist st) a b, a, b) < (sqd m (cm_dist st) dx dy, dx, dy)})))"
proof -
  have ok: "cm_ok m R st" using cm_reach_ok assms by blast
  from lookup_ok [OF ok assms(2-6), of dx dy] obtain st' and tm :: tile_map where
    g: "get_city_dxy_to_index m dx dy n (x, y) st =
      Some (st_get (window_table m (cm_dist st) (tm_radius_sq tm) (has_tile m x y))
              (dxy_to_center_index dx dy (floor_sqrt_int (tm_radius_sq tm))), st')"
    and n: "n \<le> tm_radius_sq tm" by blast
  have "0 \<le> tm_radius_sq tm" "sqd m (cm_dist st) dx dy \<le> tm_radius_sq tm"
    using assms(2,7) n by linarith+
  from window_table_rank [OF this, of "has_tile m x y"] assms(8) g show ?thesis by simp
qed

theorem city_tile_index_is_rank_witness:
  "let m = \<lparr>m_topology_id = 0, m_wrap_id = 0, m_xsize = 20, m_ysize = 20\<rparr>;
       st = \<lparr>cm_tile_map = None, cm_variant = None, cm_dist = \<lparr>ds_dist = None, ds_sq = None\<rparr>\<rparr>
   in map_option fst (get_city_dxy_to_index m 0 0 5 (0, 3) st) = Some (Some 0)"
proof -
  let ?m = "\<lparr>m_topology_id = 0, m_wrap_id = 0, m_xsize = 20, m_ysize = 20\<rparr>"
  let ?d = "\<lparr>ds_dist = None, ds_sq = None\<rparr>"
  let ?st = "\<lparr>cm_tile_map = None, cm_variant = None, cm_dist = ?d\<rparr>"
  have sq: "sqd ?m ?d a b = a * a + b * b" for a b
    by (simp add: sqd_def map_vector_to_sq_distance_def topo_has_flag_def Let_def)
  have fs: "floor_sqrt_int 5 = 2" by (rule floor_sqrt_int_card) simp_all
  have om: "has_tile ?m 0 3 0 0" by (simp add: has_tile_def)
  have nn: "0 \<le> a * a + b * b" and z: "a * a + b * b \<le> 0 \<longleftrightarrow> a = 0 \<and> b = 0" for a b :: int
    by (simp_all add: sum_squares_le_zero_iff sum_squares_ge_zero)
  have emp: "{(a, b). has_tile ?m 0 3 a b \<and>
      (sqd ?m (cm_dist ?st) a b, a, b) < (sqd ?m (cm_dist ?st) 0 0, 0, 0)} = {}"
    using nn z by (auto simp: sq not_less)
  have "map_option fst (get_city_dxy_to_index ?m 0 0 5 (0, 3) ?st) = Some (Some (int (card {(a, b).
      has_tile ?m 0 3 a b \<and> (sqd ?m (cm_dist ?st) a b, a, b) < (sqd ?m (cm_dist ?st) 0 0, 0, 0)})))"
    by (rule city_tile_index_is_rank [where R = 5])
      (simp_all add: cm_start pos_ok_def fs sq om)
  then show ?thesis by (simp only: emp card.empty Let_def) simp
qed

end
