(* ===== verification/Js_Text.thy ===== *)
theory Js_Text
  imports Prelude
begin

text \<open>
  The text functions of the client (\<open>utility.js\<close>, \<open>banlist.js\<close>, \<open>speech.js\<close>) and the string
  methods of JavaScript they use.  A string is a list of characters of one code unit each; the
  functions are modelled on texts in the ASCII range, where \<open>toLowerCase\<close>, \<open>\w\<close> and the byte
  count of \<open>encodeURIComponent\<close> are those of single bytes.
\<close>

subsection \<open>String methods\<close>

definition char_code :: "char \<Rightarrow> nat" where
  "char_code c = of_char c"

definition is_upper :: "char \<Rightarrow> bool" where
  "is_upper c \<longleftrightarrow> 65 \<le> char_code c \<and> char_code c \<le> 90"

definition is_lower :: "char \<Rightarrow> bool" where
  "is_lower c \<longleftrightarrow> 97 \<le> char_code c \<and> char_code c \<le> 122"

definition is_digit :: "char \<Rightarrow> bool" where
  "is_digit c \<longleftrightarrow> 48 \<le> char_code c \<and> char_code c \<le> 57"

definition lower_char :: "char \<Rightarrow> char" where
  "lower_char c = (if is_upper c then char_of (char_code c + 32) else c)"

definition toLowerCase :: "string \<Rightarrow> string" where
  "toLowerCase s = map lower_char s"

fun starts_with :: "string \<Rightarrow> string \<Rightarrow> bool" where
  "starts_with [] s = True"
| "starts_with (p # ps) [] = False"
| "starts_with (p # ps) (c # s) = (p = c \<and> starts_with ps s)"

text \<open>\<open>s.indexOf(pat)\<close>: the first position where \<open>pat\<close> occurs, \<open>- 1\<close> when there is none.\<close>

fun index_of_from :: "int \<Rightarrow> string \<Rightarrow> string \<Rightarrow> int" where
  "index_of_from i pat [] = (if pat = [] then i else - 1)"
| "index_of_from i pat (c # s) =
     (if starts_with pat (c # s) then i else index_of_from (i + 1) pat s)"

definition indexOf :: "string \<Rightarrow> string \<Rightarrow> int" where
  "indexOf s pat = index_of_from 0 pat s"

definition js_includes :: "string \<Rightarrow> string \<Rightarrow> bool" where
  "js_includes s pat = (indexOf s pat \<noteq> - 1)"

text \<open>\<open>s.replace(/c/g, text)\<close> for a single character.\<close>

definition replace_char :: "char \<Rightarrow> string \<Rightarrow> string \<Rightarrow> string" where
  "replace_char c text s = concat (map (\<lambda>d. if d = c then text else [d]) s)"

text \<open>\<open>encodeURIComponent\<close>: the unreserved characters stay, the others become \<open>%XX\<close>.\<close>

definition hex_digit :: "nat \<Rightarrow> char" where
  "hex_digit d = (if d < 10 then char_of (48 + d) else char_of (55 + d))"

definition uri_unreserved :: "char \<Rightarrow> bool" where
  "uri_unreserved c \<longleftrightarrow> is_upper c \<or> is_lower c \<or> is_digit c \<or> c \<in> set ''-_.!~*()'' \<or> char_code c = 39"

definition encode_char :: "char \<Rightarrow> string" where
  "encode_char c = (if uri_unreserved c then [c]
     else [CHR ''%'', hex_digit (char_code c div 16), hex_digit (char_code c mod 16)])"

definition encodeURIComponent :: "string \<Rightarrow> string" where
  "encodeURIComponent s = concat (map encode_char s)"

subsection \<open>\<open>utility.js\<close>\<close>

text \<open>
  \<open>decodeURIComponent\<close>: a run of \<open>%XX\<close> must be well-formed UTF-8, else the call throws.
\<close>

definition hex_value :: "char \<Rightarrow> nat option" where
  "hex_value c = (let n = char_code c
     in if 48 \<le> n \<and> n \<le> 57 then Some (n - 48)
        else if 65 \<le> n \<and> n \<le> 70 then Some (n - 55)
        else if 97 \<le> n \<and> n \<le> 102 then Some (n - 87) else None)"

definition continuation :: "nat \<Rightarrow> bool" where
  "continuation b = (128 \<le> b \<and> b < 192)"

fun utf8_ok :: "nat list \<Rightarrow> bool" where
  "utf8_ok [] = True"
| "utf8_ok (b # bs) =
     (if b < 128 then utf8_ok bs
      else if 194 \<le> b \<and> b < 224
      then (case bs of b1 # r \<Rightarrow> continuation b1 \<and> utf8_ok r | _ \<Rightarrow> False)
      else if 224 \<le> b \<and> b < 240
      then (case bs of b1 # b2 # r \<Rightarrow> continuation b1 \<and> continuation b2
              \<and> (b = 224 \<longrightarrow> 160 \<le> b1) \<and> (b = 237 \<longrightarrow> b1 < 160) \<and> utf8_ok r | _ \<Rightarrow> False)
      else if 240 \<le> b \<and> b < 245
      then (case bs of b1 # b2 # b3 # r \<Rightarrow> continuation b1 \<and> continuation b2 \<and> continuation b3
              \<and> (b = 240 \<longrightarrow> 144 \<le> b1) \<and> (b = 244 \<longrightarrow> b1 < 144) \<and> utf8_ok r | _ \<Rightarrow> False)
      else False)"

fun escapes :: "string \<Rightarrow> (nat list \<times> string) option" where
  "escapes [] = Some ([], [])"
| "escapes (c # cs) =
     (if c \<noteq> CHR 0x25 then Some ([], c # cs)
      else (case cs of
              h1 # h2 # r \<Rightarrow>
                (case (hex_value h1, hex_value h2) of
                   (Some a, Some b) \<Rightarrow> map_option (\<lambda>(bs, r'). ((a * 16 + b) # bs, r')) (escapes r)
                 | _ \<Rightarrow> None)
            | _ \<Rightarrow> None))"

lemma escapes_shorter: "escapes s = Some (bs, r) \<Longrightarrow> length r \<le> length s"
  by (induction s arbitrary: bs rule: escapes.induct)
    (fastforce split: if_splits list.splits option.splits)+

lemma escapes_percent_shorter: "escapes (CHR 0x25 # s) = Some (bs, r) \<Longrightarrow> length r < Suc (length s)"
  by (auto split: list.splits option.splits dest!: escapes_shorter)

function decodeURIComponent :: "string \<Rightarrow> string option" where
  "decodeURIComponent [] = Some []"
| "decodeURIComponent (c # cs) =
     (if c \<noteq> CHR 0x25 then map_option ((#) c) (decodeURIComponent cs)
      else (case escapes (c # cs) of
              None \<Rightarrow> None
            | Some (bs, r) \<Rightarrow>
                (if utf8_ok bs then map_option ((@) (map char_of bs)) (decodeURIComponent r) else None)))"
  by pat_completeness auto
termination
  by (relation "measure length") (auto dest!: escapes_percent_shorter simp del: escapes.simps)

text \<open>\<open>parseInt\<close> of the quotient cuts toward zero.\<close>

definition trunc_div :: "int \<Rightarrow> int \<Rightarrow> int" where
  "trunc_div a b = sgn a * (\<bar>a\<bar> div b)"

definition DIVIDE :: "int \<Rightarrow> int \<Rightarrow> int" where
  "DIVIDE n d = trunc_div (n - d * (if n < 0 \<and> js_rem n d < 0 then 1 else 0)) d"

text \<open>The pattern puts a comma before each digit, but the first, that is followed by a multiple
  of three digits, itself included.\<close>

fun comma_digits :: "bool \<Rightarrow> string \<Rightarrow> string" where
  "comma_digits first [] = []"
| "comma_digits first (c # cs) =
     (if \<not> first \<and> length (c # cs) mod 3 = 0 then CHR '','' # c # comma_digits False cs
      else c # comma_digits False cs)"

definition numberWithCommas :: "int \<Rightarrow> string" where
  "numberWithCommas x =
     (if x < 0 then CHR ''-'' # comma_digits True (nat_text (nat (- x)))
      else comma_digits True (nat_text (nat x)))"

definition string_unqualify :: "string \<Rightarrow> string" where
  "string_unqualify str =
     (if starts_with ''?'' str \<and> indexOf str '':'' \<noteq> - 1
      then drop (nat (indexOf str '':'' + 1)) str
      else str)"

definition seconds_to_human_time :: "int \<Rightarrow> string" where
  "seconds_to_human_time input_seconds =
     (if input_seconds \<le> 0 then ''0s''
      else (let hours = input_seconds div 3600;
                minutes = (input_seconds - hours * 3600) div 60;
                seconds = input_seconds - hours * 3600 - minutes * 60
            in if hours > 0 then int_text hours @ ''h '' @ int_text minutes @ ''m ''
               else if minutes > 0 then int_text minutes @ ''m '' @ int_text seconds @ ''s''
               else int_text seconds @ ''s''))"

definition html_safe :: "string \<Rightarrow> string" where
  "html_safe text = replace_char (char_of (3 :: nat)) [char_of (10 :: nat)]
     (replace_char (char_of (34 :: nat)) ''&#34;'' (replace_char (char_of (39 :: nat)) ''&#39;'' text))"

definition uncapitalize :: "string \<Rightarrow> string" where
  "uncapitalize s = (case s of [] \<Rightarrow> [] | c # cs \<Rightarrow> lower_char c # cs)"

definition cleaned_text :: "string \<Rightarrow> string" where
  "cleaned_text str = replace_char (char_of (3 :: nat)) [] str"

definition is_space :: "char \<Rightarrow> bool" where
  "is_space c \<longleftrightarrow> char_code c = 32 \<or> 9 \<le> char_code c \<and> char_code c \<le> 13 \<or> char_code c = 160"

definition trim :: "string \<Rightarrow> string" where
  "trim str = rev (dropWhile is_space (rev (dropWhile is_space str)))"

definition XOR_js :: "bool \<Rightarrow> bool \<Rightarrow> bool" where
  "XOR_js a b = ((a \<or> b) \<and> \<not> (a \<and> b))"

subsection \<open>\<open>banlist.js\<close> and \<open>speech.js\<close>\<close>

text \<open>\<open>banned_users\<close> is a parameter: the list is empty in the source and meant to be edited.\<close>

definition check_text_with_banlist :: "string list \<Rightarrow> string option \<Rightarrow> bool" where
  "check_text_with_banlist banned_users text =
     (case text of None \<Rightarrow> False | Some t \<Rightarrow>
        t \<noteq> [] \<and> \<not> list_ex (\<lambda>b. js_includes (toLowerCase t) (toLowerCase b)) banned_users)"

definition check_text_with_banlist_exact :: "string list \<Rightarrow> string option \<Rightarrow> bool" where
  "check_text_with_banlist_exact banned_users text =
     (case text of None \<Rightarrow> False | Some t \<Rightarrow>
        t \<noteq> [] \<and> \<not> list_ex (\<lambda>b. toLowerCase t = toLowerCase b) banned_users)"

text \<open>\<open>strip_html\<close> stands for \<open>jQuery("<div>" + input + "</div>").text()\<close>.\<close>

fun remove_AI :: "string \<Rightarrow> string" where
  "remove_AI (a # b # s) = (if a = CHR ''A'' \<and> b = CHR ''I'' then remove_AI s else a # remove_AI (b # s))"
| "remove_AI s = s"

definition filter_speech_messages :: "(string \<Rightarrow> string) \<Rightarrow> bool \<Rightarrow> string option \<Rightarrow> string option" where
  "filter_speech_messages strip_html running input =
     (if \<not> running then None
      else case input of None \<Rightarrow> None | Some t \<Rightarrow>
        if t = [] \<or> js_includes t ''metamessage'' \<or> js_includes t ''rules the'' then None
        else (let t1 = filter (\<lambda>c. char_code c \<noteq> 10 \<and> char_code c \<noteq> 13) t;
                  t2 = replace_char (CHR ''*'') [] (remove_AI t1);
                  t3 = strip_html t2
              in if length t3 > 90 then None else Some t3))"

subsection \<open>Facts\<close>

lemma starts_with_take: "starts_with p s \<longleftrightarrow> (\<exists>t. s = p @ t)"
  by (induction p s rule: starts_with.induct) auto

lemma DIVIDE_eq_div: "0 < d \<Longrightarrow> DIVIDE n d = n div d"
proof (cases "n < 0")
  case True
  assume d: "0 < d"
  show ?thesis
  proof (cases "d dvd n")
    case True
    then obtain k where "n = d * k" by blast
    moreover have "(- (d * k)) div d = - k"
      using d by (metis mult_minus_right nonzero_mult_div_cancel_left less_irrefl)
    ultimately show ?thesis using d \<open>n < 0\<close>
      by (simp add: DIVIDE_def trunc_div_def js_rem_neg abs_mult sgn_mult mult_less_0_iff abs_if)
  next
    case False
    have m: "0 < n mod d" "n mod d < d" using d False
      by (simp_all add: dvd_eq_mod_eq_0 order_neq_le_trans)
    have "js_rem n d < 0"
      using js_rem_zero_iff [OF d, of n] False \<open>n < 0\<close> d by (simp add: js_rem_neg order_neq_le_trans)
    moreover have "(d - n) div d = - (n div d)"
    proof -
      have "d - n = d * (- (n div d)) + (d - n mod d)"
        using mult_div_mod_eq [of d n] by (simp add: algebra_simps)
      moreover have "0 \<le> d - n mod d" "d - n mod d < d" using m by simp_all
      ultimately show ?thesis by (metis div_pos_geq div_mult_self4 add.commute d div_pos_pos_trivial
            add_0 less_irrefl mult.commute div_mult_self3)
    qed
    moreover have "sgn (n - d) = -1" "\<bar>n - d\<bar> = d - n" using \<open>n < 0\<close> d by simp_all
    ultimately show ?thesis using \<open>n < 0\<close> by (simp add: DIVIDE_def trunc_div_def)
  qed
next
  case False
  assume d: "0 < d"
  with False show ?thesis
    by (cases "n = 0") (simp_all add: DIVIDE_def trunc_div_def)
qed

lemma nat_text_digits: "\<forall>c\<in>set (nat_text n). is_digit c"
proof (induction n rule: nat_text.induct)
  case (1 n)
  have d: "is_digit (digit_char k)" if "k < 10" for k
    using that by (simp add: is_digit_def char_code_def of_char_digit)
  show ?case
    by (subst nat_text.simps) (use 1 d in simp)
qed

end
