(* ===== verification/City.thy ===== *)
theory City
  imports Worklist Js_Text
begin

text \<open>
  The rest of the city logic of \<open>city.js\<close>, with \<open>universal_build_shield_cost\<close> of
  \<open>requirements.js\<close> and the population of \<open>game.js\<close>: ownership, removal, production and its
  duration, buying, what a city can build, requests of the city dialog, the text and model
  name derived from a city.  Sprites, dialog markup and the scene are effects.
\<close>

subsection \<open>Tiles and owners\<close>

definition city_tile :: "'a client_scheme \<Rightarrow> city option \<Rightarrow> tile option" where
  "city_tile s pcity = Option.bind pcity (\<lambda>c. index_to_tile (cl_tiles s) (c_tile c))"

definition city_owner_player_id :: "city option \<Rightarrow> int option" where
  "city_owner_player_id pcity = map_option c_owner pcity"

definition city_owner :: "'a client_scheme \<Rightarrow> city option \<Rightarrow> player option" where
  "city_owner s pcity = Option.bind (city_owner_player_id pcity) (st_get (cl_players s))"

definition is_city_center :: "city \<Rightarrow> tile \<Rightarrow> bool" where
  "is_city_center pcity ptile = (c_tile pcity = t_index ptile)"

definition is_free_worked :: "city \<Rightarrow> tile \<Rightarrow> bool" where
  "is_free_worked pcity ptile = (c_tile pcity = t_index ptile)"

definition is_primary_capital :: "city \<Rightarrow> bool" where
  "is_primary_capital pcity = (c_capital pcity = CAPITAL_PRIMARY)"

text \<open>
  \<open>remove_city\<close>.  \<open>update\<close> is \<open>playerno && owner == playerno\<close>: player number 0 is falsy, so the
  second test is not reached.  An owner the client does not know throws.
\<close>

definition remove_city :: "int option \<Rightarrow> 'a client_scheme \<Rightarrow> 'a client_scheme option" where
  "remove_city pcity_id s =
     (case (pcity_id, playing s) of
        (Some cid, Some me) \<Rightarrow>
          (case st_get (cl_cities s) cid of
             None \<Rightarrow> Some s
           | Some pcity \<Rightarrow> do {
               update \<leftarrow> (if p_playerno me \<noteq> 0
                          then map_option (\<lambda>owner. p_playerno owner = p_playerno me) (city_owner s (Some pcity))
                          else Some False);
               let ptile = city_tile s (Some pcity);
               let s1 = s\<lparr>cl_cities := st_del cid (cl_cities s)\<rparr>;
               let s2 = emit (Ui ''update_city_position''
                           [case ptile of None \<Rightarrow> JNull | Some t \<Rightarrow> JNum (t_index t)]) s1;
               Some (if update
                     then emits [Ui ''city_screen_updater.update'' [], Ui ''bulbs_output_updater.update'' []] s2
                     else s2)
             })
      | _ \<Rightarrow> Some s)"

definition get_num_cities :: "'a client_scheme \<Rightarrow> int" where
  "get_num_cities s =
     foldl (\<lambda>count pcity.
        (case (playing s, city_owner s (Some pcity)) of
           (Some me, Some owner) \<Rightarrow> if p_playerno owner = p_playerno me then count + 1 else count
         | _ \<Rightarrow> count)) 0 (st_vals (cl_cities s))"

subsection \<open>Production\<close>

datatype prod_type = ProdUnit unit_type | ProdImprovement improvement

text \<open>\<open>universal_build_shield_cost\<close>, given the build cost of the target if there is one.\<close>

definition universal_build_shield_cost :: "int option \<Rightarrow> int" where
  "universal_build_shield_cost target = (case target of None \<Rightarrow> 1000 | Some build_cost \<Rightarrow> build_cost)"

definition get_city_production_type :: "'a client_scheme \<Rightarrow> city option \<Rightarrow> prod_type option" where
  "get_city_production_type s pcity =
     (case pcity of None \<Rightarrow> None
      | Some c \<Rightarrow>
          (if c_production_kind c = VUT_UTYPE
           then map_option ProdUnit (st_get (cl_unit_types s) (c_production_value c))
           else if c_production_kind c = VUT_IMPROVEMENT
           then map_option ProdImprovement (st_get (cl_improvements s) (c_production_value c))
           else None))"

text \<open>\<open>Math.floor((cost - stock - 1) / surplus + 1)\<close> on integers.\<close>

definition city_turns_to_build :: "city \<Rightarrow> int option \<Rightarrow> bool \<Rightarrow> int" where
  "city_turns_to_build pcity target include_shield_stock =
     (let city_shield_surplus = c_shield_surplus pcity;
          city_shield_stock = (if include_shield_stock then c_shield_stock pcity else 0);
          cost = universal_build_shield_cost target
      in if include_shield_stock \<and> c_shield_stock pcity \<ge> cost then 1
         else if c_shield_surplus pcity > 0
         then (cost - city_shield_stock - 1) div city_shield_surplus + 1
         else FC_INFINITY)"

definition get_city_production_time :: "'a client_scheme \<Rightarrow> city option \<Rightarrow> int option" where
  "get_city_production_time s pcity =
     (case pcity of None \<Rightarrow> Some FC_INFINITY
      | Some c \<Rightarrow>
          (if c_production_kind c = VUT_UTYPE then
             Some (city_turns_to_build c
               (map_option ut_build_cost (st_get (cl_unit_types s) (c_production_value c))) True)
           else if c_production_kind c = VUT_IMPROVEMENT then do {
             improvement \<leftarrow> st_get (cl_improvements s) (c_production_value c);
             Some (if im_name improvement = ''Coinage'' then FC_INFINITY
                   else city_turns_to_build c (Some (im_build_cost improvement)) True)
           }
           else Some FC_INFINITY))"

definition get_production_progress :: "'a client_scheme \<Rightarrow> city option \<Rightarrow> string option" where
  "get_production_progress s pcity =
     (case pcity of None \<Rightarrow> Some '' ''
      | Some c \<Rightarrow>
          (if c_production_kind c = VUT_UTYPE then
             Some (int_text (c_shield_stock c) @ ''/'' @
               int_text (universal_build_shield_cost
                 (map_option ut_build_cost (st_get (cl_unit_types s) (c_production_value c)))))
           else if c_production_kind c = VUT_IMPROVEMENT then do {
             improvement \<leftarrow> st_get (cl_improvements s) (c_production_value c);
             Some (if im_name improvement = ''Coinage'' then '' ''
                   else int_text (c_shield_stock c) @ ''/'' @ int_text (im_build_cost improvement))
           }
           else Some '' ''))"

text \<open>A list entry, without its help text and sprite; the cost is \<open>None\<close> for the dash.\<close>

record production_entry =
  pe_kind :: int
  pe_value :: int
  pe_text :: string
  pe_rule_name :: string
  pe_build_cost :: "int option"
  pe_unit_details :: string

definition unit_entry :: "unit_type \<Rightarrow> production_entry" where
  "unit_entry ut = \<lparr>pe_kind = VUT_UTYPE, pe_value = ut_id ut, pe_text = ut_name ut,
     pe_rule_name = ut_rule_name ut, pe_build_cost = Some (ut_build_cost ut),
     pe_unit_details = ''Attack:'' @ int_text (ut_attack_strength ut) @ '', Defense:''
       @ int_text (ut_defense_strength ut) @ '', Firepower:'' @ int_text (ut_firepower ut)\<rparr>"

definition improvement_entry :: "improvement \<Rightarrow> production_entry" where
  "improvement_entry im = \<lparr>pe_kind = VUT_IMPROVEMENT, pe_value = im_id im, pe_text = im_name im,
     pe_rule_name = im_rule_name im,
     pe_build_cost = (if im_name im = ''Coinage'' then None else Some (im_build_cost im)),
     pe_unit_details = []\<rparr>"

definition generate_production_list ::
    "'a client_scheme \<Rightarrow> production_entry list" where
  "generate_production_list s =
     map unit_entry (filter (\<lambda>ut. \<not> (ut_name ut = ''Barbarian Leader'' \<or> ut_name ut = ''Leader''))
        (st_vals (cl_unit_types s)))
     @ map improvement_entry (st_vals (cl_improvements s))"

subsection \<open>What a city can build and has built\<close>

definition can_city_build_unit_now :: "city option \<Rightarrow> int \<Rightarrow> bool" where
  "can_city_build_unit_now pcity punittype_id =
     (case Option.bind pcity c_can_build_unit of None \<Rightarrow> False | Some bv \<Rightarrow> bv_isSet bv punittype_id)"

definition can_city_build_improvement_now :: "city option \<Rightarrow> int \<Rightarrow> bool" where
  "can_city_build_improvement_now pcity pimprove_id =
     (case Option.bind pcity c_can_build_improvement of None \<Rightarrow> False | Some bv \<Rightarrow> bv_isSet bv pimprove_id)"

definition can_city_build_now :: "city option \<Rightarrow> int option \<Rightarrow> int option \<Rightarrow> bool" where
  "can_city_build_now pcity kind val =
     (case (kind, val) of
        (Some k, Some v) \<Rightarrow> (if k = VUT_UTYPE then can_city_build_unit_now pcity v
                             else can_city_build_improvement_now pcity v)
      | _ \<Rightarrow> False)"

definition city_has_building :: "'a client_scheme \<Rightarrow> city \<Rightarrow> int \<Rightarrow> bool" where
  "city_has_building s pcity improvement_id =
     (0 \<le> improvement_id \<and> improvement_id < cl_num_impr_types s
      \<and> (case c_improvements pcity of None \<Rightarrow> False | Some bv \<Rightarrow> bv_isSet bv improvement_id))"

definition does_city_have_improvement :: "'a client_scheme \<Rightarrow> city option \<Rightarrow> string \<Rightarrow> bool" where
  "does_city_have_improvement s pcity improvement_name =
     (case Option.bind pcity c_improvements of None \<Rightarrow> False
      | Some bv \<Rightarrow>
          list_ex (\<lambda>z. bv_isSet bv z
             \<and> (case st_get (cl_improvements s) z of None \<Rightarrow> False
                | Some im \<Rightarrow> im_name im = improvement_name))
            [0..cl_num_impr_types s - 1])"

definition city_can_buy :: "'a client_scheme \<Rightarrow> city \<Rightarrow> bool option" where
  "city_can_buy s pcity =
     (let improvement = st_get (cl_improvements s) (c_production_value pcity)
      in if \<not> c_did_buy pcity \<and> c_turn_founded pcity \<noteq> cl_turn s
         then map_option (\<lambda>im. im_name im \<noteq> ''Coinage'') improvement
         else Some False)"

subsection \<open>Requests of the city dialog\<close>

definition send_city_buy :: "'a city_client_scheme \<Rightarrow> 'a city_client_scheme" where
  "send_city_buy s =
     (case ui_active_city s of None \<Rightarrow> s
      | Some cid \<Rightarrow> emit (Send [(''pid'', JConst ''packet_city_buy''), (''city_id'', JNum cid)]) s)"

text \<open>\<open>request_city_buy\<close>: a unit is bought at once; a building shows its price, with a question
  when the treasury can pay for it.\<close>

definition request_city_buy :: "'a city_client_scheme \<Rightarrow> 'a city_client_scheme option" where
  "request_city_buy s = do {
     pcity \<leftarrow> active_city s;
     if c_production_kind pcity = VUT_UTYPE \<and> st_get (cl_unit_types s) (c_production_value pcity) \<noteq> None
     then Some (send_city_buy s)
     else do {
       let improvement = st_get (cl_improvements s) (c_production_value pcity);
       let buy_price_string = (case improvement of None \<Rightarrow> []
             | Some im \<Rightarrow> im_name im @ '' costs '' @ int_text (c_buy_cost pcity) @ '' gold.'');
       let buy_question_string = (case improvement of None \<Rightarrow> []
             | Some im \<Rightarrow> ''Buy '' @ im_name im @ '' for '' @ int_text (c_buy_cost pcity) @ '' gold?'');
       pplayer \<leftarrow> playing s;
       let treasury_text = ''<br>Treasury contains '' @ int_text (p_gold pplayer) @ '' gold.'';
       Some (if c_buy_cost pcity > p_gold pplayer
             then emit (Ui ''show_dialog_message'' [JStr ''Buy It!'', JStr (buy_price_string @ treasury_text)]) s
             else emit (Ui ''buy_dialog'' [JStr (buy_question_string @ treasury_text)]) s)
     }
   }"

definition do_city_map_click :: "tile \<Rightarrow> 'a city_client_scheme \<Rightarrow> 'a city_client_scheme option" where
  "do_city_map_click ptile s = do {
     cid \<leftarrow> ui_active_city s;
     let pid = (if t_worked ptile = Some cid then ''packet_city_make_specialist''
                else ''packet_city_make_worker'');
     Some (emit (Send [(''pid'', JConst pid), (''city_id'', JNum cid), (''tile_id'', JNum (t_index ptile))]) s)
   }"

definition city_sell_improvement :: "bool \<Rightarrow> int \<Rightarrow> 'a city_client_scheme \<Rightarrow> 'a city_client_scheme option" where
  "city_sell_improvement agree improvement_id s =
     (if agree then do {
        cid \<leftarrow> ui_active_city s;
        Some (emit (Send [(''pid'', JConst ''packet_city_sell''), (''city_id'', JNum cid),
                          (''build_id'', JNum improvement_id)]) s)
      } else Some s)"

definition city_change_specialist :: "int \<Rightarrow> int \<Rightarrow> 'a client_scheme \<Rightarrow> 'a client_scheme" where
  "city_change_specialist city_id from_specialist_id s =
     emit (Send [(''pid'', JConst ''packet_city_change_specialist''), (''city_id'', JNum city_id),
                 (''from'', JNum from_specialist_id),
                 (''to'', JNum (js_rem (from_specialist_id + 1) 3))]) s"

text \<open>The \<open>Ok\<close> button of \<open>rename_city\<close>.\<close>

definition rename_city :: "string \<Rightarrow> 'a city_client_scheme \<Rightarrow> 'a city_client_scheme option" where
  "rename_city name s =
     (if ui_active_city s = None then Some s
      else if length name = 0 \<or> int (length name) \<ge> MAX_LEN_NAME - 4
              \<or> int (length (encodeURIComponent name)) \<ge> MAX_LEN_NAME - 4
      then Some (emit (Ui ''swal'' [JStr ''City name is invalid'']) s)
      else do {
        cid \<leftarrow> ui_active_city s;
        Some (emit (Send [(''pid'', JConst ''packet_city_rename''),
                          (''name'', JStr (encodeURIComponent name)), (''city_id'', JNum cid)]) s)
      })"

text \<open>\<open>city_dialog_close_handler\<close>.\<close>

definition city_dialog_close_handler :: "'a city_client_scheme \<Rightarrow> 'a city_client_scheme" where
  "city_dialog_close_handler s =
     (let s1 = emit (Ui ''set_default_mapview_active'' []) s
      in if ui_active_city s1 \<noteq> None
         then (emits [Ui ''setup_window_size'' [], Ui ''remove_city_worked_tiles'' []] s1)
                \<lparr>ui_active_city := None\<rparr>
         else s1)"

text \<open>\<open>close_city_dialog\<close>: closing an open dialog runs its close handler.\<close>

definition close_city_dialog :: "'a city_client_scheme \<Rightarrow> 'a city_client_scheme" where
  "close_city_dialog s =
     emit (Ui ''highlight_map_tile_selected'' [JNum (- 1), JNum (- 1)])
       (if ui_active_city s \<noteq> None then city_dialog_close_handler s else s)"

datatype key_action = KeyIgnored | KeyClose | KeyNextCity | KeyBuy | KeyCloseTrigger

text \<open>\<open>city_keyboard_listener\<close>: the two switches, on the key code and on its character.\<close>

definition city_keyboard_listener :: "bool \<Rightarrow> bool \<Rightarrow> int \<Rightarrow> 'a city_client_scheme \<Rightarrow> key_action" where
  "city_keyboard_listener input_focused keyboard_input key_code s =
     (if input_focused \<or> \<not> keyboard_input then KeyIgnored
      else if C_S_RUNNING \<noteq> cl_client_state s then KeyIgnored
      else if ui_active_city s = None then KeyIgnored
      else if key_code = 27 then KeyClose
      else if key_code = 78 then KeyNextCity
      else if key_code = 66 then KeyBuy
      else if key_code = 87 then KeyCloseTrigger
      else KeyIgnored)"

subsection \<open>Derived data\<close>

definition city_turns_to_growth_text :: "city \<Rightarrow> string" where
  "city_turns_to_growth_text pcity =
     (let turns = c_granary_turns pcity
      in if turns = 0 then ''blocked''
         else if turns > 1000000 then ''never''
         else if turns < 0 then ''Starving in '' @ int_text \<bar>turns\<bar> @ '' turns''
         else int_text turns @ '' turns'')"

definition city_population :: "city \<Rightarrow> int" where
  "city_population pcity = c_size pcity * (c_size pcity + 1) * 5"

definition civ_population :: "'a client_scheme \<Rightarrow> int \<Rightarrow> string" where
  "civ_population s playerno =
     (let population = foldl (\<lambda>population pcity.
            if playerno = c_owner pcity then population + city_population pcity else population)
            0 (st_vals (cl_cities s))
      in numberWithCommas (population * 1000))"

text \<open>\<open>ppl_happy[FEELING_FINAL]\<close> and its like; a shorter list than the protocol's six entries
  makes the comparison false (\<open>NaN\<close>).\<close>

definition city_unhappy :: "city \<Rightarrow> bool" where
  "city_unhappy pcity =
     (if length (c_ppl_happy pcity) > 5 \<and> length (c_ppl_unhappy pcity) > 5 \<and> length (c_ppl_angry pcity) > 5
      then c_ppl_happy pcity ! 5 < c_ppl_unhappy pcity ! 5 + 2 * c_ppl_angry pcity ! 5
      else False)"

definition get_city_state :: "city option \<Rightarrow> string option" where
  "get_city_state pcity =
     (case pcity of None \<Rightarrow> None
      | Some c \<Rightarrow> Some (if c_was_happy c \<and> c_size c \<ge> 3 then ''Celebrating''
                        else if c_unhappy c then ''Disorder'' else ''Peace''))"

definition city_to_3d_model_name :: "'a client_scheme \<Rightarrow> city \<Rightarrow> string option" where
  "city_to_3d_model_name s pcity =
     (let sz = (if c_size pcity \<ge> 3 \<and> c_size pcity \<le> 6 then 1
                else if c_size pcity > 6 \<and> c_size pcity \<le> 9 then 2
                else if c_size pcity > 9 \<and> c_size pcity \<le> 11 then 3
                else if c_size pcity > 11 then 4 else (0 :: int));
          style_id = (if c_style pcity = - 1 then 0 else c_style pcity)
      in case st_get (cl_city_rules s) style_id of
           None \<Rightarrow> None
         | Some rule_name \<Rightarrow>
             (if rule_name = ''Classical'' \<and> is_primary_capital pcity then Some ''city_roman_capital''
              else (let style_name =
                      (if rule_name = ''Modern'' then ''modern''
                       else if rule_name = ''Classical'' then ''roman''
                       else if rule_name = ''Babylonian'' then ''babylonian''
                       else if rule_name = ''Asian'' then ''chinese''
                       else if rule_name = ''PostModern'' then ''postmodern''
                       else ''european'')
                    in Some (''city_'' @ style_name @ ''_'' @ int_text sz))))"

end
