(* ===== verification/City_Facts.thy ===== *)
theory City_Facts
  imports City Samples
begin

text \<open>
  The build time is the least number of turns that suffices, the removal of a city touches one
  entry of \<open>cities\<close> and tells the interface about it except for player 0, and the grouped text
  of a population is the number itself.
\<close>

text \<open>
  With a positive surplus, and a cost above the stock that counts, the number of turns is the
  least one after which the accumulated shields cover the cost; it is one turn when the stock
  covers the cost already, and infinite when the city makes no shields.
\<close>

theorem city_turns_to_build_least:
  assumes "stock = (if incl then c_shield_stock pcity else 0)"
    and "cost = universal_build_shield_cost target"
  shows "(if incl \<and> cost \<le> stock then city_turns_to_build pcity target incl = 1
     else if c_shield_surplus pcity \<le> 0 then city_turns_to_build pcity target incl = FC_INFINITY
     else (let n = city_turns_to_build pcity target incl in
            cost \<le> stock + n * c_shield_surplus pcity
            \<and> stock + (n - 1) * c_shield_surplus pcity < cost))"
proof -
  have "cost \<le> stock + ((cost - stock - 1) div p + 1) * p
      \<and> stock + ((cost - stock - 1) div p + 1 - 1) * p < cost" if "0 < p" for p
  proof -
    have "(cost - stock - 1) div p * p \<le> cost - stock - 1"
      using div_mult_mod_eq [of "cost - stock - 1" p] pos_mod_sign [OF that, of "cost - stock - 1"] by linarith
    moreover have "cost - stock - 1 < (cost - stock - 1) div p * p + p"
      using div_mult_mod_eq [of "cost - stock - 1" p] pos_mod_bound [OF that, of "cost - stock - 1"] by linarith
    ultimately show ?thesis by (simp add: algebra_simps)
  qed
  then show ?thesis
    using assms by (auto simp: city_turns_to_build_def Let_def not_le)
qed

theorem city_turns_to_build_least_witness:
  "let pcity = city0\<lparr>c_shield_stock := 7, c_shield_surplus := 5\<rparr>
   in city_turns_to_build pcity (Some 30) True = 5 \<and> 30 \<le> 7 + (5::int) * 5 \<and> 7 + 4 * 5 < (30::int)"
  using city_turns_to_build_least [where stock = 7 and incl = True and cost = 30 and target = "Some 30"
      and pcity = "city0\<lparr>c_shield_stock := 7, c_shield_surplus := 5\<rparr>"]
  by (simp add: universal_build_shield_cost_def Let_def city_turns_to_build_def)

text \<open>
   Removing a known city deletes exactly its entry and redraws its tile; the city screen and
  the bulbs display are refreshed when the city is the player's own, unless the player has
  number 0, who never gets the refresh.
\<close>

theorem remove_city_effects:
  assumes "playing s = Some me" and "st_get (cl_cities s) cid = Some pcity"
    and "city_owner s (Some pcity) = Some owner"
  shows "\<exists>s'. remove_city (Some cid) s = Some s'
    \<and> st_get (cl_cities s') = (st_get (cl_cities s))(cid := None)
    \<and> cl_out s' = cl_out s
        @ [Ui ''update_city_position'' [case city_tile s (Some pcity) of None \<Rightarrow> JNull | Some t \<Rightarrow> JNum (t_index t)]]
        @ (if p_playerno me \<noteq> 0 \<and> p_playerno owner = p_playerno me
           then [Ui ''city_screen_updater.update'' [], Ui ''bulbs_output_updater.update'' []] else [])"
  using assms by (simp add: remove_city_def Let_def fun_eq_iff js.get_del)

theorem remove_city_effects_witness:
  "let s = (client0 ())\<lparr>cl_cities := [(5, city0\<lparr>c_id := 5, c_owner := 0\<rparr>)],
               cl_players := [(0, player0\<lparr>p_playerno := 0\<rparr>)], cl_playing := Some 0\<rparr>
   in \<exists>s'. remove_city (Some 5) s = Some s' \<and> cl_out s' = [Ui ''update_city_position'' [JNull]]"
proof -
  let ?s = "(client0 ())\<lparr>cl_cities := [(5, city0\<lparr>c_id := 5, c_owner := 0\<rparr>)],
               cl_players := [(0, player0\<lparr>p_playerno := 0\<rparr>)], cl_playing := Some 0\<rparr>"
  have "playing ?s = Some (player0\<lparr>p_playerno := 0\<rparr>)"
    and "st_get (cl_cities ?s) 5 = Some (city0\<lparr>c_id := 5, c_owner := 0\<rparr>)"
    and "city_owner ?s (Some (city0\<lparr>c_id := 5, c_owner := 0\<rparr>)) = Some (player0\<lparr>p_playerno := 0\<rparr>)"
    and "city_tile ?s (Some (city0\<lparr>c_id := 5, c_owner := 0\<rparr>)) = None" and "cl_out ?s = []"
    by (simp_all add: playing_def city_owner_def city_owner_player_id_def st_get_def city_tile_def
        index_to_tile_def client0_def)
  from remove_city_effects [OF this(1-3)] this(4,5) show ?thesis by (auto simp: Let_def)
qed

subsection \<open>Texts\<close>

lemma filter_comma_digits: "\<forall>c\<in>set cs. is_digit c \<Longrightarrow> filter (\<lambda>c. c \<noteq> CHR '','') (comma_digits first cs) = cs"
  by (induction first cs rule: comma_digits.induct) (auto simp: is_digit_def char_code_def)

lemma comma_digits_positions:
  "\<forall>c\<in>set cs. is_digit c \<Longrightarrow> comma_digits first cs = as @ CHR '','' # bs \<Longrightarrow>
     length (filter (\<lambda>c. c \<noteq> CHR '','') bs) mod 3 = 0 \<and> bs \<noteq> []"
proof (induction first cs arbitrary: as rule: comma_digits.induct)
  case (2 first c cs)
  have ne: "c \<noteq> CHR '',''" using 2(3) by (auto simp: is_digit_def char_code_def)
  have rest: "length (filter (\<lambda>c. c \<noteq> CHR '','') bs) mod 3 = 0 \<and> bs \<noteq> []"
    if "comma_digits False cs = as' @ CHR '','' # bs" for as'
    using 2(1,2) that 2(3) by (cases "\<not> first \<and> length (c # cs) mod 3 = 0") auto
  show ?case
  proof (cases "\<not> first \<and> length (c # cs) mod 3 = 0")
    case False
    with 2(4) ne obtain as' where "comma_digits False cs = as' @ CHR '','' # bs"
      by (cases as) auto
    then show ?thesis by (rule rest)
  next
    case True
    show ?thesis
    proof (cases as)
      case Nil
      with True 2(4) have bs: "bs = c # comma_digits False cs" by simp
      have "filter (\<lambda>c. c \<noteq> CHR '','') bs = c # cs"
        using 2(3) ne filter_comma_digits [of cs False] unfolding bs by simp
      with True bs show ?thesis by simp
    next
      case (Cons a as')
      with True 2(4) ne obtain as'' where "comma_digits False cs = as'' @ CHR '','' # bs"
        by (cases as') auto
      then show ?thesis by (rule rest)
    qed
  qed
qed simp

text \<open>
   The grouped text of a number reads back as the number: without the commas it is the plain
  decimal text, and every comma is followed by a positive multiple of three digits.
\<close>

theorem numberWithCommas_groups:
  "filter (\<lambda>c. c \<noteq> CHR '','') (numberWithCommas x) = int_text x
   \<and> (\<nexists>as bs. numberWithCommas x = as @ CHR '','' # bs
          \<and> \<not> (bs \<noteq> [] \<and> length (filter (\<lambda>c. c \<noteq> CHR '','') bs) mod 3 = 0))"
proof -
  have pos: "length (filter (\<lambda>c. c \<noteq> CHR '','') bs) mod 3 = 0 \<and> bs \<noteq> []"
    if "numberWithCommas x = as @ CHR '','' # bs" for as bs
  proof (cases "x < 0")
    case False
    with that have "comma_digits True (nat_text (nat x)) = as @ CHR '','' # bs"
      by (simp add: numberWithCommas_def)
    with nat_text_digits show ?thesis by (rule comma_digits_positions)
  next
    case True
    with that obtain as' where "comma_digits True (nat_text (nat (- x))) = as' @ CHR '','' # bs"
      by (cases as) (auto simp: numberWithCommas_def)
    with nat_text_digits show ?thesis by (rule comma_digits_positions)
  qed
  have "filter (\<lambda>c. c \<noteq> CHR '','') (comma_digits True (nat_text n)) = nat_text n" for n
    by (rule filter_comma_digits [OF nat_text_digits])
  then have "filter (\<lambda>c. c \<noteq> CHR '','') (numberWithCommas x) = int_text x"
    by (simp add: numberWithCommas_def int_text_def)
  with pos show ?thesis by blast
qed

end
