(* ===== verification/Ruleset.thy ===== *)
theory Ruleset
  imports City "HOL-Library.AList"
begin

text \<open>
  The ruleset queries: \<open>requirements.js\<close>, \<open>improvement.js\<close>, \<open>actions.js\<close>, \<open>unittype.js\<close>,
  \<open>government.js\<close> and \<open>player_invention_state\<close> of \<open>tech.js\<close>.  The requirement system is
  three-valued (no, yes, maybe), as in the server.  Log messages are left out.
\<close>

subsection \<open>Technologies a player has\<close>

definition player_invention_state :: "player option \<Rightarrow> int \<Rightarrow> int" where
  "player_invention_state pplayer tech_id =
     (case pplayer of None \<Rightarrow> TECH_UNKNOWN
      | Some p \<Rightarrow> (case Option.bind (p_inventions p) (\<lambda>inv. st_get inv tech_id) of
                     None \<Rightarrow> TECH_UNKNOWN | Some st \<Rightarrow> st))"

subsection \<open>Requirements\<close>

definition is_tech_in_range :: "player option \<Rightarrow> int \<Rightarrow> int \<Rightarrow> int" where
  "is_tech_in_range target_player rng tech =
     (if rng = REQ_RANGE_TEAM \<or> rng = REQ_RANGE_PLAYER
      then (if target_player \<noteq> None \<and> player_invention_state target_player tech = TECH_KNOWN
            then TRI_YES else TRI_NO)
      else TRI_MAYBE)"

text \<open>
  Of the targets only the player is read.  The kinds the switch lists as unimplemented, and the
  unknown ones, leave \<open>result\<close> at \<open>TRI_NO\<close>.
\<close>

definition req_result :: "player option \<Rightarrow> requirement \<Rightarrow> int" where
  "req_result target_player req =
     (if r_kind req = VUT_NONE then TRI_YES
      else if r_kind req = VUT_ADVANCE then is_tech_in_range target_player (r_range req) (r_value req)
      else if r_kind req = VUT_GOVERNMENT then
        (case target_player of None \<Rightarrow> TRI_MAYBE
         | Some p \<Rightarrow> if p_government p = r_value req then TRI_YES else TRI_NO)
      else TRI_NO)"

definition is_req_active :: "player option \<Rightarrow> requirement \<Rightarrow> int \<Rightarrow> bool" where
  "is_req_active target_player req prob_type =
     (if r_kind req = VUT_COUNT then False
      else (let result = req_result target_player req
            in if result = TRI_MAYBE then prob_type = RPT_POSSIBLE
               else if r_present req then result = TRI_YES
               else result = TRI_NO))"

fun are_reqs_active :: "player option \<Rightarrow> requirement list \<Rightarrow> int \<Rightarrow> bool" where
  "are_reqs_active target_player [] prob_type = True"
| "are_reqs_active target_player (req # reqs) prob_type =
     (if \<not> is_req_active target_player req prob_type then False
      else are_reqs_active target_player reqs prob_type)"

subsection \<open>Improvements\<close>

text \<open>\<open>improvements\<close> and \<open>improvements_name_index\<close>.\<close>

record improvement_tables =
  it_improvements :: "improvement store"
  it_name_index :: "(string \<times> int) list"

definition improvements_init :: "improvement_tables \<Rightarrow> improvement_tables" where
  "improvements_init t = t\<lparr>it_improvements := st_empty, it_name_index := []\<rparr>"

definition improvements_add_building :: "improvement \<Rightarrow> improvement_tables \<Rightarrow> improvement_tables" where
  "improvements_add_building im t =
     t\<lparr>it_improvements := st_put (im_id im) im (it_improvements t),
       it_name_index := AList.update (im_name im) (im_id im) (it_name_index t)\<rparr>"

definition improvement_id_by_name :: "improvement_tables \<Rightarrow> string \<Rightarrow> int" where
  "improvement_id_by_name t name =
     (case map_of (it_name_index t) name of Some i \<Rightarrow> i | None \<Rightarrow> - 1)"

definition get_improvement_requirements :: "improvement store \<Rightarrow> int \<Rightarrow> int list" where
  "get_improvement_requirements improvements improvement_id =
     (case Option.bind (st_get improvements improvement_id) im_reqs of
        None \<Rightarrow> []
      | Some reqs \<Rightarrow> map r_value (filter (\<lambda>r. r_kind r = 1 \<and> r_present r) reqs))"

text \<open>An improvement that requires the technology twice is listed twice.\<close>

definition get_improvements_from_tech :: "improvement store \<Rightarrow> int \<Rightarrow> improvement list" where
  "get_improvements_from_tech improvements tech_id =
     concat (map (\<lambda>(improvement_id, pimprovement).
        map (\<lambda>_. pimprovement)
          (filter (\<lambda>req. req = tech_id) (get_improvement_requirements improvements improvement_id)))
       improvements)"

definition is_wonder :: "improvement \<Rightarrow> bool" where
  "is_wonder im = (case im_soundtag im of [] \<Rightarrow> False | c # _ \<Rightarrow> c = CHR ''w'')"

subsection \<open>Actions\<close>

definition action_by_number :: "action store \<Rightarrow> int \<Rightarrow> action option" where
  "action_by_number actions act_id = st_get actions act_id"

text \<open>The answer is \<open>null\<close>, which tests as false, for a missing action or result.\<close>

definition action_has_result :: "action option \<Rightarrow> int \<Rightarrow> bool option" where
  "action_has_result paction result =
     (case Option.bind paction ac_result of None \<Rightarrow> None | Some r \<Rightarrow> Some (r = result))"

subsection \<open>Unit types\<close>

definition utype_can_do_action :: "unit_type option \<Rightarrow> int \<Rightarrow> bool" where
  "utype_can_do_action putype action_id =
     (case Option.bind putype ut_actions of
        None \<Rightarrow> False
      | Some bv \<Rightarrow> if action_id \<ge> ACTION_COUNT \<or> action_id < 0 then False else bv_isSet bv action_id)"

definition utype_can_do_action_result :: "action store \<Rightarrow> unit_type option \<Rightarrow> int \<Rightarrow> bool" where
  "utype_can_do_action_result actions putype result =
     (if Option.bind putype ut_actions = None then False
      else list_ex (\<lambda>act_id. action_has_result (action_by_number actions act_id) result = Some True
              \<and> utype_can_do_action putype act_id) [0..ACTION_COUNT - 1])"

definition can_player_build_unit_direct :: "player option \<Rightarrow> unit_type \<Rightarrow> bool" where
  "can_player_build_unit_direct p punittype =
     (player_invention_state p (ut_tech_requirement punittype) = TECH_KNOWN)"

definition get_utypes_from_tech :: "unit_type store \<Rightarrow> int \<Rightarrow> unit_type list" where
  "get_utypes_from_tech unit_types tech_id =
     filter (\<lambda>ut. case ut_build_reqs ut of [] \<Rightarrow> False | r # _ \<Rightarrow> r_value r = tech_id) (st_vals unit_types)"

definition get_units_from_tech :: "unit_type store \<Rightarrow> int \<Rightarrow> unit_type list" where
  "get_units_from_tech unit_types tech_id =
     filter (\<lambda>ut. ut_tech_requirement ut = tech_id) (st_vals unit_types)"

definition utype_has_flag :: "unit_type \<Rightarrow> int \<Rightarrow> bool" where
  "utype_has_flag ptype flag = bv_isSet (BitVector (ut_flags ptype)) flag"

text \<open>The product is an integer, which \<open>Math.round\<close> keeps.\<close>

definition scaled_strength :: "int \<Rightarrow> int list \<Rightarrow> real" where
  "scaled_strength strength power_fact =
     (case power_fact of [] \<Rightarrow> real_of_int strength
      | f # _ \<Rightarrow> real_of_int (strength * f * 10) / 1000)"

definition utype_real_base_attack_strength :: "unit_type \<Rightarrow> real" where
  "utype_real_base_attack_strength ptype = scaled_strength (ut_attack_strength ptype) (ut_power_fact ptype)"

definition utype_real_base_defense_strength :: "unit_type \<Rightarrow> real" where
  "utype_real_base_defense_strength ptype = scaled_strength (ut_defense_strength ptype) (ut_power_fact ptype)"

definition utype_real_base_move_rate :: "unit_type \<Rightarrow> int" where
  "utype_real_base_move_rate ut =
     (let move_bonus = (case ut_move_bonus ut of [] \<Rightarrow> 0 | b # _ \<Rightarrow> b) in move_bonus + ut_move_rate ut)"

subsection \<open>Governments\<close>

definition government_max_rate :: "int \<Rightarrow> int" where
  "government_max_rate govt_id =
     (if govt_id = 0 then 100 else if govt_id = 1 then 60 else if govt_id = 2 then 70
      else if govt_id = 3 then 80 else if govt_id = 4 then 80 else if govt_id = 5 then 100 else 100)"

text \<open>The loop of \<open>player_has_wonder\<close>; a city whose owner is unknown throws.\<close>

fun has_wonder_loop :: "'a client_scheme \<Rightarrow> int \<Rightarrow> int \<Rightarrow> city list \<Rightarrow> bool option" where
  "has_wonder_loop s playerno improvement_id [] = Some False"
| "has_wonder_loop s playerno improvement_id (pcity # cs) =
     (case city_owner s (Some pcity) of
        None \<Rightarrow> None
      | Some owner \<Rightarrow>
          (if p_playerno owner = playerno \<and> city_has_building s pcity improvement_id then Some True
           else has_wonder_loop s playerno improvement_id cs))"

definition player_has_wonder :: "'a client_scheme \<Rightarrow> int \<Rightarrow> int \<Rightarrow> bool option" where
  "player_has_wonder s playerno improvement_id =
     has_wonder_loop s playerno improvement_id (st_vals (cl_cities s))"

definition can_player_get_gov :: "'a client_scheme \<Rightarrow> int \<Rightarrow> bool option" where
  "can_player_get_gov s govt_id = do {
     me \<leftarrow> playing s;
     liberty \<leftarrow> player_has_wonder s (p_playerno me) 63;
     if liberty then Some True
     else do {
       gov \<leftarrow> st_get (cl_governments s) govt_id;
       Some (are_reqs_active (Some me) (gv_reqs gov) RPT_CERTAIN)
     }
   }"

definition send_player_change_government :: "int \<Rightarrow> 'a client_scheme \<Rightarrow> 'a client_scheme" where
  "send_player_change_government govt_id s =
     emit (Send [(''pid'', JConst ''packet_player_change_government''), (''government'', JNum govt_id)]) s"

definition request_report :: "int \<Rightarrow> 'a client_scheme \<Rightarrow> 'a client_scheme" where
  "request_report rtype s =
     emit (Send [(''pid'', JConst ''packet_report_req''), (''type'', JNum rtype)]) s"

end
