(* ===== verification/Tech.thy ===== *)
theory Tech
  imports Ruleset
begin

text \<open>
  \<open>tech.js\<close> and \<open>reqtree.js\<close>: which technologies lead to which, the layout of the technology
  tree, the research requests and the bulbs output.  The two recursive functions follow the
  requirement links of the ruleset, which nothing in the client keeps from being cyclic: they
  take fuel, and \<open>None\<close> is a recursion deeper than the fuel (a stack overflow of the browser).
\<close>

subsection \<open>Requirements between technologies\<close>

definition req_ids :: "tech \<Rightarrow> int list" where
  "req_ids t = map r_value (tc_research_reqs t)"

fun is_tech_req_for_goal :: "nat \<Rightarrow> tech store \<Rightarrow> int \<Rightarrow> int \<Rightarrow> bool option"
and goal_loop :: "nat \<Rightarrow> tech store \<Rightarrow> int \<Rightarrow> int list \<Rightarrow> bool option" where
  "is_tech_req_for_goal 0 techs check_tech_id goal_tech_id = None"
| "is_tech_req_for_goal (Suc fuel) techs check_tech_id goal_tech_id =
     (if check_tech_id = goal_tech_id then Some True
      else if goal_tech_id = 0 \<or> check_tech_id = 0 then Some False
      else case st_get techs goal_tech_id of
             None \<Rightarrow> Some False
           | Some goal_tech \<Rightarrow> goal_loop fuel techs check_tech_id (req_ids goal_tech))"
| "goal_loop fuel techs check_tech_id [] = Some False"
| "goal_loop fuel techs check_tech_id (rid # rids) =
     (if check_tech_id = rid then Some True
      else (case is_tech_req_for_goal fuel techs check_tech_id rid of
              None \<Rightarrow> None
            | Some True \<Rightarrow> Some True
            | Some False \<Rightarrow> goal_loop fuel techs check_tech_id rids))"

definition is_tech_req_for_tech :: "tech store \<Rightarrow> int \<Rightarrow> int \<Rightarrow> bool" where
  "is_tech_req_for_tech techs check_tech_id next_tech_id =
     (if check_tech_id = next_tech_id then False
      else if next_tech_id = 0 \<or> check_tech_id = 0 then False
      else case st_get techs next_tech_id of
             None \<Rightarrow> False
           | Some next_tech \<Rightarrow> check_tech_id \<in> set (req_ids next_tech))"

definition tech_id_by_name :: "tech store \<Rightarrow> string \<Rightarrow> int option" where
  "tech_id_by_name techs tname =
     map_option fst (List.find (\<lambda>(i, t). tc_name t = tname) techs)"

text \<open>A name that is not found gives \<open>null\<close>, which is no key of the inventions.\<close>

definition tech_known :: "'a client_scheme \<Rightarrow> string \<Rightarrow> bool" where
  "tech_known s tech_str =
     (case tech_id_by_name (cl_techs s) tech_str of
        None \<Rightarrow> False
      | Some tid \<Rightarrow> player_invention_state (playing s) tid = TECH_KNOWN)"

subsection \<open>The layout of the tree\<close>

text \<open>
  What \<open>generate_req_tree\<close> adds to a technology, and \<open>level_counts\<close>.  A count that is no number
  (a level beyond those initialised) is \<open>None\<close>.
\<close>

record tree_node =
  tn_subreqs :: "int list"
  tn_traversed :: bool
  tn_xlevel :: int
  tn_ylevel :: "int option"

record tree_state =
  ts_nodes :: "tree_node store"
  ts_level_counts :: "int option store"

definition level_count :: "tree_state \<Rightarrow> int \<Rightarrow> int option" where
  "level_count ts x = Option.bind (st_get (ts_level_counts ts) x) (\<lambda>c. c)"

text \<open>The part of \<open>reqtree_assign_level\<close> for a technology that is not traversed yet.\<close>

definition place_tech :: "int \<Rightarrow> int \<Rightarrow> tree_state \<Rightarrow> int \<times> tree_state" where
  "place_tech ptech xlevel ts =
     (let xlevel = (if (case level_count ts xlevel of None \<Rightarrow> False | Some c \<Rightarrow> c \<ge> 10)
                    then xlevel + 1 else xlevel);
          nodes = st_upd ptech (\<lambda>n. n\<lparr>tn_xlevel := xlevel, tn_ylevel := level_count ts xlevel,
                                     tn_traversed := True\<rparr>) (ts_nodes ts);
          counts = st_put xlevel (map_option (\<lambda>c. c + 1) (level_count ts xlevel)) (ts_level_counts ts)
      in (xlevel, ts\<lparr>ts_nodes := nodes, ts_level_counts := counts\<rparr>))"

fun reqtree_assign_level :: "nat \<Rightarrow> int \<Rightarrow> int \<Rightarrow> tree_state \<Rightarrow> tree_state option"
and assign_loop :: "nat \<Rightarrow> int list \<Rightarrow> int \<Rightarrow> tree_state \<Rightarrow> tree_state option" where
  "reqtree_assign_level 0 ptech xlevel ts = None"
| "reqtree_assign_level (Suc fuel) ptech xlevel ts =
     (case st_get (ts_nodes ts) ptech of
        None \<Rightarrow> None
      | Some node \<Rightarrow>
          (let (xlevel, ts1) = (if \<not> tn_traversed node then place_tech ptech xlevel ts else (xlevel, ts))
           in assign_loop fuel (tn_subreqs node) (xlevel + 1) ts1))"
| "assign_loop fuel [] xlevel ts = Some ts"
| "assign_loop fuel (sub # subs) xlevel ts =
     (case reqtree_assign_level fuel sub xlevel ts of
        None \<Rightarrow> None | Some ts1 \<Rightarrow> assign_loop fuel subs xlevel ts1)"

definition tech_req :: "tech \<Rightarrow> nat \<Rightarrow> int" where
  "tech_req t i = tc_req t ! i"

text \<open>A requirement that is no technology of the ruleset throws.\<close>

definition add_subreq :: "tech \<Rightarrow> nat \<Rightarrow> tree_node store \<Rightarrow> tree_node store option" where
  "add_subreq t i nodes =
     (if tech_req t i > 0
      then map_option (\<lambda>n. st_put (tech_req t i) (n\<lparr>tn_subreqs := tn_subreqs n @ [tc_id t]\<rparr>) nodes)
             (st_get nodes (tech_req t i))
      else Some nodes)"

fun subreqs_loop :: "tech list \<Rightarrow> tree_node store \<Rightarrow> tree_node store option" where
  "subreqs_loop [] nodes = Some nodes"
| "subreqs_loop (t # ts) nodes =
     Option.bind (Option.bind (add_subreq t 0 nodes) (add_subreq t 1)) (subreqs_loop ts)"

definition init_nodes :: "tech store \<Rightarrow> tree_node store" where
  "init_nodes techs = map (\<lambda>(i, t). (i, \<lparr>tn_subreqs = [], tn_traversed = False,
     tn_xlevel = 0, tn_ylevel = None\<rparr>)) techs"

definition init_counts :: "nat \<Rightarrow> int option store" where
  "init_counts n = map (\<lambda>x. (int x, Some 0)) [0..<n]"

fun roots_loop :: "nat \<Rightarrow> tech list \<Rightarrow> tree_state \<Rightarrow> tree_state option" where
  "roots_loop fuel [] ts = Some ts"
| "roots_loop fuel (t # rest) ts =
     (if tech_req t 0 = 0 \<and> tech_req t 1 = 0
      then Option.bind (reqtree_assign_level fuel (tc_id t) 0 ts) (roots_loop fuel rest)
      else roots_loop fuel rest ts)"

text \<open>The positions: the level of the technology and its number in the level, scaled.\<close>

definition node_position :: "tree_node \<Rightarrow> int \<times> int option" where
  "node_position n = (20 + tn_xlevel n * 330, map_option (\<lambda>y. 20 + y * 80) (tn_ylevel n))"

definition generate_req_tree :: "nat \<Rightarrow> tech store \<Rightarrow> (int \<times> int option) store option" where
  "generate_req_tree fuel techs = do {
     nodes \<leftarrow> subreqs_loop (st_vals techs) (init_nodes techs);
     ts \<leftarrow> roots_loop fuel (st_vals techs)
            \<lparr>ts_nodes = nodes, ts_level_counts = init_counts (length techs)\<rparr>;
     Some (map (\<lambda>(i, n). (i, node_position n)) (ts_nodes ts))
   }"

subsection \<open>Requests and output\<close>

definition send_player_research :: "int \<Rightarrow> 'a client_scheme \<Rightarrow> 'a client_scheme" where
  "send_player_research tech_id s =
     emits [Send [(''pid'', JConst ''packet_player_research''), (''tech'', JNum tech_id)],
            Ui ''tech_dialog close'' []] s"

definition send_player_tech_goal :: "int \<Rightarrow> 'a client_scheme \<Rightarrow> 'a client_scheme" where
  "send_player_tech_goal tech_id s =
     emit (Send [(''pid'', JConst ''packet_player_tech_goal''), (''tech'', JNum tech_id)]) s"

definition queue_tech_gained_dialog :: "int \<Rightarrow> 'a client_scheme \<Rightarrow> 'a client_scheme" where
  "queue_tech_gained_dialog tech_gained_id s =
     (if cl_observer s \<or> C_S_RUNNING \<noteq> cl_client_state s then s
      else emit (Ui ''show_tech_gained_dialog'' [JNum tech_gained_id]) s)"

record bulbs_output =
  self_bulbs :: int
  self_upkeep :: int
  pooled :: bool
  team_bulbs :: int
  team_upkeep :: int

text \<open>Missing research data of the team throws.\<close>

definition get_current_bulbs_output :: "'a client_scheme \<Rightarrow> bulbs_output option" where
  "get_current_bulbs_output s =
     (case (if cl_observer s then None else playing s) of
        None \<Rightarrow> Some \<lparr>self_bulbs = 0, self_upkeep = 0, pooled = False, team_bulbs = 0, team_upkeep = 0\<rparr>
      | Some me \<Rightarrow>
          (let cplayer = p_playerno me;
               bulbs = sum_list (map c_prod_science
                         (filter (\<lambda>c. c_owner c = cplayer) (st_vals (cl_cities s))));
               upkeep = p_tech_upkeep me;
               mates = (if cl_team_pooled_research s
                        then filter (\<lambda>p. p_team p = p_team me \<and> p_is_alive p) (st_vals (cl_players s))
                        else []);
               is_pooled = list_ex (\<lambda>p. p_playerno p \<noteq> cplayer) mates
           in if is_pooled
              then map_option (\<lambda>r. \<lparr>self_bulbs = bulbs, self_upkeep = upkeep, pooled = True,
                     team_bulbs = re_total_bulbs_prod r,
                     team_upkeep = sum_list (map p_tech_upkeep mates)\<rparr>)
                   (st_get (cl_research s) (p_team me))
              else Some \<lparr>self_bulbs = bulbs, self_upkeep = upkeep, pooled = False,
                     team_bulbs = bulbs, team_upkeep = upkeep\<rparr>))"

text \<open>\<open>Math.ceil\<close> of a quotient with a positive divisor.\<close>

definition ceil_div :: "int \<Rightarrow> int \<Rightarrow> int" where
  "ceil_div a b = - ((- a) div b)"

definition get_current_bulbs_output_text :: "'a client_scheme \<Rightarrow> bulbs_output \<Rightarrow> string option" where
  "get_current_bulbs_output_text s cbo =
     (let net = self_bulbs cbo - self_upkeep cbo;
          text1 = (if self_bulbs cbo = 0 \<and> self_upkeep cbo = 0 then ''No bulbs researched''
                   else int_text (self_bulbs cbo)
                     @ (if self_upkeep cbo \<noteq> 0
                        then '' - '' @ int_text (self_upkeep cbo) @ '' = '' @ int_text net else [])
                     @ (if \<bar>net\<bar> = 1 then '' bulb/turn'' else '' bulbs/turn''));
          text2 = text1 @ (if pooled cbo
                     then '' ('' @ int_text (team_bulbs cbo - team_upkeep cbo) @ '' team total)'' else [])
      in if team_bulbs cbo > 0 then do {
           me \<leftarrow> playing s;
           Some (if p_researching_cost me \<noteq> 0
                 then (let turns_left = ceil_div (p_researching_cost me - p_bulbs_researched me) (team_bulbs cbo)
                       in text2 @ '' ('' @ int_text turns_left @ (if turns_left > 1 then '' turns)'' else '' turn)''))
                 else text2)
         }
         else Some text2)"

definition update_bulbs_output_info :: "'a client_scheme \<Rightarrow> 'a client_scheme option" where
  "update_bulbs_output_info s = do {
     cbo \<leftarrow> get_current_bulbs_output s;
     text \<leftarrow> get_current_bulbs_output_text s cbo;
     Some (emits [Ui ''bulbs_output html'' [JStr text],
                  Ui ''update_net_bulbs'' [JNum (self_bulbs cbo - self_upkeep cbo)]] s)
   }"

end
