(* ===== verification/Ruleset_Facts.thy ===== *)
theory Ruleset_Facts
  imports Tech Samples "HOL-Library.Multiset"
begin

text \<open>
  The requirement system is monotone in the certainty asked for and does not depend on the
  order of the requirements; the name index of the improvements inverts the table; the search
  for the requirements of a technology is reachability, and terminates on acyclic rulesets; no
  two technologies share a place in the tree.
\<close>

subsection \<open>Requirements\<close>

lemma are_reqs_active_all: "are_reqs_active p reqs pt = list_all (\<lambda>r. is_req_active p r pt) reqs"
  by (induction reqs) auto

lemma req_certain_possible: "is_req_active p r RPT_CERTAIN \<Longrightarrow> is_req_active p r RPT_POSSIBLE"
  by (auto simp: is_req_active_def Let_def split: if_splits)

text \<open>
  A requirement vector that is certainly met is possibly met, whatever the order of the
  requirements.
\<close>

theorem reqs_certain_possible:
  assumes "are_reqs_active p reqs RPT_CERTAIN" and "mset reqs' = mset reqs"
  shows "are_reqs_active p reqs' RPT_POSSIBLE \<and> are_reqs_active p reqs' RPT_CERTAIN"
proof -
  have "set reqs' = set reqs" using assms(2) by (rule mset_eq_setD)
  with assms(1) show ?thesis
    by (auto simp: are_reqs_active_all list_all_iff intro: req_certain_possible)
qed

theorem reqs_certain_possible_witness:
  "are_reqs_active (Some (player0\<lparr>p_government := 2\<rparr>))
     [requirement0\<lparr>r_kind := VUT_GOVERNMENT, r_value := 2, r_present := True\<rparr>] RPT_POSSIBLE"
  using reqs_certain_possible [of "Some (player0\<lparr>p_government := 2\<rparr>)"
      "[requirement0\<lparr>r_kind := VUT_GOVERNMENT, r_value := 2, r_present := True\<rparr>]"]
  by (simp add: is_req_active_def req_result_def)

text \<open>
   A requirement of a kind the client does not evaluate is never met when it asks for
  presence and always met when it asks for absence, for every player and certainty.
\<close>

theorem unimplemented_requirement:
  assumes "r_kind req \<notin> {VUT_NONE, VUT_ADVANCE, VUT_GOVERNMENT, VUT_COUNT}"
  shows "is_req_active p req pt = (\<not> r_present req)"
  using assms by (simp add: is_req_active_def req_result_def Let_def)

theorem unimplemented_requirement_witness:
  "is_req_active None (requirement0\<lparr>r_kind := VUT_IMPROVEMENT, r_present := False\<rparr>) RPT_CERTAIN"
  using unimplemented_requirement
    [where req = "requirement0\<lparr>r_kind := VUT_IMPROVEMENT, r_present := False\<rparr>" and p = None and pt = RPT_CERTAIN]
  by simp

subsection \<open>Improvements\<close>

definition add_all :: "improvement list \<Rightarrow> improvement_tables \<Rightarrow> improvement_tables" where
  "add_all ims t = foldl (\<lambda>t im. improvements_add_building im t) t ims"

lemma add_all_index:
  "map_of (it_name_index (add_all ims t)) name =
     (case List.find (\<lambda>im. im_name im = name) (rev ims) of
        Some im \<Rightarrow> Some (im_id im) | None \<Rightarrow> map_of (it_name_index t) name)"
  unfolding add_all_def
  by (induction ims rule: rev_induct) (auto simp: improvements_add_building_def update_conv' split: option.split)

lemma add_all_store:
  "st_get (it_improvements (add_all ims t)) k =
     (case List.find (\<lambda>im. im_id im = k) (rev ims) of
        Some im \<Rightarrow> Some im | None \<Rightarrow> st_get (it_improvements t) k)"
  unfolding add_all_def
  by (induction ims rule: rev_induct) (auto simp: improvements_add_building_def js.get_put split: option.split)

text \<open>
   After a ruleset has been loaded, looking an improvement up by name and reading the table
  at that id gives the improvement, and unknown names give \<open>- 1\<close>, as long as the ruleset has
  distinct names and ids.
\<close>

theorem improvement_name_lookup:
  assumes "distinct (map im_name ims)" and "distinct (map im_id ims)"
  shows "(im \<in> set ims \<longrightarrow> (let i = improvement_id_by_name (add_all ims (improvements_init t)) (im_name im)
      in i = im_id im \<and> st_get (it_improvements (add_all ims (improvements_init t))) i = Some im))
    \<and> (name \<notin> im_name ` set ims \<longrightarrow>
        improvement_id_by_name (add_all ims (improvements_init t)) name = - 1)"
proof -
  have find: "List.find (\<lambda>x. f x = f im) (rev ims) = Some im"
    if d: "distinct (map f ims)" and m: "im \<in> set ims" for f :: "improvement \<Rightarrow> 'b"
  proof -
    have inj: "inj_on f (set ims)" using d by (simp add: distinct_map)
    show ?thesis
    proof (cases "List.find (\<lambda>x. f x = f im) (rev ims)")
      case None
      then show ?thesis using m by (auto simp: find_None_all)
    next
      case (Some x)
      from find_in_set [OF this] have "x \<in> set ims" "f x = f im" by simp_all
      with inj m have "x = im" by (auto dest: inj_onD)
      with Some show ?thesis by simp
    qed
  qed
  have none: "List.find (\<lambda>x. im_name x = name) (rev ims) = None" if "name \<notin> im_name ` set ims"
    using that by (auto simp: find_None_all)
  have found: "improvement_id_by_name (add_all ims (improvements_init t)) (im_name im) = im_id im
      \<and> st_get (it_improvements (add_all ims (improvements_init t))) (im_id im) = Some im"
    if "im \<in> set ims"
    using find [OF assms(1) that] find [OF assms(2) that]
    by (simp add: improvement_id_by_name_def add_all_index add_all_store)
  have unknown: "improvement_id_by_name (add_all ims (improvements_init t)) name = - 1"
    if "name \<notin> im_name ` set ims"
    using none [OF that] by (simp add: improvement_id_by_name_def add_all_index improvements_init_def)
  show ?thesis using found unknown by (simp add: Let_def)
qed

theorem improvement_name_lookup_witness:
  "improvement_id_by_name (add_all [improvement0\<lparr>im_id := 4, im_name := ''Palace''\<rparr>]
     (improvements_init \<lparr>it_improvements = [], it_name_index = []\<rparr>)) ''Palace'' = 4"
  using improvement_name_lookup [where ims = "[improvement0\<lparr>im_id := 4, im_name := ''Palace''\<rparr>]"
      and im = "improvement0\<lparr>im_id := 4, im_name := ''Palace''\<rparr>"
      and t = "\<lparr>it_improvements = [], it_name_index = []\<rparr>"]
  by (simp add: Let_def)

subsection \<open>Requirements of technologies\<close>

text \<open>The specification: the goal can be traced back to the technology over requirements of
  known technologies, none of the links passing through technology 0.\<close>

inductive leads_to :: "tech store \<Rightarrow> int \<Rightarrow> int \<Rightarrow> bool" for techs where
  leads_refl: "leads_to techs c c"
| leads_step: "c \<noteq> 0 \<Longrightarrow> g \<noteq> 0 \<Longrightarrow> st_get techs g = Some t \<Longrightarrow> rid \<in> set (req_ids t) \<Longrightarrow>
    leads_to techs c rid \<Longrightarrow> leads_to techs c g"

inductive_cases leads_toE: "leads_to techs c g"

lemma goal_search_sound:
  shows "is_tech_req_for_goal fuel techs c g = Some b \<Longrightarrow> b = leads_to techs c g"
    and "goal_loop fuel techs c rids = Some b' \<Longrightarrow> b' = (\<exists>rid\<in>set rids. leads_to techs c rid)"
proof (induction fuel techs c g and fuel techs c rids arbitrary: b and b'
    rule: is_tech_req_for_goal_goal_loop.induct)
  case (2 fuel techs c g)
  show ?case
  proof (cases "c = g \<or> g = 0 \<or> c = 0 \<or> st_get techs g = None")
    case True
    then show ?thesis using 2(2) by (auto intro: leads_refl elim: leads_toE split: if_splits)
  next
    case False
    then obtain t where t: "st_get techs g = Some t" by auto
    with False 2 have "b = (\<exists>rid\<in>set (req_ids t). leads_to techs c rid)" by simp
    with False t show ?thesis by (auto intro: leads_step elim: leads_toE)
  qed
next
  case (4 fuel techs c rid rids)
  then show ?case
    by (auto intro: leads_refl split: if_splits option.splits bool.splits)
qed simp_all

lemma goal_search_terminates:
  fixes rank :: "int \<Rightarrow> nat"
  assumes "\<And>g t rid. st_get techs g = Some t \<Longrightarrow> rid \<in> set (req_ids t) \<Longrightarrow> rank rid < rank g"
  shows "rank g < fuel \<Longrightarrow> is_tech_req_for_goal fuel techs c g \<noteq> None"
proof (induction fuel arbitrary: g)
  case (Suc fuel)
  have loop: "goal_loop fuel techs c rids \<noteq> None" if "\<forall>rid\<in>set rids. rank rid < rank g" for rids
    using that
  proof (induction rids)
    case (Cons rid rids)
    then have "is_tech_req_for_goal fuel techs c rid \<noteq> None" using Suc.IH Suc.prems by simp
    with Cons show ?case by (auto split: option.split bool.split)
  qed simp
  show ?case using loop assms by (auto split: option.split)
qed simp

text \<open>
  C21.  On a ruleset whose requirements are acyclic (some rank falls along every requirement) the
  search ends, once the recursion may go as deep as the rank of the goal, and answers exactly
  whether the technology leads to the goal.
\<close>

theorem tech_goal_search_correct:
  fixes rank :: "int \<Rightarrow> nat"
  assumes "\<And>g t rid. st_get techs g = Some t \<Longrightarrow> rid \<in> set (req_ids t) \<Longrightarrow> rank rid < rank g"
    and "rank g < fuel"
  shows "is_tech_req_for_goal fuel techs c g = Some (leads_to techs c g)"
  using goal_search_terminates [of techs rank g fuel c] goal_search_sound(1) assms by blast

theorem tech_goal_search_correct_witness:
  "let techs = [(1, tech0), (2, tech0\<lparr>tc_research_reqs := [requirement0\<lparr>r_value := 1\<rparr>]\<rparr>),
                (3, tech0\<lparr>tc_research_reqs := [requirement0\<lparr>r_value := 2\<rparr>]\<rparr>)]
   in is_tech_req_for_goal 5 techs 1 3 = Some True \<and> leads_to techs 1 3"
proof -
  let ?techs = "[(1, tech0), (2, tech0\<lparr>tc_research_reqs := [requirement0\<lparr>r_value := 1\<rparr>]\<rparr>),
                (3, tech0\<lparr>tc_research_reqs := [requirement0\<lparr>r_value := 2\<rparr>]\<rparr>)]"
  have "is_tech_req_for_goal (Suc (Suc (Suc (Suc (Suc 0))))) ?techs 1 3 = Some (leads_to ?techs 1 3)"
    by (rule tech_goal_search_correct [where rank = nat])
      (auto simp: st_get_def req_ids_def tech0_def requirement0_def split: if_splits)
  moreover have "is_tech_req_for_goal (Suc (Suc (Suc (Suc (Suc 0))))) ?techs 1 3 = Some True"
    by (simp add: st_get_def req_ids_def tech0_def requirement0_def)
  ultimately show ?thesis by (simp add: Let_def numeral_eq_Suc)
qed

subsection \<open>The layout\<close>

text \<open>No two placed technologies have the same place, and the counts are above all places.\<close>

definition places_ok :: "tree_state \<Rightarrow> bool" where
  "places_ok ts \<longleftrightarrow>
     (\<forall>i n y. st_get (ts_nodes ts) i = Some n \<longrightarrow> tn_ylevel n = Some y \<longrightarrow>
        tn_traversed n \<and> (\<forall>c. level_count ts (tn_xlevel n) = Some c \<longrightarrow> y < c)) \<and>
     (\<forall>i j n n' y. st_get (ts_nodes ts) i = Some n \<longrightarrow> st_get (ts_nodes ts) j = Some n' \<longrightarrow>
        tn_ylevel n = Some y \<longrightarrow> tn_ylevel n' = Some y \<longrightarrow> tn_xlevel n = tn_xlevel n' \<longrightarrow> i = j)"

lemma level_count_place:
  "level_count (ts\<lparr>ts_nodes := ns, ts_level_counts := st_put x v (ts_level_counts ts)\<rparr>) x' =
     (if x' = x then v else level_count ts x')"
  by (simp add: level_count_def js.get_put)

text \<open>The effect of placing technology \<open>p\<close> at level \<open>x\<close>.\<close>

definition placed :: "tree_state \<Rightarrow> int \<Rightarrow> tree_node \<Rightarrow> int \<Rightarrow> tree_state \<Rightarrow> bool" where
  "placed ts p node x ts' \<longleftrightarrow>
     (\<forall>i. st_get (ts_nodes ts') i =
        (if i = p then Some (node\<lparr>tn_xlevel := x, tn_ylevel := level_count ts x, tn_traversed := True\<rparr>)
         else st_get (ts_nodes ts) i)) \<and>
     (\<forall>x'. level_count ts' x' =
        (if x' = x then map_option (\<lambda>c. c + 1) (level_count ts x) else level_count ts x'))"

lemma placed_place_tech:
  "st_get (ts_nodes ts) p = Some node \<Longrightarrow> \<exists>x. placed ts p node x (snd (place_tech p xlevel ts))"
  by (simp only: placed_def place_tech_def Let_def snd_conv level_count_place)
    (auto simp: st_get_upd)

lemma placed_new:
  "placed ts p node x ts' \<Longrightarrow> st_get (ts_nodes ts') p = Some n \<Longrightarrow> tn_ylevel n = Some y \<Longrightarrow>
     tn_xlevel n = x \<and> level_count ts x = Some y \<and> tn_traversed n"
  by (auto simp: placed_def)

lemma placed_old: "placed ts p node x ts' \<Longrightarrow> i \<noteq> p \<Longrightarrow> st_get (ts_nodes ts') i = st_get (ts_nodes ts) i"
  by (simp add: placed_def)

lemma placed_count:
  "placed ts p node x ts' \<Longrightarrow> level_count ts' x' = Some c \<Longrightarrow>
     \<exists>c'. level_count ts x' = Some c' \<and> c = (if x' = x then c' + 1 else c')"
  by (auto simp: placed_def split: if_splits)

lemma places_okD:
  assumes "places_ok ts" and "st_get (ts_nodes ts) i = Some n" and "tn_ylevel n = Some y"
  shows "tn_traversed n" and "level_count ts (tn_xlevel n) = Some c \<Longrightarrow> y < c"
  using assms unfolding places_ok_def by blast+

lemma placed_below_count:
  assumes ok: "places_ok ts" and pl: "placed ts p node x ts'"
    and n: "st_get (ts_nodes ts') i = Some n" "tn_ylevel n = Some y"
  shows "tn_traversed n" and "level_count ts' (tn_xlevel n) = Some c \<Longrightarrow> y < c"
proof -
  have "tn_traversed n \<and> (level_count ts' (tn_xlevel n) = Some c \<longrightarrow> y < c)"
  proof (cases "i = p")
    case True
    from placed_new [OF pl n [unfolded True]] placed_count [OF pl, of "tn_xlevel n" c] show ?thesis by auto
  next
    case False
    with n placed_old [OF pl] have "st_get (ts_nodes ts) i = Some n" by simp
    from places_okD [OF ok this n(2)] placed_count [OF pl, of "tn_xlevel n" c] show ?thesis
      by (auto split: if_splits)
  qed
  then show "tn_traversed n" and "level_count ts' (tn_xlevel n) = Some c \<Longrightarrow> y < c" by blast+
qed

lemma placed_not_equal:
  assumes ok: "places_ok ts" and pl: "placed ts p node x ts'" and "j \<noteq> p"
    and n: "st_get (ts_nodes ts') p = Some n" "tn_ylevel n = Some y"
    and n': "st_get (ts_nodes ts') j = Some n'" "tn_ylevel n' = Some y"
  shows "tn_xlevel n \<noteq> tn_xlevel n'"
proof
  assume e: "tn_xlevel n = tn_xlevel n'"
  from placed_new [OF pl n] e have "level_count ts (tn_xlevel n') = Some y" by simp
  moreover have "st_get (ts_nodes ts) j = Some n'" using n' placed_old [OF pl assms(3)] by simp
  ultimately show False using places_okD(2) [OF ok _ n'(2)] by blast
qed

lemma placed_unique:
  assumes ok: "places_ok ts" and pl: "placed ts p node x ts'"
    and n: "st_get (ts_nodes ts') i = Some n" "tn_ylevel n = Some y"
    and n': "st_get (ts_nodes ts') j = Some n'" "tn_ylevel n' = Some y"
    and e: "tn_xlevel n = tn_xlevel n'"
  shows "i = j"
proof (cases "i = p \<or> j = p")
  case True
  with placed_not_equal [OF ok pl] n n' e show ?thesis by metis
next
  case False
  with n n' placed_old [OF pl] have "st_get (ts_nodes ts) i = Some n" "st_get (ts_nodes ts) j = Some n'"
    by simp_all
  with ok n(2) n'(2) e show ?thesis unfolding places_ok_def by blast
qed

lemma place_tech_ok:
  assumes "places_ok ts" and "st_get (ts_nodes ts) p = Some node"
  shows "places_ok (snd (place_tech p xlevel ts))"
proof -
  from placed_place_tech [OF assms(2)] obtain x where
    pl: "placed ts p node x (snd (place_tech p xlevel ts))" by blast
  show ?thesis
    unfolding places_ok_def [of "snd (place_tech p xlevel ts)"]
  proof (intro conjI allI impI, goal_cases)
    case (1 i n y)
    then show ?case by (rule placed_below_count(1) [OF assms(1) pl])
  next
    case (2 i n y c)
    then show ?case by (rule placed_below_count(2) [OF assms(1) pl])
  next
    case (3 i j n n' y)
    show ?case by (rule placed_unique [OF assms(1) pl 3(1,3,2,4,5)])
  qed
qed

lemma assign_ok:
  shows "reqtree_assign_level fuel p x ts = Some ts' \<Longrightarrow> places_ok ts \<Longrightarrow> places_ok ts'"
    and "assign_loop fuel subs x ts = Some ts' \<Longrightarrow> places_ok ts \<Longrightarrow> places_ok ts'"
proof (induction fuel p x ts and fuel subs x ts arbitrary: ts' and ts'
    rule: reqtree_assign_level_assign_loop.induct)
  case (2 fuel p x ts)
  show ?case
  proof (cases "st_get (ts_nodes ts) p")
    case None
    with 2(2) show ?thesis by simp
  next
    case (Some node)
    obtain x1 ts1 where pl: "(if \<not> tn_traversed node then place_tech p x ts else (x, ts)) = (x1, ts1)"
      by (metis surj_pair)
    have "places_ok ts1"
      using pl place_tech_ok [OF 2(3) Some, of x] 2(3) by (cases "tn_traversed node") simp_all
    moreover have "assign_loop fuel (tn_subreqs node) (x1 + 1) ts1 = Some ts'"
      using 2(2) unfolding reqtree_assign_level.simps Some option.case pl Let_def prod.case .
    ultimately show ?thesis using 2(1) [OF Some pl [symmetric] refl] by blast
  qed
next
  case (4 fuel sub subs x ts)
  then show ?case by (cases "reqtree_assign_level fuel sub x ts") simp_all
qed simp_all

lemma roots_ok: "roots_loop fuel tcs ts = Some ts' \<Longrightarrow> places_ok ts \<Longrightarrow> places_ok ts'"
  by (induction fuel tcs ts arbitrary: ts' rule: roots_loop.induct)
    (auto simp: bind_eq_Some_conv split: if_splits dest: assign_ok(1))

lemma add_subreq_nodes:
  "add_subreq t k nodes = Some nodes' \<Longrightarrow> (\<forall>i n. st_get nodes i = Some n \<longrightarrow> tn_ylevel n = None) \<Longrightarrow>
     (\<forall>i n. st_get nodes' i = Some n \<longrightarrow> tn_ylevel n = None)"
  by (auto simp: add_subreq_def js.get_put split: if_splits)

lemma subreqs_nodes:
  "subreqs_loop tcs nodes = Some nodes' \<Longrightarrow> (\<forall>i n. st_get nodes i = Some n \<longrightarrow> tn_ylevel n = None) \<Longrightarrow>
     (\<forall>i n. st_get nodes' i = Some n \<longrightarrow> tn_ylevel n = None)"
proof (induction tcs arbitrary: nodes)
  case (Cons t tcs)
  then obtain n1 n2 where n: "add_subreq t 0 nodes = Some n1" "add_subreq t 1 n1 = Some n2"
      "subreqs_loop tcs n2 = Some nodes'"
    by (auto simp: bind_eq_Some_conv)
  show ?case
    by (rule Cons.IH [OF n(3) add_subreq_nodes [OF n(2) add_subreq_nodes [OF n(1) Cons.prems(2)]]])
qed simp



end
