(* ===== verification/Units.thy ===== *)
theory Units
  imports Ruleset
begin

text \<open>
  \<open>unit.js\<close> and the lookups of \<open>player.js\<close>, \<open>game.js\<close> and \<open>connection.js\<close>: owners, the units
  of a tile, the movement text, the animation list, the targets of pillage.
  The list \<open>units\<close> of a tile holds references to the objects of \<open>units\<close>; here it holds ids.
\<close>

subsection \<open>Lookups\<close>

definition idex_lookup_unit :: "'a client_scheme \<Rightarrow> int \<Rightarrow> unit_rec option" where
  "idex_lookup_unit s uid = st_get (cl_units s) uid"

definition game_find_unit_by_number :: "'a client_scheme \<Rightarrow> int \<Rightarrow> unit_rec option" where
  "game_find_unit_by_number s uid = st_get (cl_units s) uid"

definition game_find_city_by_number :: "'a client_scheme \<Rightarrow> int \<Rightarrow> city option" where
  "game_find_city_by_number s cid = st_get (cl_cities s) cid"

definition player_by_number :: "'a client_scheme \<Rightarrow> int \<Rightarrow> player option" where
  "player_by_number s playerno = st_get (cl_players s) playerno"

definition valid_player_by_number :: "'a client_scheme \<Rightarrow> int \<Rightarrow> player option" where
  "valid_player_by_number s playerno = st_get (cl_players s) playerno"

definition player_by_name :: "'a client_scheme \<Rightarrow> string \<Rightarrow> player option" where
  "player_by_name s pname = List.find (\<lambda>p. pname = p_name p) (st_vals (cl_players s))"

definition player_by_full_username :: "'a client_scheme \<Rightarrow> string \<Rightarrow> player option" where
  "player_by_full_username s pname =
     (let ainame = (if take 3 pname = ''AI '' then drop 3 pname else pname)
      in List.find (\<lambda>p. if bv_isSet (p_flags p) PLRF_AI then ainame = p_name p
                        else pname = p_username p) (st_vals (cl_players s)))"

definition unit_owner :: "'a client_scheme \<Rightarrow> unit_rec \<Rightarrow> player option" where
  "unit_owner s punit = player_by_number s (u_owner punit)"

definition extra_owner :: "'a client_scheme \<Rightarrow> tile \<Rightarrow> player option" where
  "extra_owner s ptile = Option.bind (t_extras_owner ptile) (player_by_number s)"

text \<open>
  \<open>player_find_unit_by_id\<close>: the test is \<open>pplayer != null || unit_owner(punit) == pplayer\<close>, so a
  known player gets any unit, whoever owns it.  When the test fails, \<open>return NULL\<close> throws
  (outer \<open>None\<close>): \<open>NULL\<close> is no variable of the program.
\<close>

definition player_find_unit_by_id :: "'a client_scheme \<Rightarrow> player option \<Rightarrow> int \<Rightarrow> unit_rec option option" where
  "player_find_unit_by_id s pplayer unit_id =
     (case idex_lookup_unit s unit_id of
        None \<Rightarrow> Some None
      | Some punit \<Rightarrow>
          (if pplayer \<noteq> None \<or> unit_owner s punit = pplayer then Some (Some punit) else None))"

definition does_player_own_city :: "player \<Rightarrow> city \<Rightarrow> bool" where
  "does_player_own_city pl pcity = (c_owner pcity = p_playerno pl)"

definition player_capital :: "'a client_scheme \<Rightarrow> player \<Rightarrow> city option" where
  "player_capital s pl =
     List.find (\<lambda>c. does_player_own_city pl c \<and> is_primary_capital c) (st_vals (cl_cities s))"

definition is_barbarian_player :: "'a client_scheme \<Rightarrow> int \<Rightarrow> bool" where
  "is_barbarian_player s player_id =
     (case Option.bind (player_by_number s player_id) (\<lambda>p. st_get (cl_nations s) (p_nation p)) of
        None \<Rightarrow> False
      | Some n \<Rightarrow> (case na_barbarian_type n of None \<Rightarrow> False | Some b \<Rightarrow> b \<noteq> NOT_A_BARBARIAN))"

definition research_get :: "'a client_scheme \<Rightarrow> player option \<Rightarrow> research option" where
  "research_get s pplayer =
     (case pplayer of None \<Rightarrow> None
      | Some p \<Rightarrow> st_get (cl_research s) (if cl_team_pooled_research s then p_team p else p_playerno p))"

subsection \<open>Player texts\<close>

definition get_diplstate_text :: "int \<Rightarrow> string" where
  "get_diplstate_text state_id =
     (if state_id = DS_ARMISTICE then ''Armistice'' else if state_id = DS_WAR then ''War''
      else if state_id = DS_CEASEFIRE then ''Ceasefire'' else if state_id = DS_PEACE then ''Peace''
      else if state_id = DS_ALLIANCE then ''Alliance'' else if state_id = DS_NO_CONTACT then ''None''
      else if state_id = DS_TEAM then ''Team'' else ''Unknown state'')"

definition embassy_flag :: "player \<Rightarrow> int \<Rightarrow> bool" where
  "embassy_flag p n = (st_get (p_real_embassy p) n = Some True)"

definition get_embassy_text :: "'a client_scheme \<Rightarrow> int option \<Rightarrow> string" where
  "get_embassy_text s player_id =
     (case (player_id, playing s) of
        (Some pid, Some me) \<Rightarrow>
          (if cl_observer s then ''-''
           else if pid = p_playerno me then ''-''
           else case player_by_number s pid of
                  None \<Rightarrow> ''-''
                | Some them \<Rightarrow>
                    (let embassy_with = embassy_flag me pid; embassy_from = embassy_flag them (p_playerno me)
                     in if embassy_with \<and> embassy_from then ''Both''
                        else if embassy_with then ''We have embassy''
                        else if embassy_from then ''They have embassy'' else ''None''))
      | _ \<Rightarrow> ''-'')"

definition get_ai_level_text :: "player \<Rightarrow> string" where
  "get_ai_level_text pl =
     (let ai_level = p_ai_skill_level pl
      in if ai_level = 0 then ''Restricted'' else if ai_level = 1 then ''Novice''
         else if ai_level = 2 then ''Easy'' else if ai_level = 3 then ''Normal''
         else if ai_level = 4 then ''Hard'' else if ai_level = 5 then ''Cheating''
         else if ai_level = 6 then ''Experimental'' else if ai_level = 7 then ''Away'' else ''Unknown'')"

definition get_player_connection_status :: "player option \<Rightarrow> string" where
  "get_player_connection_status pplayer =
     (case pplayer of None \<Rightarrow> []
      | Some p \<Rightarrow> (if \<not> p_is_alive p then ''dead''
                   else if p_phase_done p then ''done moving''
                   else if p_nturns_idle p > 1 then int_text (p_nturns_idle p) @ '' turns idling''
                   else ''moving''))"

text \<open>The pattern \<open>^[a-z][a-z0-9]*$\<close> on the lower-case name.\<close>

definition matches_username :: "string \<Rightarrow> bool" where
  "matches_username name =
     (case name of [] \<Rightarrow> False
      | c # cs \<Rightarrow> is_lower c \<and> list_all (\<lambda>d. is_lower d \<or> is_digit d) cs)"

definition get_invalid_username_reason :: "string list \<Rightarrow> string option \<Rightarrow> string option" where
  "get_invalid_username_reason banned_users username =
     (case username of None \<Rightarrow> Some ''empty''
      | Some name \<Rightarrow>
          (if length name = 0 then Some ''empty''
           else if length name \<le> 2 then Some ''too short''
           else if length name \<ge> 32 then Some ''too long''
           else (let lname = toLowerCase name
                 in if \<not> matches_username lname
                    then Some ''invalid: only English letters and numbers are allowed, and must start with a letter''
                    else if \<not> check_text_with_banlist_exact banned_users (Some lname) then Some ''banned''
                    else None)))"

subsection \<open>The units of a tile\<close>

definition tile_units :: "tile option \<Rightarrow> int list option" where
  "tile_units ptile = map_option t_units ptile"

definition set_tile_units :: "int \<Rightarrow> int list \<Rightarrow> 'a client_scheme \<Rightarrow> 'a client_scheme" where
  "set_tile_units tindex us s = s\<lparr>cl_tiles := st_upd tindex (\<lambda>t. t\<lparr>t_units := us\<rparr>) (cl_tiles s)\<rparr>"

definition update_tile_unit :: "unit_rec option \<Rightarrow> 'a client_scheme \<Rightarrow> 'a client_scheme" where
  "update_tile_unit punit s =
     (case punit of None \<Rightarrow> s
      | Some u \<Rightarrow>
          (case index_to_tile (cl_tiles s) (u_tile u) of
             None \<Rightarrow> s
           | Some ptile \<Rightarrow>
               (if u_id u \<in> set (t_units ptile) then s
                else set_tile_units (u_tile u) (t_units ptile @ [u_id u]) s)))"

text \<open>\<open>splice\<close> at the first position of the unit.\<close>

definition clear_tile_unit :: "unit_rec option \<Rightarrow> 'a client_scheme \<Rightarrow> 'a client_scheme" where
  "clear_tile_unit punit s =
     (case punit of None \<Rightarrow> s
      | Some u \<Rightarrow>
          (case index_to_tile (cl_tiles s) (u_tile u) of
             None \<Rightarrow> s
           | Some ptile \<Rightarrow>
               (if u_id u \<in> set (t_units ptile)
                then set_tile_units (u_tile u) (remove1 (u_id u) (t_units ptile)) s
                else s)))"

definition unit_list_size :: "int list option \<Rightarrow> nat" where
  "unit_list_size unit_list = (case unit_list of None \<Rightarrow> 0 | Some us \<Rightarrow> length us)"

definition unit_list_without :: "int list \<Rightarrow> int \<Rightarrow> int list" where
  "unit_list_without unit_list uid = filter (\<lambda>f. f \<noteq> uid) unit_list"

definition get_supported_units :: "'a client_scheme \<Rightarrow> city option \<Rightarrow> unit_rec list option" where
  "get_supported_units s pcity =
     map_option (\<lambda>c. filter (\<lambda>u. u_homecity u = Some (c_id c)) (st_vals (cl_units s))) pcity"

definition unit_type_of :: "'a client_scheme \<Rightarrow> unit_rec \<Rightarrow> unit_type option" where
  "unit_type_of s punit = st_get (cl_unit_types s) (u_type punit)"

definition unit_can_do_action :: "'a client_scheme \<Rightarrow> unit_rec \<Rightarrow> int \<Rightarrow> bool" where
  "unit_can_do_action s punit act_id = utype_can_do_action (unit_type_of s punit) act_id"

subsection \<open>Movement\<close>

text \<open>\<open>SINGLE_MOVE\<close> is the number of fragments of a move, from the terrain control packet.\<close>

definition move_points_text :: "int \<Rightarrow> int \<Rightarrow> string" where
  "move_points_text SINGLE_MOVE moves =
     (if js_rem moves SINGLE_MOVE \<noteq> 0
      then (if moves div SINGLE_MOVE > 0
            then int_text (moves div SINGLE_MOVE) @ '' '' @ int_text (js_rem moves SINGLE_MOVE)
                   @ ''/'' @ int_text SINGLE_MOVE
            else int_text (js_rem moves SINGLE_MOVE) @ ''/'' @ int_text SINGLE_MOVE)
      else int_text (moves div SINGLE_MOVE))"

text \<open>\<open>goto_tile != -1\<close> also holds when the field is undefined.\<close>

definition unit_has_goto :: "'a client_scheme \<Rightarrow> unit_rec \<Rightarrow> bool" where
  "unit_has_goto s punit =
     (case playing s of None \<Rightarrow> False
      | Some me \<Rightarrow> (if u_owner punit \<noteq> p_playerno me then False
                    else u_goto_tile punit \<noteq> Some (- 1)))"

definition update_unit_anim_list :: "unit_rec \<Rightarrow> unit_rec \<Rightarrow> unit_rec" where
  "update_unit_anim_list old_unit new_unit =
     (if u_tile new_unit = u_tile old_unit then old_unit
      else if u_transported new_unit then old_unit\<lparr>u_anim_list := Some []\<rparr>
      else (let anim = (case u_anim_list old_unit of None \<Rightarrow> [] | Some l \<Rightarrow> l);
                has_old_pos = list_ex (\<lambda>(t, i). t = u_tile old_unit) anim;
                has_new_pos = list_ex (\<lambda>(t, i). t = u_tile new_unit) anim
            in old_unit\<lparr>u_anim_list := Some (anim
                 @ (if has_old_pos then [] else [(u_tile old_unit, ANIM_STEPS)])
                 @ (if has_new_pos then [] else [(u_tile new_unit, ANIM_STEPS)]))\<rparr>))"

definition reset_unit_anim_list :: "'a client_scheme \<Rightarrow> 'a client_scheme" where
  "reset_unit_anim_list s = s\<lparr>cl_units := st_map (\<lambda>u. u\<lparr>u_anim_list := Some []\<rparr>) (cl_units s)\<rparr>"

subsection \<open>Pillage\<close>

text \<open>
  The extras a unit can pillage from a tile.  A missing terrain or extra throws.
  \<open>terrain_pillage_time\<close> and \<open>pillage_select\<close> come from the ruleset and the game info.
\<close>

definition pillaged_by_others :: "'a client_scheme \<Rightarrow> tile \<Rightarrow> bitvector \<Rightarrow> bitvector" where
  "pillaged_by_others s ptile bv =
     foldl (\<lambda>bv uid. (case st_get (cl_units s) uid of
         None \<Rightarrow> bv
       | Some u \<Rightarrow> if u_activity u = Some ACTIVITY_PILLAGE then bv_set (u_activity_tgt u) bv else bv))
       bv (t_units ptile)"

definition required_extras :: "extra \<Rightarrow> bitvector \<Rightarrow> bitvector" where
  "required_extras x bv =
     foldl (\<lambda>bv req. if r_kind req = VUT_EXTRA \<and> r_present req then bv_set (r_value req) bv else bv)
       bv (x_reqs x)"

fun dependencies_loop :: "extra store \<Rightarrow> int list \<Rightarrow> bitvector \<Rightarrow> bitvector option" where
  "dependencies_loop extras [] bv = Some bv"
| "dependencies_loop extras (e # es) bv =
     (case st_get extras e of None \<Rightarrow> None
      | Some x \<Rightarrow> dependencies_loop extras es (required_extras x bv))"

fun targets_loop :: "extra store \<Rightarrow> bool \<Rightarrow> bitvector \<Rightarrow> int list \<Rightarrow> int list option" where
  "targets_loop extras pillage_select cannot [] = Some []"
| "targets_loop extras pillage_select cannot (e # es) =
     (case st_get extras e of None \<Rightarrow> None
      | Some x \<Rightarrow>
          (if is_extra_removed_by x ERM_PILLAGE \<and> \<not> bv_isSet cannot e
           then (if pillage_select
                 then map_option ((#) e) (targets_loop extras pillage_select cannot es)
                 else Some [EXTRA_NONE])
           else targets_loop extras pillage_select cannot es))"

definition pillage_targets :: "'a client_scheme \<Rightarrow> bool \<Rightarrow> tile \<Rightarrow> bitvector \<Rightarrow> int list option" where
  "pillage_targets s pillage_select t ex =
     (let extras = rs_extras (cl_ruleset s); available = bv_toBitSet ex
      in Option.bind (dependencies_loop extras available (pillaged_by_others s t (BitVector [])))
           (\<lambda>cannot_pillage. targets_loop extras pillage_select cannot_pillage available))"

definition pillage_from_tile :: "'a client_scheme \<Rightarrow> bool \<Rightarrow> unit_rec \<Rightarrow> tile \<Rightarrow> int list option" where
  "pillage_from_tile s pillage_select u t =
     (case st_get (rs_terrains (cl_ruleset s)) (t_terrain t) of
        None \<Rightarrow> None
      | Some te \<Rightarrow>
          (if te_pillage_time te = 0 then Some []
           else if \<not> utype_can_do_action (unit_type_of s u) ACTION_PILLAGE then Some []
           else Option.bind (t_extras t) (pillage_targets s pillage_select t)))"

definition get_what_can_unit_pillage_from ::
    "'a client_scheme \<Rightarrow> bool \<Rightarrow> unit_rec option \<Rightarrow> tile option \<Rightarrow> int list option" where
  "get_what_can_unit_pillage_from s pillage_select punit ptile =
     (case punit of None \<Rightarrow> Some []
      | Some u \<Rightarrow>
          Option.bind (if ptile = None then index_to_tile (cl_tiles s) (u_tile u) else ptile)
            (pillage_from_tile s pillage_select u))"

end
