(* ===== verification/Focus.thy ===== *)
theory Focus
  imports Units
begin

text \<open>
  The units in focus (\<open>control.js\<close>) and the queue of units that wait for a decision of the
  player (\<open>control.js\<close>, \<open>action_dialog.js\<close>).  The lists hold references to unit objects; here
  they hold ids, and a unit's fields are read from \<open>units\<close>.  A unit leaves \<open>units\<close> only through
  \<open>client_remove_unit\<close>, which takes it out of these lists first.
  Clicking a stack of foreign units makes \<open>current_focus\<close> the very array of the tile, so that
  later changes of the tile's units show in the focus: \<open>FocusTile\<close>.
  The comparison function of \<open>find_best_focus_candidate\<close> is no ordering (of two tiles each can
  come after the other), so the result of the sort depends on the browser: \<open>srt\<close> is the sorting
  function, of which the theorems only assume that it keeps the elements.
\<close>

record act_prob =
  ap_min :: int
  ap_max :: int

datatype focus = Focus "int list" | FocusTile int

text \<open>
  A dialog is its buttons and the attributes the code stores in it: \<open>ActButton a t u\<close> does action
  \<open>a\<close> on target \<open>t\<close> with sub target \<open>u\<close>.  The follow-up dialogs ask for a confirmation, a
  technology, a building or another target; \<open>FuDo\<close> does the action, \<open>FuAsk\<close> asks the server
  again about another target, \<open>FuThrow\<close> reads the id of a city that is gone.
\<close>

datatype act_button = ActButton int int int | ChangeTgtUnit | ChangeTgtExtra | AutoAttackFromNow
  | WaitButton | CancelButton

record act_dialog =
  ad_target_city :: int
  ad_target_unit :: int
  ad_target_tile :: int
  ad_target_extra :: int
  ad_probs :: "act_prob list"
  ad_buttons :: "act_button list"

datatype followup_kind = BribeUnit | InciteCity | UpgradeUnit | StealTech | SabotageImpr
  | SelTgtUnit | SelTgtExtra

datatype followup_button = FuDo int int int int | FuAsk int int int | FuClose | FuThrow

type_synonym followups = "((followup_kind \<times> int) \<times> followup_button list) list"

record goto_path =
  gp_unit_id :: int
  gp_dest :: int
  gp_length :: nat
  gp_dir :: "int list"
  gp_turns :: "int option"

record focus_client = city_client +
  fc_focus :: focus
  fc_urgent :: "int list"
  fc_waiting :: "int list"
  fc_selecting :: int                \<comment> \<open>\<open>action_selection_in_progress_for\<close>\<close>
  fc_more_input :: bool              \<comment> \<open>\<open>is_more_user_input_needed\<close>\<close>
  fc_restart :: bool                 \<comment> \<open>\<open>action_selection_restart\<close>\<close>
  fc_did_not_decide :: bool
  fc_dialogs :: "act_dialog store"   \<comment> \<open>the open action selection dialogs, by actor\<close>
  fc_followups :: followups          \<comment> \<open>the open follow-up dialogs, by kind and actor\<close>
  fc_city_name_dialog :: "int option" \<comment> \<open>the unit the city name dialog asks for\<close>
  fc_tech_steal_allow_holes :: bool
  fc_num_extra_types :: int
  fc_popup_actor_arrival :: bool
  fc_auto_attack :: bool
  fc_observing :: bool
  fc_nuke_active :: bool
  fc_auto_center_on_unit :: bool
  fc_goto_active :: bool
  fc_paradrop_active :: bool
  fc_airlift_active :: bool
  fc_tgt_sel_active :: bool          \<comment> \<open>\<open>action_tgt_sel_active\<close>\<close>
  fc_goto_last_order :: int
  fc_goto_last_action :: int
  fc_goto_paths :: "((int \<times> int option \<times> int option) \<times> goto_path option) list"
    \<comment> \<open>\<open>goto_request_map\<close>: \<open>None\<close> for \<open>true\<close>, a path that was asked for\<close>
  fc_goto_turns :: "int option"      \<comment> \<open>\<open>current_goto_turns\<close>\<close>
  fc_intro_click :: bool             \<comment> \<open>\<open>intro_click_description\<close>\<close>
  fc_end_turn_shown :: bool
  fc_movesleft_warned :: bool

text \<open>\<open>client_is_observer\<close>, with \<open>cl_observer\<close> for the flag of the connection.\<close>

definition client_is_observer :: "'a focus_client_scheme \<Rightarrow> bool" where
  "client_is_observer s = (playing s = None \<or> cl_observer s \<or> fc_observing s)"

definition can_client_issue_orders :: "'a focus_client_scheme \<Rightarrow> bool" where
  "can_client_issue_orders s = (\<not> client_is_observer s \<and> cl_client_state s = C_S_RUNNING)"

subsection \<open>The focus\<close>

definition get_units_in_focus :: "'a focus_client_scheme \<Rightarrow> int list" where
  "get_units_in_focus s =
     (case fc_focus s of Focus ids \<Rightarrow> ids
      | FocusTile t \<Rightarrow> (case st_get (cl_tiles s) t of None \<Rightarrow> [] | Some ptile \<Rightarrow> t_units ptile))"

definition unit_is_in_focus :: "'a focus_client_scheme \<Rightarrow> int \<Rightarrow> bool" where
  "unit_is_in_focus s uid = (uid \<in> set (get_units_in_focus s))"

definition focus_units :: "'a focus_client_scheme \<Rightarrow> unit_rec list" where
  "focus_units s = List.map_filter (st_get (cl_units s)) (get_units_in_focus s)"

definition get_focus_unit_on_tile :: "'a focus_client_scheme \<Rightarrow> tile \<Rightarrow> unit_rec option" where
  "get_focus_unit_on_tile s ptile = List.find (\<lambda>u. u_tile u = t_index ptile) (focus_units s)"

subsection \<open>Asking the server\<close>

definition should_ask_server_for_actions :: "'a focus_client_scheme \<Rightarrow> unit_rec \<Rightarrow> bool" where
  "should_ask_server_for_actions s punit =
     (u_adw punit = Some ACT_DEC_ACTIVE
      \<or> (u_adw punit = Some ACT_DEC_PASSIVE \<and> fc_popup_actor_arrival s))"

definition can_ask_server_for_actions :: "'a focus_client_scheme \<Rightarrow> bool" where
  "can_ask_server_for_actions s = (fc_selecting s = IDENTITY_NUMBER_ZERO)"

definition opt_json :: "int option \<Rightarrow> jval" where
  "opt_json x = (case x of None \<Rightarrow> JNull | Some i \<Rightarrow> JNum i)"

definition unit_get_actions_packet :: "int \<Rightarrow> int \<Rightarrow> jval \<Rightarrow> int \<Rightarrow> int \<Rightarrow> packet" where
  "unit_get_actions_packet actor target_unit target_tile target_extra request_kind =
     [(''pid'', JConst ''packet_unit_get_actions''), (''actor_unit_id'', JNum actor),
      (''target_unit_id'', JNum target_unit), (''target_tile_id'', target_tile),
      (''target_extra_id'', JNum target_extra), (''request_kind'', JNum request_kind)]"

definition ask_server_for_actions :: "unit_rec option \<Rightarrow> 'a focus_client_scheme \<Rightarrow> 'a focus_client_scheme" where
  "ask_server_for_actions punit s =
     (case punit of None \<Rightarrow> s
      | Some u \<Rightarrow>
          (if fc_observing s then s
           else (let s1 = s\<lparr>fc_selecting := u_id u\<rparr>
                 in case Option.bind (u_ad_tile u) (index_to_tile (cl_tiles s)) of
                      None \<Rightarrow> s1
                    | Some ptile \<Rightarrow>
                        emit (Send (unit_get_actions_packet (u_id u) IDENTITY_NUMBER_ZERO
                                (opt_json (u_ad_tile u)) EXTRA_NONE REQEST_PLAYER_INITIATED)) s1)))"

definition action_selection_no_longer_in_progress ::
    "int \<Rightarrow> 'a focus_client_scheme \<Rightarrow> 'a focus_client_scheme" where
  "action_selection_no_longer_in_progress old_actor_id s =
     s\<lparr>fc_selecting := IDENTITY_NUMBER_ZERO, fc_more_input := False\<rparr>"

definition action_decision_clear_want :: "int \<Rightarrow> 'a focus_client_scheme \<Rightarrow> 'a focus_client_scheme" where
  "action_decision_clear_want old_actor_id s =
     (case game_find_unit_by_number s old_actor_id of
        None \<Rightarrow> s
      | Some old \<Rightarrow>
          (if u_adw old \<noteq> Some ACT_DEC_NOTHING
           then emit (Send [(''pid'', JConst ''packet_unit_sscs_set''), (''unit_id'', JNum old_actor_id),
                            (''type'', JNum USSDT_UNQUEUE), (''value'', JNum IDENTITY_NUMBER_ZERO)]) s
           else s))"

definition action_selection_next_in_focus :: "int \<Rightarrow> 'a focus_client_scheme \<Rightarrow> 'a focus_client_scheme" where
  "action_selection_next_in_focus old_actor_id s =
     (case List.find (\<lambda>u. old_actor_id \<noteq> u_id u \<and> should_ask_server_for_actions s u) (focus_units s) of
        None \<Rightarrow> s
      | Some funit \<Rightarrow> ask_server_for_actions (Some funit) s)"

definition unit_focus_urgent :: "unit_rec \<Rightarrow> 'a focus_client_scheme \<Rightarrow> 'a focus_client_scheme" where
  "unit_focus_urgent punit s =
     (if u_activity punit = None then s else s\<lparr>fc_urgent := fc_urgent s @ [u_id punit]\<rparr>)"

definition action_decision_request :: "unit_rec option \<Rightarrow> 'a focus_client_scheme \<Rightarrow> 'a focus_client_scheme" where
  "action_decision_request actor_unit s =
     (case actor_unit of None \<Rightarrow> s
      | Some u \<Rightarrow>
          (if \<not> unit_is_in_focus s (u_id u) then unit_focus_urgent u s
           else if can_client_issue_orders s \<and> can_ask_server_for_actions s
           then ask_server_for_actions (Some u) s
           else s))"

subsection \<open>The queue of the action selection dialog\<close>

definition act_sel_queue_may_be_done :: "int \<Rightarrow> 'a focus_client_scheme \<Rightarrow> 'a focus_client_scheme" where
  "act_sel_queue_may_be_done actor_unit_id s =
     (if fc_more_input s then s
      else (let s1 = (if fc_restart s then s\<lparr>fc_restart := False\<rparr>
                      else action_selection_no_longer_in_progress actor_unit_id s)
            in if fc_did_not_decide s1 then s1\<lparr>fc_did_not_decide := False\<rparr>
               else action_selection_next_in_focus actor_unit_id
                      (action_decision_clear_want actor_unit_id s1)))"

definition act_sel_queue_done :: "int \<Rightarrow> 'a focus_client_scheme \<Rightarrow> 'a focus_client_scheme" where
  "act_sel_queue_done actor_unit_id s =
     (act_sel_queue_may_be_done actor_unit_id (s\<lparr>fc_more_input := False\<rparr>))
       \<lparr>fc_restart := False, fc_did_not_decide := False\<rparr>"

text \<open>
  \<open>action_selection_close\<close>.  The ids of the steal-technology and sabotage dialogs lack the
  \<open>#\<close>, so that jQuery takes them for element names and removes nothing.
\<close>

definition action_selection_close :: "'a focus_client_scheme \<Rightarrow> 'a focus_client_scheme" where
  "action_selection_close s =
     (let actor = fc_selecting s
      in act_sel_queue_done actor
           (s\<lparr>fc_dialogs := st_del actor (fc_dialogs s),
              fc_followups := filter (\<lambda>((k, a), _). a \<noteq> actor \<or> k = StealTech \<or> k = SabotageImpr)
                                (fc_followups s),
              fc_city_name_dialog := None\<rparr>))"

definition action_selection_actor_unit :: "'a focus_client_scheme \<Rightarrow> int" where
  "action_selection_actor_unit s = fc_selecting s"

definition action_selection_target_city :: "'a focus_client_scheme \<Rightarrow> int option" where
  "action_selection_target_city s =
     (if fc_selecting s = IDENTITY_NUMBER_ZERO then Some IDENTITY_NUMBER_ZERO
      else map_option ad_target_city (st_get (fc_dialogs s) (fc_selecting s)))"

definition action_selection_target_unit :: "'a focus_client_scheme \<Rightarrow> int option" where
  "action_selection_target_unit s =
     (if fc_selecting s = IDENTITY_NUMBER_ZERO then Some IDENTITY_NUMBER_ZERO
      else map_option ad_target_unit (st_get (fc_dialogs s) (fc_selecting s)))"

definition action_selection_target_tile :: "'a focus_client_scheme \<Rightarrow> int option" where
  "action_selection_target_tile s =
     (if fc_selecting s = IDENTITY_NUMBER_ZERO then Some TILE_INDEX_NONE
      else map_option ad_target_tile (st_get (fc_dialogs s) (fc_selecting s)))"

definition action_selection_target_extra :: "'a focus_client_scheme \<Rightarrow> int option" where
  "action_selection_target_extra s =
     (if fc_selecting s = IDENTITY_NUMBER_ZERO then Some EXTRA_NONE
      else map_option ad_target_extra (st_get (fc_dialogs s) (fc_selecting s)))"

subsection \<open>Setting the focus\<close>

definition tile_json :: "tile option \<Rightarrow> jval" where
  "tile_json t = (case t of None \<Rightarrow> JNull | Some t \<Rightarrow> JNum (t_index t))"

text \<open>The part shared by both setters; a unit on an unknown tile throws.\<close>

definition focus_on_unit :: "unit_rec \<Rightarrow> 'a focus_client_scheme \<Rightarrow> 'a focus_client_scheme option" where
  "focus_on_unit punit s =
     (let s1 = action_selection_next_in_focus IDENTITY_NUMBER_ZERO (s\<lparr>fc_focus := Focus [u_id punit]\<rparr>)
      in case index_to_tile (cl_tiles s1) (u_tile punit) of
           None \<Rightarrow> None
         | Some t \<Rightarrow>
             Some (emits [Ui ''update_unit_position'' [JNum (t_index t)],
                          Ui ''highlight_map_tile_selected'' [opt_json (t_x t), opt_json (t_y t)]] s1))"

definition auto_center_on_focus_unit :: "'a focus_client_scheme \<Rightarrow> 'a focus_client_scheme" where
  "auto_center_on_focus_unit s =
     (if ui_active_city s \<noteq> None then s
      else case focus_units s of
             [] \<Rightarrow> s
           | funit # _ \<Rightarrow>
               (case index_to_tile (cl_tiles s) (u_tile funit) of
                  None \<Rightarrow> s
                | Some t \<Rightarrow>
                    (if fc_auto_center_on_unit s
                     then emits [Ui ''center_tile_mapcanvas'' [JNum (t_index t)],
                                 Ui ''update_unit_position'' [JNum (t_index t)]] s
                     else s)))"

definition set_unit_focus :: "unit_rec option \<Rightarrow> 'a focus_client_scheme \<Rightarrow> 'a focus_client_scheme option" where
  "set_unit_focus punit s =
     map_option (emit (Ui ''update_active_units_dialog'' []))
       (case punit of
          None \<Rightarrow> Some (emit (Ui ''highlight_map_tile_selected'' [JNum (- 1), JNum (- 1)])
                         (s\<lparr>fc_focus := Focus []\<rparr>))
        | Some u \<Rightarrow> focus_on_unit u s)"

definition set_unit_focus_and_redraw :: "unit_rec option \<Rightarrow> 'a focus_client_scheme \<Rightarrow> 'a focus_client_scheme option" where
  "set_unit_focus_and_redraw punit s =
     map_option (\<lambda>s1. emit (Ui ''update_active_units_dialog'' []) (auto_center_on_focus_unit s1))
       (case punit of
          None \<Rightarrow> Some (emit (Ui ''webgl_clear_unit_focus'' []) (s\<lparr>fc_focus := Focus []\<rparr>))
        | Some u \<Rightarrow> focus_on_unit u s)"

subsection \<open>The next unit\<close>

definition playing_units :: "'a focus_client_scheme \<Rightarrow> unit_rec list" where
  "playing_units s =
     (case playing s of None \<Rightarrow> []
      | Some me \<Rightarrow> filter (\<lambda>u. u_owner u = p_playerno me) (st_vals (cl_units s)))"

definition focus_candidate_ok :: "bool \<Rightarrow> 'a focus_client_scheme \<Rightarrow> unit_rec \<Rightarrow> bool" where
  "focus_candidate_ok accept_current s u =
     ((\<not> unit_is_in_focus s (u_id u) \<or> accept_current)
      \<and> (case playing s of None \<Rightarrow> False | Some me \<Rightarrow> u_owner u = p_playerno me)
      \<and> ((u_activity u = Some ACTIVITY_IDLE \<and> u_done_moving u = Some False
           \<and> opt_test (\<lambda>m. m > 0) (u_movesleft u))
         \<or> should_ask_server_for_actions s u)
      \<and> u_ssa_controller u = Some SSA_NONE
      \<and> u_id u \<notin> set (fc_waiting s)
      \<and> \<not> u_transported u)"

text \<open>The first waiting unit that exists and has moves, and the list without it.\<close>

fun waiting_loop :: "'a focus_client_scheme \<Rightarrow> int list \<Rightarrow> int list \<Rightarrow> (unit_rec \<times> int list) option" where
  "waiting_loop s before [] = None"
| "waiting_loop s before (w # ws) =
     (case game_find_unit_by_number s w of
        None \<Rightarrow> waiting_loop s (before @ [w]) ws
      | Some u \<Rightarrow> (if opt_test (\<lambda>m. m > 0) (u_movesleft u) then Some (u, before @ ws)
                   else waiting_loop s (before @ [w]) ws))"

definition find_best_focus_candidate :: "(unit_rec list \<Rightarrow> unit_rec list) \<Rightarrow> bool
    \<Rightarrow> 'a focus_client_scheme \<Rightarrow> unit_rec option \<times> 'a focus_client_scheme" where
  "find_best_focus_candidate srt accept_current s =
     (if client_is_observer s then (None, s)
      else case List.find (focus_candidate_ok accept_current s) (srt (playing_units s)) of
             Some u \<Rightarrow> (Some u, s)
           | None \<Rightarrow>
               (case waiting_loop s [] (fc_waiting s) of
                  None \<Rightarrow> (None, s)
                | Some (u, ws) \<Rightarrow> (Some u, s\<lparr>fc_waiting := ws\<rparr>)))"

text \<open>
  The loop over the urgent queue: \<open>kept\<close> is the part passed so far.  A unit that has got new
  orders leaves the queue; a unit on the tile of the focus ends the search, the first other one
  is the fallback.  An id without a unit throws.
\<close>

definition has_new_orders :: "'a focus_client_scheme \<Rightarrow> unit_rec \<Rightarrow> bool" where
  "has_new_orders s u =
     ((u_activity u \<noteq> Some ACTIVITY_IDLE \<or> u_has_orders u = Some True)
      \<and> \<not> should_ask_server_for_actions s u)"

function urgent_loop :: "'a focus_client_scheme \<Rightarrow> int option \<Rightarrow> unit_rec option \<Rightarrow> int list \<Rightarrow> int list
    \<Rightarrow> (unit_rec option \<times> int list) option" where
  "urgent_loop s focus_tile candidate kept [] = Some (candidate, kept)"
| "urgent_loop s focus_tile candidate kept (q # qs) =
     (case st_get (cl_units s) q of
        None \<Rightarrow> None
      | Some u \<Rightarrow>
          (if has_new_orders s u
           then urgent_loop s focus_tile candidate (unit_list_without kept q) (unit_list_without qs q)
           else if focus_tile = None \<or> focus_tile = Some (u_tile u)
           then Some (Some u, kept @ q # qs)
           else urgent_loop s focus_tile (if candidate = None then Some u else candidate)
                  (kept @ [q]) qs))"
  by pat_completeness auto
termination
  by (relation "measure (\<lambda>(_, _, _, _, qs). length qs)")
    (auto simp: unit_list_without_def le_imp_less_Suc)

definition urgent_candidate :: "'a focus_client_scheme \<Rightarrow> (unit_rec option \<times> 'a focus_client_scheme) option" where
  "urgent_candidate s =
     (if fc_urgent s = [] then Some (None, s)
      else (let focus_tile = (case focus_units s of [] \<Rightarrow> None | u # _ \<Rightarrow> Some (u_tile u))
            in map_option (\<lambda>(candidate, queue).
                 (candidate, s\<lparr>fc_urgent := (case candidate of None \<Rightarrow> queue
                                             | Some u \<Rightarrow> unit_list_without queue (u_id u))\<rparr>))
               (urgent_loop s focus_tile None [] (fc_urgent s))))"

text \<open>The end of \<open>advance_unit_focus\<close> when there is no candidate.\<close>

definition no_focus_left :: "'a focus_client_scheme \<Rightarrow> 'a focus_client_scheme option" where
  "no_focus_left s =
     (let s1 = emits [Ui ''webgl_clear_unit_focus'' [], Ui ''update_active_units_dialog'' []]
                 (s\<lparr>fc_focus := Focus []\<rparr>)
      in map_option (\<lambda>s2.
           (let s3 = emit (Ui ''turn_done_button label'' [JStr ''Turn Done'']) s2
            in if fc_end_turn_shown s3 then s3
               else emit (Ui ''message_log.update'' [JStr ''All units have moved, click the Turn Done button to end your turn.''])
                      (s3\<lparr>fc_end_turn_shown := True\<rparr>)))
         (if cl_turn s1 \<le> 1 \<and> st_vals (cl_cities s1) \<noteq> []
          then (case playing s1 of
                  None \<Rightarrow> None
                | Some me \<Rightarrow>
                    (case List.find (\<lambda>c. c_owner c = p_playerno me) (st_vals (cl_cities s1)) of
                       None \<Rightarrow> Some s1
                     | Some c \<Rightarrow> Some (emit (Ui ''center_tile_mapcanvas''
                                   [tile_json (index_to_tile (cl_tiles s1) (c_tile c))]) s1)))
          else Some s1))"

definition advance_unit_focus :: "(unit_rec list \<Rightarrow> unit_rec list)
    \<Rightarrow> 'a focus_client_scheme \<Rightarrow> 'a focus_client_scheme option" where
  "advance_unit_focus srt s =
     (if client_is_observer s \<or> fc_nuke_active s then Some s
      else (let s1 = emit (Ui ''clear_goto_tiles'' []) (s\<lparr>fc_goto_active := False\<rparr>)
            in case urgent_candidate s1 of
                 None \<Rightarrow> None
               | Some (cand1, s2) \<Rightarrow>
                   (let (cand2, s3) = (if cand1 = None then find_best_focus_candidate srt False s2 else (cand1, s2));
                        (cand3, s4) = (if cand2 = None then find_best_focus_candidate srt True s3 else (cand2, s3))
                    in case cand3 of
                         Some u \<Rightarrow> set_unit_focus_and_redraw (Some u) s4
                       | None \<Rightarrow> no_focus_left s4)))"

definition focus_unit_busy :: "unit_rec \<Rightarrow> bool" where
  "focus_unit_busy u =
     (opt_test (\<lambda>m. m > 0) (u_movesleft u) \<and> u_done_moving u = Some False
      \<and> u_ssa_controller u = Some SSA_NONE \<and> u_activity u = Some ACTIVITY_IDLE)"

definition update_unit_focus :: "(unit_rec list \<Rightarrow> unit_rec list)
    \<Rightarrow> 'a focus_client_scheme \<Rightarrow> 'a focus_client_scheme option" where
  "update_unit_focus srt s =
     (if ui_active_city s \<noteq> None \<or> fc_nuke_active s then Some s
      else if C_S_RUNNING \<noteq> cl_client_state s then Some s
      else if \<not> can_ask_server_for_actions s \<and> \<not> length (get_units_in_focus s) < 1 then Some s
      else if list_ex focus_unit_busy (focus_units s) then Some s
      else advance_unit_focus srt s)"

subsection \<open>Removing a unit\<close>

definition control_unit_killed :: "(unit_rec list \<Rightarrow> unit_rec list) \<Rightarrow> int
    \<Rightarrow> 'a focus_client_scheme \<Rightarrow> 'a focus_client_scheme option" where
  "control_unit_killed srt uid s =
     (let s1 = s\<lparr>fc_urgent := unit_list_without (fc_urgent s) uid\<rparr>
      in if unit_is_in_focus s1 uid
         then map_option (emit (Ui ''update_active_units_dialog'' []))
                (if length (get_units_in_focus s1) = 1 then advance_unit_focus srt s1
                 else Some (s1\<lparr>fc_focus := Focus (unit_list_without (get_units_in_focus s1) uid)\<rparr>))
         else Some s1)"

definition client_remove_unit :: "(unit_rec list \<Rightarrow> unit_rec list) \<Rightarrow> int
    \<Rightarrow> 'a focus_client_scheme \<Rightarrow> 'a focus_client_scheme option" where
  "client_remove_unit srt uid s =
     (case control_unit_killed srt uid s of
        None \<Rightarrow> None
      | Some s1 \<Rightarrow>
          (let s2 = (if unit_is_in_focus s1 uid
                     then emit (Ui ''webgl_clear_unit_focus'' []) (s1\<lparr>fc_focus := Focus []\<rparr>)
                     else s1)
           in Some (s2\<lparr>cl_units := st_del uid (cl_units s2)\<rparr>)))"

end
