(* ===== verification/Unit_Packets.thy ===== *)
theory Unit_Packets
  imports Focus
begin

text \<open>
  The handlers of the unit packets (\<open>packhand.js\<close>): \<open>handle_unit_remove\<close>,
  \<open>handle_unit_info\<close>, \<open>handle_unit_short_info\<close> and their common part, and the decision whether
  a unit asks the player what to do.  A packet is a \<open>unit_rec\<close>; a field it lacks is \<open>None\<close>.
\<close>

definition auto_attack_actions :: "int list" where
  "auto_attack_actions =
     [ACTION_ATTACK, ACTION_SUICIDE_ATTACK, ACTION_NUKE_UNITS, ACTION_NUKE_CITY, ACTION_NUKE]"

definition action_decision_handle :: "unit_rec \<Rightarrow> 'a focus_client_scheme \<Rightarrow> 'a focus_client_scheme" where
  "action_decision_handle punit s =
     (if list_ex (\<lambda>a. utype_can_do_action (unit_type_of s punit) a \<and> fc_auto_attack s) auto_attack_actions
      then emit (Send (unit_get_actions_packet (u_id punit) IDENTITY_NUMBER_ZERO
                  (opt_json (u_ad_tile punit)) EXTRA_NONE REQEST_BACKGROUND_FAST_AUTO_ATTACK)) s
      else action_decision_request (Some punit) s)"

definition handle_unit_remove :: "(unit_rec list \<Rightarrow> unit_rec list) \<Rightarrow> int
    \<Rightarrow> 'a focus_client_scheme \<Rightarrow> 'a focus_client_scheme option" where
  "handle_unit_remove srt unit_id s =
     (case game_find_unit_by_number s unit_id of
        None \<Rightarrow> Some s
      | Some punit \<Rightarrow>
          (let s1 = (if fc_selecting s = u_id punit
                     then action_selection_next_in_focus (u_id punit) (action_selection_close s)
                     else s)
           in case client_remove_unit srt (u_id punit) (clear_tile_unit (Some punit) s1) of
                None \<Rightarrow> None
              | Some s2 \<Rightarrow>
                  Some (emit (Ui ''update_unit_position''
                          [tile_json (index_to_tile (cl_tiles s2) (u_tile punit))]) s2)))"

text \<open>\<open>$.extend(unit, packet)\<close>: the fields of the packet replace those of the unit.\<close>

definition extend_unit :: "unit_rec \<Rightarrow> unit_rec \<Rightarrow> unit_rec" where
  "extend_unit old pkt =
     pkt\<lparr>u_activity := override (u_activity old) (u_activity pkt),
         u_movesleft := override (u_movesleft old) (u_movesleft pkt),
         u_done_moving := override (u_done_moving old) (u_done_moving pkt),
         u_ssa_controller := override (u_ssa_controller old) (u_ssa_controller pkt),
         u_has_orders := override (u_has_orders old) (u_has_orders pkt),
         u_adw := override (u_adw old) (u_adw pkt),
         u_ad_tile := override (u_ad_tile old) (u_ad_tile pkt),
         u_homecity := override (u_homecity old) (u_homecity pkt),
         u_goto_tile := override (u_goto_tile old) (u_goto_tile pkt),
         u_anim_list := override (u_anim_list old) (u_anim_list pkt)\<rparr>"

text \<open>
  Store the packet's unit.  The outer \<open>None\<close> is the exception when the old unit was not found
  although the dictionary has it.
\<close>

definition store_unit_packet :: "unit_rec option \<Rightarrow> unit_rec
    \<Rightarrow> 'a focus_client_scheme \<Rightarrow> 'a focus_client_scheme option" where
  "store_unit_packet punit pkt s =
     (case st_get (cl_units s) (u_id pkt) of
        None \<Rightarrow>
          (let s1 = (if should_ask_server_for_actions s pkt then action_decision_handle pkt s else s)
           in Some (s1\<lparr>cl_units := st_put (u_id pkt) (pkt\<lparr>u_anim_list := Some [], u_facing := 6\<rparr>) (cl_units s1)\<rparr>))
      | Some cur \<Rightarrow>
          (case punit of
             None \<Rightarrow> None
           | Some old \<Rightarrow>
               (let s1 = (if (u_adw old \<noteq> u_adw pkt \<or> u_ad_tile old \<noteq> u_ad_tile pkt)
                             \<and> should_ask_server_for_actions s pkt
                          then action_decision_handle pkt s else s)
                in Some (s1\<lparr>cl_units := st_put (u_id pkt) (extend_unit (update_unit_anim_list cur pkt) pkt)
                                                (cl_units s1)\<rparr>))))"

definition focus_head :: "'a focus_client_scheme \<Rightarrow> int option" where
  "focus_head s = (case get_units_in_focus s of [] \<Rightarrow> None | u # _ \<Rightarrow> Some u)"

text \<open>The refresh when the packet is about the first unit in focus.\<close>

definition refresh_focus_head :: "(unit_rec list \<Rightarrow> unit_rec list) \<Rightarrow> unit_rec
    \<Rightarrow> 'a focus_client_scheme \<Rightarrow> 'a focus_client_scheme option" where
  "refresh_focus_head srt pkt s =
     (if focus_head s = Some (u_id pkt)
      then (let s1 = emits [Ui ''update_active_units_dialog'' [], Ui ''update_unit_order_commands'' []] s
            in if map_option u_done_moving (st_get (cl_units s1) (u_id pkt)) \<noteq> Some (u_done_moving pkt)
               then update_unit_focus srt s1 else Some s1)
      else Some s)"

text \<open>
  \<open>handle_unit_remove(packet_unit['id'])\<close> gets a number where it expects a packet, so it looks
  up \<open>undefined\<close>, finds no unit and returns: no step of the model.
\<close>

definition handle_unit_packet_common :: "(unit_rec list \<Rightarrow> unit_rec list) \<Rightarrow> unit_rec
    \<Rightarrow> 'a focus_client_scheme \<Rightarrow> 'a focus_client_scheme option" where
  "handle_unit_packet_common srt pkt s =
     (case player_find_unit_by_id s (unit_owner s pkt) (u_id pkt) of
        None \<Rightarrow> None
      | Some punit \<Rightarrow>
          (let s1 = clear_tile_unit punit s;
               old_tile = Option.bind punit (\<lambda>u. index_to_tile (cl_tiles s1) (u_tile u))
           in case store_unit_packet punit pkt s1 of
                None \<Rightarrow> None
              | Some s2 \<Rightarrow>
                  (case refresh_focus_head srt pkt (update_tile_unit (st_get (cl_units s2) (u_id pkt)) s2) of
                     None \<Rightarrow> None
                   | Some s3 \<Rightarrow>
                       Some (emits ((if punit = None then [] else [Ui ''update_unit_position'' [tile_json old_tile]])
                               @ [Ui ''update_unit_position'' [tile_json (index_to_tile (cl_tiles s3) (u_tile pkt))]])
                             s3))))"

definition handle_unit_info :: "(unit_rec list \<Rightarrow> unit_rec list) \<Rightarrow> unit_rec
    \<Rightarrow> 'a focus_client_scheme \<Rightarrow> 'a focus_client_scheme option" where
  "handle_unit_info srt pkt s = handle_unit_packet_common srt pkt s"

definition handle_unit_short_info :: "(unit_rec list \<Rightarrow> unit_rec list) \<Rightarrow> unit_rec
    \<Rightarrow> 'a focus_client_scheme \<Rightarrow> 'a focus_client_scheme option" where
  "handle_unit_short_info srt pkt s = handle_unit_packet_common srt pkt s"

text \<open>The explosions of a combat packet; the tile of an unknown unit throws.\<close>

definition handle_unit_combat_info :: "int \<Rightarrow> int \<Rightarrow> int \<Rightarrow> int
    \<Rightarrow> 'a focus_client_scheme \<Rightarrow> 'a focus_client_scheme option" where
  "handle_unit_combat_info attacker_id defender_id attacker_hp defender_hp s =
     (let explode = (\<lambda>uid hp s. if hp = 0
            then map_option (\<lambda>u. emit (Ui ''animate_explosion_on_tile'' [JNum (u_tile u), JNum 0]) s)
                   (st_get (cl_units s) uid)
            else Some s)
      in Option.bind (explode attacker_id attacker_hp s) (explode defender_id defender_hp))"

end
