(* ===== verification/Unit_Facts.thy ===== *)
theory Unit_Facts
  imports Unit_Packets Samples
begin

text \<open>
  Facts about the unit handlers: the index of units by tile stays exact under every unit packet,
  a removed unit is in no list any more, what a packet about a known unit can and cannot do, and
  the choice made among the urgent units.
\<close>

text \<open>A client with an idle user interface, for the concrete instances.\<close>

definition focus0 :: "'a \<Rightarrow> 'a focus_client_scheme" where
  "focus0 m = client0 \<lparr>ui_active_city = None, ui_production_selection = [], ui_worklist_selection = [],
     fc_focus = Focus [], fc_urgent = [], fc_waiting = [], fc_selecting = 0, fc_more_input = False,
     fc_restart = False, fc_did_not_decide = False, fc_dialogs = [], fc_followups = [], fc_city_name_dialog = None,
     fc_tech_steal_allow_holes = False, fc_num_extra_types = 0, fc_popup_actor_arrival = False,
     fc_auto_attack = False, fc_observing = False, fc_nuke_active = False, fc_auto_center_on_unit = False,
     fc_goto_active = False, fc_paradrop_active = False, fc_airlift_active = False, fc_tgt_sel_active = False,
     fc_goto_last_order = 0, fc_goto_last_action = 0, fc_goto_paths = [], fc_goto_turns = None, fc_intro_click = False, fc_end_turn_shown = False,
     fc_movesleft_warned = False, \<dots> = m\<rparr>"

lemma focus0_simps [simp]:
  "cl_map (focus0 m) = \<lparr>m_topology_id = 0, m_wrap_id = 1, m_xsize = 4, m_ysize = 3\<rparr>"
  "cl_tiles (focus0 m) = []" "cl_units (focus0 m) = []" "cl_cities (focus0 m) = []"
  "cl_players (focus0 m) = []" "cl_playing (focus0 m) = None" "cl_unit_types (focus0 m) = []"
  "cl_out (focus0 m) = []" "cl_observer (focus0 m) = False" "cl_client_state (focus0 m) = 0"
  "cl_actions (focus0 m) = []" "cl_improvements (focus0 m) = []" "cl_turn (focus0 m) = 0"
  "ui_active_city (focus0 m) = None" "fc_focus (focus0 m) = Focus []" "fc_urgent (focus0 m) = []"
  "fc_waiting (focus0 m) = []" "fc_selecting (focus0 m) = 0" "fc_more_input (focus0 m) = False"
  "fc_restart (focus0 m) = False" "fc_did_not_decide (focus0 m) = False" "fc_dialogs (focus0 m) = []"
  "fc_followups (focus0 m) = []" "fc_city_name_dialog (focus0 m) = None"
  "fc_popup_actor_arrival (focus0 m) = False" "fc_auto_attack (focus0 m) = False"
  "fc_observing (focus0 m) = False" "fc_nuke_active (focus0 m) = False" "fc_goto_active (focus0 m) = False"
  "fc_goto_paths (focus0 m) = []" "fc_end_turn_shown (focus0 m) = False"
  by (simp_all add: focus0_def client0_def)

lemma sample_objects [simp]:
  "u_id unit0 = 0" "u_tile unit0 = 0" "u_owner unit0 = 0" "u_adw unit0 = None" "u_activity unit0 = None"
  "u_transported unit0 = False" "u_movesleft unit0 = None" "u_done_moving unit0 = None"
  "u_ssa_controller unit0 = None" "u_has_orders unit0 = None" "u_ad_tile unit0 = None"
  "u_anim_list unit0 = None" "u_type unit0 = 0" "t_units tile0 = []" "t_index tile0 = 0" "t_x tile0 = None" "t_y tile0 = None"
  "p_playerno player0 = 0"
  by (simp_all add: unit0_def tile0_def player0_def)

subsection \<open>What the focus operations leave alone\<close>

lemma tables_unchanged [simp, frame_simps]:
  "cl_units (action_selection_no_longer_in_progress a s) = cl_units s"
  "cl_tiles (action_selection_no_longer_in_progress a s) = cl_tiles s"
  "fc_focus (action_selection_no_longer_in_progress a s) = fc_focus s"
  "fc_urgent (action_selection_no_longer_in_progress a s) = fc_urgent s"
  "cl_units (action_decision_clear_want a s) = cl_units s"
  "cl_tiles (action_decision_clear_want a s) = cl_tiles s"
  "cl_units (ask_server_for_actions p s) = cl_units s"
  "cl_tiles (ask_server_for_actions p s) = cl_tiles s"
  "cl_units (unit_focus_urgent u s) = cl_units s"
  "cl_tiles (unit_focus_urgent u s) = cl_tiles s"
  by (auto simp: action_selection_no_longer_in_progress_def action_decision_clear_want_def
      ask_server_for_actions_def unit_focus_urgent_def Let_def split: option.split)

lemma emit_focus_fields [simp, frame_simps]:
  "fc_focus (emit e s) = fc_focus s" "fc_urgent (emit e s) = fc_urgent s"
  "fc_waiting (emit e s) = fc_waiting s" "fc_selecting (emit e s) = fc_selecting s"
  "fc_observing (emit e s) = fc_observing s" "fc_popup_actor_arrival (emit e s) = fc_popup_actor_arrival s"
  "fc_more_input (emit e s) = fc_more_input s" "fc_restart (emit e s) = fc_restart s"
  "fc_did_not_decide (emit e s) = fc_did_not_decide s" "fc_dialogs (emit e s) = fc_dialogs s"
  "fc_auto_attack (emit e s) = fc_auto_attack s" "fc_nuke_active (emit e s) = fc_nuke_active s"
  "fc_goto_active (emit e s) = fc_goto_active s" "ui_active_city (emit e s) = ui_active_city s"
  "fc_auto_center_on_unit (emit e s) = fc_auto_center_on_unit s"
  "fc_end_turn_shown (emit e s) = fc_end_turn_shown s"
  by (simp_all add: emit_def)

lemma emits_focus_fields [simp, frame_simps]:
  "fc_focus (emits e s) = fc_focus s" "fc_urgent (emits e s) = fc_urgent s"
  "fc_waiting (emits e s) = fc_waiting s" "fc_selecting (emits e s) = fc_selecting s"
  "fc_observing (emits e s) = fc_observing s" "fc_popup_actor_arrival (emits e s) = fc_popup_actor_arrival s"
  "fc_more_input (emits e s) = fc_more_input s" "fc_restart (emits e s) = fc_restart s"
  "fc_did_not_decide (emits e s) = fc_did_not_decide s" "fc_dialogs (emits e s) = fc_dialogs s"
  "fc_auto_attack (emits e s) = fc_auto_attack s" "fc_nuke_active (emits e s) = fc_nuke_active s"
  "fc_goto_active (emits e s) = fc_goto_active s" "ui_active_city (emits e s) = ui_active_city s"
  "fc_auto_center_on_unit (emits e s) = fc_auto_center_on_unit s"
  "fc_end_turn_shown (emits e s) = fc_end_turn_shown s"
  by (simp_all add: emits_def)

lemma ask_fields [simp, frame_simps]:
  "fc_focus (ask_server_for_actions p s) = fc_focus s"
  "fc_urgent (ask_server_for_actions p s) = fc_urgent s"
  by (auto simp: ask_server_for_actions_def Let_def split: option.split)

lemma clear_want_fields [simp, frame_simps]:
  "fc_focus (action_decision_clear_want a s) = fc_focus s"
  "fc_urgent (action_decision_clear_want a s) = fc_urgent s"
  "fc_selecting (action_decision_clear_want a s) = fc_selecting s"
  "fc_observing (action_decision_clear_want a s) = fc_observing s"
  "fc_popup_actor_arrival (action_decision_clear_want a s) = fc_popup_actor_arrival s"
  by (auto simp: action_decision_clear_want_def split: option.split)

lemma next_in_focus_fields [simp, frame_simps]:
  "cl_units (action_selection_next_in_focus a s) = cl_units s"
  "cl_tiles (action_selection_next_in_focus a s) = cl_tiles s"
  "fc_focus (action_selection_next_in_focus a s) = fc_focus s"
  "fc_urgent (action_selection_next_in_focus a s) = fc_urgent s"
  by (auto simp: action_selection_next_in_focus_def split: option.split)

lemma decision_request_fields [simp, frame_simps]:
  "cl_units (action_decision_request p s) = cl_units s"
  "cl_tiles (action_decision_request p s) = cl_tiles s"
  "fc_focus (action_decision_request p s) = fc_focus s"
  by (auto simp: action_decision_request_def unit_focus_urgent_def split: option.split)

lemma decision_handle_fields [simp, frame_simps]:
  "cl_units (action_decision_handle p s) = cl_units s"
  "cl_tiles (action_decision_handle p s) = cl_tiles s"
  "fc_focus (action_decision_handle p s) = fc_focus s"
  by (simp_all add: action_decision_handle_def)

lemma may_be_done_fields [simp, frame_simps]:
  "cl_units (act_sel_queue_may_be_done a s) = cl_units s"
  "cl_tiles (act_sel_queue_may_be_done a s) = cl_tiles s"
  "fc_focus (act_sel_queue_may_be_done a s) = fc_focus s"
  "fc_urgent (act_sel_queue_may_be_done a s) = fc_urgent s"
  by (simp_all add: act_sel_queue_may_be_done_def Let_def)

lemma selection_close_fields [simp, frame_simps]:
  "cl_units (act_sel_queue_done a s) = cl_units s"
  "cl_tiles (act_sel_queue_done a s) = cl_tiles s"
  "fc_focus (act_sel_queue_done a s) = fc_focus s"
  "fc_urgent (act_sel_queue_done a s) = fc_urgent s"
  "cl_units (action_selection_close s) = cl_units s"
  "cl_tiles (action_selection_close s) = cl_tiles s"
  "fc_focus (action_selection_close s) = fc_focus s"
  "fc_urgent (action_selection_close s) = fc_urgent s"
  by (simp_all add: act_sel_queue_done_def action_selection_close_def Let_def)

lemma get_units_in_focus_cong:
  "fc_focus s' = fc_focus s \<Longrightarrow> cl_tiles s' = cl_tiles s \<Longrightarrow> get_units_in_focus s' = get_units_in_focus s"
  by (simp add: get_units_in_focus_def split: focus.split)

lemma focus_units_cong:
  "fc_focus s' = fc_focus s \<Longrightarrow> cl_tiles s' = cl_tiles s \<Longrightarrow> cl_units s' = cl_units s
     \<Longrightarrow> focus_units s' = focus_units s"
  by (simp add: focus_units_def get_units_in_focus_def split: focus.split)

text \<open>The operations that can throw: when they return, the tables are the old ones.\<close>

lemma focus_on_unit_frame:
  "focus_on_unit u s = Some s' \<Longrightarrow>
     cl_units s' = cl_units s \<and> cl_tiles s' = cl_tiles s \<and> fc_focus s' = Focus [u_id u] \<and> fc_urgent s' = fc_urgent s"
  by (auto simp: focus_on_unit_def Let_def split: option.splits)

lemma auto_center_frame [simp, frame_simps]:
  "cl_units (auto_center_on_focus_unit s) = cl_units s"
  "cl_tiles (auto_center_on_focus_unit s) = cl_tiles s"
  "fc_focus (auto_center_on_focus_unit s) = fc_focus s"
  "fc_urgent (auto_center_on_focus_unit s) = fc_urgent s"
  by (auto simp: auto_center_on_focus_unit_def split: option.split list.split)

lemma set_focus_redraw_frame:
  "set_unit_focus_and_redraw (Some u) s = Some s' \<Longrightarrow>
     cl_units s' = cl_units s \<and> cl_tiles s' = cl_tiles s \<and> fc_focus s' = Focus [u_id u] \<and> fc_urgent s' = fc_urgent s"
  by (auto simp: set_unit_focus_and_redraw_def dest!: focus_on_unit_frame)

lemma no_focus_left_frame:
  "no_focus_left s = Some s' \<Longrightarrow>
     cl_units s' = cl_units s \<and> cl_tiles s' = cl_tiles s \<and> fc_focus s' = Focus [] \<and> fc_urgent s' = fc_urgent s"
  by (auto simp: no_focus_left_def Let_def split: if_splits option.splits)

lemma best_candidate_frame:
  "find_best_focus_candidate srt b s = (c, s') \<Longrightarrow>
     cl_units s' = cl_units s \<and> cl_tiles s' = cl_tiles s \<and> fc_focus s' = fc_focus s \<and> fc_urgent s' = fc_urgent s"
  by (auto simp: find_best_focus_candidate_def split: if_splits option.splits)

lemma urgent_loop_subset:
  "urgent_loop s ft c kept qs = Some (c', queue) \<Longrightarrow> set queue \<subseteq> set kept \<union> set qs"
  by (induction s ft c kept qs arbitrary: c' queue rule: urgent_loop.induct)
    (auto simp: unit_list_without_def split: option.splits if_splits, blast+)

lemma urgent_candidate_frame:
  "urgent_candidate s = Some (c, s') \<Longrightarrow>
     cl_units s' = cl_units s \<and> cl_tiles s' = cl_tiles s \<and> fc_focus s' = fc_focus s
     \<and> set (fc_urgent s') \<subseteq> set (fc_urgent s)"
  by (auto simp: urgent_candidate_def Let_def unit_list_without_def split: if_splits option.splits
      dest!: urgent_loop_subset) blast

lemma advance_frame:
  assumes "advance_unit_focus srt s = Some s'"
  shows "cl_units s' = cl_units s \<and> cl_tiles s' = cl_tiles s \<and> set (fc_urgent s') \<subseteq> set (fc_urgent s)"
proof (cases "client_is_observer s \<or> fc_nuke_active s")
  case True
  then show ?thesis using assms by (simp add: advance_unit_focus_def)
next
  case False
  let ?s1 = "emit (Ui ''clear_goto_tiles'' []) (s\<lparr>fc_goto_active := False\<rparr>)"
  obtain c1 s2 where u: "urgent_candidate ?s1 = Some (c1, s2)"
    using False assms by (auto simp: advance_unit_focus_def Let_def split: option.splits)
  obtain c2 s3 where b1: "(if c1 = None then find_best_focus_candidate srt False s2 else (c1, s2)) = (c2, s3)"
    by (cases "if c1 = None then find_best_focus_candidate srt False s2 else (c1, s2)")
  obtain c3 s4 where b2: "(if c2 = None then find_best_focus_candidate srt True s3 else (c2, s3)) = (c3, s4)"
    by (cases "if c2 = None then find_best_focus_candidate srt True s3 else (c2, s3)")
  have r: "(case c3 of Some u \<Rightarrow> set_unit_focus_and_redraw (Some u) s4 | None \<Rightarrow> no_focus_left s4) = Some s'"
    using False assms u b1 b2 by (simp add: advance_unit_focus_def Let_def)
  have f2: "cl_units s2 = cl_units s \<and> cl_tiles s2 = cl_tiles s \<and> set (fc_urgent s2) \<subseteq> set (fc_urgent s)"
    using urgent_candidate_frame [OF u] by simp
  have f3: "cl_units s3 = cl_units s2 \<and> cl_tiles s3 = cl_tiles s2 \<and> fc_urgent s3 = fc_urgent s2"
    using b1 best_candidate_frame [of srt False s2 c2 s3] by (auto split: if_splits)
  have f4: "cl_units s4 = cl_units s3 \<and> cl_tiles s4 = cl_tiles s3 \<and> fc_urgent s4 = fc_urgent s3"
    using b2 best_candidate_frame [of srt True s3 c3 s4] by (auto split: if_splits)
  have "cl_units s' = cl_units s4 \<and> cl_tiles s' = cl_tiles s4 \<and> fc_urgent s' = fc_urgent s4"
    using r set_focus_redraw_frame [of _ s4 s'] no_focus_left_frame [of s4 s'] by (auto split: option.splits)
  with f2 f3 f4 show ?thesis by simp
qed

lemma update_focus_frame:
  "update_unit_focus srt s = Some s' \<Longrightarrow>
     cl_units s' = cl_units s \<and> cl_tiles s' = cl_tiles s \<and> set (fc_urgent s') \<subseteq> set (fc_urgent s)"
  by (auto simp: update_unit_focus_def split: if_splits dest: advance_frame)

lemma control_unit_killed_frame:
  assumes "control_unit_killed srt uid s = Some s'"
  shows "cl_units s' = cl_units s \<and> cl_tiles s' = cl_tiles s \<and> uid \<notin> set (fc_urgent s')"
proof -
  let ?s1 = "s\<lparr>fc_urgent := unit_list_without (fc_urgent s) uid\<rparr>"
  have u: "uid \<notin> set (fc_urgent ?s1)" by (simp add: unit_list_without_def)
  show ?thesis
    using assms u advance_frame [of srt ?s1]
    by (auto simp: control_unit_killed_def Let_def split: if_splits)
qed

lemma client_remove_frame:
  assumes "client_remove_unit srt uid s = Some s'"
  shows "cl_units s' = st_del uid (cl_units s)" and "cl_tiles s' = cl_tiles s"
    and "uid \<notin> set (get_units_in_focus s')" and "uid \<notin> set (fc_urgent s')"
proof -
  obtain s1 where k: "control_unit_killed srt uid s = Some s1"
    using assms by (auto simp: client_remove_unit_def split: option.splits)
  let ?s2 = "if unit_is_in_focus s1 uid
             then emit (Ui ''webgl_clear_unit_focus'' []) (s1\<lparr>fc_focus := Focus []\<rparr>) else s1"
  have s': "s' = ?s2\<lparr>cl_units := st_del uid (cl_units ?s2)\<rparr>"
    using assms k by (simp add: client_remove_unit_def Let_def)
  note f = control_unit_killed_frame [OF k]
  show "cl_units s' = st_del uid (cl_units s)" "cl_tiles s' = cl_tiles s" "uid \<notin> set (fc_urgent s')"
    using f by (auto simp: s')
  show "uid \<notin> set (get_units_in_focus s')"
    by (auto simp: s' unit_is_in_focus_def get_units_in_focus_def split: focus.splits option.splits)
qed

subsection \<open>The units of a tile\<close>

text \<open>
  Each unit is stored under its id, and the \<open>units\<close> of a tile are exactly the units whose
  \<open>tile\<close> is that tile, each once.
\<close>

definition units_by_tile_ok :: "unit_rec store \<Rightarrow> tile store \<Rightarrow> bool" where
  "units_by_tile_ok us ts =
     ((\<forall>k u. st_get us k = Some u \<longrightarrow> u_id u = k)
      \<and> (\<forall>t ptile. st_get ts t = Some ptile \<longrightarrow>
           distinct (t_units ptile)
           \<and> (\<forall>k. k \<in> set (t_units ptile) \<longleftrightarrow> (\<exists>u. st_get us k = Some u \<and> u_tile u = t))))"

lemma clear_tile_unit_tiles:
  "st_get (cl_tiles (clear_tile_unit (Some u) s)) t =
     (if t = u_tile u then map_option (\<lambda>p. p\<lparr>t_units := remove1 (u_id u) (t_units p)\<rparr>) (st_get (cl_tiles s) t)
      else st_get (cl_tiles s) t)"
  by (auto simp: clear_tile_unit_def index_to_tile_def set_tile_units_def store_simps remove1_idem
      split: option.split)

lemma update_tile_unit_tiles:
  "st_get (cl_tiles (update_tile_unit (Some u) s)) t =
     (if t = u_tile u
      then map_option (\<lambda>p. if u_id u \<in> set (t_units p) then p else p\<lparr>t_units := t_units p @ [u_id u]\<rparr>)
             (st_get (cl_tiles s) t)
      else st_get (cl_tiles s) t)"
  by (auto simp: update_tile_unit_def index_to_tile_def set_tile_units_def store_simps split: option.split)

lemma tile_unit_fields [simp, frame_simps]:
  "cl_units (clear_tile_unit p s) = cl_units s" "cl_units (update_tile_unit p s) = cl_units s"
  "cl_players (clear_tile_unit p s) = cl_players s"
  by (auto simp: clear_tile_unit_def update_tile_unit_def set_tile_units_def split: option.split)

lemma units_by_tile_ok_clear:
  assumes ok: "units_by_tile_ok (cl_units s) (cl_tiles s)" and u: "st_get (cl_units s) k = Some u"
  shows "units_by_tile_ok (st_del k (cl_units s)) (cl_tiles (clear_tile_unit (Some u) s))"
proof -
  have k: "u_id u = k" using ok u by (auto simp: units_by_tile_ok_def)
  show ?thesis
    using ok u by (auto simp: units_by_tile_ok_def js.get_del clear_tile_unit_tiles k split: if_splits)
qed

lemma units_by_tile_ok_unknown:
  "units_by_tile_ok us ts \<Longrightarrow> st_get us k = None \<Longrightarrow> units_by_tile_ok (st_del k us) ts"
  by (fastforce simp: units_by_tile_ok_def js.get_del)

lemma units_by_tile_ok_update:
  assumes ok: "units_by_tile_ok (st_del k us) (cl_tiles s)" and k: "u_id u = k"
  shows "units_by_tile_ok (st_put k u us) (cl_tiles (update_tile_unit (Some u) s))"
proof -
  have ids: "\<And>j v. st_get us j = Some v \<Longrightarrow> j \<noteq> k \<Longrightarrow> u_id v = j"
    using ok by (auto simp: units_by_tile_ok_def js.get_del)
  have old: "distinct (t_units p)" "k \<notin> set (t_units p)"
      "\<And>j. j \<noteq> k \<Longrightarrow> j \<in> set (t_units p) \<longleftrightarrow> (\<exists>v. st_get us j = Some v \<and> u_tile v = t)"
    if "st_get (cl_tiles s) t = Some p" for t p
    using ok that by (auto simp: units_by_tile_ok_def js.get_del)
  show ?thesis
    unfolding units_by_tile_ok_def
  proof (intro conjI allI impI)
    fix j v assume "st_get (st_put k u us) j = Some v"
    then show "u_id v = j" using k ids by (auto simp: js.get_put split: if_splits)
  next
    fix t p assume t: "st_get (cl_tiles (update_tile_unit (Some u) s)) t = Some p"
    then obtain z where z: "st_get (cl_tiles s) t = Some z"
      by (auto simp: update_tile_unit_tiles split: if_splits)
    have p: "t_units p = t_units z @ (if t = u_tile u then [k] else [])"
      using t z old(2) [OF z] by (auto simp: update_tile_unit_tiles k split: if_splits)
    show "distinct (t_units p)" using old(1,2) [OF z] p by simp
    fix j
    show "j \<in> set (t_units p) \<longleftrightarrow> (\<exists>v. st_get (st_put k u us) j = Some v \<and> u_tile v = t)"
      using old(2,3) [OF z] p by (cases "j = k") (auto simp: js.get_put)
  qed
qed

lemma extend_unit_fixed [simp]:
  "u_id (extend_unit old pkt) = u_id pkt" "u_tile (extend_unit old pkt) = u_tile pkt"
  "u_owner (extend_unit old pkt) = u_owner pkt" "u_type (extend_unit old pkt) = u_type pkt"
  by (simp_all add: extend_unit_def)

lemma store_unit_packet_frame:
  assumes "store_unit_packet punit pkt s = Some s'"
  shows "cl_tiles s' = cl_tiles s"
    and "\<exists>u. u_id u = u_id pkt \<and> u_tile u = u_tile pkt \<and> cl_units s' = st_put (u_id pkt) u (cl_units s)"
proof -
  have "cl_tiles s' = cl_tiles s \<and>
      (\<exists>u. u_id u = u_id pkt \<and> u_tile u = u_tile pkt \<and> cl_units s' = st_put (u_id pkt) u (cl_units s))"
  proof (cases "st_get (cl_units s) (u_id pkt)")
    case None
    then show ?thesis using assms
      by (auto simp: store_unit_packet_def Let_def intro!: exI [where x = "pkt\<lparr>u_anim_list := Some [], u_facing := 6\<rparr>"])
  next
    case (Some cur)
    with assms show ?thesis
      by (auto simp: store_unit_packet_def Let_def split: option.splits
          intro!: exI [where x = "extend_unit (update_unit_anim_list cur pkt) pkt"])
  qed
  then show "cl_tiles s' = cl_tiles s"
    and "\<exists>u. u_id u = u_id pkt \<and> u_tile u = u_tile pkt \<and> cl_units s' = st_put (u_id pkt) u (cl_units s)"
    by auto
qed

lemma refresh_focus_frame:
  "refresh_focus_head srt pkt s = Some s' \<Longrightarrow>
     cl_units s' = cl_units s \<and> cl_tiles s' = cl_tiles s"
  by (auto simp: refresh_focus_head_def Let_def split: if_splits dest: update_focus_frame)

lemma unit_packet_keeps_index:
  assumes h: "handle_unit_packet_common srt pkt s = Some s'"
    and ok: "units_by_tile_ok (cl_units s) (cl_tiles s)"
  shows "units_by_tile_ok (cl_units s') (cl_tiles s')"
proof -
  obtain punit where p: "player_find_unit_by_id s (unit_owner s pkt) (u_id pkt) = Some punit"
    using h by (auto simp: handle_unit_packet_common_def split: option.splits)
  have pu: "punit = st_get (cl_units s) (u_id pkt)"
    using p by (auto simp: player_find_unit_by_id_def idex_lookup_unit_def split: option.splits if_splits)
  let ?s1 = "clear_tile_unit punit s"
  obtain s2 where s2: "store_unit_packet punit pkt ?s1 = Some s2"
    using h p by (auto simp: handle_unit_packet_common_def Let_def split: option.splits)
  let ?s3 = "update_tile_unit (st_get (cl_units s2) (u_id pkt)) s2"
  obtain s4 where s4: "refresh_focus_head srt pkt ?s3 = Some s4"
    using h p s2 by (auto simp: handle_unit_packet_common_def Let_def split: option.splits)
  have s': "cl_units s' = cl_units s4" "cl_tiles s' = cl_tiles s4"
    using h p s2 s4 by (auto simp: handle_unit_packet_common_def Let_def)
  have i1: "units_by_tile_ok (st_del (u_id pkt) (cl_units s)) (cl_tiles ?s1)"
    using ok by (cases punit)
      (auto simp: pu [symmetric] clear_tile_unit_def [where punit = None] intro: units_by_tile_ok_unknown units_by_tile_ok_clear)
  obtain u where u: "u_id u = u_id pkt" "cl_units s2 = st_put (u_id pkt) u (cl_units s)"
    using store_unit_packet_frame(2) [OF s2] by auto
  have "units_by_tile_ok (cl_units s2) (cl_tiles ?s3)"
    using units_by_tile_ok_update [of "u_id pkt" "cl_units s" s2 u] i1 u
      store_unit_packet_frame(1) [OF s2] by simp
  with refresh_focus_frame [OF s4] s' show ?thesis by simp
qed

lemma handle_unit_remove_known:
  assumes h: "handle_unit_remove srt k s = Some s'" and ok: "units_by_tile_ok (cl_units s) (cl_tiles s)"
    and u: "st_get (cl_units s) k = Some u"
  shows "cl_units s' = st_del k (cl_units s)"
    and "cl_tiles s' = cl_tiles (clear_tile_unit (Some u) s)"
    and "k \<notin> set (get_units_in_focus s')" and "k \<notin> set (fc_urgent s')"
proof -
  have k: "u_id u = k" using ok u by (auto simp: units_by_tile_ok_def)
  let ?s1 = "if fc_selecting s = k then action_selection_next_in_focus k (action_selection_close s) else s"
  obtain s2 where s2: "client_remove_unit srt k (clear_tile_unit (Some u) ?s1) = Some s2"
    using h u k by (auto simp: handle_unit_remove_def game_find_unit_by_number_def Let_def split: option.splits)
  have s': "s' = emit (Ui ''update_unit_position'' [tile_json (index_to_tile (cl_tiles s2) (u_tile u))]) s2"
    using h u k s2 by (simp add: handle_unit_remove_def game_find_unit_by_number_def Let_def cong: if_cong)
  have t: "cl_tiles (clear_tile_unit (Some u) ?s1) = cl_tiles (clear_tile_unit (Some u) s)"
    by (simp add: clear_tile_unit_def set_tile_units_def split: option.split)
  note f = client_remove_frame [OF s2]
  show "cl_units s' = st_del k (cl_units s)" using f(1) by (simp add: s')
  show "cl_tiles s' = cl_tiles (clear_tile_unit (Some u) s)" using f(2) t by (simp add: s')
  have "get_units_in_focus s' = get_units_in_focus s2"
    by (rule get_units_in_focus_cong) (simp_all add: s')
  then show "k \<notin> set (get_units_in_focus s')" using f(3) by simp
  show "k \<notin> set (fc_urgent s')" using f(4) by (simp add: s')
qed

lemma unit_remove_keeps_index:
  assumes h: "handle_unit_remove srt k s = Some s'" and ok: "units_by_tile_ok (cl_units s) (cl_tiles s)"
  shows "units_by_tile_ok (cl_units s') (cl_tiles s')"
proof (cases "st_get (cl_units s) k")
  case None
  then show ?thesis using h ok by (simp add: handle_unit_remove_def game_find_unit_by_number_def)
next
  case (Some u)
  show ?thesis
    using handle_unit_remove_known(1,2) [OF h ok Some] units_by_tile_ok_clear [OF ok Some] by simp
qed

text \<open>A sequence of unit packets; the client stops at the first one that throws.\<close>

datatype unit_msg = UnitInfo unit_rec | UnitShortInfo unit_rec | UnitRemove int

fun unit_msg_step :: "(unit_rec list \<Rightarrow> unit_rec list) \<Rightarrow> unit_msg
    \<Rightarrow> 'a focus_client_scheme \<Rightarrow> 'a focus_client_scheme option" where
  "unit_msg_step srt (UnitInfo p) s = handle_unit_info srt p s"
| "unit_msg_step srt (UnitShortInfo p) s = handle_unit_short_info srt p s"
| "unit_msg_step srt (UnitRemove k) s = handle_unit_remove srt k s"

fun unit_msgs :: "(unit_rec list \<Rightarrow> unit_rec list) \<Rightarrow> unit_msg list
    \<Rightarrow> 'a focus_client_scheme \<Rightarrow> 'a focus_client_scheme option" where
  "unit_msgs srt [] s = Some s"
| "unit_msgs srt (m # ms) s = Option.bind (unit_msg_step srt m s) (unit_msgs srt ms)"

lemma unit_msg_step_keeps_index:
  "unit_msg_step srt m s = Some s' \<Longrightarrow> units_by_tile_ok (cl_units s) (cl_tiles s)
     \<Longrightarrow> units_by_tile_ok (cl_units s') (cl_tiles s')"
  by (cases m) (auto simp: handle_unit_info_def handle_unit_short_info_def
      dest: unit_packet_keeps_index unit_remove_keeps_index)

lemma unit_msgs_keep_index:
  "unit_msgs srt ms s = Some s' \<Longrightarrow> units_by_tile_ok (cl_units s) (cl_tiles s)
     \<Longrightarrow> units_by_tile_ok (cl_units s') (cl_tiles s')"
proof (induction srt ms s rule: unit_msgs.induct)
  case (2 srt m ms s)
  then show ?case by (auto simp: bind_eq_Some_conv dest: unit_msg_step_keeps_index)
qed simp

subsection \<open>The urgent queue\<close>

text \<open>Every unit of the urgent queue exists, so that the loop over the queue does not throw.\<close>

definition urgent_known :: "'a focus_client_scheme \<Rightarrow> bool" where
  "urgent_known s = (\<forall>q \<in> set (fc_urgent s). st_get (cl_units s) q \<noteq> None)"

lemma tile_unit_urgent [simp, frame_simps]:
  "fc_urgent (clear_tile_unit p s) = fc_urgent s" "fc_urgent (update_tile_unit p s) = fc_urgent s"
  "fc_focus (clear_tile_unit p s) = fc_focus s" "fc_focus (update_tile_unit p s) = fc_focus s"
  by (auto simp: clear_tile_unit_def update_tile_unit_def set_tile_units_def split: option.split)

lemma decision_handle_urgent:
  "set (fc_urgent (action_decision_handle p s)) \<subseteq> insert (u_id p) (set (fc_urgent s))"
  by (auto simp: action_decision_handle_def action_decision_request_def unit_focus_urgent_def)

lemma store_unit_packet_urgent:
  assumes h: "store_unit_packet punit pkt s = Some s'" and k: "urgent_known s"
  shows "urgent_known s'"
proof -
  have q: "set (fc_urgent s') \<subseteq> insert (u_id pkt) (set (fc_urgent s))"
    using h decision_handle_urgent [of pkt s]
    by (auto simp: store_unit_packet_def Let_def split: option.splits if_splits)
  obtain u where "cl_units s' = st_put (u_id pkt) u (cl_units s)"
    using store_unit_packet_frame(2) [OF h] by auto
  then show ?thesis using q k by (auto simp: urgent_known_def js.get_put)
qed

lemma refresh_focus_urgent:
  "refresh_focus_head srt pkt s = Some s' \<Longrightarrow> set (fc_urgent s') \<subseteq> set (fc_urgent s)"
  by (auto simp: refresh_focus_head_def Let_def split: if_splits dest!: update_focus_frame)

lemma unit_packet_urgent:
  assumes h: "handle_unit_packet_common srt pkt s = Some s'" and k: "urgent_known s"
  shows "urgent_known s'"
proof -
  obtain punit where p: "player_find_unit_by_id s (unit_owner s pkt) (u_id pkt) = Some punit"
    using h by (auto simp: handle_unit_packet_common_def split: option.splits)
  obtain s2 where s2: "store_unit_packet punit pkt (clear_tile_unit punit s) = Some s2"
    using h p by (auto simp: handle_unit_packet_common_def Let_def split: option.splits)
  let ?s3 = "update_tile_unit (st_get (cl_units s2) (u_id pkt)) s2"
  obtain s4 where s4: "refresh_focus_head srt pkt ?s3 = Some s4"
    using h p s2 by (auto simp: handle_unit_packet_common_def Let_def split: option.splits)
  have s': "cl_units s' = cl_units s4" "fc_urgent s' = fc_urgent s4"
    using h p s2 s4 by (auto simp: handle_unit_packet_common_def Let_def)
  have "urgent_known s2"
    by (rule store_unit_packet_urgent [OF s2]) (use k in \<open>simp add: urgent_known_def\<close>)
  with refresh_focus_frame [OF s4] refresh_focus_urgent [OF s4] show ?thesis
    by (auto simp: urgent_known_def s')
qed

lemma control_unit_killed_urgent:
  "control_unit_killed srt uid s = Some s' \<Longrightarrow> set (fc_urgent s') \<subseteq> set (fc_urgent s)"
  by (auto simp: control_unit_killed_def Let_def unit_list_without_def split: if_splits dest!: advance_frame)

lemma client_remove_urgent:
  assumes "client_remove_unit srt uid s = Some s'"
  shows "set (fc_urgent s') \<subseteq> set (fc_urgent s)"
proof -
  obtain s1 where k: "control_unit_killed srt uid s = Some s1"
    using assms by (auto simp: client_remove_unit_def split: option.splits)
  have "fc_urgent s' = fc_urgent s1"
    using assms k by (auto simp: client_remove_unit_def Let_def)
  with control_unit_killed_urgent [OF k] show ?thesis by simp
qed

lemma unit_remove_urgent:
  assumes h: "handle_unit_remove srt k s = Some s'" and q: "urgent_known s"
    and ok: "units_by_tile_ok (cl_units s) (cl_tiles s)"
  shows "urgent_known s'"
proof (cases "st_get (cl_units s) k")
  case None
  then show ?thesis using h q by (simp add: handle_unit_remove_def game_find_unit_by_number_def)
next
  case (Some u)
  let ?s1 = "if fc_selecting s = u_id u
             then action_selection_next_in_focus (u_id u) (action_selection_close s) else s"
  let ?s2 = "clear_tile_unit (Some u) ?s1"
  have "set (fc_urgent s') \<subseteq> set (fc_urgent ?s2)"
    using h Some client_remove_urgent [of srt "u_id u" ?s2]
    by (auto simp: handle_unit_remove_def game_find_unit_by_number_def Let_def simp del: tile_unit_urgent
        split: option.splits)
  moreover have "fc_urgent ?s2 = fc_urgent s" by simp
  ultimately show ?thesis
    using handle_unit_remove_known(1,4) [OF h ok Some] q
    by (auto simp: urgent_known_def js.get_del)
qed

lemma unit_msgs_urgent:
  "unit_msgs srt ms s = Some s' \<Longrightarrow> units_by_tile_ok (cl_units s) (cl_tiles s) \<Longrightarrow> urgent_known s
     \<Longrightarrow> urgent_known s'"
proof (induction srt ms s rule: unit_msgs.induct)
  case (2 srt m ms s)
  then obtain s1 where s1: "unit_msg_step srt m s = Some s1" "unit_msgs srt ms s1 = Some s'"
    by (auto simp: bind_eq_Some_conv)
  have "urgent_known s1"
    using s1(1) 2(3,4) by (cases m) (auto simp: handle_unit_info_def handle_unit_short_info_def
        dest: unit_packet_urgent unit_remove_urgent)
  with 2 s1 unit_msg_step_keeps_index show ?case by blast
qed simp

text \<open>
  The choice among the urgent units: the first on the tile of the focus, else the first one,
  or \<open>c\<close> when an earlier unit was the first.
\<close>

definition best_urgent :: "'a focus_client_scheme \<Rightarrow> int option \<Rightarrow> unit_rec option \<Rightarrow> unit_rec list \<Rightarrow> unit_rec option" where
  "best_urgent s focus_tile c us =
     (case List.find (\<lambda>u. \<not> has_new_orders s u \<and> (focus_tile = None \<or> focus_tile = Some (u_tile u))) us of
        Some u \<Rightarrow> Some u
      | None \<Rightarrow> (if c = None then List.find (\<lambda>u. \<not> has_new_orders s u) us else c))"

lemma best_urgent_Nil: "best_urgent s ft c [] = c"
  by (simp add: best_urgent_def)

lemma best_urgent_skip: "has_new_orders s u \<Longrightarrow> best_urgent s ft c (u # us) = best_urgent s ft c us"
  by (cases c) (simp_all add: best_urgent_def cong: option.case_cong)

lemma best_urgent_hit:
  "\<not> has_new_orders s u \<Longrightarrow> ft = None \<or> ft = Some (u_tile u) \<Longrightarrow> best_urgent s ft c (u # us) = Some u"
  by (simp add: best_urgent_def)

lemma best_urgent_other:
  "\<not> has_new_orders s u \<Longrightarrow> \<not> (ft = None \<or> ft = Some (u_tile u))
     \<Longrightarrow> best_urgent s ft c (u # us) = best_urgent s ft (if c = None then Some u else c) us"
  by (cases c; cases ft) (simp_all add: best_urgent_def cong: option.case_cong)

lemma map_filter_Cons: "List.map_filter f (x # xs) =
    (case f x of None \<Rightarrow> List.map_filter f xs | Some y \<Rightarrow> y # List.map_filter f xs)"
  by (simp add: List.map_filter_def split: option.split)

lemma find_without:
  assumes "st_get us q = Some u" and "\<not> P u"
  shows "List.find P (List.map_filter (st_get us) (unit_list_without qs q))
       = List.find P (List.map_filter (st_get us) qs)"
  using assms by (induction qs) (auto simp: unit_list_without_def map_filter_Cons split: option.split)

lemma best_urgent_without:
  assumes "st_get us q = Some u" and "has_new_orders s u"
  shows "best_urgent s ft c (List.map_filter (st_get us) (unit_list_without qs q))
       = best_urgent s ft c (List.map_filter (st_get us) qs)"
  using assms by (simp add: best_urgent_def find_without [OF assms(1)] cong: option.case_cong if_cong)

lemma urgent_loop_choice:
  assumes "\<forall>q \<in> set qs. st_get (cl_units s) q \<noteq> None"
  shows "map_option fst (urgent_loop s ft c kept qs)
       = Some (best_urgent s ft c (List.map_filter (st_get (cl_units s)) qs))"
  using assms
proof (induction s ft c kept qs rule: urgent_loop.induct)
  case (1 s ft c kept)
  then show ?case by (simp add: List.map_filter_def best_urgent_Nil)
next
  case (2 s ft c kept q qs)
  let ?f = "List.map_filter (st_get (cl_units s))"
  obtain u where u: "st_get (cl_units s) q = Some u" using 2(3) by auto
  show ?case
  proof (cases "has_new_orders s u")
    case True
    have "map_option fst (urgent_loop s ft c (unit_list_without kept q) (unit_list_without qs q))
        = Some (best_urgent s ft c (?f (unit_list_without qs q)))"
      by (rule 2(1) [OF u True]) (use 2(3) in \<open>auto simp: unit_list_without_def\<close>)
    with True u show ?thesis
      by (simp add: map_filter_Cons best_urgent_skip best_urgent_without [OF u True])
  next
    case False
    show ?thesis
    proof (cases "ft = None \<or> ft = Some (u_tile u)")
      case True
      with False u show ?thesis by (simp add: map_filter_Cons best_urgent_hit)
    next
      case nt: False
      have "map_option fst (urgent_loop s ft (if c = None then Some u else c) (kept @ [q]) qs)
          = Some (best_urgent s ft (if c = None then Some u else c) (?f qs))"
        by (rule 2(2) [OF u False nt]) (use 2(3) in simp)
      with False nt u show ?thesis
        by (cases ft) (simp_all add: map_filter_Cons best_urgent_other)
    qed
  qed
qed

lemma urgent_candidate_choice:
  assumes k: "urgent_known s"
  shows "\<exists>q. urgent_candidate s =
     Some (best_urgent s (case focus_units s of [] \<Rightarrow> None | u # _ \<Rightarrow> Some (u_tile u)) None
             (List.map_filter (st_get (cl_units s)) (fc_urgent s)),
           s\<lparr>fc_urgent := q\<rparr>)
     \<and> (\<forall>u. best_urgent s (case focus_units s of [] \<Rightarrow> None | u # _ \<Rightarrow> Some (u_tile u)) None
             (List.map_filter (st_get (cl_units s)) (fc_urgent s)) = Some u \<longrightarrow> u_id u \<notin> set q)"
proof (cases "fc_urgent s = []")
  case True
  then show ?thesis
    by (intro exI [where x = "[]"]) (simp add: urgent_candidate_def List.map_filter_def best_urgent_Nil)
next
  case False
  let ?ft = "case focus_units s of [] \<Rightarrow> None | u # _ \<Rightarrow> Some (u_tile u)"
  let ?b = "best_urgent s ?ft None (List.map_filter (st_get (cl_units s)) (fc_urgent s))"
  have "map_option fst (urgent_loop s ?ft None [] (fc_urgent s)) = Some ?b"
    by (rule urgent_loop_choice) (use k in \<open>simp add: urgent_known_def\<close>)
  then obtain q where q: "urgent_loop s ?ft None [] (fc_urgent s) = Some (?b, q)" by auto
  show ?thesis
    by (rule exI [where x = "case ?b of None \<Rightarrow> q | Some u \<Rightarrow> unit_list_without q (u_id u)"])
      (simp add: urgent_candidate_def False Let_def q, simp add: unit_list_without_def split: option.split)
qed

lemma focus_on_unit_returns:
  "st_get (cl_tiles s) (u_tile u) \<noteq> None \<Longrightarrow> \<exists>s'. set_unit_focus_and_redraw (Some u) s = Some s'"
  by (auto simp: set_unit_focus_and_redraw_def focus_on_unit_def index_to_tile_def Let_def)

lemma best_urgent_cong:
  "has_new_orders s' = has_new_orders s \<Longrightarrow> best_urgent s' ft c us = best_urgent s ft c us"
  by (simp only: best_urgent_def)

lemma goto_off_focus [simp]:
  "get_units_in_focus (emit e (s\<lparr>fc_goto_active := b\<rparr>)) = get_units_in_focus s"
  "focus_units (emit e (s\<lparr>fc_goto_active := b\<rparr>)) = focus_units s"
  "playing_units (emit e (s\<lparr>fc_goto_active := b\<rparr>)) = playing_units s"
  "client_is_observer (emit e (s\<lparr>fc_goto_active := b\<rparr>)) = client_is_observer s"
  "has_new_orders (emit e (s\<lparr>fc_goto_active := b\<rparr>)) u = has_new_orders s u"
  "urgent_known (emit e (s\<lparr>fc_goto_active := b\<rparr>)) = urgent_known s"
  by (simp_all add: get_units_in_focus_def focus_units_def playing_units_def playing_def
      client_is_observer_def has_new_orders_def should_ask_server_for_actions_def urgent_known_def
      split: focus.split option.split)

lemma goto_off_best [simp]:
  "best_urgent (emit e (s\<lparr>fc_goto_active := b\<rparr>)) ft c us = best_urgent s ft c us"
  by (rule best_urgent_cong) (simp add: fun_eq_iff)

text \<open>
  When the player can act and the queue of urgent units is sound, advancing the focus goes
  to the urgent unit on the tile of the present focus, else to the first urgent unit that still
  waits for orders, and takes it out of the queue.
\<close>

theorem advance_prefers_urgent_on_tile:
  assumes act: "\<not> client_is_observer s" "\<not> fc_nuke_active s" and k: "urgent_known s"
    and u: "best_urgent s (case focus_units s of [] \<Rightarrow> None | v # _ \<Rightarrow> Some (u_tile v)) None
              (List.map_filter (st_get (cl_units s)) (fc_urgent s)) = Some u"
    and t: "st_get (cl_tiles s) (u_tile u) \<noteq> None"
  shows "\<exists>s'. advance_unit_focus srt s = Some s' \<and> fc_focus s' = Focus [u_id u]
           \<and> u_id u \<notin> set (fc_urgent s') \<and> set (fc_urgent s') \<subseteq> set (fc_urgent s)"
proof -
  let ?s1 = "emit (Ui ''clear_goto_tiles'' []) (s\<lparr>fc_goto_active := False\<rparr>)"
  obtain q where q: "urgent_candidate ?s1 = Some (Some u, ?s1\<lparr>fc_urgent := q\<rparr>)" "u_id u \<notin> set q"
    using urgent_candidate_choice [of ?s1] k u by auto
  have sub: "set q \<subseteq> set (fc_urgent s)" using urgent_candidate_frame [OF q(1)] by simp
  obtain s' where s': "set_unit_focus_and_redraw (Some u) (?s1\<lparr>fc_urgent := q\<rparr>) = Some s'"
    using focus_on_unit_returns [of "?s1\<lparr>fc_urgent := q\<rparr>" u] t by auto
  then have "advance_unit_focus srt s = Some s'"
    using act q by (simp add: advance_unit_focus_def Let_def)
  with set_focus_redraw_frame [OF s'] q(2) sub show ?thesis by simp
qed

text \<open>
  C22. When no unit is urgent, advancing the focus never overlooks a unit of the player that waits
  for orders: if one outside the focus does, the new focus is such a unit, whatever order the
  browser's sort produces.
\<close>

theorem advance_finds_idle_unit:
  assumes act: "\<not> client_is_observer s" "\<not> fc_nuke_active s" and none: "fc_urgent s = []"
    and srt: "\<And>us. set (srt us) = set us"
    and u: "u \<in> set (playing_units s)" "focus_candidate_ok False s u"
    and t: "\<And>v. v \<in> set (playing_units s) \<Longrightarrow> st_get (cl_tiles s) (u_tile v) \<noteq> None"
  shows "\<exists>s' v. advance_unit_focus srt s = Some s' \<and> fc_focus s' = Focus [u_id v]
           \<and> v \<in> set (playing_units s) \<and> focus_candidate_ok False s v"
proof -
  let ?s1 = "emit (Ui ''clear_goto_tiles'' []) (s\<lparr>fc_goto_active := False\<rparr>)"
  have c: "focus_candidate_ok b ?s1 = focus_candidate_ok b s" for b
    by (rule ext) (simp add: focus_candidate_ok_def unit_is_in_focus_def should_ask_server_for_actions_def playing_def)
  obtain v where v: "List.find (focus_candidate_ok False s) (srt (playing_units s)) = Some v"
    using u srt by (cases "List.find (focus_candidate_ok False s) (srt (playing_units s))")
      (auto simp: find_None_iff)
  then have vv: "v \<in> set (playing_units s)" "focus_candidate_ok False s v"
    using srt by (auto simp: find_Some_iff) (metis nth_mem)
  have b: "find_best_focus_candidate srt False ?s1 = (Some v, ?s1)"
    using act v c by (simp add: find_best_focus_candidate_def)
  obtain s' where s': "set_unit_focus_and_redraw (Some v) ?s1 = Some s'"
    using focus_on_unit_returns [of ?s1 v] t [OF vv(1)] by auto
  have "advance_unit_focus srt s = Some s'"
    using act none b s' by (simp add: advance_unit_focus_def urgent_candidate_def Let_def)
  with set_focus_redraw_frame [OF s'] vv show ?thesis by blast
qed

theorem advance_prefers_urgent_on_tile_witness:
  "let s = (focus0 ())\<lparr>cl_tiles := [(0, tile0), (1, tile0\<lparr>t_index := 1\<rparr>)],
        cl_units := [(1, unit0\<lparr>u_id := 1\<rparr>), (2, unit0\<lparr>u_id := 2, u_tile := 1, u_activity := Some 0\<rparr>),
                     (3, unit0\<lparr>u_id := 3, u_activity := Some 0\<rparr>)],
        cl_players := [(0, player0)], cl_playing := Some 0, fc_focus := Focus [1], fc_urgent := [2, 3]\<rparr>
   in \<exists>s'. advance_unit_focus (\<lambda>us. us) s = Some s' \<and> fc_focus s' = Focus [3]"
proof -
  let ?u = "unit0\<lparr>u_id := 3, u_activity := Some 0\<rparr>"
  let ?s = "(focus0 ())\<lparr>cl_tiles := [(0, tile0), (1, tile0\<lparr>t_index := 1\<rparr>)],
        cl_units := [(1, unit0\<lparr>u_id := 1\<rparr>), (2, unit0\<lparr>u_id := 2, u_tile := 1, u_activity := Some 0\<rparr>), (3, ?u)],
        cl_players := [(0, player0)], cl_playing := Some 0, fc_focus := Focus [1], fc_urgent := [2, 3]\<rparr>"
  have "\<not> client_is_observer ?s" and "\<not> fc_nuke_active ?s" and "urgent_known ?s"
    and "best_urgent ?s (case focus_units ?s of [] \<Rightarrow> None | v # _ \<Rightarrow> Some (u_tile v)) None
           (List.map_filter (st_get (cl_units ?s)) (fc_urgent ?s)) = Some ?u"
    and "st_get (cl_tiles ?s) (u_tile ?u) \<noteq> None"
    by (simp_all add: client_is_observer_def playing_def st_get_def urgent_known_def best_urgent_def
        focus_units_def get_units_in_focus_def map_filter_Cons List.map_filter_def has_new_orders_def
        should_ask_server_for_actions_def)
  from advance_prefers_urgent_on_tile [OF this, of "\<lambda>us. us"] show ?thesis by auto
qed

theorem advance_finds_idle_unit_witness:
  "let s = (focus0 ())\<lparr>cl_tiles := [(0, tile0)],
        cl_units := [(1, unit0\<lparr>u_id := 1\<rparr>), (3, unit0\<lparr>u_id := 3, u_activity := Some 0,
           u_done_moving := Some False, u_movesleft := Some 3, u_ssa_controller := Some SSA_NONE\<rparr>)],
        cl_players := [(0, player0)], cl_playing := Some 0, fc_focus := Focus [1]\<rparr>
   in \<exists>s' v. advance_unit_focus rev s = Some s' \<and> fc_focus s' = Focus [u_id v] \<and> focus_candidate_ok False s v"
proof -
  let ?u = "unit0\<lparr>u_id := 3, u_activity := Some 0,
           u_done_moving := Some False, u_movesleft := Some 3, u_ssa_controller := Some SSA_NONE\<rparr>"
  let ?s = "(focus0 ())\<lparr>cl_tiles := [(0, tile0)], cl_units := [(1, unit0\<lparr>u_id := 1\<rparr>), (3, ?u)],
        cl_players := [(0, player0)], cl_playing := Some 0, fc_focus := Focus [1]\<rparr>"
  have pl: "playing_units ?s = [unit0\<lparr>u_id := 1\<rparr>, ?u]"
    by (simp add: playing_units_def playing_def st_get_def st_vals_def)
  have "\<not> client_is_observer ?s" and "\<not> fc_nuke_active ?s" and "fc_urgent ?s = []"
    by (simp_all add: client_is_observer_def playing_def st_get_def)
  moreover have "set (rev us) = set us" for us :: "unit_rec list" by simp
  moreover have "?u \<in> set (playing_units ?s)" by (simp add: pl)
  moreover have "focus_candidate_ok False ?s ?u"
    by (simp add: focus_candidate_ok_def playing_def st_get_def unit_is_in_focus_def get_units_in_focus_def
        opt_test_def)
  moreover have "st_get (cl_tiles ?s) (u_tile v) \<noteq> None" if "v \<in> set (playing_units ?s)" for v
    using that by (auto simp: pl st_get_def)
  ultimately show ?thesis
    using advance_finds_idle_unit [of ?s rev ?u] by (auto simp: Let_def)
qed

subsection \<open>Unit packets\<close>

text \<open>
  C4. Every sequence of unit packets that the client handles keeps the index of units by tile
  exact (the units listed by a tile are those whose tile it is, each once) and keeps every unit
  of the urgent queue alive.
\<close>

theorem unit_tile_index_kept:
  assumes "unit_msgs srt ms s = Some s'"
    and "units_by_tile_ok (cl_units s) (cl_tiles s)" and "urgent_known s"
  shows "units_by_tile_ok (cl_units s') (cl_tiles s') \<and> urgent_known s'"
  using assms unit_msgs_keep_index unit_msgs_urgent by blast

theorem unit_tile_index_kept_witness:
  "let s = (focus0 ())\<lparr>cl_tiles := [(0, tile0), (1, tile0\<lparr>t_index := 1\<rparr>)], cl_players := [(0, player0)]\<rparr>;
       ms = [UnitInfo (unit0\<lparr>u_id := 5\<rparr>), UnitInfo (unit0\<lparr>u_id := 6\<rparr>),
             UnitShortInfo (unit0\<lparr>u_id := 5, u_tile := 1\<rparr>), UnitRemove 6]
   in \<exists>s'. unit_msgs (\<lambda>us. us) ms s = Some s' \<and> units_by_tile_ok (cl_units s') (cl_tiles s')
        \<and> st_keys (cl_units s') = [5] \<and> map_option t_units (st_get (cl_tiles s') 1) = Some [5]"
proof -
  let ?s = "(focus0 ())\<lparr>cl_tiles := [(0, tile0), (1, tile0\<lparr>t_index := 1\<rparr>)], cl_players := [(0, player0)]\<rparr>"
  let ?ms = "[UnitInfo (unit0\<lparr>u_id := 5\<rparr>), UnitInfo (unit0\<lparr>u_id := 6\<rparr>),
             UnitShortInfo (unit0\<lparr>u_id := 5, u_tile := 1\<rparr>), UnitRemove 6]"
  have "\<exists>s'. unit_msgs (\<lambda>us. us) ?ms ?s = Some s' \<and> st_keys (cl_units s') = [5]
          \<and> map_option t_units (st_get (cl_tiles s') 1) = Some [5]"
    by (simp add: handle_unit_info_def handle_unit_short_info_def handle_unit_packet_common_def
        player_find_unit_by_id_def idex_lookup_unit_def unit_owner_def player_by_number_def
        clear_tile_unit_def update_tile_unit_def set_tile_units_def store_unit_packet_def st_get_def st_upd_def
        should_ask_server_for_actions_def refresh_focus_head_def focus_head_def get_units_in_focus_def
        index_to_tile_def extend_unit_def update_unit_anim_list_def handle_unit_remove_def
        game_find_unit_by_number_def client_remove_unit_def control_unit_killed_def unit_is_in_focus_def
        unit_list_without_def st_del_def st_keys_def)
  moreover have "units_by_tile_ok (cl_units ?s) (cl_tiles ?s)" and "urgent_known ?s"
    by (simp_all add: units_by_tile_ok_def urgent_known_def st_get_def)
  ultimately show ?thesis
    using unit_tile_index_kept [of "\<lambda>us. us" ?ms ?s] by (auto simp: Let_def)
qed



text \<open>
  What a unit packet stores.  A packet about an unknown unit is stored as it is, with an empty
  animation list and facing 6; one about a known unit overwrites the fields it carries and keeps
  the others, also when the unit has changed its owner.  No other unit changes.
\<close>

theorem unit_packet_stored:
  assumes h: "handle_unit_packet_common srt pkt s = Some s'"
  shows "st_get (cl_units s') k =
     (if k \<noteq> u_id pkt then st_get (cl_units s) k
      else Some (case st_get (cl_units s) k of
                   None \<Rightarrow> pkt\<lparr>u_anim_list := Some [], u_facing := 6\<rparr>
                 | Some old \<Rightarrow> extend_unit (update_unit_anim_list old pkt) pkt))"
proof -
  obtain punit where p: "player_find_unit_by_id s (unit_owner s pkt) (u_id pkt) = Some punit"
    using h by (auto simp: handle_unit_packet_common_def split: option.splits)
  obtain s2 where s2: "store_unit_packet punit pkt (clear_tile_unit punit s) = Some s2"
    using h p by (auto simp: handle_unit_packet_common_def Let_def split: option.splits)
  let ?s3 = "update_tile_unit (st_get (cl_units s2) (u_id pkt)) s2"
  obtain s4 where s4: "refresh_focus_head srt pkt ?s3 = Some s4"
    using h p s2 by (auto simp: handle_unit_packet_common_def Let_def split: option.splits)
  have "cl_units s' = cl_units s2"
    using h p s2 s4 refresh_focus_frame [OF s4] by (auto simp: handle_unit_packet_common_def Let_def)
  moreover have "st_get (cl_units s2) k =
     (if k \<noteq> u_id pkt then st_get (cl_units s) k
      else Some (case st_get (cl_units s) k of
                   None \<Rightarrow> pkt\<lparr>u_anim_list := Some [], u_facing := 6\<rparr>
                 | Some old \<Rightarrow> extend_unit (update_unit_anim_list old pkt) pkt))"
    using s2 by (auto simp: store_unit_packet_def Let_def js.get_put split: option.splits)
  ultimately show ?thesis by simp
qed

lemma packet_unknown_owner_throws:
  assumes "st_get (cl_units s) (u_id pkt) = Some old" and "unit_owner s pkt = None"
    and "unit_owner s old = Some pl"
  shows "handle_unit_packet_common srt pkt s = None"
  using assms by (simp add: handle_unit_packet_common_def player_find_unit_by_id_def idex_lookup_unit_def)

theorem unit_packet_stored_witness:
  "let s = (focus0 ())\<lparr>cl_tiles := [(0, tile0\<lparr>t_units := [5]\<rparr>)], cl_players := [(0, player0), (1, player0\<lparr>p_playerno := 1\<rparr>)],
        cl_units := [(5, unit0\<lparr>u_id := 5, u_movesleft := Some 3, u_homecity := Some 9\<rparr>)]\<rparr>
   in \<exists>s'. handle_unit_short_info (\<lambda>us. us) (unit0\<lparr>u_id := 5, u_owner := 1\<rparr>) s = Some s'
        \<and> st_get (cl_units s') 5 = Some (unit0\<lparr>u_id := 5, u_owner := 1, u_movesleft := Some 3, u_homecity := Some 9\<rparr>)"
proof -
  let ?s = "(focus0 ())\<lparr>cl_tiles := [(0, tile0\<lparr>t_units := [5]\<rparr>)], cl_players := [(0, player0), (1, player0\<lparr>p_playerno := 1\<rparr>)],
        cl_units := [(5, unit0\<lparr>u_id := 5, u_movesleft := Some 3, u_homecity := Some 9\<rparr>)]\<rparr>"
  let ?p = "unit0\<lparr>u_id := 5, u_owner := 1\<rparr>"
  have "\<exists>s'. handle_unit_packet_common (\<lambda>us. us) ?p ?s = Some s'"
    by (simp add: handle_unit_packet_common_def
        player_find_unit_by_id_def idex_lookup_unit_def unit_owner_def player_by_number_def
        clear_tile_unit_def update_tile_unit_def set_tile_units_def store_unit_packet_def st_get_def st_upd_def
        should_ask_server_for_actions_def refresh_focus_head_def focus_head_def get_units_in_focus_def
        index_to_tile_def)
  then obtain s' where s': "handle_unit_packet_common (\<lambda>us. us) ?p ?s = Some s'" by blast
  have "st_get (cl_units s') 5 = Some (unit0\<lparr>u_id := 5, u_owner := 1, u_movesleft := Some 3, u_homecity := Some 9\<rparr>)"
    using unit_packet_stored [OF s', of 5]
    by (simp add: st_get_def extend_unit_def update_unit_anim_list_def unit0_def)
  with s' show ?thesis by (auto simp: Let_def handle_unit_short_info_def)
qed

text \<open>
  A packet that tells whether the unit has done moving never moves the focus, although the code
  means to look for another unit when that flag changes: it compares the packet with the unit after
  having copied the packet into it.  The result does not depend on the sort of the candidates.
\<close>

theorem unit_packet_keeps_focus:
  assumes h: "handle_unit_packet_common srt pkt s = Some s'" and d: "u_done_moving pkt \<noteq> None"
  shows "fc_focus s' = fc_focus s \<and> handle_unit_packet_common srt' pkt s = Some s'"
proof -
  obtain punit where p: "player_find_unit_by_id s (unit_owner s pkt) (u_id pkt) = Some punit"
    using h by (auto simp: handle_unit_packet_common_def split: option.splits)
  obtain s2 where s2: "store_unit_packet punit pkt (clear_tile_unit punit s) = Some s2"
    using h p by (auto simp: handle_unit_packet_common_def Let_def split: option.splits)
  let ?s3 = "update_tile_unit (st_get (cl_units s2) (u_id pkt)) s2"
  have dm: "map_option u_done_moving (st_get (cl_units s2) (u_id pkt)) = Some (u_done_moving pkt)"
    using s2 d by (auto simp: store_unit_packet_def Let_def js.get_put extend_unit_def split: option.splits)
  have f2: "fc_focus s2 = fc_focus s"
    using s2 by (auto simp: store_unit_packet_def Let_def split: option.splits)
  have r: "refresh_focus_head any pkt ?s3 =
      Some (if focus_head ?s3 = Some (u_id pkt)
            then emits [Ui ''update_active_units_dialog'' [], Ui ''update_unit_order_commands'' []] ?s3 else ?s3)" for any
    using dm by (auto simp: refresh_focus_head_def Let_def)
  show ?thesis
    using h p s2 r f2 by (auto simp: handle_unit_packet_common_def Let_def)
qed

theorem unit_packet_keeps_focus_witness:
  "let s = (focus0 ())\<lparr>cl_tiles := [(0, tile0\<lparr>t_units := [5]\<rparr>)], cl_players := [(0, player0)],
        cl_units := [(5, unit0\<lparr>u_id := 5, u_done_moving := Some False\<rparr>)], fc_focus := Focus [5],
        cl_client_state := C_S_RUNNING\<rparr>
   in \<exists>s'. handle_unit_info (\<lambda>us. us) (unit0\<lparr>u_id := 5, u_done_moving := Some True\<rparr>) s = Some s'
        \<and> fc_focus s' = Focus [5]"
proof -
  let ?s = "(focus0 ())\<lparr>cl_tiles := [(0, tile0\<lparr>t_units := [5]\<rparr>)], cl_players := [(0, player0)],
        cl_units := [(5, unit0\<lparr>u_id := 5, u_done_moving := Some False\<rparr>)], fc_focus := Focus [5],
        cl_client_state := C_S_RUNNING\<rparr>"
  let ?p = "unit0\<lparr>u_id := 5, u_done_moving := Some True\<rparr>"
  have "\<exists>s'. handle_unit_packet_common (\<lambda>us. us) ?p ?s = Some s'"
    by (simp add: handle_unit_packet_common_def
        player_find_unit_by_id_def idex_lookup_unit_def unit_owner_def player_by_number_def
        clear_tile_unit_def update_tile_unit_def set_tile_units_def store_unit_packet_def st_get_def st_upd_def
        should_ask_server_for_actions_def refresh_focus_head_def focus_head_def get_units_in_focus_def
        index_to_tile_def extend_unit_def update_unit_anim_list_def)
  then obtain s' where s': "handle_unit_packet_common (\<lambda>us. us) ?p ?s = Some s'" by blast
  with unit_packet_keeps_focus [OF s'] show ?thesis by (auto simp: Let_def handle_unit_info_def)
qed

subsection \<open>The queue of the action selection\<close>

definition next_actor :: "int \<Rightarrow> 'a focus_client_scheme \<Rightarrow> unit_rec option" where
  "next_actor a s = List.find (\<lambda>u. a \<noteq> u_id u \<and> should_ask_server_for_actions s u) (focus_units s)"

definition unqueue_packets :: "int \<Rightarrow> 'a focus_client_scheme \<Rightarrow> packet list" where
  "unqueue_packets a s =
     (case st_get (cl_units s) a of
        None \<Rightarrow> []
      | Some u \<Rightarrow> if u_adw u \<noteq> Some ACT_DEC_NOTHING
                  then [[(''pid'', JConst ''packet_unit_sscs_set''), (''unit_id'', JNum a),
                         (''type'', JNum USSDT_UNQUEUE), (''value'', JNum IDENTITY_NUMBER_ZERO)]]
                  else [])"

definition ask_packets :: "unit_rec option \<Rightarrow> 'a focus_client_scheme \<Rightarrow> packet list" where
  "ask_packets f s =
     (case f of None \<Rightarrow> []
      | Some u \<Rightarrow> if Option.bind (u_ad_tile u) (st_get (cl_tiles s)) = None then []
                  else [unit_get_actions_packet (u_id u) IDENTITY_NUMBER_ZERO (opt_json (u_ad_tile u))
                          EXTRA_NONE REQEST_PLAYER_INITIATED])"

lemma clear_want_sent:
  "sent (cl_out (action_decision_clear_want a s)) = sent (cl_out s) @ unqueue_packets a s"
  by (auto simp: action_decision_clear_want_def unqueue_packets_def game_find_unit_by_number_def split: option.split)

lemma next_in_focus_eq:
  "action_selection_next_in_focus a s = ask_server_for_actions (next_actor a s) s"
  by (simp add: action_selection_next_in_focus_def next_actor_def ask_server_for_actions_def split: option.split)

lemma ask_sent:
  "\<not> fc_observing s \<Longrightarrow>
     sent (cl_out (ask_server_for_actions f s)) = sent (cl_out s) @ ask_packets f s
     \<and> fc_selecting (ask_server_for_actions f s) = (case f of None \<Rightarrow> fc_selecting s | Some u \<Rightarrow> u_id u)"
  by (auto simp: ask_server_for_actions_def ask_packets_def index_to_tile_def [abs_def] Let_def split: option.split)

lemma ask_packets_cong: "cl_tiles s' = cl_tiles s \<Longrightarrow> ask_packets f s' = ask_packets f s"
  by (simp only: ask_packets_def)

lemma queue_frame [simp]:
  "next_actor b (action_decision_clear_want a s) = next_actor b s"
  "ask_packets f (action_decision_clear_want a s) = ask_packets f s"
proof -
  have f: "focus_units (action_decision_clear_want a s) = focus_units s"
    by (rule focus_units_cong) simp_all
  show "next_actor b (action_decision_clear_want a s) = next_actor b s"
    by (simp add: next_actor_def f should_ask_server_for_actions_def)
  show "ask_packets f (action_decision_clear_want a s) = ask_packets f s"
    by (rule ask_packets_cong) simp
qed

text \<open>The end of the selection of unit \<open>a\<close>, as the two requests it consists of.\<close>

lemma act_sel_queue_done_eq:
  assumes "\<not> fc_restart s" and "\<not> fc_did_not_decide s" and "\<not> fc_observing s"
  shows "sent (cl_out (act_sel_queue_done a s)) =
           sent (cl_out s) @ unqueue_packets a s @ ask_packets (next_actor a s) s"
    and "fc_selecting (act_sel_queue_done a s) =
           (case next_actor a s of None \<Rightarrow> IDENTITY_NUMBER_ZERO | Some u \<Rightarrow> u_id u)"
    and "\<not> fc_more_input (act_sel_queue_done a s)" and "\<not> fc_restart (act_sel_queue_done a s)"
    and "\<not> fc_did_not_decide (act_sel_queue_done a s)"
    and "\<not> fc_observing (act_sel_queue_done a s)"
    and "fc_popup_actor_arrival (act_sel_queue_done a s) = fc_popup_actor_arrival s"
proof -
  let ?s1 = "action_selection_no_longer_in_progress a (s\<lparr>fc_more_input := False\<rparr>)"
  have s1: "?s1 = s\<lparr>fc_selecting := 0, fc_more_input := False\<rparr>"
    by (simp add: action_selection_no_longer_in_progress_def)
  have f: "focus_units ?s1 = focus_units s" by (rule focus_units_cong) simp_all
  have n: "next_actor a ?s1 = next_actor a s"
    unfolding next_actor_def f by (simp add: s1 should_ask_server_for_actions_def)
  let ?r = "ask_server_for_actions (next_actor a s) (action_decision_clear_want a ?s1)"
  have d: "act_sel_queue_done a s = ?r\<lparr>fc_restart := False, fc_did_not_decide := False\<rparr>"
    using assms by (simp add: act_sel_queue_done_def act_sel_queue_may_be_done_def Let_def next_in_focus_eq n s1
        del: tables_unchanged) (simp add: n s1 [symmetric])
  have p: "unqueue_packets a ?s1 = unqueue_packets a s" "ask_packets g ?s1 = ask_packets g s" for g
    by (simp add: s1 unqueue_packets_def) (rule ask_packets_cong, simp)
  have o: "\<not> fc_observing (action_decision_clear_want a ?s1)" using assms(3) by (simp add: s1)
  have m: "\<not> fc_more_input ?r" "fc_observing ?r = fc_observing s"
      "fc_popup_actor_arrival ?r = fc_popup_actor_arrival s"
    by (auto simp: ask_server_for_actions_def action_decision_clear_want_def s1 Let_def split: option.split)
  show "sent (cl_out (act_sel_queue_done a s)) =
           sent (cl_out s) @ unqueue_packets a s @ ask_packets (next_actor a s) s"
    unfolding d using ask_sent [OF o, of "next_actor a s"] by (simp add: clear_want_sent p) (simp add: s1)
  show "fc_selecting (act_sel_queue_done a s) =
           (case next_actor a s of None \<Rightarrow> IDENTITY_NUMBER_ZERO | Some u \<Rightarrow> u_id u)"
    unfolding d using ask_sent [OF o, of "next_actor a s"] by (simp add: s1 split: option.split)
  show "\<not> fc_more_input (act_sel_queue_done a s)" "\<not> fc_restart (act_sel_queue_done a s)"
    "\<not> fc_did_not_decide (act_sel_queue_done a s)" "\<not> fc_observing (act_sel_queue_done a s)"
    "fc_popup_actor_arrival (act_sel_queue_done a s) = fc_popup_actor_arrival s"
    using m assms(3) by (simp_all add: d)
qed



lemma clear_tile_focus:
  "j \<in> set (get_units_in_focus s) \<Longrightarrow> j \<noteq> u_id u \<Longrightarrow> j \<in> set (get_units_in_focus (clear_tile_unit (Some u) s))"
  by (cases "fc_focus s"; cases "st_get (cl_tiles s) (u_tile u)")
    (auto simp: get_units_in_focus_def clear_tile_unit_tiles split: option.splits)

lemma client_remove_quiet:
  assumes j: "j \<in> set (get_units_in_focus s)" "j \<noteq> k"
  shows "\<exists>s'. client_remove_unit srt k s = Some s' \<and> sent (cl_out s') = sent (cl_out s)"
proof -
  let ?s1 = "s\<lparr>fc_urgent := unit_list_without (fc_urgent s) k\<rparr>"
  have g: "get_units_in_focus ?s1 = get_units_in_focus s" by (rule get_units_in_focus_cong) simp_all
  have "length (get_units_in_focus s) \<noteq> 1" if "k \<in> set (get_units_in_focus s)"
    using j that by (auto simp: length_Suc_conv)
  then have "\<exists>s2. control_unit_killed srt k s = Some s2 \<and> sent (cl_out s2) = sent (cl_out s)"
    by (cases "k \<in> set (get_units_in_focus s)") (simp_all add: control_unit_killed_def unit_is_in_focus_def Let_def g)
  then obtain s2 where "control_unit_killed srt k s = Some s2" "sent (cl_out s2) = sent (cl_out s)" by blast
  then show ?thesis by (simp add: client_remove_unit_def Let_def)
qed

lemma clear_tile_out [simp]: "cl_out (clear_tile_unit p s) = cl_out s"
  by (auto simp: clear_tile_unit_def set_tile_units_def split: option.split)

text \<open>
  When the unit whose dialog is open is removed while another unit in focus also wants a
  decision, the server is asked twice about that other unit: closing the dialog already moves on
  to the next unit, and the handler of the packet does so again.
\<close>

theorem removed_actor_asks_twice:
  assumes ok: "units_by_tile_ok (cl_units s) (cl_tiles s)" and u: "st_get (cl_units s) k = Some u"
    and sel: "fc_selecting s = k" and fl: "\<not> fc_restart s" "\<not> fc_did_not_decide s" "\<not> fc_observing s"
    and f: "next_actor k s = Some f" and t: "Option.bind (u_ad_tile f) (st_get (cl_tiles s)) \<noteq> None"
  shows "\<exists>s'. handle_unit_remove srt k s = Some s'
     \<and> sent (cl_out s') = sent (cl_out s) @ unqueue_packets k s @ ask_packets (Some f) s @ ask_packets (Some f) s
     \<and> length (ask_packets (Some f) s) = 1"
proof -
  have k: "u_id u = k" using ok u by (auto simp: units_by_tile_ok_def)
  define d where "d = s\<lparr>fc_dialogs := st_del k (fc_dialogs s),
              fc_followups := filter (\<lambda>((j, a), _). a \<noteq> k \<or> j = StealTech \<or> j = SabotageImpr) (fc_followups s),
              fc_city_name_dialog := None\<rparr>"
  have dd: "cl_units d = cl_units s" "cl_tiles d = cl_tiles s" "fc_focus d = fc_focus s" "cl_out d = cl_out s"
    "fc_popup_actor_arrival d = fc_popup_actor_arrival s"
    by (simp_all add: d_def)
  let ?c = "action_selection_close s"
  have c: "?c = act_sel_queue_done k d" by (simp only: action_selection_close_def Let_def sel d_def)
  have fd: "focus_units d = focus_units s" "focus_units ?c = focus_units s"
    by (rule focus_units_cong; simp add: dd)+
  have nd: "next_actor k d = Some f"
    using f by (simp add: next_actor_def fd should_ask_server_for_actions_def dd)
  have pd: "unqueue_packets k d = unqueue_packets k s" "ask_packets g d = ask_packets g s" for g
    by (simp add: unqueue_packets_def dd) (rule ask_packets_cong, rule dd)
  note q = act_sel_queue_done_eq [of d k]
  have fl': "\<not> fc_restart d" "\<not> fc_did_not_decide d" "\<not> fc_observing d" using fl by (simp_all add: d_def)
  have sc: "sent (cl_out ?c) = sent (cl_out s) @ unqueue_packets k s @ ask_packets (Some f) s"
    using q(1) [OF fl'] by (simp add: c nd pd dd)
  have "fc_popup_actor_arrival ?c = fc_popup_actor_arrival s" using q(7) [OF fl'] by (simp add: c dd)
  then have "next_actor k ?c = Some f"
    using f by (simp add: next_actor_def fd should_ask_server_for_actions_def)
  then have n: "action_selection_next_in_focus k ?c = ask_server_for_actions (Some f) ?c"
    by (simp add: next_in_focus_eq)
  have oc: "\<not> fc_observing ?c" using q(6) [OF fl'] by (simp add: c)
  have pc: "ask_packets (Some f) ?c = ask_packets (Some f) s" by (rule ask_packets_cong) simp
  let ?n = "action_selection_next_in_focus k ?c"
  have sn: "sent (cl_out ?n) = sent (cl_out s) @ unqueue_packets k s @ ask_packets (Some f) s @ ask_packets (Some f) s"
    using ask_sent [OF oc, of "Some f"] by (simp add: n sc pc)
  have ff: "f \<in> set (focus_units s)" "k \<noteq> u_id f"
    using f by (auto simp: next_actor_def find_Some_iff)
  then obtain j where j: "j \<in> set (get_units_in_focus s)" "st_get (cl_units s) j = Some f"
    by (auto simp: focus_units_def List.map_filter_def)
  have "j = u_id f" using ok j(2) by (auto simp: units_by_tile_ok_def)
  moreover have "get_units_in_focus ?n = get_units_in_focus s" by (rule get_units_in_focus_cong) simp_all
  ultimately have "u_id f \<in> set (get_units_in_focus (clear_tile_unit (Some u) ?n))"
    using clear_tile_focus [of "u_id f" ?n u] j(1) ff(2) k by simp
  then obtain s' where "client_remove_unit srt k (clear_tile_unit (Some u) ?n) = Some s'"
      "sent (cl_out s') = sent (cl_out ?n)"
    using client_remove_quiet [of "u_id f" "clear_tile_unit (Some u) ?n" k srt] ff(2) by auto
  moreover have "length (ask_packets (Some f) s) = 1" using t by (simp add: ask_packets_def)
  ultimately show ?thesis
    using u sel k sn by (simp add: handle_unit_remove_def game_find_unit_by_number_def Let_def)
qed

theorem removed_actor_asks_twice_witness:
  "let s = (focus0 ())\<lparr>cl_tiles := [(0, tile0\<lparr>t_units := [5, 6]\<rparr>)], fc_selecting := 5, fc_focus := Focus [5, 6],
        cl_units := [(5, unit0\<lparr>u_id := 5, u_adw := Some ACT_DEC_NOTHING\<rparr>),
                     (6, unit0\<lparr>u_id := 6, u_adw := Some ACT_DEC_ACTIVE, u_ad_tile := Some 0\<rparr>)]\<rparr>
   in \<exists>s'. handle_unit_remove (\<lambda>us. us) 5 s = Some s' \<and> length (sent (cl_out s')) = 2"
proof -
  let ?f = "unit0\<lparr>u_id := 6, u_adw := Some ACT_DEC_ACTIVE, u_ad_tile := Some 0\<rparr>"
  let ?s = "(focus0 ())\<lparr>cl_tiles := [(0, tile0\<lparr>t_units := [5, 6]\<rparr>)], fc_selecting := 5, fc_focus := Focus [5, 6],
        cl_units := [(5, unit0\<lparr>u_id := 5, u_adw := Some ACT_DEC_NOTHING\<rparr>), (6, ?f)]\<rparr>"
  have ok: "units_by_tile_ok (cl_units ?s) (cl_tiles ?s)"
    by (auto simp: units_by_tile_ok_def st_get_def split: if_splits)
  have u: "st_get (cl_units ?s) 5 = Some (unit0\<lparr>u_id := 5, u_adw := Some ACT_DEC_NOTHING\<rparr>)"
    by (simp add: st_get_def)
  have n: "next_actor 5 ?s = Some ?f"
    by (simp add: next_actor_def focus_units_def get_units_in_focus_def map_filter_Cons st_get_def
        should_ask_server_for_actions_def)
  have t: "Option.bind (u_ad_tile ?f) (st_get (cl_tiles ?s)) \<noteq> None" by (simp add: st_get_def)
  from removed_actor_asks_twice [OF ok u _ _ _ _ n t, of "\<lambda>us. us"] u show ?thesis
    by (auto simp: Let_def unqueue_packets_def)
qed

end
