(* ===== verification/Action_Dialog.thy ===== *)
theory Action_Dialog
  imports Unit_Packets
begin

text \<open>
  The dialogs of an action decision (\<open>action_dialog.js\<close>, the city name dialog of \<open>city.js\<close>) and
  the packets that open them (\<open>packhand.js\<close>): which buttons a dialog has, what a click on each does
  to the client, and what closing the dialog does.  Opening a dialog for an actor replaces the one
  it had.  \<open>remove()\<close> takes a dialog away without its \<open>close\<close> function, \<open>dialog('close')\<close>, like
  the cross of the window, calls it.  The html of the dialogs is left out; the objects it reads are
  required, since a missing one throws.
\<close>

definition INCITE_IMPOSSIBLE_COST :: int where
  "INCITE_IMPOSSIBLE_COST = 1000 * 1000 * 1000"

subsection \<open>Action probabilities\<close>

definition action_prob_not_impl :: "act_prob \<Rightarrow> bool" where
  "action_prob_not_impl p = (ap_min p = 254 \<and> ap_max p = 0)"

definition action_prob_possible :: "act_prob \<Rightarrow> bool" where
  "action_prob_possible p = (0 < ap_max p \<or> action_prob_not_impl p)"

definition prob_at :: "act_prob list \<Rightarrow> int \<Rightarrow> act_prob option" where
  "prob_at probs a = (if 0 \<le> a \<and> a < int (length probs) then Some (probs ! nat a) else None)"

text \<open>Probabilities count half per cents; they are not negative.\<close>

definition format_act_prob_part :: "int \<Rightarrow> string" where
  "format_act_prob_part prob =
     int_text (prob div 2) @ (if prob mod 2 = 0 then [] else ''.5'') @ ''%''"

definition format_action_probability :: "act_prob \<Rightarrow> string" where
  "format_action_probability p =
     (if ap_min p = ap_max p then '' ('' @ format_act_prob_part (ap_max p) @ '')''
      else if ap_min p < ap_max p
      then '' (['' @ format_act_prob_part (ap_min p) @ '', '' @ format_act_prob_part (ap_max p) @ ''])''
      else [])"

text \<open>\<open>text.replace(pat, rep)\<close> with a string pattern: the first occurrence.\<close>

definition replace_first :: "string \<Rightarrow> string \<Rightarrow> string \<Rightarrow> string" where
  "replace_first pat rep s =
     (let i = indexOf s pat
      in if i = - 1 then s else take (nat i) s @ rep @ drop (nat i + length pat) s)"

definition format_action_label :: "'a client_scheme \<Rightarrow> int \<Rightarrow> act_prob list \<Rightarrow> string option" where
  "format_action_label s action_id probs =
     (case (st_get (cl_actions s) action_id, prob_at probs action_id) of
        (Some a, Some p) \<Rightarrow>
          Some (replace_first ''%s'' (format_action_probability p) (replace_first ''%s'' [] (ac_ui_name a)))
      | _ \<Rightarrow> None)"

definition format_action_tooltip :: "int \<Rightarrow> act_prob list \<Rightarrow> string option option" where
  "format_action_tooltip act_id probs =
     map_option (\<lambda>p.
       if ap_min p = ap_max p
       then Some (''The probability of success is '' @ format_act_prob_part (ap_max p) @ ''.'')
       else if ap_min p < ap_max p
       then Some (''The probability of success is '' @ format_act_prob_part (ap_min p) @ '', ''
              @ format_act_prob_part (ap_max p) @ '' or somewhere in between.''
              @ (if ap_max p - ap_min p > 1
                 then '' (This is the most precise interval I can calculate ''
                      @ ''given the information our nation has access to.)'' else []))
       else None) (prob_at probs act_id)"

subsection \<open>Requests\<close>

definition do_action_packet :: "int \<Rightarrow> int \<Rightarrow> int \<Rightarrow> int \<Rightarrow> string \<Rightarrow> packet" where
  "do_action_packet action_id actor_id target_id sub_tgt_id name =
     [(''pid'', JConst ''packet_unit_do_action''), (''action_type'', JNum action_id),
      (''actor_id'', JNum actor_id), (''target_id'', JNum target_id),
      (''sub_tgt_id'', JNum sub_tgt_id), (''name'', JStr name)]"

definition request_unit_do_action :: "int \<Rightarrow> int \<Rightarrow> int \<Rightarrow> int \<Rightarrow> string
    \<Rightarrow> 'a focus_client_scheme \<Rightarrow> 'a focus_client_scheme" where
  "request_unit_do_action action_id actor_id target_id sub_tgt_id name s =
     action_decision_clear_want actor_id
       (emit (Send (do_action_packet action_id actor_id target_id sub_tgt_id name)) s)"

definition tile_city :: "'a client_scheme \<Rightarrow> tile option \<Rightarrow> city option" where
  "tile_city s ptile =
     (case ptile of None \<Rightarrow> None
      | Some t \<Rightarrow> (case Option.bind (t_worked t) (st_get (cl_cities s)) of
                    None \<Rightarrow> None
                  | Some c \<Rightarrow> if is_city_center c t then Some c else None))"

subsection \<open>The action selection dialog\<close>

text \<open>The target and the sub target the buttons of each kind get.\<close>

definition button_target :: "int \<Rightarrow> int \<Rightarrow> tile option \<Rightarrow> extra option \<Rightarrow> unit_rec option \<Rightarrow> city option
    \<Rightarrow> int \<times> int" where
  "button_target tgt_kind actor_id target_tile target_extra target_unit target_city =
     (let of_tile = (case target_tile of None \<Rightarrow> - 1 | Some t \<Rightarrow> t_index t)
      in if tgt_kind = ATK_CITY then ((case target_city of None \<Rightarrow> - 1 | Some c \<Rightarrow> c_id c), - 1)
         else if tgt_kind = ATK_UNIT then ((case target_unit of None \<Rightarrow> - 1 | Some u \<Rightarrow> u_id u), - 1)
         else if tgt_kind = ATK_UNITS then (of_tile, - 1)
         else if tgt_kind = ATK_TILE \<or> tgt_kind = ATK_EXTRAS
         then (of_tile, (case target_extra of None \<Rightarrow> - 1 | Some x \<Rightarrow> x_id x))
         else if tgt_kind = ATK_SELF then (actor_id, - 1)
         else (- 1, - 1))"

text \<open>The inner loop: the actions of one target kind, by id; an unknown action throws.\<close>

fun kind_buttons :: "action store \<Rightarrow> act_prob list \<Rightarrow> int \<Rightarrow> int \<times> int \<Rightarrow> int list \<Rightarrow> act_button list option" where
  "kind_buttons acts probs tgt_kind tgt [] = Some []"
| "kind_buttons acts probs tgt_kind tgt (a # as) =
     (case st_get acts a of None \<Rightarrow> None
      | Some act \<Rightarrow>
          (if ac_tgt_kind act = tgt_kind
           then (case prob_at probs a of None \<Rightarrow> None
                 | Some p \<Rightarrow>
                     (if action_prob_possible p
                      then map_option ((#) (ActButton a (fst tgt) (snd tgt))) (kind_buttons acts probs tgt_kind tgt as)
                      else kind_buttons acts probs tgt_kind tgt as))
           else kind_buttons acts probs tgt_kind tgt as))"

fun all_kind_buttons :: "action store \<Rightarrow> act_prob list \<Rightarrow> (int \<Rightarrow> int \<times> int) \<Rightarrow> int list \<Rightarrow> act_button list option" where
  "all_kind_buttons acts probs tgt [] = Some []"
| "all_kind_buttons acts probs tgt (k # ks) =
     (case kind_buttons acts probs k (tgt k) [0..ACTION_COUNT - 1] of None \<Rightarrow> None
      | Some bs \<Rightarrow> map_option ((@) bs) (all_kind_buttons acts probs tgt ks))"

definition act_sel_buttons :: "'a focus_client_scheme \<Rightarrow> unit_rec \<Rightarrow> act_prob list \<Rightarrow> tile option \<Rightarrow> extra option
    \<Rightarrow> unit_rec option \<Rightarrow> city option \<Rightarrow> act_button list option" where
  "act_sel_buttons s actor probs target_tile target_extra target_unit target_city =
     (case all_kind_buttons (cl_actions s) probs
             (\<lambda>k. button_target k (u_id actor) target_tile target_extra target_unit target_city)
             [ATK_CITY..ATK_COUNT - 1] of
        None \<Rightarrow> None
      | Some bs \<Rightarrow>
          (if target_unit \<noteq> None \<and> target_tile = None then None
           else (case prob_at probs ACTION_ATTACK of None \<Rightarrow> None
                 | Some p \<Rightarrow>
                     Some (bs
                       @ (if target_unit \<noteq> None \<and> unit_list_size (tile_units target_tile) > 1 then [ChangeTgtUnit] else [])
                       @ (if target_extra \<noteq> None then [ChangeTgtExtra] else [])
                       @ (if action_prob_possible p \<and> \<not> fc_auto_attack s then [AutoAttackFromNow] else [])
                       @ [WaitButton, CancelButton]))))"

text \<open>The objects the headline reads: the actor's type, and the target unit's when no city is there.\<close>

definition headline_ok :: "'a client_scheme \<Rightarrow> unit_rec \<Rightarrow> unit_rec option \<Rightarrow> city option \<Rightarrow> bool" where
  "headline_ok s actor target_unit target_city =
     (st_get (cl_unit_types s) (u_type actor) \<noteq> None
      \<and> (target_city \<noteq> None
         \<or> (case target_unit of None \<Rightarrow> True
            | Some u \<Rightarrow> Option.bind (unit_owner s u) (\<lambda>p. st_get (cl_nations s) (p_nation p)) \<noteq> None
                        \<and> st_get (cl_unit_types s) (u_type u) \<noteq> None)))"

definition popup_action_selection :: "unit_rec option \<Rightarrow> act_prob list \<Rightarrow> tile option \<Rightarrow> extra option
    \<Rightarrow> unit_rec option \<Rightarrow> city option \<Rightarrow> 'a focus_client_scheme \<Rightarrow> 'a focus_client_scheme option" where
  "popup_action_selection actor_unit probs target_tile target_extra target_unit target_city s =
     (case actor_unit of None \<Rightarrow> Some s
      | Some actor \<Rightarrow>
          (let s1 = (if fc_selecting s \<noteq> IDENTITY_NUMBER_ZERO \<and> fc_selecting s \<noteq> u_id actor
                     then action_selection_close s else s)
           in if \<not> headline_ok s1 actor target_unit target_city then None
              else map_option (\<lambda>bs. s1\<lparr>fc_dialogs := st_put (u_id actor)
                     \<lparr>ad_target_city = (case target_city of None \<Rightarrow> IDENTITY_NUMBER_ZERO | Some c \<Rightarrow> c_id c),
                      ad_target_unit = (case target_unit of None \<Rightarrow> IDENTITY_NUMBER_ZERO | Some u \<Rightarrow> u_id u),
                      ad_target_tile = (case target_tile of None \<Rightarrow> TILE_INDEX_NONE | Some t \<Rightarrow> t_index t),
                      ad_target_extra = (case target_extra of None \<Rightarrow> EXTRA_NONE | Some x \<Rightarrow> x_id x),
                      ad_probs = probs, ad_buttons = bs\<rparr> (fc_dialogs s1),
                     fc_more_input := False\<rparr>)
                   (act_sel_buttons s1 actor probs target_tile target_extra target_unit target_city)))"

definition action_selection_refresh :: "unit_rec option \<Rightarrow> city option \<Rightarrow> unit_rec option \<Rightarrow> tile option
    \<Rightarrow> extra option \<Rightarrow> act_prob list \<Rightarrow> 'a focus_client_scheme \<Rightarrow> 'a focus_client_scheme option" where
  "action_selection_refresh actor_unit target_city target_unit target_tile target_extra probs s =
     (if actor_unit = None then None
      else popup_action_selection actor_unit probs target_tile target_extra target_unit target_city s)"

subsection \<open>The follow-up dialogs\<close>

definition open_followup :: "followup_kind \<Rightarrow> int \<Rightarrow> followup_button list
    \<Rightarrow> 'a focus_client_scheme \<Rightarrow> 'a focus_client_scheme" where
  "open_followup kind actor bs s =
     s\<lparr>fc_followups := ((kind, actor), bs) # filter (\<lambda>(k, _). k \<noteq> (kind, actor)) (fc_followups s)\<rparr>"

definition remove_followup :: "followup_kind \<Rightarrow> int \<Rightarrow> 'a focus_client_scheme \<Rightarrow> 'a focus_client_scheme" where
  "remove_followup kind actor s =
     s\<lparr>fc_followups := filter (\<lambda>(k, _). k \<noteq> (kind, actor)) (fc_followups s)\<rparr>"

text \<open>The \<open>close\<close> function of each dialog.\<close>

definition followup_closed :: "followup_kind \<Rightarrow> int \<Rightarrow> 'a focus_client_scheme \<Rightarrow> 'a focus_client_scheme" where
  "followup_closed kind actor s =
     (let s1 = remove_followup kind actor s
      in if kind = SelTgtUnit \<or> kind = SelTgtExtra then act_sel_queue_may_be_done actor s1
         else act_sel_queue_done actor s1)"

definition popup_bribe_dialog :: "unit_rec \<Rightarrow> unit_rec \<Rightarrow> int \<Rightarrow> int
    \<Rightarrow> 'a focus_client_scheme \<Rightarrow> 'a focus_client_scheme option" where
  "popup_bribe_dialog actor target_unit cost act_id s =
     (case unit_owner s actor of
        None \<Rightarrow> None
      | Some owner \<Rightarrow>
          (if Option.bind (unit_owner s target_unit) (\<lambda>p. st_get (cl_nations s) (p_nation p)) = None
              \<or> st_get (cl_unit_types s) (u_type target_unit) = None
           then None
           else Some (open_followup BribeUnit (u_id actor)
                   (if cost \<le> p_gold owner then [FuClose, FuDo act_id (u_id actor) (u_id target_unit) 0]
                    else [FuClose]) s)))"

definition popup_incite_dialog :: "unit_rec \<Rightarrow> city \<Rightarrow> int \<Rightarrow> int
    \<Rightarrow> 'a focus_client_scheme \<Rightarrow> 'a focus_client_scheme option" where
  "popup_incite_dialog actor target_city cost act_id s =
     map_option (\<lambda>owner. open_followup InciteCity (u_id actor)
          (if cost \<noteq> INCITE_IMPOSSIBLE_COST \<and> cost \<le> p_gold owner
           then [FuClose, FuDo act_id (u_id actor) (c_id target_city) 0] else [FuClose]) s)
       (unit_owner s actor)"

definition popup_unit_upgrade_dlg :: "unit_rec \<Rightarrow> city \<Rightarrow> int \<Rightarrow> int
    \<Rightarrow> 'a focus_client_scheme \<Rightarrow> 'a focus_client_scheme option" where
  "popup_unit_upgrade_dlg actor target_city cost act_id s =
     (case unit_owner s actor of
        None \<Rightarrow> None
      | Some owner \<Rightarrow>
          (if st_get (cl_unit_types s) (u_type actor) = None then None
           else Some (open_followup UpgradeUnit (u_id actor)
                   (if cost \<le> p_gold owner then [FuClose, FuDo act_id (u_id actor) (c_id target_city) 0]
                    else [FuClose]) s)))"

definition can_steal :: "'a focus_client_scheme \<Rightarrow> city option \<Rightarrow> int \<Rightarrow> bool" where
  "can_steal s target_city tech_id =
     (let act_kn = player_invention_state (playing s) tech_id;
          tgt_kn = player_invention_state (city_owner s target_city) tech_id
      in tgt_kn = TECH_KNOWN
         \<and> (act_kn = TECH_PREREQS_KNOWN \<or> (fc_tech_steal_allow_holes s \<and> act_kn = TECH_UNKNOWN)))"

definition popup_steal_tech_selection_dialog :: "unit_rec option \<Rightarrow> city option \<Rightarrow> act_prob list \<Rightarrow> int
    \<Rightarrow> 'a focus_client_scheme \<Rightarrow> 'a focus_client_scheme option" where
  "popup_steal_tech_selection_dialog actor_unit target_city probs action_id s =
     (case actor_unit of
        None \<Rightarrow> None
      | Some actor \<Rightarrow>
          (let do_it = (\<lambda>a sub. case target_city of None \<Rightarrow> FuThrow | Some c \<Rightarrow> FuDo a (u_id actor) (c_id c) sub);
               stealable = map (\<lambda>t. do_it action_id (tc_id t))
                             (filter (\<lambda>t. can_steal s target_city (tc_id t)) (st_vals (cl_techs s)));
               untargeted = (if action_id = ACTION_SPY_TARGETED_STEAL_TECH_ESC then ACTION_SPY_STEAL_TECH_ESC
                             else if action_id = ACTION_SPY_TARGETED_STEAL_TECH then ACTION_SPY_STEAL_TECH
                             else ACTION_COUNT);
               finish = (\<lambda>bs. Some (open_followup StealTech (u_id actor) (stealable @ bs @ [FuClose]) s))
           in if untargeted = ACTION_COUNT then finish []
              else (case prob_at probs untargeted of None \<Rightarrow> None
                    | Some p \<Rightarrow>
                        (if action_prob_possible p
                         then (if st_get (cl_unit_types s) (u_type actor) = None then None
                               else finish [do_it untargeted 0])
                         else finish []))))"

text \<open>A building whose bit is set but that the ruleset does not have throws.\<close>

fun sabotage_loop :: "improvement store \<Rightarrow> bitvector \<Rightarrow> int list \<Rightarrow> int list option" where
  "sabotage_loop imprs city_imprs [] = Some []"
| "sabotage_loop imprs city_imprs (i # is) =
     (if bv_isSet city_imprs i
      then (case st_get imprs i of None \<Rightarrow> None
            | Some im \<Rightarrow> (if im_sabotage im > 0 then map_option ((#) (im_id im)) (sabotage_loop imprs city_imprs is)
                         else sabotage_loop imprs city_imprs is))
      else sabotage_loop imprs city_imprs is)"

text \<open>A button exists for each building, so a missing city throws only when there is one.\<close>

definition popup_sabotage_dialog :: "unit_rec option \<Rightarrow> city option \<Rightarrow> bitvector \<Rightarrow> int
    \<Rightarrow> 'a focus_client_scheme \<Rightarrow> 'a focus_client_scheme option" where
  "popup_sabotage_dialog actor_unit target_city city_imprs act_id s =
     (case (actor_unit, sabotage_loop (cl_improvements s) city_imprs [0..cl_num_impr_types s - 1]) of
        (Some actor, Some ims) \<Rightarrow>
          (case target_city of
             None \<Rightarrow> (if ims = [] then Some (open_followup SabotageImpr (u_id actor) [FuClose] s) else None)
           | Some c \<Rightarrow> Some (open_followup SabotageImpr (u_id actor)
                          (map (FuDo act_id (u_id actor) (c_id c)) ims @ [FuClose]) s))
      | _ \<Rightarrow> None)"

text \<open>The button of a target unit reads its type, its owner and the owner's nation.\<close>

definition select_tgt_unit :: "unit_rec \<Rightarrow> tile \<Rightarrow> int list
    \<Rightarrow> 'a focus_client_scheme \<Rightarrow> 'a focus_client_scheme option" where
  "select_tgt_unit actor target_tile potential_tgt_units s =
     (if st_get (cl_unit_types s) (u_type actor) \<noteq> None
         \<and> list_all (\<lambda>k. (case st_get (cl_units s) k of None \<Rightarrow> False
              | Some u \<Rightarrow> st_get (cl_unit_types s) (u_type u) \<noteq> None
                         \<and> Option.bind (unit_owner s u) (\<lambda>p. st_get (cl_nations s) (p_nation p)) \<noteq> None))
              potential_tgt_units
      then Some (open_followup SelTgtUnit (u_id actor)
                   (map (\<lambda>k. FuAsk k (t_index target_tile) EXTRA_NONE) potential_tgt_units) s)
      else None)"

definition potential_target_extra :: "'a client_scheme \<Rightarrow> unit_rec \<Rightarrow> tile \<Rightarrow> extra \<Rightarrow> bool" where
  "potential_target_extra s act_unit target_tile x =
     (if tile_has_extra (Some target_tile) (x_id x)
      then (is_extra_removed_by x ERM_PILLAGE \<and> unit_can_do_action s act_unit ACTION_PILLAGE)
           \<or> (unit_can_do_action s act_unit ACTION_CLEAN
              \<and> (is_extra_removed_by x ERM_CLEANPOLLUTION \<or> is_extra_removed_by x ERM_CLEANFALLOUT))
      else x_buildable x
           \<and> ((is_extra_caused_by x EC_IRRIGATION \<and> unit_can_do_action s act_unit ACTION_IRRIGATE)
              \<or> (is_extra_caused_by x EC_MINE \<and> unit_can_do_action s act_unit ACTION_MINE)
              \<or> (is_extra_caused_by x EC_BASE \<and> unit_can_do_action s act_unit ACTION_BASE)
              \<or> (is_extra_caused_by x EC_ROAD \<and> unit_can_do_action s act_unit ACTION_ROAD)))"

fun target_extras_loop :: "'a client_scheme \<Rightarrow> unit_rec \<Rightarrow> tile \<Rightarrow> int list \<Rightarrow> extra list option" where
  "target_extras_loop s act_unit target_tile [] = Some []"
| "target_extras_loop s act_unit target_tile (i # is) =
     (case st_get (rs_extras (cl_ruleset s)) i of None \<Rightarrow> None
      | Some x \<Rightarrow> map_option (\<lambda>xs. if potential_target_extra s act_unit target_tile x then x # xs else xs)
                    (target_extras_loop s act_unit target_tile is))"

definition list_potential_target_extras :: "'a focus_client_scheme \<Rightarrow> unit_rec \<Rightarrow> tile \<Rightarrow> extra list option" where
  "list_potential_target_extras s act_unit target_tile =
     target_extras_loop s act_unit target_tile [0..fc_num_extra_types s - 1]"

definition select_tgt_extra :: "unit_rec \<Rightarrow> unit_rec option \<Rightarrow> tile \<Rightarrow> extra list
    \<Rightarrow> 'a focus_client_scheme \<Rightarrow> 'a focus_client_scheme option" where
  "select_tgt_extra actor target_unit target_tile potential_tgt_extras s =
     (if st_get (cl_unit_types s) (u_type actor) = None
         \<or> list_ex (\<lambda>x. st_get (rs_extras (cl_ruleset s)) (x_id x) = None) potential_tgt_extras
         \<or> (list_ex (\<lambda>x. tile_has_extra (index_to_tile (cl_tiles s) (t_index target_tile)) (x_id x)) potential_tgt_extras
            \<and> (case Option.bind (index_to_tile (cl_tiles s) (t_index target_tile)) (extra_owner s) of
                 None \<Rightarrow> False | Some p \<Rightarrow> st_get (cl_nations s) (p_nation p) = None))
      then None
      else Some (open_followup SelTgtExtra (u_id actor)
             (map (\<lambda>x. FuAsk (case target_unit of None \<Rightarrow> IDENTITY_NUMBER_ZERO | Some u \<Rightarrow> u_id u)
                        (t_index target_tile) (x_id x)) potential_tgt_extras) s))"

subsection \<open>Clicks\<close>

definition close_act_dialog :: "int \<Rightarrow> 'a focus_client_scheme \<Rightarrow> 'a focus_client_scheme" where
  "close_act_dialog actor_id s = act_sel_queue_may_be_done actor_id (s\<lparr>fc_dialogs := st_del actor_id (fc_dialogs s)\<rparr>)"

definition needs_follow_up :: "int \<Rightarrow> bool" where
  "needs_follow_up action_id =
     (action_id \<in> set [ACTION_SPY_TARGETED_SABOTAGE_CITY, ACTION_SPY_TARGETED_SABOTAGE_CITY_ESC,
        ACTION_SPY_INCITE_CITY, ACTION_SPY_INCITE_CITY_ESC, ACTION_SPY_BRIBE_UNIT, ACTION_UPGRADE_UNIT])"

definition act_sel_click_function :: "int \<Rightarrow> int \<Rightarrow> int \<Rightarrow> int \<Rightarrow> act_prob list
    \<Rightarrow> 'a focus_client_scheme \<Rightarrow> 'a focus_client_scheme option" where
  "act_sel_click_function actor_unit_id tgt_id sub_tgt_id action_id probs s =
     (let wait = (\<lambda>s. s\<lparr>fc_more_input := True, fc_dialogs := st_del actor_unit_id (fc_dialogs s)\<rparr>)
      in if action_id = ACTION_SPY_TARGETED_STEAL_TECH \<or> action_id = ACTION_SPY_TARGETED_STEAL_TECH_ESC
         then map_option wait (popup_steal_tech_selection_dialog (st_get (cl_units s) actor_unit_id)
                                 (st_get (cl_cities s) tgt_id) probs action_id s)
         else if needs_follow_up action_id
         then Some (wait (emit (Send [(''pid'', JConst ''packet_unit_action_query''), (''actor_id'', JNum actor_unit_id),
                      (''target_id'', JNum tgt_id), (''action_type'', JNum action_id),
                      (''request_kind'', JNum REQEST_PLAYER_INITIATED)]) s))
         else if action_id = ACTION_FOUND_CITY
         then Some (wait (emit (Send [(''pid'', JConst ''packet_city_name_suggestion_req''),
                      (''unit_id'', JNum actor_unit_id)]) s))
         else Some (close_act_dialog actor_unit_id
                      (request_unit_do_action action_id actor_unit_id tgt_id sub_tgt_id [] s)))"

text \<open>
  A click on a button of the dialog \<open>d\<close> of an actor.  The dialog keeps the object of the actor;
  a removed unit keeps its fields, \<open>actor\<close> being the last known ones.
\<close>

fun act_button_click :: "unit_rec \<Rightarrow> act_dialog \<Rightarrow> act_button
    \<Rightarrow> 'a focus_client_scheme \<Rightarrow> 'a focus_client_scheme option" where
  "act_button_click actor d (ActButton a tgt sub) s = act_sel_click_function (u_id actor) tgt sub a (ad_probs d) s"
| "act_button_click actor d ChangeTgtUnit s =
     Option.bind (index_to_tile (cl_tiles s) (ad_target_tile d)) (\<lambda>t.
       map_option (\<lambda>s1. close_act_dialog (u_id actor) (s1\<lparr>fc_restart := True\<rparr>))
         (select_tgt_unit actor t (t_units t) s))"
| "act_button_click actor d ChangeTgtExtra s =
     Option.bind (index_to_tile (cl_tiles s) (ad_target_tile d)) (\<lambda>t.
       Option.bind (list_potential_target_extras s actor t) (\<lambda>xs.
         map_option (\<lambda>s1. close_act_dialog (u_id actor) (s1\<lparr>fc_restart := True\<rparr>))
           (select_tgt_extra actor (st_get (cl_units s) (ad_target_unit d)) t xs s)))"
| "act_button_click actor d AutoAttackFromNow s =
     (if ad_target_tile d = TILE_INDEX_NONE then None
      else Some (close_act_dialog (u_id actor)
             ((request_unit_do_action ACTION_ATTACK (u_id actor) (ad_target_tile d) 0 [] s)
                \<lparr>fc_auto_attack := True\<rparr>)))"
| "act_button_click actor d WaitButton s = Some (close_act_dialog (u_id actor) (s\<lparr>fc_did_not_decide := True\<rparr>))"
| "act_button_click actor d CancelButton s = Some (close_act_dialog (u_id actor) s)"

fun followup_click :: "followup_kind \<Rightarrow> int \<Rightarrow> followup_button
    \<Rightarrow> 'a focus_client_scheme \<Rightarrow> 'a focus_client_scheme option" where
  "followup_click kind actor (FuDo a who tgt sub) s =
     Some (followup_closed kind actor (request_unit_do_action a who tgt sub [] s))"
| "followup_click kind actor (FuAsk tgt_unit tgt_tile tgt_extra) s =
     Some (remove_followup kind actor
       (emit (Send (unit_get_actions_packet actor tgt_unit (JNum tgt_tile) tgt_extra REQEST_PLAYER_INITIATED)) s))"
| "followup_click kind actor FuClose s = Some (followup_closed kind actor s)"
| "followup_click kind actor FuThrow s = None"

subsection \<open>The name of a new city\<close>

definition city_name_dialog :: "int \<Rightarrow> 'a focus_client_scheme \<Rightarrow> 'a focus_client_scheme" where
  "city_name_dialog unit_id s = s\<lparr>fc_city_name_dialog := Some unit_id\<rparr>"

definition city_name_closed :: "int \<Rightarrow> 'a focus_client_scheme \<Rightarrow> 'a focus_client_scheme" where
  "city_name_closed unit_id s = act_sel_queue_done unit_id (s\<lparr>fc_city_name_dialog := None\<rparr>)"

text \<open>The button Ok tests the name, the enter key does not.\<close>

definition city_name_enter :: "int \<Rightarrow> string \<Rightarrow> 'a focus_client_scheme \<Rightarrow> 'a focus_client_scheme option" where
  "city_name_enter unit_id name s =
     map_option (\<lambda>u. city_name_closed unit_id
         (request_unit_do_action ACTION_FOUND_CITY unit_id (u_tile u) 0 (encodeURIComponent name) s))
       (game_find_unit_by_number s unit_id)"

definition city_name_ok :: "int \<Rightarrow> string \<Rightarrow> 'a focus_client_scheme \<Rightarrow> 'a focus_client_scheme option" where
  "city_name_ok unit_id name s =
     (if length name = 0 \<or> int (length name) \<ge> MAX_LEN_CITYNAME - 6
         \<or> int (length (encodeURIComponent name)) \<ge> MAX_LEN_CITYNAME - 6
      then Some (emit (Ui ''swal'' [JStr ''City name is invalid. Please try a different shorter name.'']) s)
      else city_name_enter unit_id name s)"

definition handle_city_name_suggestion_info :: "string \<Rightarrow> int
    \<Rightarrow> 'a focus_client_scheme \<Rightarrow> 'a focus_client_scheme option" where
  "handle_city_name_suggestion_info name unit_id s =
     map_option (\<lambda>n. emit (Ui ''city_name_req'' [JStr n]) (city_name_dialog unit_id s)) (decodeURIComponent name)"

subsection \<open>The packets\<close>

definition handle_city_sabotage_list :: "int \<Rightarrow> int \<Rightarrow> 32 word list \<Rightarrow> int
    \<Rightarrow> 'a focus_client_scheme \<Rightarrow> 'a focus_client_scheme option" where
  "handle_city_sabotage_list actor_id city_id improvements act_id s =
     popup_sabotage_dialog (game_find_unit_by_number s actor_id) (game_find_city_by_number s city_id)
       (BitVector improvements) act_id s"

definition handle_unit_action_answer :: "int \<Rightarrow> int \<Rightarrow> int \<Rightarrow> int
    \<Rightarrow> 'a focus_client_scheme \<Rightarrow> 'a focus_client_scheme option" where
  "handle_unit_action_answer diplomat_id target_id cost action_type s =
     (let done = Some (act_sel_queue_done diplomat_id s)
      in case game_find_unit_by_number s diplomat_id of
           None \<Rightarrow> done
         | Some actor \<Rightarrow>
             (if action_type = ACTION_SPY_BRIBE_UNIT
              then (case game_find_unit_by_number s target_id of
                      None \<Rightarrow> done | Some u \<Rightarrow> popup_bribe_dialog actor u cost action_type s)
              else if action_type = ACTION_SPY_INCITE_CITY \<or> action_type = ACTION_SPY_INCITE_CITY_ESC
              then (case game_find_city_by_number s target_id of
                      None \<Rightarrow> done | Some c \<Rightarrow> popup_incite_dialog actor c cost action_type s)
              else if action_type = ACTION_UPGRADE_UNIT
              then (case game_find_city_by_number s target_id of
                      None \<Rightarrow> done | Some c \<Rightarrow> popup_unit_upgrade_dlg actor c cost action_type s)
              else done))"

text \<open>The automatic attack: the first possible action of the list, if the option is on.\<close>

fun auto_loop :: "unit_rec option \<Rightarrow> act_prob list \<Rightarrow> tile option \<Rightarrow> int list
    \<Rightarrow> 'a focus_client_scheme \<Rightarrow> 'a focus_client_scheme option" where
  "auto_loop actor probs target_tile [] s = Some (action_decision_request actor s)"
| "auto_loop actor probs target_tile (a # as) s =
     (case prob_at probs a of None \<Rightarrow> None
      | Some p \<Rightarrow>
          (if action_prob_possible p \<and> fc_auto_attack s
           then (case target_tile of None \<Rightarrow> None
                 | Some t \<Rightarrow>
                     (if a = ACTION_NUKE_CITY \<and> tile_city s (Some t) = None
                      then auto_loop actor probs target_tile as s
                      else map_option (\<lambda>u. request_unit_do_action a (u_id u)
                             (if a = ACTION_NUKE_CITY then (case tile_city s (Some t) of None \<Rightarrow> 0 | Some c \<Rightarrow> c_id c)
                              else t_index t) 0 [] s) actor))
           else auto_loop actor probs target_tile as s))"

definition action_decision_maybe_auto :: "unit_rec option \<Rightarrow> act_prob list \<Rightarrow> tile option
    \<Rightarrow> 'a focus_client_scheme \<Rightarrow> 'a focus_client_scheme option" where
  "action_decision_maybe_auto actor_unit probs target_tile s =
     auto_loop actor_unit probs target_tile auto_attack_actions s"

record unit_actions_packet =
  ua_actor_unit_id :: int
  ua_target_unit_id :: int
  ua_target_city_id :: int
  ua_target_tile_id :: int
  ua_target_extra_id :: int
  ua_request_kind :: int
  ua_action_probabilities :: "act_prob list"

definition handle_unit_actions :: "unit_actions_packet \<Rightarrow> 'a focus_client_scheme \<Rightarrow> 'a focus_client_scheme option" where
  "handle_unit_actions pkt s =
     (let actor_id = ua_actor_unit_id pkt;
          probs = ua_action_probabilities pkt;
          pdiplomat = game_find_unit_by_number s actor_id;
          target_unit = game_find_unit_by_number s (ua_target_unit_id pkt);
          target_city = game_find_city_by_number s (ua_target_city_id pkt);
          ptile = index_to_tile (cl_tiles s) (ua_target_tile_id pkt);
          target_extra = extra_by_number (rs_extras (cl_ruleset s)) (ua_target_extra_id pkt);
          hasActions = (pdiplomat \<noteq> None \<and> ptile \<noteq> None \<and> list_ex action_prob_possible probs)
      in if ua_request_kind pkt = REQEST_PLAYER_INITIATED
         then (if hasActions
               then popup_action_selection pdiplomat probs ptile target_extra target_unit target_city s
               else Some (action_selection_next_in_focus actor_id
                      (action_decision_clear_want actor_id
                        (action_selection_no_longer_in_progress actor_id s))))
         else if ua_request_kind pkt = REQEST_BACKGROUND_REFRESH
         then action_selection_refresh pdiplomat target_city target_unit ptile target_extra probs s
         else if ua_request_kind pkt = REQEST_BACKGROUND_FAST_AUTO_ATTACK
         then action_decision_maybe_auto pdiplomat probs ptile s
         else Some s)"

end
