(* ===== verification/Orders.thy ===== *)
theory Orders
  imports Action_Dialog
begin

text \<open>
  The orders to the units in focus (\<open>control.js\<close>): the goto, the order keys, the requests they
  send, and \<open>do_map_click\<close>, the click on a tile of the map.  A timer is an effect: its function
  runs later as an operation of its own.  The loops over the units in focus are folds; a unit that
  a handler changes is changed in \<open>units\<close>.
\<close>

definition setTimeout :: "string \<Rightarrow> int \<Rightarrow> effect" where
  "setTimeout f ms = Ui ''setTimeout'' [JStr f, JNum ms]"

definition upd_unit :: "int \<Rightarrow> (unit_rec \<Rightarrow> unit_rec) \<Rightarrow> 'a client_scheme \<Rightarrow> 'a client_scheme" where
  "upd_unit k f s = s\<lparr>cl_units := st_upd k f (cl_units s)\<rparr>"

text \<open>A loop whose body may throw.\<close>

fun each :: "('b \<Rightarrow> 's \<Rightarrow> 's option) \<Rightarrow> 'b list \<Rightarrow> 's \<Rightarrow> 's option" where
  "each f [] s = Some s"
| "each f (x # xs) s = Option.bind (f x s) (each f xs)"

subsection \<open>Requests for a unit\<close>

definition request_unit_cancel_orders :: "unit_rec \<Rightarrow> 'a client_scheme \<Rightarrow> 'a client_scheme" where
  "request_unit_cancel_orders punit s =
     (if u_ssa_controller punit \<noteq> Some SSA_NONE \<or> u_has_orders punit = Some True
      then emit (Send [(''pid'', JConst ''packet_unit_orders''), (''unit_id'', JNum (u_id punit)),
                       (''src_tile'', JNum (u_tile punit)), (''length'', JNum 0), (''repeat'', JBool False),
                       (''vigilant'', JBool False), (''dest_tile'', JNum (u_tile punit)), (''orders'', JArr [])])
             (upd_unit (u_id punit) (\<lambda>u. u\<lparr>u_ssa_controller := Some SSA_NONE, u_has_orders := Some False\<rparr>) s)
      else s)"

definition request_new_unit_activity :: "unit_rec \<Rightarrow> int \<Rightarrow> int
    \<Rightarrow> 'a focus_client_scheme \<Rightarrow> 'a focus_client_scheme" where
  "request_new_unit_activity punit activity target s =
     emit (Send [(''pid'', JConst ''packet_unit_change_activity''), (''unit_id'', JNum (u_id punit)),
                 (''activity'', JNum activity), (''target'', JNum target)])
       (action_decision_clear_want (u_id punit) (request_unit_cancel_orders punit s))"

definition request_unit_ssa_set :: "unit_rec option \<Rightarrow> int \<Rightarrow> 'a client_scheme \<Rightarrow> 'a client_scheme" where
  "request_unit_ssa_set punit agent s =
     (case punit of None \<Rightarrow> s
      | Some u \<Rightarrow> emit (Send [(''pid'', JConst ''packet_unit_server_side_agent_set''),
                              (''unit_id'', JNum (u_id u)), (''agent'', JNum agent)]) s)"

definition request_unit_autosettlers :: "unit_rec option \<Rightarrow> 'a focus_client_scheme \<Rightarrow> 'a focus_client_scheme" where
  "request_unit_autosettlers punit s =
     (case punit of None \<Rightarrow> s
      | Some u \<Rightarrow> request_unit_ssa_set punit SSA_AUTOSETTLER
                    (action_decision_clear_want (u_id u) (request_unit_cancel_orders u s)))"

text \<open>
  Inside a city the unit joins it, but \<open>packet\<close> stays \<open>null\<close> and is sent as well.  An unknown
  type throws.
\<close>

definition request_unit_build_city :: "'a focus_client_scheme \<Rightarrow> 'a focus_client_scheme option" where
  "request_unit_build_city s =
     (case focus_units s of [] \<Rightarrow> Some s
      | punit # _ \<Rightarrow>
          (if u_movesleft punit = Some 0
           then Some (emit (Ui ''message_log.update'' [JStr ''Unit has no moves left to build city'']) s)
           else case unit_type_of s punit of
                  None \<Rightarrow> None
                | Some ptype \<Rightarrow>
                    Some (if ut_name ptype = ''Settlers'' \<or> ut_name ptype = ''Engineers''
                          then (case tile_city s (index_to_tile (cl_tiles s) (u_tile punit)) of
                                  None \<Rightarrow> emit (Send [(''pid'', JConst ''packet_city_name_suggestion_req''),
                                                     (''unit_id'', JNum (u_id punit))]) s
                                | Some c \<Rightarrow> emit SendNull
                                    (request_unit_do_action ACTION_JOIN_CITY (u_id punit) (c_id c) 0 [] s))
                          else s)))"

subsection \<open>Goto\<close>

definition user_help :: "string \<Rightarrow> effect" where
  "user_help msg = Ui ''message_log.update'' [JStr msg]"

definition deactivate_goto :: "bool \<Rightarrow> 'a focus_client_scheme \<Rightarrow> 'a focus_client_scheme" where
  "deactivate_goto will_advance_unit_focus s =
     emits (Ui ''clear_goto_tiles'' [] # (if will_advance_unit_focus then [setTimeout ''update_unit_focus'' 600] else []))
       (s\<lparr>fc_goto_active := False, fc_goto_paths := [],
          fc_goto_last_order := ORDER_LAST, fc_goto_last_action := ACTION_COUNT\<rparr>)"

definition activate_goto_last :: "bool \<Rightarrow> int \<Rightarrow> int \<Rightarrow> 'a focus_client_scheme \<Rightarrow> 'a focus_client_scheme" where
  "activate_goto_last touch last_order last_action s =
     (let s1 = s\<lparr>fc_goto_active := True, fc_goto_last_order := last_order, fc_goto_last_action := last_action\<rparr>
      in if get_units_in_focus s1 \<noteq> []
         then (if fc_intro_click s1
               then (emit (user_help (if touch then ''Carefully drag unit to the tile you want it to go to.''
                                 else ''Move this unit by dragging it using the mouse, or select an action from the popup-menu.'')) s1)
                      \<lparr>fc_intro_click := False\<rparr>
               else s1)
         else deactivate_goto False
                (emit (user_help ''First select a unit to move by clicking on it, then click on the goto button or the 'G' key, then click on the position to move to.'') s1))"

definition activate_goto :: "bool \<Rightarrow> 'a focus_client_scheme \<Rightarrow> 'a focus_client_scheme" where
  "activate_goto touch s = activate_goto_last touch ORDER_LAST ACTION_COUNT (emit (Ui ''clear_goto_tiles'' []) s)"

definition put_path :: "int \<times> int option \<times> int option \<Rightarrow> goto_path option
    \<Rightarrow> 'a focus_client_scheme \<Rightarrow> 'a focus_client_scheme" where
  "put_path k p s = s\<lparr>fc_goto_paths := (k, p) # filter (\<lambda>(k', _). k' \<noteq> k) (fc_goto_paths s)\<rparr>"

text \<open>\<open>update_goto_path\<close> on a path packet; a goal off the map throws.\<close>

definition update_goto_path :: "goto_path \<Rightarrow> 'a focus_client_scheme \<Rightarrow> 'a focus_client_scheme option" where
  "update_goto_path pkt s =
     (case st_get (cl_units s) (gp_unit_id pkt) of
        None \<Rightarrow> Some s
      | Some punit \<Rightarrow>
          (case index_to_tile (cl_tiles s) (gp_dest pkt) of
             None \<Rightarrow> None
           | Some goal \<Rightarrow>
               Some (emit (Ui ''update_mouse_cursor'' [])
                 (put_path (gp_unit_id pkt, t_x goal, t_y goal) (Some pkt)
                   ((emit (Ui ''webgl_render_goto_line'' [tile_json (index_to_tile (cl_tiles s) (u_tile punit))]) s)
                      \<lparr>fc_goto_turns := gp_turns pkt\<rparr>)))))"

definition request_goto_path :: "int \<Rightarrow> int \<Rightarrow> int \<Rightarrow> 'a focus_client_scheme \<Rightarrow> 'a focus_client_scheme option" where
  "request_goto_path unit_id dst_x dst_y s =
     (if \<not> fc_goto_active s then Some s
      else case map_of (fc_goto_paths s) (unit_id, Some dst_x, Some dst_y) of
             None \<Rightarrow>
               map_option (\<lambda>goal.
                 emits [Send [(''pid'', JConst ''packet_web_goto_path_req''), (''unit_id'', JNum unit_id),
                              (''goal'', JNum (t_index goal))],
                        Ui ''unit_text_details'' [JStr ''Choose unit goto''], setTimeout ''update_mouse_cursor'' 700]
                   ((put_path (unit_id, Some dst_x, Some dst_y) None s)\<lparr>fc_goto_turns := None\<rparr>))
                 (map_pos_to_tile (cl_map s) (cl_tiles s) dst_x dst_y)
           | Some None \<Rightarrow> Some s
           | Some (Some pkt) \<Rightarrow> update_goto_path pkt s)"

subsection \<open>The orders along a path\<close>

definition order_obj :: "int \<Rightarrow> int \<Rightarrow> int \<Rightarrow> int option \<Rightarrow> jval" where
  "order_obj order action target dir =
     JObj ([(''order'', JNum order), (''activity'', JNum ACTIVITY_LAST), (''target'', JNum target),
            (''sub_target'', JNum 0), (''action'', JNum action)]
           @ (case dir of None \<Rightarrow> [] | Some d \<Rightarrow> [(''dir'', JNum d)]))"

definition path_dir :: "goto_path \<Rightarrow> nat \<Rightarrow> int option" where
  "path_dir p i = (if i < length (gp_dir p) then Some (gp_dir p ! i) else None)"

definition path_order :: "goto_path \<Rightarrow> nat \<Rightarrow> jval" where
  "path_order p i =
     order_obj (if path_dir p i = Some (- 1) then ORDER_FULL_MP
                else if i + 1 \<noteq> gp_length p then ORDER_MOVE else ORDER_ACTION_MOVE)
       ACTION_COUNT 0 (path_dir p i)"

definition path_orders :: "goto_path \<Rightarrow> jval list" where
  "path_orders p = map (path_order p) [0..<gp_length p]"

definition order_wants_direction :: "'a client_scheme \<Rightarrow> int \<Rightarrow> int \<Rightarrow> tile \<Rightarrow> bool" where
  "order_wants_direction s order act_id ptile =
     (case (st_get (cl_actions s) act_id, order = ORDER_PERFORM_ACTION) of
        (None, True) \<Rightarrow> False
      | (Some action, True) \<Rightarrow>
          (if ac_min_distance action > 0 then True
           else if ac_max_distance action < 1 then False
           else tile_city s (Some ptile) \<noteq> None \<or> t_units ptile \<noteq> [])
      | (_, False) \<Rightarrow> order = ORDER_MOVE \<or> order = ORDER_ACTION_MOVE)"

text \<open>
  The final order, if one is specified: it replaces the last order of the path or is appended.
  With an empty path the replaced index is \<open>- 1\<close>, a property that is not sent.
\<close>

definition goto_orders :: "'a focus_client_scheme \<Rightarrow> tile \<Rightarrow> goto_path \<Rightarrow> jval list" where
  "goto_orders s ptile p =
     (let os = path_orders p; last_order = fc_goto_last_order s; last_action = fc_goto_last_action s
      in if last_order = ORDER_LAST then os
         else if \<not> order_wants_direction s last_order last_action ptile
         then os @ [order_obj last_order last_action (t_index ptile) (Some (- 1))]
         else (case gp_length p of 0 \<Rightarrow> os
               | Suc n \<Rightarrow> os[n := order_obj last_order last_action (t_index ptile) (path_dir p n)]))"

definition orders_packet :: "int \<Rightarrow> int \<Rightarrow> jval list \<Rightarrow> int \<Rightarrow> packet" where
  "orders_packet unit_id src_tile os dest_tile =
     [(''pid'', JConst ''packet_unit_orders''), (''unit_id'', JNum unit_id), (''src_tile'', JNum src_tile),
      (''length'', JNum (int (length os))), (''repeat'', JBool False), (''vigilant'', JBool False),
      (''dest_tile'', JNum dest_tile), (''orders'', JArr os)]"

subsection \<open>Clicking a tile\<close>

text \<open>\<open>do_unit_paradrop_to\<close>: the paradrop actions the unit's type can do, in the order of their ids.\<close>

definition paradrop_actions :: "'a client_scheme \<Rightarrow> unit_rec \<Rightarrow> int list" where
  "paradrop_actions s punit =
     filter (\<lambda>a. (action_has_result (action_by_number (cl_actions s) a) ACTRES_PARADROP_CONQUER = Some True
                  \<or> action_has_result (action_by_number (cl_actions s) a) ACTRES_PARADROP = Some True)
                 \<and> utype_can_do_action (unit_type_of s punit) a) [0..ACTION_COUNT - 1]"

definition sscs_set_packet :: "int \<Rightarrow> int \<Rightarrow> packet" where
  "sscs_set_packet unit_id v =
     [(''pid'', JConst ''packet_unit_sscs_set''), (''unit_id'', JNum unit_id), (''type'', JNum USSDT_QUEUE),
      (''value'', JNum v)]"

definition do_unit_paradrop_to :: "unit_rec \<Rightarrow> tile \<Rightarrow> 'a focus_client_scheme \<Rightarrow> 'a focus_client_scheme" where
  "do_unit_paradrop_to punit ptile s =
     (case paradrop_actions s punit of
        [] \<Rightarrow> s
      | [a] \<Rightarrow> (case st_get (cl_actions s) a of None \<Rightarrow> s
                | Some act \<Rightarrow> request_unit_do_action (ac_id act) (u_id punit) (t_index ptile) 0 [] s)
      | _ \<Rightarrow> emit (Send (sscs_set_packet (u_id punit) (t_index ptile))) s)"

definition request_unit_act_sel_vs :: "tile \<Rightarrow> 'a focus_client_scheme \<Rightarrow> 'a focus_client_scheme" where
  "request_unit_act_sel_vs ptile s =
     emits (map (\<lambda>k. Send (sscs_set_packet k (t_index ptile))) (get_units_in_focus s)) s"

definition request_unit_act_sel_vs_own_tile :: "'a focus_client_scheme \<Rightarrow> 'a focus_client_scheme" where
  "request_unit_act_sel_vs_own_tile s =
     emits (map (\<lambda>u. Send (sscs_set_packet (u_id u) (u_tile u))) (focus_units s)) s"

definition set_unit_focus_and_activate :: "(unit_rec list \<Rightarrow> unit_rec list) \<Rightarrow> unit_rec
    \<Rightarrow> 'a focus_client_scheme \<Rightarrow> 'a focus_client_scheme option" where
  "set_unit_focus_and_activate srt punit s =
     map_option (request_new_unit_activity punit ACTIVITY_IDLE EXTRA_NONE) (set_unit_focus_and_redraw (Some punit) s)"

text \<open>
  The goto of one unit: \<open>Inl\<close> when \<open>do_map_click\<close> returns because the path is for another unit (or
  is still on its way), \<open>Inr\<close> when the loop goes on.  The final order is cleared with the first
  unit that has a path, before the packet is checked.
\<close>

definition send_path :: "unit_rec \<Rightarrow> tile \<Rightarrow> tile \<Rightarrow> goto_path \<Rightarrow> 'a focus_client_scheme
    \<Rightarrow> 'a focus_client_scheme option" where
  "send_path punit old_tile ptile p s =
     (let s1 = emit (Send (orders_packet (u_id punit) (t_index old_tile) (goto_orders s ptile p) (t_index ptile)))
                 (s\<lparr>fc_goto_last_order := ORDER_LAST, fc_goto_last_action := ACTION_COUNT\<rparr>)
      in if opt_test (\<lambda>m. m > 0) (u_movesleft punit)
         then Some (emit (Ui ''unit_move_sound_play'' [JNum (u_id punit)]) s1)
         else if fc_movesleft_warned s1 then Some s1
         else map_option (\<lambda>ptype. emit (user_help (ut_name ptype @ '' has no moves left. Press turn done for the next turn.''))
                (s1\<lparr>fc_movesleft_warned := True\<rparr>)) (unit_type_of s1 punit))"

definition goto_unit :: "tile \<Rightarrow> int \<Rightarrow> 'a focus_client_scheme
    \<Rightarrow> ('a focus_client_scheme + 'a focus_client_scheme) option" where
  "goto_unit ptile k s =
     (case st_get (cl_units s) k of
        None \<Rightarrow> Some (Inr s)
      | Some punit \<Rightarrow>
          (case map_of (fc_goto_paths s) (k, t_x ptile, t_y ptile) of
             None \<Rightarrow> Some (Inr s)
           | Some path \<Rightarrow>
               (case index_to_tile (cl_tiles s) (u_tile punit) of
                  None \<Rightarrow> None
                | Some old_tile \<Rightarrow>
                    (let stop = Some (Inl (s\<lparr>fc_goto_last_order := ORDER_LAST, fc_goto_last_action := ACTION_COUNT\<rparr>))
                     in case path of
                          None \<Rightarrow> stop
                        | Some p \<Rightarrow> (if gp_unit_id p \<noteq> k then stop
                                     else map_option Inr (send_path punit old_tile ptile p s))))))"

fun goto_loop_units :: "tile \<Rightarrow> int list \<Rightarrow> 'a focus_client_scheme
    \<Rightarrow> ('a focus_client_scheme + 'a focus_client_scheme) option" where
  "goto_loop_units ptile [] s = Some (Inr s)"
| "goto_loop_units ptile (k # ks) s =
     (case goto_unit ptile k s of
        None \<Rightarrow> None
      | Some (Inl s1) \<Rightarrow> Some (Inl s1)
      | Some (Inr s1) \<Rightarrow> goto_loop_units ptile ks s1)"

definition clear_modes :: "'a focus_client_scheme \<Rightarrow> 'a focus_client_scheme" where
  "clear_modes s = s\<lparr>fc_paradrop_active := False, fc_airlift_active := False, fc_tgt_sel_active := False\<rparr>"

text \<open>The branch of an active goto; \<open>clear_goto_tiles\<close> only runs when units are in focus.\<close>

definition click_goto :: "(unit_rec list \<Rightarrow> unit_rec list) \<Rightarrow> tile
    \<Rightarrow> 'a focus_client_scheme \<Rightarrow> 'a focus_client_scheme option" where
  "click_goto srt ptile s =
     (let finish = (\<lambda>s. map_option clear_modes (update_unit_focus srt (deactivate_goto True s)))
      in if get_units_in_focus s = [] then finish s
         else case goto_loop_units ptile (get_units_in_focus s) s of
                None \<Rightarrow> None
              | Some (Inl s1) \<Rightarrow> Some s1
              | Some (Inr s1) \<Rightarrow> finish (emit (Ui ''clear_goto_tiles'' []) s1))"

definition own_by_player :: "'a client_scheme \<Rightarrow> int \<Rightarrow> bool" where
  "own_by_player s owner = (map_option p_playerno (playing s) = Some owner)"

definition context_menu :: effect where
  "context_menu = Ui ''contextMenu'' []"

text \<open>The click with no mode active: select a unit, a stack, a city, or nothing.\<close>

definition click_select :: "(unit_rec list \<Rightarrow> unit_rec list) \<Rightarrow> bool \<Rightarrow> tile
    \<Rightarrow> 'a focus_client_scheme \<Rightarrow> 'a focus_client_scheme option" where
  "click_select srt touch ptile s =
     (let sunits = List.map_filter (st_get (cl_units s)) (t_units ptile)
      in case tile_city s (Some ptile) of
           Some pcity \<Rightarrow>
             (if own_by_player s (c_owner pcity)
              then (case sunits of
                      u # _ \<Rightarrow> (if u_activity u = Some ACTIVITY_IDLE
                                then map_option (emit context_menu) (set_unit_focus_and_redraw (Some u) s)
                                else Some (open_city (Some (c_id pcity)) s))
                    | [] \<Rightarrow> Some (open_city (Some (c_id pcity)) s))
              else Some s)
         | None \<Rightarrow>
             map_option clear_modes
               (case sunits of
                  [] \<Rightarrow> set_unit_focus_and_redraw None s
                | u # us \<Rightarrow>
                    (if own_by_player s (u_owner u)
                     then map_option (\<lambda>s1. if touch then emit context_menu s1 else s1)
                            (if us = [] then set_unit_focus_and_activate srt u s
                             else map_option (emit (Ui ''update_active_units_dialog'' []))
                                    (set_unit_focus_and_redraw (Some u) s))
                     else Some (emits [Ui ''hide'' [JStr ''#game_unit_orders_default''],
                                       Ui ''update_active_units_dialog'' []]
                                 (s\<lparr>fc_focus := FocusTile (t_index ptile)\<rparr>)))))"

definition do_map_click :: "(unit_rec list \<Rightarrow> unit_rec list) \<Rightarrow> bool \<Rightarrow> tile option
    \<Rightarrow> 'a focus_client_scheme \<Rightarrow> 'a focus_client_scheme option" where
  "do_map_click srt touch ptile s =
     (case ptile of
        None \<Rightarrow> Some s
      | Some t \<Rightarrow>
          (if client_is_observer s then Some s
           else if ui_active_city s \<noteq> None then do_city_map_click t s
           else (case focus_units s of
                   funit # _ \<Rightarrow>
                     (if u_tile funit = t_index t
                      then Some (emit context_menu
                                  (if fc_goto_active s \<and> \<not> touch then deactivate_goto False s else s))
                      else if fc_goto_active s then click_goto srt t s
                      else if fc_paradrop_active s
                      then Some (clear_modes (do_unit_paradrop_to funit t s))
                      else if fc_airlift_active s
                      then Some (clear_modes
                             (case tile_city s (Some t) of None \<Rightarrow> s
                              | Some c \<Rightarrow> request_unit_do_action ACTION_AIRLIFT (u_id funit) (c_id c) 0 [] s))
                      else if fc_tgt_sel_active s
                      then Some (clear_modes (request_unit_act_sel_vs t s))
                      else click_select srt touch t s)
                 | [] \<Rightarrow> (if fc_goto_active s then click_goto srt t s else click_select srt touch t s))))"

subsection \<open>The order keys\<close>

text \<open>The loops over the units in focus, without and with exceptions.\<close>

definition focus_do :: "(unit_rec \<Rightarrow> 'a focus_client_scheme \<Rightarrow> 'a focus_client_scheme) \<Rightarrow> int list
    \<Rightarrow> 'a focus_client_scheme \<Rightarrow> 'a focus_client_scheme" where
  "focus_do f ks s = foldl (\<lambda>s k. case st_get (cl_units s) k of None \<Rightarrow> s | Some u \<Rightarrow> f u s) s ks"

definition focus_try :: "(unit_rec \<Rightarrow> 'a focus_client_scheme \<Rightarrow> 'a focus_client_scheme option) \<Rightarrow> int list
    \<Rightarrow> 'a focus_client_scheme \<Rightarrow> 'a focus_client_scheme option" where
  "focus_try f ks s = each (\<lambda>k s. case st_get (cl_units s) k of None \<Rightarrow> Some s | Some u \<Rightarrow> f u s) ks s"

abbreviation focus_later :: "effect" where
  "focus_later \<equiv> setTimeout ''update_unit_focus'' 700"

definition activity_key :: "int \<Rightarrow> int \<Rightarrow> 'a focus_client_scheme \<Rightarrow> 'a focus_client_scheme" where
  "activity_key activity target s =
     emit focus_later (focus_do (\<lambda>u. request_new_unit_activity u activity target) (get_units_in_focus s) s)"

definition key_unit_idle :: "'a focus_client_scheme \<Rightarrow> 'a focus_client_scheme" where
  "key_unit_idle = activity_key ACTIVITY_IDLE EXTRA_NONE"

definition key_unit_sentry :: "'a focus_client_scheme \<Rightarrow> 'a focus_client_scheme" where
  "key_unit_sentry = activity_key ACTIVITY_SENTRY EXTRA_NONE"

definition key_unit_fortify :: "'a focus_client_scheme \<Rightarrow> 'a focus_client_scheme" where
  "key_unit_fortify = activity_key ACTIVITY_FORTIFYING EXTRA_NONE"

definition key_unit_fortress :: "'a focus_client_scheme \<Rightarrow> 'a focus_client_scheme" where
  "key_unit_fortress = activity_key ACTIVITY_BASE EXTRA_NONE"

definition key_unit_airbase :: "'a focus_client_scheme \<Rightarrow> 'a focus_client_scheme" where
  "key_unit_airbase s = activity_key ACTIVITY_BASE (rs_EXTRA_AIRBASE (cl_ruleset s)) s"

definition key_unit_irrigate :: "'a focus_client_scheme \<Rightarrow> 'a focus_client_scheme" where
  "key_unit_irrigate = activity_key ACTIVITY_IRRIGATE EXTRA_NONE"

definition key_unit_cultivate :: "'a focus_client_scheme \<Rightarrow> 'a focus_client_scheme" where
  "key_unit_cultivate = activity_key ACTIVITY_CULTIVATE EXTRA_NONE"

definition key_unit_clean :: "'a focus_client_scheme \<Rightarrow> 'a focus_client_scheme" where
  "key_unit_clean = activity_key ACTIVITY_CLEAN EXTRA_NONE"

definition key_unit_transform :: "'a focus_client_scheme \<Rightarrow> 'a focus_client_scheme" where
  "key_unit_transform = activity_key ACTIVITY_TRANSFORM EXTRA_NONE"

definition key_unit_mine :: "'a focus_client_scheme \<Rightarrow> 'a focus_client_scheme" where
  "key_unit_mine = activity_key ACTIVITY_MINE EXTRA_NONE"

definition key_unit_plant :: "'a focus_client_scheme \<Rightarrow> 'a focus_client_scheme" where
  "key_unit_plant = activity_key ACTIVITY_PLANT EXTRA_NONE"

definition key_unit_auto_explore :: "'a focus_client_scheme \<Rightarrow> 'a focus_client_scheme" where
  "key_unit_auto_explore s =
     emit focus_later (focus_do (\<lambda>u. request_unit_ssa_set (Some u) SSA_AUTOEXPLORE) (get_units_in_focus s) s)"

definition key_unit_auto_settle :: "'a focus_client_scheme \<Rightarrow> 'a focus_client_scheme" where
  "key_unit_auto_settle s =
     (if get_num_cities s = 0
      then emit (user_help ''Can't activate Auto Settlers, because no cities are built yet.'') s
      else emit focus_later (focus_do (\<lambda>u. request_unit_autosettlers (Some u)) (get_units_in_focus s) s))"

text \<open>The extra named in the ruleset; a missing one throws.\<close>

definition extra_named :: "'a client_scheme \<Rightarrow> string \<Rightarrow> extra option" where
  "extra_named s n = List.find (\<lambda>x. x_name x = n) (rev (st_vals (rs_extras (cl_ruleset s))))"

definition key_unit_road :: "'a focus_client_scheme \<Rightarrow> 'a focus_client_scheme option" where
  "key_unit_road s =
     map_option (emit focus_later) (focus_try (\<lambda>u s.
       let ptile = index_to_tile (cl_tiles s) (u_tile u)
       in if \<not> tile_has_extra ptile (rs_EXTRA_ROAD (cl_ruleset s))
          then map_option (\<lambda>x. request_new_unit_activity u ACTIVITY_GEN_ROAD (x_id x) s) (extra_named s ''Road'')
          else if \<not> tile_has_extra ptile (rs_EXTRA_RAIL (cl_ruleset s))
          then map_option (\<lambda>x. request_new_unit_activity u ACTIVITY_GEN_ROAD (x_id x) s) (extra_named s ''Railroad'')
          else Some s) (get_units_in_focus s) s)"

definition key_unit_upgrade :: "(unit_rec list \<Rightarrow> unit_rec list)
    \<Rightarrow> 'a focus_client_scheme \<Rightarrow> 'a focus_client_scheme option" where
  "key_unit_upgrade srt s =
     update_unit_focus srt (focus_do (\<lambda>u s. request_unit_do_action ACTION_UPGRADE_UNIT (u_id u)
         (case tile_city s (index_to_tile (cl_tiles s) (u_tile u)) of None \<Rightarrow> 0 | Some c \<Rightarrow> c_id c) 0 [] s)
       (get_units_in_focus s) s)"

definition key_unit_homecity :: "'a focus_client_scheme \<Rightarrow> 'a focus_client_scheme" where
  "key_unit_homecity s =
     focus_do (\<lambda>u s. case tile_city s (index_to_tile (cl_tiles s) (u_tile u)) of
                        None \<Rightarrow> s
                      | Some c \<Rightarrow> emit (Ui ''hide'' [JStr ''#order_change_homecity''])
                          (request_unit_do_action ACTION_HOME_CITY (u_id u) (c_id c) 0 [] s))
       (get_units_in_focus s) s"

text \<open>The confirmed \<open>key_unit_disband\<close>.\<close>

definition key_unit_disband :: "'a focus_client_scheme \<Rightarrow> 'a focus_client_scheme" where
  "key_unit_disband s =
     emits [focus_later, setTimeout ''update_active_units_dialog'' 800]
       (focus_do (\<lambda>u s. case tile_city s (index_to_tile (cl_tiles s) (u_tile u)) of
                          None \<Rightarrow> request_unit_do_action ACTION_DISBAND_UNIT (u_id u) (u_id u) 0 [] s
                        | Some c \<Rightarrow> request_unit_do_action ACTION_RECYCLE_UNIT (u_id u) (c_id c) 0 [] s)
         (get_units_in_focus s) s)"

definition key_unit_pillage :: "bool \<Rightarrow> 'a focus_client_scheme \<Rightarrow> 'a focus_client_scheme option" where
  "key_unit_pillage pillage_select s =
     map_option (emit focus_later) (focus_try (\<lambda>u s.
       map_option (\<lambda>tgt. case tgt of [] \<Rightarrow> s
           | [x] \<Rightarrow> request_unit_do_action ACTION_PILLAGE (u_id u) (u_tile u) x [] s
           | _ \<Rightarrow> emit (Ui ''popup_pillage_selection_dialog'' (JNum (u_id u) # map JNum tgt)) s)
         (get_what_can_unit_pillage_from s pillage_select (Some u) None)) (get_units_in_focus s) s)"

text \<open>The transport a unit boards: the last one on its tile; a unit of unknown type throws.\<close>

fun transport_loop :: "'a client_scheme \<Rightarrow> int \<Rightarrow> int \<Rightarrow> int list \<Rightarrow> int option" where
  "transport_loop s self found [] = Some found"
| "transport_loop s self found (k # ks) =
     (if k = self then transport_loop s self found ks
      else case Option.bind (st_get (cl_units s) k) (unit_type_of s) of
             None \<Rightarrow> None
           | Some ut \<Rightarrow> transport_loop s self (if ut_transport_capacity ut > 0 then k else found) ks)"

definition key_unit_load :: "'a focus_client_scheme \<Rightarrow> 'a focus_client_scheme option" where
  "key_unit_load s =
     map_option (emit (setTimeout ''advance_unit_focus'' 700)) (focus_try (\<lambda>u s.
       Option.bind (index_to_tile (cl_tiles s) (u_tile u)) (\<lambda>t.
         map_option (\<lambda>transporter.
             if transporter > 0 \<and> u_tile u > 0
             then request_unit_do_action ACTION_TRANSPORT_BOARD (u_id u) transporter 0 [] s else s)
           (transport_loop s (u_id u) 0 (t_units t)))) (get_units_in_focus s) s)"

text \<open>The units on the tile of the last unit in focus; \<open>None\<close> for an unknown tile, which throws.\<close>

definition units_on_focus_tile :: "'a focus_client_scheme \<Rightarrow> int list option" where
  "units_on_focus_tile s =
     (case rev (focus_units s) of [] \<Rightarrow> Some []
      | u # _ \<Rightarrow> tile_units (index_to_tile (cl_tiles s) (u_tile u)))"

definition unload_unit :: "unit_rec \<Rightarrow> 'a focus_client_scheme \<Rightarrow> 'a focus_client_scheme option" where
  "unload_unit u s =
     (let s1 = request_new_unit_activity u ACTIVITY_IDLE EXTRA_NONE s
      in if u_transported u \<and> u_transported_by u > 0
         then (if playing s = None then None
               else Some (if own_by_player s (u_owner u)
                          then request_unit_do_action ACTION_TRANSPORT_DEBOARD (u_id u) (u_transported_by u) 0 [] s1
                          else request_unit_do_action ACTION_TRANSPORT_UNLOAD (u_transported_by u) (u_id u) 0 [] s1))
         else Some (request_unit_do_action ACTION_TRANSPORT_UNLOAD (u_transported_by u) (u_id u) 0 [] s1))"

definition key_unit_unload :: "'a focus_client_scheme \<Rightarrow> 'a focus_client_scheme option" where
  "key_unit_unload s =
     map_option (emit (setTimeout ''advance_unit_focus'' 700))
       (Option.bind (units_on_focus_tile s) (\<lambda>ks. focus_try unload_unit ks s))"

definition key_unit_show_cargo :: "'a focus_client_scheme \<Rightarrow> 'a focus_client_scheme option" where
  "key_unit_show_cargo s =
     map_option (\<lambda>ks. emit (Ui ''update_active_units_dialog'' [])
         (s\<lparr>fc_focus := Focus (filter (\<lambda>k. case st_get (cl_units s) k of None \<Rightarrow> False
              | Some u \<Rightarrow> u_transported u \<and> u_transported_by u > 0) ks)\<rparr>))
       (units_on_focus_tile s)"

definition key_unit_wait :: "(unit_rec list \<Rightarrow> unit_rec list) \<Rightarrow> 'a focus_client_scheme \<Rightarrow> 'a focus_client_scheme option" where
  "key_unit_wait srt s = advance_unit_focus srt (s\<lparr>fc_waiting := fc_waiting s @ get_units_in_focus s\<rparr>)"

definition key_unit_noorders :: "(unit_rec list \<Rightarrow> unit_rec list) \<Rightarrow> 'a focus_client_scheme \<Rightarrow> 'a focus_client_scheme option" where
  "key_unit_noorders srt s =
     advance_unit_focus srt
       (focus_do (\<lambda>u. upd_unit (u_id u) (\<lambda>u. u\<lparr>u_done_moving := Some True\<rparr>)) (get_units_in_focus s) s)"

definition key_unit_nuke :: "bool \<Rightarrow> 'a focus_client_scheme \<Rightarrow> 'a focus_client_scheme" where
  "key_unit_nuke touch s =
     emit (user_help ''Nuke ready for detonation.'') (activate_goto_last touch ORDER_PERFORM_ACTION ACTION_NUKE s)"

definition key_unit_paradrop :: "'a focus_client_scheme \<Rightarrow> 'a focus_client_scheme" where
  "key_unit_paradrop s = emit (user_help ''Click on the tile to send this paratrooper to.'') (s\<lparr>fc_paradrop_active := True\<rparr>)"

definition key_unit_airlift :: "'a focus_client_scheme \<Rightarrow> 'a focus_client_scheme" where
  "key_unit_airlift s = emit (user_help ''Click on the city to airlift this unit to.'') (s\<lparr>fc_airlift_active := True\<rparr>)"

definition key_unit_action_select :: "'a focus_client_scheme \<Rightarrow> 'a focus_client_scheme" where
  "key_unit_action_select s =
     (if fc_tgt_sel_active s
      then request_unit_act_sel_vs_own_tile (s\<lparr>fc_tgt_sel_active := False\<rparr>)
      else emit (user_help ''Click on a tile to act against it. Press 'd' again to act against own tile.'')
             (s\<lparr>fc_tgt_sel_active := True\<rparr>))"

text \<open>
  Whether a transported unit may just move: no foreign units, city, hut or claimed base at the
  new tile.  The conjuncts are evaluated from the left; the outer \<open>None\<close> is an exception.
\<close>

definition plain_move :: "'a client_scheme \<Rightarrow> unit_rec \<Rightarrow> tile \<Rightarrow> bool option" where
  "plain_move s punit newtile =
     (if \<not> u_transported punit then Some False
      else case playing s of
             None \<Rightarrow> None
           | Some me \<Rightarrow>
               (if list_all (\<lambda>k. case st_get (cl_units s) k of None \<Rightarrow> True | Some u \<Rightarrow> u_owner u = p_playerno me)
                     (t_units newtile)
                   \<and> (case tile_city s (Some newtile) of None \<Rightarrow> True | Some c \<Rightarrow> c_owner c = p_playerno me)
                   \<and> \<not> tile_has_extra (Some newtile) (rs_EXTRA_HUT (cl_ruleset s))
                then (if t_extras_owner newtile = Some (p_playerno me) then Some True
                      else map_option Not (tile_has_territory_claiming_extra (rs_extras (cl_ruleset s)) (Some newtile)))
                else Some False))"

definition key_unit_move :: "int \<Rightarrow> 'a focus_client_scheme \<Rightarrow> 'a focus_client_scheme option" where
  "key_unit_move dir s =
     (case focus_units s of
        [] \<Rightarrow> Some (deactivate_goto True s)
      | punit # _ \<Rightarrow>
          (case index_to_tile (cl_tiles s) (u_tile punit) of
             None \<Rightarrow> Some s
           | Some ptile \<Rightarrow>
               (case mapstep (cl_map s) (cl_tiles s) ptile dir of
                  None \<Rightarrow> Some s
                | Some newtile \<Rightarrow>
                    map_option (\<lambda>plain. deactivate_goto True
                        (emits [Send (orders_packet (u_id punit) (t_index ptile)
                                  [order_obj (if plain then ORDER_MOVE else ORDER_ACTION_MOVE) ACTION_COUNT 0 (Some dir)]
                                  (t_index newtile)),
                                Ui ''unit_move_sound_play'' [JNum (u_id punit)]] s))
                      (plain_move s punit newtile))))"

text \<open>\<open>send_end_turn\<close>; \<open>game_info\<close> is there once a game runs.\<close>

definition send_end_turn :: "bool \<Rightarrow> 'a focus_client_scheme \<Rightarrow> 'a focus_client_scheme" where
  "send_end_turn have_game_info s =
     (if \<not> have_game_info then s
      else close_city_dialog
             (emits [Ui ''turn_done_button disabled'' [JBool True],
                     Send [(''pid'', JConst ''packet_player_phase_done''), (''turn'', JNum (cl_turn s))],
                     Ui ''update_turn_change_timer'' []] s))"

subsection \<open>Looking at a tile\<close>

definition find_visible_unit :: "'a focus_client_scheme \<Rightarrow> tile option \<Rightarrow> unit_rec option" where
  "find_visible_unit s ptile =
     (case ptile of None \<Rightarrow> None
      | Some t \<Rightarrow>
          (let vunits = List.map_filter (st_get (cl_units s)) (t_units t)
           in if vunits = [] then None
              else case get_focus_unit_on_tile s t of
                     Some u \<Rightarrow> Some u
                   | None \<Rightarrow>
                       (if tile_city s (Some t) \<noteq> None then None
                        else case List.find (\<lambda>u. u_anim_list u \<noteq> None \<and> u_anim_list u \<noteq> Some []) vunits of
                               Some u \<Rightarrow> Some u
                             | None \<Rightarrow> (case List.find (\<lambda>u. \<not> u_transported u) vunits of
                                          Some u \<Rightarrow> Some u | None \<Rightarrow> Some (hd vunits)))))"

definition popit_req :: "tile option \<Rightarrow> 'a focus_client_scheme \<Rightarrow> 'a focus_client_scheme" where
  "popit_req ptile s =
     (case ptile of None \<Rightarrow> s
      | Some t \<Rightarrow>
          (if tile_get_known (Some t) = Some TILE_UNKNOWN
           then emit (Ui ''show_dialog_message'' [JStr ''Tile info'', opt_json (t_x t), opt_json (t_y t)]) s
           else emit (Send [(''pid'', JConst ''packet_web_info_text_req''),
                            (''visible_unit'', JNum (case find_visible_unit s ptile of None \<Rightarrow> 0 | Some u \<Rightarrow> u_id u)),
                            (''loc'', JNum (t_index t)),
                            (''focus_unit'', JNum (case get_units_in_focus s of [] \<Rightarrow> 0 | k # _ \<Rightarrow> k))]) s))"

definition center_on_any_city :: "'a client_scheme \<Rightarrow> 'a client_scheme" where
  "center_on_any_city s =
     (case st_vals (cl_cities s) of [] \<Rightarrow> s
      | c # _ \<Rightarrow> emit (Ui ''center_tile_mapcanvas'' [tile_json (city_tile s (Some c))]) s)"

text \<open>A drag that started on an own unit (\<open>started\<close>) selects the unit and starts a goto.\<close>

definition check_mouse_drag_unit :: "bool \<Rightarrow> bool \<Rightarrow> tile option
    \<Rightarrow> 'a focus_client_scheme \<Rightarrow> 'a focus_client_scheme option" where
  "check_mouse_drag_unit touch started ptile s =
     (case ptile of None \<Rightarrow> Some s
      | Some t \<Rightarrow>
          (if \<not> started then Some s
           else map_option (\<lambda>s1. if length (t_units t) > 1 then emit (Ui ''update_active_units_dialog'' []) s1 else s1)
                  (case find_visible_unit s ptile of
                     Some u \<Rightarrow> (if own_by_player s (u_owner u)
                               then map_option (activate_goto touch) (set_unit_focus (Some u) s) else Some s)
                   | None \<Rightarrow> Some s)))"

end
