(* ===== verification/Action_Dialog_Facts.thy ===== *)
theory Action_Dialog_Facts
  imports Action_Dialog Unit_Facts
begin

text \<open>
  Facts about the dialogs of an action decision: which buttons the selection dialog has, and what
  becomes of a selection in progress when a dialog for another unit opens.
\<close>

subsection \<open>The buttons\<close>

text \<open>The action is in the ruleset, against this kind of target, and may succeed.\<close>

definition offered :: "action store \<Rightarrow> act_prob list \<Rightarrow> int \<Rightarrow> int \<Rightarrow> bool" where
  "offered acts probs k a =
     ((case st_get acts a of None \<Rightarrow> False | Some act \<Rightarrow> ac_tgt_kind act = k)
      \<and> (case prob_at probs a of None \<Rightarrow> False | Some p \<Rightarrow> action_prob_possible p))"

lemma kind_buttons_offered:
  assumes "\<forall>a \<in> set as. st_get acts a \<noteq> None \<and> prob_at probs a \<noteq> None"
  shows "kind_buttons acts probs k tgt as
       = Some (map (\<lambda>a. ActButton a (fst tgt) (snd tgt)) (filter (offered acts probs k) as))"
  using assms by (induction as) (auto simp: offered_def)

lemma all_kind_buttons_offered:
  assumes "\<forall>a \<in> {0..<ACTION_COUNT}. st_get acts a \<noteq> None \<and> prob_at probs a \<noteq> None"
  shows "all_kind_buttons acts probs tgt ks =
     Some (concat (map (\<lambda>k. map (\<lambda>a. ActButton a (fst (tgt k)) (snd (tgt k)))
                              (filter (offered acts probs k) [0..ACTION_COUNT - 1])) ks))"
  using assms by (induction ks) (auto simp: kind_buttons_offered)

lemma act_sel_buttons_total:
  assumes "\<forall>a \<in> {0..<ACTION_COUNT}. st_get (cl_actions s) a \<noteq> None \<and> prob_at probs a \<noteq> None"
    and "target_unit = None \<or> target_tile \<noteq> None"
  shows "\<exists>bs. act_sel_buttons s actor probs target_tile target_extra target_unit target_city = Some bs"
proof -
  obtain p where "prob_at probs ACTION_ATTACK = Some p" using assms(1) by force
  with assms show ?thesis by (auto simp: act_sel_buttons_def all_kind_buttons_offered)
qed

text \<open>
  With the full table of actions and their probabilities the action selection dialog offers
  exactly the actions that may succeed, those against a city first, then by kind of target and by
  id, each with the target of its kind; then the buttons to change the target and to attack from
  now on, where they apply, and always Wait and Cancel.
\<close>

theorem act_sel_buttons_complete:
  assumes "\<forall>a \<in> {0..<ACTION_COUNT}. st_get (cl_actions s) a \<noteq> None \<and> prob_at probs a \<noteq> None"
    and "target_unit = None \<or> target_tile \<noteq> None"
  shows "\<exists>bs. act_sel_buttons s actor probs target_tile target_extra target_unit target_city =
     Some (concat (map (\<lambda>k. let tgt = button_target k (u_id actor) target_tile target_extra target_unit target_city
                             in map (\<lambda>a. ActButton a (fst tgt) (snd tgt))
                                  (filter (offered (cl_actions s) probs k) [0..ACTION_COUNT - 1]))
                   [ATK_CITY..ATK_COUNT - 1]) @ bs)
     \<and> set bs \<subseteq> {ChangeTgtUnit, ChangeTgtExtra, AutoAttackFromNow, WaitButton, CancelButton}
     \<and> {WaitButton, CancelButton} \<subseteq> set bs"
proof -
  obtain p where "prob_at probs ACTION_ATTACK = Some p" using assms(1) by force
  with assms show ?thesis
    by (auto simp: act_sel_buttons_def all_kind_buttons_offered Let_def)
qed

lemma map_of_self: "map_of (map (\<lambda>k. (k, f k)) ks) k = (if k \<in> set ks then Some (f k) else None)"
  by (induction ks) auto

lemma member_concat_map:
  "k \<in> set ks \<Longrightarrow> a \<in> set (filter (P k) xs) \<Longrightarrow> F k a \<in> set (concat (map (\<lambda>k. map (F k) (filter (P k) xs)) ks))"
  by auto

theorem act_sel_buttons_complete_witness:
  "let s = (focus0 ())\<lparr>cl_actions := map (\<lambda>a. (a, action0\<lparr>ac_id := a\<rparr>)) [0..115]\<rparr>
   in \<exists>bs. act_sel_buttons s unit0 (replicate 116 \<lparr>ap_min = 0, ap_max = 200\<rparr>) None None None None = Some bs
        \<and> WaitButton \<in> set bs \<and> ActButton 45 (- 1) (- 1) \<in> set bs"
proof -
  let ?acts = "map (\<lambda>a. (a, action0\<lparr>ac_id := a\<rparr>)) [0..115]"
  let ?s = "(focus0 ())\<lparr>cl_actions := ?acts\<rparr>"
  let ?probs = "replicate 116 \<lparr>ap_min = 0, ap_max = 200\<rparr>"
  have acts: "st_get ?acts a = (if 0 \<le> a \<and> a \<le> 115 then Some (action0\<lparr>ac_id := a\<rparr>) else None)" for a
    unfolding st_get_def by (subst map_of_self) simp
  have c: "cl_actions ?s = ?acts" by simp
  have h: "\<forall>a \<in> {0..<ACTION_COUNT}. st_get (cl_actions ?s) a \<noteq> None \<and> prob_at ?probs a \<noteq> None"
    unfolding c acts by (auto simp: prob_at_def)
  have "offered ?acts ?probs ATK_CITY 45"
    by (simp add: offered_def acts prob_at_def action_prob_possible_def) (simp add: action0_def)
  then have o: "45 \<in> set (filter (offered ?acts ?probs ATK_CITY) [0..ACTION_COUNT - 1])" by simp
  have k: "(0::int) \<in> set [ATK_CITY..ATK_COUNT - 1]" by simp
  from act_sel_buttons_complete [OF h, of None None unit0 None None] obtain bs where
    bs: "act_sel_buttons ?s unit0 ?probs None None None None =
     Some (concat (map (\<lambda>k. let tgt = button_target k (u_id unit0) None None None None
                             in map (\<lambda>a. ActButton a (fst tgt) (snd tgt))
                                  (filter (offered (cl_actions ?s) ?probs k) [0..ACTION_COUNT - 1]))
                   [ATK_CITY..ATK_COUNT - 1]) @ bs)" "{WaitButton, CancelButton} \<subseteq> set bs" by blast
  have b: "button_target ATK_CITY (u_id unit0) None None None None = (- 1, - 1)" by (simp add: button_target_def)
  have m: "ActButton 45 (- 1) (- 1) \<in> set (concat (map (\<lambda>k. map (\<lambda>a. let tgt = button_target k (u_id unit0) None None None None
      in ActButton a (fst tgt) (snd tgt)) (filter (offered ?acts ?probs k) [0..ACTION_COUNT - 1]))
      [ATK_CITY..ATK_COUNT - 1]))"
    using member_concat_map [where k = 0 and a = 45 and P = "offered ?acts ?probs" and xs = "[0..ACTION_COUNT - 1]"
        and ks = "[ATK_CITY..ATK_COUNT - 1]" and F = "\<lambda>k a. let tgt = button_target k (u_id unit0) None None None None
      in ActButton a (fst tgt) (snd tgt)"] k o
    by (simp only: Let_def b fst_conv snd_conv)
  show ?thesis
    unfolding Let_def
  proof (intro exI conjI)
    show "act_sel_buttons ?s unit0 ?probs None None None None = Some
      (concat (map (\<lambda>k. let tgt = button_target k (u_id unit0) None None None None
                             in map (\<lambda>a. ActButton a (fst tgt) (snd tgt))
                                  (filter (offered (cl_actions ?s) ?probs k) [0..ACTION_COUNT - 1]))
                   [ATK_CITY..ATK_COUNT - 1]) @ bs)" by (rule bs(1))
  qed (use m bs(2) in \<open>simp_all only: Let_def c set_append\<close>, blast+)
qed

subsection \<open>A dialog for another unit\<close>

lemma queue_dialogs [simp, frame_simps]:
  "fc_dialogs (action_decision_clear_want a s) = fc_dialogs s"
  "fc_dialogs (ask_server_for_actions p s) = fc_dialogs s"
  by (auto simp: action_decision_clear_want_def ask_server_for_actions_def Let_def split: option.split)

lemma emit_tables [simp, frame_simps]: "cl_actions (emit e s) = cl_actions s"
  by (simp add: emit_def)

lemma queue_tables [simp, frame_simps]:
  "cl_actions (action_decision_clear_want a s) = cl_actions s"
  "cl_actions (ask_server_for_actions p s) = cl_actions s"
  "cl_unit_types (action_decision_clear_want a s) = cl_unit_types s"
  "cl_unit_types (ask_server_for_actions p s) = cl_unit_types s"
  by (auto simp: action_decision_clear_want_def ask_server_for_actions_def Let_def split: option.split)

lemma close_tables [simp, frame_simps]:
  "cl_actions (action_selection_close s) = cl_actions s"
  "cl_unit_types (action_selection_close s) = cl_unit_types s"
  by (simp_all add: action_selection_close_def act_sel_queue_done_def act_sel_queue_may_be_done_def Let_def
      next_in_focus_eq action_selection_no_longer_in_progress_def)

lemma queue_done_dialogs [simp, frame_simps]:
  "fc_dialogs (act_sel_queue_done a s) = fc_dialogs s"
  by (simp add: act_sel_queue_done_def act_sel_queue_may_be_done_def Let_def next_in_focus_eq
      action_selection_no_longer_in_progress_def)

text \<open>
  Opening the dialog of a unit while the selection of another one is in progress closes the
  other dialog and ends that selection, but does not start one for the unit: with its dialog open
  the client believes that no selection is in progress, so that the next unit may ask as well.
\<close>

theorem popup_leaves_selection_free:
  assumes sel: "fc_selecting s = j" "j \<noteq> IDENTITY_NUMBER_ZERO" "u_id u \<noteq> j"
    and fl: "\<not> fc_restart s" "\<not> fc_did_not_decide s" "\<not> fc_observing s" and n: "next_actor j s = None"
    and p: "popup_action_selection (Some u) probs t x tu tc s = Some s'"
  shows "st_get (fc_dialogs s') (u_id u) \<noteq> None \<and> st_get (fc_dialogs s') j = None
    \<and> fc_selecting s' = IDENTITY_NUMBER_ZERO \<and> can_ask_server_for_actions s'"
proof -
  define d where "d = s\<lparr>fc_dialogs := st_del j (fc_dialogs s),
              fc_followups := filter (\<lambda>((k, a), _). a \<noteq> j \<or> k = StealTech \<or> k = SabotageImpr) (fc_followups s),
              fc_city_name_dialog := None\<rparr>"
  have c: "action_selection_close s = act_sel_queue_done j d"
    by (simp only: action_selection_close_def Let_def sel(1) d_def)
  have "focus_units d = focus_units s" by (rule focus_units_cong) (simp_all add: d_def)
  then have nd: "next_actor j d = None"
    using n by (simp add: next_actor_def should_ask_server_for_actions_def d_def)
  have "\<not> fc_restart d" "\<not> fc_did_not_decide d" "\<not> fc_observing d" using fl by (simp_all add: d_def)
  then have z: "fc_selecting (act_sel_queue_done j d) = IDENTITY_NUMBER_ZERO"
    using act_sel_queue_done_eq(2) [of d j] nd by simp
  have dj: "st_get (fc_dialogs d) j = None" by (simp add: d_def js.get_del)
  show ?thesis
    using p sel z dj
    by (auto simp: popup_action_selection_def Let_def c js.get_put can_ask_server_for_actions_def split: if_splits)
qed

theorem popup_leaves_selection_free_witness:
  "let s = (focus0 ())\<lparr>cl_actions := map (\<lambda>a. (a, action0\<lparr>ac_id := a\<rparr>)) [0..115], fc_selecting := 5,
        cl_unit_types := [(0, unit_type0)]\<rparr>
   in \<exists>s'. popup_action_selection (Some (unit0\<lparr>u_id := 6\<rparr>)) (replicate 116 \<lparr>ap_min = 0, ap_max = 0\<rparr>)
          None None None None s = Some s' \<and> can_ask_server_for_actions s' \<and> st_get (fc_dialogs s') 6 \<noteq> None"
proof -
  let ?acts = "map (\<lambda>a. (a, action0\<lparr>ac_id := a\<rparr>)) [0..115]"
  let ?s = "(focus0 ())\<lparr>cl_actions := ?acts, fc_selecting := 5, cl_unit_types := [(0, unit_type0)]\<rparr>"
  let ?probs = "replicate 116 \<lparr>ap_min = 0, ap_max = 0\<rparr>"
  let ?u = "unit0\<lparr>u_id := 6\<rparr>"
  have acts: "st_get ?acts a = (if 0 \<le> a \<and> a \<le> 115 then Some (action0\<lparr>ac_id := a\<rparr>) else None)" for a
    unfolding st_get_def by (subst map_of_self) simp
  have c: "cl_actions (action_selection_close ?s) = ?acts" by simp
  have h: "\<forall>a \<in> {0..<ACTION_COUNT}. st_get (cl_actions (action_selection_close ?s)) a \<noteq> None \<and> prob_at ?probs a \<noteq> None"
    unfolding c acts by (auto simp: prob_at_def)
  obtain bs where bs: "act_sel_buttons (action_selection_close ?s) ?u ?probs None None None None = Some bs"
    using act_sel_buttons_total [OF h, of None None ?u None None] by blast
  have hl: "headline_ok (action_selection_close ?s) ?u None None" by (simp add: headline_ok_def st_get_def)
  obtain s' where s': "popup_action_selection (Some ?u) ?probs None None None None ?s = Some s'"
    using bs hl by (simp add: popup_action_selection_def Let_def)
  have "fc_selecting ?s = 5" "(5::int) \<noteq> IDENTITY_NUMBER_ZERO" "u_id ?u \<noteq> 5"
    "\<not> fc_restart ?s" "\<not> fc_did_not_decide ?s" "\<not> fc_observing ?s" by simp_all
  moreover have "next_actor 5 ?s = None"
    by (simp add: next_actor_def focus_units_def get_units_in_focus_def List.map_filter_def)
  ultimately show ?thesis
    using popup_leaves_selection_free [OF _ _ _ _ _ _ _ s', of 5] s' by (auto simp: Let_def)
qed

end
