(* ===== verification/Orders_Facts.thy ===== *)
theory Orders_Facts
  imports Orders Action_Dialog_Facts
begin

text \<open>
  Facts about the goto: the orders that are sent walk the path the server gave, the final action is
  done where the code means it to be done, and which units of a group get it.
\<close>

subsection \<open>What a list of orders does\<close>

text \<open>
  The server carries the orders out one by one: a move steps in its direction, the other orders of
  a goto leave the unit where it is.
\<close>

definition order_field :: "jval \<Rightarrow> string \<Rightarrow> jval option" where
  "order_field ord f = (case ord of JObj fs \<Rightarrow> map_of fs f | _ \<Rightarrow> None)"

definition run_order :: "map_info \<Rightarrow> tile store \<Rightarrow> jval \<Rightarrow> tile \<Rightarrow> tile option" where
  "run_order m ts ord t =
     (if order_field ord ''order'' = Some (JNum ORDER_MOVE) \<or> order_field ord ''order'' = Some (JNum ORDER_ACTION_MOVE)
      then (case order_field ord ''dir'' of Some (JNum d) \<Rightarrow> mapstep m ts t d | _ \<Rightarrow> None)
      else Some t)"

definition walk_step :: "map_info \<Rightarrow> tile store \<Rightarrow> int \<Rightarrow> tile \<Rightarrow> tile option" where
  "walk_step m ts d t = (if d = - 1 then Some t else mapstep m ts t d)"

lemma each_append: "each f (xs @ ys) s = Option.bind (each f xs s) (each f ys)"
  by (induction f xs s rule: each.induct) (auto split: bind_split)

lemma each_map_cong:
  "(\<And>x t. x \<in> set xs \<Longrightarrow> f (h x) t = g (k x) t) \<Longrightarrow> each f (map h xs) s = each g (map k xs) s"
  by (induction xs arbitrary: s) (auto split: bind_split)

lemma run_order_obj:
  "run_order m ts (order_obj ord act tgt dir) t =
     (if ord = ORDER_MOVE \<or> ord = ORDER_ACTION_MOVE
      then (case dir of Some d \<Rightarrow> mapstep m ts t d | None \<Rightarrow> None) else Some t)"
  by (auto simp: run_order_def order_field_def order_obj_def split: option.split)

lemma run_path_order:
  "i < length (gp_dir p) \<Longrightarrow> run_order m ts (path_order p i) t = walk_step m ts (gp_dir p ! i) t"
  by (auto simp: path_order_def path_dir_def run_order_obj walk_step_def)

lemma run_path_orders:
  assumes "n \<le> length (gp_dir p)"
  shows "each (run_order m ts) (map (path_order p) [0..<n]) t = each (walk_step m ts) (take n (gp_dir p)) t"
proof -
  have "take n (gp_dir p) = map ((!) (gp_dir p)) [0..<n]"
    by (intro nth_equalityI) (use assms in auto)
  then show ?thesis
    using assms by (simp only:) (rule each_map_cong, simp add: run_path_order)
qed

text \<open>
  C31. The orders of a goto do what the path says.  Without a final order, and with one that is done
  on the final tile, carrying them out walks the whole path; a final action against a neighbouring
  tile is done from the tile before the last step.  In both cases the final action comes last and
  its target is the tile that was clicked.
\<close>

theorem goto_orders_walk_path:
  assumes len: "length (gp_dir p) = gp_length p" and pos: "gp_length p = Suc n"
    and act: "fc_goto_last_order s = ORDER_LAST \<or> fc_goto_last_order s = ORDER_PERFORM_ACTION"
  shows "let os = goto_orders s ptile p; final = fc_goto_last_order s = ORDER_PERFORM_ACTION;
             near = order_wants_direction s (fc_goto_last_order s) (fc_goto_last_action s) ptile
         in each (run_order m ts) os start =
              each (walk_step m ts) (take (if final \<and> near then n else Suc n) (gp_dir p)) start
            \<and> (final \<longrightarrow> (\<exists>dir. last os =
                 order_obj ORDER_PERFORM_ACTION (fc_goto_last_action s) (t_index ptile) dir)
                 \<and> length os = (if near then Suc n else Suc (Suc n)))"
proof -
  have po: "path_orders p = map (path_order p) [0..<Suc n]" by (simp add: path_orders_def pos)
  have walk: "each (run_order m ts) (map (path_order p) [0..<k]) t = each (walk_step m ts) (take k (gp_dir p)) t"
    if "k \<le> Suc n" for k t
    by (rule run_path_orders) (use that len pos in simp)
  have upd: "(map (path_order p) [0..<Suc n])[n := x] = map (path_order p) [0..<n] @ [x]" for x
    by (simp add: list_update_append)
  have stay: "each (run_order m ts) (os @ [order_obj ORDER_PERFORM_ACTION a g d]) start = each (run_order m ts) os start"
    for os a g d
    by (auto simp: each_append run_order_obj split: bind_split)
  show ?thesis
  proof (cases "fc_goto_last_order s = ORDER_PERFORM_ACTION")
    case True
    show ?thesis
    proof (cases "order_wants_direction s ORDER_PERFORM_ACTION (fc_goto_last_action s) ptile")
      case near: True
      have "goto_orders s ptile p = map (path_order p) [0..<n]
          @ [order_obj ORDER_PERFORM_ACTION (fc_goto_last_action s) (t_index ptile) (path_dir p n)]"
        by (simp add: goto_orders_def Let_def True near po pos upd del: upt_Suc)
      then show ?thesis using True near walk [of n] by (auto simp: Let_def stay simp del: upt_Suc)
    next
      case far: False
      have "goto_orders s ptile p = map (path_order p) [0..<Suc n]
          @ [order_obj ORDER_PERFORM_ACTION (fc_goto_last_action s) (t_index ptile) (Some (- 1))]"
        using True far by (simp add: goto_orders_def Let_def po del: upt_Suc)
      then show ?thesis using True far walk [of "Suc n"] by (auto simp: Let_def stay simp del: upt_Suc)
    qed
  next
    case False
    then have "goto_orders s ptile p = map (path_order p) [0..<Suc n]"
      using act by (simp add: goto_orders_def po)
    then show ?thesis using False walk [of "Suc n"] by (simp add: Let_def del: upt_Suc)
  qed
qed

theorem goto_orders_walk_path_witness:
  "let s = (focus0 ())\<lparr>fc_goto_last_order := ORDER_PERFORM_ACTION, fc_goto_last_action := 40,
         cl_actions := [(40, action0\<lparr>ac_min_distance := 1\<rparr>)]\<rparr>;
       p = \<lparr>gp_unit_id = 5, gp_dest = 2, gp_length = 2, gp_dir = [4, 4], gp_turns = None\<rparr>;
       m = \<lparr>m_topology_id = 0, m_wrap_id = 1, m_xsize = 4, m_ysize = 3\<rparr>
   in each (run_order m []) (goto_orders s tile0 p) tile0 = each (walk_step m []) [4] tile0
      \<and> length (goto_orders s tile0 p) = 2"
proof -
  let ?s = "(focus0 ())\<lparr>fc_goto_last_order := ORDER_PERFORM_ACTION, fc_goto_last_action := 40,
         cl_actions := [(40, action0\<lparr>ac_min_distance := 1\<rparr>)]\<rparr>"
  let ?p = "\<lparr>gp_unit_id = 5, gp_dest = 2, gp_length = 2, gp_dir = [4, 4], gp_turns = None\<rparr>"
  have "length (gp_dir ?p) = gp_length ?p" "gp_length ?p = Suc 1"
    "fc_goto_last_order ?s = ORDER_LAST \<or> fc_goto_last_order ?s = ORDER_PERFORM_ACTION" by simp_all
  moreover have "order_wants_direction ?s ORDER_PERFORM_ACTION 40 tile0"
    by (simp add: order_wants_direction_def st_get_def)
  ultimately show ?thesis
    using goto_orders_walk_path [of ?p 1 ?s tile0 "\<lparr>m_topology_id = 0, m_wrap_id = 1, m_xsize = 4, m_ysize = 3\<rparr>" "[]" tile0]
    by (simp add: Let_def)
qed

subsection \<open>A group of units\<close>

lemma emit_goto_fields [simp, frame_simps]:
  "fc_goto_paths (emit e s) = fc_goto_paths s" "fc_goto_last_order (emit e s) = fc_goto_last_order s"
  "fc_movesleft_warned (emit e s) = fc_movesleft_warned s"
  by (simp_all add: emit_def)

lemma goto_unit_sends:
  assumes "st_get (cl_units s) k = Some u" "u_id u = k" "u_movesleft u = Some m" "m > 0"
    and "map_of (fc_goto_paths s) (k, t_x t, t_y t) = Some (Some p)" "gp_unit_id p = k"
    and "st_get (cl_tiles s) (u_tile u) = Some old"
  shows "goto_unit t k s = Some (Inr (emit (Ui ''unit_move_sound_play'' [JNum k])
     (emit (Send (orders_packet k (t_index old) (goto_orders s t p) (t_index t)))
       (s\<lparr>fc_goto_last_order := ORDER_LAST, fc_goto_last_action := ACTION_COUNT\<rparr>))))"
  using assms by (simp add: goto_unit_def index_to_tile_def send_path_def opt_test_def Let_def)

text \<open>
  When a group is sent somewhere to act on arrival, only the first unit with a path gets the
  final action: the loop clears it after the first packet, so that the others just go there.
\<close>

theorem goto_group_only_first_acts:
  assumes a: "st_get (cl_units s) k1 = Some u1" "u_id u1 = k1" "u_movesleft u1 = Some m1" "m1 > 0"
      "map_of (fc_goto_paths s) (k1, t_x t, t_y t) = Some (Some p1)" "gp_unit_id p1 = k1"
      "st_get (cl_tiles s) (u_tile u1) = Some o1"
    and b: "st_get (cl_units s) k2 = Some u2" "u_id u2 = k2" "u_movesleft u2 = Some m2" "m2 > 0"
      "map_of (fc_goto_paths s) (k2, t_x t, t_y t) = Some (Some p2)" "gp_unit_id p2 = k2"
      "st_get (cl_tiles s) (u_tile u2) = Some o2"
  shows "\<exists>s'. goto_loop_units t [k1, k2] s = Some (Inr s')
     \<and> sent (cl_out s') = sent (cl_out s)
          @ [orders_packet k1 (t_index o1) (goto_orders s t p1) (t_index t),
             orders_packet k2 (t_index o2) (path_orders p2) (t_index t)]
     \<and> fc_goto_last_order s' = ORDER_LAST"
proof -
  let ?s1 = "emit (Ui ''unit_move_sound_play'' [JNum k1])
     (emit (Send (orders_packet k1 (t_index o1) (goto_orders s t p1) (t_index t)))
       (s\<lparr>fc_goto_last_order := ORDER_LAST, fc_goto_last_action := ACTION_COUNT\<rparr>))"
  have "goto_unit t k1 s = Some (Inr ?s1)" by (rule goto_unit_sends [OF a])
  moreover have "goto_unit t k2 ?s1 = Some (Inr (emit (Ui ''unit_move_sound_play'' [JNum k2])
     (emit (Send (orders_packet k2 (t_index o2) (goto_orders ?s1 t p2) (t_index t)))
       (?s1\<lparr>fc_goto_last_order := ORDER_LAST, fc_goto_last_action := ACTION_COUNT\<rparr>))))"
    by (rule goto_unit_sends [where u = u2 and m = m2]) (use b in simp_all)
  moreover have "goto_orders ?s1 t p2 = path_orders p2" by (simp add: goto_orders_def)
  ultimately show ?thesis by simp
qed

theorem goto_group_only_first_acts_witness:
  "let p = \<lambda>k. \<lparr>gp_unit_id = k, gp_dest = 1, gp_length = 1, gp_dir = [4], gp_turns = None\<rparr>;
       s = (focus0 ())\<lparr>fc_goto_last_order := ORDER_PERFORM_ACTION, fc_goto_last_action := 40,
             cl_tiles := [(0, tile0)], fc_goto_paths := [((5, None, None), Some (p 5)), ((6, None, None), Some (p 6))],
             cl_units := [(5, unit0\<lparr>u_id := 5, u_movesleft := Some 3\<rparr>), (6, unit0\<lparr>u_id := 6, u_movesleft := Some 3\<rparr>)]\<rparr>
   in \<exists>s'. goto_loop_units (tile0\<lparr>t_index := 1\<rparr>) [5, 6] s = Some (Inr s')
        \<and> last (sent (cl_out s')) = orders_packet 6 0 (path_orders (p 6)) 1"
proof -
  let ?p = "\<lambda>k. \<lparr>gp_unit_id = k, gp_dest = 1, gp_length = 1, gp_dir = [4], gp_turns = None\<rparr>"
  let ?u = "\<lambda>k. unit0\<lparr>u_id := k, u_movesleft := Some 3\<rparr>"
  let ?s = "(focus0 ())\<lparr>fc_goto_last_order := ORDER_PERFORM_ACTION, fc_goto_last_action := 40,
             cl_tiles := [(0, tile0)], fc_goto_paths := [((5, None, None), Some (?p 5)), ((6, None, None), Some (?p 6))],
             cl_units := [(5, ?u 5), (6, ?u 6)]\<rparr>"
  have "\<exists>s'. goto_loop_units (tile0\<lparr>t_index := 1\<rparr>) [5, 6] ?s = Some (Inr s')
     \<and> sent (cl_out s') = sent (cl_out ?s)
          @ [orders_packet 5 (t_index tile0) (goto_orders ?s (tile0\<lparr>t_index := 1\<rparr>) (?p 5)) (t_index (tile0\<lparr>t_index := 1\<rparr>)),
             orders_packet 6 (t_index tile0) (path_orders (?p 6)) (t_index (tile0\<lparr>t_index := 1\<rparr>))]
     \<and> fc_goto_last_order s' = ORDER_LAST"
    by (rule goto_group_only_first_acts [of _ _ "?u 5" 3 _ _ _ _ "?u 6" 3]) (simp_all add: st_get_def)
  then show ?thesis by (auto simp: Let_def)
qed

end
