(* ===== verification/Map_Packets.thy ===== *)
theory Map_Packets
  imports Orders
begin

text \<open>
  The packets that build the map and drive the state of the client (\<open>packhand.js\<close>,
  \<open>client_main.js\<close>, \<open>map.js\<close>): \<open>handle_tile_info\<close> with its buffer, \<open>handle_map_info\<close> with the
  replay, \<open>handle_game_info\<close>, \<open>set_client_state\<close> and its callers, the begin and the end of a turn,
  freezing and thawing.
  A tile packet has the fields the modelled code reads, with the extras as the array of the
  packet.  \<open>map = {}\<close> (an observer that retries) is \<open>no_map\<close>: the code only compares its sizes
  with 0 and tests bits of its flags, which gives the same results for \<open>undefined\<close> and 0.
  The functions of the 3D view are named effects.
\<close>

record tile_packet =
  tp_tile :: int
  tp_known :: "int option"
  tp_terrain :: int
  tp_extras :: "32 word list"
  tp_owner :: "int option"
  tp_worked :: "int option"
  tp_extras_owner :: "int option"
  tp_height :: real

record game_packet =
  gi_turn :: int
  gi_year :: int
  gi_fragments :: int
  gi_team_pooled_research :: bool
  gi_tech_steal_allow_holes :: bool
  gi_trading_gold :: bool
  gi_trading_tech :: bool
  gi_trading_city :: bool

record packet_client = focus_client +
  pk_tiles_initialized :: bool
  pk_pending :: "tile_packet list"       \<comment> \<open>\<open>pending_tile_packets\<close>\<close>
  pk_dirs :: dir_table                   \<comment> \<open>the directions \<open>map_init_topology\<close> stores\<close>
  pk_have_game :: bool                   \<comment> \<open>\<open>game_info != null\<close>\<close>
  pk_year :: int
  pk_fragments :: int
  pk_trading_gold :: bool
  pk_trading_tech :: bool
  pk_trading_city :: bool
  pk_game_loaded :: bool
  pk_url :: "(string \<times> string) list"  \<comment> \<open>the parameters of the page's address\<close>
  pk_username :: string
  pk_mentat_enabled :: bool
  pk_retry_count :: int                  \<comment> \<open>\<open>observer_retry_count\<close>\<close>
  pk_retry_in_progress :: bool           \<comment> \<open>\<open>observer_retry_in_progress\<close>\<close>
  pk_terrain_populated :: bool           \<comment> \<open>\<open>terrain_data_populated\<close>\<close>
  pk_renderer_initialized :: bool
  pk_terrain_notified :: bool            \<comment> \<open>\<open>terrain_ready_notified\<close>\<close>
  pk_frozen :: bool                      \<comment> \<open>\<open>client_frozen\<close>\<close>
  pk_saved_this_turn :: bool
  pk_tech_dialog :: bool                 \<comment> \<open>\<open>is_tech_tree_init && tech_dialog_active\<close>\<close>

definition MAX_PENDING_TILE_PACKETS :: nat where
  "MAX_PENDING_TILE_PACKETS = 10000"

definition no_map :: map_info where
  "no_map = \<lparr>m_topology_id = 0, m_wrap_id = 0, m_xsize = 0, m_ysize = 0\<rparr>"

subsection \<open>Tile packets\<close>

text \<open>
  The packet as \<open>map_tile_height_adjust\<close> sees it: it has no coordinates and no units.  Its
  number is the field \<open>tile\<close>, not \<open>index\<close>.
\<close>

definition packet_tile :: "tile_packet \<Rightarrow> tile" where
  "packet_tile p =
     \<lparr>t_index = tp_tile p, t_x = None, t_y = None, t_known = tp_known p,
      t_extras = Some (BitVector (tp_extras p)), t_terrain = tp_terrain p, t_units = [],
      t_owner = tp_owner p, t_worked = tp_worked p, t_extras_owner = tp_extras_owner p,
      t_height = tp_height p\<rparr>"

text \<open>
  \<open>$.extend(tiles[i], packet)\<close>.  For a number outside the map it makes an object of the
  packet's fields alone; the server numbers tiles within the map it sent.
\<close>

definition extend_tile :: "tile option \<Rightarrow> tile \<Rightarrow> tile" where
  "extend_tile old pkt =
     (case old of None \<Rightarrow> pkt
      | Some t \<Rightarrow> t\<lparr>t_known := override (t_known t) (t_known pkt),
                    t_extras := override (t_extras t) (t_extras pkt),
                    t_terrain := t_terrain pkt,
                    t_owner := override (t_owner t) (t_owner pkt),
                    t_worked := override (t_worked t) (t_worked pkt),
                    t_extras_owner := override (t_extras_owner t) (t_extras_owner pkt),
                    t_height := t_height pkt\<rparr>)"

definition tile_updates :: "int \<Rightarrow> bool \<Rightarrow> effect list" where
  "tile_updates i city_open =
     [Ui ''webgl_update_tile_known'' [JNum i], Ui ''update_tile_extras'' [JNum i]]
     @ (if city_open then [Ui ''remove_city_worked_tiles'' [], Ui ''show_city_worked_tiles'' []] else [])
     @ [Ui ''update_borders_tile'' [JNum i], Ui ''update_roads_tile'' [JNum i, JBool True],
        Ui ''update_tiletypes_tile'' [JNum i]]"

definition handle_tile_info :: "tile_packet \<Rightarrow> 'a packet_client_scheme \<Rightarrow> 'a packet_client_scheme option" where
  "handle_tile_info p s =
     (if pk_tiles_initialized s
      then map_option
             (\<lambda>t. emits (tile_updates (tp_tile p) (ui_active_city s \<noteq> None))
                    (s\<lparr>cl_tiles := st_put (tp_tile p) (extend_tile (st_get (cl_tiles s) (tp_tile p)) t) (cl_tiles s)\<rparr>))
             (map_tile_height_adjust (cl_map s) (cl_tiles s) (cl_ruleset s) (packet_tile p))
      else if length (pk_pending s) \<ge> MAX_PENDING_TILE_PACKETS
      then Some (s\<lparr>pk_tiles_initialized := False, pk_pending := []\<rparr>)
      else Some (s\<lparr>pk_pending := pk_pending s @ [p]\<rparr>))"

definition replay_pending_tile_packets :: "'a packet_client_scheme \<Rightarrow> 'a packet_client_scheme option" where
  "replay_pending_tile_packets s =
     (case pk_pending s of
        [] \<Rightarrow> Some s
      | packets \<Rightarrow> map_option (emit (Ui ''maptiletypes.needsUpdate'' []))
                     (each handle_tile_info packets (s\<lparr>pk_pending := []\<rparr>)))"

subsection \<open>The state of the client\<close>

definition url_var :: "'a packet_client_scheme \<Rightarrow> string \<Rightarrow> string option" where
  "url_var s name = map_of (pk_url s) name"

definition log_message :: "string \<Rightarrow> string \<Rightarrow> effect" where
  "log_message event text = Ui ''message_log.update'' [JConst event, JStr text]"

text \<open>
  \<open>show_new_game_message\<close>; the exception for a nation that is not loaded is caught by the
  caller, after the chat box was cleared.
\<close>

definition nation_adjective :: "'a client_scheme \<Rightarrow> int \<Rightarrow> string option" where
  "nation_adjective s n = map_option na_adjective (st_get (cl_nations s) n)"

definition show_new_game_message :: "'a packet_client_scheme \<Rightarrow> 'a packet_client_scheme" where
  "show_new_game_message s =
     (let s1 = emit (Ui ''clear_chatbox'' []) s
      in if fc_observing s \<or> url_var s ''autostart'' = Some ''true'' then s1
         else if playing s \<noteq> None \<and> \<not> pk_game_loaded s
         then emit (log_message ''E_CONNECTION''
                (''Welcome to FCIV.NET, the free browser-based 3D version of the classic turn-based strategy game Freeciv! Have fun! ''
                 @ (if pk_mentat_enabled s then ''You can ask questions to the AI assistant in the Mentat tab.'' else ''''))) s1
         else if pk_game_loaded s
         then (case playing s of
                 None \<Rightarrow> emit (log_message ''E_CONNECTION'' (''Welcome back, '' @ pk_username s)) s1
               | Some me \<Rightarrow>
                   (case nation_adjective s (p_nation me) of
                      None \<Rightarrow> s1
                    | Some adj \<Rightarrow> emit (log_message ''E_CONNECTION''
                        (''Welcome back, '' @ pk_username s @ '' ruler of the '' @ adj @ '' empire.'')) s1))
         else s1)"

text \<open>
  The middle of the map: \<open>map_pos_to_tile(xsize / 2, ysize / 2)\<close> computes the number
  \<open>xsize / 2 + (ysize / 2) * xsize\<close>, which names no tile when it is not whole.
\<close>

definition middle_tile :: "map_info \<Rightarrow> tile store \<Rightarrow> tile option" where
  "middle_tile m ts =
     (let twice = m_xsize m * (1 + m_ysize m)
      in if twice mod 2 = 0 then st_get ts (twice div 2) else None)"

definition enter_running :: "(unit_rec list \<Rightarrow> unit_rec list) \<Rightarrow> 'a packet_client_scheme
    \<Rightarrow> 'a packet_client_scheme option" where
  "enter_running srt s =
     (let s1 = emits [Ui ''blur'' [JStr ''#game_text_input''], Ui ''unblockUI'' []]
                 (emit (Ui ''clear_chatbox'' []) s);
          s2 = emits [Ui ''set_client_page'' [JConst ''PAGE_GAME''], Ui ''setup_window_size'' [],
                      Ui ''init_game_unit_panel'' [], Ui ''update_metamessage_on_gamestart'' [],
                      Ui ''renderer_init'' [],
                      Ui ''notify_parent_iframe'' [JStr ''game_running'', JBool (fc_observing s)],
                      Ui ''init_camera_from_url_params'' [], Ui ''remove'' [JStr ''.context-menu-root'']]
                 (show_new_game_message s1);
          finish = emits [Ui ''remove'' [JStr ''#fciv-intro''], Ui ''blur'' [JStr ''#game_text_input'']]
      in if fc_observing s2 \<or> url_var s2 ''action'' = Some ''multi'' \<or> pk_game_loaded s2
         then map_option
                (\<lambda>s3. finish (if fc_observing s3
                   then emits [Ui ''center_tile_mapcanvas'' [tile_json (middle_tile (cl_map s3) (cl_tiles s3))],
                               Ui ''init_observer_follow_mode'' []] s3
                   else s3))
                (advance_unit_focus srt (center_on_any_city s2))
         else Some (finish s2))"

definition set_client_state :: "(unit_rec list \<Rightarrow> unit_rec list) \<Rightarrow> int \<Rightarrow> 'a packet_client_scheme
    \<Rightarrow> 'a packet_client_scheme option" where
  "set_client_state srt newstate s =
     (if cl_client_state s = newstate then Some s
      else (let s1 = s\<lparr>cl_client_state := newstate\<rparr>
            in if newstate = C_S_RUNNING then enter_running srt s1
               else if newstate = C_S_OVER then Some (emit (setTimeout ''show_endgame_dialog'' 500) s1)
               else Some s1))"

definition update_client_state :: "(unit_rec list \<Rightarrow> unit_rec list) \<Rightarrow> int \<Rightarrow> 'a packet_client_scheme
    \<Rightarrow> 'a packet_client_scheme option" where
  "update_client_state srt value s =
     map_option (\<lambda>s1. if value = C_S_RUNNING \<and> fc_observing s1
                      then s1\<lparr>pk_retry_count := 0, pk_retry_in_progress := False, pk_pending := []\<rparr>
                      else s1)
       (set_client_state srt value s)"

definition can_client_change_view :: "'a focus_client_scheme \<Rightarrow> bool" where
  "can_client_change_view s =
     ((playing s \<noteq> None \<or> client_is_observer s) \<and> (cl_client_state s = C_S_RUNNING \<or> cl_client_state s = C_S_OVER))"

text \<open>\<open>alert_war\<close>; an unknown player or nation throws.\<close>

definition alert_war :: "int \<Rightarrow> 'a client_scheme \<Rightarrow> 'a client_scheme option" where
  "alert_war player_no s =
     (case st_get (cl_players s) player_no of
        None \<Rightarrow> None
      | Some p \<Rightarrow>
          map_option (\<lambda>adj. emit (log_message ''E_DIPLOMACY''
                        (''War: You are now at war with the '' @ adj @ '' leader '' @ p_name p @ ''!'')) s)
            (nation_adjective s (p_nation p)))"

subsection \<open>Map, game and phases\<close>

text \<open>The game of an observer that joins late: whichever of the two packets comes second.\<close>

definition late_start :: "(unit_rec list \<Rightarrow> unit_rec list) \<Rightarrow> bool \<Rightarrow> 'a packet_client_scheme
    \<Rightarrow> 'a packet_client_scheme option" where
  "late_start srt ready s =
     (if fc_observing s \<and> ready \<and> cl_turn s \<ge> 1 \<and> cl_client_state s = C_S_PREPARING
      then update_client_state srt C_S_RUNNING s else Some s)"

definition terrain_populated :: "'a packet_client_scheme \<Rightarrow> 'a packet_client_scheme" where
  "terrain_populated s =
     (let s1 = s\<lparr>pk_terrain_populated := True\<rparr>
      in if pk_renderer_initialized s1 \<and> \<not> pk_terrain_notified s1
         then emit (Ui ''requestAnimationFrame'' [JStr ''terrain_ready_frame'']) s1 else s1)"

definition terrain_ready_frame :: "'a packet_client_scheme \<Rightarrow> 'a packet_client_scheme" where
  "terrain_ready_frame s =
     (if pk_terrain_notified s then s
      else emit (Ui ''notify_parent_iframe'' [JStr ''terrain_ready'', JNum (m_xsize (cl_map s)), JNum (m_ysize (cl_map s))])
             (s\<lparr>pk_terrain_notified := True\<rparr>))"

definition install_map :: "map_info \<Rightarrow> 'a packet_client_scheme \<Rightarrow> 'a packet_client_scheme" where
  "install_map m s =
     (emits [Ui ''init_borders_image'' [], Ui ''init_roads_image'' [], Ui ''init_map_tiletype_image'' []]
        (s\<lparr>cl_map := m, pk_dirs := map_init_topology m, cl_tiles := map_allocate m\<rparr>))
     \<lparr>pk_tiles_initialized := True\<rparr>"

definition handle_map_info :: "(unit_rec list \<Rightarrow> unit_rec list) \<Rightarrow> map_info \<Rightarrow> 'a packet_client_scheme
    \<Rightarrow> 'a packet_client_scheme option" where
  "handle_map_info srt m s =
     Option.bind (replay_pending_tile_packets (install_map m s))
       (\<lambda>s1. let s2 = terrain_populated s1 in late_start srt (pk_have_game s2) s2)"

definition handle_game_info :: "(unit_rec list \<Rightarrow> unit_rec list) \<Rightarrow> game_packet \<Rightarrow> 'a packet_client_scheme
    \<Rightarrow> 'a packet_client_scheme option" where
  "handle_game_info srt p s =
     (let s1 = s\<lparr>pk_have_game := True, cl_turn := gi_turn p, pk_year := gi_year p, pk_fragments := gi_fragments p,
                 cl_team_pooled_research := gi_team_pooled_research p,
                 fc_tech_steal_allow_holes := gi_tech_steal_allow_holes p, pk_trading_gold := gi_trading_gold p,
                 pk_trading_tech := gi_trading_tech p, pk_trading_city := gi_trading_city p\<rparr>
      in late_start srt (m_xsize (cl_map s1) > 0) s1)"

definition handle_start_phase :: "(unit_rec list \<Rightarrow> unit_rec list) \<Rightarrow> 'a packet_client_scheme
    \<Rightarrow> 'a packet_client_scheme option" where
  "handle_start_phase srt s =
     map_option (\<lambda>s1. (emit (Ui ''set_phase_start'' []) s1)\<lparr>pk_saved_this_turn := False\<rparr>)
       (update_client_state srt C_S_RUNNING s)"

definition handle_endgame_report :: "(unit_rec list \<Rightarrow> unit_rec list) \<Rightarrow> 'a packet_client_scheme
    \<Rightarrow> 'a packet_client_scheme option" where
  "handle_endgame_report srt s = update_client_state srt C_S_OVER s"

text \<open>A \<open>null\<close> \<open>game_info\<close> throws.\<close>

definition handle_new_year :: "int \<Rightarrow> int \<Rightarrow> int \<Rightarrow> 'a packet_client_scheme \<Rightarrow> 'a packet_client_scheme option" where
  "handle_new_year year fragments turn s =
     (if pk_have_game s then Some (s\<lparr>pk_year := year, pk_fragments := fragments, cl_turn := turn\<rparr>) else None)"

definition handle_end_phase :: "'a packet_client_scheme \<Rightarrow> 'a packet_client_scheme option" where
  "handle_end_phase s =
     (let s1 = emit (Ui ''chatbox_clip_messages'' []) s
      in if \<not> pk_have_game s1 then None
         else Some (if js_rem (cl_turn s1) 100 = 0 then emit (Ui ''submit_game_of_the_day'' []) s1 else s1))"

definition turn_done_button :: "bool \<Rightarrow> bool \<Rightarrow> effect list" where
  "turn_done_button observing disabled =
     (if observing then [] else [Ui ''turn_done_button disabled'' [JBool disabled]])"

definition handle_begin_turn :: "(unit_rec list \<Rightarrow> unit_rec list) \<Rightarrow> 'a packet_client_scheme
    \<Rightarrow> 'a packet_client_scheme option" where
  "handle_begin_turn srt s =
     (let s1 = emits (turn_done_button (fc_observing s) False
                 @ (if fc_observing s then [] else [Ui ''turn_done_button label'' [JStr ''Turn Done'']])) s
      in map_option
           (\<lambda>s2. let s3 = emits [Ui ''update_active_units_dialog'' [], Ui ''update_game_status_panel'' []] s2;
                     s4 = (if get_units_in_focus s3 = [] then auto_center_on_focus_unit s3 else s3)
                 in if pk_tech_dialog s4 then emit (Ui ''update_tech_screen'' []) s4 else s4)
           (update_unit_focus srt (s1\<lparr>fc_waiting := []\<rparr>)))"

definition handle_end_turn :: "'a packet_client_scheme \<Rightarrow> 'a packet_client_scheme" where
  "handle_end_turn s =
     emit (Ui ''remove'' [JStr ''.diplomacy_dialog''])
       (close_city_dialog (emits (turn_done_button (fc_observing s) True) (reset_unit_anim_list s)))"

definition handle_processing_started :: "'a packet_client_scheme \<Rightarrow> 'a packet_client_scheme" where
  "handle_processing_started s = s\<lparr>pk_frozen := True\<rparr>"

definition handle_processing_finished :: "'a packet_client_scheme \<Rightarrow> 'a packet_client_scheme" where
  "handle_processing_finished s = s\<lparr>pk_frozen := False\<rparr>"

definition handle_freeze_hint :: "'a packet_client_scheme \<Rightarrow> 'a packet_client_scheme" where
  "handle_freeze_hint s = s\<lparr>pk_frozen := True\<rparr>"

definition handle_thaw_hint :: "'a packet_client_scheme \<Rightarrow> 'a packet_client_scheme" where
  "handle_thaw_hint s = s\<lparr>pk_frozen := False\<rparr>"

definition handle_freeze_client :: "'a packet_client_scheme \<Rightarrow> 'a packet_client_scheme" where
  "handle_freeze_client s = s\<lparr>pk_frozen := True\<rparr>"

definition handle_thaw_client :: "'a packet_client_scheme \<Rightarrow> 'a packet_client_scheme" where
  "handle_thaw_client s = s\<lparr>pk_frozen := False\<rparr>"

end
