(* ===== verification/Observer.thy ===== *)
theory Observer
  imports Map_Packets
begin

text \<open>
  The connection of the client (\<open>clinet.js\<close>) and the retries of an observer whose game does not
  start (\<open>civclient.js\<close>): \<open>network_init\<close> and its answer, the socket, \<open>ws.onclose\<close>,
  \<open>handle_observer_timeout_with_retry\<close>, \<open>reset_observer_state_for_retry\<close>, \<open>request_observe_game\<close>.
  The socket and the timers belong to the browser: the calls are effects, and what they lead to
  (the socket closes, a timer fires) are the events of the state machine at the end.
  \<open>debug_active\<close> is off: it only collects timings.
\<close>

record observer_client = packet_client +
  ob_socket :: bool                  \<comment> \<open>\<open>ws != null\<close>\<close>
  ob_init_called :: bool             \<comment> \<open>\<open>network_init_called\<close>\<close>
  ob_port :: "int option"            \<comment> \<open>\<open>civserverport\<close>\<close>
  ob_observe_player :: "string option"
  ob_centered_notified :: bool
  ob_parent_notified :: bool

abbreviation (input) OBSERVER_MAX_RETRIES :: int where "OBSERVER_MAX_RETRIES \<equiv> 4"
abbreviation (input) OBSERVER_RETRY_DELAY_MS :: int where "OBSERVER_RETRY_DELAY_MS \<equiv> 2500"
abbreviation (input) OBSERVER_INIT_TIMEOUT_MS :: int where "OBSERVER_INIT_TIMEOUT_MS \<equiv> 15000"

subsection \<open>The connection\<close>

definition request_url :: "'a packet_client_scheme \<Rightarrow> string" where
  "request_url s =
     ''/civclientlauncher''
     @ (case url_var s ''action'' of Some a \<Rightarrow> ''?action='' @ a
        | None \<Rightarrow> (if url_var s ''civserverport'' \<noteq> None then ''?'' else ''''))
     @ (case url_var s ''civserverport'' of Some p \<Rightarrow> ''&civserverport='' @ p | None \<Rightarrow> '''')"

definition network_init :: "'a observer_client_scheme \<Rightarrow> 'a observer_client_scheme" where
  "network_init s =
     (if ob_init_called s then s
      else emit (Ui ''ajax'' [JStr (request_url s)]) (s\<lparr>ob_init_called := True\<rparr>))"

text \<open>\<open>websocket_init\<close>; the proxy listens on the port of the server plus 1000.\<close>

definition websocket_init :: "'a observer_client_scheme \<Rightarrow> 'a observer_client_scheme" where
  "websocket_init s =
     (let s1 = emit (Ui ''blockUI'' []) s
      in case ob_port s1 of
           None \<Rightarrow> emit (Ui ''show_dialog_message'' [JStr ''Network error'',
                     JStr ''Server port was not properly assigned. Please try again.'']) s1
         | Some p \<Rightarrow> emit (Ui ''WebSocket'' [JNum (p - 6000 + 7000)]) (s1\<lparr>ob_socket := True\<rparr>))"

text \<open>
  The answer to the request of \<open>network_init\<close>: the port and the result of the launcher.
  \<open>raw_delay\<close> is the number in the \<open>connection_delay\<close> parameter, 0 when there is none.
\<close>

definition network_answer :: "int option \<Rightarrow> string \<Rightarrow> int \<Rightarrow> 'a observer_client_scheme \<Rightarrow> 'a observer_client_scheme" where
  "network_answer port connect_result raw_delay s =
     (let s1 = s\<lparr>ob_port := port\<rparr>;
          connection_delay = max 0 (min 5000 raw_delay)
      in if port \<noteq> None \<and> connect_result = ''success''
         then (if connection_delay > 0
               then emit (setTimeout ''websocket_init, load_game_check'' connection_delay) s1
               else emit (Ui ''load_game_check'' []) (websocket_init s1))
         else emit (Ui ''show_dialog_message'' [JStr ''Network error'',
                JStr (''Invalid server port. Error: '' @ connect_result)]) s1)"

definition check_websocket_ready :: "bool \<Rightarrow> 'a observer_client_scheme \<Rightarrow> 'a observer_client_scheme" where
  "check_websocket_ready ready s =
     (if ob_socket s \<and> ready
      then emits [Send [(''pid'', JNum 4), (''username'', JStr (pk_username s)),
                        (''capability'', JStr ''+Freeciv.Web.Devel-3.3''), (''version_label'', JStr ''-dev''),
                        (''major_version'', JNum 3), (''minor_version'', JNum 1), (''patch_version'', JNum 90),
                        (''port'', opt_json (ob_port s))],
                  Ui ''setInterval'' [JStr ''ping_check'', JNum 240000], Ui ''unblockUI'' []] s
      else emit (setTimeout ''check_websocket_ready'' 300) s)"

definition websocket_onopen :: "bool \<Rightarrow> 'a observer_client_scheme \<Rightarrow> 'a observer_client_scheme" where
  "websocket_onopen ready s =
     check_websocket_ready ready (emit (Ui ''notify_parent_iframe'' [JStr ''websocket_connected'']) s)"

text \<open>\<open>ws.close()\<close>: the browser then reports the close of that socket, as an event of its own.\<close>

definition network_stop :: "'a observer_client_scheme \<Rightarrow> 'a observer_client_scheme" where
  "network_stop s =
     (if ob_socket s then emit (Ui ''ws.close'' []) s else s)\<lparr>ob_socket := False\<rparr>"

subsection \<open>Retries\<close>

definition reset_observer_state_for_retry :: "'a observer_client_scheme \<Rightarrow> 'a observer_client_scheme" where
  "reset_observer_state_for_retry s =
     (network_stop s)
       \<lparr>ob_init_called := False, pk_retry_in_progress := False, cl_map := no_map,
        pk_tiles_initialized := False, pk_pending := [],
        ob_centered_notified := False, ob_parent_notified := False,
        pk_terrain_notified := False, pk_terrain_populated := False, pk_renderer_initialized := False\<rparr>"

definition retry_timer :: effect where
  "retry_timer = setTimeout ''retry_timer'' OBSERVER_RETRY_DELAY_MS"

definition retry_timer_fires :: "'a observer_client_scheme \<Rightarrow> 'a observer_client_scheme" where
  "retry_timer_fires s = (network_init s)\<lparr>pk_retry_in_progress := False\<rparr>"

definition handle_observer_timeout_with_retry :: "string \<Rightarrow> 'a observer_client_scheme \<Rightarrow> 'a observer_client_scheme" where
  "handle_observer_timeout_with_retry context s =
     (if cl_client_state s = C_S_RUNNING \<or> \<not> fc_observing s \<or> pk_retry_in_progress s then s
      else if pk_retry_count s < OBSERVER_MAX_RETRIES
      then emit retry_timer
             (reset_observer_state_for_retry
               (s\<lparr>pk_retry_count := pk_retry_count s + 1, pk_retry_in_progress := True\<rparr>))
      else emits [Ui ''notify_parent_iframe'' [JStr ''observer_centered'', JStr ''error'', JStr ''connection_timeout'',
                                              JStr (if context = '''' then ''global'' else context)],
                  Ui ''alert'' [JStr ''Observer mode failed to initialize. The map is not loading.'']] s)"

definition websocket_onclose :: "'a observer_client_scheme \<Rightarrow> 'a observer_client_scheme" where
  "websocket_onclose s =
     (if fc_observing s \<and> cl_client_state s \<noteq> C_S_RUNNING
         \<and> pk_retry_count s < OBSERVER_MAX_RETRIES \<and> \<not> pk_retry_in_progress s
      then emit retry_timer
             ((reset_observer_state_for_retry
                (s\<lparr>pk_retry_count := pk_retry_count s + 1, pk_retry_in_progress := True\<rparr>))
              \<lparr>pk_retry_in_progress := True\<rparr>)
      else emits [Ui ''notify_parent_error'' [JStr ''WEBSOCKET_CLOSED''],
                  Ui ''swal'' [JStr ''Network Error''],
                  log_message ''E_LOG_ERROR'' ''Error: connection to server is closed. Please reload the page to restart. Sorry!'',
                  Ui ''turn_done_button disabled'' [JBool True], Ui ''save_button disabled'' [JBool True],
                  Ui ''unbind'' [JStr ''beforeunload''], Ui ''clearInterval'' [JStr ''ping_timer'']] s)"

subsection \<open>Asking to observe\<close>

definition send_message :: "string \<Rightarrow> effect" where
  "send_message message = Send [(''pid'', JConst ''packet_chat_msg_req''), (''message'', JStr message)]"

text \<open>\<open>SAFE_PLAYER_NAME_REGEX\<close>: letters, digits, \<open>_\<close>, \<open>*\<close> and \<open>-\<close>, at least one.\<close>

definition safe_player_name :: "string \<Rightarrow> bool" where
  "safe_player_name name =
     (name \<noteq> '''' \<and> list_all (\<lambda>c. is_upper c \<or> is_lower c \<or> is_digit c \<or> c \<in> set ''_*-'') name)"

definition setup_observer_timeout_with_retry :: "string \<Rightarrow> effect" where
  "setup_observer_timeout_with_retry context =
     Ui ''setTimeout'' [JStr ''handle_observer_timeout_with_retry'', JStr context, JNum OBSERVER_INIT_TIMEOUT_MS]"

text \<open>The argument: \<open>None\<close> when it is left out, \<open>Some None\<close> for \<open>null\<close>.\<close>

definition request_observe_game :: "string option option \<Rightarrow> 'a observer_client_scheme \<Rightarrow> 'a observer_client_scheme" where
  "request_observe_game player_to_attach s =
     (let target = (case player_to_attach of None \<Rightarrow> ob_observe_player s | Some p \<Rightarrow> p)
      in case target of
           None \<Rightarrow> emits [send_message ''/observe '', setup_observer_timeout_with_retry ''global''] s
         | Some name \<Rightarrow>
             (if name = '''' \<or> \<not> safe_player_name name
              then emits [send_message ''/observe '', setup_observer_timeout_with_retry ''global''] s
              else emits [send_message (''/observe '' @ name), setup_observer_timeout_with_retry name] s))"

subsection \<open>The observer as a state machine\<close>

datatype ob_event = TimeoutFires string | SocketCloses | RetryTimerFires
  | NetworkAnswer "int option" string int | SocketOpens bool
  | TileInfo tile_packet | MapInfo map_info | GameInfo game_packet | StartPhase | EndgameReport

fun ob_event_step :: "(unit_rec list \<Rightarrow> unit_rec list) \<Rightarrow> ob_event
    \<Rightarrow> 'a observer_client_scheme \<Rightarrow> 'a observer_client_scheme option" where
  "ob_event_step srt (TimeoutFires context) s = Some (handle_observer_timeout_with_retry context s)"
| "ob_event_step srt SocketCloses s = Some (websocket_onclose s)"
| "ob_event_step srt RetryTimerFires s = Some (retry_timer_fires s)"
| "ob_event_step srt (NetworkAnswer port result delay) s = Some (network_answer port result delay s)"
| "ob_event_step srt (SocketOpens ready) s = Some (websocket_onopen ready s)"
| "ob_event_step srt (TileInfo p) s = handle_tile_info p s"
| "ob_event_step srt (MapInfo m) s = handle_map_info srt m s"
| "ob_event_step srt (GameInfo p) s = handle_game_info srt p s"
| "ob_event_step srt StartPhase s = handle_start_phase srt s"
| "ob_event_step srt EndgameReport s = handle_endgame_report srt s"

inductive ob_step :: "(unit_rec list \<Rightarrow> unit_rec list) \<Rightarrow> 'a observer_client_scheme \<Rightarrow> ob_event
    \<Rightarrow> 'a observer_client_scheme \<Rightarrow> bool" for srt where
  event: "ob_event_step srt e s = Some s' \<Longrightarrow> ob_step srt s e s'"

inductive ob_run :: "(unit_rec list \<Rightarrow> unit_rec list) \<Rightarrow> 'a observer_client_scheme \<Rightarrow> ob_event list
    \<Rightarrow> 'a observer_client_scheme \<Rightarrow> bool" for srt where
  start: "ob_run srt s [] s"
| more: "ob_run srt s es t \<Longrightarrow> ob_step srt t e u \<Longrightarrow> ob_run srt s (es @ [e]) u"

inductive_cases ob_stepE: "ob_step srt s e s'"
inductive_simps ob_step_iff: "ob_step srt s e s'"

end
