(* ===== verification/Map_Packets_Facts.thy ===== *)
theory Map_Packets_Facts
  imports Map_Packets Unit_Facts
begin

text \<open>
  What the packets of the map do: tile packets that come before the map are buffered and
  replayed with the result they would have had after it, the buffer of \<open>MAX_PENDING_TILE_PACKETS\<close>
  packets, and the ways in which it is lost.
\<close>

definition packet0 :: "'a \<Rightarrow> 'a packet_client_scheme" where
  "packet0 m = focus0 \<lparr>pk_tiles_initialized = False, pk_pending = [],
     pk_dirs = \<lparr>valid_dirs = [], cardinal_dirs = [], num_valid_dirs = 0, num_cardinal_dirs = 0\<rparr>,
     pk_have_game = False, pk_year = 0, pk_fragments = 0, pk_trading_gold = False, pk_trading_tech = False, pk_trading_city = False, pk_game_loaded = False, pk_url = [], pk_username = [],
     pk_mentat_enabled = False, pk_retry_count = 0, pk_retry_in_progress = False, pk_terrain_populated = False,
     pk_renderer_initialized = False, pk_terrain_notified = False, pk_frozen = False, pk_saved_this_turn = False,
     pk_tech_dialog = False, \<dots> = m\<rparr>"

definition tile_packet0 :: tile_packet where
  "tile_packet0 = \<lparr>tp_tile = 0, tp_known = None, tp_terrain = 0, tp_extras = [], tp_owner = None, tp_worked = None,
     tp_extras_owner = None, tp_height = 0\<rparr>"

text \<open>A state without its effects; the replay changes their order and nothing else.\<close>

definition quiet :: "'a client_scheme \<Rightarrow> 'a client_scheme" where
  "quiet s = s\<lparr>cl_out := []\<rparr>"

lemma quiet_emit [simp]: "quiet (emit e s) = quiet s" "quiet (emits es s) = quiet s"
  by (simp_all add: quiet_def emit_def emits_def)

lemma quiet_eqD: "quiet s = quiet t \<Longrightarrow> cl_tiles s = cl_tiles t"
  by (metis client.select_convs client.surjective client.update_convs quiet_def)

subsection \<open>One tile packet\<close>

text \<open>The packet has no coordinates, so its height depends on the ruleset alone, and nothing throws.\<close>

lemma adjust_no_coordinates:
  assumes "t_x t = None"
  shows "map_tile_height_adjust m ts rs t = map_tile_height_adjust no_map [] rs t"
    and "map_tile_height_adjust m ts rs t \<noteq> None"
  using assms
  by (auto simp: map_tile_height_adjust_def is_ocean_of_terrain is_land_near_no_coordinates
      is_ocean_near_no_coordinates is_river_near_no_coordinates Let_def split: option.split)

definition adjusted_tile :: "ruleset \<Rightarrow> tile_packet \<Rightarrow> tile" where
  "adjusted_tile rs p = the (map_tile_height_adjust no_map [] rs (packet_tile p))"

definition put_tile :: "ruleset \<Rightarrow> tile store \<Rightarrow> tile_packet \<Rightarrow> tile store" where
  "put_tile rs ts p =
     st_put (tp_tile p) (extend_tile (st_get ts (tp_tile p)) (adjusted_tile rs p)) ts"

lemma adjusted_packet:
  "map_tile_height_adjust m ts rs (packet_tile p) = Some (adjusted_tile rs p)"
  using adjust_no_coordinates [of "packet_tile p" m ts rs] by (auto simp: packet_tile_def adjusted_tile_def)

lemma tile_info_ready:
  "pk_tiles_initialized s \<Longrightarrow> handle_tile_info p s =
     Some (emits (tile_updates (tp_tile p) (ui_active_city s \<noteq> None))
       (s\<lparr>cl_tiles := put_tile (cl_ruleset s) (cl_tiles s) p\<rparr>))"
  by (simp add: handle_tile_info_def adjusted_packet put_tile_def)

lemma emits_emits: "emits es (emits fs s) = emits (fs @ es) s"
  by (simp add: emits_def)

lemma emits_tiles: "(emits es s)\<lparr>cl_tiles := ts\<rparr> = emits es (s\<lparr>cl_tiles := ts\<rparr>)"
  by (simp add: emits_def)

lemma emits_pk [simp, frame_simps]:
  "pk_tiles_initialized (emits es s) = pk_tiles_initialized s" "pk_pending (emits es s) = pk_pending s"
  "cl_ruleset (emits es s) = cl_ruleset s" "pk_have_game (emits es s) = pk_have_game s"
  "pk_tiles_initialized (emit e s) = pk_tiles_initialized s" "pk_pending (emit e s) = pk_pending s"
  "pk_have_game (emit e s) = pk_have_game s"
  by (simp_all add: emit_def emits_def)

lemma each_tile_ready:
  "pk_tiles_initialized s \<Longrightarrow> each handle_tile_info ps s =
     Some (emits (concat (map (\<lambda>p. tile_updates (tp_tile p) (ui_active_city s \<noteq> None)) ps))
       (s\<lparr>cl_tiles := foldl (put_tile (cl_ruleset s)) (cl_tiles s) ps\<rparr>))"
proof (induction ps arbitrary: s)
  case Nil
  then show ?case by simp
next
  case (Cons p ps)
  then show ?case by (simp add: tile_info_ready emits_emits emits_tiles)
qed

lemma each_tile_buffered:
  "\<not> pk_tiles_initialized s \<Longrightarrow> length (pk_pending s) + length ps \<le> MAX_PENDING_TILE_PACKETS
     \<Longrightarrow> each handle_tile_info ps s = Some (s\<lparr>pk_pending := pk_pending s @ ps\<rparr>)"
  by (induction ps arbitrary: s) (simp_all add: handle_tile_info_def)

subsection \<open>The start of an observed game\<close>

lemma enter_running_observing:
  assumes "fc_observing s"
  shows "\<exists>s'. enter_running srt s = Some s' \<and> quiet s' = quiet s"
proof -
  have obs: "advance_unit_focus srt t = Some t" if "fc_observing t" for t :: "'a packet_client_scheme"
    using that by (simp add: advance_unit_focus_def client_is_observer_def)
  have centre: "quiet (center_on_any_city t) = quiet t \<and> fc_observing (center_on_any_city t) = fc_observing t"
    for t :: "'a packet_client_scheme"
    by (simp add: center_on_any_city_def split: list.split)
  show ?thesis
    using assms by (simp add: enter_running_def show_new_game_message_def Let_def obs centre)
qed

lemma update_running_observing:
  assumes "fc_observing s"
  shows "\<exists>s'. update_client_state srt C_S_RUNNING s = Some s'
    \<and> quiet s' = quiet (s\<lparr>cl_client_state := C_S_RUNNING, pk_retry_count := 0,
                            pk_retry_in_progress := False, pk_pending := []\<rparr>)"
proof -
  have frame: "fc_observing t = fc_observing u \<and> quiet (t\<lparr>pk_retry_count := 0, pk_retry_in_progress := False, pk_pending := []\<rparr>)
      = quiet (u\<lparr>pk_retry_count := 0, pk_retry_in_progress := False, pk_pending := []\<rparr>)"
    if "quiet t = quiet u" for t u :: "'a packet_client_scheme"
  proof -
    have "fc_observing t = fc_observing (quiet t)" "fc_observing u = fc_observing (quiet u)"
      by (simp_all add: quiet_def)
    moreover have "quiet (x\<lparr>pk_retry_count := 0, pk_retry_in_progress := False, pk_pending := []\<rparr>)
        = (quiet x)\<lparr>pk_retry_count := 0, pk_retry_in_progress := False, pk_pending := []\<rparr>"
      for x :: "'a packet_client_scheme" by (simp add: quiet_def)
    ultimately show ?thesis using that by simp
  qed
  show ?thesis
  proof (cases "cl_client_state s = C_S_RUNNING")
    case True
    have "quiet (s\<lparr>cl_client_state := 2\<rparr>) = quiet s"
      using True by (simp add: quiet_def)
    from frame [OF this] True assms show ?thesis
      by (simp add: update_client_state_def set_client_state_def)
  next
    case False
    obtain s' where s': "enter_running srt (s\<lparr>cl_client_state := C_S_RUNNING\<rparr>) = Some s'"
      "quiet s' = quiet (s\<lparr>cl_client_state := C_S_RUNNING\<rparr>)"
      using enter_running_observing [of "s\<lparr>cl_client_state := C_S_RUNNING\<rparr>" srt] assms by auto
    with False assms frame [OF s'(2)] show ?thesis
      by (simp add: update_client_state_def set_client_state_def)
  qed
qed

text \<open>\<open>late_start\<close> up to the effects, as a function of the quiet state.\<close>

definition late_state :: "bool \<Rightarrow> 'a packet_client_scheme \<Rightarrow> 'a packet_client_scheme" where
  "late_state ready s =
     (if fc_observing s \<and> ready \<and> cl_turn s \<ge> 1 \<and> cl_client_state s = C_S_PREPARING
      then s\<lparr>cl_client_state := C_S_RUNNING, pk_retry_count := 0, pk_retry_in_progress := False, pk_pending := []\<rparr>
      else s)"

lemma quiet_running:
  "quiet (s\<lparr>cl_client_state := v, pk_retry_count := n, pk_retry_in_progress := b, pk_pending := ps\<rparr>)
     = (quiet s)\<lparr>cl_client_state := v, pk_retry_count := n, pk_retry_in_progress := b, pk_pending := ps\<rparr>"
  by (rule packet_client.equality) (simp_all add: quiet_def)

lemma late_state_quiet: "quiet (late_state ready s) = late_state ready (quiet s)"
proof -
  have "fc_observing (quiet s) = fc_observing s" "cl_turn (quiet s) = cl_turn s"
    "cl_client_state (quiet s) = cl_client_state s" by (simp_all add: quiet_def)
  then show ?thesis by (simp add: late_state_def quiet_running)
qed

lemma late_start_quiet: "\<exists>s'. late_start srt ready s = Some s' \<and> quiet s' = late_state ready (quiet s)"
proof (cases "fc_observing s \<and> ready \<and> cl_turn s \<ge> 1 \<and> cl_client_state s = C_S_PREPARING")
  case True
  then obtain s' where "update_client_state srt C_S_RUNNING s = Some s'"
    "quiet s' = quiet (s\<lparr>cl_client_state := C_S_RUNNING, pk_retry_count := 0, pk_retry_in_progress := False, pk_pending := []\<rparr>)"
    using update_running_observing by blast
  moreover have "late_state ready (quiet s) = quiet (late_state ready s)" by (rule late_state_quiet [symmetric])
  ultimately show ?thesis using True by (simp add: late_start_def late_state_def)
next
  case False
  then have "late_start srt ready s = Some s" "late_state ready (quiet s) = quiet s"
    by (auto simp: late_start_def late_state_def quiet_def)
  then show ?thesis by simp
qed

lemma late_state_tiles: "late_state ready (s\<lparr>cl_tiles := ts\<rparr>) = (late_state ready s)\<lparr>cl_tiles := ts\<rparr>"
  by (simp add: late_state_def)

lemma late_state_fields [simp]:
  "cl_tiles (late_state ready s) = cl_tiles s" "cl_ruleset (late_state ready s) = cl_ruleset s"
  "pk_tiles_initialized (late_state ready s) = pk_tiles_initialized s"
  "ui_active_city (late_state ready s) = ui_active_city s"
  by (simp_all add: late_state_def)

lemma quiet_fields:
  "cl_tiles (quiet s) = cl_tiles s" "cl_ruleset (quiet s) = cl_ruleset s"
  "pk_tiles_initialized (quiet s) = pk_tiles_initialized s" "pk_pending (quiet s) = pk_pending s"
  "pk_have_game (quiet s) = pk_have_game s" "cl_client_state (quiet s) = cl_client_state s"
  by (simp_all add: quiet_def)

lemma quiet_tiles: "quiet (s\<lparr>cl_tiles := ts\<rparr>) = (quiet s)\<lparr>cl_tiles := ts\<rparr>"
  by (simp add: quiet_def)

text \<open>The state after the map has come, before a late start: \<open>populated\<close> up to the effects.\<close>

definition populated :: "map_info \<Rightarrow> 'a packet_client_scheme \<Rightarrow> 'a packet_client_scheme" where
  "populated m s = quiet (s\<lparr>cl_map := m, pk_dirs := map_init_topology m, cl_tiles := map_allocate m,
     pk_tiles_initialized := True, pk_terrain_populated := True, pk_pending := []\<rparr>)"

lemma map_info_quiet:
  "\<exists>s'. handle_map_info srt m s = Some s'
     \<and> quiet s' = late_state (pk_have_game s) ((populated m s)
         \<lparr>cl_tiles := foldl (put_tile (cl_ruleset s)) (map_allocate m) (pk_pending s)\<rparr>)"
proof -
  define s1 where "s1 = install_map m s"
  define F where "F = foldl (put_tile (cl_ruleset s)) (map_allocate m) (pk_pending s)"
  have s1: "pk_tiles_initialized s1" "cl_ruleset s1 = cl_ruleset s" "cl_tiles s1 = map_allocate m"
    "pk_pending s1 = pk_pending s" "pk_have_game s1 = pk_have_game s"
    by (simp_all add: s1_def install_map_def emits_def)
  have q1: "quiet (s1\<lparr>cl_tiles := ts, pk_pending := []\<rparr>) = quiet (s\<lparr>cl_map := m, pk_dirs := map_init_topology m,
      cl_tiles := ts, pk_tiles_initialized := True, pk_pending := []\<rparr>)" for ts
    by (simp add: s1_def install_map_def quiet_def emits_def)
  have q_in: "quiet (u\<lparr>pk_terrain_populated := b\<rparr>) = (quiet u)\<lparr>pk_terrain_populated := b\<rparr>"
    for u :: "'a packet_client_scheme" and b by (simp add: quiet_def)
  obtain s2 where s2: "replay_pending_tile_packets s1 = Some s2"
    "quiet s2 = quiet (s1\<lparr>cl_tiles := F, pk_pending := []\<rparr>)" "pk_have_game s2 = pk_have_game s"
  proof (cases "pk_pending s1")
    case Nil
    then have "F = cl_tiles s1" using s1 by (simp add: F_def)
    then have "s1\<lparr>cl_tiles := F, pk_pending := []\<rparr> = s1" using Nil by simp
    then show ?thesis using that [of s1] Nil s1 by (simp add: replay_pending_tile_packets_def)
  next
    case (Cons p ps)
    show ?thesis
    proof (rule that)
      show "replay_pending_tile_packets s1 = Some (emit (Ui ''maptiletypes.needsUpdate'' [])
          (emits (concat (map (\<lambda>p. tile_updates (tp_tile p) (ui_active_city s1 \<noteq> None)) (pk_pending s1)))
            (s1\<lparr>pk_pending := [], cl_tiles := F\<rparr>)))"
        using Cons s1 each_tile_ready [of "s1\<lparr>pk_pending := []\<rparr>" "p # ps"]
        by (simp add: replay_pending_tile_packets_def F_def)
      show "quiet (emit (Ui ''maptiletypes.needsUpdate'' [])
          (emits (concat (map (\<lambda>p. tile_updates (tp_tile p) (ui_active_city s1 \<noteq> None)) (pk_pending s1)))
            (s1\<lparr>pk_pending := [], cl_tiles := F\<rparr>))) = quiet (s1\<lparr>cl_tiles := F, pk_pending := []\<rparr>)"
        unfolding quiet_emit by (rule packet_client.equality) (simp_all add: quiet_def)
    qed (use s1 in simp)
  qed
  define s3 where "s3 = terrain_populated s2"
  have s3: "quiet s3 = (populated m s)\<lparr>cl_tiles := F\<rparr>" "pk_have_game s3 = pk_have_game s"
  proof -
    have "quiet s3 = quiet (s2\<lparr>pk_terrain_populated := True\<rparr>)"
      by (simp add: s3_def terrain_populated_def Let_def)
    also have "\<dots> = (quiet s2)\<lparr>pk_terrain_populated := True\<rparr>" by (rule q_in)
    finally show "quiet s3 = (populated m s)\<lparr>cl_tiles := F\<rparr>"
      using s2(2) q1 by (simp add: populated_def quiet_def)
    show "pk_have_game s3 = pk_have_game s"
      using s2(3) by (simp add: s3_def terrain_populated_def Let_def)
  qed
  obtain s4 where s4: "late_start srt (pk_have_game s3) s3 = Some s4"
    "quiet s4 = late_state (pk_have_game s3) (quiet s3)"
    using late_start_quiet by blast
  have "handle_map_info srt m s = Some s4"
    using s2(1) s4(1) by (simp add: handle_map_info_def s1_def [symmetric] s3_def [symmetric] Let_def)
  then show ?thesis using s4(2) s3 by (simp add: F_def)
qed

subsection \<open>The buffer\<close>



text \<open>The buffer at the limit: one packet more and everything, that packet too, is gone.\<close>

lemma each_tile_overflow:
  "\<not> pk_tiles_initialized s \<Longrightarrow> length (pk_pending s) \<le> MAX_PENDING_TILE_PACKETS \<Longrightarrow>
     each handle_tile_info ps s =
       Some (s\<lparr>pk_pending := drop ((length (pk_pending s) + length ps) div Suc MAX_PENDING_TILE_PACKETS
                                     * Suc MAX_PENDING_TILE_PACKETS) (pk_pending s @ ps)\<rparr>)"
proof (induction ps arbitrary: s)
  case Nil
  then show ?case by (simp add: div_less)
next
  case (Cons p ps)
  show ?case
  proof (cases "length (pk_pending s) = MAX_PENDING_TILE_PACKETS")
    case True
    define n where "n = length ps div Suc MAX_PENDING_TILE_PACKETS * Suc MAX_PENDING_TILE_PACKETS"
    have off: "s\<lparr>pk_tiles_initialized := False, pk_pending := qs\<rparr> = s\<lparr>pk_pending := qs\<rparr>" for qs
      by (rule packet_client.equality) (use Cons.prems in simp_all)
    have step: "handle_tile_info p s = Some (s\<lparr>pk_pending := []\<rparr>)"
      using Cons.prems True by (simp add: handle_tile_info_def off)
    have "each handle_tile_info ps (s\<lparr>pk_pending := []\<rparr>) = Some (s\<lparr>pk_pending := drop n ps\<rparr>)"
      using Cons.IH [of "s\<lparr>pk_pending := []\<rparr>"] Cons.prems by (simp add: n_def)
    moreover have "(length (pk_pending s) + length (p # ps)) div Suc MAX_PENDING_TILE_PACKETS * Suc MAX_PENDING_TILE_PACKETS
        = Suc MAX_PENDING_TILE_PACKETS + n"
    proof -
      have "length (pk_pending s) + length (p # ps) = Suc MAX_PENDING_TILE_PACKETS + length ps"
        using True by simp
      moreover have "(Suc M + L) div Suc M * Suc M = Suc M + L div Suc M * Suc M" for M L :: nat
        by (simp only: div_add_self1 nat.distinct(2) not_False_eq_True add_mult_distrib mult_1_left)
      ultimately show ?thesis by (simp only: n_def)
    qed
    moreover have "drop (Suc MAX_PENDING_TILE_PACKETS + n) (pk_pending s @ p # ps) = drop n ps"
      using True by simp
    ultimately show ?thesis by (simp only: each.simps step Option.bind.simps)
  next
    case False
    with Cons.prems have "length (pk_pending s) < MAX_PENDING_TILE_PACKETS" by simp
    then have step: "handle_tile_info p s = Some (s\<lparr>pk_pending := pk_pending s @ [p]\<rparr>)"
      using Cons.prems by (simp add: handle_tile_info_def)
    then show ?thesis
      using Cons.IH [of "s\<lparr>pk_pending := pk_pending s @ [p]\<rparr>"] Cons.prems False
      by (simp add: MAX_PENDING_TILE_PACKETS_def)
  qed
qed

text \<open>
  C36.  The buffer never holds more than \<open>MAX_PENDING_TILE_PACKETS\<close> packets, and what it holds is
  a suffix of the packets that came: after each run of 10001 packets all of them are dropped, so
  the tiles of a map with more tiles than the limit are never replayed completely.
\<close>

theorem tile_buffer_overflow:
  assumes "\<not> pk_tiles_initialized s" and "pk_pending s = []"
  shows "each handle_tile_info ps s =
      Some (s\<lparr>pk_pending := drop (length ps div 10001 * 10001) ps\<rparr>)
    \<and> length (drop (length ps div 10001 * 10001) ps) \<le> 10000"
proof
  show "each handle_tile_info ps s = Some (s\<lparr>pk_pending := drop (length ps div 10001 * 10001) ps\<rparr>)"
    using each_tile_overflow [of s ps] assms by (simp add: MAX_PENDING_TILE_PACKETS_def)
  have "length ps - length ps div 10001 * 10001 = length ps mod 10001" by (rule minus_div_mult_eq_mod)
  moreover have "length ps mod 10001 < 10001" by simp
  ultimately have "length (drop (length ps div 10001 * 10001) ps) < 10001" by (simp only: length_drop)
  then show "length (drop (length ps div 10001 * 10001) ps) \<le> 10000" by simp
qed

theorem tile_buffer_overflow_witness:
  "\<forall>n. each handle_tile_info (replicate n tile_packet0) (packet0 ()) =
      Some ((packet0 ())\<lparr>pk_pending := drop (n div 10001 * 10001) (replicate n tile_packet0)\<rparr>)"
  using tile_buffer_overflow [of "packet0 ()" "replicate n tile_packet0" for n]
  by (simp add: packet0_def focus0_def client0_def)

text \<open>
  An observer whose phase starts while tile packets wait for the map loses them:
  \<open>update_client_state\<close> clears the buffer, so the map that comes then has only unknown tiles.
\<close>

theorem start_phase_drops_early_tiles:
  assumes "fc_observing s" and "\<not> pk_tiles_initialized s" and "pk_pending s = []"
    and "length ps \<le> MAX_PENDING_TILE_PACKETS"
  shows "\<exists>a. Option.bind (Option.bind (each handle_tile_info ps s) (handle_start_phase srt)) (handle_map_info srt m) = Some a
     \<and> cl_tiles a = map_allocate m \<and> cl_client_state a = C_S_RUNNING"
proof -
  define s1 where "s1 = s\<lparr>pk_pending := ps\<rparr>"
  have e: "each handle_tile_info ps s = Some s1"
    using each_tile_buffered [of s ps] assms by (simp add: s1_def)
  obtain u where u: "update_client_state srt C_S_RUNNING s1 = Some u"
    "quiet u = quiet (s1\<lparr>cl_client_state := C_S_RUNNING, pk_retry_count := 0, pk_retry_in_progress := False, pk_pending := []\<rparr>)"
    using update_running_observing [of s1 srt] assms by (auto simp: s1_def)
  define v where "v = (emit (Ui ''set_phase_start'' []) u)\<lparr>pk_saved_this_turn := False\<rparr>"
  have v: "handle_start_phase srt s1 = Some v"
    using u(1) by (simp add: handle_start_phase_def v_def)
  have "pk_pending (quiet u) = []" "cl_client_state (quiet u) = C_S_RUNNING"
    unfolding u(2) by (simp_all add: quiet_def)
  then have vf: "pk_pending v = []" "cl_client_state v = C_S_RUNNING"
    by (simp_all add: v_def quiet_fields emit_def)
  obtain a where a: "handle_map_info srt m v = Some a"
    "quiet a = late_state (pk_have_game v) ((populated m v)\<lparr>cl_tiles := map_allocate m\<rparr>)"
    using map_info_quiet [of srt m v] vf by auto
  have "cl_tiles (quiet a) = map_allocate m \<and> cl_client_state (quiet a) = C_S_RUNNING"
    unfolding a(2) using vf by (simp add: late_state_def populated_def quiet_def)
  then show ?thesis using e v a(1) by (simp add: quiet_fields)
qed

theorem start_phase_drops_early_tiles_witness:
  "\<exists>a. Option.bind (Option.bind (each handle_tile_info [tile_packet0] ((packet0 ())\<lparr>fc_observing := True\<rparr>))
         (handle_start_phase id)) (handle_map_info id \<lparr>m_topology_id = 0, m_wrap_id = 1, m_xsize = 2, m_ysize = 2\<rparr>) = Some a
     \<and> cl_tiles a = map_allocate \<lparr>m_topology_id = 0, m_wrap_id = 1, m_xsize = 2, m_ysize = 2\<rparr>
     \<and> cl_client_state a = C_S_RUNNING"
  by (rule start_phase_drops_early_tiles)
    (simp_all add: packet0_def focus0_def client0_def MAX_PENDING_TILE_PACKETS_def)

end
