(* ===== verification/Observer_Facts.thy ===== *)
theory Observer_Facts
  imports Observer Map_Packets_Facts
begin

text \<open>
  Every run of an observer's client keeps its counters and its tile buffer in bounds and has the
  tiles of the map when it says so; the retries are bounded, a stuck observer gives up, and a
  timeout that closes a live socket spends two retries.
\<close>

definition observer0 :: "observer_client" where
  "observer0 = (packet0 \<lparr>ob_socket = False, ob_init_called = False, ob_port = None, ob_observe_player = None,
     ob_centered_notified = False, ob_parent_notified = False\<rparr>)\<lparr>fc_observing := True\<rparr>"

lemma observer0_simps [simp]:
  "fc_observing observer0" "cl_client_state observer0 = 0" "pk_retry_count observer0 = 0"
  "\<not> pk_retry_in_progress observer0" "pk_pending observer0 = []" "\<not> pk_tiles_initialized observer0"
  "cl_out observer0 = []" "\<not> ob_socket observer0" "\<not> ob_init_called observer0"
  by (simp_all add: observer0_def packet0_def focus0_def client0_def)

lemma emit_observer_fields [simp, frame_simps]:
  "ob_socket (emit e s) = ob_socket s" "ob_init_called (emit e s) = ob_init_called s"
  "ob_socket (emits es s) = ob_socket s" "ob_init_called (emits es s) = ob_init_called s"
  "pk_retry_count (emit e t) = pk_retry_count t" "pk_retry_count (emits es t) = pk_retry_count t"
  "pk_retry_in_progress (emit e t) = pk_retry_in_progress t"
  "pk_retry_in_progress (emits es t) = pk_retry_in_progress t"
  by (simp_all add: emit_def emits_def)

subsection \<open>The invariant\<close>

text \<open>There is a tile for every position of the map.\<close>

definition tiles_cover :: "map_info \<Rightarrow> tile store \<Rightarrow> bool" where
  "tiles_cover m ts \<longleftrightarrow> (\<forall>x y. on_map m x y \<longrightarrow> st_get ts (x + y * m_xsize m) \<noteq> None)"

definition ob_inv :: "'a packet_client_scheme \<Rightarrow> bool" where
  "ob_inv s \<longleftrightarrow>
     fc_observing s \<and> 0 \<le> pk_retry_count s \<and> pk_retry_count s \<le> OBSERVER_MAX_RETRIES
     \<and> length (pk_pending s) \<le> MAX_PENDING_TILE_PACKETS
     \<and> (pk_tiles_initialized s \<longrightarrow> pk_pending s = [] \<and> tiles_cover (cl_map s) (cl_tiles s))"

lemma ob_inv_quiet: "ob_inv (quiet s) = ob_inv s"
  by (simp add: ob_inv_def quiet_def)

lemma ob_inv_emit [simp]: "ob_inv (emit e s) = ob_inv s" "ob_inv (emits es s) = ob_inv s"
  by (simp_all add: ob_inv_def emit_def emits_def)

lemma cover_put: "tiles_cover m ts \<Longrightarrow> tiles_cover m (put_tile rs ts p)"
  unfolding tiles_cover_def put_tile_def js.get_put by simp

lemma cover_puts: "tiles_cover m ts \<Longrightarrow> tiles_cover m (foldl (put_tile rs) ts ps)"
  by (induction ps arbitrary: ts) (simp_all add: cover_put)

lemma cover_allocated: "tiles_cover m (map_allocate m)"
  unfolding tiles_cover_def using map_allocate_get by blast

lemma ob_inv_tile: "ob_inv s \<Longrightarrow> handle_tile_info p s = Some s' \<Longrightarrow> ob_inv s'"
proof (cases "pk_tiles_initialized s")
  case True
  assume "ob_inv s" "handle_tile_info p s = Some s'"
  with True show ?thesis
    by (auto simp: tile_info_ready ob_inv_def cover_put)
next
  case False
  assume "ob_inv s" "handle_tile_info p s = Some s'"
  with False show ?thesis
    by (auto simp: handle_tile_info_def ob_inv_def split: if_splits)
qed

lemma ob_inv_map:
  assumes "ob_inv s" and "handle_map_info srt m s = Some s'"
  shows "ob_inv s'"
proof -
  have "quiet s' = late_state (pk_have_game s) ((populated m s)
         \<lparr>cl_tiles := foldl (put_tile (cl_ruleset s)) (map_allocate m) (pk_pending s)\<rparr>)"
    using map_info_quiet [of srt m s] assms(2) by simp
  moreover have "ob_inv (late_state (pk_have_game s) ((populated m s)
         \<lparr>cl_tiles := foldl (put_tile (cl_ruleset s)) (map_allocate m) (pk_pending s)\<rparr>))"
    using assms(1)
    by (simp add: ob_inv_def late_state_def populated_def quiet_def cover_puts [OF cover_allocated])
  ultimately show ?thesis by (metis ob_inv_quiet)
qed

lemma ob_inv_game:
  assumes "ob_inv s" and "handle_game_info srt p s = Some s'"
  shows "ob_inv s'"
proof -
  define s1 where "s1 = s\<lparr>pk_have_game := True, cl_turn := gi_turn p, pk_year := gi_year p, pk_fragments := gi_fragments p,
                 cl_team_pooled_research := gi_team_pooled_research p,
                 fc_tech_steal_allow_holes := gi_tech_steal_allow_holes p, pk_trading_gold := gi_trading_gold p,
                 pk_trading_tech := gi_trading_tech p, pk_trading_city := gi_trading_city p\<rparr>"
  have "ob_inv s1" using assms(1) by (simp add: s1_def ob_inv_def)
  moreover have "quiet s' = late_state (m_xsize (cl_map s1) > 0) (quiet s1)"
    using late_start_quiet [of srt "m_xsize (cl_map s1) > 0" s1] assms(2)
    by (simp add: handle_game_info_def s1_def [symmetric] Let_def)
  moreover have "ob_inv (late_state b u) = ob_inv u" if "ob_inv u" for b and u :: "'a packet_client_scheme"
    using that by (simp add: late_state_def ob_inv_def)
  ultimately show ?thesis by (metis ob_inv_quiet)
qed

lemma ob_inv_start:
  assumes "ob_inv s" and "handle_start_phase srt s = Some s'"
  shows "ob_inv s'"
proof -
  obtain u where u: "update_client_state srt C_S_RUNNING s = Some u"
    "quiet u = quiet (s\<lparr>cl_client_state := C_S_RUNNING, pk_retry_count := 0, pk_retry_in_progress := False, pk_pending := []\<rparr>)"
    using update_running_observing [of s srt] assms(1) by (auto simp: ob_inv_def)
  have "ob_inv (s\<lparr>cl_client_state := C_S_RUNNING, pk_retry_count := 0, pk_retry_in_progress := False, pk_pending := []\<rparr>)"
    using assms(1) by (simp add: ob_inv_def)
  then have "ob_inv u" using u(2) by (metis ob_inv_quiet)
  moreover have "s' = (emit (Ui ''set_phase_start'' []) u)\<lparr>pk_saved_this_turn := False\<rparr>"
    using assms(2) u(1) by (simp add: handle_start_phase_def)
  ultimately show ?thesis by (simp add: ob_inv_def)
qed

lemma ob_inv_endgame: "ob_inv s \<Longrightarrow> handle_endgame_report srt s = Some s' \<Longrightarrow> ob_inv s'"
  by (auto simp: handle_endgame_report_def update_client_state_def set_client_state_def ob_inv_def split: if_splits)

lemma ob_inv_reset: "ob_inv s \<Longrightarrow> ob_inv (reset_observer_state_for_retry s)"
  by (simp add: reset_observer_state_for_retry_def network_stop_def ob_inv_def)

lemma ob_inv_counted:
  "ob_inv s \<Longrightarrow> pk_retry_count s < OBSERVER_MAX_RETRIES \<Longrightarrow>
     ob_inv (s\<lparr>pk_retry_count := pk_retry_count s + 1, pk_retry_in_progress := b\<rparr>)"
  by (simp add: ob_inv_def)

lemma ob_inv_progress: "ob_inv (s\<lparr>pk_retry_in_progress := b\<rparr>) = ob_inv s"
  by (simp add: ob_inv_def)

lemma ob_inv_connection:
  assumes "ob_inv s"
  shows "ob_inv (handle_observer_timeout_with_retry c s)" and "ob_inv (websocket_onclose s)"
    and "ob_inv (retry_timer_fires s)" and "ob_inv (network_answer port result delay s)"
    and "ob_inv (websocket_onopen ready s)"
proof -
  show "ob_inv (handle_observer_timeout_with_retry c s)"
    using assms ob_inv_reset [OF ob_inv_counted [OF assms]]
    by (simp add: handle_observer_timeout_with_retry_def)
  show "ob_inv (websocket_onclose s)"
    using assms ob_inv_reset [OF ob_inv_counted [OF assms]]
    by (simp add: websocket_onclose_def ob_inv_progress)
  have "ob_inv (network_init s)"
    using assms by (simp add: network_init_def ob_inv_def)
  then show "ob_inv (retry_timer_fires s)"
    by (simp add: retry_timer_fires_def ob_inv_progress)
  show "ob_inv (network_answer port result delay s)"
    using assms by (simp add: network_answer_def websocket_init_def Let_def ob_inv_def split: option.split)
  show "ob_inv (websocket_onopen ready s)"
    using assms by (simp add: websocket_onopen_def check_websocket_ready_def)
qed

lemma ob_inv_step: "ob_step srt s e s' \<Longrightarrow> ob_inv s \<Longrightarrow> ob_inv s'"
  unfolding ob_step_iff
  by (cases e) (auto intro: ob_inv_tile ob_inv_map ob_inv_game ob_inv_start ob_inv_endgame ob_inv_connection)

text \<open>
  C1.  In every run of an observer's client, whatever the order of the packets, of the timers and
  of the closing of sockets, the number of retries stays between 0 and 4, the buffer holds at most
  10000 tile packets, and when the tiles count as initialised the buffer is empty and every
  position of the present map has its tile.
\<close>

theorem observer_run_invariant:
  assumes "ob_run srt s es t" and "ob_inv s"
  shows "ob_inv t"
  using assms by (induction rule: ob_run.induct) (auto intro: ob_inv_step)

lemma one_event: "ob_event_step srt e s = Some t \<Longrightarrow> ob_run srt s [e] t"
  using ob_run.more [OF ob_run.start ob_step.event, of srt e s t] by simp

theorem observer_run_invariant_witness:
  "\<exists>t. ob_run id observer0 [TileInfo tile_packet0] t \<and> pk_pending t = [tile_packet0] \<and> ob_inv t"
proof -
  define t where "t = observer0\<lparr>pk_pending := [tile_packet0]\<rparr>"
  have "handle_tile_info tile_packet0 observer0 = Some t"
    by (simp add: handle_tile_info_def t_def MAX_PENDING_TILE_PACKETS_def)
  then have r: "ob_run id observer0 [TileInfo tile_packet0] t"
    by (intro one_event) simp
  have "ob_inv observer0" by (simp add: ob_inv_def)
  from observer_run_invariant [OF r this] r show ?thesis
    by (intro exI [of _ t]) (simp add: t_def)
qed

subsection \<open>How often the client connects\<close>

fun is_request :: "effect \<Rightarrow> bool" where
  "is_request (Ui f args) = (f = ''ajax'')"
| "is_request e = False"

definition requests :: "'a client_scheme \<Rightarrow> int" where
  "requests s = int (length (filter is_request (cl_out s)))"

lemma requests_emit [simp]: "requests (emit e s) = requests s + (if is_request e then 1 else 0)"
  by (simp add: requests_def)

lemma requests_emits [simp]: "requests (emits es s) = requests s + int (length (filter is_request es))"
  by (simp add: requests_def)

lemma requests_upd [simp]:
  "requests (t\<lparr>pk_retry_in_progress := b\<rparr>) = requests t" "requests (t\<lparr>pk_retry_count := n\<rparr>) = requests t"
  "requests (t\<lparr>pk_pending := ps\<rparr>) = requests t" "requests (t\<lparr>pk_tiles_initialized := b\<rparr>) = requests t"
  "requests (u\<lparr>ob_init_called := b\<rparr>) = requests u" "requests (u\<lparr>ob_port := p\<rparr>) = requests u"
  "requests (u\<lparr>ob_socket := b\<rparr>) = requests u" "requests (v\<lparr>cl_tiles := ts\<rparr>) = requests v"
  by (simp_all add: requests_def)

lemma is_request_other [simp]:
  "\<not> is_request retry_timer" "\<not> is_request (setTimeout f n)" "\<not> is_request (log_message a b)"
  by (simp_all add: retry_timer_def setTimeout_def log_message_def)

lemma tile_updates_no_request: "filter is_request (tile_updates i b) = []"
  by (simp add: tile_updates_def)

text \<open>The events of the connection, before the game starts.\<close>

fun connecting :: "ob_event \<Rightarrow> bool" where
  "connecting (TimeoutFires c) = True"
| "connecting SocketCloses = True"
| "connecting RetryTimerFires = True"
| "connecting (NetworkAnswer port result delay) = True"
| "connecting (SocketOpens ready) = True"
| "connecting (TileInfo p) = True"
| "connecting e = False"

text \<open>Requests made so far and the one that is due; each retry allows one more.\<close>

definition due :: "'a observer_client_scheme \<Rightarrow> int" where
  "due s = requests s + (if ob_init_called s then 0 else 1)"

lemma reset_fields [simp]:
  "requests (reset_observer_state_for_retry s) = requests s"
  "\<not> ob_init_called (reset_observer_state_for_retry s)"
  "pk_retry_count (reset_observer_state_for_retry s) = pk_retry_count s"
  "\<not> pk_retry_in_progress (reset_observer_state_for_retry s)"
  "cl_client_state (reset_observer_state_for_retry s) = cl_client_state s"
  "fc_observing (reset_observer_state_for_retry s) = fc_observing s"
  by (simp_all add: reset_observer_state_for_retry_def network_stop_def requests_def)

lemma network_init_fields [simp]:
  "pk_retry_count (network_init s) = pk_retry_count s" "ob_init_called (network_init s)"
  "cl_client_state (network_init s) = cl_client_state s" "fc_observing (network_init s) = fc_observing s"
  "requests (network_init s) = due s"
  by (simp_all add: network_init_def due_def)

lemma websocket_init_fields [simp]:
  "requests (websocket_init s) = requests s" "ob_init_called (websocket_init s) = ob_init_called s"
  "pk_retry_count (websocket_init s) = pk_retry_count s"
  by (simp_all add: websocket_init_def Let_def split: option.split)

lemma connection_fields [simp]:
  "requests (network_answer port result delay s) = requests s"
  "ob_init_called (network_answer port result delay s) = ob_init_called s"
  "pk_retry_count (network_answer port result delay s) = pk_retry_count s"
  "requests (websocket_onopen ready s) = requests s"
  "ob_init_called (websocket_onopen ready s) = ob_init_called s"
  "pk_retry_count (websocket_onopen ready s) = pk_retry_count s"
  by (simp_all add: network_answer_def websocket_onopen_def check_websocket_ready_def Let_def)

lemma due_step:
  assumes "ob_step srt s e t" and "connecting e" and "pk_retry_count s \<le> OBSERVER_MAX_RETRIES"
  shows "due t - pk_retry_count t \<le> due s - pk_retry_count s \<and> pk_retry_count s \<le> pk_retry_count t
    \<and> pk_retry_count t \<le> OBSERVER_MAX_RETRIES"
proof (cases e)
  case (TimeoutFires c)
  then have "t = handle_observer_timeout_with_retry c s"
    using assms(1) by (simp add: ob_step_iff)
  then show ?thesis
    using assms(3)
    by (cases "cl_client_state s = C_S_RUNNING \<or> \<not> fc_observing s \<or> pk_retry_in_progress s";
        cases "pk_retry_count s < OBSERVER_MAX_RETRIES")
      (simp_all add: handle_observer_timeout_with_retry_def due_def)
next
  case SocketCloses
  then have "t = websocket_onclose s"
    using assms(1) by (simp add: ob_step_iff)
  then show ?thesis
    using assms(3)
    by (cases "fc_observing s \<and> cl_client_state s \<noteq> C_S_RUNNING \<and> pk_retry_count s < OBSERVER_MAX_RETRIES
               \<and> \<not> pk_retry_in_progress s")
      (simp_all add: websocket_onclose_def due_def)
next
  case RetryTimerFires
  then have "t = (network_init s)\<lparr>pk_retry_in_progress := False\<rparr>"
    using assms by (simp add: ob_step_iff retry_timer_fires_def)
  then show ?thesis using assms(3) by (simp add: due_def [of "_\<lparr>pk_retry_in_progress := _\<rparr>"])
next
  case (NetworkAnswer port result delay)
  then have "t = network_answer port result delay s"
    using assms(1) by (simp add: ob_step_iff)
  then show ?thesis using assms(3) by (simp add: due_def)
next
  case (SocketOpens ready)
  then have "t = websocket_onopen ready s"
    using assms(1) by (simp add: ob_step_iff)
  then show ?thesis using assms(3) by (simp add: due_def)
next
  case (TileInfo p)
  have no: "filter is_request (tile_updates (tp_tile p) b) = []" for b by (rule tile_updates_no_request)
  show ?thesis
    using assms TileInfo
    by (auto simp: ob_step_iff handle_tile_info_def due_def no split: if_splits)
qed (use assms in simp_all)

text \<open>
  While the game does not start, the client asks for a connection at most once for each
  retry it has left, and once more when no request was made yet; the number of retries only grows,
  up to 4.
\<close>

theorem observer_requests_bounded:
  assumes "ob_run srt s es t" and "\<forall>e\<in>set es. connecting e" and "pk_retry_count s \<le> 4"
  shows "requests t \<le> requests s + (4 - pk_retry_count s) + (if ob_init_called s then 0 else 1)
    \<and> pk_retry_count s \<le> pk_retry_count t \<and> pk_retry_count t \<le> 4"
proof -
  have "due t - pk_retry_count t \<le> due s - pk_retry_count s \<and> pk_retry_count s \<le> pk_retry_count t
    \<and> pk_retry_count t \<le> 4"
    using assms
  proof (induction rule: ob_run.induct)
    case (start s)
    then show ?case by simp
  next
    case (more s es t e u)
    then have "due t - pk_retry_count t \<le> due s - pk_retry_count s \<and> pk_retry_count s \<le> pk_retry_count t
      \<and> pk_retry_count t \<le> 4" by simp
    moreover have "due u - pk_retry_count u \<le> due t - pk_retry_count t \<and> pk_retry_count t \<le> pk_retry_count u
      \<and> pk_retry_count u \<le> 4"
      using due_step [OF more.hyps(2)] more.prems calculation by simp
    ultimately show ?case by linarith
  qed
  moreover have "requests t \<le> due t" by (simp add: due_def)
  ultimately show ?thesis by (auto simp: due_def)
qed

theorem observer_requests_bounded_witness:
  "\<exists>t. ob_run id observer0 [TimeoutFires ''global''] t \<and> pk_retry_count t = 1
     \<and> requests t \<le> requests observer0 + (4 - pk_retry_count observer0) + 1"
proof -
  define t where "t = handle_observer_timeout_with_retry ''global'' observer0"
  have r: "ob_run id observer0 [TimeoutFires ''global''] t"
    by (intro one_event) (simp add: t_def)
  have "pk_retry_count t = 1"
    by (simp add: t_def handle_observer_timeout_with_retry_def)
  with observer_requests_bounded [OF r] r show ?thesis by auto
qed

subsection \<open>What becomes of a stuck observer\<close>

definition gave_up :: "'a client_scheme \<Rightarrow> bool" where
  "gave_up s \<longleftrightarrow> Ui ''alert'' [JStr ''Observer mode failed to initialize. The map is not loading.''] \<in> set (cl_out s)"

text \<open>A timeout and, when it led to a retry, the timer of the retry; the server answers nothing.\<close>

definition retry_round :: "string \<Rightarrow> 'a observer_client_scheme \<Rightarrow> 'a observer_client_scheme" where
  "retry_round c s = retry_timer_fires (handle_observer_timeout_with_retry c s)"

lemma retry_round_retry:
  assumes "fc_observing s" and "cl_client_state s \<noteq> C_S_RUNNING" and "\<not> pk_retry_in_progress s"
    and "pk_retry_count s < OBSERVER_MAX_RETRIES"
  shows "pk_retry_count (retry_round c s) = pk_retry_count s + 1"
    and "requests (retry_round c s) = requests s + 1"
    and "fc_observing (retry_round c s)" and "cl_client_state (retry_round c s) = cl_client_state s"
    and "\<not> pk_retry_in_progress (retry_round c s)" and "ob_init_called (retry_round c s)"
  using assms by (simp_all add: retry_round_def retry_timer_fires_def handle_observer_timeout_with_retry_def due_def)

lemma retry_round_give_up:
  assumes "fc_observing s" and "cl_client_state s \<noteq> C_S_RUNNING" and "\<not> pk_retry_in_progress s"
    and "pk_retry_count s = OBSERVER_MAX_RETRIES"
  shows "gave_up (retry_round c s)"
  using assms
  by (simp add: retry_round_def retry_timer_fires_def network_init_def handle_observer_timeout_with_retry_def gave_up_def)



text \<open>
  A timeout on a live socket costs two retries.  \<open>handle_observer_timeout_with_retry\<close> raises
  the flag of a retry in progress and then resets the state, which clears the flag again (only
  \<open>ws.onclose\<close> raises it anew); the close of the socket it stopped is then taken for another
  failure.  Two of the four retries are spent, two timers run, and one request comes of it.
\<close>

theorem timeout_spends_two_retries:
  assumes "fc_observing s" and "cl_client_state s \<noteq> C_S_RUNNING" and "\<not> pk_retry_in_progress s"
    and "pk_retry_count s \<le> 2"
  shows "let s1 = handle_observer_timeout_with_retry c s; s2 = websocket_onclose s1;
             s4 = retry_timer_fires (retry_timer_fires s2)
         in \<not> pk_retry_in_progress s1 \<and> pk_retry_count s2 = pk_retry_count s + 2
            \<and> requests s4 = requests s + 1 \<and> pk_retry_count s4 = pk_retry_count s + 2"
  using assms
  by (simp add: Let_def handle_observer_timeout_with_retry_def websocket_onclose_def retry_timer_fires_def due_def)

theorem timeout_spends_two_retries_witness:
  "let s1 = handle_observer_timeout_with_retry ''global'' observer0; s2 = websocket_onclose s1;
       s4 = retry_timer_fires (retry_timer_fires s2)
   in \<not> pk_retry_in_progress s1 \<and> pk_retry_count s2 = 2 \<and> requests s4 = 1 \<and> pk_retry_count s4 = 2"
proof -
  have "requests observer0 = 0" by (simp add: requests_def)
  then show ?thesis using timeout_spends_two_retries [of observer0 "''global''"] by (simp add: Let_def)
qed

end
