(* ===== verification/Diplomacy.thy ===== *)
theory Diplomacy
  imports Map_Packets
begin

text \<open>
  The treaty meetings (\<open>diplomacy.js\<close> and the diplomacy handlers of \<open>packhand.js\<close>): the clauses of
  each meeting by counterpart, the requests that change them, the packets of the server, and the
  clauses the dialog offers.  Reading the clauses of a counterpart that has none stored throws.
  The markup, flags and menus of the dialog are left out.
\<close>

record clause =
  cz_counterpart :: int
  cz_giver :: int
  cz_type :: int
  cz_value :: int

record diplomacy_client = packet_client +
  dp_clause_map :: "clause list store"   \<comment> \<open>\<open>diplomacy_clause_map\<close>\<close>
  dp_clause_infos :: "bool store"        \<comment> \<open>\<open>clause_infos[type]['enabled']\<close>\<close>
  dp_diplstates :: "int store"           \<comment> \<open>\<open>diplstates\<close>: our state with each player\<close>

abbreviation (input) CLAUSE_ADVANCE :: int where "CLAUSE_ADVANCE \<equiv> 0"
abbreviation (input) CLAUSE_GOLD :: int where "CLAUSE_GOLD \<equiv> 1"
abbreviation (input) CLAUSE_MAP :: int where "CLAUSE_MAP \<equiv> 2"
abbreviation (input) CLAUSE_SEAMAP :: int where "CLAUSE_SEAMAP \<equiv> 3"
abbreviation (input) CLAUSE_CITY :: int where "CLAUSE_CITY \<equiv> 4"
abbreviation (input) CLAUSE_CEASEFIRE :: int where "CLAUSE_CEASEFIRE \<equiv> 5"
abbreviation (input) CLAUSE_PEACE :: int where "CLAUSE_PEACE \<equiv> 6"
abbreviation (input) CLAUSE_ALLIANCE :: int where "CLAUSE_ALLIANCE \<equiv> 7"
abbreviation (input) CLAUSE_VISION :: int where "CLAUSE_VISION \<equiv> 8"
abbreviation (input) CLAUSE_EMBASSY :: int where "CLAUSE_EMBASSY \<equiv> 9"
abbreviation (input) CLAUSE_SHARED_TILES :: int where "CLAUSE_SHARED_TILES \<equiv> 10"

definition clauses_of :: "'a diplomacy_client_scheme \<Rightarrow> int \<Rightarrow> clause list option" where
  "clauses_of s counterpart = st_get (dp_clause_map s) counterpart"

definition set_clauses :: "int \<Rightarrow> clause list \<Rightarrow> 'a diplomacy_client_scheme \<Rightarrow> 'a diplomacy_client_scheme" where
  "set_clauses counterpart cs s = s\<lparr>dp_clause_map := st_put counterpart cs (dp_clause_map s)\<rparr>"

subsection \<open>Requests\<close>

definition dipl_request :: "string \<Rightarrow> int \<Rightarrow> effect" where
  "dipl_request pid counterpart = Send [(''pid'', JConst pid), (''counterpart'', JNum counterpart)]"

definition diplomacy_init_meeting_req :: "int \<Rightarrow> 'a client_scheme \<Rightarrow> 'a client_scheme" where
  "diplomacy_init_meeting_req counterpart s = emit (dipl_request ''packet_diplomacy_init_meeting_req'' counterpart) s"

definition accept_treaty_req :: "int \<Rightarrow> 'a client_scheme \<Rightarrow> 'a client_scheme" where
  "accept_treaty_req counterpart s = emit (dipl_request ''packet_diplomacy_accept_treaty_req'' counterpart) s"

definition cancel_meeting_req :: "int \<Rightarrow> 'a client_scheme \<Rightarrow> 'a client_scheme" where
  "cancel_meeting_req counterpart s = emit (dipl_request ''packet_diplomacy_cancel_meeting_req'' counterpart) s"

definition create_clause_packet :: "int \<Rightarrow> int \<Rightarrow> int \<Rightarrow> int \<Rightarrow> packet" where
  "create_clause_packet counterpart giver type value =
     [(''pid'', JConst ''packet_diplomacy_create_clause_req''), (''counterpart'', JNum counterpart),
      (''giver'', JNum giver), (''type'', JNum type), (''value'', JNum value)]"

definition remove_clause_packet :: "clause \<Rightarrow> packet" where
  "remove_clause_packet c =
     [(''pid'', JConst ''packet_diplomacy_remove_clause_req''), (''counterpart'', JNum (cz_counterpart c)),
      (''giver'', JNum (cz_giver c)), (''type'', JNum (cz_type c)), (''value'', JNum (cz_value c))]"

definition remove_clause_req :: "int \<Rightarrow> nat \<Rightarrow> 'a diplomacy_client_scheme \<Rightarrow> 'a diplomacy_client_scheme option" where
  "remove_clause_req counterpart clause_no s =
     Option.bind (clauses_of s counterpart)
       (\<lambda>cs. if clause_no < length cs then Some (emit (Send (remove_clause_packet (cs ! clause_no))) s) else None)"

definition is_pact :: "int \<Rightarrow> bool" where
  "is_pact type \<longleftrightarrow> type = CLAUSE_CEASEFIRE \<or> type = CLAUSE_PEACE \<or> type = CLAUSE_ALLIANCE"

definition create_clause_req :: "int \<Rightarrow> int \<Rightarrow> int \<Rightarrow> int \<Rightarrow> 'a diplomacy_client_scheme
    \<Rightarrow> 'a diplomacy_client_scheme option" where
  "create_clause_req counterpart giver type value s =
     map_option (emit (Send (create_clause_packet counterpart giver type value)))
       (if is_pact type
        then map_option (\<lambda>cs. emits (map (\<lambda>c. Send (remove_clause_packet c)) (filter (\<lambda>c. is_pact (cz_type c)) cs)) s)
               (clauses_of s counterpart)
        else Some s)"

text \<open>
  \<open>meeting_gold_change_req\<close>: the loop asks to remove every gold clause of the giver and stops the
  whole function at one that already has the value (\<open>None\<close> of the loop).
\<close>

fun gold_loop :: "int \<Rightarrow> int \<Rightarrow> clause list \<Rightarrow> packet list \<times> bool" where
  "gold_loop giver gold [] = ([], True)"
| "gold_loop giver gold (c # cs) =
     (if cz_giver c = giver \<and> cz_type c = CLAUSE_GOLD
      then (if cz_value c = gold then ([], False)
            else (let (ps, go_on) = gold_loop giver gold cs in (remove_clause_packet c # ps, go_on)))
      else gold_loop giver gold cs)"

definition meeting_gold_change_req :: "int \<Rightarrow> int \<Rightarrow> int \<Rightarrow> 'a diplomacy_client_scheme
    \<Rightarrow> 'a diplomacy_client_scheme" where
  "meeting_gold_change_req counterpart giver gold s =
     (let (ps, go_on) = gold_loop giver gold (case clauses_of s counterpart of None \<Rightarrow> [] | Some cs \<Rightarrow> cs);
          s1 = emits (map Send ps) s
      in if go_on \<and> gold \<noteq> 0 then emit (Send (create_clause_packet counterpart giver CLAUSE_GOLD gold)) s1 else s1)"

definition diplomacy_cancel_treaty :: "int \<Rightarrow> 'a client_scheme \<Rightarrow> 'a client_scheme" where
  "diplomacy_cancel_treaty player_id s =
     emits [Send [(''pid'', JConst ''packet_diplomacy_cancel_pact''), (''other_player_id'', JNum player_id),
                  (''clause'', JNum DS_CEASEFIRE)],
            Ui ''update_nation_screen'' [], setTimeout ''update_nation_screen'' 500,
            setTimeout ''update_nation_screen'' 1500] s"

subsection \<open>What the clauses say\<close>

text \<open>\<open>client_diplomacy_clause_string\<close>: the text, and the gold fields it sets on the way.\<close>

definition client_diplomacy_clause_string :: "'a client_scheme \<Rightarrow> clause \<Rightarrow> (effect list \<times> string) option" where
  "client_diplomacy_clause_string s c =
     Option.bind (st_get (cl_players s) (cz_giver c)) (\<lambda>pplayer.
     Option.bind (nation_adjective s (p_nation pplayer)) (\<lambda>nation.
       let says = (\<lambda>text. Some ([], ''The '' @ nation @ text)); t = cz_type c
       in if t = CLAUSE_ADVANCE
          then Option.bind (st_get (cl_techs s) (cz_value c)) (\<lambda>ptech. says ('' give '' @ tc_name ptech))
          else if t = CLAUSE_CITY
          then (case st_get (cl_cities s) (cz_value c) of
                  None \<Rightarrow> says '' give unknown city.''
                | Some pcity \<Rightarrow> Option.bind (decodeURIComponent (c_name pcity)) (\<lambda>n. says ('' give '' @ n)))
          else if t = CLAUSE_GOLD
          then Option.bind (playing s) (\<lambda>me.
                 Some ([Ui ''val'' [JStr (if cz_giver c = p_playerno me then ''#self_gold_'' else ''#counterpart_gold_''),
                                    JNum (cz_counterpart c), JNum (cz_value c)]],
                       ''The '' @ nation @ '' give '' @ int_text (cz_value c) @ '' gold''))
          else if t = CLAUSE_MAP then says '' give their worldmap''
          else if t = CLAUSE_SEAMAP then says '' give their seamap''
          else if t = CLAUSE_CEASEFIRE then Some ([], ''The parties agree on a cease-fire'')
          else if t = CLAUSE_PEACE then Some ([], ''The parties agree on a peace'')
          else if t = CLAUSE_ALLIANCE then Some ([], ''The parties create an alliance'')
          else if t = CLAUSE_VISION then says '' give shared vision''
          else if t = CLAUSE_EMBASSY then says '' give an embassy''
          else if t = CLAUSE_SHARED_TILES then says '' share their tiles''
          else Some ([], '''')))"

fun clause_texts :: "'a client_scheme \<Rightarrow> clause list \<Rightarrow> (effect list \<times> jval list) option" where
  "clause_texts s [] = Some ([], [])"
| "clause_texts s (c # cs) =
     Option.bind (client_diplomacy_clause_string s c) (\<lambda>(es, t).
       map_option (\<lambda>(fs, ts). (es @ fs, JStr t # ts)) (clause_texts s cs))"

text \<open>\<open>show_diplomacy_clauses\<close>; a link at place \<open>i\<close> of the list removes clause \<open>i\<close>.\<close>

definition show_diplomacy_clauses :: "int \<Rightarrow> 'a diplomacy_client_scheme \<Rightarrow> 'a diplomacy_client_scheme option" where
  "show_diplomacy_clauses counterpart s =
     Option.bind (clauses_of s counterpart) (\<lambda>cs.
       map_option (\<lambda>(es, ts). emit (Ui ''diplomacy_messages'' [JNum counterpart, JArr ts]) (emits es s))
         (clause_texts s cs))"

subsection \<open>What a meeting offers\<close>

datatype menu_entry = MenuClause int int string | MenuGroup string "(int \<times> int \<times> string) list"

record meeting_data =
  md_adjective :: string
  md_name :: string
  md_pid :: int
  md_clauses :: "menu_entry list"

definition clause_enabled :: "'a diplomacy_client_scheme \<Rightarrow> int \<Rightarrow> bool option" where
  "clause_enabled s type = st_get (dp_clause_infos s) type"

definition group :: "string \<Rightarrow> (int \<times> int \<times> string) list \<Rightarrow> menu_entry list" where
  "group title cs = (if cs = [] then [] else [MenuGroup title cs])"

text \<open>The clauses of the given types that are enabled; an unknown type throws.\<close>

fun enabled_clauses :: "'a diplomacy_client_scheme \<Rightarrow> (int \<times> string) list \<Rightarrow> (int \<times> int \<times> string) list option" where
  "enabled_clauses s [] = Some []"
| "enabled_clauses s ((t, name) # ts) =
     Option.bind (clause_enabled s t) (\<lambda>on.
       map_option (\<lambda>cs. if on then (t, 1, name) # cs else cs) (enabled_clauses s ts))"

definition advance_clauses :: "'a diplomacy_client_scheme \<Rightarrow> player \<Rightarrow> player \<Rightarrow> (int \<times> int \<times> string) list" where
  "advance_clauses s giver taker =
     map (\<lambda>(tech_id, ptech). (CLAUSE_ADVANCE, tech_id, tc_name ptech))
       (filter (\<lambda>(tech_id, _). player_invention_state (Some giver) tech_id = TECH_KNOWN
                  \<and> (player_invention_state (Some taker) tech_id = TECH_UNKNOWN
                     \<or> player_invention_state (Some taker) tech_id = TECH_PREREQS_KNOWN)) (cl_techs s))"

fun city_clauses :: "'a diplomacy_client_scheme \<Rightarrow> player \<Rightarrow> (int \<times> city) list \<Rightarrow> (int \<times> int \<times> string) list option" where
  "city_clauses s giver [] = Some []"
| "city_clauses s giver ((city_id, pcity) # cs) =
     (if map_option p_playerno (city_owner s (Some pcity)) = Some (p_playerno giver)
         \<and> \<not> does_city_have_improvement s (Some pcity) ''Palace''
      then Option.bind (decodeURIComponent (c_name pcity)) (\<lambda>n.
             map_option ((#) (CLAUSE_CITY, city_id, n)) (city_clauses s giver cs))
      else city_clauses s giver cs)"

definition meeting_template_data :: "player \<Rightarrow> player \<Rightarrow> 'a diplomacy_client_scheme \<Rightarrow> meeting_data option" where
  "meeting_template_data giver taker s = do {
     adjective \<leftarrow> nation_adjective s (p_nation giver);
     maps \<leftarrow> enabled_clauses s [(CLAUSE_MAP, ''World-map''), (CLAUSE_SEAMAP, ''Sea-map'')];
     advances \<leftarrow> (if pk_trading_tech s
                  then map_option (\<lambda>on. if on then advance_clauses s giver taker else []) (clause_enabled s CLAUSE_ADVANCE)
                  else Some []);
     towns \<leftarrow> (if pk_trading_city s
                then Option.bind (clause_enabled s CLAUSE_CITY)
                       (\<lambda>on. if on then city_clauses s giver (cl_cities s) else Some [])
                else Some []);
     gifts \<leftarrow> enabled_clauses s [(CLAUSE_VISION, ''Give shared vision''), (CLAUSE_EMBASSY, ''Give embassy''),
                                 (CLAUSE_SHARED_TILES, ''Share tiles'')];
     pacts \<leftarrow> (if cl_playing s = Some (p_playerno giver)
               then enabled_clauses s [(CLAUSE_CEASEFIRE, ''Cease-fire''), (CLAUSE_PEACE, ''Peace''), (CLAUSE_ALLIANCE, ''Alliance'')]
               else Some []);
     Some \<lparr>md_adjective = adjective, md_name = p_name giver, md_pid = p_playerno giver,
           md_clauses = group ''Maps...'' maps @ group ''Advances...'' advances @ group ''Cities...'' towns
             @ map (\<lambda>(t, v, n). MenuClause t v n) gifts @ group ''Pacts...'' pacts\<rparr>
   }"

text \<open>One side of the dialog: its title and its menu, whose links call \<open>create_clause_req\<close>.\<close>

definition clause_link :: "int \<Rightarrow> int \<Rightarrow> int \<times> int \<times> string \<Rightarrow> jval" where
  "clause_link counterpart pid entry =
     (let (type, val, name) = entry
      in JArr [JStr name, JArr [JStr ''create_clause_req'', JNum counterpart, JNum pid, JNum type, JNum val]])"

fun menu_entry_json :: "int \<Rightarrow> int \<Rightarrow> menu_entry \<Rightarrow> jval" where
  "menu_entry_json counterpart pid (MenuClause type val name) = clause_link counterpart pid (type, val, name)"
| "menu_entry_json counterpart pid (MenuGroup title cs) = JArr [JStr title, JArr (map (clause_link counterpart pid) cs)]"

definition meeting_json :: "int \<Rightarrow> meeting_data \<Rightarrow> jval" where
  "meeting_json counterpart d =
     JArr [JStr (md_adjective d @ '' '' @ md_name d),
           JArr (map (menu_entry_json counterpart (md_pid d)) (md_clauses d))]"

text \<open>
  The gold fields of the dialog: their greatest values, or hidden when gold cannot be traded.
\<close>

definition gold_fields :: "player \<Rightarrow> player \<Rightarrow> 'a diplomacy_client_scheme \<Rightarrow> effect list option" where
  "gold_fields me other s =
     map_option
       (\<lambda>on. if on
             then [Ui ''max'' [JStr ''#self_gold_'', JNum (p_playerno other), JNum (p_gold me)],
                   Ui ''max'' [JStr ''#counterpart_gold_'', JNum (p_playerno other), JNum (p_gold other)]]
             else [Ui ''hide'' [JStr ''#self_gold_'', JNum (p_playerno other)],
                   Ui ''hide'' [JStr ''#counterpart_gold_'', JNum (p_playerno other)]])
       (if pk_trading_gold s then clause_enabled s CLAUSE_GOLD else Some False)"

text \<open>The buttons of the dialog; closing it cancels the meeting.\<close>

datatype meeting_button = AcceptTreaty | CancelMeeting | DeclareWar | CloseDialog

fun meeting_button_click :: "meeting_button \<Rightarrow> int \<Rightarrow> 'a client_scheme \<Rightarrow> 'a client_scheme" where
  "meeting_button_click AcceptTreaty counterpart s = accept_treaty_req counterpart s"
| "meeting_button_click CancelMeeting counterpart s = cancel_meeting_req counterpart s"
| "meeting_button_click DeclareWar counterpart s = cancel_meeting_req counterpart (diplomacy_cancel_treaty counterpart s)"
| "meeting_button_click CloseDialog counterpart s = cancel_meeting_req counterpart s"

text \<open>
  \<open>createDiplomacyDialog\<close>: the two sides' data and the gold fields; no meeting without a player of
  one's own.
\<close>

definition show_diplomacy_dialog :: "int \<Rightarrow> 'a diplomacy_client_scheme \<Rightarrow> 'a diplomacy_client_scheme option" where
  "show_diplomacy_dialog counterpart s =
     Option.bind (playing s) (\<lambda>me.
     Option.bind (st_get (cl_players s) counterpart) (\<lambda>other.
     Option.bind (meeting_template_data me other s) (\<lambda>mine.
     Option.bind (meeting_template_data other me s) (\<lambda>theirs.
     map_option (\<lambda>gold.
         emits (Ui ''createDiplomacyDialog''
                  [JNum (p_playerno other), meeting_json (p_playerno other) mine, meeting_json (p_playerno other) theirs]
                # gold) s)
       (gold_fields me other s)))))"

subsection \<open>The packets of the server\<close>

definition cleanup_diplomacy_dialog :: "int \<Rightarrow> effect" where
  "cleanup_diplomacy_dialog counterpart = Ui ''remove diplomacy_dialog'' [JNum counterpart]"

definition handle_diplomacy_init_meeting :: "int \<Rightarrow> 'a diplomacy_client_scheme \<Rightarrow> 'a diplomacy_client_scheme option" where
  "handle_diplomacy_init_meeting counterpart s =
     Option.bind (show_diplomacy_dialog counterpart (set_clauses counterpart [] s))
       (show_diplomacy_clauses counterpart)"

definition cancel_meeting :: "int \<Rightarrow> 'a diplomacy_client_scheme \<Rightarrow> 'a diplomacy_client_scheme" where
  "cancel_meeting counterpart s = emit (cleanup_diplomacy_dialog counterpart) (set_clauses counterpart [] s)"

definition handle_diplomacy_cancel_meeting :: "int \<Rightarrow> 'a diplomacy_client_scheme \<Rightarrow> 'a diplomacy_client_scheme" where
  "handle_diplomacy_cancel_meeting counterpart s = cancel_meeting counterpart s"

definition handle_diplomacy_create_clause :: "clause \<Rightarrow> 'a diplomacy_client_scheme \<Rightarrow> 'a diplomacy_client_scheme option" where
  "handle_diplomacy_create_clause c s =
     show_diplomacy_clauses (cz_counterpart c)
       (set_clauses (cz_counterpart c)
         ((case clauses_of s (cz_counterpart c) of None \<Rightarrow> [] | Some cs \<Rightarrow> cs) @ [c]) s)"

text \<open>The first clause with the same counterpart, giver and type leaves; the value is not compared.\<close>

fun splice_clause :: "clause \<Rightarrow> clause list \<Rightarrow> clause list" where
  "splice_clause r [] = []"
| "splice_clause r (c # cs) =
     (if cz_counterpart r = cz_counterpart c \<and> cz_giver r = cz_giver c \<and> cz_type r = cz_type c then cs
      else c # splice_clause r cs)"

definition remove_clause :: "clause \<Rightarrow> 'a diplomacy_client_scheme \<Rightarrow> 'a diplomacy_client_scheme option" where
  "remove_clause r s =
     Option.bind (clauses_of s (cz_counterpart r))
       (\<lambda>cs. show_diplomacy_clauses (cz_counterpart r) (set_clauses (cz_counterpart r) (splice_clause r cs) s))"

definition handle_diplomacy_remove_clause :: "clause \<Rightarrow> 'a diplomacy_client_scheme \<Rightarrow> 'a diplomacy_client_scheme option" where
  "handle_diplomacy_remove_clause r s = remove_clause r s"

definition accept_treaty :: "int \<Rightarrow> bool \<Rightarrow> bool \<Rightarrow> 'a diplomacy_client_scheme \<Rightarrow> 'a diplomacy_client_scheme" where
  "accept_treaty counterpart I_accepted other_accepted s =
     (if I_accepted \<and> other_accepted
      then emit (cleanup_diplomacy_dialog counterpart) (set_clauses counterpart [] s)
      else emits [Ui ''agree_self'' [JNum counterpart, JBool I_accepted],
                  Ui ''agree_counterpart'' [JNum counterpart, JBool other_accepted]] s)"

definition handle_diplomacy_accept_treaty :: "int \<Rightarrow> bool \<Rightarrow> bool \<Rightarrow> 'a diplomacy_client_scheme
    \<Rightarrow> 'a diplomacy_client_scheme" where
  "handle_diplomacy_accept_treaty counterpart I_accepted other_accepted s =
     accept_treaty counterpart I_accepted other_accepted s"

definition discard_diplomacy_dialogs :: "'a diplomacy_client_scheme \<Rightarrow> 'a diplomacy_client_scheme" where
  "discard_diplomacy_dialogs s =
     (emits (map cleanup_diplomacy_dialog (st_keys (dp_clause_map s))) s)\<lparr>dp_clause_map := st_empty\<rparr>"

end
