(* ===== verification/Chat.thy ===== *)
theory Chat
  imports Diplomacy Observer "HOL-Library.Char_ord" "HOL-Library.List_Lexorder"
begin

text \<open>
  Chat messages (\<open>control.js\<close>): the recipients, the choice of the next one, the encoding of a
  message and what happens when the user presses Enter.  Texts are in the ASCII range, where the
  order of strings is that of their characters.  Icons and flags are left out.
\<close>

record chat_client = diplomacy_client +
  ct_send_to :: "int option"   \<comment> \<open>\<open>chat_send_to\<close>, \<open>- 1\<close> at first\<close>
  ct_icon :: bool              \<comment> \<open>the page has the icon \<open>#chat_direction\<close>\<close>
  ct_text :: string            \<comment> \<open>the text in the chat line\<close>
  ct_keyboard_input :: bool

record recipient =
  rc_id :: "int option"
  rc_description :: string

subsection \<open>Recipients\<close>

definition own_number :: "'a client_scheme \<Rightarrow> int" where
  "own_number s = (case playing s of None \<Rightarrow> - 1 | Some me \<Rightarrow> p_playerno me)"

definition human_recipient :: "'a diplomacy_client_scheme \<Rightarrow> int \<times> player \<Rightarrow> (int \<times> string) option" where
  "human_recipient s entry =
     (let (player_id, pplayer) = entry
      in if player_id = own_number s \<or> bv_isSet (p_flags pplayer) PLRF_AI \<or> \<not> p_is_alive pplayer then None
         else map_option (\<lambda>adj. (player_id, p_name pplayer @ '' of the '' @ adj)) (nation_adjective s (p_nation pplayer)))"

text \<open>
  The sorted list: everybody, the allies, then the players by description.  The sort of the browser
  is stable, and the comparison is a total preorder with these two entries first.
\<close>

definition chat_context_get_recipients :: "'a diplomacy_client_scheme \<Rightarrow> recipient list" where
  "chat_context_get_recipients s =
     (let pm = List.map_filter (human_recipient s) (cl_players s);
          allies = list_ex (\<lambda>(player_id, _). st_get (dp_diplstates s) player_id = Some DS_ALLIANCE) pm
      in [\<lparr>rc_id = None, rc_description = ''Everybody''\<rparr>]
         @ (if allies \<and> own_number s \<ge> 0 then [\<lparr>rc_id = Some (own_number s), rc_description = ''Allies''\<rparr>] else [])
         @ map (\<lambda>(player_id, d). \<lparr>rc_id = Some player_id, rc_description = d\<rparr>) (sort_key snd pm))"

text \<open>The outer \<open>None\<close>: a player whose nation is not loaded throws.\<close>

definition set_chat_direction :: "int option \<Rightarrow> 'a chat_client_scheme \<Rightarrow> 'a chat_client_scheme option" where
  "set_chat_direction player_id s =
     (let titled = (\<lambda>name to. Some ((emit (Ui ''#chat_direction title'' [JStr (''Sending messages to '' @ name)]) s)
                                      \<lparr>ct_send_to := to\<rparr>))
      in if player_id = ct_send_to s \<or> \<not> ct_icon s then Some s
         else case player_id of
                None \<Rightarrow> titled ''everybody'' None
              | Some p \<Rightarrow>
                  (if p < 0 then titled ''everybody'' None
                   else if map_option p_playerno (playing s) = Some p then titled ''allies'' (Some p)
                   else (case st_get (cl_players s) p of
                           None \<Rightarrow> Some s
                         | Some pplayer \<Rightarrow>
                             Option.bind (nation_adjective s (p_nation pplayer))
                               (\<lambda>adj. titled (p_name pplayer @ '' of the '' @ adj) (Some p)))))"

fun recipient_index :: "int option \<Rightarrow> recipient list \<Rightarrow> nat" where
  "recipient_index to [] = 0"
| "recipient_index to (r # rs) = (if rc_id r = to then 0 else Suc (recipient_index to rs))"

definition next_recipient :: "int option \<Rightarrow> recipient list \<Rightarrow> nat" where
  "next_recipient to rs =
     (let next = Suc (recipient_index to rs) in if next \<ge> length rs then 0 else next)"

definition chat_context_set_next :: "recipient list \<Rightarrow> 'a chat_client_scheme \<Rightarrow> 'a chat_client_scheme option" where
  "chat_context_set_next rs s =
     (let next = next_recipient (ct_send_to s) rs
      in if next < length rs then set_chat_direction (rc_id (rs ! next)) s else None)"

definition chat_context_dialog_show :: "recipient list \<Rightarrow> 'a chat_client_scheme \<Rightarrow> 'a chat_client_scheme" where
  "chat_context_dialog_show rs s =
     emit (Ui ''chat_context_dialog''
       [JArr (map (\<lambda>r. JStr (rc_description r)) (filter (\<lambda>r. rc_id r \<noteq> ct_send_to s) rs))]) s"

definition handle_chat_direction_chosen :: "int option \<Rightarrow> 'a chat_client_scheme \<Rightarrow> 'a chat_client_scheme option" where
  "handle_chat_direction_chosen new_send_to s =
     set_chat_direction new_send_to (emit (Ui ''close'' [JStr ''#chat_context_dialog'']) s)"

definition chat_context_change :: "'a chat_client_scheme \<Rightarrow> 'a chat_client_scheme option" where
  "chat_context_change s =
     (let rs = chat_context_get_recipients s
      in if length rs < 4 then chat_context_set_next rs s else Some (chat_context_dialog_show rs s))"

subsection \<open>Messages\<close>

text \<open>The replacements one after the other, as the code does them.\<close>

definition escape_message :: "string \<Rightarrow> string" where
  "escape_message m =
     replace_char (CHR 0x3E) ''&gt;'' (replace_char (CHR 0x3C) ''&lt;''
       (replace_char (CHR 0x22) ''&quot;'' (replace_char (CHR 0x27) ''&apos;'' (replace_char (CHR 0x26) ''&amp;'' m))))"

definition encode_message_text :: "string \<Rightarrow> string" where
  "encode_message_text message = encodeURIComponent (escape_message (trim message))"

definition char_index :: "string \<Rightarrow> char \<Rightarrow> int \<Rightarrow> int" where
  "char_index s c from =
     (let start = nat (max 0 from); rest = drop start s;
          before = takeWhile (\<lambda>d. d \<noteq> c) rest
      in if length before < length rest then int (start + length before) else - 1)"

definition is_unprefixed_message :: "string \<Rightarrow> bool" where
  "is_unprefixed_message message =
     (case message of
        [] \<Rightarrow> True
      | first # _ \<Rightarrow>
          (if first \<in> set ''/.:'' then False
           else (let quoted_pos = (if first = CHR 0x22 \<or> first = CHR 0x27 then char_index message first 1 else - 1);
                     private_mark = char_index message (CHR '':'') quoted_pos;
                     space_pos = char_index message (CHR '' '') quoted_pos
                 in private_mark < 0 \<or> space_pos \<noteq> - 1 \<and> space_pos < private_mark)))"

text \<open>The name up to the first of the bad characters that is not at its start.\<close>

definition cut_at :: "string \<Rightarrow> char \<Rightarrow> string" where
  "cut_at name c = (let i = char_index name c 0 in if i > 0 then take (nat i) name else name)"

definition recipient_name :: "string \<Rightarrow> string" where
  "recipient_name name = foldl cut_at name [CHR '' '', CHR 0x22, CHR 0x27]"

definition upper_char :: "char \<Rightarrow> char" where
  "upper_char c = (if is_lower c then char_of (char_code c - 32) else c)"

definition max_chat_message_length :: nat where
  "max_chat_message_length = 350"

text \<open>The second half of \<open>check_text_input\<close>: the encoded message.\<close>

definition deliver_message :: "string \<Rightarrow> 'a chat_client_scheme \<Rightarrow> 'a chat_client_scheme" where
  "deliver_message message s =
     (let s1 = (emit (Ui ''focus'' [JStr ''chatbox'']) s)\<lparr>ct_text := '''', ct_keyboard_input := True\<rparr>
      in if length message \<ge> 4 \<and> message = map upper_char message then s1
         else if length message \<ge> max_chat_message_length
         then emit (log_message ''E_LOG_ERROR''
                (''Error! The message is too long. Limit: '' @ int_text (int max_chat_message_length))) s1
         else emit (send_message message) s1)"

definition check_text_input :: "'a chat_client_scheme \<Rightarrow> 'a chat_client_scheme option" where
  "check_text_input s =
     (let message = ct_text s
      in case ct_send_to s of
           Some to \<Rightarrow>
             (if to \<ge> 0 \<and> is_unprefixed_message message
              then (if map_option p_playerno (playing s) = Some to
                    then Some (deliver_message (''. '' @ encode_message_text message) s)
                    else (case st_get (cl_players s) to of
                            None \<Rightarrow> set_chat_direction None s
                          | Some pplayer \<Rightarrow>
                              Some (deliver_message (recipient_name (p_name pplayer)
                                     @ encode_message_text ('': '' @ message)) s)))
              else Some (deliver_message (encode_message_text message) s))
         | None \<Rightarrow> Some (deliver_message (encode_message_text message) s))"

end
