(* ===== verification/Diplomacy_Facts.thy ===== *)
theory Diplomacy_Facts
  imports Diplomacy Map_Packets_Facts
begin

text \<open>
  The clauses the client shows are those of the treaty on the server as long as no two of them have
  the same giver and type; with two of them the client forgets the wrong one.  The requests that
  replace a pact or an amount of gold first take the old one back.
\<close>

definition diplomacy0 :: "diplomacy_client" where
  "diplomacy0 = (packet0 \<lparr>dp_clause_map = [], dp_clause_infos = [], dp_diplstates = []\<rparr>)
     \<lparr>cl_players := [(1, player0\<lparr>p_playerno := 1\<rparr>)],
      cl_nations := [(0, \<lparr>na_id = 0, na_adjective = ''Roman'', na_barbarian_type = None\<rparr>)],
      cl_techs := [(1, tech0), (2, tech0)]\<rparr>"

lemma clauses_of_set [simp]:
  "clauses_of (set_clauses p cs s) q = (if q = p then Some cs else clauses_of s q)"
  by (simp add: clauses_of_def set_clauses_def js.get_put)

lemma clauses_of_emit [simp]: "clauses_of (emit e s) q = clauses_of s q" "clauses_of (emits es s) q = clauses_of s q"
  by (simp_all add: clauses_of_def emit_def emits_def)

lemma show_clauses_frame: "show_diplomacy_clauses p s = Some s' \<Longrightarrow> clauses_of s' q = clauses_of s q"
  by (auto simp: show_diplomacy_clauses_def bind_eq_Some_conv)

lemma show_dialog_frame: "show_diplomacy_dialog p s = Some s' \<Longrightarrow> clauses_of s' q = clauses_of s q"
  by (auto simp: show_diplomacy_dialog_def bind_eq_Some_conv)

subsection \<open>The treaties of the meetings\<close>

text \<open>
  What the server does with the treaties: for each player one meets, a set of clauses.  A meeting
  begins, a clause that is not in its treaty is added, one that is in it is taken back, the meeting
  is cancelled, or the acceptance of the two sides is reported, which ends the treaty when both
  have accepted.
\<close>

datatype treaty_op = BeginMeeting int | AddClause clause | DropClause clause | CancelledMeeting int
  | Accepted int bool bool

fun treaty_step :: "treaty_op \<Rightarrow> 'a diplomacy_client_scheme \<Rightarrow> 'a diplomacy_client_scheme option" where
  "treaty_step (BeginMeeting p) s = handle_diplomacy_init_meeting p s"
| "treaty_step (AddClause c) s = handle_diplomacy_create_clause c s"
| "treaty_step (DropClause c) s = handle_diplomacy_remove_clause c s"
| "treaty_step (CancelledMeeting p) s = Some (handle_diplomacy_cancel_meeting p s)"
| "treaty_step (Accepted p mine theirs) s = Some (handle_diplomacy_accept_treaty p mine theirs s)"

type_synonym treaties = "int \<rightharpoonup> clause set"

definition change_treaty :: "clause \<Rightarrow> (clause set \<Rightarrow> clause set) \<Rightarrow> treaties \<Rightarrow> treaties" where
  "change_treaty c f T = T(cz_counterpart c := map_option f (T (cz_counterpart c)))"

fun treaty_spec :: "treaty_op \<Rightarrow> treaties \<Rightarrow> treaties" where
  "treaty_spec (BeginMeeting p) T = T(p \<mapsto> {})"
| "treaty_spec (AddClause c) T = change_treaty c (insert c) T"
| "treaty_spec (DropClause c) T = change_treaty c (\<lambda>S. S - {c}) T"
| "treaty_spec (CancelledMeeting p) T = T(p \<mapsto> {})"
| "treaty_spec (Accepted p mine theirs) T = (if mine \<and> theirs then T(p \<mapsto> {}) else T)"

definition clause_key :: "clause \<Rightarrow> int \<times> int" where
  "clause_key c = (cz_giver c, cz_type c)"

fun legal_op :: "treaty_op \<Rightarrow> treaties \<Rightarrow> bool" where
  "legal_op (AddClause c) T = opt_test (\<lambda>S. clause_key c \<notin> clause_key ` S) (T (cz_counterpart c))"
| "legal_op (DropClause c) T = opt_test (\<lambda>S. c \<in> S) (T (cz_counterpart c))"
| "legal_op _ T = True"

fun legal_run :: "treaty_op list \<Rightarrow> treaties \<Rightarrow> bool" where
  "legal_run [] T = True"
| "legal_run (op # ops) T = (legal_op op T \<and> legal_run ops (treaty_spec op T))"

text \<open>The clauses of one meeting are those of its treaty, each once.\<close>

definition lists_treaty :: "int \<Rightarrow> clause list \<Rightarrow> clause set \<Rightarrow> bool" where
  "lists_treaty p cs S \<longleftrightarrow> set cs = S \<and> distinct (map clause_key cs) \<and> (\<forall>c\<in>S. cz_counterpart c = p)"

definition shows_treaties :: "'a diplomacy_client_scheme \<Rightarrow> treaties \<Rightarrow> bool" where
  "shows_treaties s T \<longleftrightarrow> (\<forall>p. rel_option (lists_treaty p) (clauses_of s p) (T p))"

lemma lists_nothing [simp]: "lists_treaty p [] {}"
  by (simp add: lists_treaty_def)

lemma splice_clause_removes:
  assumes "distinct (map clause_key cs)" and "c \<in> set cs" and "\<forall>d\<in>set cs. cz_counterpart d = p"
  shows "set (splice_clause c cs) = set cs - {c}" and "distinct (map clause_key (splice_clause c cs))"
proof -
  have "set (splice_clause c cs) = set cs - {c} \<and> distinct (map clause_key (splice_clause c cs))"
    using assms
  proof (induction cs)
    case Nil
    then show ?case by simp
  next
    case (Cons d cs)
    show ?case
    proof (cases "clause_key c = clause_key d")
      case True
      have "c = d" using Cons.prems(1,2) True by (metis distinct.simps(2) image_eqI list.map(2) list.set_map set_ConsD)
      then show ?thesis using Cons.prems(1) by auto
    next
      case False
      then have c: "c \<in> set cs" "splice_clause c (d # cs) = d # splice_clause c cs"
        using Cons.prems by (auto simp: clause_key_def)
      have IH: "set (splice_clause c cs) = set cs - {c}" "distinct (map clause_key (splice_clause c cs))"
        using Cons.IH Cons.prems c(1) by auto
      have "clause_key d \<notin> clause_key ` (set cs - {c})" "d \<noteq> c"
        using Cons.prems(1) False by auto
      then show ?thesis using IH c(2) by auto
    qed
  qed
  then show "set (splice_clause c cs) = set cs - {c}" "distinct (map clause_key (splice_clause c cs))" by simp_all
qed

lemma shows_upd:
  assumes "shows_treaties s T" and "lists_treaty p cs S"
    and "\<And>q. clauses_of s' q = (if q = p then Some cs else clauses_of s q)"
  shows "shows_treaties s' (T(p \<mapsto> S))"
  using assms by (auto simp: shows_treaties_def)

lemma shows_clauses:
  assumes "shows_treaties s T" and "T p = Some S"
  obtains cs where "clauses_of s p = Some cs" and "lists_treaty p cs S"
proof -
  have "rel_option (lists_treaty p) (clauses_of s p) (Some S)"
    using assms unfolding shows_treaties_def by metis
  then show thesis using that by (auto simp: option_rel_Some2)
qed

lemma begin_meeting_shows:
  assumes "shows_treaties s T" and "handle_diplomacy_init_meeting p s = Some s'"
  shows "shows_treaties s' (T(p \<mapsto> {}))"
proof -
  obtain s1 where s1: "show_diplomacy_dialog p (set_clauses p [] s) = Some s1" "show_diplomacy_clauses p s1 = Some s'"
    using assms(2) by (auto simp: handle_diplomacy_init_meeting_def bind_eq_Some_conv)
  have "clauses_of s' q = (if q = p then Some [] else clauses_of s q)" for q
    unfolding show_clauses_frame [OF s1(2)] show_dialog_frame [OF s1(1)] by (rule clauses_of_set)
  then show ?thesis by (rule shows_upd [OF assms(1) lists_nothing])
qed

lemma add_clause_shows:
  assumes "shows_treaties s T" and "legal_op (AddClause c) T" and "handle_diplomacy_create_clause c s = Some s'"
  shows "shows_treaties s' (change_treaty c (insert c) T)"
proof -
  let ?p = "cz_counterpart c"
  obtain S where S: "T ?p = Some S" "clause_key c \<notin> clause_key ` S"
    using assms(2) by (auto simp: opt_test_def split: option.splits)
  obtain cs where cs: "clauses_of s ?p = Some cs" "lists_treaty ?p cs S" by (rule shows_clauses [OF assms(1) S(1)])
  have "show_diplomacy_clauses ?p (set_clauses ?p (cs @ [c]) s) = Some s'"
    using assms(3) cs(1) by (simp add: handle_diplomacy_create_clause_def)
  note q = show_clauses_frame [OF this, unfolded clauses_of_set]
  have "lists_treaty ?p (cs @ [c]) (insert c S)" using cs(2) S(2) by (auto simp: lists_treaty_def)
  then have "shows_treaties s' (T(?p \<mapsto> insert c S))" by (rule shows_upd [OF assms(1)]) (rule q)
  then show ?thesis using S(1) by (simp add: change_treaty_def)
qed

lemma lists_treaty_splice:
  assumes "lists_treaty p cs S" and "c \<in> S"
  shows "lists_treaty p (splice_clause c cs) (S - {c})"
proof -
  have l: "set cs = S" "distinct (map clause_key cs)" "\<forall>d\<in>set cs. cz_counterpart d = p"
    using assms(1) by (simp_all add: lists_treaty_def)
  then show ?thesis
    using splice_clause_removes [OF l(2) _ l(3), of c] assms(2) by (simp add: lists_treaty_def)
qed

lemma drop_clause_shows:
  assumes "shows_treaties s T" and "legal_op (DropClause c) T" and "handle_diplomacy_remove_clause c s = Some s'"
  shows "shows_treaties s' (change_treaty c (\<lambda>S. S - {c}) T)"
proof -
  let ?p = "cz_counterpart c"
  obtain S where S: "T ?p = Some S" "c \<in> S"
    using assms(2) by (auto simp: opt_test_def split: option.splits)
  obtain cs where cs: "clauses_of s ?p = Some cs" "lists_treaty ?p cs S" by (rule shows_clauses [OF assms(1) S(1)])
  have "show_diplomacy_clauses ?p (set_clauses ?p (splice_clause c cs) s) = Some s'"
    using assms(3) cs(1) by (simp add: handle_diplomacy_remove_clause_def remove_clause_def)
  note q = show_clauses_frame [OF this, unfolded clauses_of_set]
  have "shows_treaties s' (T(?p \<mapsto> S - {c}))"
    by (rule shows_upd [OF assms(1) lists_treaty_splice [OF cs(2) S(2)]]) (rule q)
  then show ?thesis using S(1) by (simp add: change_treaty_def)
qed

lemma end_meeting_shows:
  assumes "shows_treaties s T"
  shows "shows_treaties (emit e (set_clauses p [] s)) (T(p \<mapsto> {}))"
  by (rule shows_upd [OF assms lists_nothing]) simp

lemma treaties_emits [simp]: "shows_treaties (emits es s) T = shows_treaties s T"
  by (simp add: shows_treaties_def)

lemma treaty_step_shows:
  assumes "shows_treaties s T" and "legal_op op T" and "treaty_step op s = Some s'"
  shows "shows_treaties s' (treaty_spec op T)"
  using assms
  by (cases op)
    (simp_all add: begin_meeting_shows add_clause_shows drop_clause_shows del: legal_op.simps,
     auto simp: handle_diplomacy_cancel_meeting_def cancel_meeting_def handle_diplomacy_accept_treaty_def
       accept_treaty_def intro: end_meeting_shows)

text \<open>
  C6.  Under every sequence of meeting packets, with any number of meetings at a time, the
  clauses the client shows for each meeting are those of its treaty on the server, each once: as
  long as the server adds only clauses whose giver and type are new in their treaty and takes back
  only clauses that are in it.
\<close>

theorem meeting_follows_treaty:
  assumes "shows_treaties s T" and "legal_run ops T" and "each treaty_step ops s = Some s'"
  shows "shows_treaties s' (fold treaty_spec ops T)"
  using assms by (induction ops arbitrary: s T) (auto simp: bind_eq_Some_conv intro: treaty_step_shows)

definition sample_clause :: "int \<Rightarrow> int \<Rightarrow> clause" where
  "sample_clause type value = \<lparr>cz_counterpart = 1, cz_giver = 1, cz_type = type, cz_value = value\<rparr>"

lemma clause_text_frame [simp]:
  "client_diplomacy_clause_string (set_clauses p cs s) c = client_diplomacy_clause_string s c"
  by (simp add: client_diplomacy_clause_string_def set_clauses_def nation_adjective_def playing_def
      Let_def cong: if_cong option.case_cong)

lemma clause_text_emit [simp]: "client_diplomacy_clause_string (emit e s) c = client_diplomacy_clause_string s c"
  by (simp add: client_diplomacy_clause_string_def emit_def nation_adjective_def playing_def
      Let_def cong: if_cong option.case_cong)

lemma sample_fields [simp]:
  "cz_counterpart (sample_clause t v) = 1" "cz_giver (sample_clause t v) = 1" "cz_type (sample_clause t v) = t"
  by (simp_all add: sample_clause_def)

lemma sample_text [simp]:
  "client_diplomacy_clause_string diplomacy0 (sample_clause 2 v) = Some ([], ''The Roman give their worldmap'')"
  "client_diplomacy_clause_string diplomacy0 (sample_clause 0 2) = Some ([], ''The Roman give '' @ tc_name tech0)"
  by (simp_all add: client_diplomacy_clause_string_def sample_clause_def diplomacy0_def
      packet0_def focus0_def client0_def nation_adjective_def st_get_def player0_def)

lemma treaties0: "shows_treaties diplomacy0 Map.empty"
  by (simp add: shows_treaties_def clauses_of_def diplomacy0_def packet0_def focus0_def client0_def st_get_def)

theorem meeting_follows_treaty_witness:
  "\<exists>s'. each treaty_step [CancelledMeeting 1, AddClause (sample_clause CLAUSE_MAP 1)] diplomacy0 = Some s'
     \<and> shows_treaties s' [1 \<mapsto> {sample_clause CLAUSE_MAP 1}]"
proof -
  let ?ops = "[CancelledMeeting 1, AddClause (sample_clause CLAUSE_MAP 1)]"
  have "\<exists>s'. each treaty_step ?ops diplomacy0 = Some s'"
    by (simp add: handle_diplomacy_create_clause_def show_diplomacy_clauses_def handle_diplomacy_cancel_meeting_def
        cancel_meeting_def)
  moreover have "legal_run ?ops Map.empty" by simp
  moreover have "fold treaty_spec ?ops Map.empty = [1 \<mapsto> {sample_clause CLAUSE_MAP 1}]"
    by (simp add: change_treaty_def)
  ultimately show ?thesis
    using meeting_follows_treaty [OF treaties0, of ?ops] by auto
qed

text \<open>
  The server allows several clauses of one giver and type when they are about different
  advances or cities.  The client then forgets the wrong one: a packet that takes the later clause
  back removes the earlier one from the list and leaves the later one.
\<close>

theorem remove_clause_takes_first:
  assumes "clauses_of s p = Some (before @ c1 # between @ c2 # after)"
    and "cz_counterpart c1 = p" and "cz_counterpart c2 = p" and "clause_key c1 = clause_key c2"
    and "\<forall>c\<in>set before. clause_key c \<noteq> clause_key c2"
    and "handle_diplomacy_remove_clause c2 s = Some s'"
  shows "clauses_of s' p = Some (before @ between @ c2 # after)"
proof -
  have "splice_clause c2 (before @ c1 # rest) = before @ rest" for rest
    using assms(5) by (induction before) (use assms(2-4) in \<open>auto simp: clause_key_def\<close>)
  then show ?thesis
    using assms(1,3,6) show_clauses_frame
    by (fastforce simp: handle_diplomacy_remove_clause_def remove_clause_def)
qed

theorem remove_clause_takes_first_witness:
  "let c1 = sample_clause CLAUSE_ADVANCE 1; c2 = sample_clause CLAUSE_ADVANCE 2;
       s = set_clauses 1 [c1, c2] diplomacy0
   in \<exists>s'. handle_diplomacy_remove_clause c2 s = Some s' \<and> clauses_of s' 1 = Some [c2]"
proof -
  define c1 c2 where c: "c1 = sample_clause CLAUSE_ADVANCE 1" "c2 = sample_clause CLAUSE_ADVANCE 2"
  define s where "s = set_clauses 1 [c1, c2] diplomacy0"
  have "\<exists>s'. handle_diplomacy_remove_clause c2 s = Some s'"
    by (simp add: s_def c handle_diplomacy_remove_clause_def remove_clause_def show_diplomacy_clauses_def)
  then obtain s' where s': "handle_diplomacy_remove_clause c2 s = Some s'" by blast
  have "clauses_of s' 1 = Some ([] @ [] @ c2 # [])"
  proof (rule remove_clause_takes_first [OF _ _ _ _ _ s'])
    show "clauses_of s 1 = Some ([] @ c1 # [] @ c2 # [])" by (simp add: s_def)
  qed (simp_all add: c clause_key_def)
  with s' show ?thesis by (auto simp: Let_def s_def c)
qed

end
