(* ===== verification/Chat_Facts.thy ===== *)
theory Chat_Facts
  imports Chat Diplomacy_Facts
begin

text \<open>
  The encoding of chat messages is undone by decoding and leaves no character that HTML reads as
  markup; the recipient button goes round all recipients.
\<close>

subsection \<open>\<open>decodeURIComponent\<close> undoes \<open>encodeURIComponent\<close>\<close>

lemma char_code_char_of [simp]: "char_of (char_code c) = c"
  by (simp add: char_code_def)

lemma char_code_less: "char_code c < 256"
  by (simp add: char_code_def)

lemma hex_value_digit: "d < 16 \<Longrightarrow> hex_value (hex_digit d) = Some d"
  by (auto simp: hex_value_def hex_digit_def char_code_def of_char_of)

lemma unreserved_not_percent: "uri_unreserved c \<Longrightarrow> c \<noteq> CHR 0x25"
  by (auto simp: uri_unreserved_def is_upper_def is_lower_def is_digit_def char_code_def)

lemma unreserved_ascii: "uri_unreserved c \<Longrightarrow> char_code c < 128"
  by (auto simp: uri_unreserved_def is_upper_def is_lower_def is_digit_def char_code_def)

lemma encode_Cons: "encodeURIComponent (c # s) = encode_char c @ encodeURIComponent s"
  by (simp add: encodeURIComponent_def)

lemma escapes_encode:
  "escapes (encodeURIComponent s) =
     Some (map char_code (takeWhile (\<lambda>c. \<not> uri_unreserved c) s), encodeURIComponent (dropWhile (\<lambda>c. \<not> uri_unreserved c) s))"
proof (induction s)
  case Nil
  then show ?case by (simp add: encodeURIComponent_def)
next
  case (Cons c s)
  show ?case
  proof (cases "uri_unreserved c")
    case True
    then show ?thesis using unreserved_not_percent [OF True] by (simp add: encode_Cons encode_char_def)
  next
    case False
    have v: "hex_value (hex_digit (char_code c div 16)) = Some (char_code c div 16)"
      "hex_value (hex_digit (char_code c mod 16)) = Some (char_code c mod 16)"
      using char_code_less [of c] by (simp_all add: hex_value_digit)
    show ?thesis using False Cons.IH by (simp add: encode_Cons encode_char_def v)
  qed
qed

text \<open>A byte of the ASCII range is never the middle of a sequence.\<close>

lemma continuation_not_ascii: "continuation b \<Longrightarrow> \<not> b < 128"
  by (simp add: continuation_def)

lemma ascii_start_take:
  assumes "bs @ ys = cs @ r" and "ys = [] \<or> hd ys < 128" and "\<forall>c\<in>set cs. \<not> c < 128"
  shows "\<exists>bs'. bs = cs @ bs' \<and> bs' @ ys = r"
  using assms
proof (induction cs arbitrary: bs)
  case Nil
  then show ?case by simp
next
  case (Cons c cs)
  then have "bs \<noteq> []" by auto
  then obtain b bs' where bs: "bs = b # bs'" by (cases bs) auto
  with Cons show ?case by auto
qed

text \<open>The bytes of one character after its first, and that they decide.\<close>

definition utf8_tail :: "nat \<Rightarrow> nat list \<Rightarrow> bool" where
  "utf8_tail b cs \<longleftrightarrow>
     (if b < 128 then cs = []
      else if 194 \<le> b \<and> b < 224 then \<exists>b1. cs = [b1] \<and> continuation b1
      else if 224 \<le> b \<and> b < 240 then \<exists>b1 b2. cs = [b1, b2] \<and> continuation b1 \<and> continuation b2
             \<and> (b = 224 \<longrightarrow> 160 \<le> b1) \<and> (b = 237 \<longrightarrow> b1 < 160)
      else if 240 \<le> b \<and> b < 245 then \<exists>b1 b2 b3. cs = [b1, b2, b3] \<and> continuation b1 \<and> continuation b2
             \<and> continuation b3 \<and> (b = 240 \<longrightarrow> 144 \<le> b1) \<and> (b = 244 \<longrightarrow> b1 < 144)
      else False)"

lemma ex_prefix:
  "(\<exists>cs r. bs = cs @ r \<and> (\<exists>a. cs = [a] \<and> P a) \<and> Q r) \<longleftrightarrow> (\<exists>a r. bs = a # r \<and> P a \<and> Q r)"
  "(\<exists>cs r. bs = cs @ r \<and> (\<exists>a b. cs = [a, b] \<and> P2 a b) \<and> Q r) \<longleftrightarrow> (\<exists>a b r. bs = a # b # r \<and> P2 a b \<and> Q r)"
  "(\<exists>cs r. bs = cs @ r \<and> (\<exists>a b c. cs = [a, b, c] \<and> P3 a b c) \<and> Q r)
     \<longleftrightarrow> (\<exists>a b c r. bs = a # b # c # r \<and> P3 a b c \<and> Q r)"
  by (auto, (metis append_Cons append_Nil)+)

lemma utf8_ok_Cons: "utf8_ok (b # bs) \<longleftrightarrow> (\<exists>cs r. bs = cs @ r \<and> utf8_tail b cs \<and> utf8_ok r)"
proof (cases "b < 128")
  case True
  then show ?thesis by (simp add: utf8_tail_def)
next
  case False
  consider "194 \<le> b" "b < 224" | "224 \<le> b" "b < 240" | "240 \<le> b" "b < 245" | "\<not> (194 \<le> b \<and> b < 245)"
    by linarith
  then show ?thesis
  proof cases
    case 1
    then show ?thesis by (cases bs) (simp_all add: utf8_tail_def ex_prefix)
  next
    case 2
    then show ?thesis by (cases bs; cases "tl bs") (auto simp: utf8_tail_def ex_prefix)
  next
    case 3
    then show ?thesis by (cases bs; cases "tl bs"; cases "tl (tl bs)") (auto simp: utf8_tail_def ex_prefix)
  next
    case 4
    then show ?thesis using False by (auto simp: utf8_tail_def)
  qed
qed

lemma utf8_tail_high: "utf8_tail b cs \<Longrightarrow> \<forall>c\<in>set cs. \<not> c < 128"
  by (auto simp: utf8_tail_def dest: continuation_not_ascii split: if_splits)

lemma utf8_split:
  "utf8_ok (xs @ ys) \<Longrightarrow> ys = [] \<or> hd ys < 128 \<Longrightarrow> utf8_ok xs \<and> utf8_ok ys"
proof (induction "length xs" arbitrary: xs rule: less_induct)
  case less
  show ?case
  proof (cases xs)
    case Nil
    then show ?thesis using less.prems by simp
  next
    case (Cons b bs)
    then obtain cs r where d: "bs @ ys = cs @ r" "utf8_tail b cs" "utf8_ok r"
      using less.prems(1) utf8_ok_Cons [of b "bs @ ys"] by auto
    obtain bs' where bs: "bs = cs @ bs'" "bs' @ ys = r"
      using ascii_start_take [OF d(1) less.prems(2) utf8_tail_high [OF d(2)]] by blast
    have "utf8_ok bs' \<and> utf8_ok ys"
      using less.hyps [of bs'] d(3) bs Cons less.prems(2) by simp
    then show ?thesis using Cons bs d(2) utf8_ok_Cons [of b bs] by auto
  qed
qed

lemma decode_unreserved:
  "uri_unreserved c \<Longrightarrow> decodeURIComponent (encodeURIComponent (c # s)) = map_option ((#) c) (decodeURIComponent (encodeURIComponent s))"
  using unreserved_not_percent [of c] by (simp add: encode_Cons encode_char_def)

text \<open>The proof of the round trip, shared with the chat messages.\<close>

lemma decode_encode_uri_ok: "utf8_ok (map char_code s) \<Longrightarrow> decodeURIComponent (encodeURIComponent s) = Some s"
proof (induction "length s" arbitrary: s rule: less_induct)
  case less
  show ?case
  proof (cases s)
    case Nil
    then show ?thesis by (simp add: encodeURIComponent_def)
  next
    case (Cons c t)
    show ?thesis
    proof (cases "uri_unreserved c")
      case True
      then have "utf8_ok (map char_code t)"
        using less.prems Cons unreserved_ascii [OF True] by simp
      then show ?thesis
        using less.hyps [of t] Cons decode_unreserved [OF True, of t] by simp
    next
      case False
      define run where "run = takeWhile (\<lambda>c. \<not> uri_unreserved c) s"
      define rest where "rest = dropWhile (\<lambda>c. \<not> uri_unreserved c) s"
      have s: "s = run @ rest" by (simp add: run_def rest_def)
      have "rest = [] \<or> uri_unreserved (hd rest)"
        using hd_dropWhile [of "\<lambda>c. \<not> uri_unreserved c" s] by (auto simp: rest_def)
      then have "map char_code rest = [] \<or> hd (map char_code rest) < 128"
        by (cases rest) (auto dest: unreserved_ascii)
      then have ok: "utf8_ok (map char_code run)" "utf8_ok (map char_code rest)"
        using less.prems s utf8_split [of "map char_code run" "map char_code rest"] by simp_all
      have short: "length rest < length s"
        using False Cons length_dropWhile_le [of "\<lambda>c. \<not> uri_unreserved c" t] by (simp add: rest_def)
      obtain u where u: "encodeURIComponent s = CHR 0x25 # u"
        using False Cons by (simp add: encode_Cons encode_char_def)
      have "decodeURIComponent (encodeURIComponent s) = map_option ((@) (map char_of (map char_code run))) (decodeURIComponent (encodeURIComponent rest))"
        using escapes_encode [of s] ok(1) unfolding u run_def [symmetric] rest_def [symmetric]
        by (simp del: escapes.simps)
      also have "\<dots> = Some (run @ rest)"
        using less.hyps [OF short ok(2)] by (simp add: comp_def)
      finally show ?thesis using s by simp
    qed
  qed
qed



subsection \<open>Messages are safe to show\<close>

text \<open>The five replacements in one pass.\<close>

definition esc_char :: "char \<Rightarrow> string" where
  "esc_char c =
     (if c = CHR 0x26 then ''&amp;'' else if c = CHR 0x27 then ''&apos;'' else if c = CHR 0x22 then ''&quot;''
      else if c = CHR 0x3C then ''&lt;'' else if c = CHR 0x3E then ''&gt;'' else [c])"

lemma replace_concat: "replace_char c t (concat (map f s)) = concat (map (\<lambda>d. replace_char c t (f d)) s)"
  by (induction s) (simp_all add: replace_char_def)

lemma replace_single: "replace_char c t s = concat (map (\<lambda>d. replace_char c t [d]) s)"
  by (simp add: replace_char_def)

lemma escape_message_one_pass: "escape_message m = concat (map esc_char m)"
proof -
  have "escape_message m = concat (map (\<lambda>d. escape_message [d]) m)"
    unfolding escape_message_def
    by (subst replace_single [of "CHR 0x26" _ m]) (simp only: replace_concat)
  moreover have "escape_message [d] = esc_char d" for d
    by (simp add: escape_message_def esc_char_def replace_char_def)
  ultimately show ?thesis by simp
qed

lemma esc_char_prefix_free: "esc_char c @ r = esc_char d @ r' \<Longrightarrow> c = d \<and> r = r'"
  by (auto simp: esc_char_def split: if_splits)

lemma escape_inj: "concat (map esc_char m) = concat (map esc_char n) \<Longrightarrow> m = n"
proof (induction m arbitrary: n)
  case Nil
  then show ?case by (cases n) (auto simp: esc_char_def split: if_splits)
next
  case (Cons c m)
  show ?case
  proof (cases n)
    case Nil
    then show ?thesis using Cons.prems by (auto simp: esc_char_def split: if_splits)
  next
    case (Cons d n')
    then show ?thesis using Cons.prems Cons.IH esc_char_prefix_free [of c _ d] by fastforce
  qed
qed

lemma utf8_ascii: "\<forall>b\<in>set bs. b < 128 \<Longrightarrow> utf8_ok bs"
  by (induction bs) simp_all

lemma esc_char_ascii:
  assumes "char_code c < 128" and "d \<in> set (esc_char c)"
  shows "char_code d < 128"
proof -
  have "set (esc_char c) \<subseteq> insert c (set ''&;amposqutlg'')" by (simp add: esc_char_def)
  moreover have "\<forall>d\<in>set ''&;amposqutlg''. char_code d < 128" by (simp add: char_code_def)
  ultimately show ?thesis using assms by blast
qed

lemma esc_char_safe: "set (esc_char c) \<inter> {CHR 0x27, CHR 0x22, CHR 0x3C, CHR 0x3E} = {}"
  by (simp add: esc_char_def)

lemma set_trim: "set (trim m) \<subseteq> set m"
  by (metis set_dropWhileD set_rev subsetI trim_def)

lemma escaped_ascii:
  assumes "\<forall>c\<in>set m. char_code c < 128"
  shows "\<forall>b\<in>set (map char_code (escape_message m)). b < 128"
proof
  fix b
  assume "b \<in> set (map char_code (escape_message m))"
  then obtain c d where "c \<in> set m" "d \<in> set (esc_char c)" "b = char_code d"
    unfolding escape_message_one_pass by auto
  then show "b < 128" using assms esc_char_ascii [of c d] by blast
qed

lemma escaped_safe: "set (escape_message m) \<inter> {CHR 0x27, CHR 0x22, CHR 0x3C, CHR 0x3E} = {}"
proof -
  have "x \<notin> {CHR 0x27, CHR 0x22, CHR 0x3C, CHR 0x3E}" if x: "x \<in> set (escape_message m)" for x
  proof -
    obtain c where "x \<in> set (esc_char c)"
      using x unfolding escape_message_one_pass by auto
    with esc_char_safe [of c] show ?thesis by (meson disjoint_iff)
  qed
  then show ?thesis by (meson disjoint_iff)
qed

lemma escape_message_inj: "escape_message m = escape_message n \<Longrightarrow> m = n"
  unfolding escape_message_one_pass by (rule escape_inj)

text \<open>
  A chat message in ASCII reaches the other clients as its trimmed text with \<open>& ' " < >\<close>
  replaced by their entities: the decoded text has no character that opens or closes markup or an
  attribute, and different texts stay different.
\<close>

theorem encode_message_text_safe:
  assumes "\<forall>c\<in>set m. char_code c < 128"
  shows "decodeURIComponent (encode_message_text m) = Some (escape_message (trim m))
    \<and> set (escape_message (trim m)) \<inter> {CHR 0x27, CHR 0x22, CHR 0x3C, CHR 0x3E} = {}
    \<and> (\<forall>n. escape_message n = escape_message (trim m) \<longrightarrow> n = trim m)"
proof (intro conjI allI impI)
  have "\<forall>c\<in>set (trim m). char_code c < 128" using assms set_trim by blast
  from decode_encode_uri_ok [OF utf8_ascii [OF escaped_ascii [OF this]]]
  show "decodeURIComponent (encode_message_text m) = Some (escape_message (trim m))"
    unfolding encode_message_text_def .
qed (rule escaped_safe, erule escape_message_inj)

theorem encode_message_text_safe_witness:
  "decodeURIComponent (encode_message_text '' <b>Hi</b> '') = Some ''&lt;b&gt;Hi&lt;/b&gt;''"
proof -
  have "decodeURIComponent (encode_message_text '' <b>Hi</b> '') = Some (escape_message (trim '' <b>Hi</b> ''))"
    using encode_message_text_safe [of "'' <b>Hi</b> ''"] by (simp add: char_code_def)
  then show ?thesis by (simp add: trim_def is_space_def char_code_def esc_char_def escape_message_one_pass)
qed

subsection \<open>Going round the recipients\<close>

lemma fst_human: "human_recipient s (k, q) = Some x \<Longrightarrow> fst x = k \<and> k \<noteq> own_number s"
  by (auto simp: human_recipient_def split: if_splits)

lemma distinct_humans:
  "distinct (map fst ps) \<Longrightarrow> distinct (map fst (List.map_filter (human_recipient s) ps))
     \<and> set (map fst (List.map_filter (human_recipient s) ps)) \<subseteq> set (map fst ps)"
proof (induction ps)
  case Nil
  then show ?case by (simp add: map_filter_simps)
next
  case (Cons a ps)
  obtain k q where a: "a = (k, q)" by (cases a)
  show ?case
  proof (cases "human_recipient s a")
    case None
    then show ?thesis using Cons by (auto simp: map_filter_simps)
  next
    case (Some x)
    then have "fst x = k" using fst_human [of s k q x] a by simp
    moreover have "k \<notin> set (map fst ps)" using Cons.prems a by simp
    ultimately have "fst x \<notin> set (map fst (List.map_filter (human_recipient s) ps))"
      using Cons by auto
    then show ?thesis using Cons Some a \<open>fst x = k\<close> by (auto simp: map_filter_simps)
  qed
qed

lemma humans_not_self: "x \<in> set (List.map_filter (human_recipient s) ps) \<Longrightarrow> fst x \<noteq> own_number s"
  by (induction ps) (auto simp: map_filter_simps dest: fst_human split: option.splits)

lemma recipients_distinct:
  assumes "store_ok (cl_players s)"
  shows "distinct (map rc_id (chat_context_get_recipients s))"
proof -
  define pm where "pm = List.map_filter (human_recipient s) (cl_players s)"
  have d: "distinct (map fst pm)"
    using distinct_humans [of "cl_players s" s] assms by (simp add: pm_def store_ok_def st_keys_def strict_sorted_iff)
  have "distinct (map fst (sort_key snd pm))"
    using d by (simp add: distinct_map)
  moreover have "own_number s \<notin> set (map fst (sort_key snd pm))"
    using humans_not_self [of _ s "cl_players s"] by (force simp: pm_def)
  moreover have "map rc_id (chat_context_get_recipients s)
      = None # (if list_ex (\<lambda>(player_id, _). st_get (dp_diplstates s) player_id = Some DS_ALLIANCE) pm \<and> own_number s \<ge> 0
                then [Some (own_number s)] else []) @ map Some (map fst (sort_key snd pm))"
    by (simp add: chat_context_get_recipients_def pm_def [symmetric] Let_def case_prod_unfold comp_def)
  moreover have "distinct (None # (if b then [Some n] else []) @ map Some ks)"
    if "distinct ks" "n \<notin> set ks" for b and n :: int and ks
    using that by (auto simp: distinct_map)
  ultimately show ?thesis by (simp only: simp_thms)
qed

text \<open>The recipients can be chosen, and choosing one changes no other.\<close>

lemma recipients_frame:
  "chat_context_get_recipients ((emits es s)\<lparr>ct_send_to := to\<rparr>) = chat_context_get_recipients s"
proof -
  have h: "human_recipient ((emits es s)\<lparr>ct_send_to := to\<rparr>) = human_recipient s"
    by (rule ext) (simp add: human_recipient_def own_number_def playing_def nation_adjective_def emits_def
        Let_def case_prod_unfold cong: if_cong option.case_cong)
  have o: "own_number ((emits es s)\<lparr>ct_send_to := to\<rparr>) = own_number s"
    by (simp add: own_number_def playing_def emits_def)
  show ?thesis
    unfolding chat_context_get_recipients_def h o by (simp add: emits_def)
qed

lemma set_direction_works:
  assumes "r \<in> set (chat_context_get_recipients s)" and "\<forall>k\<in>set (st_keys (cl_players s)). 0 \<le> k"
    and "store_ok (cl_players s)" and "ct_icon s"
  shows "\<exists>es. set_chat_direction (rc_id r) s = Some ((emits es s)\<lparr>ct_send_to := rc_id r\<rparr>)"
proof (cases "rc_id r = ct_send_to s")
  case True
  then have "set_chat_direction (rc_id r) s = Some ((emits [] s)\<lparr>ct_send_to := rc_id r\<rparr>)"
    by (simp add: set_chat_direction_def)
  then show ?thesis by blast
next
  case False
  define pm where "pm = List.map_filter (human_recipient s) (cl_players s)"
  consider "rc_id r = None" | "rc_id r = Some (own_number s)" "own_number s \<ge> 0"
    | p d where "rc_id r = Some p" "(p, d) \<in> set pm"
    using assms(1) by (auto simp: chat_context_get_recipients_def Let_def pm_def split: if_splits)
  then show ?thesis
  proof cases
    case 1
    then have "set_chat_direction (rc_id r) s = Some ((emits [Ui ''#chat_direction title'' [JStr (''Sending messages to '' @ ''everybody'')]] s)\<lparr>ct_send_to := rc_id r\<rparr>)"
      using False assms(4) by (simp add: set_chat_direction_def emit_def emits_def)
    then show ?thesis by blast
  next
    case 2
    then have "map_option p_playerno (playing s) = Some (own_number s)"
      by (auto simp: own_number_def split: option.splits)
    then have "set_chat_direction (rc_id r) s = Some ((emits [Ui ''#chat_direction title'' [JStr (''Sending messages to '' @ ''allies'')]] s)\<lparr>ct_send_to := rc_id r\<rparr>)"
      using False assms(4) 2 by (simp add: set_chat_direction_def emit_def emits_def)
    then show ?thesis by blast
  next
    case 3
    then obtain q where q: "(p, q) \<in> set (cl_players s)" "human_recipient s (p, q) = Some (p, d)"
      using fst_human by (fastforce simp: pm_def map_filter_def)
    have get: "st_get (cl_players s) p = Some q"
      using q(1) assms(3) by (simp add: st_get_def store_ok_def st_keys_def strict_sorted_iff)
    have "0 \<le> p" using q(1) assms(2) by (force simp: st_keys_def)
    moreover have "map_option p_playerno (playing s) \<noteq> Some p"
      using fst_human [OF q(2)] by (auto simp: own_number_def)
    moreover obtain adj where "nation_adjective s (p_nation q) = Some adj"
      using q(2) by (auto simp: human_recipient_def split: if_splits)
    ultimately have "set_chat_direction (rc_id r) s = Some ((emits [Ui ''#chat_direction title''
        [JStr (''Sending messages to '' @ p_name q @ '' of the '' @ adj)]] s)\<lparr>ct_send_to := rc_id r\<rparr>)"
      using False assms(4) 3 get by (auto simp: set_chat_direction_def emit_def emits_def)
    then show ?thesis by blast
  qed
qed

lemma recipient_index_nth:
  "distinct (map rc_id rs) \<Longrightarrow> i < length rs \<Longrightarrow> recipient_index (rc_id (rs ! i)) rs = i"
proof (induction rs arbitrary: i)
  case Nil
  then show ?case by simp
next
  case (Cons r rs)
  then show ?case
  proof (cases i)
    case (Suc j)
    then have "rc_id (rs ! j) \<in> rc_id ` set rs" using Cons.prems by simp
    then have "rc_id r \<noteq> rc_id (rs ! j)" using Cons.prems by auto
    then show ?thesis using Suc Cons by simp
  qed simp
qed

lemma next_recipient_nth:
  "distinct (map rc_id rs) \<Longrightarrow> i < length rs \<Longrightarrow> next_recipient (rc_id (rs ! i)) rs = Suc i mod length rs"
  by (cases "Suc i = length rs") (simp_all add: next_recipient_def recipient_index_nth Let_def)

text \<open>
  With fewer than four recipients the button goes round all of them: after \<open>k\<close> presses the
  recipient is the one \<open>k\<close> places further in the list, counted in a circle, so each of them is
  reached, once in each round, and no press throws.
\<close>

theorem chat_context_cycles:
  assumes "store_ok (cl_players s)" and "\<forall>k\<in>set (st_keys (cl_players s)). 0 \<le> k" and "ct_icon s"
    and "length (chat_context_get_recipients s) < 4" and "i < length (chat_context_get_recipients s)"
    and "ct_send_to s = rc_id (chat_context_get_recipients s ! i)"
  shows "\<exists>s'. each (\<lambda>_. chat_context_change) [0..<k] s = Some s'
    \<and> ct_send_to s' = rc_id (chat_context_get_recipients s ! ((i + k) mod length (chat_context_get_recipients s)))"
proof -
  define rs where "rs = chat_context_get_recipients s"
  have d: "distinct (map rc_id rs)" using recipients_distinct [OF assms(1)] by (simp add: rs_def)
  have press: "\<exists>es. chat_context_change ((emits fs s)\<lparr>ct_send_to := rc_id (rs ! j)\<rparr>)
      = Some ((emits es s)\<lparr>ct_send_to := rc_id (rs ! (Suc j mod length rs))\<rparr>)" if j: "j < length rs" for j fs
  proof -
    define u where "u = (emits fs s)\<lparr>ct_send_to := rc_id (rs ! j)\<rparr>"
    have "chat_context_get_recipients u = rs"
      unfolding u_def rs_def by (rule recipients_frame)
    moreover have "ct_send_to u = rc_id (rs ! j)" "ct_icon u" "cl_players u = cl_players s"
      using assms(3) by (simp_all add: u_def emits_def)
    ultimately have u: "chat_context_get_recipients u = rs" "ct_send_to u = rc_id (rs ! j)" "ct_icon u"
      "cl_players u = cl_players s" by simp_all
    have n: "Suc j mod length rs < length rs" using j by (cases rs) simp_all
    have "\<exists>es. set_chat_direction (rc_id (rs ! (Suc j mod length rs))) u
        = Some ((emits es u)\<lparr>ct_send_to := rc_id (rs ! (Suc j mod length rs))\<rparr>)"
      using n u assms(1,2) by (intro set_direction_works) simp_all
    then obtain es where "set_chat_direction (rc_id (rs ! (Suc j mod length rs))) u
        = Some ((emits es u)\<lparr>ct_send_to := rc_id (rs ! (Suc j mod length rs))\<rparr>)" by blast
    moreover have "(emits es u)\<lparr>ct_send_to := t\<rparr> = (emits (fs @ es) s)\<lparr>ct_send_to := t\<rparr>" for t
      by (simp add: u_def emits_def)
    ultimately have "set_chat_direction (rc_id (rs ! (Suc j mod length rs))) u
        = Some ((emits (fs @ es) s)\<lparr>ct_send_to := rc_id (rs ! (Suc j mod length rs))\<rparr>)" by (simp only:)
    moreover have "chat_context_change u = set_chat_direction (rc_id (rs ! (Suc j mod length rs))) u"
      using u n assms(4) next_recipient_nth [OF d j]
      by (simp only: chat_context_change_def chat_context_set_next_def rs_def [symmetric] Let_def if_True)
    ultimately show ?thesis unfolding u_def [symmetric] by (intro exI) (simp only:)
  qed
  have "\<exists>s'. each (\<lambda>_. chat_context_change) xs ((emits fs s)\<lparr>ct_send_to := rc_id (rs ! j)\<rparr>) = Some s'
      \<and> ct_send_to s' = rc_id (rs ! ((j + length xs) mod length rs))" if "j < length rs" for j fs and xs :: "nat list"
    using that
  proof (induction xs arbitrary: j fs)
    case Nil
    then show ?case by simp
  next
    case (Cons x xs)
    obtain es where es: "chat_context_change ((emits fs s)\<lparr>ct_send_to := rc_id (rs ! j)\<rparr>)
      = Some ((emits es s)\<lparr>ct_send_to := rc_id (rs ! (Suc j mod length rs))\<rparr>)" using press [OF Cons.prems] by blast
    have "Suc j mod length rs < length rs" using Cons.prems by (cases rs) simp_all
    then have IH: "\<exists>s'. each (\<lambda>_. chat_context_change) xs ((emits es s)\<lparr>ct_send_to := rc_id (rs ! (Suc j mod length rs))\<rparr>) = Some s'
      \<and> ct_send_to s' = rc_id (rs ! ((Suc j mod length rs + length xs) mod length rs))" by (rule Cons.IH)
    have "(Suc j mod length rs + length xs) mod length rs = (j + length (x # xs)) mod length rs"
      by (simp add: mod_add_left_eq)
    with IH show ?case by (simp only: each.simps es Option.bind.simps)
  qed
  note run = this [where j = i and fs = "[]" and xs = "[0..<k]"]
  have "(emits [] s)\<lparr>ct_send_to := rc_id (rs ! i)\<rparr> = s" using assms(6) by (simp add: rs_def)
  with run assms(5) show ?thesis by (simp add: rs_def [symmetric])
qed

definition chat0 :: chat_client where
  "chat0 = (diplomacy_client.extend (diplomacy_client.truncate diplomacy0)
     \<lparr>ct_send_to = None, ct_icon = True, ct_text = [], ct_keyboard_input = True\<rparr>)
     \<lparr>cl_players := [(2, player0\<lparr>p_playerno := 2, p_is_alive := True\<rparr>)]\<rparr>"

lemma chat0_recipients:
  "chat_context_get_recipients chat0 =
     [\<lparr>rc_id = None, rc_description = ''Everybody''\<rparr>, \<lparr>rc_id = Some 2, rc_description = p_name player0 @ '' of the Roman''\<rparr>]"
  by (simp add: chat0_def chat_context_get_recipients_def diplomacy_client.defs diplomacy0_def packet0_def focus0_def
      client0_def human_recipient_def own_number_def playing_def nation_adjective_def st_get_def player0_def
      map_filter_simps bv_isSet_def bv_byte_def)

theorem chat_context_cycles_witness:
  "\<exists>s'. each (\<lambda>_. chat_context_change) [0..<3] chat0 = Some s' \<and> ct_send_to s' = Some 2"
proof -
  have "store_ok (cl_players chat0)" "\<forall>k\<in>set (st_keys (cl_players chat0)). 0 \<le> k" "ct_icon chat0" "ct_send_to chat0 = None"
    by (simp_all add: chat0_def store_ok_def st_keys_def diplomacy_client.defs)
  from chat_context_cycles [of chat0 0 3, OF this(1-3)] this(4) show ?thesis
    by (simp add: chat0_recipients mod_Suc eval_nat_numeral del: upt_Suc)
qed

end
