(* ===== verification/Object_Packets.thy ===== *)
theory Object_Packets
  imports Diplomacy Tech
begin

text \<open>
  The packets about cities, players, connections, research, diplomatic states and messages
  (\<open>packhand.js\<close>).  A packet is the record of the object it is about; where several packets fill
  one object (\<open>$.extend\<close>), the extension keeps the fields the packet does not carry.
  The events of messages are numbered by a generated file, so their numbers are arguments.
  The player of the connection is kept by number: the code keeps the object, which stays the one in
  \<open>players\<close> until that player is removed.
\<close>

record conn =
  cn_id :: int
  cn_username :: string
  cn_player_num :: int
  cn_observer :: bool

record page_msg =
  pm_headline :: "string option"
  pm_missing :: "int option"      \<comment> \<open>\<open>None\<close>: undefined or \<open>NaN\<close>\<close>
  pm_message :: "string option"

record trade_route =
  tr_city :: int
  tr_index :: int
  tr_partner :: int
  tr_value :: int

record game_client = diplomacy_client +
  gm_connections :: "conn store"
  gm_conn_id :: int                 \<comment> \<open>\<open>client.conn.id\<close>\<close>
  gm_conn_player_num :: "int option"
  gm_page_msg :: page_msg
  gm_trade_routes :: "trade_route store store"
  gm_worklist_dialog :: bool        \<comment> \<open>\<open>worklist_dialog_active\<close>\<close>
  gm_benchmarking :: bool           \<comment> \<open>\<open>benchmark_start != 0\<close>\<close>
  gm_speech :: bool                 \<comment> \<open>\<open>is_speech_supported()\<close>\<close>
  gm_ruleset_summary :: "string option"
  gm_ruleset_description :: "string option"
  gm_endgame_info :: "(int \<times> int) list"  \<comment> \<open>player and score\<close>

definition no_page_msg :: page_msg where
  "no_page_msg = \<lparr>pm_headline = None, pm_missing = None, pm_message = None\<rparr>"

subsection \<open>Cities\<close>

record city_packet =
  ci_city :: city
  ci_improvements :: "32 word list"

text \<open>The packet after its fields were decoded; a name that is no encoded text throws.\<close>

definition decoded_city :: "city_packet \<Rightarrow> city option" where
  "decoded_city p =
     map_option (\<lambda>n. (ci_city p)\<lparr>c_name := n, c_improvements := Some (BitVector (ci_improvements p))\<rparr>)
       (decodeURIComponent (c_name (ci_city p)))"

text \<open>A \<open>city_info\<close> packet has everything but what \<open>web_city_info_addition\<close> brings.\<close>

definition extend_city :: "city option \<Rightarrow> city \<Rightarrow> city" where
  "extend_city old pkt =
     (case old of None \<Rightarrow> pkt
      | Some c \<Rightarrow> pkt\<lparr>c_can_build_unit := c_can_build_unit c, c_can_build_improvement := c_can_build_improvement c,
                      c_granary_turns := c_granary_turns c\<rparr>)"

text \<open>
  \<open>handle_city_info\<close>.  \<open>pcity\<close> is the stored city: for a known city the packet has been copied into
  it before it is compared with the packet.
\<close>

definition refresh_packet :: "'a focus_client_scheme \<Rightarrow> jval \<Rightarrow> packet" where
  "refresh_packet s tile_id =
     [(''pid'', JConst ''packet_unit_get_actions''), (''actor_unit_id'', JNum (action_selection_actor_unit s)),
      (''target_unit_id'', opt_json (action_selection_target_unit s)), (''target_tile_id'', tile_id),
      (''target_extra_id'', opt_json (action_selection_target_extra s)),
      (''request_kind'', JNum REQEST_BACKGROUND_REFRESH)]"

definition show_new_city :: "city \<Rightarrow> 'a game_client_scheme \<Rightarrow> 'a game_client_scheme" where
  "show_new_city c s =
     (if cl_client_state s = C_S_RUNNING \<and> \<not> fc_observing s \<and> \<not> gm_benchmarking s \<and> \<not> client_is_observer s
         \<and> map_option p_playerno (playing s) = Some (c_owner c)
      then emit (Ui ''show_city_dialog'' [JNum (c_id c)]) (open_city (Some (c_id c)) s) else s)"

definition handle_city_info :: "city_packet \<Rightarrow> 'a game_client_scheme \<Rightarrow> 'a game_client_scheme option" where
  "handle_city_info p s =
     Option.bind (decoded_city p) (\<lambda>dec.
       let pkt = dec\<lparr>c_unhappy := city_unhappy dec\<rparr>;
           stored = extend_city (st_get (cl_cities s) (c_id pkt)) pkt;
           s1 = s\<lparr>cl_cities := st_put (c_id pkt) stored (cl_cities s)\<rparr>;
           s2 = (if st_get (cl_cities s) (c_id pkt) = None then show_new_city pkt s1 else s1);
           shield_stock_changed = (c_shield_stock stored \<noteq> c_shield_stock pkt);
           production_changed = (c_production_kind stored \<noteq> c_production_kind pkt
                                 \<or> c_production_value stored \<noteq> c_production_value pkt);
           s3 = s2\<lparr>cl_tiles := st_upd (c_tile pkt) (\<lambda>t. t\<lparr>t_worked := Some (c_id pkt)\<rparr>) (cl_tiles s2)\<rparr>
       in if (production_changed \<or> shield_stock_changed) \<and> action_selection_target_city s3 = Some (c_id stored)
          then map_option (\<lambda>t. emit (Send (refresh_packet s3 (JNum (t_index t)))) s3) (city_tile s3 (Some stored))
          else Some s3)"

text \<open>The follow-up packets carry nothing the model reads: an unknown city is reported.\<close>

definition city_info_follow_up :: "int \<Rightarrow> string \<Rightarrow> 'a game_client_scheme \<Rightarrow> 'a game_client_scheme" where
  "city_info_follow_up city_id pname s =
     (if st_get (cl_cities s) city_id = None
      then emit (Ui ''console.log'' [JStr (pname @ '' for unknown city ''), JNum city_id]) s else s)"

definition handle_city_nationalities :: "int \<Rightarrow> 'a game_client_scheme \<Rightarrow> 'a game_client_scheme" where
  "handle_city_nationalities city_id s = city_info_follow_up city_id ''packet_city_nationalities'' s"

definition handle_city_rally_point :: "int \<Rightarrow> 'a game_client_scheme \<Rightarrow> 'a game_client_scheme" where
  "handle_city_rally_point city_id s = city_info_follow_up city_id ''packet_city_rally_point'' s"

definition update_city_position :: "'a client_scheme \<Rightarrow> int \<Rightarrow> effect" where
  "update_city_position s tile_id = Ui ''update_city_position'' [tile_json (index_to_tile (cl_tiles s) tile_id)]"

definition city_updates :: "'a client_scheme \<Rightarrow> int \<Rightarrow> effect list" where
  "city_updates s tile_id =
     [update_city_position s tile_id, Ui ''city_screen_updater.update'' [], Ui ''bulbs_output_updater.update'' []]"

record city_addition =
  wa_id :: int
  wa_granary_turns :: int
  wa_can_build_unit :: "32 word list"
  wa_can_build_improvement :: "32 word list"

definition extend_addition :: "city_addition \<Rightarrow> city \<Rightarrow> city" where
  "extend_addition p c =
     c\<lparr>c_granary_turns := wa_granary_turns p, c_can_build_unit := Some (BitVector (wa_can_build_unit p)),
       c_can_build_improvement := Some (BitVector (wa_can_build_improvement p))\<rparr>"

definition show_city :: "int \<Rightarrow> 'a city_client_scheme \<Rightarrow> 'a city_client_scheme" where
  "show_city city_id s = emit (Ui ''show_city_dialog'' [JNum city_id]) (open_city (Some city_id) s)"

definition handle_web_city_info_addition :: "city_addition \<Rightarrow> 'a game_client_scheme \<Rightarrow> 'a game_client_scheme option" where
  "handle_web_city_info_addition p s =
     (case st_get (cl_cities s) (wa_id p) of
        None \<Rightarrow> Some (emit (Ui ''console.log'' [JStr ''packet_web_city_info_addition for unknown city '', JNum (wa_id p)]) s)
      | Some c \<Rightarrow>
          (let s1 = s\<lparr>cl_cities := st_put (wa_id p) (extend_addition p c) (cl_cities s)\<rparr>;
               s2 = (case ui_active_city s1 of
                       Some a \<Rightarrow> if client_is_observer s1 then s1 else show_city a s1
                     | None \<Rightarrow> s1);
               s3 = (if c_diplomat_investigate c \<and> \<not> client_is_observer s2 then show_city (wa_id p) s2 else s2)
           in map_option (\<lambda>s4. emits (city_updates s4 (c_tile c)) s4)
                (case ui_active_city s3 of
                   Some a \<Rightarrow> if gm_worklist_dialog s3 then city_worklist_dialog a s3 else Some s3
                 | None \<Rightarrow> Some s3)))"

text \<open>A short packet about a foreign city.\<close>

definition extend_city_short :: "city option \<Rightarrow> city \<Rightarrow> city" where
  "extend_city_short old pkt =
     (case old of None \<Rightarrow> pkt
      | Some c \<Rightarrow> c\<lparr>c_owner := c_owner pkt, c_tile := c_tile pkt, c_name := c_name pkt, c_size := c_size pkt,
                    c_capital := c_capital pkt, c_style := c_style pkt, c_unhappy := c_unhappy pkt,
                    c_improvements := c_improvements pkt\<rparr>)"

definition handle_city_short_info :: "city_packet \<Rightarrow> 'a game_client_scheme \<Rightarrow> 'a game_client_scheme option" where
  "handle_city_short_info p s =
     map_option (\<lambda>pkt.
       let s1 = s\<lparr>cl_cities := st_put (c_id pkt) (extend_city_short (st_get (cl_cities s) (c_id pkt)) pkt) (cl_cities s)\<rparr>
       in emits (city_updates s1 (c_tile pkt)) s1)
       (decoded_city p)"

definition handle_city_remove :: "int \<Rightarrow> 'a game_client_scheme \<Rightarrow> 'a game_client_scheme option" where
  "handle_city_remove city_id s = remove_city (Some city_id) s"

definition handle_traderoute_info :: "trade_route \<Rightarrow> 'a game_client_scheme \<Rightarrow> 'a game_client_scheme" where
  "handle_traderoute_info p s =
     s\<lparr>gm_trade_routes :=
         st_put (tr_city p)
           (st_put (tr_index p) p (case st_get (gm_trade_routes s) (tr_city p) of None \<Rightarrow> st_empty | Some r \<Rightarrow> r))
           (gm_trade_routes s)\<rparr>"

subsection \<open>Players and research\<close>

record player_packet =
  pi_player :: player
  pi_flags :: "32 word list"

text \<open>What research and diplomacy packets bring stays.\<close>

definition extend_player :: "player option \<Rightarrow> player_packet \<Rightarrow> player" where
  "extend_player old p =
     (let pkt = (pi_player p)\<lparr>p_flags := BitVector (pi_flags p)\<rparr>
      in case old of None \<Rightarrow> pkt
         | Some q \<Rightarrow> pkt\<lparr>p_inventions := p_inventions q, p_diplstates := p_diplstates q,
                         p_researching := p_researching q, p_tech_goal := p_tech_goal q,
                         p_bulbs_researched := p_bulbs_researched q, p_researching_cost := p_researching_cost q\<rparr>)"

definition handle_player_info :: "player_packet \<Rightarrow> 'a game_client_scheme \<Rightarrow> 'a game_client_scheme" where
  "handle_player_info p s =
     (let n = p_playerno (pi_player p);
          s1 = s\<lparr>cl_players := st_put n (extend_player (st_get (cl_players s) n) p) (cl_players s)\<rparr>
      in if cl_client_state s1 = C_S_PREPARING \<and> \<not> fc_observing s1
         then emit (Ui ''update_player_info_pregame'' []) s1 else s1)"

text \<open>
  The addition brings only fields the model does not read; for an unknown player the nation it asks
  for is undefined, which throws.
\<close>

definition handle_web_player_info_addition :: "int \<Rightarrow> 'a game_client_scheme \<Rightarrow> 'a game_client_scheme option" where
  "handle_web_player_info_addition n s =
     (case st_get (cl_players s) n of
        None \<Rightarrow> None
      | Some p \<Rightarrow>
          Some (emits ((if map_option p_playerno (playing s) = Some n
                        then [Ui ''update_game_status_panel'' [], Ui ''update_net_income'' []] else [])
                  @ (if cl_client_state s = C_S_PREPARING then [Ui ''update_player_info_pregame'' []] else [])
                  @ (if pk_tech_dialog s then [Ui ''update_tech_screen'' []] else [])
                  @ [Ui ''assign_nation_color'' [JNum (p_nation p)]]) s))"

definition handle_player_remove :: "int \<Rightarrow> 'a game_client_scheme \<Rightarrow> 'a game_client_scheme" where
  "handle_player_remove n s =
     emit (Ui ''update_player_info_pregame'' []) (s\<lparr>cl_players := st_del n (cl_players s)\<rparr>)"

definition extend_research :: "research \<Rightarrow> player \<Rightarrow> player" where
  "extend_research r p =
     p\<lparr>p_inventions := Some (re_inventions r), p_researching := re_researching r, p_tech_goal := re_tech_goal r,
       p_bulbs_researched := re_bulbs_researched r, p_researching_cost := re_researching_cost r\<rparr>"

text \<open>The first technology that is newly known.\<close>

definition new_invention :: "int store \<Rightarrow> int store \<Rightarrow> int option" where
  "new_invention old new =
     List.find (\<lambda>i. st_get new i \<noteq> st_get old i \<and> st_get new i = Some TECH_KNOWN) (st_keys new)"

definition handle_research_info :: "int \<Rightarrow> research \<Rightarrow> 'a game_client_scheme \<Rightarrow> 'a game_client_scheme option" where
  "handle_research_info rid r s =
     (if \<not> pk_have_game s then None
      else (let old_inventions = map_option re_inventions (st_get (cl_research s) rid);
                s1 = s\<lparr>cl_research := st_put rid r (cl_research s),
                       cl_players := (if cl_team_pooled_research s
                                      then st_map (\<lambda>p. if p_team p = rid then extend_research r p else p) (cl_players s)
                                      else st_upd rid (extend_research r) (cl_players s))\<rparr>;
                s2 = (case old_inventions of
                        Some old \<Rightarrow>
                          (if \<not> client_is_observer s1 \<and> map_option p_playerno (playing s1) = Some rid
                           then (case new_invention old (re_inventions r) of
                                   Some i \<Rightarrow> queue_tech_gained_dialog i s1 | None \<Rightarrow> s1)
                           else s1)
                      | None \<Rightarrow> s1)
            in Some (emits ((if pk_tech_dialog s2 then [Ui ''update_tech_screen'' []] else [])
                            @ [Ui ''bulbs_output_updater.update'' []]) s2)))"

definition handle_unknown_research :: "int \<Rightarrow> 'a game_client_scheme \<Rightarrow> 'a game_client_scheme" where
  "handle_unknown_research rid s = s\<lparr>cl_research := st_del rid (cl_research s)\<rparr>"

definition handle_endgame_player :: "int \<Rightarrow> int \<Rightarrow> 'a game_client_scheme \<Rightarrow> 'a game_client_scheme" where
  "handle_endgame_player player_id score s = s\<lparr>gm_endgame_info := gm_endgame_info s @ [(player_id, score)]\<rparr>"

subsection \<open>Diplomatic states\<close>

definition war_with :: "'a diplomacy_client_scheme \<Rightarrow> int \<Rightarrow> int \<Rightarrow> int \<Rightarrow> int \<Rightarrow> int option" where
  "war_with s me type plr1 plr2 =
     (let peaceful = (\<lambda>p. st_get (dp_diplstates s) p \<noteq> Some DS_WAR \<and> st_get (dp_diplstates s) p \<noteq> Some DS_NO_CONTACT)
      in if type = DS_WAR \<and> plr2 = me \<and> peaceful plr1 then Some plr1
         else if type = DS_WAR \<and> plr1 = me \<and> peaceful plr2 then Some plr2 else None)"

text \<open>Whether the open action selection dialog has a target of the player.\<close>

definition targets_player :: "'a focus_client_scheme \<Rightarrow> int \<Rightarrow> bool" where
  "targets_player s plr =
     (opt_test (\<lambda>u. u_owner u = plr)
        (Option.bind (action_selection_target_unit s)
           (\<lambda>k. if k = IDENTITY_NUMBER_ZERO then None else game_find_unit_by_number s k))
      \<or> opt_test (\<lambda>c. c_owner c = plr)
          (Option.bind (action_selection_target_city s)
             (\<lambda>k. if k = IDENTITY_NUMBER_ZERO then None else game_find_city_by_number s k))
      \<or> opt_test (\<lambda>t. t_owner t = Some plr)
          (Option.bind (action_selection_target_tile s) (index_to_tile (cl_tiles s))))"

definition handle_player_diplstate :: "int \<Rightarrow> int \<Rightarrow> int \<Rightarrow> 'a game_client_scheme \<Rightarrow> 'a game_client_scheme option" where
  "handle_player_diplstate plr1 plr2 type s =
     (case playing s of
        None \<Rightarrow> Some s
      | Some self \<Rightarrow>
          (case st_get (cl_players s) plr1 of
             None \<Rightarrow> None
           | Some p1 \<Rightarrow>
               (let me = p_playerno self;
                    need_update = (plr2 = me \<and> opt_test (\<lambda>st. st \<noteq> type) (st_get (p_diplstates p1) plr2))
                in Option.bind (case war_with s me type plr1 plr2 of Some p \<Rightarrow> alert_war p s | None \<Rightarrow> Some s) (\<lambda>s1.
                   let s2 = (if plr1 = me then s1\<lparr>dp_diplstates := st_put plr2 type (dp_diplstates s1)\<rparr>
                             else if plr2 = me then s1\<lparr>dp_diplstates := st_put plr1 type (dp_diplstates s1)\<rparr> else s1);
                       s3 = s2\<lparr>cl_players := st_upd plr1 (\<lambda>p. p\<lparr>p_diplstates := st_put plr2 type (p_diplstates p)\<rparr>)
                                               (cl_players s2)\<rparr>
                   in Some (if need_update \<and> action_selection_actor_unit s3 \<noteq> IDENTITY_NUMBER_ZERO
                               \<and> targets_player s3 plr1
                            then emit (Send (refresh_packet s3 (opt_json (action_selection_target_tile s3)))) s3
                            else s3)))))"

subsection \<open>Connections\<close>

definition find_conn_by_id :: "'a game_client_scheme \<Rightarrow> int \<Rightarrow> conn option" where
  "find_conn_by_id s k = st_get (gm_connections s) k"

definition client_remove_cli_conn :: "conn \<Rightarrow> 'a game_client_scheme \<Rightarrow> 'a game_client_scheme" where
  "client_remove_cli_conn c s = s\<lparr>gm_connections := st_del (cn_id c) (gm_connections s)\<rparr>"

definition conn_list_append :: "conn \<Rightarrow> 'a game_client_scheme \<Rightarrow> 'a game_client_scheme" where
  "conn_list_append c s = s\<lparr>gm_connections := st_put (cn_id c) c (gm_connections s)\<rparr>"

text \<open>
  \<open>handle_conn_info\<close> for a connection that is used: \<open>client.conn\<close> becomes the packet before its
  player is compared with the packet's, so the client never goes back to \<open>C_S_PREPARING\<close> here.
\<close>

definition conn_used :: "conn \<Rightarrow> 'a game_client_scheme \<Rightarrow> 'a game_client_scheme" where
  "conn_used p s =
     (let pplayer = valid_player_by_number s (cn_player_num p);
          s1 = (if cn_id p = gm_conn_id s
                then (let s0 = (if gm_conn_player_num s \<noteq> Some (cn_player_num p) then discard_diplomacy_dialogs s else s)
                      in s0\<lparr>gm_conn_player_num := Some (cn_player_num p), cl_observer := cn_observer p,
                            cl_playing := map_option p_playerno pplayer\<rparr>)
                else s)
      in conn_list_append p s1)"

definition conn_unused :: "(unit_rec list \<Rightarrow> unit_rec list) \<Rightarrow> conn \<Rightarrow> 'a game_client_scheme \<Rightarrow> 'a game_client_scheme option" where
  "conn_unused srt p s =
     (case find_conn_by_id s (cn_id p) of
        None \<Rightarrow> Some s
      | Some pconn \<Rightarrow>
          (let s1 = client_remove_cli_conn pconn s
           in if cn_id p = gm_conn_id s1 \<and> playing s1 \<noteq> None then set_client_state srt C_S_PREPARING s1 else Some s1))"

definition handle_conn_info :: "(unit_rec list \<Rightarrow> unit_rec list) \<Rightarrow> bool \<Rightarrow> conn \<Rightarrow> 'a game_client_scheme
    \<Rightarrow> 'a game_client_scheme option" where
  "handle_conn_info srt used p s = (if used then Some (conn_used p s) else conn_unused srt p s)"

definition handle_conn_ping :: "'a client_scheme \<Rightarrow> 'a client_scheme" where
  "handle_conn_ping s = emit (Send [(''pid'', JConst ''packet_conn_pong'')]) s"

subsection \<open>Messages\<close>

definition handle_page_msg :: "string \<Rightarrow> int \<Rightarrow> 'a game_client_scheme \<Rightarrow> 'a game_client_scheme" where
  "handle_page_msg headline parts s =
     s\<lparr>gm_page_msg := \<lparr>pm_headline = Some headline, pm_missing = Some parts, pm_message = Some ''''\<rparr>\<rparr>"

definition newline :: char where
  "newline = char_of (10 :: nat)"

definition with_breaks :: "string \<Rightarrow> string" where
  "with_breaks text = replace_char newline (''<br>'' @ [newline]) text"

definition opt_str :: "string option \<Rightarrow> jval" where
  "opt_str x = (case x of None \<Rightarrow> JNull | Some t \<Rightarrow> JStr t)"

definition handle_page_msg_part :: "string \<Rightarrow> 'a game_client_scheme \<Rightarrow> 'a game_client_scheme" where
  "handle_page_msg_part lines s =
     (let m = gm_page_msg s;
          text = (case pm_message m of None \<Rightarrow> ''undefined'' | Some t \<Rightarrow> t) @ lines;
          missing = map_option (\<lambda>n. n - 1) (pm_missing m)
      in if missing = Some 0
         then emit (Ui ''show_dialog_message'' [opt_str (pm_headline m), JStr (with_breaks text)])
                (s\<lparr>gm_page_msg := no_page_msg\<rparr>)
         else s\<lparr>gm_page_msg := m\<lparr>pm_missing := missing, pm_message := Some text\<rparr>\<rparr>)"

record chat_packet =
  ch_message :: "string option"
  ch_conn_id :: int
  ch_event :: "int option"
  ch_tile :: "int option"

text \<open>
  \<open>handle_chat_msg\<close>: what \<open>add_chatbox_text\<close> gets, or a dialog for a message of a script.
\<close>

definition handle_chat_msg :: "int \<Rightarrow> int \<Rightarrow> chat_packet \<Rightarrow> 'a game_client_scheme \<Rightarrow> 'a game_client_scheme" where
  "handle_chat_msg E_UNDEFINED E_SCRIPT p s =
     (case ch_message p of
        None \<Rightarrow> s
      | Some message \<Rightarrow>
          (let event = (case ch_event p of
                          Some e \<Rightarrow> if e < 0 \<or> e \<ge> E_UNDEFINED then E_UNDEFINED else e | None \<Rightarrow> E_UNDEFINED);
               add = (\<lambda>text. emit (Ui ''add_chatbox_text'' [JStr text, JNum event]))
           in case find_conn_by_id s (ch_conn_id p) of
                Some c \<Rightarrow> add (''<b>'' @ cn_username c @ '':</b>'' @ message) s
              | None \<Rightarrow>
                  (if event = E_SCRIPT
                   then emit (Ui ''show_dialog_message'' [JStr ''Message for you:'', JStr (with_breaks message)]) s
                   else if js_includes message ''/metamessage'' \<or> js_includes message ''Metaserver message string'' then s
                   else (let text = (if opt_test (\<lambda>t. t > 0) (ch_tile p)
                                     then ''<span class='' @ [CHR 0x27] @ ''chatbox_text_tileinfo'' @ [CHR 0x27] @ '' onclick=''
                                          @ [CHR 0x27] @ ''center_tile_id('' @ int_text (the (ch_tile p)) @ '');'' @ [CHR 0x27] @ ''>''
                                          @ message @ ''</span>''
                                     else message)
                         in add text (if gm_speech s then emit (Ui ''speak'' [JStr text]) s else s)))))"

definition handle_early_chat_msg :: "int \<Rightarrow> int \<Rightarrow> chat_packet \<Rightarrow> 'a game_client_scheme \<Rightarrow> 'a game_client_scheme" where
  "handle_early_chat_msg E_UNDEFINED E_SCRIPT p s = handle_chat_msg E_UNDEFINED E_SCRIPT p s"

definition handle_ruleset_summary :: "string \<Rightarrow> 'a game_client_scheme \<Rightarrow> 'a game_client_scheme" where
  "handle_ruleset_summary text s = s\<lparr>gm_ruleset_summary := Some text\<rparr>"

definition handle_ruleset_description_part :: "string \<Rightarrow> 'a game_client_scheme \<Rightarrow> 'a game_client_scheme" where
  "handle_ruleset_description_part text s =
     s\<lparr>gm_ruleset_description :=
         Some (case gm_ruleset_description s of None \<Rightarrow> text | Some d \<Rightarrow> d @ text)\<rparr>"

definition handle_web_goto_path :: "goto_path \<Rightarrow> 'a focus_client_scheme \<Rightarrow> 'a focus_client_scheme option" where
  "handle_web_goto_path p s = (if fc_goto_active s then update_goto_path p s else Some s)"

definition handle_nuke_tile_info :: "int \<Rightarrow> 'a client_scheme \<Rightarrow> 'a client_scheme" where
  "handle_nuke_tile_info tile_id s =
     emit (Ui ''render_nuclear_explosion'' [tile_json (index_to_tile (cl_tiles s) tile_id)]) s"

end
