(* ===== verification/Ruleset_Packets.thy ===== *)
theory Ruleset_Packets
  imports Object_Packets
begin

text \<open>
  The ruleset packets (\<open>packhand.js\<close>): the reset at \<open>handle_ruleset_control\<close> and the handlers that
  fill the dictionaries of the ruleset the modelled code reads.  The dictionaries nothing modelled
  reads (specialists, goods, resources, nation groups, game rules, music) are left out, as are the
  handlers without a body.
  \<open>extras\<close> is also indexed by name; the same object is stored, and the model keeps the ids.
\<close>

record ruleset_client = game_client +
  rp_impr_index :: "(string \<times> int) list"   \<comment> \<open>\<open>improvements_name_index\<close>\<close>
  rp_unit_class_flags :: "bitvector store"
  rp_effects :: "(int \<times> int list) list"   \<comment> \<open>the effect packets by type\<close>
  rp_single_move :: "int option"            \<comment> \<open>\<open>SINGLE_MOVE\<close>\<close>

definition upd_ruleset :: "(ruleset \<Rightarrow> ruleset) \<Rightarrow> 'a client_scheme \<Rightarrow> 'a client_scheme" where
  "upd_ruleset f s = s\<lparr>cl_ruleset := f (cl_ruleset s)\<rparr>"

subsection \<open>The reset\<close>

definition impr_tables :: "'a ruleset_client_scheme \<Rightarrow> improvement_tables" where
  "impr_tables s = \<lparr>it_improvements = cl_improvements s, it_name_index = rp_impr_index s\<rparr>"

definition set_impr_tables :: "improvement_tables \<Rightarrow> 'a ruleset_client_scheme \<Rightarrow> 'a ruleset_client_scheme" where
  "set_impr_tables t s = s\<lparr>cl_improvements := it_improvements t, rp_impr_index := it_name_index t\<rparr>"

text \<open>
  The packet's counts are kept.  The ids that \<open>handle_ruleset_extra\<close> stored in globals are deleted in
  the code and are stale here until the extras come again.
\<close>

definition handle_ruleset_control :: "(unit_rec list \<Rightarrow> unit_rec list) \<Rightarrow> int \<Rightarrow> int
    \<Rightarrow> 'a ruleset_client_scheme \<Rightarrow> 'a ruleset_client_scheme option" where
  "handle_ruleset_control srt num_impr_types num_extra_types s =
     (let s1 = s\<lparr>cl_num_impr_types := num_impr_types, fc_num_extra_types := num_extra_types\<rparr>
      in if cl_client_state s1 = C_S_RUNNING \<and> client_is_observer s1 then Some s1
         else map_option
                (\<lambda>s2. (set_impr_tables (improvements_init (impr_tables s2)) s2)
                   \<lparr>rp_effects := [], gm_ruleset_summary := None, gm_ruleset_description := None,
                    cl_nations := st_empty, cl_techs := st_empty, cl_governments := st_empty,
                    rp_single_move := None, cl_unit_types := st_empty, rp_unit_class_flags := st_empty,
                    cl_city_rules := st_empty, cl_actions := st_empty, dp_clause_infos := st_empty,
                    cl_ruleset := (cl_ruleset s2)\<lparr>rs_terrains := st_empty, rs_extras := st_empty\<rparr>\<rparr>)
                (update_client_state srt C_S_PREPARING s1))"

subsection \<open>One entry each\<close>

definition handle_ruleset_terrain :: "terrain \<Rightarrow> 'a ruleset_client_scheme \<Rightarrow> 'a ruleset_client_scheme" where
  "handle_ruleset_terrain p s =
     (let p1 = (if te_name p = ''Lake'' then p\<lparr>te_graphic_str := te_graphic_alt p\<rparr> else p);
          p2 = (if te_name p1 = ''Glacier'' then p1\<lparr>te_graphic_str := ''tundra''\<rparr> else p1)
      in upd_ruleset (\<lambda>r. r\<lparr>rs_terrains := st_put (te_id p2) p2 (rs_terrains r)\<rparr>) s)"

text \<open>\<open>s.replace(prefix, '')\<close>: the first occurrence.\<close>

definition without_first :: "string \<Rightarrow> string \<Rightarrow> string" where
  "without_first pat text =
     (let i = indexOf text pat in if i < 0 then text else take (nat i) text @ drop (nat i + length pat) text)"

definition handle_ruleset_unit :: "unit_type \<Rightarrow> 'a ruleset_client_scheme \<Rightarrow> 'a ruleset_client_scheme" where
  "handle_ruleset_unit p s =
     (let p1 = (if indexOf (ut_name p) ''?unit:'' = 0 then p\<lparr>ut_name := without_first ''?unit:'' (ut_name p)\<rparr> else p)
      in s\<lparr>cl_unit_types := st_put (ut_id p1) p1 (cl_unit_types s)\<rparr>)"

text \<open>
  The addition: the actions.  The server sends it after the unit type itself (for an unknown number
  the code would store an object of the packet alone).
\<close>

definition handle_web_ruleset_unit_addition :: "int \<Rightarrow> 32 word list \<Rightarrow> 'a ruleset_client_scheme \<Rightarrow> 'a ruleset_client_scheme" where
  "handle_web_ruleset_unit_addition k actions s =
     s\<lparr>cl_unit_types := st_upd k (\<lambda>u. u\<lparr>ut_actions := Some (BitVector actions)\<rparr>) (cl_unit_types s)\<rparr>"

fun padded_reqs :: "nat \<Rightarrow> int list \<Rightarrow> int list" where
  "padded_reqs 0 rs = rs"
| "padded_reqs (Suc n) rs = (if length rs < 2 then padded_reqs n (rs @ [A_NONE]) else rs)"

definition recreate_old_tech_req :: "tech \<Rightarrow> tech" where
  "recreate_old_tech_req p =
     p\<lparr>tc_req := padded_reqs 2 (map r_value
          (filter (\<lambda>r. r_kind r = VUT_ADVANCE \<and> r_range r = REQ_RANGE_PLAYER \<and> r_present r) (tc_research_reqs p)))\<rparr>"

definition handle_ruleset_tech :: "tech \<Rightarrow> 'a ruleset_client_scheme \<Rightarrow> 'a ruleset_client_scheme" where
  "handle_ruleset_tech p s =
     (let p1 = recreate_old_tech_req (p\<lparr>tc_name := without_first ''?tech:'' (tc_name p)\<rparr>)
      in s\<lparr>cl_techs := st_put (tc_id p1) p1 (cl_techs s)\<rparr>)"

definition handle_ruleset_government :: "government \<Rightarrow> 'a ruleset_client_scheme \<Rightarrow> 'a ruleset_client_scheme" where
  "handle_ruleset_government p s = s\<lparr>cl_governments := st_put (gv_id p) p (cl_governments s)\<rparr>"

definition handle_ruleset_terrain_control :: "int \<Rightarrow> 'a ruleset_client_scheme \<Rightarrow> 'a ruleset_client_scheme" where
  "handle_ruleset_terrain_control move_fragments s = s\<lparr>rp_single_move := Some move_fragments\<rparr>"

definition handle_ruleset_nation :: "nation \<Rightarrow> 'a ruleset_client_scheme \<Rightarrow> 'a ruleset_client_scheme" where
  "handle_ruleset_nation p s = s\<lparr>cl_nations := st_put (na_id p) p (cl_nations s)\<rparr>"

definition handle_ruleset_city :: "int \<Rightarrow> string \<Rightarrow> 'a ruleset_client_scheme \<Rightarrow> 'a ruleset_client_scheme" where
  "handle_ruleset_city style_id rule_name s = s\<lparr>cl_city_rules := st_put style_id rule_name (cl_city_rules s)\<rparr>"

definition handle_ruleset_building :: "improvement \<Rightarrow> 'a ruleset_client_scheme \<Rightarrow> 'a ruleset_client_scheme" where
  "handle_ruleset_building p s = set_impr_tables (improvements_add_building p (impr_tables s)) s"

definition handle_ruleset_unit_class :: "int \<Rightarrow> 32 word list \<Rightarrow> 'a ruleset_client_scheme \<Rightarrow> 'a ruleset_client_scheme" where
  "handle_ruleset_unit_class k flags s = s\<lparr>rp_unit_class_flags := st_put k (BitVector flags) (rp_unit_class_flags s)\<rparr>"

definition handle_ruleset_effect :: "int \<Rightarrow> int \<Rightarrow> 'a ruleset_client_scheme \<Rightarrow> 'a ruleset_client_scheme" where
  "handle_ruleset_effect effect_type p s =
     s\<lparr>rp_effects := st_put effect_type ((case st_get (rp_effects s) effect_type of None \<Rightarrow> [] | Some es \<Rightarrow> es) @ [p])
                        (rp_effects s)\<rparr>"

text \<open>An action comes without enablers; the enabler packets are added to it, by their number.\<close>

definition handle_ruleset_action :: "action \<Rightarrow> 'a ruleset_client_scheme \<Rightarrow> 'a ruleset_client_scheme" where
  "handle_ruleset_action p s = s\<lparr>cl_actions := st_put (ac_id p) (p\<lparr>ac_enablers := []\<rparr>) (cl_actions s)\<rparr>"

definition handle_ruleset_action_enabler :: "int \<Rightarrow> int \<Rightarrow> 'a ruleset_client_scheme \<Rightarrow> 'a ruleset_client_scheme" where
  "handle_ruleset_action_enabler enabled_action p s =
     (case st_get (cl_actions s) enabled_action of
        None \<Rightarrow> emit (Ui ''console.log'' [JStr ''Unknown action undefined for enabler '']) s
      | Some a \<Rightarrow> s\<lparr>cl_actions := st_put enabled_action (a\<lparr>ac_enablers := ac_enablers a @ [p]\<rparr>) (cl_actions s)\<rparr>)"

definition handle_ruleset_clause :: "int \<Rightarrow> bool \<Rightarrow> 'a ruleset_client_scheme \<Rightarrow> 'a ruleset_client_scheme" where
  "handle_ruleset_clause type enabled s = s\<lparr>dp_clause_infos := st_put type enabled (dp_clause_infos s)\<rparr>"

subsection \<open>Extras\<close>

record extra_packet =
  xp_extra :: extra
  xp_causes :: "32 word list"
  xp_rmcauses :: "32 word list"

text \<open>The global \<open>EXTRA_...\<close> named after the rule name, for the names the client reads.\<close>

definition store_extra_global :: "string \<Rightarrow> int \<Rightarrow> ruleset \<Rightarrow> ruleset" where
  "store_extra_global rule_name k r =
     (if rule_name = ''Railroad'' then r\<lparr>rs_EXTRA_RAIL := k\<rparr>
      else if rule_name = ''Oil Well'' then r
      else (let name = map (\<lambda>c. if is_lower c then char_of (char_code c - 32) else c) rule_name
            in if name = ''RIVER'' then r\<lparr>rs_EXTRA_RIVER := k\<rparr>
               else if name = ''ROAD'' then r\<lparr>rs_EXTRA_ROAD := k\<rparr>
               else if name = ''RAIL'' then r\<lparr>rs_EXTRA_RAIL := k\<rparr>
               else if name = ''HUT'' then r\<lparr>rs_EXTRA_HUT := k\<rparr>
               else if name = ''AIRBASE'' then r\<lparr>rs_EXTRA_AIRBASE := k\<rparr> else r))"

definition handle_ruleset_extra :: "extra_packet \<Rightarrow> 'a ruleset_client_scheme \<Rightarrow> 'a ruleset_client_scheme" where
  "handle_ruleset_extra p s =
     (let x = (xp_extra p)\<lparr>x_causes := BitVector (xp_causes p), x_rmcauses := BitVector (xp_rmcauses p),
                            x_base := None, x_road := None\<rparr>
      in upd_ruleset (\<lambda>r. store_extra_global (x_rule_name x) (x_id x)
                             (r\<lparr>rs_extras := st_put (x_id x) x (rs_extras r)\<rparr>)) s)"

text \<open>
  The loop of \<open>handle_ruleset_base\<close> and \<open>handle_ruleset_road\<close>: the first extra with the cause and
  without the data.  It runs to \<open>MAX_EXTRA_TYPES\<close>, and the first number without an extra throws.
\<close>

fun first_extra :: "extra store \<Rightarrow> (extra \<Rightarrow> bool) \<Rightarrow> int list \<Rightarrow> int option option" where
  "first_extra extras P [] = Some None"
| "first_extra extras P (i # is) =
     (case st_get extras i of None \<Rightarrow> None
      | Some x \<Rightarrow> if P x then Some (Some i) else first_extra extras P is)"

definition put_extra_data :: "(extra \<Rightarrow> bool) \<Rightarrow> (extra \<Rightarrow> extra) \<Rightarrow> string
    \<Rightarrow> 'a ruleset_client_scheme \<Rightarrow> 'a ruleset_client_scheme option" where
  "put_extra_data P f message s =
     map_option
       (\<lambda>found. case found of
                  None \<Rightarrow> emit (Ui ''console.log'' [JStr message]) s
                | Some i \<Rightarrow> upd_ruleset (\<lambda>r. r\<lparr>rs_extras := st_upd i f (rs_extras r)\<rparr>) s)
       (first_extra (rs_extras (cl_ruleset s)) P [0..MAX_EXTRA_TYPES - 1])"

definition handle_ruleset_base :: "int \<Rightarrow> 'a ruleset_client_scheme \<Rightarrow> 'a ruleset_client_scheme option" where
  "handle_ruleset_base border_sq s =
     put_extra_data (\<lambda>x. is_extra_caused_by x EC_BASE \<and> x_base x = None) (\<lambda>x. x\<lparr>x_base := Some border_sq\<rparr>)
       (''Didn'' @ [CHR 0x27] @ ''t find Extra to put Base on'') s"

definition handle_ruleset_road :: "int \<Rightarrow> 'a ruleset_client_scheme \<Rightarrow> 'a ruleset_client_scheme option" where
  "handle_ruleset_road p s =
     put_extra_data (\<lambda>x. is_extra_caused_by x EC_ROAD \<and> x_road x = None) (\<lambda>x. x\<lparr>x_road := Some p\<rparr>)
       (''Didn'' @ [CHR 0x27] @ ''t find Extra to put Road on'') s"

end
