(* ===== verification/Object_Facts.thy ===== *)
theory Object_Facts
  imports Ruleset_Packets Diplomacy_Facts Action_Dialog_Facts
begin

text \<open>
  What the object and ruleset packets do: a page message comes out in one piece, a city packet makes
  its city the centre of its tile and never asks the server anything, and base and road packets are
  given to the extras in order.
\<close>

definition game0 :: "game_client" where
  "game0 = diplomacy_client.extend (diplomacy_client.truncate diplomacy0)
     \<lparr>gm_connections = [], gm_conn_id = 0, gm_conn_player_num = None, gm_page_msg = no_page_msg,
      gm_trade_routes = [], gm_worklist_dialog = False, gm_benchmarking = False, gm_speech = False,
      gm_ruleset_summary = None, gm_ruleset_description = None, gm_endgame_info = []\<rparr>"

subsection \<open>Page messages\<close>

lemma page_parts:
  assumes "gm_page_msg s = \<lparr>pm_headline = Some h, pm_missing = Some (int (length ps)), pm_message = Some t\<rparr>"
    and "ps \<noteq> []"
  shows "fold handle_page_msg_part ps s =
    emit (Ui ''show_dialog_message'' [JStr h, JStr (with_breaks (t @ concat ps))]) (s\<lparr>gm_page_msg := no_page_msg\<rparr>)"
  using assms
proof (induction ps arbitrary: s t)
  case Nil
  then show ?case by simp
next
  case (Cons p ps)
  show ?case
  proof (cases ps)
    case Nil
    then show ?thesis using Cons.prems by (simp add: handle_page_msg_part_def opt_str_def Let_def)
  next
    case (Cons q qs)
    define s1 where "s1 = s\<lparr>gm_page_msg := \<lparr>pm_headline = Some h, pm_missing = Some (int (length ps)), pm_message = Some (t @ p)\<rparr>\<rparr>"
    have step: "handle_page_msg_part p s = s1"
      using Cons.prems(1) Cons by (simp add: handle_page_msg_part_def s1_def Let_def)
    have "fold handle_page_msg_part ps s1 =
        emit (Ui ''show_dialog_message'' [JStr h, JStr (with_breaks ((t @ p) @ concat ps))]) (s1\<lparr>gm_page_msg := no_page_msg\<rparr>)"
      using Cons by (intro Cons.IH) (simp_all add: s1_def)
    then show ?thesis by (simp add: step s1_def)
  qed
qed

text \<open>
  C33.  A page message that the server splits into parts is shown once, when its last part has come,
  with the text of all parts in order and every line break turned into \<open><br>\<close>; before that nothing
  is shown, and afterwards no message is pending.
\<close>

theorem page_msg_reassembled:
  assumes "parts \<noteq> []"
  shows "fold handle_page_msg_part parts (handle_page_msg headline (int (length parts)) s) =
      emit (Ui ''show_dialog_message'' [JStr headline, JStr (with_breaks (concat parts))]) (s\<lparr>gm_page_msg := no_page_msg\<rparr>)
    \<and> (\<forall>k < length parts. cl_out (fold handle_page_msg_part (take k parts)
            (handle_page_msg headline (int (length parts)) s)) = cl_out s)"
proof
  define s0 where "s0 = handle_page_msg headline (int (length parts)) s"
  have s0: "gm_page_msg s0 = \<lparr>pm_headline = Some headline, pm_missing = Some (int (length parts)), pm_message = Some ''''\<rparr>"
    by (simp add: s0_def handle_page_msg_def)
  show "fold handle_page_msg_part parts (handle_page_msg headline (int (length parts)) s) =
      emit (Ui ''show_dialog_message'' [JStr headline, JStr (with_breaks (concat parts))]) (s\<lparr>gm_page_msg := no_page_msg\<rparr>)"
    using page_parts [OF s0 assms] by (simp add: s0_def [symmetric]) (simp add: s0_def handle_page_msg_def)
  have pending: "cl_out (fold handle_page_msg_part ps u) = cl_out u"
    if "pm_missing (gm_page_msg u) = Some n" "int (length ps) < n" for ps n and u :: "'a game_client_scheme"
    using that
  proof (induction ps arbitrary: u n)
    case Nil
    then show ?case by simp
  next
    case (Cons p ps)
    have m: "map_option (\<lambda>n. n - 1) (pm_missing (gm_page_msg u)) = Some (n - 1)" "n - 1 \<noteq> 0"
      using Cons.prems by simp_all
    define v where "v = handle_page_msg_part p u"
    have "pm_missing (gm_page_msg v) = Some (n - 1)" "cl_out v = cl_out u"
      using m by (simp_all add: v_def handle_page_msg_part_def Let_def)
    then show ?case using Cons.IH [of v "n - 1"] Cons.prems(2) by (simp add: v_def)
  qed
  show "\<forall>k < length parts. cl_out (fold handle_page_msg_part (take k parts)
            (handle_page_msg headline (int (length parts)) s)) = cl_out s"
    using pending [of "handle_page_msg headline (int (length parts)) s" "int (length parts)"]
    by (auto simp: handle_page_msg_def)
qed

theorem page_msg_reassembled_witness:
  "cl_out (fold handle_page_msg_part [''Hello '', ''world''] (handle_page_msg ''News'' 2 game0)) =
     cl_out game0 @ [Ui ''show_dialog_message'' [JStr ''News'', JStr (with_breaks ''Hello world'')]]"
  using page_msg_reassembled [of "[''Hello '', ''world'']" "''News''" game0] by simp

subsection \<open>City packets\<close>

lemma open_city_fields:
  "cl_cities (open_city c s) = cl_cities s" "cl_tiles (open_city c s) = cl_tiles s" "cl_out (open_city c s) = cl_out s"
  by (simp_all add: open_city_def)

lemma show_new_city_fields:
  "cl_cities (show_new_city c s) = cl_cities s" "cl_tiles (show_new_city c s) = cl_tiles s"
  "sent (cl_out (show_new_city c s)) = sent (cl_out s)"
  by (simp_all add: show_new_city_def open_city_fields)

lemma extend_city_compared:
  "c_shield_stock (extend_city old pkt) = c_shield_stock pkt"
  "c_production_kind (extend_city old pkt) = c_production_kind pkt"
  "c_production_value (extend_city old pkt) = c_production_value pkt"
  "c_id (extend_city old pkt) = c_id pkt" "c_tile (extend_city old pkt) = c_tile pkt"
  by (simp_all add: extend_city_def split: option.split)

text \<open>What a city packet does when its name can be decoded; the test for the refresh is false.\<close>

definition city_of_packet :: "city_packet \<Rightarrow> string \<Rightarrow> city" where
  "city_of_packet p name =
     (let dec = (ci_city p)\<lparr>c_name := name, c_improvements := Some (BitVector (ci_improvements p))\<rparr>
      in dec\<lparr>c_unhappy := city_unhappy dec\<rparr>)"

lemma city_of_packet_fields [simp]:
  "c_id (city_of_packet p name) = c_id (ci_city p)" "c_tile (city_of_packet p name) = c_tile (ci_city p)"
  "c_name (city_of_packet p name) = name"
  by (simp_all add: city_of_packet_def Let_def)

lemma handle_city_info_eq:
  assumes "decodeURIComponent (c_name (ci_city p)) = Some name"
  shows "handle_city_info p s =
    (let pkt = city_of_packet p name;
         s1 = s\<lparr>cl_cities := st_put (c_id pkt) (extend_city (st_get (cl_cities s) (c_id pkt)) pkt) (cl_cities s)\<rparr>;
         s2 = (if st_get (cl_cities s) (c_id pkt) = None then show_new_city pkt s1 else s1)
     in Some (s2\<lparr>cl_tiles := st_upd (c_tile pkt) (\<lambda>t. t\<lparr>t_worked := Some (c_id pkt)\<rparr>) (cl_tiles s2)\<rparr>))"
proof -
  define dec where "dec = (ci_city p)\<lparr>c_name := name, c_improvements := Some (BitVector (ci_improvements p))\<rparr>"
  define pkt where "pkt = dec\<lparr>c_unhappy := city_unhappy dec\<rparr>"
  define stored where "stored = extend_city (st_get (cl_cities s) (c_id pkt)) pkt"
  have same: "c_shield_stock stored = c_shield_stock pkt" "c_production_kind stored = c_production_kind pkt"
    "c_production_value stored = c_production_value pkt"
    by (simp_all add: stored_def extend_city_compared)
  have dec: "decoded_city p = Some dec" using assms by (simp add: decoded_city_def dec_def)
  have pkt: "city_of_packet p name = pkt" by (simp add: city_of_packet_def pkt_def dec_def Let_def)
  show ?thesis
    unfolding handle_city_info_def dec pkt Option.bind.simps Let_def pkt_def [symmetric] stored_def [symmetric] same
    by simp
qed

text \<open>
  After a city packet the city is stored under its id with the decoded name, and it is the city
  that \<open>tile_city\<close> finds on its tile, when the map has that tile.  No request is ever sent: the
  refresh of an open caravan dialog compares the packet with the city it has just been copied into.
\<close>

theorem city_info_stored:
  assumes "handle_city_info p s = Some s'"
  shows "(\<exists>c. st_get (cl_cities s') (c_id (ci_city p)) = Some c
        \<and> decodeURIComponent (c_name (ci_city p)) = Some (c_name c)
        \<and> (\<forall>t. st_get (cl_tiles s') (c_tile (ci_city p)) = Some t \<and> t_index t = c_tile (ci_city p)
              \<longrightarrow> tile_city s' (Some t) = Some c))
    \<and> sent (cl_out s') = sent (cl_out s)"
proof -
  obtain name where name: "decodeURIComponent (c_name (ci_city p)) = Some name"
    using assms by (auto simp: handle_city_info_def decoded_city_def bind_eq_Some_conv)
  define stored where "stored = extend_city (st_get (cl_cities s) (c_id (ci_city p))) (city_of_packet p name)"
  define s1 where "s1 = s\<lparr>cl_cities := st_put (c_id (ci_city p)) stored (cl_cities s)\<rparr>"
  define s2 where "s2 = (if st_get (cl_cities s) (c_id (ci_city p)) = None then show_new_city (city_of_packet p name) s1 else s1)"
  have s': "s' = s2\<lparr>cl_tiles := st_upd (c_tile (ci_city p)) (\<lambda>t. t\<lparr>t_worked := Some (c_id (ci_city p))\<rparr>) (cl_tiles s2)\<rparr>"
  proof -
    have "handle_city_info p s =
        Some (s2\<lparr>cl_tiles := st_upd (c_tile (ci_city p)) (\<lambda>t. t\<lparr>t_worked := Some (c_id (ci_city p))\<rparr>) (cl_tiles s2)\<rparr>)"
      using handle_city_info_eq [OF name, of s]
      unfolding Let_def city_of_packet_fields stored_def [symmetric] s1_def [symmetric] s2_def [symmetric] .
    with assms show ?thesis by simp
  qed
  have get: "st_get (cl_cities s') (c_id (ci_city p)) = Some stored"
    by (simp add: s' s2_def s1_def show_new_city_fields js.get_put)
  have fields: "c_name stored = name" "c_tile stored = c_tile (ci_city p)"
    by (simp_all add: stored_def extend_city_def split: option.split)
  have "tile_city s' (Some t) = Some stored"
    if "st_get (cl_tiles s') (c_tile (ci_city p)) = Some t \<and> t_index t = c_tile (ci_city p)" for t
  proof -
    have "t_worked t = Some (c_id (ci_city p))"
      using that by (auto simp: s' st_get_upd)
    then show ?thesis using get that fields by (simp add: tile_city_def is_city_center_def)
  qed
  moreover have "sent (cl_out s') = sent (cl_out s)"
    by (simp add: s' s2_def s1_def show_new_city_fields)
  ultimately show ?thesis using get fields name by auto
qed

theorem city_info_stored_witness:
  "\<exists>s' c. handle_city_info \<lparr>ci_city = city0\<lparr>c_name := ''Rome''\<rparr>, ci_improvements = []\<rparr> game0 = Some s'
     \<and> st_get (cl_cities s') (c_id city0) = Some c \<and> c_name c = ''Rome''"
proof -
  define p where "p = \<lparr>ci_city = city0\<lparr>c_name := ''Rome''\<rparr>, ci_improvements = []\<rparr>"
  have name: "decodeURIComponent (c_name (ci_city p)) = Some ''Rome''" by (simp add: p_def)
  obtain s' where s': "handle_city_info p game0 = Some s'"
    using handle_city_info_eq [OF name, of game0] by (simp add: Let_def)
  from city_info_stored [OF this] show ?thesis
    using name s' by (auto simp: p_def)
qed

end
