(* ===== verification/Event_Aggregator.thy ===== *)
theory Event_Aggregator
  imports Complex_Main Prelude
begin

text \<open>
  \<open>libs/EventAggregator.js\<close>: reported events are kept and given to a handler at a reduced
  frequency.  The message log, the list of cities and the bulbs of the technology panel use it.
  The handler is an argument: it gets its data and the rest of the client \<open>'w\<close>, and may report
  events again, which the model lists (\<open>update_chatbox\<close> does so).
  A timer is a number.  \<open>ea_timer\<close> is the handle the object holds; \<open>ea_pending\<close> are the timers of
  the browser that have not fired and were not cleared, which can be more than one.
\<close>

datatype data_policy = DP_NONE | DP_FIRST | DP_LAST | DP_COUNT | DP_ALL

text \<open>The field \<open>data\<close>, and what the handler is called with.\<close>

datatype 'd agg_data = Undefined | Datum 'd | Data "'d list"

datatype 'd handler_arg = NoArg | ArgData "'d agg_data" | ArgCount nat

record 'd aggregator =
  ea_timeout :: real
  ea_latency :: real
  ea_maxDelays :: nat
  ea_delayTimeout :: real
  ea_policy :: data_policy
  ea_timer :: "nat option"
  ea_pending :: "(nat \<times> real) list"
  ea_next :: nat
  ea_data :: "'d agg_data"
  ea_burst :: bool
  ea_delays :: nat
  ea_count :: nat

subsection \<open>Timers\<close>

definition ea_setTimeout :: "real \<Rightarrow> 'd aggregator \<Rightarrow> 'd aggregator" where
  "ea_setTimeout delay a =
     a\<lparr>ea_timer := Some (ea_next a), ea_pending := ea_pending a @ [(ea_next a, delay)], ea_next := Suc (ea_next a)\<rparr>"

definition ea_cancel :: "'d aggregator \<Rightarrow> 'd aggregator" where
  "ea_cancel a =
     (case ea_timer a of None \<Rightarrow> a
      | Some t \<Rightarrow> a\<lparr>ea_timer := None, ea_pending := filter (\<lambda>(k, _). k \<noteq> t) (ea_pending a)\<rparr>)"

definition ea_clear :: "'d aggregator \<Rightarrow> 'd aggregator" where
  "ea_clear a =
     a\<lparr>ea_data := (if ea_policy a = DP_ALL then Data [] else Undefined), ea_burst := False, ea_delays := 0, ea_count := 0\<rparr>"

text \<open>The constructor; an argument that is left out, or 0, gets its default.\<close>

definition or_else :: "real option \<Rightarrow> real \<Rightarrow> real" where
  "or_else x d = (case x of None \<Rightarrow> d | Some v \<Rightarrow> if v = 0 then d else v)"

definition newEventAggregator :: "real option \<Rightarrow> data_policy \<Rightarrow> real option \<Rightarrow> nat \<Rightarrow> real option \<Rightarrow> 'd aggregator" where
  "newEventAggregator timeout policy latency maxDelays delayTimeout =
     (let t = or_else timeout 1000
      in ea_clear \<lparr>ea_timeout = t,
           ea_latency = (if latency = Some 0 then 0 else or_else latency t),
           ea_maxDelays = maxDelays,
           ea_delayTimeout = (if delayTimeout = Some 0 then 0 else or_else delayTimeout (t / 2)),
           ea_policy = policy, ea_timer = None, ea_pending = [], ea_next = 0,
           ea_data = Undefined, ea_burst = False, ea_delays = 0, ea_count = 0\<rparr>)"

subsection \<open>Events\<close>

definition ea_keep :: "'d \<Rightarrow> 'd aggregator \<Rightarrow> 'd agg_data" where
  "ea_keep d a =
     (case ea_policy a of
        DP_FIRST \<Rightarrow> if ea_count a = 0 then Datum d else ea_data a
      | DP_LAST \<Rightarrow> Datum d
      | DP_ALL \<Rightarrow> (case ea_data a of Data ds \<Rightarrow> Data (ds @ [d]) | other \<Rightarrow> other)
      | _ \<Rightarrow> ea_data a)"

definition ea_update :: "'d \<Rightarrow> 'd aggregator \<Rightarrow> 'd aggregator" where
  "ea_update d a =
     (let a1 = a\<lparr>ea_data := ea_keep d a, ea_count := Suc (ea_count a)\<rparr>
      in if ea_timer a1 = None then ea_setTimeout (ea_timeout a1) a1
         else if ea_count a1 > 1 then a1\<lparr>ea_burst := True\<rparr> else a1)"

definition handler_data :: "'d aggregator \<Rightarrow> 'd handler_arg" where
  "handler_data a =
     (case ea_policy a of DP_NONE \<Rightarrow> NoArg | DP_COUNT \<Rightarrow> ArgCount (ea_count a) | _ \<Rightarrow> ArgData (ea_data a))"

definition ea_fireNow :: "('d handler_arg \<Rightarrow> 'w \<Rightarrow> 'w \<times> 'd list) \<Rightarrow> 'd aggregator \<times> 'w \<Rightarrow> 'd aggregator \<times> 'w" where
  "ea_fireNow h s =
     (let (a, w) = s
      in if ea_count a > 0
         then (let (w1, again) = h (handler_data a) w;
                   a1 = fold ea_update again (ea_clear (ea_cancel a))
               in (if ea_latency a1 > 0 then ea_setTimeout (ea_latency a1) a1 else a1, w1))
         else s)"

definition ea_fired :: "('d handler_arg \<Rightarrow> 'w \<Rightarrow> 'w \<times> 'd list) \<Rightarrow> 'd aggregator \<times> 'w \<Rightarrow> 'd aggregator \<times> 'w" where
  "ea_fired h s =
     (let (a, w) = s
      in if ea_burst a \<and> ea_delays a < ea_maxDelays a
         then (ea_setTimeout (ea_delayTimeout a) (a\<lparr>ea_burst := False, ea_delays := Suc (ea_delays a)\<rparr>), w)
         else ea_fireNow h (a\<lparr>ea_timer := None\<rparr>, w))"

text \<open>The browser: a pending timer fires.\<close>

definition timer_fires :: "('d handler_arg \<Rightarrow> 'w \<Rightarrow> 'w \<times> 'd list) \<Rightarrow> nat \<Rightarrow> 'd aggregator \<times> 'w \<Rightarrow> 'd aggregator \<times> 'w" where
  "timer_fires h t s =
     (let (a, w) = s
      in if t \<in> set (map fst (ea_pending a))
         then ea_fired h (a\<lparr>ea_pending := filter (\<lambda>(k, _). k \<noteq> t) (ea_pending a)\<rparr>, w)
         else s)"

end
