(* ===== verification/Messages.thy ===== *)
theory Messages
  imports Object_Packets Chat Event_Aggregator
begin

text \<open>
  The message window (\<open>messages.js\<close>): the classes of chat messages, what enters the log, the log
  itself (an event aggregator whose handler is \<open>update_chatbox\<close>), and the window, of which the
  model keeps the items.  The window before the game and the one in it are two elements of the
  page, each of which may be missing.  The numbers and names of the events come from a generated
  file and are arguments.
\<close>

record chat_message =
  cm_event :: int
  cm_text :: string

record event_table =
  ev_CHAT_MSG :: int
  ev_CHAT_PRIVATE :: int
  ev_CHAT_ALLIES :: int
  ev_CHAT_OBSERVER :: int
  ev_name :: "int \<Rightarrow> string"      \<comment> \<open>\<open>fc_e_events[event][E_I_NAME]\<close>\<close>

text \<open>An item of the window: its class and its html.\<close>

type_synonym chat_item = "string \<times> string"

record message_client = game_client +
  ms_log :: "chat_message aggregator"
  ms_pregame_area :: "chat_item list option"
  ms_game_area :: "chat_item list option"
  ms_embed :: bool                          \<comment> \<open>\<open>is_embed_mode()\<close>\<close>

definition new_message_log :: "chat_message aggregator" where
  "new_message_log = newEventAggregator (Some 125) DP_ALL (Some 1000) 0 None"

subsection \<open>Classes of messages\<close>

text \<open>\<open>text.replace(/^<b>[^<]*:<\/b>/, "")\<close>\<close>

definition without_player :: "string \<Rightarrow> string" where
  "without_player text =
     (let rest = drop 3 text; name = takeWhile (\<lambda>c. c \<noteq> CHR ''<'') rest; after = drop (length name) rest
      in if starts_with ''<b>'' text \<and> name \<noteq> [] \<and> last name = CHR '':'' \<and> starts_with ''</b>'' after
         then drop 4 after else text)"

text \<open>\<open>text.replace(/^\([^)]*\) /, "")\<close>\<close>

definition without_timestamp :: "string \<Rightarrow> string" where
  "without_timestamp text =
     (let rest = drop 1 text; after = dropWhile (\<lambda>c. c \<noteq> CHR '')'') rest
      in if starts_with ''('' text \<and> starts_with '') '' after then drop 2 after else text)"

definition reclassify_chat_message :: "event_table \<Rightarrow> string option \<Rightarrow> int" where
  "reclassify_chat_message ev text =
     (case text of
        None \<Rightarrow> ev_CHAT_MSG ev
      | Some t \<Rightarrow>
          (if length t < 29 then ev_CHAT_MSG ev
           else (let t1 = without_timestamp (without_player t);
                     color = take 6 (drop 14 t1)
                 in if color = ''A020F0'' then ev_CHAT_PRIVATE ev
                    else if color = ''551166'' then ev_CHAT_ALLIES ev
                    else if take 1 (drop 23 t1) = ''('' then ev_CHAT_OBSERVER ev
                    else ev_CHAT_MSG ev)))"

text \<open>\<open>text.replace(/pat/g, rep)\<close> for a fixed pattern that is not empty.\<close>

function replace_all :: "string \<Rightarrow> string \<Rightarrow> string \<Rightarrow> string" where
  "replace_all pat rep [] = []"
| "replace_all pat rep (c # s) =
     (if pat \<noteq> [] \<and> starts_with pat (c # s) then rep @ replace_all pat rep (drop (length pat) (c # s))
      else c # replace_all pat rep s)"
  by pat_completeness auto
termination
  by (relation "measure (\<lambda>(pat, rep, s). length s)") auto

definition recolor :: "int \<Rightarrow> string \<Rightarrow> string" where
  "recolor state text =
     (if state \<le> C_S_PREPARING then replace_all ''#FFFFFF'' ''#000000'' text
      else replace_all ''#A020F0'' ''#F020FF'' (replace_all ''#551166'' ''#AA88FF''
             (replace_all ''#006400'' ''#00AA00'' (replace_all ''#0000FF'' ''#5555FF'' text))))"

subsection \<open>The window\<close>

definition get_chatbox_msg_list :: "'a message_client_scheme \<Rightarrow> chat_item list option" where
  "get_chatbox_msg_list s = (if cl_client_state s \<le> C_S_PREPARING then ms_pregame_area s else ms_game_area s)"

definition set_chatbox_msg_list :: "chat_item list \<Rightarrow> 'a message_client_scheme \<Rightarrow> 'a message_client_scheme" where
  "set_chatbox_msg_list items s =
     (if cl_client_state s \<le> C_S_PREPARING then s\<lparr>ms_pregame_area := Some items\<rparr> else s\<lparr>ms_game_area := Some items\<rparr>)"

definition chat_item_of :: "event_table \<Rightarrow> chat_message \<Rightarrow> chat_item" where
  "chat_item_of ev m = (ev_name ev (cm_event m), cm_text m)"

text \<open>The messages that are given back to the log are the second component.\<close>

definition update_chatbox :: "event_table \<Rightarrow> chat_message list \<Rightarrow> 'a message_client_scheme
    \<Rightarrow> 'a message_client_scheme \<times> chat_message list" where
  "update_chatbox ev messages s =
     (let (s1, again) = (case get_chatbox_msg_list s of
            Some items \<Rightarrow> (set_chatbox_msg_list (items @ map (chat_item_of ev) messages) s, [])
          | None \<Rightarrow> (s, messages))
      in (if ms_embed s1 then s1 else emit (setTimeout ''scrollTo bottom'' 100) s1, again))"

definition chatbox_handler :: "event_table \<Rightarrow> chat_message handler_arg \<Rightarrow> 'a message_client_scheme
    \<Rightarrow> 'a message_client_scheme \<times> chat_message list" where
  "chatbox_handler ev arg s = (case arg of ArgData (Data ms) \<Rightarrow> update_chatbox ev ms s | _ \<Rightarrow> (s, []))"

subsection \<open>The log\<close>

definition message_log_update :: "chat_message \<Rightarrow> 'a message_client_scheme \<Rightarrow> 'a message_client_scheme" where
  "message_log_update m s = s\<lparr>ms_log := ea_update m (ms_log s)\<rparr>"

definition on_log :: "(chat_message aggregator \<times> 'a message_client_scheme \<Rightarrow> chat_message aggregator \<times> 'a message_client_scheme)
    \<Rightarrow> 'a message_client_scheme \<Rightarrow> 'a message_client_scheme" where
  "on_log f s = (let (a, s1) = f (ms_log s, s) in s1\<lparr>ms_log := a\<rparr>)"

definition message_log_fireNow :: "event_table \<Rightarrow> 'a message_client_scheme \<Rightarrow> 'a message_client_scheme" where
  "message_log_fireNow ev = on_log (ea_fireNow (chatbox_handler ev))"

definition message_log_timer :: "event_table \<Rightarrow> nat \<Rightarrow> 'a message_client_scheme \<Rightarrow> 'a message_client_scheme" where
  "message_log_timer ev t = on_log (timer_fires (chatbox_handler ev) t)"

text \<open>\<open>banned_users\<close> is the list of \<open>banlist.js\<close>.\<close>

definition add_chatbox_text :: "event_table \<Rightarrow> string list \<Rightarrow> int \<Rightarrow> string option \<Rightarrow> 'a message_client_scheme
    \<Rightarrow> 'a message_client_scheme" where
  "add_chatbox_text ev banned_users event text s =
     (case text of
        None \<Rightarrow> s
      | Some t \<Rightarrow>
          (if \<not> check_text_with_banlist banned_users (Some t) \<or> length t \<ge> max_chat_message_length then s
           else (let event1 = (if event = ev_CHAT_MSG ev then reclassify_chat_message ev (Some t) else event)
                 in message_log_update \<lparr>cm_event = event1, cm_text = recolor (cl_client_state s) t\<rparr> s)))"

text \<open>
  \<open>chatbox_clip_messages\<close>; \<open>None\<close> of the argument: it is left out.  A missing window throws, after
  the log was flushed.
\<close>

definition chatbox_clip_messages :: "event_table \<Rightarrow> int option \<Rightarrow> 'a message_client_scheme
    \<Rightarrow> 'a message_client_scheme option" where
  "chatbox_clip_messages ev lines s =
     (let keep = (case lines of None \<Rightarrow> 24 | Some n \<Rightarrow> if n < 0 then 24 else n);
          s1 = message_log_fireNow ev s
      in map_option
           (\<lambda>items. fst (update_chatbox ev [] (set_chatbox_msg_list (drop (nat (int (length items) - keep)) items) s1)))
           (get_chatbox_msg_list s1))"

definition clear_chatbox :: "event_table \<Rightarrow> 'a message_client_scheme \<Rightarrow> 'a message_client_scheme option" where
  "clear_chatbox ev s = chatbox_clip_messages ev (Some 0) (s\<lparr>ms_log := ea_clear (ms_log s)\<rparr>)"

text \<open>\<open>text_of\<close> stands for \<open>textContent\<close>, the text of an item without its tags.\<close>

definition get_chatbox_text :: "(string \<Rightarrow> string) \<Rightarrow> 'a message_client_scheme \<Rightarrow> string option" where
  "get_chatbox_text text_of s = map_option (\<lambda>items. concat (map (\<lambda>i. text_of (snd i)) items)) (get_chatbox_msg_list s)"

text \<open>The text has come, or it is looked for again in 100 ms.\<close>

definition wait_for_text :: "(string \<Rightarrow> string) \<Rightarrow> string \<Rightarrow> effect \<Rightarrow> 'a message_client_scheme \<Rightarrow> 'a message_client_scheme" where
  "wait_for_text text_of text runnable s =
     emit (if opt_test (\<lambda>t. js_includes t text) (get_chatbox_text text_of s) then runnable
           else setTimeout ''wait_for_text'' 100) s"

end
