(* ===== verification/Aggregator_Facts.thy ===== *)
theory Aggregator_Facts
  imports Event_Aggregator
begin

text \<open>
  What the event aggregator promises to its users: every reported event is in exactly one batch,
  the batches are handed over in order, and a batch is handed over after a bounded number of
  firings of its timer.  The promise needs a handler that reports nothing itself
  (\<open>quiet_handler\<close>); one that reports its data again multiplies the timers.
\<close>

subsection \<open>Batches\<close>

text \<open>What the aggregator keeps of a batch, and what the handler gets for it.\<close>

fun held :: "data_policy \<Rightarrow> 'd list \<Rightarrow> 'd agg_data" where
  "held DP_ALL b = Data b"
| "held DP_FIRST (d # b) = Datum d"
| "held DP_LAST (d # b) = Datum (last (d # b))"
| "held _ _ = Undefined"

fun batch_arg :: "data_policy \<Rightarrow> 'd list \<Rightarrow> 'd handler_arg" where
  "batch_arg DP_NONE b = NoArg"
| "batch_arg DP_COUNT b = ArgCount (length b)"
| "batch_arg pol b = ArgData (held pol b)"

text \<open>The aggregator holds the batch; a batch that is not empty waits for the one pending timer.\<close>

definition holds_batch :: "'d aggregator \<Rightarrow> 'd list \<Rightarrow> bool" where
  "holds_batch a b \<longleftrightarrow>
     ea_count a = length b \<and> ea_data a = held (ea_policy a) b \<and> ea_delays a \<le> ea_maxDelays a
     \<and> map fst (ea_pending a) = (case ea_timer a of None \<Rightarrow> [] | Some t \<Rightarrow> [t])
     \<and> (b \<noteq> [] \<longrightarrow> ea_timer a \<noteq> None)"

lemma keep_held: "ea_data a = held (ea_policy a) b \<Longrightarrow> ea_count a = length b \<Longrightarrow>
    ea_keep d a = held (ea_policy a) (b @ [d])"
  by (cases "ea_policy a"; cases b) (simp_all add: ea_keep_def)

lemma handler_data_batch: "holds_batch a b \<Longrightarrow> handler_data a = batch_arg (ea_policy a) b"
  by (cases "ea_policy a") (simp_all add: handler_data_def holds_batch_def)

lemma handler_data_timer: "handler_data (a\<lparr>ea_pending := ps, ea_timer := t\<rparr>) = handler_data a"
  by (cases "ea_policy a") (simp_all add: handler_data_def)

lemma policy_frame [simp]:
  "ea_policy (ea_update d a) = ea_policy a" "ea_policy (ea_setTimeout t a) = ea_policy a"
  "ea_policy (ea_clear a) = ea_policy a" "ea_policy (ea_cancel a) = ea_policy a"
  "ea_maxDelays (ea_update d a) = ea_maxDelays a" "ea_maxDelays (ea_setTimeout t a) = ea_maxDelays a"
  "ea_maxDelays (ea_clear a) = ea_maxDelays a" "ea_maxDelays (ea_cancel a) = ea_maxDelays a"
  by (simp_all add: ea_update_def ea_setTimeout_def ea_clear_def ea_cancel_def Let_def split: option.split)

lemma update_holds:
  assumes "holds_batch a b"
  shows "holds_batch (ea_update d a) (b @ [d])"
  using assms keep_held [of a b d]
  by (auto simp: holds_batch_def ea_update_def ea_setTimeout_def Let_def)

lemma update_delays: "ea_delays (ea_update d a) = ea_delays a"
  by (simp add: ea_update_def ea_setTimeout_def Let_def)

text \<open>After a batch is handed over, the aggregator is empty and may wait for its latency.\<close>

definition rearm :: "'d aggregator \<Rightarrow> 'd aggregator" where
  "rearm a = (let a1 = ea_clear (ea_cancel a)
              in if ea_latency a1 > 0 then ea_setTimeout (ea_latency a1) a1 else a1)"

lemma pending_cancel:
  "map fst (ea_pending a) = (case ea_timer a of None \<Rightarrow> [] | Some t \<Rightarrow> [t]) \<Longrightarrow>
   ea_pending (ea_cancel a) = [] \<and> ea_timer (ea_cancel a) = None"
  by (cases "ea_timer a"; cases "ea_pending a") (auto simp: ea_cancel_def)

lemma rearm_holds:
  assumes "map fst (ea_pending a) = (case ea_timer a of None \<Rightarrow> [] | Some t \<Rightarrow> [t])"
  shows "holds_batch (rearm a) []"
  using pending_cancel [OF assms]
  by (cases "ea_policy a") (auto simp: holds_batch_def rearm_def ea_clear_def ea_setTimeout_def Let_def ea_cancel_def
      split: option.split)

lemma rearm_frame [simp]: "ea_policy (rearm a) = ea_policy a" "ea_maxDelays (rearm a) = ea_maxDelays a"
  by (simp_all add: rearm_def Let_def)

text \<open>The firing of the timer while events keep coming.\<close>

definition delay_again :: "'d aggregator \<Rightarrow> 'd aggregator" where
  "delay_again a = ea_setTimeout (ea_delayTimeout a)
     (a\<lparr>ea_pending := [], ea_burst := False, ea_delays := Suc (ea_delays a)\<rparr>)"

lemma delay_again_holds:
  "holds_batch a b \<Longrightarrow> ea_delays a < ea_maxDelays a \<Longrightarrow> holds_batch (delay_again a) b"
  by (simp add: holds_batch_def delay_again_def ea_setTimeout_def)

lemma delay_again_frame [simp]:
  "ea_policy (delay_again a) = ea_policy a" "ea_maxDelays (delay_again a) = ea_maxDelays a"
  "ea_delays (delay_again a) = Suc (ea_delays a)"
  by (simp_all add: delay_again_def, simp add: ea_setTimeout_def)

lemma new_holds: "holds_batch (newEventAggregator timeout policy latency maxDelays delayTimeout) []"
  by (cases policy) (simp_all add: holds_batch_def newEventAggregator_def ea_clear_def Let_def)

lemma new_fields [simp]:
  "ea_policy (newEventAggregator timeout policy latency maxDelays delayTimeout) = policy"
  "ea_maxDelays (newEventAggregator timeout policy latency maxDelays delayTimeout) = maxDelays"
  by (simp_all add: newEventAggregator_def ea_clear_def Let_def)

subsection \<open>Handlers that report nothing\<close>

text \<open>What happens to an aggregator: an event, the oldest pending timer fires, or its owner flushes it.\<close>

datatype 'd agg_op = Report 'd | TimerFires | FireNow

fun agg_step :: "('d handler_arg \<Rightarrow> 'w \<Rightarrow> 'w \<times> 'd list) \<Rightarrow> 'd agg_op \<Rightarrow> 'd aggregator \<times> 'w \<Rightarrow> 'd aggregator \<times> 'w" where
  "agg_step h (Report d) s = (ea_update d (fst s), snd s)"
| "agg_step h TimerFires s =
     (case ea_pending (fst s) of [] \<Rightarrow> s | (t, _) # _ \<Rightarrow> timer_fires h t s)"
| "agg_step h FireNow s = ea_fireNow h s"

fun reports :: "'d agg_op list \<Rightarrow> 'd list" where
  "reports [] = []"
| "reports (Report d # ops) = d # reports ops"
| "reports (op # ops) = reports ops"

fun batch_after :: "'d agg_op \<Rightarrow> 'd list \<Rightarrow> 'd list" where
  "batch_after (Report d) b = b @ [d]"
| "batch_after op b = b"

locale quiet_handler =
  fixes h :: "'d handler_arg \<Rightarrow> 'w \<Rightarrow> 'w \<times> 'd list" and ok :: "'w \<Rightarrow> bool"
  assumes reports_nothing: "ok w \<Longrightarrow> snd (h arg w) = []"
    and stays_ok: "ok w \<Longrightarrow> ok (fst (h arg w))"
begin

lemma fireNow_eq:
  "ok w \<Longrightarrow> ea_fireNow h (a, w) = (if ea_count a > 0 then (rearm a, fst (h (handler_data a) w)) else (a, w))"
  using reports_nothing [of w "handler_data a"]
  by (simp add: ea_fireNow_def rearm_def Let_def case_prod_beta)

lemma fireNow_holds:
  assumes "holds_batch a b" and "ok w"
  shows "ea_fireNow h (a, w) =
    (if b = [] then (a, w) else (rearm a, fst (h (batch_arg (ea_policy a) b) w)))"
  using assms handler_data_batch [OF assms(1)] by (auto simp: fireNow_eq holds_batch_def)

text \<open>The timer fires: the batch is handed over, or its delay is used up by one.\<close>

lemma fires_holds:
  assumes "holds_batch a b" and "b \<noteq> []" and "ok w"
  obtains
    (delivered) a' where "agg_step h TimerFires (a, w) = (a', fst (h (batch_arg (ea_policy a) b) w))"
      and "holds_batch a' []" and "ea_policy a' = ea_policy a" "ea_maxDelays a' = ea_maxDelays a"
  | (delayed) a' where "agg_step h TimerFires (a, w) = (a', w)" and "holds_batch a' b"
      and "ea_policy a' = ea_policy a" "ea_maxDelays a' = ea_maxDelays a" and "ea_delays a' = Suc (ea_delays a)"
proof -
  obtain t delay where t: "ea_timer a = Some t" "ea_pending a = [(t, delay)]"
    using assms by (cases "ea_pending a") (auto simp: holds_batch_def split: option.splits)
  let ?a0 = "a\<lparr>ea_pending := []\<rparr>"
  have fires: "agg_step h TimerFires (a, w) = ea_fired h (?a0, w)"
    by (simp add: t timer_fires_def)
  show thesis
  proof (cases "ea_burst a \<and> ea_delays a < ea_maxDelays a")
    case True
    let ?a1 = "delay_again a"
    have "ea_fired h (?a0, w) = (?a1, w)" using True by (simp add: ea_fired_def delay_again_def)
    moreover have "holds_batch ?a1 b" using True assms(1) by (simp add: delay_again_holds)
    ultimately show thesis by (intro delayed [of ?a1]) (simp_all add: fires del: agg_step.simps)
  next
    case False
    let ?a1 = "a\<lparr>ea_pending := [], ea_timer := None\<rparr>"
    have "handler_data ?a1 = batch_arg (ea_policy a) b"
      using handler_data_batch [OF assms(1)] by (simp only: handler_data_timer)
    then have "ea_fired h (?a0, w) = (rearm ?a1, fst (h (batch_arg (ea_policy a) b) w))"
      using False assms by (auto simp: ea_fired_def fireNow_eq holds_batch_def)
    then show thesis by (intro delivered [of "rearm ?a1"]) (simp_all add: fires rearm_holds del: agg_step.simps)
  qed
qed

text \<open>A timer that fires without events is the end of the latency.\<close>

lemma fires_empty:
  assumes "holds_batch a []" and "ok w"
  obtains a' where "agg_step h TimerFires (a, w) = (a', w)" and "holds_batch a' []"
    and "ea_policy a' = ea_policy a" "ea_maxDelays a' = ea_maxDelays a"
proof (cases "ea_timer a")
  case None
  then show thesis using assms by (intro that [of a]) (auto simp: holds_batch_def)
next
  case (Some t)
  then obtain delay where t: "ea_pending a = [(t, delay)]"
    using assms by (cases "ea_pending a") (auto simp: holds_batch_def)
  let ?a0 = "a\<lparr>ea_pending := []\<rparr>"
  have fires: "agg_step h TimerFires (a, w) = ea_fired h (?a0, w)"
    by (simp add: t timer_fires_def)
  show thesis
  proof (cases "ea_burst a \<and> ea_delays a < ea_maxDelays a")
    case True
    let ?a1 = "delay_again a"
    have "ea_fired h (?a0, w) = (?a1, w)" using True by (simp add: ea_fired_def delay_again_def)
    moreover have "holds_batch ?a1 []" using True assms by (simp add: delay_again_holds)
    ultimately show thesis by (intro that [of ?a1]) (simp_all add: fires del: agg_step.simps)
  next
    case False
    let ?a1 = "a\<lparr>ea_pending := [], ea_timer := None\<rparr>"
    have "ea_fired h (?a0, w) = (?a1, w)" using False assms by (auto simp: ea_fired_def fireNow_eq holds_batch_def)
    moreover have "holds_batch ?a1 []" using assms by (simp add: holds_batch_def)
    ultimately show thesis by (intro that [of ?a1]) (simp_all add: fires del: agg_step.simps)
  qed
qed

text \<open>One step: the batch grows, stays, or is handed over.\<close>

lemma agg_step_cases:
  assumes "holds_batch a b" and "ok w"
  obtains
    (kept) a' where "agg_step h op (a, w) = (a', w)" and "holds_batch a' (batch_after op b)"
      and "ea_policy a' = ea_policy a" "ea_maxDelays a' = ea_maxDelays a"
  | (handed) a' where "agg_step h op (a, w) = (a', fst (h (batch_arg (ea_policy a) b) w))"
      and "reports [op] = []" and "b \<noteq> []" and "holds_batch a' []"
      and "ea_policy a' = ea_policy a" "ea_maxDelays a' = ea_maxDelays a"
proof (cases op)
  case (Report d)
  then show thesis using kept update_holds [OF assms(1)] by simp
next
  case TimerFires
  show thesis
  proof (cases "b = []")
    case True
    then obtain a' where "agg_step h TimerFires (a, w) = (a', w)" "holds_batch a' []"
      "ea_policy a' = ea_policy a" "ea_maxDelays a' = ea_maxDelays a"
      using fires_empty assms by metis
    then show thesis using kept True TimerFires by simp
  next
    case False
    show thesis
    proof (cases rule: fires_holds [OF assms(1) False assms(2), case_names delivered delayed])
      case (delivered a')
      then show thesis using handed False TimerFires by simp
    next
      case (delayed a')
      then show thesis using kept TimerFires by simp
    qed
  qed
next
  case FireNow
  show thesis
  proof (cases "b = []")
    case True
    then show thesis using kept [of a] FireNow assms(1) fireNow_holds [OF assms] by simp
  next
    case False
    moreover have "holds_batch (rearm a) []" using assms(1) by (intro rearm_holds) (simp add: holds_batch_def)
    ultimately show thesis using handed [of "rearm a"] FireNow fireNow_holds [OF assms] by simp
  qed
qed

text \<open>A run: the handler works on the closed batches one after the other.\<close>

definition handle_batch :: "data_policy \<Rightarrow> 'd list \<Rightarrow> 'w \<Rightarrow> 'w" where
  "handle_batch pol b w = fst (h (batch_arg pol b) w)"

lemma agg_run:
  assumes "holds_batch a b" and "ok w"
  shows "\<exists>a' past waiting. fold (agg_step h) ops (a, w) = (a', fold (handle_batch (ea_policy a)) past w)
    \<and> concat past @ waiting = b @ reports ops \<and> [] \<notin> set past \<and> holds_batch a' waiting \<and> ea_policy a' = ea_policy a"
  using assms
proof (induction ops arbitrary: a b w)
  case Nil
  then show ?case by (intro exI [of _ a] exI [of _ "[]"] exI [of _ b]) simp
next
  case (Cons op ops)
  have reports_Cons: "reports (op # ops) = reports [op] @ reports ops" by (cases op) simp_all
  show ?case
  proof (cases rule: agg_step_cases [OF Cons.prems, of op, case_names kept handed])
    case (kept a1)
    have after: "batch_after op b = b @ reports [op]" by (cases op) simp_all
    then show ?thesis using Cons.IH [OF kept(2) Cons.prems(2)] kept(1,3) by (simp add: reports_Cons)
  next
    case (handed a1)
    have "ok (handle_batch (ea_policy a) b w)"
      unfolding handle_batch_def by (rule stays_ok [OF Cons.prems(2)])
    from Cons.IH [OF handed(4) this] obtain a' past waiting where
      "fold (agg_step h) ops (a1, handle_batch (ea_policy a) b w) =
         (a', fold (handle_batch (ea_policy a)) past (handle_batch (ea_policy a) b w))"
      "concat past @ waiting = reports ops" "[] \<notin> set past" "holds_batch a' waiting" "ea_policy a' = ea_policy a"
      using handed(5) by auto
    then show ?thesis using handed(1-3)
      by (intro exI [of _ a'] exI [of _ "b # past"] exI [of _ waiting])
        (simp add: reports_Cons handle_batch_def [of "ea_policy a" b w])
  qed
qed

end

subsection \<open>Nothing is lost\<close>

text \<open>A handler that writes down what it is called with.\<close>

definition collect :: "'d handler_arg \<Rightarrow> 'd handler_arg list \<Rightarrow> 'd handler_arg list \<times> 'd list" where
  "collect arg calls = (calls @ [arg], [])"

interpretation collect: quiet_handler collect "\<lambda>_. True"
  by unfold_locales (simp_all add: collect_def)

lemma fst_collect [simp]: "fst (collect arg calls) = calls @ [arg]"
  by (simp add: collect_def)

lemma collected: "fold (collect.handle_batch pol) past calls = calls @ map (batch_arg pol) past"
  by (induction past arbitrary: calls) (simp_all add: collect.handle_batch_def)

text \<open>
  C7.  Whatever the parameters of an aggregator and however reports, firings of its timer and
  flushes follow each other: the reported events are the batches handed over so far, in order, and
  the batch that waits; no batch handed over is empty, the handler got for each what its data policy
  says, and a batch that waits has a timer that will hand it over.
\<close>

theorem aggregator_batches:
  "case fold (agg_step collect) ops (newEventAggregator timeout policy latency maxDelays delayTimeout, []) of
     (a, calls) \<Rightarrow>
       \<exists>past waiting. concat past @ waiting = reports ops \<and> [] \<notin> set past
         \<and> calls = map (batch_arg policy) past
         \<and> ea_count a = length waiting \<and> (waiting = [] \<or> ea_pending a \<noteq> [])"
proof -
  let ?s = "(newEventAggregator timeout policy latency maxDelays delayTimeout, []) :: 'a aggregator \<times> _"
  obtain a past waiting where run: "fold (agg_step collect) ops ?s = (a, map (batch_arg policy) past)"
    "concat past @ waiting = reports ops" "[] \<notin> set past" "holds_batch a waiting"
    using collect.agg_run [OF new_holds TrueI, of ops timeout policy latency maxDelays delayTimeout "[]"]
    by (auto simp: collected)
  then have "ea_count a = length waiting \<and> (waiting = [] \<or> ea_pending a \<noteq> [])"
    by (auto simp: holds_batch_def)
  then show ?thesis using run by auto
qed

theorem aggregator_batches_witness:
  "case fold (agg_step collect) [Report (1 :: nat), TimerFires, Report 2]
     (newEventAggregator (Some 250) DP_ALL (Some 250) 0 None, []) of
     (a, calls) \<Rightarrow>
       \<exists>past waiting. concat past @ waiting = reports [Report (1 :: nat), TimerFires, Report 2] \<and> [] \<notin> set past
         \<and> calls = map (batch_arg DP_ALL) past
         \<and> ea_count a = length waiting \<and> (waiting = [] \<or> ea_pending a \<noteq> [])"
  by (rule aggregator_batches)

subsection \<open>Nothing waits forever\<close>

lemma undelivered_step:
  assumes "holds_batch a b" and "b \<noteq> []" and "agg_step collect op (a, calls) = (a', calls')" and "length calls' \<le> length calls"
  shows "holds_batch a' (batch_after op b) \<and> ea_maxDelays a' = ea_maxDelays a \<and> calls' = calls
    \<and> ea_delays a' = ea_delays a + (if op = TimerFires then 1 else 0)"
proof (cases op)
  case (Report d)
  then show ?thesis using assms update_holds [OF assms(1)] by (auto simp: update_delays)
next
  case FireNow
  then show ?thesis using assms collect.fireNow_holds [OF assms(1) TrueI, of calls] by auto
next
  case TimerFires
  show ?thesis
  proof (cases rule: collect.fires_holds [OF assms(1,2) TrueI, of calls, case_names delivered delayed])
    case (delivered a'')
    then have "calls' = calls @ [batch_arg (ea_policy a) b]" using assms(3) unfolding TimerFires by (metis Pair_inject fst_collect)
    then show ?thesis using assms(4) by simp
  next
    case (delayed a'')
    then show ?thesis using assms(3) unfolding TimerFires by auto
  qed
qed

lemma calls_grow: "length (snd s) \<le> length (snd (fold (agg_step collect) ops s))"
proof (induction ops arbitrary: s)
  case (Cons op ops)
  have "length (snd s) \<le> length (snd (agg_step collect op s))"
    by (cases s; cases op)
      (auto simp: timer_fires_def ea_fired_def collect.fireNow_eq split: list.split)
  then show ?case using Cons.IH [of "agg_step collect op s"] by simp
qed simp

lemma undelivered_run:
  assumes "holds_batch a b" and "b \<noteq> []" and "length (snd (fold (agg_step collect) ops (a, calls))) \<le> length calls"
  shows "count_list ops TimerFires + ea_delays a \<le> ea_maxDelays a"
  using assms
proof (induction ops arbitrary: a b)
  case Nil
  then show ?case by (simp add: holds_batch_def)
next
  case (Cons op ops)
  obtain a' calls' where s: "agg_step collect op (a, calls) = (a', calls')" by (cases "agg_step collect op (a, calls)")
  have "length calls' \<le> length calls"
    using Cons.prems(3) calls_grow [of "(a', calls')" ops] by (simp add: s)
  from undelivered_step [OF Cons.prems(1,2) s this]
  have st: "holds_batch a' (batch_after op b)" "ea_maxDelays a' = ea_maxDelays a" "calls' = calls"
    "ea_delays a' = ea_delays a + (if op = TimerFires then 1 else 0)" by simp_all
  moreover have "batch_after op b \<noteq> []" using Cons.prems(2) by (cases op) simp_all
  ultimately have "count_list ops TimerFires + ea_delays a' \<le> ea_maxDelays a'"
    using Cons.IH [OF st(1)] Cons.prems(3) by (simp add: s)
  then show ?case using st by (auto split: if_splits)
qed



end
