(* ===== verification/Messages_Facts.thy ===== *)
theory Messages_Facts
  imports Messages Aggregator_Facts Object_Facts
begin

text \<open>
  The class of a message is read from its color tag behind the documented prefixes; with a window
  in the page, the messages of the log appear in it in order and none is lost; without one, each
  firing of the log's timer leaves one more timer pending.
\<close>

subsection \<open>Classes\<close>

lemma starts_with_append [simp]: "starts_with p (p @ s)"
  by (induction p) simp_all

lemma takeWhile_until: "c \<notin> set xs \<Longrightarrow> takeWhile (\<lambda>d. d \<noteq> c) (xs @ c # ys) = xs"
  by (induction xs) auto

lemma dropWhile_until: "c \<notin> set xs \<Longrightarrow> dropWhile (\<lambda>d. d \<noteq> c) (xs @ c # ys) = c # ys"
  by (induction xs) auto

text \<open>The prefixes of the documented formats: none, the player, a timestamp.\<close>

inductive chat_prefix :: "string \<Rightarrow> bool" where
  no_prefix: "chat_prefix ''''"
| player: "CHR ''<'' \<notin> set name \<Longrightarrow> chat_prefix (''<b>'' @ name @ '':</b>'')"
| timestamp: "CHR '')'' \<notin> set ts \<Longrightarrow> chat_prefix (''('' @ ts @ '') '')"

definition font_tag :: "string \<Rightarrow> string \<Rightarrow> string" where
  "font_tag color body = ''<font color='' @ [CHR 0x22] @ ''#'' @ color @ [CHR 0x22] @ ''>'' @ body @ ''</font>''"

lemma font_not_prefixed [simp]:
  "without_player (font_tag color body) = font_tag color body"
  "without_timestamp (font_tag color body) = font_tag color body"
  by (simp_all add: font_tag_def without_player_def without_timestamp_def)

lemma prefix_removed: "chat_prefix p \<Longrightarrow> without_timestamp (without_player (p @ font_tag color body)) = font_tag color body"
proof (induction rule: chat_prefix.induct)
  case (player name)
  have "without_player ((''<b>'' @ name @ '':</b>'') @ font_tag color body) = font_tag color body"
    using player takeWhile_until [of "CHR ''<''" "name @ '':''" "''/b>'' @ font_tag color body"]
    by (simp add: without_player_def Let_def)
  then show ?case by simp
next
  case (timestamp ts)
  have "without_timestamp ((''('' @ ts @ '') '') @ font_tag color body) = font_tag color body"
    using timestamp dropWhile_until [of "CHR '')''" ts "'' '' @ font_tag color body"]
    by (simp add: without_timestamp_def Let_def)
  moreover have "without_player ((''('' @ ts @ '') '') @ font_tag color body) = (''('' @ ts @ '') '') @ font_tag color body"
    by (simp add: without_player_def)
  ultimately show ?case by simp
qed simp

text \<open>
   A message in one of the documented formats gets its class from the color of its font tag,
  whatever the player is called and whatever the timestamp: private and allied messages by their
  colors, messages of observers by the parenthesis in the second place of the text.
\<close>

theorem reclassify_documented_formats:
  assumes "chat_prefix p" and "length color = 6"
  shows "reclassify_chat_message ev (Some (p @ font_tag color body)) =
    (if color = ''A020F0'' then ev_CHAT_PRIVATE ev
     else if color = ''551166'' then ev_CHAT_ALLIES ev
     else if take 1 (drop 1 (body @ ''</font>'')) = ''('' then ev_CHAT_OBSERVER ev else ev_CHAT_MSG ev)"
proof -
  have len: "\<not> length (p @ font_tag color body) < 29" using assms(2) by (simp add: font_tag_def)
  have "take 6 (drop 14 (font_tag color body)) = color" using assms(2) by (simp add: font_tag_def)
  moreover have "drop 23 (font_tag color body) = drop 1 (body @ ''</font>'')"
    using assms(2) by (simp add: font_tag_def)
  ultimately show ?thesis
    using len unfolding reclassify_chat_message_def by (simp add: prefix_removed [OF assms(1)] Let_def)
qed

definition sample_events :: event_table where
  "sample_events = \<lparr>ev_CHAT_MSG = 1, ev_CHAT_PRIVATE = 2, ev_CHAT_ALLIES = 3, ev_CHAT_OBSERVER = 4, ev_name = (\<lambda>_. ''e'')\<rparr>"

theorem reclassify_documented_formats_witness:
  "reclassify_chat_message sample_events (Some (''<b>ann:</b>'' @ font_tag ''A020F0'' ''->{bob} hello'')) = 2"
  using reclassify_documented_formats [OF player [of "''ann''"], of "''A020F0''" sample_events "''->{bob} hello''"]
  by (simp add: sample_events_def)

subsection \<open>The window shows the log\<close>

lemma msg_list_set [simp]:
  "get_chatbox_msg_list (set_chatbox_msg_list items s) = Some items"
  by (simp add: get_chatbox_msg_list_def set_chatbox_msg_list_def)

lemma msg_list_emit [simp]: "get_chatbox_msg_list (emit e s) = get_chatbox_msg_list s"
  by (simp add: get_chatbox_msg_list_def emit_def)

lemma msg_list_log [simp]: "get_chatbox_msg_list (s\<lparr>ms_log := a\<rparr>) = get_chatbox_msg_list s"
  by (simp add: get_chatbox_msg_list_def)

lemma update_chatbox_shows:
  "get_chatbox_msg_list s = Some items \<Longrightarrow>
   get_chatbox_msg_list (fst (update_chatbox ev ms s)) = Some (items @ map (chat_item_of ev) ms)
   \<and> snd (update_chatbox ev ms s) = []"
  by (simp add: update_chatbox_def)

text \<open>With a window in the page the handler of the log reports nothing back.\<close>

interpretation chatbox: quiet_handler "chatbox_handler ev" "\<lambda>s. get_chatbox_msg_list s \<noteq> None"
  by unfold_locales (auto simp: chatbox_handler_def update_chatbox_shows split: handler_arg.split agg_data.split)

lemma batches_shown:
  assumes "get_chatbox_msg_list s = Some items" and "[] \<notin> set past"
  shows "get_chatbox_msg_list (fold (chatbox.handle_batch ev DP_ALL) past s)
    = Some (items @ map (chat_item_of ev) (concat past))"
  using assms
proof (induction past arbitrary: s items)
  case (Cons b past)
  have "get_chatbox_msg_list (chatbox.handle_batch ev DP_ALL b s) = Some (items @ map (chat_item_of ev) b)"
    using Cons.prems(1) by (simp add: chatbox.handle_batch_def chatbox_handler_def update_chatbox_shows)
  then show ?case using Cons by simp
qed simp

text \<open>The log inside the client and the log beside it do the same.\<close>

lemma handler_log:
  "chatbox_handler ev arg (s\<lparr>ms_log := a\<rparr>) = map_prod (\<lambda>u. u\<lparr>ms_log := a\<rparr>) id (chatbox_handler ev arg s)"
  by (cases arg; cases "get_chatbox_msg_list s")
    (auto simp: chatbox_handler_def update_chatbox_def set_chatbox_msg_list_def emit_def split: agg_data.split)

definition chat_step :: "event_table \<Rightarrow> chat_message agg_op \<Rightarrow> 'a message_client_scheme \<Rightarrow> 'a message_client_scheme" where
  "chat_step ev op = on_log (agg_step (chatbox_handler ev) op)"

lemma chat_step_ops:
  "chat_step ev (Report m) s = message_log_update m s"
  "chat_step ev FireNow s = message_log_fireNow ev s"
  "chat_step ev TimerFires s = (case ea_pending (ms_log s) of [] \<Rightarrow> s | (t, _) # _ \<Rightarrow> message_log_timer ev t s)"
  by (simp_all add: chat_step_def on_log_def message_log_update_def message_log_fireNow_def message_log_timer_def
      split: list.split)

lemma fireNow_log:
  "ea_fireNow (chatbox_handler ev) (a, s\<lparr>ms_log := x\<rparr>) =
     map_prod id (\<lambda>u. u\<lparr>ms_log := x\<rparr>) (ea_fireNow (chatbox_handler ev) (a, s))"
  by (simp add: ea_fireNow_def handler_log Let_def case_prod_beta)

lemma agg_step_log:
  "agg_step (chatbox_handler ev) op (a, s\<lparr>ms_log := x\<rparr>) =
     map_prod id (\<lambda>u. u\<lparr>ms_log := x\<rparr>) (agg_step (chatbox_handler ev) op (a, s))"
  by (cases op) (auto simp: fireNow_log timer_fires_def ea_fired_def split: list.split)

lemma chat_run:
  "fold (chat_step ev) ops (s\<lparr>ms_log := a\<rparr>) =
     (case fold (agg_step (chatbox_handler ev)) ops (a, s) of (b, t) \<Rightarrow> t\<lparr>ms_log := b\<rparr>)"
proof (induction ops arbitrary: a s)
  case (Cons op ops)
  obtain b t where bt: "agg_step (chatbox_handler ev) op (a, s) = (b, t)" by (cases "agg_step (chatbox_handler ev) op (a, s)")
  then have "chat_step ev op (s\<lparr>ms_log := a\<rparr>) = t\<lparr>ms_log := b\<rparr>"
    by (simp add: chat_step_def on_log_def agg_step_log)
  then show ?case using Cons.IH by (simp add: bt)
qed simp


definition message0 :: message_client where
  "message0 = game_client.extend (game_client.truncate game0)
     \<lparr>ms_log = new_message_log, ms_pregame_area = Some [], ms_game_area = Some [], ms_embed = False\<rparr>"


subsection \<open>Without a window\<close>

text \<open>The log gets its messages back from the handler, whatever timers are pending.\<close>

definition requeued :: "chat_message list \<Rightarrow> nat \<Rightarrow> chat_message aggregator \<Rightarrow> bool" where
  "requeued ms n a \<longleftrightarrow>
     ea_policy a = DP_ALL \<and> ea_maxDelays a = 0 \<and> ea_latency a = 1000 \<and> ea_data a = Data ms \<and> ea_count a = length ms
     \<and> distinct (map fst (ea_pending a)) \<and> (\<forall>t\<in>set (map fst (ea_pending a)). t < ea_next a)
     \<and> length (ea_pending a) = n"

lemma update_waiting:
  assumes "ea_timer a \<noteq> None" and "ea_policy a = DP_ALL" and "ea_data a = Data ds"
  shows "ea_timer (ea_update m a) \<noteq> None" and "ea_data (ea_update m a) = Data (ds @ [m])"
    and "ea_pending (ea_update m a) = ea_pending a" and "ea_next (ea_update m a) = ea_next a"
    and "ea_count (ea_update m a) = Suc (ea_count a)" and "ea_latency (ea_update m a) = ea_latency a"
  using assms by (auto simp: ea_update_def ea_keep_def Let_def)

lemma updates_waiting:
  "ea_timer a \<noteq> None \<Longrightarrow> ea_policy a = DP_ALL \<Longrightarrow> ea_data a = Data ds \<Longrightarrow>
   (let b = fold ea_update ms a
    in ea_data b = Data (ds @ ms) \<and> ea_pending b = ea_pending a \<and> ea_next b = ea_next a
       \<and> ea_count b = ea_count a + length ms \<and> ea_latency b = ea_latency a
       \<and> ea_policy b = DP_ALL \<and> ea_maxDelays b = ea_maxDelays a)"
proof (induction ms arbitrary: a ds)
  case (Cons m ms)
  show ?case using Cons.IH [of "ea_update m a" "ds @ [m]"] Cons.prems
    by (simp add: update_waiting Let_def)
qed (simp add: Let_def)

lemma requeue_first:
  assumes "ea_timer a = None" and "ea_policy a = DP_ALL" and "ea_data a = Data []" and "ea_count a = 0"
    and "ea_maxDelays a = 0" and "ea_latency a = 1000"
    and "distinct (map fst (ea_pending a))" and "\<forall>t\<in>set (map fst (ea_pending a)). t < ea_next a"
  shows "requeued (m # ms) (Suc (length (ea_pending a))) (fold ea_update (m # ms) a)"
proof -
  have first: "ea_timer (ea_update m a) = Some (ea_next a)" "ea_data (ea_update m a) = Data [m]"
    "ea_pending (ea_update m a) = ea_pending a @ [(ea_next a, ea_timeout a)]"
    "ea_next (ea_update m a) = Suc (ea_next a)" "ea_count (ea_update m a) = 1"
    "ea_latency (ea_update m a) = 1000"
    using assms(1-4,6) by (simp_all add: ea_update_def ea_keep_def ea_setTimeout_def Let_def)
  then show ?thesis
    using updates_waiting [of "ea_update m a" "[m]" ms] assms(2,5,7,8)
    by (force simp: requeued_def Let_def)
qed

lemma remove_pending:
  "distinct (map fst ps) \<Longrightarrow> t \<in> set (map fst ps) \<Longrightarrow> Suc (length (filter (\<lambda>(k, _). k \<noteq> t) ps)) = length ps"
proof (induction ps)
  case (Cons p ps)
  show ?case
  proof (cases "fst p = t")
    case True
    then have "filter (\<lambda>(k, _). k \<noteq> t) ps = ps" using Cons.prems(1) by (auto simp: filter_id_conv image_iff)
    then show ?thesis using True by (cases p) simp
  next
    case False
    then show ?thesis using Cons by (simp add: case_prod_beta)
  qed
qed simp

lemma requeued_fires:
  assumes "requeued (m # ms) n a" and "get_chatbox_msg_list s = None" and "t \<in> set (map fst (ea_pending a))"
  shows "requeued (m # ms) (Suc n) (fst (timer_fires (chatbox_handler ev) t (a, s)))
    \<and> get_chatbox_msg_list (snd (timer_fires (chatbox_handler ev) t (a, s))) = None"
proof -
  let ?rest = "filter (\<lambda>(k, _). k \<noteq> t) (ea_pending a)"
  let ?a = "a\<lparr>ea_pending := ?rest, ea_timer := None\<rparr>"
  let ?b = "fold ea_update (m # ms) (ea_clear (ea_cancel ?a))"
  have a: "ea_policy a = DP_ALL" "ea_maxDelays a = 0" "ea_latency a = 1000" "ea_data a = Data (m # ms)"
    "ea_count a = Suc (length ms)" "distinct (map fst (ea_pending a))" "\<forall>t\<in>set (map fst (ea_pending a)). t < ea_next a"
    "length (ea_pending a) = n"
    using assms(1) by (simp_all add: requeued_def)
  have gone: "Suc (length ?rest) = n"
    using remove_pending [OF a(6) assms(3)] a(8) by simp
  have c: "ea_cancel ?a = ?a" by (simp add: ea_cancel_def)
  have d: "distinct (map fst ?rest)" "\<forall>t\<in>set (map fst ?rest). t < ea_next a"
    using a(6,7) by (auto simp: distinct_map inj_on_def)
  have b: "requeued (m # ms) n ?b"
    using requeue_first [of "ea_clear ?a" m ms] a(1-3) d gone by (simp add: c ea_clear_def)
  have "handler_data ?a = ArgData (Data (m # ms))" using a(1,4) by (simp add: handler_data_def)
  then have "chatbox_handler ev (handler_data ?a) s = (fst (update_chatbox ev (m # ms) s), m # ms)"
    and none: "get_chatbox_msg_list (fst (update_chatbox ev (m # ms) s)) = None"
    using assms(2) by (simp_all add: chatbox_handler_def update_chatbox_def)
  then have "timer_fires (chatbox_handler ev) t (a, s) =
      (ea_setTimeout (ea_latency ?b) ?b, fst (update_chatbox ev (m # ms) s))"
    using assms(3) a(2,5) b
    by (simp add: timer_fires_def ea_fired_def ea_fireNow_def requeued_def Let_def)
  moreover have "requeued (m # ms) (Suc n) (ea_setTimeout (ea_latency ?b) ?b)"
    using b by (auto simp: requeued_def ea_setTimeout_def)
  ultimately show ?thesis using none by simp
qed

lemma requeued_pending: "requeued ms (Suc n) a \<Longrightarrow> \<exists>t d rest. ea_pending a = (t, d) # rest"
  by (cases "ea_pending a") (auto simp: requeued_def)

lemma chat_step_requeued:
  assumes "requeued (m # ms) (Suc n) (ms_log s)" and "get_chatbox_msg_list s = None"
  shows "requeued (m # ms) (Suc (Suc n)) (ms_log (chat_step ev TimerFires s))
    \<and> get_chatbox_msg_list (chat_step ev TimerFires s) = None"
proof -
  obtain t d rest where t: "ea_pending (ms_log s) = (t, d) # rest" using requeued_pending [OF assms(1)] by blast
  have "chat_step ev TimerFires s =
      (snd (timer_fires (chatbox_handler ev) t (ms_log s, s)))\<lparr>ms_log := fst (timer_fires (chatbox_handler ev) t (ms_log s, s))\<rparr>"
    by (simp add: chat_step_def on_log_def t case_prod_beta)
  then show ?thesis using requeued_fires [OF assms, of t ev] t by simp
qed

text \<open>
  While the page has no window, the log gives every message back to itself; each time one of
  its timers fires, two new ones are set, so after \<open>n\<close> firings \<open>n + 1\<close> timers are pending, and the
  message is still in the log.
\<close>

theorem message_timers_multiply:
  assumes "get_chatbox_msg_list s = None" and "ms_log s = new_message_log"
  shows "let t = (chat_step ev TimerFires ^^ n) (message_log_update m s)
         in length (ea_pending (ms_log t)) = n + 1 \<and> ea_data (ms_log t) = Data [m]"
proof -
  have "requeued [m] 1 (ea_update m new_message_log)"
    using requeue_first [of new_message_log m "[]"]
    by (simp add: new_message_log_def newEventAggregator_def ea_clear_def or_else_def)
  then have start: "requeued [m] (Suc 0) (ms_log (message_log_update m s))"
      "get_chatbox_msg_list (message_log_update m s) = None"
    using assms by (simp_all add: message_log_update_def)
  have "requeued [m] (Suc n) (ms_log ((chat_step ev TimerFires ^^ n) (message_log_update m s)))
      \<and> get_chatbox_msg_list ((chat_step ev TimerFires ^^ n) (message_log_update m s)) = None"
  proof (induction n)
    case (Suc n)
    then show ?case
      using chat_step_requeued [of m "[]" n "(chat_step ev TimerFires ^^ n) (message_log_update m s)" ev] by simp
  qed (use start in simp)
  then show ?thesis by (simp add: requeued_def Let_def)
qed

theorem message_timers_multiply_witness:
  "length (ea_pending (ms_log ((chat_step sample_events TimerFires ^^ 3)
     (message_log_update \<lparr>cm_event = 1, cm_text = ''a''\<rparr> (message0\<lparr>ms_pregame_area := None, ms_game_area := None\<rparr>))))) = 4"
proof -
  let ?s = "message0\<lparr>ms_pregame_area := None, ms_game_area := None\<rparr>"
  have "get_chatbox_msg_list ?s = None" "ms_log ?s = new_message_log"
    by (simp_all add: message0_def get_chatbox_msg_list_def game_client.defs)
  then show ?thesis
    using message_timers_multiply [of ?s 3 sample_events "\<lparr>cm_event = 1, cm_text = ''a''\<rparr>"] by (simp add: Let_def)
qed

end
