(* ===== verification/Rates.thy ===== *)
theory Rates
  imports Object_Packets Tech
begin

text \<open>
  The tax rates dialog: the bounded value of \<open>libs/range.js\<close>, the slider around it
  (\<open>libs/slider.js\<close>) and \<open>rates.js\<close>, which keeps the three sliders at a sum of 100 and sends the rates.
  A call of \<open>onchange\<close> is a value: an operation of a range returns whether it made one, and the
  slider operations get the callback as an argument.  The callbacks may set the other sliders, so
  \<open>onchange\<close> of the dialog has fuel; \<open>Rates_Facts\<close> shows that two levels are all that is ever used.
\<close>

subsection \<open>\<open>libs/range.js\<close>\<close>

record range =
  rg_value :: int
  rg_minimum :: int
  rg_maximum :: int
  rg_extent :: int
  rg_isChanging :: bool

definition newRange :: range where
  "newRange = \<lparr>rg_value = 0, rg_minimum = 0, rg_maximum = 100, rg_extent = 0, rg_isChanging = False\<rparr>"

text \<open>The argument is \<open>Math.round(parseFloat(value))\<close>, \<open>None\<close> for NaN.\<close>

definition range_setValue :: "int option \<Rightarrow> range \<Rightarrow> range \<times> bool" where
  "range_setValue rounded r =
     (case rounded of None \<Rightarrow> (r, False)
      | Some v \<Rightarrow>
          if rg_value r \<noteq> v then
            (r\<lparr>rg_value := (if v + rg_extent r > rg_maximum r then rg_maximum r - rg_extent r
                          else if v < rg_minimum r then rg_minimum r else v)\<rparr>,
             \<not> rg_isChanging r)
          else (r, False))"

definition range_setExtent :: "int \<Rightarrow> range \<Rightarrow> range \<times> bool" where
  "range_setExtent extent r =
     (if rg_extent r \<noteq> extent then
        (r\<lparr>rg_extent := (if extent < 0 then 0
                       else if rg_value r + extent > rg_maximum r then rg_maximum r - rg_value r
                       else extent)\<rparr>,
         \<not> rg_isChanging r)
      else (r, False))"

abbreviation range_value_set :: "int \<Rightarrow> range \<Rightarrow> range" where
  "range_value_set v r \<equiv> fst (range_setValue (Some v) r)"

lemma range_setValue_bounds [simp]:
  "rg_minimum (fst (range_setValue v r)) = rg_minimum r" "rg_maximum (fst (range_setValue v r)) = rg_maximum r"
  "rg_extent (fst (range_setValue v r)) = rg_extent r"
  "rg_isChanging (fst (range_setValue v r)) = rg_isChanging r"
  by (simp_all add: range_setValue_def split: option.split)

text \<open>The two bounds may move each other; \<open>_isChanging\<close> keeps the inner calls from reporting.\<close>

function range_setMinimum :: "int \<Rightarrow> range \<Rightarrow> range \<times> bool"
  and range_setMaximum :: "int \<Rightarrow> range \<Rightarrow> range \<times> bool" where
  "range_setMinimum minimum r =
     (if rg_minimum r \<noteq> minimum then
        (let old = rg_isChanging r;
             r1 = r\<lparr>rg_isChanging := True, rg_minimum := minimum\<rparr>;
             r2 = (if minimum > rg_value r1 then range_value_set minimum r1 else r1);
             r3 = (if minimum > rg_maximum r2
                   then range_value_set minimum (fst (range_setMaximum minimum (r2\<lparr>rg_extent := 0\<rparr>)))
                   else r2);
             r4 = (if minimum + rg_extent r3 > rg_maximum r3
                   then r3\<lparr>rg_extent := rg_maximum r3 - rg_minimum r3\<rparr> else r3)
         in (r4\<lparr>rg_isChanging := old\<rparr>, \<not> old))
      else (r, False))"
| "range_setMaximum maximum r =
     (if rg_maximum r \<noteq> maximum then
        (let old = rg_isChanging r;
             r1 = r\<lparr>rg_isChanging := True, rg_maximum := maximum\<rparr>;
             r2 = (if maximum < rg_value r1 then range_value_set (maximum - rg_extent r1) r1 else r1);
             r3 = (if maximum < rg_minimum r2
                   then (let q = fst (range_setMinimum maximum (r2\<lparr>rg_extent := 0\<rparr>))
                         in range_value_set (rg_maximum q) q)
                   else r2);
             r4 = (if maximum < rg_minimum r3 + rg_extent r3
                   then r3\<lparr>rg_extent := rg_maximum r3 - rg_minimum r3\<rparr> else r3);
             r5 = (if maximum < rg_value r4 + rg_extent r4
                   then r4\<lparr>rg_extent := rg_maximum r4 - rg_value r4\<rparr> else r4)
         in (r5\<lparr>rg_isChanging := old\<rparr>, \<not> old))
      else (r, False))"
  by pat_completeness auto

termination
  by (relation "measure (\<lambda>x. case x of Inl (m, r) \<Rightarrow> (if m > rg_maximum r then 1 else 0)
                                      | Inr (m, r) \<Rightarrow> (if m < rg_minimum r then 1 else 0))")
    (auto split: if_splits)

declare range_setMinimum.simps [simp del] range_setMaximum.simps [simp del]

subsection \<open>The dialog's state\<close>

datatype rate = Tax | Lux | Sci

record slider =
  sl_range :: range
  sl_input :: int               \<comment> \<open>what the input field shows\<close>
  sl_block_increment :: int
  sl_unit_increment :: int

text \<open>
  The variables of \<open>rates.js\<close>: the sliders \<open>s_tax\<close>, \<open>s_lux\<close>, \<open>s_sci\<close>, the globals \<open>tax\<close>, \<open>lux\<close>,
  \<open>sci\<close>, \<open>maxrate\<close> and \<open>freeze\<close>, the lock boxes, and the fields of \<open>client.conn.playing\<close> the
  dialog reads.
\<close>

record rates_client = packet_client +
  rt_slider :: "rate \<Rightarrow> slider"
  rt_rate :: "rate \<Rightarrow> int"
  rt_lock :: "rate \<Rightarrow> bool"
  rt_maxrate :: int
  rt_freeze :: bool
  rt_playing_rates :: "rate \<Rightarrow> int"
  rt_expected_income :: int

definition put_slider :: "rate \<Rightarrow> slider \<Rightarrow> rates_client \<Rightarrow> rates_client" where
  "put_slider k d s = s\<lparr>rt_slider := (rt_slider s)(k := d)\<rparr>"

definition put_rate :: "rate \<Rightarrow> int \<Rightarrow> rates_client \<Rightarrow> rates_client" where
  "put_rate k v s = s\<lparr>rt_rate := (rt_rate s)(k := v)\<rparr>"

definition slider_getValue :: "rate \<Rightarrow> rates_client \<Rightarrow> int" where
  "slider_getValue k s = rg_value (sl_range (rt_slider s k))"

text \<open>\<open>setValue\<close>, \<open>setMinimum\<close> and \<open>setMaximum\<close> of a slider: the range operation, its callback, the input field.\<close>

type_synonym on_change = "rate \<Rightarrow> rates_client \<Rightarrow> rates_client"

definition slider_apply :: "on_change \<Rightarrow> (range \<Rightarrow> range \<times> bool) \<Rightarrow> rate \<Rightarrow> rates_client \<Rightarrow> rates_client" where
  "slider_apply cb f k s =
     (let (g, fires) = f (sl_range (rt_slider s k));
          s1 = put_slider k ((rt_slider s k)\<lparr>sl_range := g\<rparr>) s;
          s2 = (if fires then cb k s1 else s1)
      in put_slider k ((rt_slider s2 k)\<lparr>sl_input := slider_getValue k s2\<rparr>) s2)"

definition slider_setValue :: "on_change \<Rightarrow> rate \<Rightarrow> int option \<Rightarrow> rates_client \<Rightarrow> rates_client" where
  "slider_setValue cb k v s = slider_apply cb (range_setValue v) k s"

text \<open>The keys of \<open>onkeydown\<close> on the (horizontal) slider; other keys change nothing.\<close>

definition slider_onkeydown :: "on_change \<Rightarrow> rate \<Rightarrow> int \<Rightarrow> rates_client \<Rightarrow> rates_client" where
  "slider_onkeydown cb k keyCode s =
     (let d = rt_slider s k; v = slider_getValue k s
      in if keyCode = 33 then slider_setValue cb k (Some (v + sl_block_increment d)) s
         else if keyCode = 34 then slider_setValue cb k (Some (v - sl_block_increment d)) s
         else if keyCode = 35 then slider_setValue cb k (Some (rg_maximum (sl_range d))) s
         else if keyCode = 36 then slider_setValue cb k (Some (rg_minimum (sl_range d))) s
         else if keyCode = 38 \<or> keyCode = 39 then slider_setValue cb k (Some (v + sl_unit_increment d)) s
         else if keyCode = 37 \<or> keyCode = 40 then slider_setValue cb k (Some (v - sl_unit_increment d)) s
         else s)"

subsection \<open>\<open>rates.js\<close>\<close>

definition submit_player_rates :: "rates_client \<Rightarrow> rates_client" where
  "submit_player_rates s =
     (let tax = rt_rate s Tax; lux = rt_rate s Lux; sci = rt_rate s Sci
      in if tax \<ge> 0 \<and> tax \<le> 100 \<and> lux \<ge> 0 \<and> lux \<le> 100 \<and> sci \<ge> 0 \<and> sci \<le> 100
         then emit (Send [(''pid'', JConst ''packet_player_rates''), (''tax'', JNum tax),
                          (''luxury'', JNum lux), (''science'', JNum sci)]) s
         else emit (Ui ''swal'' [JStr ''Invalid tax rate values'']) s)"

definition show_rate_results :: "rates_client \<Rightarrow> rates_client" where
  "show_rate_results s =
     emits [Ui ''tax_result html'' [JNum (rt_rate s Tax)], Ui ''lux_result html'' [JNum (rt_rate s Lux)],
            Ui ''sci_result html'' [JNum (rt_rate s Sci)]] s"

definition read_rates :: "rates_client \<Rightarrow> rates_client" where
  "read_rates s =
     put_rate Sci (slider_getValue Sci s) (put_rate Lux (slider_getValue Lux s)
       (put_rate Tax (slider_getValue Tax s) s))"

definition update_rates_labels :: "rates_client \<Rightarrow> rates_client" where
  "update_rates_labels s = show_rate_results (read_rates s)"

text \<open>A slider that is not at a multiple of ten is moved towards zero to one.\<close>

definition round_slider :: "on_change \<Rightarrow> rate \<Rightarrow> rates_client \<Rightarrow> rates_client" where
  "round_slider cb k s =
     (let v = slider_getValue k s
      in if js_rem v 10 \<noteq> 0 then slider_setValue cb k (Some (v - js_rem v 10)) s else s)"

definition rates_sum :: "rates_client \<Rightarrow> int" where
  "rates_sum s = rt_rate s Tax + rt_rate s Lux + rt_rate s Sci"

text \<open>Another rate takes what is left, unless the sum is 100 or its box is locked.\<close>

definition adjust_rate :: "rate \<Rightarrow> rates_client \<Rightarrow> rates_client" where
  "adjust_rate k s =
     (if rates_sum s \<noteq> 100 \<and> \<not> rt_lock s k
      then put_rate k (min (max (100 - (rates_sum s - rt_rate s k)) 0) (rt_maxrate s)) s
      else s)"

text \<open>
  \<open>update_tax_rates\<close>, \<open>update_lux_rates\<close> and \<open>update_sci_rates\<close> differ in the slider that moved and
  in the order the other two are adjusted.
\<close>

definition update_rates :: "rate \<Rightarrow> rate \<Rightarrow> rate \<Rightarrow> on_change \<Rightarrow> rates_client \<Rightarrow> rates_client" where
  "update_rates own first second cb s =
     (if rt_freeze s then s
      else (let s1 = read_rates (round_slider cb Sci (round_slider cb Lux (round_slider cb Tax (s\<lparr>rt_freeze := True\<rparr>))));
                s2 = adjust_rate second (adjust_rate first s1)
            in if rates_sum s2 \<noteq> 100
               then (slider_setValue cb own (Some (100 - (rates_sum s2 - rt_rate s2 own))) s2)\<lparr>rt_freeze := False\<rparr>
               else (let s3 = slider_setValue cb Sci (Some (rt_rate s2 Sci))
                                (slider_setValue cb Lux (Some (rt_rate s2 Lux))
                                  (slider_setValue cb Tax (Some (rt_rate s2 Tax)) s2))
                     in submit_player_rates ((show_rate_results s3)\<lparr>rt_freeze := False\<rparr>))))"

definition update_tax_rates :: "on_change \<Rightarrow> rates_client \<Rightarrow> rates_client" where
  "update_tax_rates = update_rates Tax Lux Sci"

definition update_lux_rates :: "on_change \<Rightarrow> rates_client \<Rightarrow> rates_client" where
  "update_lux_rates = update_rates Lux Tax Sci"

definition update_sci_rates :: "on_change \<Rightarrow> rates_client \<Rightarrow> rates_client" where
  "update_sci_rates = update_rates Sci Lux Tax"

text \<open>The callback of each slider once the dialog is open.\<close>

primrec onchange :: "nat \<Rightarrow> on_change" where
  "onchange 0 = (\<lambda>k s. s)"
| "onchange (Suc n) =
     (\<lambda>k. case k of Tax \<Rightarrow> update_tax_rates (onchange n) | Lux \<Rightarrow> update_lux_rates (onchange n)
        | Sci \<Rightarrow> update_sci_rates (onchange n))"

text \<open>The user moves a slider by mouse or input field, or presses a key on it.\<close>

definition user_moves :: "rate \<Rightarrow> int option \<Rightarrow> rates_client \<Rightarrow> rates_client" where
  "user_moves k v s = slider_setValue (onchange 2) k v s"

definition user_presses :: "rate \<Rightarrow> int \<Rightarrow> rates_client \<Rightarrow> rates_client" where
  "user_presses k keyCode s = slider_onkeydown (onchange 2) k keyCode s"

subsection \<open>Opening the dialog\<close>

text \<open>A new slider has no callback while its value and bounds are set.\<close>

definition new_slider :: "int \<Rightarrow> int \<Rightarrow> slider" where
  "new_slider v mx =
     (let g = fst (range_setMinimum 0 (fst (range_setMaximum mx
                (fst (range_setValue (Some v) (fst (range_setExtent 0 newRange)))))))
      in \<lparr>sl_range = g, sl_input = rg_value g, sl_block_increment = 10, sl_unit_increment = 10\<rparr>)"

definition create_rates_dialog :: "int \<Rightarrow> int \<Rightarrow> int \<Rightarrow> int \<Rightarrow> rates_client \<Rightarrow> rates_client" where
  "create_rates_dialog tax lux sci mx s =
     update_rates_labels
       (s\<lparr>rt_slider := (\<lambda>k. new_slider (case k of Tax \<Rightarrow> tax | Lux \<Rightarrow> lux | Sci \<Rightarrow> sci) mx),
          rt_maxrate := mx\<rparr>)"

definition signed_text :: "int \<Rightarrow> string" where
  "signed_text v = (if v > 0 then CHR ''+'' # int_text v else int_text v)"

definition update_net_income :: "rates_client \<Rightarrow> rates_client" where
  "update_net_income s = emit (Ui ''income_info html'' [JStr (signed_text (rt_expected_income s))]) s"

definition update_net_bulbs :: "int option \<Rightarrow> rates_client \<Rightarrow> rates_client option" where
  "update_net_bulbs bulbs s = do {
     b \<leftarrow> (case bulbs of None \<Rightarrow> map_option (\<lambda>cbo. self_bulbs cbo - self_upkeep cbo) (get_current_bulbs_output s)
           | Some b \<Rightarrow> Some b);
     Some (emit (Ui ''bulbs_info html'' [JStr (signed_text b)]) s)
   }"

text \<open>An unknown government of the player throws when its name is read.\<close>

definition update_rates_dialog :: "rates_client \<Rightarrow> rates_client option" where
  "update_rates_dialog s =
     (if client_is_observer s then Some s
      else do {
        me \<leftarrow> playing s;
        let s1 = s\<lparr>rt_maxrate := government_max_rate (p_government me)\<rparr>;
        let s2 = create_rates_dialog (rt_playing_rates s1 Tax) (rt_playing_rates s1 Lux)
                   (rt_playing_rates s1 Sci) (rt_maxrate s1) s1;
        govt \<leftarrow> st_get (cl_governments s2) (p_government me);
        let s3 = emit (Ui ''max_tax_rate html''
                   [JStr (gv_name govt @ '' max rate: '' @ int_text (rt_maxrate s2))]) s2;
        update_net_bulbs None (update_net_income s3)
      })"

text \<open>The form of a new dialog has its boxes unlocked.\<close>

definition show_tax_rates_dialog :: "rates_client \<Rightarrow> rates_client option" where
  "show_tax_rates_dialog s =
     update_rates_dialog (emit (Ui ''rates_dialog dialog'' []) (s\<lparr>rt_lock := (\<lambda>_. False)\<rparr>))"

end
