(* ===== verification/Rates_Facts.thy ===== *)
theory Rates_Facts
  imports Rates Object_Facts
begin

text \<open>
  What the rates dialog guarantees.  A range keeps its value between its bounds; a frozen dialog
  ignores the callbacks of its own changes, so the fuel of \<open>onchange\<close> never matters; the rates
  that reach the server sum to 100 and respect the government's maximum.
\<close>

subsection \<open>Ranges\<close>

definition range_ok :: "range \<Rightarrow> bool" where
  "range_ok r = (0 \<le> rg_extent r \<and> rg_minimum r \<le> rg_value r \<and> rg_value r + rg_extent r \<le> rg_maximum r)"

datatype range_op = SetValue "int option" | SetExtent int | SetMinimum int | SetMaximum int

fun range_step :: "range_op \<Rightarrow> range \<Rightarrow> range" where
  "range_step (SetValue v) r = fst (range_setValue v r)"
| "range_step (SetExtent e) r = fst (range_setExtent e r)"
| "range_step (SetMinimum m) r = fst (range_setMinimum m r)"
| "range_step (SetMaximum m) r = fst (range_setMaximum m r)"

lemma range_setValue_ok: "range_ok r \<Longrightarrow> range_ok (fst (range_setValue v r))"
  by (auto simp: range_ok_def range_setValue_def split: option.splits)

lemma range_setExtent_ok: "range_ok r \<Longrightarrow> range_ok (fst (range_setExtent e r))"
  by (auto simp: range_ok_def range_setExtent_def)

text \<open>A bound that stays on its side of the other one moves alone.\<close>

lemma range_setMinimum_alone:
  assumes "m \<le> rg_maximum r" "rg_minimum r \<noteq> m"
  shows "fst (range_setMinimum m r) =
    (let r1 = r\<lparr>rg_isChanging := True, rg_minimum := m\<rparr>;
         r2 = (if m > rg_value r1 then range_value_set m r1 else r1);
         r4 = (if m + rg_extent r2 > rg_maximum r2 then r2\<lparr>rg_extent := rg_maximum r2 - rg_minimum r2\<rparr> else r2)
     in r4\<lparr>rg_isChanging := rg_isChanging r\<rparr>)"
  using assms by (subst range_setMinimum.simps) (simp add: Let_def)

lemma range_setMaximum_alone:
  assumes "rg_minimum r \<le> m" "rg_maximum r \<noteq> m"
  shows "fst (range_setMaximum m r) =
    (let r1 = r\<lparr>rg_isChanging := True, rg_maximum := m\<rparr>;
         r2 = (if m < rg_value r1 then range_value_set (m - rg_extent r1) r1 else r1);
         r4 = (if m < rg_minimum r2 + rg_extent r2 then r2\<lparr>rg_extent := rg_maximum r2 - rg_minimum r2\<rparr> else r2);
         r5 = (if m < rg_value r4 + rg_extent r4 then r4\<lparr>rg_extent := rg_maximum r4 - rg_value r4\<rparr> else r4)
     in r5\<lparr>rg_isChanging := rg_isChanging r\<rparr>)"
  using assms by (subst range_setMaximum.simps) (simp add: Let_def)

lemma range_setMaximum_ok:
  assumes "range_ok r"
  shows "range_ok (fst (range_setMaximum m r))"
proof (cases "rg_maximum r = m")
  case True
  then show ?thesis using assms by (simp add: range_setMaximum.simps)
next
  case changes: False
  show ?thesis
  proof (cases "rg_minimum r \<le> m")
    case True
    show ?thesis using assms True changes
      by (simp add: range_setMaximum_alone range_ok_def range_setValue_def Let_def)
  next
    case False
    show ?thesis using assms False changes
      by (subst range_setMaximum.simps)
        (simp add: range_setMinimum_alone range_ok_def range_setValue_def Let_def)
  qed
qed

lemma range_setMinimum_ok:
  assumes "range_ok r" "rg_extent r = 0"
  shows "range_ok (fst (range_setMinimum m r))"
proof (cases "rg_minimum r = m")
  case True
  then show ?thesis using assms by (simp add: range_setMinimum.simps)
next
  case changes: False
  show ?thesis
  proof (cases "m \<le> rg_maximum r")
    case True
    show ?thesis using assms True changes
      by (simp add: range_setMinimum_alone range_ok_def range_setValue_def Let_def)
  next
    case False
    show ?thesis using assms False changes
      by (subst range_setMinimum.simps)
        (simp add: range_setMaximum_alone range_ok_def range_setValue_def Let_def)
  qed
qed

lemma range_setMaximum_extent:
  assumes "range_ok r" "rg_extent r = 0"
  shows "rg_extent (fst (range_setMaximum m r)) = 0"
proof (cases "rg_maximum r = m \<or> rg_minimum r \<le> m")
  case True
  then show ?thesis using assms
    by (cases "rg_maximum r = m")
      (simp_all add: range_setMaximum.simps range_setMaximum_alone range_ok_def range_setValue_def Let_def)
next
  case False
  then show ?thesis using assms
    by (subst range_setMaximum.simps)
      (simp add: range_setMinimum_alone range_ok_def range_setValue_def Let_def)
qed

lemma range_setMinimum_extent:
  assumes "range_ok r" "rg_extent r = 0"
  shows "rg_extent (fst (range_setMinimum m r)) = 0"
proof (cases "rg_minimum r = m \<or> m \<le> rg_maximum r")
  case True
  then show ?thesis using assms
    by (cases "rg_minimum r = m")
      (simp_all add: range_setMinimum.simps range_setMinimum_alone range_ok_def range_setValue_def Let_def)
next
  case False
  then show ?thesis using assms
    by (subst range_setMinimum.simps)
      (simp add: range_setMaximum_alone range_ok_def range_setValue_def Let_def)
qed

fun sets_extent :: "range_op \<Rightarrow> bool" where
  "sets_extent (SetExtent e) = (e \<noteq> 0)"
| "sets_extent _ = False"

fun sets_minimum :: "range_op \<Rightarrow> bool" where
  "sets_minimum (SetMinimum m) = True"
| "sets_minimum _ = False"

lemma range_step_point:
  assumes "range_ok r" "rg_extent r = 0" "\<not> sets_extent op"
  shows "range_ok (range_step op r) \<and> rg_extent (range_step op r) = 0"
  using assms
  by (cases op) (simp_all add: range_setValue_ok range_setMinimum_ok range_setMaximum_ok
      range_setMinimum_extent range_setMaximum_extent range_setExtent_def)

lemma range_step_ok: "range_ok r \<Longrightarrow> \<not> sets_minimum op \<Longrightarrow> range_ok (range_step op r)"
  by (cases op) (simp_all add: range_setValue_ok range_setMaximum_ok range_setExtent_ok)

lemma range_ok_newRange: "range_ok newRange" "rg_extent newRange = 0"
  by (simp_all add: range_ok_def newRange_def)

text \<open>
  C27. A range built by the constructor keeps minimum, value and value plus extent in this order
  and below the maximum through every sequence of operations that never gives it an extent, as
  the sliders of the client use it, and through every sequence, with extents, that never sets the
  minimum.  Setting the minimum of a range that has an extent can leave the value below the new
  minimum.
\<close>
theorem range_stays_well_formed:
  "(list_all (\<lambda>op. \<not> sets_extent op) ops \<longrightarrow>
      range_ok (foldl (\<lambda>r op. range_step op r) newRange ops)
      \<and> rg_extent (foldl (\<lambda>r op. range_step op r) newRange ops) = 0) \<and>
   (list_all (\<lambda>op. \<not> sets_minimum op) ops \<longrightarrow> range_ok (foldl (\<lambda>r op. range_step op r) newRange ops)) \<and>
   (let r = foldl (\<lambda>r op. range_step op r) newRange [SetExtent 50, SetMinimum 80]
    in rg_value r = 50 \<and> rg_minimum r = 80)"
proof (intro conjI impI)
  assume quiet: "list_all (\<lambda>op. \<not> sets_extent op) ops"
  have "range_ok (foldl (\<lambda>r op. range_step op r) newRange ops)
      \<and> rg_extent (foldl (\<lambda>r op. range_step op r) newRange ops) = 0"
    by (rule foldl_invariant)
      (use quiet in \<open>auto simp: range_ok_newRange list_all_iff range_step_point\<close>)
  then show "range_ok (foldl (\<lambda>r op. range_step op r) newRange ops)"
    "rg_extent (foldl (\<lambda>r op. range_step op r) newRange ops) = 0"
    by simp_all
next
  assume quiet: "list_all (\<lambda>op. \<not> sets_minimum op) ops"
  show "range_ok (foldl (\<lambda>r op. range_step op r) newRange ops)"
    by (rule foldl_invariant) (use quiet in \<open>auto simp: range_ok_newRange list_all_iff range_step_ok\<close>)
next
  show "let r = foldl (\<lambda>r op. range_step op r) newRange [SetExtent 50, SetMinimum 80]
    in rg_value r = 50 \<and> rg_minimum r = 80"
    by (simp add: newRange_def range_setExtent_def range_setMinimum_alone range_setValue_def)
qed

theorem range_stays_well_formed_witness:
  "range_ok (foldl (\<lambda>r op. range_step op r) newRange [SetValue (Some 70), SetMaximum 60, SetMinimum 10])"
  using range_stays_well_formed [of "[SetValue (Some 70), SetMaximum 60, SetMinimum 10]"] by simp

subsection \<open>A frozen dialog\<close>

lemma update_rates_frozen: "rt_freeze s \<Longrightarrow> update_rates k i j cb s = s"
  by (simp add: update_rates_def)

lemma onchange_frozen [simp]: "rt_freeze s \<Longrightarrow> onchange n k s = s"
  by (cases n)
    (simp_all add: update_tax_rates_def update_lux_rates_def update_sci_rates_def update_rates_frozen
      split: rate.split)

text \<open>The state with another value in one slider, as every change in a frozen dialog leaves it.\<close>

definition with_value :: "rate \<Rightarrow> int option \<Rightarrow> rates_client \<Rightarrow> rates_client" where
  "with_value k v s =
     (let g = fst (range_setValue v (sl_range (rt_slider s k)))
      in put_slider k ((rt_slider s k)\<lparr>sl_range := g, sl_input := rg_value g\<rparr>) s)"

lemma put_slider_frame [simp]:
  "rt_freeze (put_slider k d s) = rt_freeze s" "rt_rate (put_slider k d s) = rt_rate s"
  "rt_lock (put_slider k d s) = rt_lock s" "rt_maxrate (put_slider k d s) = rt_maxrate s"
  "cl_out (put_slider k d s) = cl_out s" "rt_slider (put_slider k d s) = (rt_slider s)(k := d)"
  by (simp_all add: put_slider_def)

lemma put_rate_frame [simp]:
  "rt_freeze (put_rate k v s) = rt_freeze s" "rt_slider (put_rate k v s) = rt_slider s"
  "rt_lock (put_rate k v s) = rt_lock s" "rt_maxrate (put_rate k v s) = rt_maxrate s"
  "cl_out (put_rate k v s) = cl_out s" "rt_rate (put_rate k v s) = (rt_rate s)(k := v)"
  by (simp_all add: put_rate_def)

lemma put_slider_twice: "put_slider k d (put_slider k e s) = put_slider k d s"
  by (simp add: put_slider_def)

lemma slider_setValue_frozen:
  "rt_freeze s \<Longrightarrow> slider_setValue (onchange n) k v s = with_value k v s"
  by (simp add: slider_setValue_def slider_apply_def with_value_def split_beta Let_def put_slider_twice slider_getValue_def)

text \<open>More fuel than one level changes nothing.\<close>

lemma round_slider_frozen:
  "rt_freeze s \<Longrightarrow> round_slider (onchange n) k s = round_slider (onchange 0) k s"
  by (simp add: round_slider_def slider_setValue_frozen Let_def del: onchange.simps)

subsection \<open>The invariant of an open dialog\<close>

definition slider_ok :: "int \<Rightarrow> slider \<Rightarrow> bool" where
  "slider_ok m d =
     (let g = sl_range d
      in range_ok g \<and> rg_extent g = 0 \<and> rg_minimum g = 0 \<and> rg_maximum g = m \<and> \<not> rg_isChanging g)"

definition sliders_ok :: "rates_client \<Rightarrow> bool" where
  "sliders_ok s = ((\<forall>k. slider_ok (rt_maxrate s) (rt_slider s k)) \<and> 0 \<le> rt_maxrate s
     \<and> rt_maxrate s \<le> 100 \<and> 10 dvd rt_maxrate s)"

definition dialog_ok :: "rates_client \<Rightarrow> bool" where
  "dialog_ok s = (sliders_ok s \<and> \<not> rt_freeze s)"

definition vals :: "rates_client \<Rightarrow> rate \<Rightarrow> int" where
  "vals s = (\<lambda>k. slider_getValue k s)"

definition clamped :: "int \<Rightarrow> int \<Rightarrow> int" where
  "clamped m v = (if v > m then m else if v < 0 then 0 else v)"

definition tens :: "int \<Rightarrow> int" where
  "tens v = v - v mod 10"

lemma vals_put [simp]: "vals (put_slider k d s) = (vals s)(k := rg_value (sl_range d))"
  "vals (put_rate k v s) = vals s"
  by (auto simp: vals_def slider_getValue_def)

lemma vals_freeze [simp]: "vals (s\<lparr>rt_freeze := b\<rparr>) = vals s"
  by (simp add: vals_def slider_getValue_def)

lemma sliders_ok_rates [simp]:
  "sliders_ok (put_rate k v s) = sliders_ok s" "sliders_ok (s\<lparr>rt_freeze := b\<rparr>) = sliders_ok s"
  by (simp_all add: sliders_ok_def)

lemma slider_ok_bounds: "slider_ok m d \<Longrightarrow> 0 \<le> rg_value (sl_range d) \<and> rg_value (sl_range d) \<le> m"
  by (auto simp: slider_ok_def range_ok_def Let_def)

lemma sliders_okD: "sliders_ok s \<Longrightarrow> slider_ok (rt_maxrate s) (rt_slider s k)"
  by (simp add: sliders_ok_def)

lemma vals_bounds: "sliders_ok s \<Longrightarrow> 0 \<le> vals s k \<and> vals s k \<le> rt_maxrate s"
  using slider_ok_bounds [OF sliders_okD] by (simp add: vals_def slider_getValue_def)

lemma clamped_id: "0 \<le> v \<Longrightarrow> v \<le> m \<Longrightarrow> clamped m v = v"
  by (simp add: clamped_def)

lemma clamped_bounds: "0 \<le> m \<Longrightarrow> 0 \<le> clamped m v \<and> clamped m v \<le> m"
  by (simp add: clamped_def)

lemma range_set_clamped:
  "slider_ok m d \<Longrightarrow> rg_value (fst (range_setValue (Some v) (sl_range d))) = clamped m v"
  by (auto simp: slider_ok_def range_setValue_def range_ok_def clamped_def Let_def)

lemma with_value_frame [simp]:
  "rt_freeze (with_value k v s) = rt_freeze s" "rt_rate (with_value k v s) = rt_rate s"
  "rt_lock (with_value k v s) = rt_lock s" "rt_maxrate (with_value k v s) = rt_maxrate s"
  "cl_out (with_value k v s) = cl_out s"
  by (simp_all add: with_value_def Let_def)

lemma slider_ok_set:
  "slider_ok m d \<Longrightarrow> slider_ok m (d\<lparr>sl_range := fst (range_setValue v (sl_range d)), sl_input := i\<rparr>)"
  by (simp add: slider_ok_def range_setValue_ok Let_def)

lemma with_value_ok: "sliders_ok s \<Longrightarrow> sliders_ok (with_value k v s)"
  by (simp add: sliders_ok_def with_value_def slider_ok_set Let_def)

lemma vals_with_value:
  "sliders_ok s \<Longrightarrow> vals (with_value k (Some v) s) = (vals s)(k := clamped (rt_maxrate s) v)"
  using range_set_clamped [OF sliders_okD] by (simp add: with_value_def Let_def)

lemma tens_bounds: "0 \<le> v \<Longrightarrow> v \<le> m \<Longrightarrow> 0 \<le> tens v \<and> tens v \<le> m"
proof -
  assume v: "0 \<le> v" "v \<le> m"
  have "0 \<le> v mod 10" by simp
  moreover have "v mod 10 \<le> v" using v by (simp add: zmod_le_nonneg_dividend)
  ultimately show ?thesis using v by (simp add: tens_def)
qed

lemma tens_dvd: "10 dvd tens v"
  by (simp add: tens_def dvd_minus_mod)

lemma round_slider_frame:
  assumes "rt_freeze s"
  shows "rt_freeze (round_slider (onchange n) k s)" "rt_rate (round_slider (onchange n) k s) = rt_rate s"
    "rt_lock (round_slider (onchange n) k s) = rt_lock s"
    "rt_maxrate (round_slider (onchange n) k s) = rt_maxrate s"
    "cl_out (round_slider (onchange n) k s) = cl_out s"
  using assms by (simp_all add: round_slider_def Let_def slider_setValue_frozen)

lemma round_slider_vals:
  assumes "sliders_ok s" "rt_freeze s"
  shows "sliders_ok (round_slider (onchange n) k s)
    \<and> vals (round_slider (onchange n) k s) = (vals s)(k := tens (vals s k))"
proof -
  have v: "0 \<le> vals s k" "vals s k \<le> rt_maxrate s" using vals_bounds [OF assms(1)] by simp_all
  have g: "slider_getValue k s = vals s k" by (simp add: vals_def)
  have "clamped (rt_maxrate s) (vals s k - vals s k mod 10) = tens (vals s k)"
    using tens_bounds [OF v] clamped_id by (simp add: tens_def)
  then show ?thesis using assms v
    by (auto simp: round_slider_def g Let_def slider_setValue_frozen with_value_ok vals_with_value
        js_rem_nonneg tens_def)
qed

subsection \<open>One update\<close>

definition total :: "(rate \<Rightarrow> int) \<Rightarrow> int" where
  "total r = r Tax + r Lux + r Sci"

definition adjusted :: "(rate \<Rightarrow> bool) \<Rightarrow> int \<Rightarrow> rate \<Rightarrow> (rate \<Rightarrow> int) \<Rightarrow> rate \<Rightarrow> int" where
  "adjusted lock m k r =
     (if total r \<noteq> 100 \<and> \<not> lock k then r(k := min (max (100 - (total r - r k)) 0) m) else r)"

definition settled :: "rates_client \<Rightarrow> rate \<Rightarrow> rate \<Rightarrow> rate \<Rightarrow> int" where
  "settled s i j = adjusted (rt_lock s) (rt_maxrate s) j (adjusted (rt_lock s) (rt_maxrate s) i (tens \<circ> vals s))"

lemma read_rates_frame [simp]:
  "rt_freeze (read_rates s) = rt_freeze s" "rt_lock (read_rates s) = rt_lock s"
  "rt_maxrate (read_rates s) = rt_maxrate s" "cl_out (read_rates s) = cl_out s"
  "vals (read_rates s) = vals s" "sliders_ok (read_rates s) = sliders_ok s"
  by (simp_all add: read_rates_def)

lemma read_rates_rates [simp]: "rt_rate (read_rates s) = vals s"
proof
  fix k show "rt_rate (read_rates s) k = vals s k"
    by (cases k) (simp_all add: read_rates_def vals_def slider_getValue_def)
qed

lemma adjust_rate_frame [simp]:
  "rt_freeze (adjust_rate k s) = rt_freeze s" "rt_lock (adjust_rate k s) = rt_lock s"
  "rt_maxrate (adjust_rate k s) = rt_maxrate s" "cl_out (adjust_rate k s) = cl_out s"
  "vals (adjust_rate k s) = vals s" "sliders_ok (adjust_rate k s) = sliders_ok s"
  by (simp_all add: adjust_rate_def)

lemma adjust_rate_rates [simp]:
  "rt_rate (adjust_rate k s) = adjusted (rt_lock s) (rt_maxrate s) k (rt_rate s)"
  by (simp add: adjust_rate_def adjusted_def rates_sum_def total_def)

lemma show_rate_results_frame [simp]:
  "rt_rate (show_rate_results s) = rt_rate s" "rt_freeze (show_rate_results s) = rt_freeze s"
  "rt_lock (show_rate_results s) = rt_lock s" "rt_maxrate (show_rate_results s) = rt_maxrate s"
  "rt_slider (show_rate_results s) = rt_slider s"
  by (simp_all add: show_rate_results_def emits_def)

definition rates_packet :: "(rate \<Rightarrow> int) \<Rightarrow> packet" where
  "rates_packet r = [(''pid'', JConst ''packet_player_rates''), (''tax'', JNum (r Tax)),
     (''luxury'', JNum (r Lux)), (''science'', JNum (r Sci))]"

definition rate_labels :: "(rate \<Rightarrow> int) \<Rightarrow> effect list" where
  "rate_labels r = [Ui ''tax_result html'' [JNum (r Tax)], Ui ''lux_result html'' [JNum (r Lux)],
            Ui ''sci_result html'' [JNum (r Sci)]]"

lemma rounded_sliders:
  fixes n
  assumes "sliders_ok s" "rt_freeze s"
  defines "t \<equiv> round_slider (onchange n) Sci (round_slider (onchange n) Lux (round_slider (onchange n) Tax s))"
  shows "sliders_ok t" "vals t = tens \<circ> vals s" "rt_freeze t" "rt_lock t = rt_lock s"
    "rt_maxrate t = rt_maxrate s" "cl_out t = cl_out s"
proof -
  define a where "a = round_slider (onchange n) Tax s"
  define b where "b = round_slider (onchange n) Lux a"
  have a: "sliders_ok a" "vals a = (vals s)(Tax := tens (vals s Tax))" "rt_freeze a"
    using round_slider_vals [OF assms(1,2), where k = Tax] round_slider_frame [OF assms(2)] by (simp_all add: a_def)
  have b: "sliders_ok b" "vals b = (vals a)(Lux := tens (vals a Lux))" "rt_freeze b"
    using round_slider_vals [OF a(1,3), where k = Lux] round_slider_frame [OF a(3)] by (simp_all add: b_def)
  have t: "t = round_slider (onchange n) Sci b" by (simp add: t_def a_def b_def)
  have vt: "vals t = (vals b)(Sci := tens (vals b Sci))"
    using round_slider_vals [OF b(1,3), where k = Sci] by (simp add: t)
  show "vals t = tens \<circ> vals s"
  proof
    fix k show "vals t k = (tens \<circ> vals s) k" by (cases k) (simp_all add: vt b(2) a(2))
  qed
  show "sliders_ok t" using round_slider_vals [OF b(1,3), where k = Sci] by (simp add: t)
  show "rt_freeze t" "rt_lock t = rt_lock s" "rt_maxrate t = rt_maxrate s" "cl_out t = cl_out s"
    using round_slider_frame [OF assms(2)] round_slider_frame [OF a(3)] round_slider_frame [OF b(3)]
    by (simp_all add: t a_def [symmetric] b_def)
       (simp_all add: a_def round_slider_frame assms(2))
qed

lemma adjusted_bounds:
  assumes "\<And>k. 0 \<le> r k \<and> r k \<le> m" "0 \<le> m"
  shows "0 \<le> adjusted lock m i r k \<and> adjusted lock m i r k \<le> m"
  using assms by (auto simp: adjusted_def)

lemma settled_bounds:
  assumes "sliders_ok s"
  shows "0 \<le> settled s i j k \<and> settled s i j k \<le> rt_maxrate s"
proof -
  have m: "0 \<le> rt_maxrate s" using assms by (simp add: sliders_ok_def)
  have "0 \<le> (tens \<circ> vals s) x \<and> (tens \<circ> vals s) x \<le> rt_maxrate s" for x
    using vals_bounds [OF assms, of x] tens_bounds [of "vals s x" "rt_maxrate s"] by simp
  then show ?thesis unfolding settled_def by (intro adjusted_bounds m)
qed

lemma set_all_sliders:
  fixes n r
  assumes "sliders_ok s" "rt_freeze s" "\<And>k. 0 \<le> r k \<and> r k \<le> rt_maxrate s"
  defines "t \<equiv> slider_setValue (onchange n) Sci (Some (r Sci)) (slider_setValue (onchange n) Lux (Some (r Lux))
      (slider_setValue (onchange n) Tax (Some (r Tax)) s))"
  shows "sliders_ok t" "vals t = r" "rt_rate t = rt_rate s" "rt_lock t = rt_lock s"
    "rt_maxrate t = rt_maxrate s" "cl_out t = cl_out s"
proof -
  have t: "t = with_value Sci (Some (r Sci)) (with_value Lux (Some (r Lux)) (with_value Tax (Some (r Tax)) s))"
    using assms(2) by (simp add: t_def slider_setValue_frozen)
  show "sliders_ok t" using assms(1) by (simp add: t with_value_ok)
  show "vals t = r"
  proof
    fix k
    show "vals t k = r k"
      by (cases k) (simp_all add: t vals_with_value with_value_ok assms(1,3) clamped_id)
  qed
  show "rt_rate t = rt_rate s" "rt_lock t = rt_lock s" "rt_maxrate t = rt_maxrate s" "cl_out t = cl_out s"
    by (simp_all add: t)
qed

lemma vals_slider_cong: "rt_slider a = rt_slider b \<Longrightarrow> vals a = vals b"
  by (simp add: vals_def slider_getValue_def)

lemma sliders_ok_cong: "rt_slider a = rt_slider b \<Longrightarrow> rt_maxrate a = rt_maxrate b \<Longrightarrow> sliders_ok a = sliders_ok b"
  by (simp add: sliders_ok_def)

text \<open>What an update does when the rates can be settled, and when they cannot.\<close>

lemma update_rates_outcome:
  fixes n own i j
  assumes s: "dialog_ok s"
  defines "u \<equiv> update_rates own i j (onchange n) s" and "r \<equiv> settled s i j"
  shows "dialog_ok u" "rt_lock u = rt_lock s" "rt_maxrate u = rt_maxrate s" "rt_rate u = r"
    "vals u = (if total r = 100 then r
       else (tens \<circ> vals s)(own := clamped (rt_maxrate s) (100 - (total r - r own))))"
    "cl_out u = cl_out s @ (if total r = 100 then rate_labels r @ [Send (rates_packet r)] else [])"
proof -
  define s0 where "s0 = s\<lparr>rt_freeze := True\<rparr>"
  define s1 where "s1 = round_slider (onchange n) Sci (round_slider (onchange n) Lux (round_slider (onchange n) Tax s0))"
  define s2 where "s2 = adjust_rate j (adjust_rate i (read_rates s1))"
  have s0: "sliders_ok s0" "rt_freeze s0" using s by (simp_all add: s0_def dialog_ok_def)
  note r1 = rounded_sliders [OF s0, of n, folded s1_def]
  have v0: "vals s0 = vals s" "rt_lock s0 = rt_lock s" "rt_maxrate s0 = rt_maxrate s" "cl_out s0 = cl_out s"
    by (simp_all add: s0_def)
  have m: "0 \<le> rt_maxrate s" "rt_maxrate s \<le> 100" and ok: "sliders_ok s"
    using s by (simp_all add: dialog_ok_def sliders_ok_def)
  have r2: "sliders_ok s2" "rt_freeze s2" "vals s2 = tens \<circ> vals s" "rt_lock s2 = rt_lock s"
    "rt_maxrate s2 = rt_maxrate s" "cl_out s2 = cl_out s" "rt_rate s2 = r"
    using r1 by (simp_all add: s2_def v0 r_def settled_def)
  have sum: "rates_sum s2 = total r" by (simp add: rates_sum_def total_def r2)
  have fr: "\<not> rt_freeze s" using s by (simp add: dialog_ok_def)
  have rb: "0 \<le> r k \<and> r k \<le> rt_maxrate s" for k unfolding r_def by (rule settled_bounds [OF ok])
  have all: "dialog_ok u \<and> rt_lock u = rt_lock s \<and> rt_maxrate u = rt_maxrate s \<and> rt_rate u = r
    \<and> vals u = (if total r = 100 then r
       else (tens \<circ> vals s)(own := clamped (rt_maxrate s) (100 - (total r - r own))))
    \<and> cl_out u = cl_out s @ (if total r = 100 then rate_labels r @ [Send (rates_packet r)] else [])"
  proof (cases "total r = 100")
    case False
    then have u: "u = (with_value own (Some (100 - (total r - r own))) s2)\<lparr>rt_freeze := False\<rparr>"
      using fr r2(2) sum
      by (simp add: u_def update_rates_def s0_def [symmetric] s1_def [symmetric] s2_def [symmetric]
          slider_setValue_frozen r2(7) Let_def)
    show ?thesis using False r2
      by (simp add: u dialog_ok_def with_value_ok vals_with_value)
  next
    case True
    define s3 where "s3 = slider_setValue (onchange n) Sci (Some (r Sci)) (slider_setValue (onchange n) Lux (Some (r Lux))
      (slider_setValue (onchange n) Tax (Some (r Tax)) s2))"
    have rb2: "0 \<le> r k \<and> r k \<le> rt_maxrate s2" for k using rb r2(5) by simp
    note r3 = set_all_sliders [where r = r and n = n, OF r2(1,2) rb2, folded s3_def]
    have u: "u = submit_player_rates ((show_rate_results s3)\<lparr>rt_freeze := False\<rparr>)"
      using fr True sum
      by (simp add: u_def update_rates_def s0_def [symmetric] s1_def [symmetric] s2_def [symmetric]
          s3_def r2(7) Let_def)
    have b: "0 \<le> r Tax" "r Tax \<le> 100" "0 \<le> r Lux" "r Lux \<le> 100" "0 \<le> r Sci" "r Sci \<le> 100"
      using rb [of Tax] rb [of Lux] rb [of Sci] m by auto
    have u': "u = emit (Send (rates_packet r)) ((show_rate_results s3)\<lparr>rt_freeze := False\<rparr>)"
      using b r3(3) r2(7) by (simp add: u submit_player_rates_def rates_packet_def Let_def)
    have sl: "rt_slider u = rt_slider s3" "rt_maxrate u = rt_maxrate s3"
      by (simp_all add: u' emit_def)
    have out: "cl_out (show_rate_results s3) = cl_out s @ rate_labels r"
      using r3(3,6) r2(6,7) by (simp add: show_rate_results_def rate_labels_def)
    show ?thesis using True r3 r2 sl out vals_slider_cong [OF sl(1)] sliders_ok_cong [OF sl]
      by (simp add: dialog_ok_def) (simp add: u' emit_def)
  qed
  then show "dialog_ok u" "rt_lock u = rt_lock s" "rt_maxrate u = rt_maxrate s" "rt_rate u = r"
    "vals u = (if total r = 100 then r
       else (tens \<circ> vals s)(own := clamped (rt_maxrate s) (100 - (total r - r own))))"
    "cl_out u = cl_out s @ (if total r = 100 then rate_labels r @ [Send (rates_packet r)] else [])"
    by blast+
qed

subsection \<open>The user's actions\<close>

fun partners :: "rate \<Rightarrow> rate \<times> rate" where
  "partners Tax = (Lux, Sci)"
| "partners Lux = (Tax, Sci)"
| "partners Sci = (Lux, Tax)"

lemma onchange_update:
  "onchange (Suc n) k = update_rates k (fst (partners k)) (snd (partners k)) (onchange n)"
  by (cases k) (simp_all add: update_tax_rates_def update_lux_rates_def update_sci_rates_def)

lemma update_rates_fuel: "update_rates own i j (onchange n) s = update_rates own i j (onchange 0) s"
proof -
  have frozen: "slider_setValue (onchange n) k v t = slider_setValue (onchange 0) k v t" if "rt_freeze t" for k v t
    using that by (simp only: slider_setValue_frozen)
  have keeps: "rt_freeze (slider_setValue (onchange 0) k v t)" if "rt_freeze t" for k v t
    using that by (simp add: slider_setValue_frozen del: onchange.simps)
  note rounds = round_slider_frozen [of _ n] round_slider_frame(1) [where n = 0]
  show ?thesis
    by (cases "rt_freeze s")
      (simp_all add: update_rates_def Let_def rounds frozen keeps del: onchange.simps)
qed

text \<open>Two levels of callbacks are all there is.\<close>

lemma onchange_fuel: "onchange (Suc n) = onchange 1"
proof
  fix k show "onchange (Suc n) k = onchange 1 k"
    by (simp only: One_nat_def onchange_update) (rule ext, rule update_rates_fuel)
qed

definition input_shown :: "rate \<Rightarrow> rates_client \<Rightarrow> rates_client" where
  "input_shown k s = put_slider k ((rt_slider s k)\<lparr>sl_input := slider_getValue k s\<rparr>) s"

lemma slider_ok_input [simp]: "slider_ok m (d\<lparr>sl_input := i\<rparr>) = slider_ok m d"
  by (simp add: slider_ok_def)

lemma input_shown_frame [simp]:
  "rt_freeze (input_shown k s) = rt_freeze s" "rt_lock (input_shown k s) = rt_lock s"
  "rt_maxrate (input_shown k s) = rt_maxrate s" "cl_out (input_shown k s) = cl_out s"
  "rt_rate (input_shown k s) = rt_rate s"
  by (simp_all add: input_shown_def)

lemma vals_input_shown [simp]: "vals (input_shown k s) = vals s"
  by (rule ext) (simp add: input_shown_def vals_def slider_getValue_def)

lemma dialog_ok_input_shown: "dialog_ok s \<Longrightarrow> dialog_ok (input_shown k s)"
  by (simp add: dialog_ok_def sliders_ok_def) (simp add: input_shown_def)

definition moved :: "rate \<Rightarrow> int option \<Rightarrow> rates_client \<Rightarrow> rates_client" where
  "moved k v s =
     put_slider k ((rt_slider s k)\<lparr>sl_range := fst (range_setValue v (sl_range (rt_slider s k)))\<rparr>) s"

lemma moved_ok: "dialog_ok s \<Longrightarrow> dialog_ok (moved k v s)"
  by (auto simp: dialog_ok_def sliders_ok_def moved_def slider_ok_def range_setValue_ok Let_def)

lemma moved_frame [simp]:
  "rt_lock (moved k v s) = rt_lock s" "rt_maxrate (moved k v s) = rt_maxrate s" "cl_out (moved k v s) = cl_out s"
  by (simp_all add: moved_def)

lemma vals_moved:
  "dialog_ok s \<Longrightarrow> vals (moved k (Some v) s) = (vals s)(k := clamped (rt_maxrate s) v)"
  using range_set_clamped [OF sliders_okD] by (simp add: moved_def dialog_ok_def)

lemma range_fires:
  "slider_ok m d \<Longrightarrow> snd (range_setValue v (sl_range d)) \<longleftrightarrow> v \<noteq> None \<and> v \<noteq> Some (rg_value (sl_range d))"
  by (cases v) (auto simp: range_setValue_def slider_ok_def Let_def)

lemma user_moves_shape:
  assumes "dialog_ok s"
  shows "user_moves k v s =
     input_shown k (if v \<noteq> None \<and> v \<noteq> Some (vals s k)
       then update_rates k (fst (partners k)) (snd (partners k)) (onchange 1) (moved k v s)
       else moved k v s)"
proof -
  have "snd (range_setValue v (sl_range (rt_slider s k))) \<longleftrightarrow> v \<noteq> None \<and> v \<noteq> Some (vals s k)"
    using assms range_fires [OF sliders_okD] by (simp add: dialog_ok_def vals_def slider_getValue_def)
  then show ?thesis
    by (simp add: user_moves_def slider_setValue_def slider_apply_def split_beta Let_def
        input_shown_def [symmetric] moved_def [symmetric] numeral_2_eq_2 onchange_update
        del: onchange.simps)
qed

lemma moved_idle: "dialog_ok s \<Longrightarrow> v = None \<or> v = Some (vals s k) \<Longrightarrow> vals (moved k v s) = vals s"
  by (auto simp: moved_def range_setValue_def vals_def slider_getValue_def)

text \<open>Rates the server can be asked for.\<close>

definition proper_rates :: "int \<Rightarrow> (rate \<Rightarrow> int) \<Rightarrow> bool" where
  "proper_rates m r = (total r = 100 \<and> (\<forall>k. 0 \<le> r k \<and> r k \<le> m \<and> 10 dvd r k))"

lemma adjusted_dvd:
  assumes "\<And>k. 10 dvd r k" "10 dvd m"
  shows "10 dvd adjusted lock m i r k"
proof -
  have "10 dvd total r" using assms(1) by (simp add: total_def)
  then have "10 dvd 100 - (total r - r i)" using assms(1) [of i] by simp
  then show ?thesis using assms by (simp add: adjusted_def min_def max_def)
qed

lemma settled_proper:
  assumes "sliders_ok s" "total (settled s i j) = 100"
  shows "proper_rates (rt_maxrate s) (settled s i j)"
proof -
  have "10 dvd rt_maxrate s" using assms(1) by (simp add: sliders_ok_def)
  then have "10 dvd settled s i j k" for k
    unfolding settled_def by (intro adjusted_dvd) (simp_all add: tens_dvd)
  then show ?thesis using assms settled_bounds [OF assms(1)] by (simp add: proper_rates_def)
qed

lemma user_moves_invariant:
  assumes s: "dialog_ok s"
  shows "dialog_ok (user_moves k v s) \<and> rt_maxrate (user_moves k v s) = rt_maxrate s
    \<and> rt_lock (user_moves k v s) = rt_lock s
    \<and> (cl_out (user_moves k v s) = cl_out s
       \<or> (\<exists>r. cl_out (user_moves k v s) = cl_out s @ rate_labels r @ [Send (rates_packet r)]
            \<and> proper_rates (rt_maxrate s) r \<and> vals (user_moves k v s) = r))"
proof (cases "v \<noteq> None \<and> v \<noteq> Some (vals s k)")
  case False
  then show ?thesis using user_moves_shape [OF s, of k v] s by (auto simp: moved_ok dialog_ok_input_shown)
next
  case True
  define t where "t = moved k v s"
  have t: "dialog_ok t" using s by (simp add: t_def moved_ok)
  define u where "u = update_rates k (fst (partners k)) (snd (partners k)) (onchange 1) t"
  note o = update_rates_outcome [OF t, of k "fst (partners k)" "snd (partners k)" 1, folded u_def]
  have "user_moves k v s = input_shown k u"
    using True by (simp add: user_moves_shape [OF s] u_def t_def del: onchange.simps)
  moreover have "proper_rates (rt_maxrate t) (settled t (fst (partners k)) (snd (partners k)))"
    if "total (settled t (fst (partners k)) (snd (partners k))) = 100"
    using t that by (intro settled_proper) (simp_all add: dialog_ok_def)
  ultimately show ?thesis using o by (auto simp: dialog_ok_input_shown t_def)
qed

text \<open>What the user can do while the dialog is open.\<close>

datatype rates_event = Moves rate "int option" | Presses rate int | Locks rate bool

fun rates_event_step :: "rates_event \<Rightarrow> rates_client \<Rightarrow> rates_client" where
  "rates_event_step (Moves k v) s = user_moves k v s"
| "rates_event_step (Presses k c) s = user_presses k c s"
| "rates_event_step (Locks k b) s = s\<lparr>rt_lock := (rt_lock s)(k := b)\<rparr>"

definition key_value :: "int \<Rightarrow> rate \<Rightarrow> rates_client \<Rightarrow> int option" where
  "key_value c k s =
     (let d = rt_slider s k; v = vals s k
      in if c = 33 then Some (v + sl_block_increment d) else if c = 34 then Some (v - sl_block_increment d)
         else if c = 35 then Some (rg_maximum (sl_range d)) else if c = 36 then Some (rg_minimum (sl_range d))
         else if c = 38 \<or> c = 39 then Some (v + sl_unit_increment d)
         else if c = 37 \<or> c = 40 then Some (v - sl_unit_increment d) else None)"

lemma user_presses_moves:
  "user_presses k c s = (if key_value c k s = None then s else user_moves k (key_value c k s) s)"
  by (simp add: user_presses_def slider_onkeydown_def user_moves_def key_value_def vals_def Let_def
      del: onchange.simps)

definition only_proper :: "int \<Rightarrow> effect list \<Rightarrow> bool" where
  "only_proper m es = (\<forall>p. Send p \<in> set es \<longrightarrow> (\<exists>r. p = rates_packet r \<and> proper_rates m r))"

lemma rates_event_step_proper:
  assumes "dialog_ok s"
  shows "dialog_ok (rates_event_step e s) \<and> rt_maxrate (rates_event_step e s) = rt_maxrate s
    \<and> (\<exists>es. cl_out (rates_event_step e s) = cl_out s @ es \<and> only_proper (rt_maxrate s) es)"
proof -
  have move: "dialog_ok (user_moves k v s) \<and> rt_maxrate (user_moves k v s) = rt_maxrate s
    \<and> (\<exists>es. cl_out (user_moves k v s) = cl_out s @ es \<and> only_proper (rt_maxrate s) es)" for k v
  proof -
    note inv = user_moves_invariant [OF assms, of k v]
    have "\<exists>es. cl_out (user_moves k v s) = cl_out s @ es \<and> only_proper (rt_maxrate s) es"
    proof (cases "cl_out (user_moves k v s) = cl_out s")
      case True
      then show ?thesis by (simp add: only_proper_def)
    next
      case False
      with inv obtain r where r: "cl_out (user_moves k v s) = cl_out s @ rate_labels r @ [Send (rates_packet r)]"
        "proper_rates (rt_maxrate s) r" by blast
      have "only_proper (rt_maxrate s) (rate_labels r @ [Send (rates_packet r)])"
        using r(2) by (auto simp: only_proper_def rate_labels_def)
      with r(1) show ?thesis by blast
    qed
    with inv show ?thesis by blast
  qed
  show ?thesis
  proof (cases e)
    case (Moves k v)
    then show ?thesis using move by simp
  next
    case (Presses k c)
    then show ?thesis using move [of k "key_value c k s"] assms
      by (simp add: user_presses_moves) (simp add: only_proper_def)
  next
    case (Locks k b)
    then show ?thesis using assms by (simp add: dialog_ok_def sliders_ok_def only_proper_def)
  qed
qed

lemma rates_events_proper:
  "dialog_ok s \<Longrightarrow>
     \<exists>es. cl_out (foldl (\<lambda>s e. rates_event_step e s) s evs) = cl_out s @ es \<and> only_proper (rt_maxrate s) es"
proof (induction evs arbitrary: s)
  case Nil
  then show ?case by (simp add: only_proper_def)
next
  case (Cons e evs)
  note step = rates_event_step_proper [OF Cons.prems, of e]
  from step obtain es where es: "cl_out (rates_event_step e s) = cl_out s @ es" "only_proper (rt_maxrate s) es"
    by blast
  from Cons.IH [of "rates_event_step e s"] step obtain es2
    where es2: "cl_out (foldl (\<lambda>s e. rates_event_step e s) (rates_event_step e s) evs) = cl_out (rates_event_step e s) @ es2"
      "only_proper (rt_maxrate s) es2" by auto
  show ?case
    by (rule exI [of _ "es @ es2"]) (use es es2 in \<open>auto simp: only_proper_def\<close>)
qed

lemma new_slider_ok: "0 \<le> m \<Longrightarrow> slider_ok m (new_slider v m)"
proof -
  assume m: "0 \<le> m"
  define g where "g = fst (range_setValue (Some v) newRange)"
  define h where "h = fst (range_setMaximum m g)"
  have g: "range_ok g" "rg_extent g = 0" "rg_minimum g = 0" "\<not> rg_isChanging g"
    using range_setValue_ok [OF range_ok_newRange(1)] by (simp_all add: g_def) (simp_all add: newRange_def)
  have h: "range_ok h" "rg_extent h = 0"
    using range_setMaximum_ok [OF g(1)] range_setMaximum_extent [OF g(1,2)] by (simp_all add: h_def)
  have b: "rg_minimum h = 0 \<and> rg_maximum h = m \<and> \<not> rg_isChanging h"
  proof (cases "rg_maximum g = m")
    case True
    then show ?thesis using g by (simp add: h_def range_setMaximum.simps)
  next
    case False
    then show ?thesis using g m by (simp add: h_def range_setMaximum_alone Let_def)
  qed
  have e: "range_setExtent 0 newRange = (newRange, False)" by (simp add: range_setExtent_def newRange_def)
  have "sl_range (new_slider v m) = h"
    using b by (simp add: new_slider_def e g_def [symmetric] h_def [symmetric] range_setMinimum.simps Let_def)
  then show ?thesis using h b by (simp add: slider_ok_def)
qed

lemma government_max_rate_cases: "government_max_rate g \<in> {60, 70, 80, 100}"
  by (simp add: government_max_rate_def)

lemma create_rates_dialog_ok:
  assumes "\<not> rt_freeze s" "m \<in> {60, 70, 80, 100}"
  shows "dialog_ok (create_rates_dialog t l c m s) \<and> rt_maxrate (create_rates_dialog t l c m s) = m"
proof -
  let ?d = "s\<lparr>rt_slider := (\<lambda>k. new_slider (case k of Tax \<Rightarrow> t | Lux \<Rightarrow> l | Sci \<Rightarrow> c) m), rt_maxrate := m\<rparr>"
  have "sliders_ok ?d" using assms(2) by (auto simp: sliders_ok_def new_slider_ok)
  then have "sliders_ok (read_rates ?d)" by simp
  moreover have "rt_slider (create_rates_dialog t l c m s) = rt_slider (read_rates ?d)"
    "rt_maxrate (create_rates_dialog t l c m s) = rt_maxrate (read_rates ?d)"
    "rt_freeze (create_rates_dialog t l c m s) = rt_freeze s"
    by (simp_all add: create_rates_dialog_def update_rates_labels_def)
  ultimately show ?thesis using assms(1) by (simp add: dialog_ok_def sliders_ok_def)
qed

text \<open>
  C13. However the user moves the sliders of the rates dialog, presses keys on them and locks or
  unlocks rates, and whatever rates the dialog was opened with, every packet it sends asks for
  rates that sum to 100, each a multiple of ten between 0 and the maximum of the government.
\<close>
theorem rates_submitted_valid:
  "\<exists>es. cl_out (foldl (\<lambda>s e. rates_event_step e s)
             (create_rates_dialog t l c (government_max_rate g) (s\<lparr>rt_freeze := False\<rparr>)) evs)
        = cl_out (create_rates_dialog t l c (government_max_rate g) (s\<lparr>rt_freeze := False\<rparr>)) @ es
      \<and> only_proper (government_max_rate g) es"
proof -
  have "dialog_ok (create_rates_dialog t l c (government_max_rate g) (s\<lparr>rt_freeze := False\<rparr>))
    \<and> rt_maxrate (create_rates_dialog t l c (government_max_rate g) (s\<lparr>rt_freeze := False\<rparr>)) = government_max_rate g"
    by (rule create_rates_dialog_ok [OF _ government_max_rate_cases]) simp
  then show ?thesis using rates_events_proper by metis
qed

lemma settled_own: "k \<noteq> i \<Longrightarrow> k \<noteq> j \<Longrightarrow> settled s i j k = tens (vals s k)"
  by (simp add: settled_def adjusted_def)

text \<open>Two free rates can always make up for the third when each may reach half of the sum.\<close>

lemma two_free_rates_settle:
  assumes r: "\<And>k. 0 \<le> r k \<and> r k \<le> m" and m: "50 \<le> m" "m \<le> 100"
    and distinct: "{k, i, j} = {Tax, Lux, Sci}" "i \<noteq> j" "k \<noteq> i" "k \<noteq> j"
  shows "total (adjusted (\<lambda>_. False) m j (adjusted (\<lambda>_. False) m i r)) = 100"
proof -
  have tot: "total q = q k + q i + q j" for q
    using distinct by (cases k; cases i; cases j) (auto simp: total_def)
  show ?thesis
    using r [of k] r [of i] r [of j] m distinct(2-4)
    by (simp add: adjusted_def tot min_def max_def)
qed

lemma partners_distinct:
  "{k, fst (partners k), snd (partners k)} = {Tax, Lux, Sci}" "fst (partners k) \<noteq> snd (partners k)"
  "k \<noteq> fst (partners k)" "k \<noteq> snd (partners k)"
  by (cases k; auto)+

text \<open>
  With no rate locked, under any government, moving a slider to another value always sends
  rates: the moved rate is the wanted value, kept in bounds and rounded down to a multiple of ten,
  the others make up the rest, and the three sliders then show exactly what was sent.
\<close>
theorem unlocked_rates_submitted:
  assumes "dialog_ok s" "50 \<le> rt_maxrate s" "rt_lock s = (\<lambda>_. False)" "v \<noteq> vals s k"
  shows "\<exists>r. cl_out (user_moves k (Some v) s) = cl_out s @ rate_labels r @ [Send (rates_packet r)]
     \<and> proper_rates (rt_maxrate s) r \<and> r k = tens (clamped (rt_maxrate s) v)
     \<and> vals (user_moves k (Some v) s) = r"
proof -
  define t where "t = moved k (Some v) s"
  define r where "r = settled t (fst (partners k)) (snd (partners k))"
  have t: "dialog_ok t" "rt_lock t = (\<lambda>_. False)" "rt_maxrate t = rt_maxrate s" "cl_out t = cl_out s"
    using assms by (simp_all add: t_def moved_ok)
  have ok: "sliders_ok t" using t(1) by (simp add: dialog_ok_def)
  have b: "0 \<le> (tens \<circ> vals t) x \<and> (tens \<circ> vals t) x \<le> rt_maxrate s" for x
    using vals_bounds [OF ok, of x] tens_bounds [of "vals t x" "rt_maxrate s"] t(3) by simp
  have m: "rt_maxrate s \<le> 100" using assms(1) by (simp add: dialog_ok_def sliders_ok_def)
  have sum: "total r = 100"
    unfolding r_def settled_def t(2,3) by (rule two_free_rates_settle [OF b assms(2) m partners_distinct])
  have own: "r k = tens (clamped (rt_maxrate s) v)"
    using partners_distinct [of k] assms(1) by (simp add: r_def settled_own) (simp add: t_def vals_moved)
  have u: "user_moves k (Some v) s
      = input_shown k (update_rates k (fst (partners k)) (snd (partners k)) (onchange 1) t)"
    using assms(4) by (simp add: user_moves_shape [OF assms(1)] t_def del: onchange.simps)
  have p: "proper_rates (rt_maxrate s) r"
    using settled_proper [OF ok] sum t(3) by (simp add: r_def)
  show ?thesis
    using update_rates_outcome [OF t(1), of k "fst (partners k)" "snd (partners k)" 1] sum p own
    by (intro exI [of _ r]) (simp add: u t r_def [symmetric] del: onchange.simps)
qed

definition rates0 :: rates_client where
  "rates0 = packet_client.extend (packet_client.truncate game0)
     \<lparr>rt_slider = (\<lambda>_. new_slider 0 80), rt_rate = (\<lambda>_. 0), rt_lock = (\<lambda>_. False), rt_maxrate = 80,
      rt_freeze = False, rt_playing_rates = (\<lambda>_. 0), rt_expected_income = 0\<rparr>"

theorem unlocked_rates_submitted_witness:
  "\<exists>r. cl_out (user_moves Tax (Some 37) (create_rates_dialog 40 30 30 60 rates0))
      = cl_out (create_rates_dialog 40 30 30 60 rates0) @ rate_labels r @ [Send (rates_packet r)]
    \<and> proper_rates 60 r \<and> r Tax = 30"
proof -
  let ?s = "create_rates_dialog 40 30 30 60 rates0"
  have "\<not> rt_freeze rates0" "rt_lock rates0 = (\<lambda>_. False)" by (simp_all add: rates0_def packet_client.defs)
  then have "dialog_ok ?s" "rt_maxrate ?s = 60" "rt_lock ?s = (\<lambda>_. False)"
    using create_rates_dialog_ok [of rates0 60 40 30 30]
    by (simp_all add: create_rates_dialog_def update_rates_labels_def)
  moreover have "vals ?s Tax = 40"
    by (simp add: create_rates_dialog_def update_rates_labels_def show_rate_results_def read_rates_def
        put_rate_def vals_def slider_getValue_def new_slider_def newRange_def range_setExtent_def
        range_setValue_def range_setMaximum_alone range_setMinimum.simps emits_def)
  ultimately show ?thesis
    using unlocked_rates_submitted [of ?s 37 Tax] by (auto simp: clamped_def tens_def)
qed

text \<open>
  With science locked at 0, a maximum of 60 and rates 60, 40, 0, moving taxes down to 20 asks too
  much of luxury: the tax slider is put back to 40, nothing is sent, and the sliders then sum to 80.
\<close>

lemma locked_rate_leaves_sliders_apart:
  assumes "dialog_ok s" "rt_maxrate s = 60" "rt_lock s = (\<lambda>k. k = Sci)"
    "vals s = (\<lambda>k. case k of Tax \<Rightarrow> 60 | Lux \<Rightarrow> 40 | Sci \<Rightarrow> 0)"
  shows "cl_out (user_moves Tax (Some 20) s) = cl_out s
    \<and> vals (user_moves Tax (Some 20) s) = (\<lambda>k. case k of Tax \<Rightarrow> 40 | Lux \<Rightarrow> 40 | Sci \<Rightarrow> 0)
    \<and> rt_rate (user_moves Tax (Some 20) s) Lux = 60"
proof -
  define t where "t = moved Tax (Some 20) s"
  have t: "dialog_ok t" "rt_lock t = (\<lambda>k. k = Sci)" "rt_maxrate t = 60" "cl_out t = cl_out s"
    "vals t = (vals s)(Tax := 20)"
    using assms vals_moved [OF assms(1)] by (simp_all add: t_def moved_ok clamped_def)
  have r: "settled t Lux Sci = (\<lambda>k. case k of Tax \<Rightarrow> 20 | Lux \<Rightarrow> 60 | Sci \<Rightarrow> 0)"
    by (rule ext) (simp add: settled_def adjusted_def total_def tens_def t assms(4) split: rate.split)
  have u: "user_moves Tax (Some 20) s = input_shown Tax (update_rates Tax Lux Sci (onchange 1) t)"
    by (simp add: user_moves_shape [OF assms(1)] assms(4) t_def del: onchange.simps)
  show ?thesis
    using update_rates_outcome [OF t(1), of Tax Lux Sci 1]
    by (auto simp: u t r total_def clamped_def tens_def assms(4) fun_eq_iff split: rate.split)
qed

end
