(* ===== verification/Map_Images.thy ===== *)
theory Map_Images
  imports Map_Packets Js_Text
begin

text \<open>
  \<open>webgl/borders.js\<close>, \<open>webgl/roads.js\<close> and \<open>webgl/map_tiletype.js\<close>: three images of the map with
  four bytes per tile, which the shaders of the 3D view read.  An image is a typed array, so a
  number is stored modulo 256, a write outside does nothing, and \<open>im_needsUpdate\<close> is the flag that
  makes the renderer upload it.  A tile that is not there throws (\<open>ptile.x\<close> of \<open>undefined\<close>).
\<close>

record image =
  im_bytes :: "8 word list"
  im_needsUpdate :: bool

type_synonym pixel = "int \<times> int \<times> int"

definition image_index :: "map_info \<Rightarrow> int \<Rightarrow> int \<Rightarrow> int" where
  "image_index m x y = (y * m_xsize m + x) * 4"

definition put_byte :: "int \<Rightarrow> int \<Rightarrow> 8 word list \<Rightarrow> 8 word list" where
  "put_byte i v bs = (if 0 \<le> i \<and> i < int (length bs) then bs[nat i := word_of_int v] else bs)"

definition get_byte :: "8 word list \<Rightarrow> int \<Rightarrow> int" where
  "get_byte bs i = uint (bs ! nat i)"

definition put_pixel :: "int \<Rightarrow> pixel \<Rightarrow> 8 word list \<Rightarrow> 8 word list" where
  "put_pixel i c bs = (case c of (r, g, b) \<Rightarrow> put_byte (i + 2) b (put_byte (i + 1) g (put_byte i r bs)))"

definition byte_sum :: "8 word list \<Rightarrow> int \<Rightarrow> int" where
  "byte_sum bs i = get_byte bs i + get_byte bs (i + 1) + get_byte bs (i + 2)"

text \<open>The loops of the \<open>init\<close> functions set every tile to one colour.\<close>

definition init_image :: "map_info \<Rightarrow> int \<Rightarrow> int \<Rightarrow> image" where
  "init_image m r a =
     \<lparr>im_bytes = concat (replicate (nat (m_xsize m * m_ysize m)) [word_of_int r, 0, 0, word_of_int a]),
      im_needsUpdate = False\<rparr>"

definition init_borders_image :: "map_info \<Rightarrow> image" where
  "init_borders_image m = init_image m 142 255"

definition init_roads_image :: "map_info \<Rightarrow> image" where
  "init_roads_image m = init_image m 0 255"

definition init_map_tiletype_image :: "map_info \<Rightarrow> image" where
  "init_map_tiletype_image m = init_image m 0 0"

text \<open>A change is only noticed by the sum of the three bytes.\<close>

definition recolour :: "int \<Rightarrow> pixel \<Rightarrow> image \<Rightarrow> image" where
  "recolour i c im =
     (let bs = put_pixel i c (im_bytes im)
      in \<lparr>im_bytes = bs,
          im_needsUpdate = (im_needsUpdate im \<or> byte_sum bs i \<noteq> byte_sum (im_bytes im) i)\<rparr>)"

subsection \<open>Borders\<close>

text \<open>\<open>parseInt\<close> on the unsigned numbers of a colour: leading blanks, then digits; \<open>None\<close> is NaN, which
  a byte stores as 0.\<close>

definition parse_number :: "string \<Rightarrow> int option" where
  "parse_number t =
     (let ds = takeWhile is_digit (dropWhile is_space t)
      in if ds = [] then None else Some (int (text_nat 0 ds)))"

fun split_commas :: "string \<Rightarrow> string list" where
  "split_commas [] = [[]]"
| "split_commas (c # cs) =
     (if c = CHR '','' then [] # split_commas cs
      else (case split_commas cs of [] \<Rightarrow> [[c]] | w # ws \<Rightarrow> (c # w) # ws))"

fun without_first :: "string \<Rightarrow> string \<Rightarrow> string" where
  "without_first p [] = []"
| "without_first p (c # cs) =
     (if starts_with p (c # cs) then drop (length p) (c # cs) else c # without_first p cs)"

text \<open>The part of the colour, times 0.65, without its fraction.\<close>

definition dimmed :: "string list \<Rightarrow> nat \<Rightarrow> int" where
  "dimmed parts k =
     (if k < length parts then (case parse_number (parts ! k) of None \<Rightarrow> 0 | Some n \<Rightarrow> n * 65 div 100) else 0)"

definition nation_pixel :: "string \<Rightarrow> pixel" where
  "nation_pixel colour =
     (let parts = split_commas (without_first '')'' (without_first ''rgb('' colour))
      in (dimmed parts 0, dimmed parts 2, dimmed parts 1))"

text \<open>\<open>colours\<close> are the \<open>color\<close> fields of the nations.\<close>

definition border_pixel :: "(int \<Rightarrow> string option) \<Rightarrow> 'a client_scheme \<Rightarrow> tile \<Rightarrow> pixel option" where
  "border_pixel colours s ptile =
     (case t_owner ptile of
        Some owner \<Rightarrow>
          if owner < 255 then do {
            pplayer \<leftarrow> st_get (cl_players s) owner;
            _ \<leftarrow> st_get (cl_nations s) (p_nation pplayer);
            Some (case colours (p_nation pplayer) of Some c \<Rightarrow> nation_pixel c | None \<Rightarrow> (142, 0, 0))
          }
          else Some (142, 0, 0)
      | None \<Rightarrow> Some (142, 0, 0))"

definition tile_index_of :: "map_info \<Rightarrow> tile \<Rightarrow> int option" where
  "tile_index_of m ptile =
     (case (t_x ptile, t_y ptile) of (Some x, Some y) \<Rightarrow> Some (image_index m x y) | _ \<Rightarrow> None)"

definition update_borders_tile :: "(int \<Rightarrow> string option) \<Rightarrow> 'a client_scheme \<Rightarrow> tile option \<Rightarrow> image \<Rightarrow> image option" where
  "update_borders_tile colours s ptile im = do {
     t \<leftarrow> ptile;
     c \<leftarrow> border_pixel colours s t;
     Some (case tile_index_of (cl_map s) t of None \<Rightarrow> im\<lparr>im_needsUpdate := True\<rparr> | Some i \<Rightarrow> recolour i c im)
   }"

definition border_image_color :: "'a client_scheme \<Rightarrow> int \<Rightarrow> int \<Rightarrow> int" where
  "border_image_color s map_x map_y =
     (if map_x > m_xsize (cl_map s) \<or> map_y > m_ysize (cl_map s) then 0
      else case map_pos_to_tile (cl_map s) (cl_tiles s) map_x map_y of
             None \<Rightarrow> 0
           | Some t \<Rightarrow> (case t_owner t of Some owner \<Rightarrow> if owner < 255 then 1 + owner else 0 | None \<Rightarrow> 0))"

subsection \<open>Roads\<close>

definition extra_in_dir :: "'a client_scheme \<Rightarrow> tile \<Rightarrow> int \<Rightarrow> int \<Rightarrow> bool" where
  "extra_in_dir s ptile extra dir =
     tile_has_extra (mapstep (cl_map s) (cl_tiles s) ptile dir) extra"

text \<open>
  The first loop, over the directions 1, 3, 4, 6: \<open>Inr\<close> is the early return for a crossing.  The
  colour of a direction goes to the slot of the count so far.
\<close>

definition set_slot :: "nat \<Rightarrow> int \<Rightarrow> int list \<Rightarrow> int list" where
  "set_slot n v slots = slots[n := v]"

fun straight_loop :: "(int \<Rightarrow> bool) \<Rightarrow> int \<Rightarrow> (int \<Rightarrow> int) \<Rightarrow> int list \<Rightarrow> nat \<times> int list \<Rightarrow> (nat \<times> int list) + int" where
  "straight_loop has cross colour [] (n, slots) = Inl (n, slots)"
| "straight_loop has cross colour (dir # dirs) (n, slots) =
     (if has dir then
        (if Suc n > 2 then (if has 6 then Inr cross else Inl (Suc n, set_slot n (colour dir) slots))
         else straight_loop has cross colour dirs (Suc n, set_slot n (colour dir) slots))
      else straight_loop has cross colour dirs (n, slots))"

text \<open>The second loop, over 0, 2, 5, 7; a slot past the third is stored and not returned.\<close>

fun diagonal_loop :: "(int \<Rightarrow> bool) \<Rightarrow> (int \<Rightarrow> int) \<Rightarrow> int list \<Rightarrow> nat \<times> int list \<Rightarrow> int list" where
  "diagonal_loop has colour [] (n, slots) = slots"
| "diagonal_loop has colour (dir # dirs) (n, slots) =
     (if has dir then
        (if Suc n > 2 then set_slot n (colour dir) slots
         else diagonal_loop has colour dirs (Suc n, set_slot n (colour dir) slots))
      else diagonal_loop has colour dirs (n, slots))"

definition road_colour :: "int \<Rightarrow> int" where
  "road_colour dir = (if dir = 1 then 2 else if dir = 3 then 8 else if dir = 4 then 4 else if dir = 6 then 6
     else if dir = 0 then 9 else if dir = 2 then 3 else if dir = 5 then 7 else 5)"

definition rail_colour :: "int \<Rightarrow> int" where
  "rail_colour dir = (if dir = 1 then 12 else if dir = 3 then 18 else if dir = 4 then 14 else if dir = 6 then 16
     else if dir = 0 then 19 else if dir = 2 then 13 else if dir = 5 then 17 else 15)"

definition path_pixel :: "(int \<Rightarrow> bool) \<Rightarrow> int \<Rightarrow> int \<Rightarrow> (int \<Rightarrow> int) \<Rightarrow> pixel" where
  "path_pixel has single cross colour =
     (case straight_loop has cross colour [1, 3, 4, 6] (0, [single, 0, 0]) of
        Inr c \<Rightarrow> (c, 0, 0)
      | Inl ns \<Rightarrow> (let r = diagonal_loop has colour [0, 2, 5, 7] ns in (r ! 0, r ! 1, r ! 2)))"

definition road_image_color :: "'a client_scheme \<Rightarrow> int \<Rightarrow> int \<Rightarrow> pixel" where
  "road_image_color s map_x map_y =
     (case map_pos_to_tile (cl_map s) (cl_tiles s) map_x map_y of
        None \<Rightarrow> (0, 0, 0)
      | Some t \<Rightarrow>
          (let rail = rs_EXTRA_RAIL (cl_ruleset s); road = rs_EXTRA_ROAD (cl_ruleset s)
           in if tile_has_extra (Some t) rail then path_pixel (extra_in_dir s t rail) 10 43 rail_colour
              else if tile_has_extra (Some t) road then path_pixel (extra_in_dir s t road) 1 42 road_colour
              else (0, 0, 0)))"

text \<open>\<open>update_roads_tile(ptile, false)\<close> at a position.\<close>

definition update_roads_one :: "'a client_scheme \<Rightarrow> int \<times> int \<Rightarrow> image \<Rightarrow> image" where
  "update_roads_one s p im =
     (case p of (x, y) \<Rightarrow> recolour (image_index (cl_map s) x y) (road_image_color s x y) im)"

definition neighbours8 :: "int \<times> int \<Rightarrow> (int \<times> int) list" where
  "neighbours8 p =
     (case p of (x, y) \<Rightarrow> [(x - 1, y - 1), (x - 1, y), (x - 1, y + 1), (x, y - 1), (x, y + 1),
        (x + 1, y - 1), (x + 1, y), (x + 1, y + 1)])"

text \<open>The loop over the neighbours; a position of the map that has no tile throws.\<close>

fun roads_loop :: "'a client_scheme \<Rightarrow> (int \<times> int) list \<Rightarrow> image \<Rightarrow> image option" where
  "roads_loop s [] im = Some im"
| "roads_loop s ((x, y) # ps) im =
     (if x < 0 \<or> x \<ge> m_xsize (cl_map s) \<or> y < 0 \<or> y \<ge> m_ysize (cl_map s) then roads_loop s ps im
      else case map_pos_to_tile (cl_map s) (cl_tiles s) x y of
             None \<Rightarrow> None
           | Some t \<Rightarrow> (case (t_x t, t_y t) of
                 (Some tx, Some ty) \<Rightarrow> roads_loop s ps (update_roads_one s (tx, ty) im)
               | _ \<Rightarrow> roads_loop s ps (im\<lparr>im_needsUpdate := True\<rparr>)))"

text \<open>A tile without coordinates: its neighbours at NaN have no tile, which throws.\<close>

definition update_roads_tile :: "'a client_scheme \<Rightarrow> tile option \<Rightarrow> image \<Rightarrow> image option" where
  "update_roads_tile s ptile im = do {
     t \<leftarrow> ptile;
     x \<leftarrow> t_x t;
     y \<leftarrow> t_y t;
     roads_loop s (neighbours8 (x, y)) (update_roads_one s (x, y) im)
   }"

subsection \<open>Tile types\<close>

text \<open>The ids of the two irrigation extras are globals of the ruleset packets.\<close>

definition tiletype_pixel :: "int \<Rightarrow> int \<Rightarrow> 'a client_scheme \<Rightarrow> tile \<Rightarrow> pixel option" where
  "tiletype_pixel farmland irrigation s ptile =
     map_option (\<lambda>terrain.
        (te_id terrain * 10,
         if tile_has_extra (Some ptile) (rs_EXTRA_RIVER (cl_ruleset s)) then 10 else 0,
         if tile_has_extra (Some ptile) farmland then 2
         else if tile_has_extra (Some ptile) irrigation then 1 else 0))
       (tile_terrain (rs_terrains (cl_ruleset s)) ptile)"

definition update_tiletypes_tile :: "int \<Rightarrow> int \<Rightarrow> 'a client_scheme \<Rightarrow> tile option \<Rightarrow> image \<Rightarrow> image" where
  "update_tiletypes_tile farmland irrigation s ptile im =
     (case ptile of None \<Rightarrow> im
      | Some t \<Rightarrow> (case tiletype_pixel farmland irrigation s t of
            None \<Rightarrow> im
          | Some c \<Rightarrow> (case tile_index_of (cl_map s) t of
                None \<Rightarrow> im\<lparr>im_needsUpdate := True\<rparr>
              | Some i \<Rightarrow> \<lparr>im_bytes = put_pixel i c (im_bytes im), im_needsUpdate = True\<rparr>)))"

subsection \<open>The images as the tile packets change them\<close>

record map_images =
  mi_borders :: image
  mi_roads :: image
  mi_tiletypes :: image

definition init_images :: "map_info \<Rightarrow> map_images" where
  "init_images m = \<lparr>mi_borders = init_borders_image m, mi_roads = init_roads_image m,
     mi_tiletypes = init_map_tiletype_image m\<rparr>"

text \<open>The last three calls of \<open>handle_tile_info\<close>, with the tiles the packet left.\<close>

definition tile_images :: "(int \<Rightarrow> string option) \<Rightarrow> int \<Rightarrow> int \<Rightarrow> 'a client_scheme \<Rightarrow> int \<Rightarrow> map_images \<Rightarrow> map_images option" where
  "tile_images colours farmland irrigation s i im = do {
     b \<leftarrow> update_borders_tile colours s (st_get (cl_tiles s) i) (mi_borders im);
     r \<leftarrow> update_roads_tile s (st_get (cl_tiles s) i) (mi_roads im);
     Some \<lparr>mi_borders = b, mi_roads = r,
           mi_tiletypes = update_tiletypes_tile farmland irrigation s (st_get (cl_tiles s) i) (mi_tiletypes im)\<rparr>
   }"

definition handle_tile_info_images ::
  "(int \<Rightarrow> string option) \<Rightarrow> int \<Rightarrow> int \<Rightarrow> tile_packet \<Rightarrow> 'a packet_client_scheme \<times> map_images
     \<Rightarrow> ('a packet_client_scheme \<times> map_images) option" where
  "handle_tile_info_images colours farmland irrigation p st = do {
     s \<leftarrow> handle_tile_info p (fst st);
     im \<leftarrow> (if pk_tiles_initialized (fst st) then tile_images colours farmland irrigation s (tp_tile p) (snd st)
           else Some (snd st));
     Some (s, im)
   }"

end
