(* ===== verification/Map_Images_Facts.thy ===== *)
theory Map_Images_Facts
  imports Map_Images Geometry_Facts Map_Packets_Facts Object_Facts
begin

text \<open>
  The roads image against \<open>road_image_color\<close>: after every tile packet away from the first and the
  last column each pixel is what the function gives for the tiles as they are now; across these two
  columns the map wraps and the update does not.  And a change that keeps the sum of the three bytes
  is stored but never uploaded.
\<close>

subsection \<open>Bytes and pixels\<close>

definition pixel_at :: "8 word list \<Rightarrow> int \<Rightarrow> pixel" where
  "pixel_at bs i = (get_byte bs i, get_byte bs (i + 1), get_byte bs (i + 2))"

definition byte_pixel :: "pixel \<Rightarrow> bool" where
  "byte_pixel c = (case c of (r, g, b) \<Rightarrow> {r, g, b} \<subseteq> {0..<256})"

lemma length_put_pixel [simp]: "length (put_pixel i c bs) = length bs"
  by (simp add: put_pixel_def put_byte_def split: prod.split)

lemma get_put_byte:
  "0 \<le> i \<Longrightarrow> i < int (length bs) \<Longrightarrow> 0 \<le> j \<Longrightarrow>
     get_byte (put_byte i v bs) j = (if j = i then v mod 256 else get_byte bs j)"
  by (auto simp: get_byte_def put_byte_def nth_list_update nat_eq_iff uint_word_of_int)

lemma length_put_byte [simp]: "length (put_byte i v bs) = length bs"
  by (simp add: put_byte_def)

lemma pixel_put:
  assumes "4 dvd i" "4 dvd j" "0 \<le> i" "i + 3 < int (length bs)" "0 \<le> j" "byte_pixel c"
  shows "pixel_at (put_pixel i c bs) j = (if j = i then c else pixel_at bs j)"
proof -
  obtain r g b where c: "c = (r, g, b)" by (cases c)
  have "j \<noteq> i \<Longrightarrow> j + a \<noteq> i + k" if "0 \<le> a" "a < 4" "0 \<le> k" "k < 4" for a k
    using assms(1,2) that by presburger
  from this [of 0 1] this [of 0 2] this [of 1 0] this [of 1 2] this [of 2 0] this [of 2 1] this [of 1 1] this [of 2 2]
  show ?thesis using assms
    by (simp add: c pixel_at_def put_pixel_def get_put_byte byte_pixel_def)
qed

definition image_fits :: "map_info \<Rightarrow> image \<Rightarrow> bool" where
  "image_fits m im = (int (length (im_bytes im)) = 4 * m_xsize m * m_ysize m)"

lemma image_index_fits:
  assumes "image_fits m im" "on_map m x y"
  shows "4 dvd image_index m x y" "0 \<le> image_index m x y" "image_index m x y + 3 < int (length (im_bytes im))"
proof -
  have "y * m_xsize m + x < m_ysize m * m_xsize m"
  proof -
    have "(y + 1) * m_xsize m \<le> m_ysize m * m_xsize m" using assms(2) by (intro mult_right_mono) auto
    then show ?thesis using assms(2) by (simp add: algebra_simps)
  qed
  then show "image_index m x y + 3 < int (length (im_bytes im))"
    using assms(1) by (simp add: image_fits_def image_index_def mult.commute mult.left_commute)
  show "4 dvd image_index m x y" "0 \<le> image_index m x y" using assms(2) by (simp_all add: image_index_def)
qed

lemma image_index_inject:
  assumes "on_map m x y" "on_map m x' y'"
  shows "image_index m x y = image_index m x' y' \<longleftrightarrow> x = x' \<and> y = y'"
  using index_unique [of x "m_xsize m" x' y y'] assms by (auto simp: image_index_def add.commute)

abbreviation map_pixel :: "map_info \<Rightarrow> image \<Rightarrow> int \<Rightarrow> int \<Rightarrow> pixel" where
  "map_pixel m im x y \<equiv> pixel_at (im_bytes im) (image_index m x y)"

lemma recolour_fits [simp]: "image_fits m (recolour i c im) = image_fits m im"
  by (simp add: image_fits_def recolour_def Let_def)

lemma recolour_pixel:
  assumes "image_fits m im" "on_map m x y" "on_map m x' y'" "byte_pixel c"
  shows "map_pixel m (recolour (image_index m x y) c im) x' y' = (if x' = x \<and> y' = y then c else map_pixel m im x' y')"
  using pixel_put [OF image_index_fits(1) [OF assms(1,2)] image_index_fits(1) [OF assms(1,3)]
      image_index_fits(2,3) [OF assms(1,2)] image_index_fits(2) [OF assms(1,3)] assms(4)]
  by (auto simp: recolour_def Let_def image_index_inject [OF assms(3,2)])

subsection \<open>Colours are bytes\<close>

definition byte_slots :: "int list \<Rightarrow> bool" where
  "byte_slots r = (length r = 3 \<and> set r \<subseteq> {0..<256})"

lemma set_slot_bytes: "byte_slots r \<Longrightarrow> 0 \<le> v \<Longrightarrow> v < 256 \<Longrightarrow> byte_slots (set_slot n v r)"
  using set_update_subset_insert [of r n v] by (auto simp: byte_slots_def set_slot_def)

lemma straight_loop_bytes:
  assumes "\<And>d. 0 \<le> colour d \<and> colour d < 256" "byte_slots (snd ns)"
  shows "case straight_loop has cross colour dirs ns of Inl ns' \<Rightarrow> byte_slots (snd ns') | Inr c \<Rightarrow> c = cross"
  using assms
  by (induction has cross colour dirs ns rule: straight_loop.induct) (auto simp: set_slot_bytes)

lemma diagonal_loop_bytes:
  assumes "\<And>d. 0 \<le> colour d \<and> colour d < 256" "byte_slots (snd ns)"
  shows "byte_slots (diagonal_loop has colour dirs ns)"
  using assms
  by (induction has colour dirs ns rule: diagonal_loop.induct) (auto simp: set_slot_bytes)

lemma byte_slots_pixel: "byte_slots r \<Longrightarrow> byte_pixel (r ! 0, r ! 1, r ! 2)"
  by (auto simp: byte_slots_def byte_pixel_def length_Suc_conv eval_nat_numeral)

lemma path_pixel_bytes:
  assumes "\<And>d. 0 \<le> colour d \<and> colour d < 256" "0 \<le> single" "single < 256" "0 \<le> cross" "cross < 256"
  shows "byte_pixel (path_pixel has single cross colour)"
proof -
  have "byte_slots (snd (0 :: nat, [single, 0, 0]))" using assms by (simp add: byte_slots_def)
  from straight_loop_bytes [where has = has and cross = cross and dirs = "[1, 3, 4, 6]", OF assms(1) this]
  have loop: "case straight_loop has cross colour [1, 3, 4, 6] (0, [single, 0, 0]) of
      Inl ns' \<Rightarrow> byte_slots (snd ns') | Inr c \<Rightarrow> c = cross" .
  show ?thesis
  proof (cases "straight_loop has cross colour [1, 3, 4, 6] (0, [single, 0, 0])")
    case (Inl ns)
    then have "byte_slots (diagonal_loop has colour [0, 2, 5, 7] ns)"
      using loop diagonal_loop_bytes [OF assms(1)] by simp
    then show ?thesis unfolding path_pixel_def Inl by (simp add: Let_def byte_slots_pixel del: One_nat_def)
  next
    case (Inr c)
    then show ?thesis using loop assms(4,5) unfolding path_pixel_def Inr by (simp add: byte_pixel_def)
  qed
qed

lemma road_colours: "0 \<le> road_colour d \<and> road_colour d < 256" "0 \<le> rail_colour d \<and> rail_colour d < 256"
  by (simp_all add: road_colour_def rail_colour_def)

lemma byte_pixel_zero: "byte_pixel (0, 0, 0)"
  by (simp add: byte_pixel_def)

lemma road_image_bytes: "byte_pixel (road_image_color s x y)"
  by (simp add: road_image_color_def Let_def path_pixel_bytes road_colours byte_pixel_zero split: option.split)

subsection \<open>What a road colour depends on\<close>

definition same_paths :: "'a client_scheme \<Rightarrow> tile option \<Rightarrow> tile option \<Rightarrow> bool" where
  "same_paths s t t' = (tile_has_extra t (rs_EXTRA_RAIL (cl_ruleset s)) = tile_has_extra t' (rs_EXTRA_RAIL (cl_ruleset s))
     \<and> tile_has_extra t (rs_EXTRA_ROAD (cl_ruleset s)) = tile_has_extra t' (rs_EXTRA_ROAD (cl_ruleset s)))"

lemma tile_at:
  assumes "allocated m ts" "on_map m x y"
  obtains t where "at_pos m ts t x y" "map_pos_to_tile m ts x y = Some t"
proof -
  obtain t where t: "st_get ts (x + y * m_xsize m) = Some t" using assms unfolding allocated_def by blast
  with assms(1) obtain x' y' where "on_map m x' y'" "x + y * m_xsize m = x' + y' * m_xsize m"
      "t_x t = Some x'" "t_y t = Some y'" "t_index t = x + y * m_xsize m"
    unfolding allocated_def by blast
  then have "t_x t = Some x" "t_y t = Some y" "t_index t = x + y * m_xsize m"
    using index_unique [of x "m_xsize m" x' y y'] assms(2) by simp_all
  with t assms(2) show ?thesis by (intro that [of t]) (simp_all add: map_pos_to_tile_def)
qed

lemma road_color_local:
  assumes "cl_map s' = cl_map s" "cl_ruleset s' = cl_ruleset s"
    and t: "map_pos_to_tile (cl_map s) (cl_tiles s) x y = Some t"
    and t': "map_pos_to_tile (cl_map s) (cl_tiles s') x y = Some t'"
    and "same_paths s (Some t) (Some t')"
    and "\<And>d. same_paths s (mapstep (cl_map s) (cl_tiles s) t d) (mapstep (cl_map s) (cl_tiles s') t' d)"
  shows "road_image_color s' x y = road_image_color s x y"
proof -
  have "extra_in_dir s' t' e d = extra_in_dir s t e d"
    if "e = rs_EXTRA_RAIL (cl_ruleset s) \<or> e = rs_EXTRA_ROAD (cl_ruleset s)" for e d
    using assms(1) assms(6) [of d] that by (auto simp: extra_in_dir_def same_paths_def)
  then have "extra_in_dir s' t' (rs_EXTRA_RAIL (cl_ruleset s)) = extra_in_dir s t (rs_EXTRA_RAIL (cl_ruleset s))"
    "extra_in_dir s' t' (rs_EXTRA_ROAD (cl_ruleset s)) = extra_in_dir s t (rs_EXTRA_ROAD (cl_ruleset s))"
    by (auto simp: fun_eq_iff)
  with assms show ?thesis by (simp add: road_image_color_def same_paths_def Let_def)
qed

lemma tile_has_extra_cong: "map_option t_extras a = map_option t_extras b \<Longrightarrow> tile_has_extra a e = tile_has_extra b e"
  by (cases a; cases b) (auto simp: tile_has_extra_def)

text \<open>A tile whose neighbours in the eight directions do not include the changed one keeps its colour.\<close>

lemma road_color_far:
  assumes al: "allocated (cl_map s) (cl_tiles s)" and al': "allocated (cl_map s) (cl_tiles s')"
    and same: "cl_map s' = cl_map s" "cl_ruleset s' = cl_ruleset s"
    and other: "\<And>k. k \<noteq> px + py * m_xsize (cl_map s) \<Longrightarrow> st_get (cl_tiles s') k = st_get (cl_tiles s) k"
    and p: "0 < px" "px < m_xsize (cl_map s) - 1" "0 \<le> py" "py < m_ysize (cl_map s)"
    and q: "on_map (cl_map s) x y" "(x, y) \<noteq> (px, py)" "(x, y) \<notin> set (neighbours8 (px, py))"
  shows "road_image_color s' x y = road_image_color s x y"
proof -
  let ?m = "cl_map s" and ?w = "m_xsize (cl_map s)"
  have w: "0 < ?w" using p by simp
  have key: "a + b * ?w \<noteq> px + py * ?w" if "0 \<le> a" "a < ?w" "(a, b) \<noteq> (px, py)" for a b
    using index_unique [of a ?w px b py] that p by auto
  obtain t where t: "at_pos ?m (cl_tiles s) t x y" "map_pos_to_tile ?m (cl_tiles s) x y = Some t"
    using tile_at [OF al q(1)] by blast
  have get': "st_get (cl_tiles s') (x + y * ?w) = Some t"
    using other key [of x y] q t(1) by simp
  have pos': "map_pos_to_tile ?m (cl_tiles s') x y = Some t"
    using get' q(1) by (simp add: map_pos_to_tile_def)
  have at: "at_pos ?m (cl_tiles s) t x y" "at_pos ?m (cl_tiles s') t x y"
    using t(1) get' by simp_all
  have "mapstep ?m (cl_tiles s') t d = mapstep ?m (cl_tiles s) t d" for d
  proof (cases "is_valid_dir ?m d")
    case False
    then show ?thesis by (simp add: mapstep_def)
  next
    case True
    have b: "\<bar>DIR_DX ! nat d\<bar> \<le> 1" "\<bar>DIR_DY ! nat d\<bar> \<le> 1"
      using dir_vectors_bound is_valid_dir_range [OF True] by blast+
    have "((x + DIR_DX ! nat d) mod ?w, y + DIR_DY ! nat d) \<noteq> (px, py)"
    proof
      assume eq: "((x + DIR_DX ! nat d) mod ?w, y + DIR_DY ! nat d) = (px, py)"
      consider "x + DIR_DX ! nat d = - 1" | "x + DIR_DX ! nat d = ?w"
        | "0 \<le> x + DIR_DX ! nat d" "x + DIR_DX ! nat d < ?w"
        using b q(1) by linarith
      then have "x + DIR_DX ! nat d = px"
      proof cases
        case 1
        then have "(x + DIR_DX ! nat d) mod ?w = ?w - 1" using w by (simp add: zmod_minus1)
        then show ?thesis using eq p by simp
      next
        case 2
        then show ?thesis using eq p by simp
      next
        case 3
        then show ?thesis using eq by simp
      qed
      then have "x = px - DIR_DX ! nat d" "y = py - DIR_DY ! nat d" using eq by simp_all
      moreover have "DIR_DX ! nat d \<in> {-1, 0, 1}" "DIR_DY ! nat d \<in> {-1, 0, 1}" using b by auto
      ultimately show False using q(2,3) by (auto simp: neighbours8_def)
    qed
    then have "(x + DIR_DX ! nat d) mod ?w + (y + DIR_DY ! nat d) * ?w \<noteq> px + py * ?w"
      using w by (intro key) simp_all
    then show ?thesis
      by (simp add: mapstep_at [OF al at(1) True w] mapstep_at [OF al' at(2) True w] other)
  qed
  then show ?thesis
    using t(2) pos' same by (intro road_color_local [where t = t and t' = t]) (simp_all add: same_paths_def)
qed

subsection \<open>One update of the roads image\<close>

definition roads_current :: "'a client_scheme \<Rightarrow> image \<Rightarrow> bool" where
  "roads_current s im = (image_fits (cl_map s) im
     \<and> (\<forall>x y. on_map (cl_map s) x y \<longrightarrow> map_pixel (cl_map s) im x y = road_image_color s x y))"

lemma update_roads_one_fits [simp]: "image_fits m (update_roads_one s p im) = image_fits m im"
  by (cases p) (simp add: update_roads_one_def)

lemma update_roads_one_pixel:
  assumes "image_fits (cl_map s) im" "on_map (cl_map s) x y" "on_map (cl_map s) x' y'"
  shows "map_pixel (cl_map s) (update_roads_one s (x, y) im) x' y'
    = (if x' = x \<and> y' = y then road_image_color s x y else map_pixel (cl_map s) im x' y')"
  by (simp add: update_roads_one_def recolour_pixel [OF assms road_image_bytes])

text \<open>The loop sets every position of the list that is on the map, and throws nowhere.\<close>

lemma roads_loop_off_map:
  "\<not> on_map (cl_map s) x y \<Longrightarrow> roads_loop s ((x, y) # ps) im = roads_loop s ps im"
  by auto

lemma roads_loop_on_map:
  assumes "allocated (cl_map s) (cl_tiles s)" "on_map (cl_map s) x y"
  shows "roads_loop s ((x, y) # ps) im = roads_loop s ps (update_roads_one s (x, y) im)"
proof -
  obtain t where "at_pos (cl_map s) (cl_tiles s) t x y" "map_pos_to_tile (cl_map s) (cl_tiles s) x y = Some t"
    using tile_at [OF assms] by blast
  then show ?thesis by simp
qed

lemma roads_loop_pixels:
  assumes al: "allocated (cl_map s) (cl_tiles s)" and "image_fits (cl_map s) im"
  shows "\<exists>im'. roads_loop s ps im = Some im' \<and> image_fits (cl_map s) im'
     \<and> (\<forall>x y. on_map (cl_map s) x y \<longrightarrow> map_pixel (cl_map s) im' x y
          = (if (x, y) \<in> set ps then road_image_color s x y else map_pixel (cl_map s) im x y))"
  using assms(2)
proof (induction ps arbitrary: im)
  case Nil
  then show ?case by simp
next
  case (Cons p ps)
  obtain a b where p: "p = (a, b)" by (cases p)
  show ?case
  proof (cases "on_map (cl_map s) a b")
    case False
    from Cons.IH [OF Cons.prems] False show ?thesis
      unfolding p roads_loop_off_map [OF False] by fastforce
  next
    case True
    have "image_fits (cl_map s) (update_roads_one s (a, b) im)" using Cons.prems by simp
    from Cons.IH [OF this] obtain im' where im': "roads_loop s ps (update_roads_one s (a, b) im) = Some im'"
      "image_fits (cl_map s) im'"
      "\<And>x y. on_map (cl_map s) x y \<Longrightarrow> map_pixel (cl_map s) im' x y
          = (if (x, y) \<in> set ps then road_image_color s x y
             else map_pixel (cl_map s) (update_roads_one s (a, b) im) x y)" by blast
    show ?thesis unfolding p roads_loop_on_map [OF al True]
      by (rule exI [of _ im']) (use im' update_roads_one_pixel [OF Cons.prems True] in auto)
  qed
qed

text \<open>The image stays current when a tile away from the first and last column changes.\<close>

lemma update_roads_current:
  assumes cur: "roads_current s im"
    and al: "allocated (cl_map s) (cl_tiles s)" and al': "allocated (cl_map s) (cl_tiles s')"
    and same: "cl_map s' = cl_map s" "cl_ruleset s' = cl_ruleset s"
    and other: "\<And>k. k \<noteq> px + py * m_xsize (cl_map s) \<Longrightarrow> st_get (cl_tiles s') k = st_get (cl_tiles s) k"
    and p: "0 < px" "px < m_xsize (cl_map s) - 1" "0 \<le> py" "py < m_ysize (cl_map s)"
  shows "\<exists>im'. update_roads_tile s' (st_get (cl_tiles s') (px + py * m_xsize (cl_map s))) im = Some im'
     \<and> roads_current s' im'"
proof -
  let ?m = "cl_map s"
  have on: "on_map ?m px py" using p by auto
  have fits: "image_fits ?m im" using cur by (simp add: roads_current_def)
  have alm: "allocated (cl_map s') (cl_tiles s')" using al' same by simp
  obtain t where t: "at_pos ?m (cl_tiles s') t px py" using tile_at [OF al' on] by blast
  have fits1: "image_fits (cl_map s') (update_roads_one s' (px, py) im)" using fits same by simp
  obtain im' where im': "roads_loop s' (neighbours8 (px, py)) (update_roads_one s' (px, py) im) = Some im'"
    "image_fits (cl_map s') im'"
    "\<And>x y. on_map ?m x y \<Longrightarrow> map_pixel ?m im' x y
        = (if (x, y) \<in> set (neighbours8 (px, py)) then road_image_color s' x y
           else map_pixel ?m (update_roads_one s' (px, py) im) x y)"
    using roads_loop_pixels [OF alm fits1, of "neighbours8 (px, py)"] same by auto
  have "map_pixel ?m im' x y = road_image_color s' x y" if q: "on_map ?m x y" for x y
  proof -
    have one: "map_pixel ?m (update_roads_one s' (px, py) im) x y
      = (if x = px \<and> y = py then road_image_color s' px py else map_pixel ?m im x y)"
      using update_roads_one_pixel [of s' im px py x y] fits on q same by simp
    show ?thesis
    proof (cases "(x, y) \<in> set (neighbours8 (px, py)) \<or> (x, y) = (px, py)")
      case True
      then show ?thesis using im'(3) [OF q] one by auto
    next
      case False
      have "road_image_color s' x y = road_image_color s x y"
        by (rule road_color_far [OF al al' same other p q]) (use False in auto)
      then show ?thesis using im'(3) [OF q] one False cur q by (auto simp: roads_current_def)
    qed
  qed
  then have "roads_current s' im'" using im'(2) same by (simp add: roads_current_def)
  moreover have "update_roads_tile s' (st_get (cl_tiles s') (px + py * m_xsize ?m)) im = Some im'"
    using t im'(1) by (simp add: update_roads_tile_def)
  ultimately show ?thesis by blast
qed

subsection \<open>Tile packets\<close>

lemma extend_tile_position:
  assumes "st_get ts k = Some t"
  shows "t_x (extend_tile (st_get ts k) u) = t_x t" "t_y (extend_tile (st_get ts k) u) = t_y t"
    "t_index (extend_tile (st_get ts k) u) = t_index t"
  using assms by (simp_all add: extend_tile_def)

lemma allocated_put_tile:
  assumes "allocated m ts" "on_map m x y"
  shows "allocated m (st_put (x + y * m_xsize m) (extend_tile (st_get ts (x + y * m_xsize m)) u) ts)"
proof -
  obtain t where t: "at_pos m ts t x y" using tile_at [OF assms] by blast
  then have "st_get ts (x + y * m_xsize m) = Some t" by simp
  note ext = extend_tile_position [OF this, of u]
  show ?thesis
    unfolding allocated_def js.get_put
  proof (intro conjI allI impI)
    fix k t'
    assume "(if k = x + y * m_xsize m then Some (extend_tile (st_get ts (x + y * m_xsize m)) u) else st_get ts k) = Some t'"
    then show "\<exists>x y. on_map m x y \<and> k = x + y * m_xsize m \<and> t_index t' = k \<and> t_x t' = Some x \<and> t_y t' = Some y"
      using assms t ext unfolding allocated_def by (cases "k = x + y * m_xsize m") auto
  next
    fix x' y'
    assume "on_map m x' y'"
    then show "(if x' + y' * m_xsize m = x + y * m_xsize m then Some (extend_tile (st_get ts (x + y * m_xsize m)) u)
        else st_get ts (x' + y' * m_xsize m)) \<noteq> None"
      using assms unfolding allocated_def by simp
  qed
qed

text \<open>A packet for a tile that is in neither the first nor the last column.\<close>

definition inner_packet :: "map_info \<Rightarrow> tile_packet \<Rightarrow> bool" where
  "inner_packet m p = (let x = tp_tile p mod m_xsize m
     in 0 < x \<and> x < m_xsize m - 1 \<and> 0 \<le> tp_tile p \<and> tp_tile p div m_xsize m < m_ysize m)"

definition images_ready :: "'a packet_client_scheme \<times> map_images \<Rightarrow> bool" where
  "images_ready st = (pk_tiles_initialized (fst st) \<and> allocated (cl_map (fst st)) (cl_tiles (fst st))
     \<and> roads_current (fst st) (mi_roads (snd st)))"

lemma tile_info_roads:
  fixes s :: "'a packet_client_scheme"
  assumes ready: "images_ready (s, im)" and inner: "inner_packet (cl_map s) p"
  shows "\<exists>s' roads. handle_tile_info p s = Some s' \<and> images_ready (s', im\<lparr>mi_roads := roads\<rparr>)
    \<and> cl_map s' = cl_map s \<and> cl_tiles s' = put_tile (cl_ruleset s) (cl_tiles s) p
    \<and> update_roads_tile s' (st_get (cl_tiles s') (tp_tile p)) (mi_roads im) = Some roads"
proof -
  let ?m = "cl_map s"
  define px py where "px = tp_tile p mod m_xsize ?m" and "py = tp_tile p div m_xsize ?m"
  have w: "0 < m_xsize ?m" using inner by (auto simp: inner_packet_def Let_def)
  have k: "tp_tile p = px + py * m_xsize ?m" by (simp add: px_def py_def)
  have pos: "0 < px" "px < m_xsize ?m - 1" "0 \<le> py" "py < m_ysize ?m"
    using inner w by (auto simp: inner_packet_def px_def py_def Let_def pos_imp_zdiv_nonneg_iff)
  have on: "on_map ?m px py" using pos by auto
  define s' where "s' = emits (tile_updates (tp_tile p) (ui_active_city s \<noteq> None))
       (s\<lparr>cl_tiles := put_tile (cl_ruleset s) (cl_tiles s) p\<rparr>)"
  have init: "pk_tiles_initialized s" and al: "allocated ?m (cl_tiles s)" and cur: "roads_current s (mi_roads im)"
    using ready by (simp_all add: images_ready_def)
  have same: "cl_map s' = ?m" "cl_ruleset s' = cl_ruleset s" "pk_tiles_initialized s'"
    "cl_tiles s' = put_tile (cl_ruleset s) (cl_tiles s) p"
    using init by (simp_all add: s'_def emits_def)
  have tiles: "cl_tiles s' = st_put (px + py * m_xsize ?m)
      (extend_tile (st_get (cl_tiles s) (px + py * m_xsize ?m)) (adjusted_tile (cl_ruleset s) p)) (cl_tiles s)"
    by (simp add: s'_def put_tile_def k)
  have al': "allocated ?m (cl_tiles s')" unfolding tiles by (rule allocated_put_tile [OF al on])
  have other: "st_get (cl_tiles s') j = st_get (cl_tiles s) j" if "j \<noteq> px + py * m_xsize ?m" for j
    using that by (simp add: tiles js.get_put)
  obtain roads where roads: "update_roads_tile s' (st_get (cl_tiles s') (tp_tile p)) (mi_roads im) = Some roads"
    "roads_current s' roads"
    using update_roads_current [OF cur al al' same(1,2) other pos] k by auto
  have info: "handle_tile_info p s = Some s'" by (simp only: tile_info_ready [OF init] s'_def)
  have ready': "images_ready (s', im\<lparr>mi_roads := roads\<rparr>)"
    using roads(2) same al' by (simp add: images_ready_def)
  show ?thesis using info ready' same(1,4) roads(1) by blast
qed

lemma tile_info_images_step:
  assumes ready: "images_ready st" and inner: "inner_packet (cl_map (fst st)) p"
    and step: "handle_tile_info_images colours f i p st = Some st'"
  shows "images_ready st' \<and> cl_map (fst st') = cl_map (fst st)"
proof -
  obtain s im where st: "st = (s, im)" by (cases st)
  have "images_ready (s, im)" "inner_packet (cl_map s) p" using ready inner by (simp_all add: st)
  from tile_info_roads [OF this] obtain s' roads where info: "handle_tile_info p s = Some s'"
    "update_roads_tile s' (st_get (cl_tiles s') (tp_tile p)) (mi_roads im) = Some roads"
    and ok: "images_ready (s', im\<lparr>mi_roads := roads\<rparr>)" "cl_map s' = cl_map s" by blast
  from step ready obtain im' where "st' = (s', im')" "mi_roads im' = roads"
    using info by (auto simp: handle_tile_info_images_def st tile_images_def bind_eq_Some_conv images_ready_def)
  then show ?thesis using ok by (simp add: images_ready_def st)
qed

lemma tile_info_images_returns:
  assumes ready: "images_ready (s, im)" and inner: "inner_packet (cl_map s) p"
    and free: "map_option t_owner (st_get (put_tile (cl_ruleset s) (cl_tiles s) p) (tp_tile p)) = Some None"
  shows "\<exists>st'. handle_tile_info_images colours f i p (s, im) = Some st'"
proof -
  from tile_info_roads [OF ready inner] obtain s' roads where info: "handle_tile_info p s = Some s'"
    "update_roads_tile s' (st_get (cl_tiles s') (tp_tile p)) (mi_roads im) = Some roads"
    and tiles: "cl_tiles s' = put_tile (cl_ruleset s) (cl_tiles s) p" by blast
  from free obtain t where "st_get (cl_tiles s') (tp_tile p) = Some t" "t_owner t = None" by (auto simp: tiles)
  then show ?thesis using info ready
    by (auto simp: handle_tile_info_images_def tile_images_def update_borders_tile_def border_pixel_def images_ready_def)
qed

primrec tile_images_run ::
  "(int \<Rightarrow> string option) \<Rightarrow> int \<Rightarrow> int \<Rightarrow> tile_packet list \<Rightarrow> 'a packet_client_scheme \<times> map_images
     \<Rightarrow> ('a packet_client_scheme \<times> map_images) option" where
  "tile_images_run colours f i [] st = Some st"
| "tile_images_run colours f i (p # ps) st =
     Option.bind (handle_tile_info_images colours f i p st) (tile_images_run colours f i ps)"

lemma tile_images_run_ready:
  assumes "images_ready st" "list_all (inner_packet (cl_map (fst st))) ps"
    and "tile_images_run colours f i ps st = Some st'"
  shows "images_ready st' \<and> cl_map (fst st') = cl_map (fst st)"
  using assms
proof (induction ps arbitrary: st)
  case Nil
  then show ?case by simp
next
  case (Cons p ps)
  from Cons.prems(3) obtain st1 where st1: "handle_tile_info_images colours f i p st = Some st1"
    "tile_images_run colours f i ps st1 = Some st'" by (auto simp: bind_eq_Some_conv)
  have step: "images_ready st1 \<and> cl_map (fst st1) = cl_map (fst st)"
    using tile_info_images_step [OF Cons.prems(1) _ st1(1)] Cons.prems(2) by simp
  then have "images_ready st' \<and> cl_map (fst st') = cl_map (fst st1)"
    using Cons.prems(2) by (intro Cons.IH st1(2)) simp_all
  with step show ?case by simp
qed

subsection \<open>A new map\<close>

lemma nth_blocks:
  "k < n \<Longrightarrow> j < 4 \<Longrightarrow> concat (replicate n [a, b, c, d]) ! (4 * k + j) = [a, b, c, d] ! j"
proof (induction n arbitrary: k)
  case 0
  then show ?case by simp
next
  case (Suc n)
  show ?case
  proof (cases k)
    case 0
    then show ?thesis using Suc.prems by (simp add: nth_append del: append_Cons append.simps)
  next
    case (Suc k')
    then have "concat (replicate (Suc n) [a, b, c, d]) ! (4 * k + j) = concat (replicate n [a, b, c, d]) ! (4 * k' + j)"
      by simp
    then show ?thesis using Suc.IH [of k'] Suc.prems Suc by simp
  qed
qed

lemma length_blocks: "length (concat (replicate n [a, b, c, d])) = 4 * n"
  by (induction n) simp_all

lemma init_roads_fits:
  assumes "0 \<le> m_xsize m" "0 \<le> m_ysize m"
  shows "image_fits m (init_roads_image m)"
  using assms by (simp add: image_fits_def init_roads_image_def init_image_def length_blocks)

lemma init_roads_pixel:
  assumes "on_map m x y"
  shows "map_pixel m (init_roads_image m) x y = (0, 0, 0)"
proof -
  define k where "k = nat (y * m_xsize m + x)"
  have "(y + 1) * m_xsize m \<le> m_ysize m * m_xsize m" using assms by (intro mult_right_mono) auto
  then have "y * m_xsize m + x < m_xsize m * m_ysize m" using assms by (simp add: algebra_simps)
  moreover have nn: "0 \<le> y * m_xsize m + x" using assms by simp
  ultimately have k: "k < nat (m_xsize m * m_ysize m)" by (simp add: k_def nat_less_iff)
  have idx: "nat (image_index m x y) = 4 * k" "nat (image_index m x y + 1) = 4 * k + 1"
    "nat (image_index m x y + 2) = 4 * k + 2"
    using nn by (simp_all add: image_index_def k_def nat_mult_distrib nat_add_distrib)
  note at = nth_blocks [OF k, of _ "0 :: 8 word" 0 0 255]
  show ?thesis
    using at [of 0] at [of 1] at [of 2]
    by (simp add: pixel_at_def get_byte_def init_roads_image_def init_image_def idx)
qed

lemma fresh_map_current:
  assumes "cl_tiles s = map_allocate (cl_map s)" "0 \<le> m_xsize (cl_map s)" "0 \<le> m_ysize (cl_map s)"
  shows "roads_current s (init_roads_image (cl_map s))"
proof -
  have "road_image_color s x y = (0, 0, 0)" if on: "on_map (cl_map s) x y" for x y
  proof -
    have "map_pos_to_tile (cl_map s) (cl_tiles s) x y = Some (tile_init (x + y * m_xsize (cl_map s)) x y)"
      using on map_allocate_get [of "cl_map s"] by (auto simp: map_pos_to_tile_def assms(1))
    then show ?thesis by (simp add: road_image_color_def tile_has_extra_def tile_init_def)
  qed
  then show ?thesis using assms(2,3) by (simp add: roads_current_def init_roads_fits init_roads_pixel)
qed

text \<open>
  C9. From the images of a new map on, after any sequence of tile packets for tiles that are in
  neither the first nor the last column, each pixel of the roads image is the colour
  \<open>road_image_color\<close> gives for the tiles as they are then: redrawing the tile and its eight
  neighbours is enough.
\<close>
theorem roads_image_follows_tiles:
  assumes "pk_tiles_initialized s" "cl_tiles s = map_allocate (cl_map s)"
    and "0 \<le> m_xsize (cl_map s)" "0 \<le> m_ysize (cl_map s)" "list_all (inner_packet (cl_map s)) ps"
    and "tile_images_run colours f i ps (s, init_images (cl_map s)) = Some (s', im')"
    and "on_map (cl_map s) x y"
  shows "map_pixel (cl_map s) (mi_roads im') x y = road_image_color s' x y"
proof -
  have "images_ready (s, init_images (cl_map s))"
    using assms(1-4) fresh_map_current
    by (simp add: images_ready_def init_images_def allocated_map_allocate)
  from tile_images_run_ready [OF this _ assms(6)] assms(5)
  have "images_ready (s', im')" "cl_map s' = cl_map s" by simp_all
  then show ?thesis using assms(7) by (simp add: images_ready_def roads_current_def)
qed

lemma height_adjust_owner: "map_tile_height_adjust m ts rs t = Some u \<Longrightarrow> t_owner u = t_owner t"
  by (auto simp: map_tile_height_adjust_def Let_def bind_eq_Some_conv split: option.splits)

lemma adjusted_tile_owner: "t_owner (adjusted_tile rs p) = tp_owner p"
  using height_adjust_owner [OF adjusted_packet] by (simp add: packet_tile_def)

definition strip_map :: map_info where
  "strip_map = \<lparr>m_topology_id = 0, m_wrap_id = 1, m_xsize = 3, m_ysize = 1\<rparr>"

definition strip_client :: game_client where
  "strip_client = game0\<lparr>pk_tiles_initialized := True, cl_map := strip_map, cl_tiles := map_allocate strip_map\<rparr>"

theorem roads_image_follows_tiles_witness:
  "\<exists>s' im'. tile_images_run (\<lambda>_. None) 0 0 [tile_packet0\<lparr>tp_tile := 1\<rparr>] (strip_client, init_images strip_map)
      = Some (s', im') \<and> map_pixel strip_map (mi_roads im') 1 0 = road_image_color s' 1 0"
proof -
  let ?p = "tile_packet0\<lparr>tp_tile := 1\<rparr>"
  have init: "pk_tiles_initialized strip_client" "cl_map strip_client = strip_map"
    "cl_tiles strip_client = map_allocate strip_map" by (simp_all add: strip_client_def)
  have size: "m_xsize strip_map = 3" "m_ysize strip_map = 1" by (simp_all add: strip_map_def)
  have "roads_current strip_client (init_roads_image strip_map)"
    using fresh_map_current [of strip_client] init size by simp
  then have ready: "images_ready (strip_client, init_images strip_map)"
    using init by (simp add: images_ready_def init_images_def allocated_map_allocate)
  have inner: "inner_packet strip_map ?p" by (simp add: inner_packet_def size)
  have "st_get (map_allocate strip_map) 1 = Some (tile_init 1 1 0)"
    unfolding map_allocate_get by (intro exI [of _ 1] exI [of _ 0]) (simp add: size)
  then have "map_option t_owner (st_get (put_tile (cl_ruleset strip_client) (cl_tiles strip_client) ?p) 1) = Some None"
    by (simp add: put_tile_def init js.get_put extend_tile_def tile_init_def adjusted_tile_owner tile_packet0_def)
  then obtain st' where st': "handle_tile_info_images (\<lambda>_. None) 0 0 ?p (strip_client, init_images strip_map) = Some st'"
    using tile_info_images_returns [OF ready] inner init by fastforce
  obtain s' im' where "st' = (s', im')" by (cases st')
  then have run: "tile_images_run (\<lambda>_. None) 0 0 [?p] (strip_client, init_images strip_map) = Some (s', im')"
    using st' by simp
  have "map_pixel (cl_map strip_client) (mi_roads im') 1 0 = road_image_color s' 1 0"
    by (rule roads_image_follows_tiles [where ps = "[?p]" and colours = "\<lambda>_. None" and f = 0 and i = 0 and s = strip_client])
      (use init size inner run in simp_all)
  then show ?thesis using run init(2) by auto
qed

subsection \<open>What the update misses\<close>

definition paths_tile :: "int \<Rightarrow> int \<Rightarrow> 32 word list \<Rightarrow> tile" where
  "paths_tile x y bytes = (tile_init (x + 3 * y) x y)\<lparr>t_extras := Some (BitVector bytes)\<rparr>"

definition square_map :: map_info where
  "square_map = \<lparr>m_topology_id = 0, m_wrap_id = 1, m_xsize = 3, m_ysize = 3\<rparr>"

text \<open>A map of nine tiles with roads (extra 2) and railroads (extra 3) at the given positions.\<close>

definition paths_client :: "(int \<times> int) list \<Rightarrow> (int \<times> int) list \<Rightarrow> unit client_scheme" where
  "paths_client roads rails = (client0 ())\<lparr>cl_map := square_map,
     cl_ruleset := ruleset0\<lparr>rs_EXTRA_ROAD := 2, rs_EXTRA_RAIL := 3\<rparr>,
     cl_tiles := map (\<lambda>(x, y). (x + 3 * y, paths_tile x y
       [(if (x, y) \<in> set roads then 4 else 0) + (if (x, y) \<in> set rails then 8 else 0)]))
       [(0,0),(1,0),(2,0),(0,1),(1,1),(2,1),(0,2),(1,2),(2,2)]\<rparr>"

text \<open>
  Two different colours with the same sum of bytes: the new colour is stored, and the flag
  that makes the renderer upload the image stays as it was.  This is what happens when a lone
  railroad is built on a road tile whose road neighbours are those in the north and the west, or
  those in the east and the south: the railroad is not shown until something else changes.
\<close>
theorem rail_upgrade_not_uploaded:
  "(image_fits (cl_map s) im \<and> on_map (cl_map s) x y \<and> road_image_color s x y = (10, 0, 0)
      \<and> map_pixel (cl_map s) im x y \<in> {(2, 8, 0), (4, 6, 0)}
    \<longrightarrow> map_pixel (cl_map s) (update_roads_one s (x, y) im) x y = (10, 0, 0)
      \<and> im_needsUpdate (update_roads_one s (x, y) im) = im_needsUpdate im)
   \<and> path_pixel (\<lambda>d. d \<in> {1, 3}) 1 42 road_colour = (2, 8, 0)
   \<and> path_pixel (\<lambda>d. d \<in> {4, 6}) 1 42 road_colour = (4, 6, 0)
   \<and> path_pixel (\<lambda>d. False) 10 43 rail_colour = (10, 0, 0)"
proof (intro conjI impI; (elim conjE)?)
  assume fits: "image_fits (cl_map s) im" and on: "0 \<le> x" "x < m_xsize (cl_map s)" "0 \<le> y" "y < m_ysize (cl_map s)"
    and colour: "road_image_color s x y = (10, 0, 0)"
    and old: "map_pixel (cl_map s) im x y \<in> {(2, 8, 0), (4, 6, 0)}"
  have on': "on_map (cl_map s) x y" using on by simp
  show new: "map_pixel (cl_map s) (update_roads_one s (x, y) im) x y = (10, 0, 0)"
    using update_roads_one_pixel [OF fits on' on'] colour by simp
  define i where "i = image_index (cl_map s) x y"
  define bs where "bs = put_pixel i (10, 0, 0) (im_bytes im)"
  have u: "update_roads_one s (x, y) im = \<lparr>im_bytes = bs, im_needsUpdate = (im_needsUpdate im \<or> byte_sum bs i \<noteq> byte_sum (im_bytes im) i)\<rparr>"
    by (simp add: update_roads_one_def recolour_def colour i_def bs_def Let_def)
  have "byte_sum bs i = 10" using new by (simp add: u byte_sum_def pixel_at_def i_def)
  moreover have "byte_sum (im_bytes im) i = 10" using old by (auto simp: byte_sum_def pixel_at_def i_def)
  ultimately show "im_needsUpdate (update_roads_one s (x, y) im) = im_needsUpdate im" by (simp add: u)
qed (simp_all add: path_pixel_def set_slot_def road_colour_def rail_colour_def)

theorem rail_upgrade_not_uploaded_witness:
  "let roads = [(1, 1), (1, 0), (0, 1)];
       im = (the (update_roads_tile (paths_client roads []) (Some (paths_tile 1 1 [4])) (init_roads_image square_map)))
              \<lparr>im_needsUpdate := False\<rparr>
   in \<not> im_needsUpdate (update_roads_one (paths_client roads [(1, 1)]) (1, 1) im)"
proof -
  define roads :: "(int \<times> int) list" where "roads = [(1, 1), (1, 0), (0, 1)]"
  define im where "im = (the (update_roads_tile (paths_client roads []) (Some (paths_tile 1 1 [4]))
    (init_roads_image square_map)))\<lparr>im_needsUpdate := False\<rparr>"
  have "road_image_color (paths_client roads [(1, 1)]) 1 1 = (10, 0, 0)"
    unfolding roads_def by code_simp
  moreover have "map_pixel square_map im 1 1 = (2, 8, 0) \<and> length (im_bytes im) = 36 \<and> \<not> im_needsUpdate im"
    unfolding im_def roads_def by code_simp
  moreover have "cl_map (paths_client roads [(1, 1)]) = square_map" by (simp add: paths_client_def)
  moreover have "m_xsize square_map = 3" "m_ysize square_map = 3" by (simp_all add: square_map_def)
  ultimately show ?thesis
    using rail_upgrade_not_uploaded [of "paths_client roads [(1, 1)]" im 1 1]
    by (simp add: im_def [symmetric] roads_def [symmetric] image_fits_def Let_def)
qed

text \<open>
  On the last column the update stops at the edge although the map goes on: the tile in the
  first column of the same row keeps its pixel, while the changed tile is its western neighbour for
  \<open>road_image_color\<close>.
\<close>
theorem roads_image_stale_at_edge:
  assumes "allocated (cl_map s) (cl_tiles s)" "image_fits (cl_map s) im" "3 \<le> m_xsize (cl_map s)"
    and "at_pos (cl_map s) (cl_tiles s) t (m_xsize (cl_map s) - 1) y" "at_pos (cl_map s) (cl_tiles s) t0 0 y"
  shows "\<exists>im'. update_roads_tile s (Some t) im = Some im'
     \<and> map_pixel (cl_map s) im' 0 y = map_pixel (cl_map s) im 0 y
     \<and> extra_in_dir s t0 extra DIR8_WEST = tile_has_extra (Some t) extra"
proof -
  let ?m = "cl_map s"
  let ?w = "m_xsize ?m"
  have w: "0 < ?w" using assms(3) by simp
  have edge: "on_map ?m (?w - 1) y" "on_map ?m 0 y" using assms(4,5) by auto
  have fits: "image_fits ?m (update_roads_one s (?w - 1, y) im)" using assms(2) by simp
  obtain im' where im': "roads_loop s (neighbours8 (?w - 1, y)) (update_roads_one s (?w - 1, y) im) = Some im'"
    "\<And>a b. on_map ?m a b \<Longrightarrow> map_pixel ?m im' a b
        = (if (a, b) \<in> set (neighbours8 (?w - 1, y)) then road_image_color s a b
           else map_pixel ?m (update_roads_one s (?w - 1, y) im) a b)"
    using roads_loop_pixels [OF assms(1) fits] by blast
  have "(0, y) \<notin> set (neighbours8 (?w - 1, y))" using assms(3) by (auto simp: neighbours8_def)
  then have "map_pixel ?m im' 0 y = map_pixel ?m im 0 y"
    using im'(2) [OF edge(2)] update_roads_one_pixel [OF assms(2) edge(1) edge(2)] assms(3) by simp
  moreover have "update_roads_tile s (Some t) im = Some im'"
    using assms(4) im'(1) by (simp add: update_roads_tile_def)
  moreover have "mapstep ?m (cl_tiles s) t0 DIR8_WEST = Some t"
  proof -
    have d: "is_valid_dir ?m DIR8_WEST" by (simp add: is_valid_dir_def)
    have "(0 + DIR_DX ! nat DIR8_WEST) mod ?w = ?w - 1" "DIR_DY ! nat DIR8_WEST = 0"
      using w by (simp_all add: DIR_DX_def DIR_DY_def zmod_minus1)
    then show ?thesis using mapstep_at [OF assms(1,5) d w] assms(4) edge by simp
  qed
  ultimately show ?thesis by (auto simp: extra_in_dir_def)
qed

theorem roads_image_stale_at_edge_witness:
  "let s = (client0 ())\<lparr>cl_map := square_map, cl_tiles := map_allocate square_map\<rparr>
   in \<exists>im'. update_roads_tile s (Some (tile_init 5 2 1)) (init_roads_image square_map) = Some im'
     \<and> map_pixel square_map im' 0 1 = map_pixel square_map (init_roads_image square_map) 0 1"
proof -
  let ?s = "(client0 ())\<lparr>cl_map := square_map, cl_tiles := map_allocate square_map\<rparr>"
  have size: "m_xsize square_map = 3" "m_ysize square_map = 3" by (simp_all add: square_map_def)
  have "st_get (map_allocate square_map) 5 = Some (tile_init 5 2 1)"
    unfolding map_allocate_get by (intro exI [of _ 2] exI [of _ 1]) (simp add: size)
  moreover have "st_get (map_allocate square_map) 3 = Some (tile_init 3 0 1)"
    unfolding map_allocate_get by (intro exI [of _ 0] exI [of _ 1]) (simp add: size)
  ultimately have at: "at_pos square_map (map_allocate square_map) (tile_init 5 2 1) 2 1"
    "at_pos square_map (map_allocate square_map) (tile_init 3 0 1) 0 1"
    by (simp_all add: size tile_init_def)
  show ?thesis
    using roads_image_stale_at_edge [where s = ?s and im = "init_roads_image square_map"
        and t = "tile_init 5 2 1" and y = 1 and ?t0.0 = "tile_init 3 0 1"]
      at init_roads_fits [of square_map]
    by (auto simp: size allocated_map_allocate)
qed

text \<open>The colour for four connected roads is also given to three of them when one is in the south.\<close>

lemma crossing_of_three:
  "has 6 \<Longrightarrow> 2 \<le> length (filter has [1, 3, 4]) \<Longrightarrow> path_pixel has single cross colour = (cross, 0, 0)"
  by (cases "has 1"; cases "has 3"; cases "has 4") (simp_all add: path_pixel_def)

end
