(* ===== verification/Camera.thy ===== *)
theory Camera
  imports Complex_Main Geometry
begin

text \<open>
  The camera of the 3D view: \<open>webgl/camera.js\<close>, the coordinates of \<open>webgl/maputil.js\<close>, and the
  variables of \<open>mapview_slide\<close>.  The position of the camera object of the library and the target of
  its orbit controls are part of the state, because \<open>enable_mapview_slide_3d\<close> reads back from them
  what the user did with the mouse; the view is running (\<open>camera\<close> and \<open>controls\<close> are set).
  Numbers are reals; the lights that follow the camera are left out.
\<close>

record vec3 =
  v_x :: real
  v_y :: real
  v_z :: real

definition vec :: "real \<Rightarrow> real \<Rightarrow> real \<Rightarrow> vec3" where
  "vec x y z = \<lparr>v_x = x, v_y = y, v_z = z\<rparr>"

record slide =
  sd_active :: bool
  sd_dx :: real
  sd_dy :: real
  sd_i :: int
  sd_prev :: int
  sd_start :: int

abbreviation (input) slide_max :: int where "slide_max \<equiv> 100"
abbreviation (input) slide_time :: int where "slide_time \<equiv> 700"

record camera =
  cam_offset :: vec3            \<comment> \<open>\<open>camera_dx\<close>, \<open>camera_dy\<close>, \<open>camera_dz\<close>\<close>
  cam_current :: vec3           \<comment> \<open>\<open>camera_current_x\<close>, \<open>camera_current_y\<close>, \<open>camera_current_z\<close>\<close>
  cam_slide_init :: bool
  cam_position :: vec3          \<comment> \<open>\<open>camera.position\<close>\<close>
  cam_target :: vec3            \<comment> \<open>\<open>controls.target\<close>\<close>
  cam_slide :: slide

subsection \<open>Map and scene\<close>

definition MAPVIEW_ASPECT_FACTOR :: real where
  "MAPVIEW_ASPECT_FACTOR = 3571 / 100"

text \<open>The size of the model in the scene, from \<open>handle_map_info\<close>.\<close>

definition mapview_model_size :: "int \<Rightarrow> int" where
  "mapview_model_size n = \<lfloor>MAPVIEW_ASPECT_FACTOR * of_int n\<rfloor>"

definition map_to_scene_coords :: "map_info \<Rightarrow> int \<Rightarrow> int \<Rightarrow> int \<times> int" where
  "map_to_scene_coords m x y =
     (\<lfloor>- 470 + of_int x * of_int (mapview_model_size (m_xsize m)) / of_int (m_xsize m) :: real\<rfloor>,
      \<lfloor>30 + of_int y * of_int (mapview_model_size (m_ysize m)) / of_int (m_ysize m) :: real\<rfloor>)"

definition scene_to_map_coords :: "map_info \<Rightarrow> real \<Rightarrow> real \<Rightarrow> int \<times> int" where
  "scene_to_map_coords m x y =
     (\<lfloor>(x + 500) * of_int (m_xsize m) / of_int (mapview_model_size (m_xsize m))\<rfloor>,
      \<lfloor>y * of_int (m_ysize m) / of_int (mapview_model_size (m_ysize m))\<rfloor>)"

subsection \<open>Presets\<close>

definition camera_preset :: "string \<Rightarrow> vec3 option" where
  "camera_preset name =
     map_of [(''default'', vec 50 410 242), (''strategic'', vec 50 800 100), (''cinematic'', vec 25 150 200),
             (''isometric'', vec 50 500 500), (''worldmap'', vec 50 1200 80)] name"

definition camera_look_at :: "real \<Rightarrow> real \<Rightarrow> real \<Rightarrow> camera \<Rightarrow> camera" where
  "camera_look_at x y z c =
     c\<lparr>cam_current := vec x y z,
       cam_position := vec (x + v_x (cam_offset c)) (y + v_y (cam_offset c)) (z + v_z (cam_offset c)),
       cam_target := vec (x + 50) 50 (z + 50)\<rparr>"

definition set_camera_preset :: "string \<Rightarrow> camera \<Rightarrow> camera" where
  "set_camera_preset name c =
     (let preset = (case camera_preset name of Some p \<Rightarrow> p | None \<Rightarrow> vec 50 410 242);
          c1 = c\<lparr>cam_offset := preset\<rparr>;
          p = cam_current c1
      in if v_x p \<noteq> 0 \<or> v_z p \<noteq> 0 then camera_look_at (v_x p) (v_y p) (v_z p) c1 else c1)"

definition init_camera_from_url_params :: "string option \<Rightarrow> camera \<Rightarrow> camera" where
  "init_camera_from_url_params camera_param c =
     (case camera_param of None \<Rightarrow> c | Some p \<Rightarrow> if p = '''' then c else set_camera_preset p c)"

subsection \<open>Centring and sliding\<close>

text \<open>\<open>now\<close> is the clock in milliseconds.\<close>

definition enable_mapview_slide_3d :: "map_info \<Rightarrow> int \<Rightarrow> int \<times> int \<Rightarrow> camera \<Rightarrow> camera" where
  "enable_mapview_slide_3d m now pos c =
     (let dest = map_to_scene_coords m (fst pos) (snd pos)
      in c\<lparr>cam_offset := vec (v_x (cam_position c) - v_x (cam_target c) + 50)
             (v_y (cam_position c) - v_y (cam_target c) + 50)
             (v_z (cam_position c) - v_z (cam_target c) + 50),
           cam_slide := \<lparr>sd_active = True,
             sd_dx = v_x (cam_current c) - of_int (fst dest) + 50,
             sd_dy = v_z (cam_current c) - of_int (snd dest) + 50,
             sd_i = slide_max, sd_prev = slide_max, sd_start = now\<rparr>\<rparr>)"

definition center_tile_mapcanvas_3d :: "map_info \<Rightarrow> int \<Rightarrow> (int \<times> int) option \<Rightarrow> camera \<Rightarrow> camera" where
  "center_tile_mapcanvas_3d m now ptile c =
     (case ptile of None \<Rightarrow> c
      | Some pos \<Rightarrow>
          if cam_slide_init c then enable_mapview_slide_3d m now pos c
          else (let p = map_to_scene_coords m (fst pos) (snd pos)
                in (camera_look_at (of_int (fst p) - 50) 0 (of_int (snd p) - 50) c)\<lparr>cam_slide_init := True\<rparr>))"

definition center_tile_city :: "map_info \<Rightarrow> (int \<times> int) option \<Rightarrow> camera \<Rightarrow> camera" where
  "center_tile_city m ptile c =
     (case ptile of None \<Rightarrow> c
      | Some pos \<Rightarrow> (let p = map_to_scene_coords m (fst pos) (snd pos)
                    in camera_look_at (of_int (fst p)) 0 (of_int (snd p)) c))"

definition update_map_slide_3d :: "int \<Rightarrow> camera \<Rightarrow> camera" where
  "update_map_slide_3d now c =
     (let sl = cam_slide c;
          elapsed = 1 + now - sd_start sl;
          i = \<lfloor>of_int (slide_max * (slide_time - elapsed)) / (of_int slide_time :: real)\<rfloor>;
          sl1 = sl\<lparr>sd_i := i\<rparr>
      in if i \<le> 0 then c\<lparr>cam_slide := sl1\<lparr>sd_active := False\<rparr>\<rparr>
         else (let dx = \<lfloor>sd_dx sl * of_int (i - sd_prev sl) / of_int slide_max\<rfloor>;
                   dy = \<lfloor>sd_dy sl * of_int (i - sd_prev sl) / of_int slide_max\<rfloor>;
                   p = cam_current c
               in (camera_look_at (v_x p + of_int dx) 0 (v_z p + of_int dy) c)
                    \<lparr>cam_slide := sl1\<lparr>sd_prev := i\<rparr>\<rparr>))"

text \<open>The part of the frame loop of \<open>webgl/mapview.js\<close> that moves the view.\<close>

definition animate_slide :: "int \<Rightarrow> camera \<Rightarrow> camera" where
  "animate_slide now c = (if sd_active (cam_slide c) then update_map_slide_3d now c else c)"

end
