(* ===== verification/Camera_Facts.thy ===== *)
theory Camera_Facts
  imports Camera
begin

text \<open>
  The scene coordinates of a tile lead back to the tile; sliding to a tile keeps the angle of the
  view, never overshoots by more than the rounding of its steps, and leaves out its last step.
\<close>

lemma model_size_bound:
  assumes "0 < n"
  shows "35 * n \<le> mapview_model_size n"
proof -
  have "(35 * of_int n :: real) \<le> 3571 / 100 * of_int n" using assms by simp
  then show ?thesis by (simp add: mapview_model_size_def MAPVIEW_ASPECT_FACTOR_def le_floor_iff)
qed

lemma scaled_back:
  fixes n w a x :: int
  assumes n: "0 < n" and w: "35 * n \<le> w"
    and a: "a = \<lfloor>30 + of_int x * of_int w / of_int n :: real\<rfloor>"
  shows "\<lfloor>of_int a * of_int n / of_int w :: real\<rfloor> = x"
proof -
  have w0: "0 < w" using n w by simp
  define q :: real where "q = of_int x * of_int w / of_int n"
  define r :: real where "r = of_int n / of_int w"
  have r: "0 < r" "r \<le> 1 / 35"
  proof -
    have "35 * (of_int n :: real) \<le> of_int w" using w by (metis of_int_le_iff of_int_mult of_int_numeral)
    then show "r \<le> 1 / 35" using w0 by (simp add: r_def divide_simps)
    show "0 < r" using n w0 by (simp add: r_def)
  qed
  have qr: "q * r = of_int x" using n w0 by (simp add: q_def r_def)
  have bounds: "29 + q < of_int a" "of_int a \<le> 30 + q" unfolding a q_def [symmetric] by linarith+
  have "(29 + q) * r < of_int a * r" "of_int a * r \<le> (30 + q) * r"
    using bounds r by (simp_all add: mult_strict_right_mono mult_right_mono)
  then have "of_int x < of_int a * r" "of_int a * r < of_int x + 1"
    using qr r by (simp_all add: distrib_right)
  then have "\<lfloor>of_int a * r\<rfloor> = x" by (intro floor_unique) simp_all
  then show ?thesis by (simp add: r_def)
qed

text \<open>
  C37. On every map, the scene coordinates of a tile are converted back to the tile's own map
  coordinates, for both axes.
\<close>
theorem scene_coords_roundtrip:
  assumes "0 < m_xsize m" "0 < m_ysize m"
  shows "(case map_to_scene_coords m x y of (a, b) \<Rightarrow> scene_to_map_coords m (of_int a) (of_int b)) = (x, y)"
proof -
  define a where "a = fst (map_to_scene_coords m x y)"
  have "a + 500 = \<lfloor>30 + of_int x * of_int (mapview_model_size (m_xsize m)) / of_int (m_xsize m) :: real\<rfloor>"
    by (simp add: a_def map_to_scene_coords_def)
  note x = scaled_back [OF assms(1) model_size_bound [OF assms(1)] this]
  note y = scaled_back [OF assms(2) model_size_bound [OF assms(2)] refl]
  show ?thesis
    using x y [of y] by (simp add: scene_to_map_coords_def map_to_scene_coords_def a_def add.commute)
qed

theorem scene_coords_roundtrip_witness:
  "(case map_to_scene_coords \<lparr>m_topology_id = 0, m_wrap_id = 1, m_xsize = 80, m_ysize = 50\<rparr> 79 49 of
      (a, b) \<Rightarrow> scene_to_map_coords \<lparr>m_topology_id = 0, m_wrap_id = 1, m_xsize = 80, m_ysize = 50\<rparr> (of_int a) (of_int b))
   = (79, 49)"
  by (rule scene_coords_roundtrip) simp_all

subsection \<open>Slides\<close>

text \<open>The view as \<open>camera_look_at\<close> leaves it, with the ground at height 0.\<close>

definition view_ok :: "camera \<Rightarrow> bool" where
  "view_ok c = (let p = cam_current c; d = cam_offset c
     in v_y p = 0 \<and> cam_position c = vec (v_x p + v_x d) (v_y d) (v_z p + v_z d)
        \<and> cam_target c = vec (v_x p + 50) 50 (v_z p + 50))"

lemma vec_sel [simp]: "v_x (vec x y z) = x" "v_y (vec x y z) = y" "v_z (vec x y z) = z"
  by (simp_all add: vec_def)

lemma vec_eta: "vec (v_x p) (v_y p) (v_z p) = p"
  by (simp add: vec_def)

lemma view_ok_look_at: "view_ok (camera_look_at x 0 z c)"
  by (simp add: view_ok_def camera_look_at_def Let_def)

lemma view_ok_slide [simp]: "view_ok (c\<lparr>cam_slide := sl\<rparr>) = view_ok c"
  by (simp add: view_ok_def)

lemma enable_slide_offset:
  assumes "view_ok c"
  shows "cam_offset (enable_mapview_slide_3d m now pos c) = cam_offset c"
    "cam_current (enable_mapview_slide_3d m now pos c) = cam_current c" "view_ok (enable_mapview_slide_3d m now pos c)"
  using assms by (simp_all add: enable_mapview_slide_3d_def view_ok_def Let_def vec_eta)

text \<open>
  How far a slide is: \<open>n\<close> frames moved the view by the share \<open>100 - prev\<close> percent of the way, less at
  most one unit for each of them.
\<close>

definition behind :: "nat \<Rightarrow> real \<Rightarrow> real \<Rightarrow> int \<Rightarrow> real \<Rightarrow> bool" where
  "behind n a k p b = (let e = b - (a - k * (of_int (100 - p) / 100)) in - real n \<le> e \<and> e \<le> 0)"

definition slid :: "camera \<Rightarrow> nat \<Rightarrow> camera \<Rightarrow> bool" where
  "slid c n d = (let sl = cam_slide d
     in cam_offset d = cam_offset c \<and> view_ok d \<and> sd_dx sl = sd_dx (cam_slide c) \<and> sd_dy sl = sd_dy (cam_slide c)
      \<and> behind n (v_x (cam_current c)) (sd_dx sl) (sd_prev sl) (v_x (cam_current d))
      \<and> behind n (v_z (cam_current c)) (sd_dy sl) (sd_prev sl) (v_z (cam_current d)))"

lemma behind_Suc: "behind n a k p b \<Longrightarrow> behind (Suc n) a k p b"
  by (auto simp: behind_def Let_def)

lemma slid_start: "view_ok c \<Longrightarrow> slid (enable_mapview_slide_3d m now pos c) 0 (enable_mapview_slide_3d m now pos c)"
  by (simp add: slid_def enable_slide_offset Let_def) (simp add: enable_mapview_slide_3d_def behind_def Let_def)

lemma step_behind:
  assumes "behind n a d p b"
  shows "behind (Suc n) a d i (b + of_int \<lfloor>d * of_int (i - p) / 100\<rfloor>)"
proof -
  define A where "A = d * (of_int (100 - p) / 100)"
  define B where "B = d * (of_int (100 - i) / 100)"
  define f where "f = (of_int \<lfloor>d * of_int (i - p) / 100\<rfloor> :: real)"
  have "d * of_int (i - p) / 100 = A - B" by (simp add: A_def B_def field_simps)
  then have "A - B - 1 < f" "f \<le> A - B" unfolding f_def by linarith+
  moreover have "- real n \<le> b - (a - A)" "b - (a - A) \<le> 0" using assms by (simp_all add: behind_def A_def Let_def)
  ultimately show ?thesis unfolding behind_def Let_def B_def [symmetric] f_def [symmetric] of_nat_Suc by linarith
qed

lemma slid_step:
  assumes "slid c n d"
  shows "slid c (Suc n) (animate_slide now d)"
proof (cases "sd_active (cam_slide d)")
  case False
  then show ?thesis using assms by (auto simp: animate_slide_def slid_def behind_Suc Let_def)
next
  case True
  define i where "i = \<lfloor>of_int (100 * (700 - (1 + now - sd_start (cam_slide d)))) / (of_int 700 :: real)\<rfloor>"
  show ?thesis
  proof (cases "i \<le> 0")
    case True
    then have "animate_slide now d = d\<lparr>cam_slide := (cam_slide d)\<lparr>sd_i := i, sd_active := False\<rparr>\<rparr>"
      using \<open>sd_active (cam_slide d)\<close> unfolding animate_slide_def update_map_slide_3d_def Let_def i_def [symmetric]
      by simp
    then show ?thesis using assms by (auto simp: slid_def behind_Suc Let_def)
  next
    case False
    let ?dx = "\<lfloor>sd_dx (cam_slide d) * of_int (i - sd_prev (cam_slide d)) / 100\<rfloor>"
    let ?dy = "\<lfloor>sd_dy (cam_slide d) * of_int (i - sd_prev (cam_slide d)) / 100\<rfloor>"
    have step: "animate_slide now d =
      (camera_look_at (v_x (cam_current d) + of_int ?dx) 0 (v_z (cam_current d) + of_int ?dy) d)
        \<lparr>cam_slide := (cam_slide d)\<lparr>sd_i := i, sd_prev := i\<rparr>\<rparr>"
      using False True unfolding animate_slide_def update_map_slide_3d_def Let_def i_def [symmetric] by simp
    have cur: "v_x (cam_current (animate_slide now d)) = v_x (cam_current d) + of_int ?dx"
      "v_z (cam_current (animate_slide now d)) = v_z (cam_current d) + of_int ?dy"
      by (simp_all add: step) (simp_all add: camera_look_at_def)
    have frame: "cam_offset (animate_slide now d) = cam_offset d" "view_ok (animate_slide now d)"
      "cam_slide (animate_slide now d) = (cam_slide d)\<lparr>sd_i := i, sd_prev := i\<rparr>"
      by (simp_all add: step view_ok_look_at) (simp_all add: camera_look_at_def)
    show ?thesis
      using assms by (clarsimp simp: slid_def Let_def cur frame step_behind [unfolded of_int_diff])
  qed
qed

lemma slid_frames: "slid c n d \<Longrightarrow> slid c (n + length ts) (fold animate_slide ts d)"
proof (induction ts arbitrary: n d)
  case Nil
  then show ?case by simp
next
  case (Cons t ts)
  show ?case using Cons.IH [OF slid_step [OF Cons.prems, of t]] by simp
qed



end
