(* ===== verification/Centroid.thy ===== *)
theory Centroid
  imports Complex_Main City Units
begin

text \<open>
  Where the view of an observer is centred and how high its camera is (\<open>civclient.js\<close>): the
  centroid and spread of weighted positions on a map that may wrap, the radius that leaves out
  distant outliers, the camera heights, and the positions of the units and cities of one player or of
  all.  Positions and spreads are integers, centroids and radii reals.
\<close>

record position =
  ps_x :: int
  ps_y :: int
  ps_weight :: nat

subsection \<open>Wrapping\<close>

definition unwrap_coordinate :: "int \<Rightarrow> int \<Rightarrow> bool \<Rightarrow> int \<Rightarrow> int" where
  "unwrap_coordinate val ref wraps map_size =
     (if \<not> wraps \<or> map_size \<le> 0 then val
      else (let delta = val - ref; half = map_size div 2
            in if delta > half then val - map_size
               else if delta < - half then val + map_size
               else val))"

text \<open>The loops that unwrap every position relative to the first one; a missing weight is 1.\<close>

definition unwrap_position :: "map_info \<Rightarrow> position \<Rightarrow> position \<Rightarrow> position" where
  "unwrap_position m ref p =
     \<lparr>ps_x = unwrap_coordinate (ps_x p) (ps_x ref) (wrap_has_flag m WRAP_X) (m_xsize m),
      ps_y = unwrap_coordinate (ps_y p) (ps_y ref) (wrap_has_flag m WRAP_Y) (m_ysize m),
      ps_weight = (if ps_weight p = 0 then 1 else ps_weight p)\<rparr>"

subsection \<open>Outliers\<close>

text \<open>The scan for the largest gap from the 60 percent mark on: the best gap and its index.\<close>

definition gap_step :: "real list \<Rightarrow> real \<times> nat \<Rightarrow> nat \<Rightarrow> real \<times> nat" where
  "gap_step distances b i =
     (let gap = distances ! (i + 1) - distances ! i in if gap > fst b then (gap, i) else b)"

definition largest_gap :: "real list \<Rightarrow> real \<times> nat" where
  "largest_gap distances =
     foldl (gap_step distances) (0, length distances - 1)
       [length distances * 3 div 5..<length distances - 1]"

definition find_outlier_cutoff_radius :: "real list \<Rightarrow> real" where
  "find_outlier_cutoff_radius distances =
     (if distances = [] then 0
      else if length distances \<le> 2 then last distances
      else (let (best_gap, cutoff_index) = largest_gap distances;
                core_radius = distances ! cutoff_index
            in if core_radius > 0 \<and> best_gap > core_radius * (4 / 5) \<and> last distances > core_radius * 4
               then distances ! cutoff_index
               else last distances))"

subsection \<open>Centroid and spread\<close>

record spread_data =
  sp_centroid_x :: int
  sp_centroid_y :: int
  sp_spread :: int
  sp_effective_radius :: real
  sp_radius_x :: real
  sp_radius_y :: real
  sp_total_weight :: nat

definition weighted_mean :: "(position \<Rightarrow> int) \<Rightarrow> position list \<Rightarrow> real" where
  "weighted_mean f ps =
     of_int (sum_list (map (\<lambda>p. f p * int (ps_weight p)) ps)) / real (sum_list (map ps_weight ps))"

definition extent :: "(position \<Rightarrow> int) \<Rightarrow> position list \<Rightarrow> int \<times> int" where
  "extent f ps = (Min (set (map f ps)), Max (set (map f ps)))"

text \<open>\<open>((c % n) + n) % n\<close> on a wrapping axis.\<close>

definition rewrap :: "bool \<Rightarrow> int \<Rightarrow> int \<Rightarrow> int" where
  "rewrap wraps n c = (if wraps \<and> n > 0 then js_rem (js_rem c n + n) n else c)"

definition radius_along :: "(position \<Rightarrow> int) \<Rightarrow> position list \<Rightarrow> real" where
  "radius_along f ps =
     (let c = weighted_mean f ps; (lo, hi) = extent f ps in max \<bar>of_int hi - c\<bar> \<bar>of_int lo - c\<bar>)"

text \<open>The Chebyshev distance of each position from the centroid, once for each point of its weight.\<close>

definition centroid_distances :: "position list \<Rightarrow> real list" where
  "centroid_distances ps =
     concat (map (\<lambda>p. replicate (ps_weight p)
       (max \<bar>of_int (ps_x p) - weighted_mean ps_x ps\<bar> \<bar>of_int (ps_y p) - weighted_mean ps_y ps\<bar>)) ps)"

definition spread_of_unwrapped :: "map_info \<Rightarrow> position list \<Rightarrow> spread_data" where
  "spread_of_unwrapped m us =
     (let (min_x, max_x) = extent ps_x us; (min_y, max_y) = extent ps_y us
      in \<lparr>sp_centroid_x = rewrap (wrap_has_flag m WRAP_X) (m_xsize m) \<lfloor>weighted_mean ps_x us\<rfloor>,
          sp_centroid_y = rewrap (wrap_has_flag m WRAP_Y) (m_ysize m) \<lfloor>weighted_mean ps_y us\<rfloor>,
          sp_spread = max (max_x - min_x) (max_y - min_y),
          sp_effective_radius = find_outlier_cutoff_radius (sort (centroid_distances us)),
          sp_radius_x = radius_along ps_x us,
          sp_radius_y = radius_along ps_y us,
          sp_total_weight = sum_list (map ps_weight us)\<rparr>)"

definition compute_wrapped_spread_and_centroid :: "map_info \<Rightarrow> position list \<Rightarrow> spread_data option" where
  "compute_wrapped_spread_and_centroid m positions =
     (case positions of [] \<Rightarrow> None
      | ref # _ \<Rightarrow> Some (spread_of_unwrapped m (map (unwrap_position m ref) positions)))"

subsection \<open>Camera heights\<close>

definition calculate_zoom_for_unit_spread :: "int \<Rightarrow> int" where
  "calculate_zoom_for_unit_spread spread =
     (if spread \<le> 2 then 300 else if spread \<ge> 20 then 600
      else \<lfloor>300 + (of_int (spread - 2) / 18) * 300 :: real\<rfloor>)"

definition calculate_zoom_for_territory_spread :: "real \<Rightarrow> int" where
  "calculate_zoom_for_territory_spread effective_radius =
     \<lfloor>max 200 (min 1200 (250 + effective_radius * 35))\<rfloor>"

definition calculate_zoom_for_global_spread :: "int \<Rightarrow> int" where
  "calculate_zoom_for_global_spread spread =
     (if spread \<le> 5 then 300 else if spread \<ge> 80 then 1200
      else if spread \<le> 40 then \<lfloor>300 + (of_int (spread - 5) / 35) * 300 :: real\<rfloor>
      else \<lfloor>600 + (of_int (spread - 40) / 40) * 600 :: real\<rfloor>)"

text \<open>\<open>aspect\<close> is the window's width by its height; \<open>Math.tan(22.5 degrees)\<close> is \<open>tan (pi / 8)\<close>.\<close>

definition calculate_zoom_for_worldmap_territory :: "real \<Rightarrow> real \<Rightarrow> real \<Rightarrow> int" where
  "calculate_zoom_for_worldmap_territory aspect radius_x radius_y =
     (let tile_size = 3571 / 100;
          dy_for_y = (radius_y + 5) * tile_size / tan (pi / 8);
          dy_for_x = (radius_x + 5) * tile_size / (tan (pi / 8) * aspect)
      in max 400 (min 3000 \<lceil>max dy_for_x dy_for_y\<rceil>))"

definition worldmap_fit_height :: "real \<Rightarrow> map_info \<Rightarrow> int" where
  "worldmap_fit_height aspect m =
     (let tile_size = 3571 / 100; padding = 115 / 100;
          half_x = of_int (m_xsize m) / 2 * tile_size * padding;
          half_y = of_int (m_ysize m) / 2 * tile_size * padding
      in \<lfloor>max 800 (max (half_x / (tan (pi / 8) * aspect)) (half_y / tan (pi / 8)))\<rfloor>)"

subsection \<open>Whose positions\<close>

definition tile_position :: "nat \<Rightarrow> tile \<Rightarrow> position" where
  "tile_position w t = \<lparr>ps_x = the (t_x t), ps_y = the (t_y t), ps_weight = w\<rparr>"

definition unit_positions :: "'a client_scheme \<Rightarrow> (unit_rec \<Rightarrow> bool) \<Rightarrow> position list" where
  "unit_positions s P =
     map (tile_position 1) (List.map_filter (\<lambda>u. index_to_tile (cl_tiles s) (u_tile u)) (filter P (st_vals (cl_units s))))"

text \<open>The counts that are reported with a spread.\<close>

definition placed_units :: "'a client_scheme \<Rightarrow> (unit_rec \<Rightarrow> bool) \<Rightarrow> unit_rec list" where
  "placed_units s P = filter (\<lambda>u. P u \<and> index_to_tile (cl_tiles s) (u_tile u) \<noteq> None) (st_vals (cl_units s))"

definition placed_cities :: "'a client_scheme \<Rightarrow> (city \<Rightarrow> bool) \<Rightarrow> city list" where
  "placed_cities s P = filter (\<lambda>c. P c \<and> city_tile s (Some c) \<noteq> None) (st_vals (cl_cities s))"

abbreviation (input) TERRITORY_CITY_WEIGHT :: nat where "TERRITORY_CITY_WEIGHT \<equiv> 3"

definition city_positions :: "'a client_scheme \<Rightarrow> (city \<Rightarrow> bool) \<Rightarrow> position list" where
  "city_positions s P =
     map (tile_position TERRITORY_CITY_WEIGHT)
       (List.map_filter (\<lambda>c. city_tile s (Some c)) (filter P (st_vals (cl_cities s))))"

definition owned_city :: "int \<Rightarrow> city \<Rightarrow> bool" where
  "owned_city player_id c = (city_owner_player_id (Some c) = Some player_id)"

definition get_player_units_centroid_and_spread :: "'a client_scheme \<Rightarrow> int \<Rightarrow> spread_data option" where
  "get_player_units_centroid_and_spread s player_id =
     compute_wrapped_spread_and_centroid (cl_map s) (unit_positions s (\<lambda>u. u_owner u = player_id))"

definition get_player_territory_centroid_and_spread :: "'a client_scheme \<Rightarrow> int \<Rightarrow> spread_data option" where
  "get_player_territory_centroid_and_spread s player_id =
     compute_wrapped_spread_and_centroid (cl_map s)
       (city_positions s (owned_city player_id) @ unit_positions s (\<lambda>u. u_owner u = player_id))"

text \<open>A living player that is no barbarian.\<close>

definition counted_player :: "'a client_scheme \<Rightarrow> int \<Rightarrow> bool" where
  "counted_player s owner_id =
     (\<not> is_barbarian_player s owner_id
      \<and> (case st_get (cl_players s) owner_id of None \<Rightarrow> False | Some p \<Rightarrow> p_is_alive p))"

definition get_all_players_units_centroid_and_spread :: "'a client_scheme \<Rightarrow> spread_data option" where
  "get_all_players_units_centroid_and_spread s =
     compute_wrapped_spread_and_centroid (cl_map s) (unit_positions s (\<lambda>u. counted_player s (u_owner u)))"

definition get_all_players_territory_centroid_and_spread :: "'a client_scheme \<Rightarrow> spread_data option" where
  "get_all_players_territory_centroid_and_spread s =
     compute_wrapped_spread_and_centroid (cl_map s)
       (city_positions s (\<lambda>c. counted_player s (c_owner c)) @ unit_positions s (\<lambda>u. counted_player s (u_owner u)))"

definition has_cities_for_player :: "'a client_scheme \<Rightarrow> int option \<Rightarrow> bool" where
  "has_cities_for_player s player_id =
     (case player_id of None \<Rightarrow> False | Some k \<Rightarrow> list_ex (owned_city k) (st_vals (cl_cities s)))"

definition has_units_for_player :: "'a client_scheme \<Rightarrow> int option \<Rightarrow> bool" where
  "has_units_for_player s player_id =
     (case player_id of None \<Rightarrow> False | Some k \<Rightarrow> list_ex (\<lambda>u. u_owner u = k) (st_vals (cl_units s)))"

definition has_units_for_any_player :: "'a client_scheme \<Rightarrow> bool" where
  "has_units_for_any_player s = list_ex (\<lambda>u. counted_player s (u_owner u)) (st_vals (cl_units s))"

text \<open>The first tile that is seen now, else the first that was explored.\<close>

definition find_first_explored_tile :: "'a client_scheme \<Rightarrow> tile option" where
  "find_first_explored_tile s =
     (case List.find (\<lambda>t. tile_get_known (Some t) = Some TILE_KNOWN_SEEN) (st_vals (cl_tiles s)) of
        Some t \<Rightarrow> Some t
      | None \<Rightarrow> List.find (\<lambda>t. tile_get_known (Some t) = Some TILE_KNOWN_UNSEEN) (st_vals (cl_tiles s)))"

end
