(* ===== verification/Centroid_Facts.thy ===== *)
theory Centroid_Facts
  imports Centroid Samples
begin

text \<open>
  The radius keeps more than 60 percent of the weight in view, the camera heights are monotone and
  bounded, and an empire that lies across the date line is centred and measured as it would be
  anywhere else.
\<close>

subsection \<open>Outliers\<close>

lemma gap_scan_index:
  "foldl (gap_step ds) (g, k) is = (g', k') \<Longrightarrow> k' = k \<or> k' \<in> set is"
proof (induction "is" arbitrary: g k)
  case Nil
  then show ?case by simp
next
  case (Cons i "is")
  show ?case
  proof (cases "ds ! (i + 1) - ds ! i > g")
    case True
    then show ?thesis using Cons.IH [of "ds ! (i + 1) - ds ! i" i] Cons.prems by (auto simp: gap_step_def Let_def)
  next
    case False
    then show ?thesis using Cons.IH [of g k] Cons.prems by (auto simp: gap_step_def Let_def)
  qed
qed

lemma largest_gap_index:
  assumes "2 < length ds" "largest_gap ds = (g, k)"
  shows "length ds * 3 div 5 \<le> k" "k < length ds"
proof -
  have "k = length ds - 1 \<or> k \<in> set [length ds * 3 div 5..<length ds - 1]"
    by (rule gap_scan_index) (use assms(2) in \<open>simp add: largest_gap_def\<close>)
  then show "length ds * 3 div 5 \<le> k" "k < length ds" using assms(1) by auto
qed

lemma sorted_count:
  fixes ds :: "real list"
  assumes "sorted ds" "k < length ds"
  shows "k < length (filter (\<lambda>d. d \<le> ds ! k) ds)"
proof -
  have "\<forall>d \<in> set (take (Suc k) ds). d \<le> ds ! k"
    using assms by (auto simp: set_conv_nth sorted_iff_nth_mono)
  then have "filter (\<lambda>d. d \<le> ds ! k) (take (Suc k) ds) = take (Suc k) ds" by simp
  moreover have "length (filter (\<lambda>d. d \<le> ds ! k) ds)
      = length (filter (\<lambda>d. d \<le> ds ! k) (take (Suc k) ds)) + length (filter (\<lambda>d. d \<le> ds ! k) (drop (Suc k) ds))"
    by (metis append_take_drop_id filter_append length_append)
  ultimately show ?thesis using assms(2) by simp
qed

lemma filter_le_last:
  fixes ds :: "real list"
  assumes "sorted ds"
  shows "filter (\<lambda>d. d \<le> last ds) ds = ds"
  using sorted_le_last [OF assms] by simp

text \<open>
  The effective radius of a sorted list of distances is one of them, and more than 60 percent
  of the distances are within it; distances are left out only when the farthest is more than four
  times as far.
\<close>
theorem outlier_radius_keeps_core:
  assumes "sorted ds" "ds \<noteq> []"
  shows "find_outlier_cutoff_radius ds \<in> set ds
    \<and> 3 * length ds < 5 * length (filter (\<lambda>d. d \<le> find_outlier_cutoff_radius ds) ds)
    \<and> (find_outlier_cutoff_radius ds \<noteq> last ds \<longrightarrow> 4 * find_outlier_cutoff_radius ds < last ds)"
proof -
  define r where "r = find_outlier_cutoff_radius ds"
  obtain g k where gk: "largest_gap ds = (g, k)" by (cases "largest_gap ds")
  have "r \<in> set ds \<and> 3 * length ds < 5 * length (filter (\<lambda>d. d \<le> r) ds) \<and> (r \<noteq> last ds \<longrightarrow> 4 * r < last ds)"
  proof (cases "r = last ds")
    case True
    then show ?thesis using assms by (simp add: filter_le_last)
  next
    case False
    have n: "2 < length ds"
    by (rule ccontr) (use False assms(2) in \<open>simp add: r_def find_outlier_cutoff_radius_def\<close>)
    have c: "r = (if ds ! k > 0 \<and> g > ds ! k * (4 / 5) \<and> last ds > ds ! k * 4 then ds ! k else last ds)"
      using n assms(2) by (simp add: r_def find_outlier_cutoff_radius_def gk Let_def)
    with False have cut: "r = ds ! k" "4 * r < last ds" by (auto split: if_splits)
    note k = largest_gap_index [OF n gk]
    have "k < length (filter (\<lambda>d. d \<le> r) ds)" using sorted_count [OF assms(1) k(2)] cut(1) by simp
    moreover have "3 * length ds < 5 * (length ds * 3 div 5) + 5" by simp
    ultimately have "3 * length ds < 5 * length (filter (\<lambda>d. d \<le> r) ds)" using k(1) by linarith
    then show ?thesis using cut k(2) by simp
  qed
  then show ?thesis by (simp add: r_def)
qed

theorem outlier_radius_keeps_core_witness:
  "3 * length [2, 2, 2, 2, 2, 2, 2, 6, 7, 80 :: real]
     < 5 * length (filter (\<lambda>d. d \<le> find_outlier_cutoff_radius [2, 2, 2, 2, 2, 2, 2, 6, 7, 80]) [2, 2, 2, 2, 2, 2, 2, 6, 7, 80])"
  using outlier_radius_keeps_core [of "[2, 2, 2, 2, 2, 2, 2, 6, 7, 80]"] by simp

text \<open>The examples of the comment.\<close>

lemma outlier_examples:
  "find_outlier_cutoff_radius [2, 2, 2, 2, 2, 2, 2, 6, 7] = 7"
  "find_outlier_cutoff_radius [2, 2, 2, 2, 2, 2, 2, 6, 7, 80] = 7"
  by (simp_all add: find_outlier_cutoff_radius_def largest_gap_def gap_step_def upt_rec Let_def)

subsection \<open>Heights\<close>

lemma floor_line_mono: "(s :: int) \<le> t \<Longrightarrow> 0 < k \<Longrightarrow> 0 \<le> h \<Longrightarrow>
    \<lfloor>b + (of_int (s - a) / k) * h :: real\<rfloor> \<le> \<lfloor>b + (of_int (t - a) / k) * h\<rfloor>"
  by (intro floor_mono add_left_mono mult_right_mono divide_right_mono) simp_all

lemma floor_line_bounds:
  assumes "a \<le> s" "s \<le> a + n" "0 < n" "0 \<le> h"
  shows "b \<le> \<lfloor>of_int b + (of_int (s - a) / of_int n) * of_int h :: real\<rfloor>"
    "\<lfloor>of_int b + (of_int (s - a) / of_int n) * of_int h :: real\<rfloor> \<le> b + h"
proof -
  define q where "q = (of_int (s - a) / of_int n :: real)"
  have "0 \<le> q" "q \<le> 1" using assms by (simp_all add: q_def divide_le_eq)
  then have "0 \<le> q * of_int h" "q * of_int h \<le> of_int h"
    using assms(4) by (simp_all add: mult_left_le_one_le)
  then show "b \<le> \<lfloor>of_int b + (of_int (s - a) / of_int n) * of_int h :: real\<rfloor>"
    "\<lfloor>of_int b + (of_int (s - a) / of_int n) * of_int h :: real\<rfloor> \<le> b + h"
    unfolding q_def [symmetric] by (simp_all add: le_floor_iff floor_le_iff)
qed

text \<open>
  The three camera heights never decrease when the spread or the radius grows, and stay within
  the heights the code names: 300 to 600 for the units of a player, 200 to 1200 for a territory,
  300 to 1200 for all players.
\<close>
theorem camera_heights_monotone:
  "(s \<le> t \<longrightarrow> calculate_zoom_for_unit_spread s \<le> calculate_zoom_for_unit_spread t)
   \<and> 300 \<le> calculate_zoom_for_unit_spread s \<and> calculate_zoom_for_unit_spread s \<le> 600
   \<and> (q \<le> r \<longrightarrow> calculate_zoom_for_territory_spread q \<le> calculate_zoom_for_territory_spread r)
   \<and> 200 \<le> calculate_zoom_for_territory_spread q \<and> calculate_zoom_for_territory_spread q \<le> 1200
   \<and> (s \<le> t \<longrightarrow> calculate_zoom_for_global_spread s \<le> calculate_zoom_for_global_spread t)
   \<and> 300 \<le> calculate_zoom_for_global_spread s \<and> calculate_zoom_for_global_spread s \<le> 1200"
proof -
  have unit: "300 \<le> calculate_zoom_for_unit_spread u \<and> calculate_zoom_for_unit_spread u \<le> 600" for u
    using floor_line_bounds [of 2 u 18 300 300] by (simp add: calculate_zoom_for_unit_spread_def)
  have line: "b \<le> \<lfloor>of_int b + of_int (u - a) / of_int n * of_int h :: real\<rfloor>
      \<and> \<lfloor>of_int b + of_int (u - a) / of_int n * of_int h :: real\<rfloor> \<le> b + h"
    if "a \<le> u" "u \<le> a + n" "0 < n" "0 \<le> h" for a b n h u :: int
    using floor_line_bounds [OF that] by blast
  have low: "300 \<le> calculate_zoom_for_global_spread u \<and> calculate_zoom_for_global_spread u \<le> 600" if "u \<le> 40" for u
    using line [of 5 u 35 300 300] that by (simp add: calculate_zoom_for_global_spread_def)
  have high: "600 \<le> calculate_zoom_for_global_spread u \<and> calculate_zoom_for_global_spread u \<le> 1200" if "40 < u" for u
    using line [of 40 u 40 600 600] that by (simp add: calculate_zoom_for_global_spread_def)
  have glob: "300 \<le> calculate_zoom_for_global_spread u \<and> calculate_zoom_for_global_spread u \<le> 1200" for u
    using low [of u] high [of u] by (cases "u \<le> 40") auto
  have umono: "calculate_zoom_for_unit_spread s \<le> calculate_zoom_for_unit_spread t" if "s \<le> t"
  proof (cases "s \<le> 2 \<or> 20 \<le> t")
    case True
    then show ?thesis using unit [of s] unit [of t] by (auto simp: calculate_zoom_for_unit_spread_def)
  next
    case False
    then show ?thesis using that floor_line_mono [of s t 18 300 300 2] by (simp add: calculate_zoom_for_unit_spread_def)
  qed
  have gmono: "calculate_zoom_for_global_spread s \<le> calculate_zoom_for_global_spread t" if st: "s \<le> t"
  proof -
    consider "s \<le> 5 \<or> 80 \<le> t" | "5 < s" "s \<le> 40" "40 < t" | "5 < s" "t \<le> 40" | "40 < s" "t < 80" by linarith
    then show ?thesis
    proof cases
      case 1
      then show ?thesis using glob [of s] glob [of t] by (auto simp: calculate_zoom_for_global_spread_def)
    next
      case 2
      then show ?thesis using low [of s] high [of t] by linarith
    next
      case 3
      then show ?thesis using st floor_line_mono [of s t 35 300 300 5] by (simp add: calculate_zoom_for_global_spread_def)
    next
      case 4
      then show ?thesis using st floor_line_mono [of s t 40 600 600 40] by (simp add: calculate_zoom_for_global_spread_def)
    qed
  qed
  have tmono: "calculate_zoom_for_territory_spread q \<le> calculate_zoom_for_territory_spread r" if "q \<le> r"
    using that unfolding calculate_zoom_for_territory_spread_def by (intro floor_mono max.mono min.mono) simp_all
  have tb: "200 \<le> calculate_zoom_for_territory_spread q \<and> calculate_zoom_for_territory_spread q \<le> 1200"
    by (simp add: calculate_zoom_for_territory_spread_def le_floor_iff floor_le_iff)
  show ?thesis using unit [of s] glob [of s] umono gmono tmono tb by blast
qed

theorem camera_heights_monotone_witness:
  "calculate_zoom_for_global_spread 30 \<le> calculate_zoom_for_global_spread 50"
  using camera_heights_monotone [of 30 50] by simp

subsection \<open>The date line\<close>

text \<open>A coordinate moved around the map and unwrapped is the coordinate moved in a plane.\<close>

lemma unwrap_moved:
  assumes n: "0 < n" and x: "0 \<le> x" "2 * x < n" and r: "0 \<le> r" "2 * r < n"
  shows "unwrap_coordinate ((x + a) mod n) ((r + a) mod n) True n = x + ((r + a) mod n - r)"
proof -
  define v where "v = (x + a) mod n"
  define w where "w = (r + a) mod n"
  have vw: "0 \<le> v" "v < n" "0 \<le> w" "w < n" using n by (simp_all add: v_def w_def)
  have "(v - w) mod n = (x - r) mod n"
    unfolding v_def w_def by (simp add: mod_diff_eq)
  then obtain k where k: "v - w = x - r + k * n"
    by (metis mod_eqE add.commute add_diff_cancel_left' diff_add_cancel mult.commute)
  have d: "- n < 2 * (x - r)" "2 * (x - r) < n" "- n < v - w" "v - w < n" using x r vw by auto
  define q where "q = k * n"
  have "v - w = x - r + q" using k by (simp add: q_def)
  then have "q < 2 * n" "- 2 * n < q" using d n by presburger+
  then have "k * n < 2 * n" "(- 2) * n < k * n" by (simp_all add: q_def)
  then have "k < 2" "- 2 < k"
    using mult_less_cancel_right_pos [OF n, of k 2] mult_less_cancel_right_pos [OF n, of "- 2" k] by blast+
  then consider "k = 0" | "k = 1" | "k = - 1" by linarith
  then have "unwrap_coordinate v w True n = x + (w - r)"
  proof cases
    case 1
    then have "v - w = x - r" using k by simp
    moreover have "\<not> x - r > n div 2" "\<not> x - r < - (n div 2)" using d by presburger+
    ultimately show ?thesis using n by (simp add: unwrap_coordinate_def)
  next
    case 2
    then have "v - w = x - r + n" using k by simp
    moreover have "x - r + n > n div 2" using d by presburger
    ultimately show ?thesis using n by (simp add: unwrap_coordinate_def)
  next
    case 3
    then have "v - w = x - r - n" using k by simp
    moreover have "x - r - n < - (n div 2)" "\<not> x - r - n > n div 2" using d n by presburger+
    ultimately show ?thesis using n by (simp add: unwrap_coordinate_def)
  qed
  then show ?thesis by (simp add: v_def w_def)
qed

definition shifted :: "int \<Rightarrow> int \<Rightarrow> position \<Rightarrow> position" where
  "shifted a b p = p\<lparr>ps_x := ps_x p + a, ps_y := ps_y p + b\<rparr>"

lemma shifted_sel [simp]:
  "ps_x (shifted a b p) = ps_x p + a" "ps_y (shifted a b p) = ps_y p + b" "ps_weight (shifted a b p) = ps_weight p"
  by (simp_all add: shifted_def)

definition total_weight :: "position list \<Rightarrow> nat" where
  "total_weight ps = sum_list (map ps_weight ps)"

lemma mean_shifted:
  assumes "\<And>p. f (shifted a b p) = f p + c" "0 < total_weight us"
  shows "weighted_mean f (map (shifted a b) us) = weighted_mean f us + of_int c"
proof -
  have "sum_list (map (\<lambda>p. f p * int (ps_weight p)) (map (shifted a b) us))
      = sum_list (map (\<lambda>p. f p * int (ps_weight p)) us) + c * int (total_weight us)"
    by (induction us) (simp_all add: assms(1) total_weight_def algebra_simps)
  then have sum: "(of_int (sum_list (map (\<lambda>p. f p * int (ps_weight p)) (map (shifted a b) us))) :: real)
      = of_int (sum_list (map (\<lambda>p. f p * int (ps_weight p)) us)) + of_int c * real (total_weight us)"
    by simp
  have w: "sum_list (map ps_weight (map (shifted a b) us)) = total_weight us"
    by (induction us) (simp_all add: total_weight_def)
  show ?thesis using assms(2)
    unfolding weighted_mean_def sum w by (simp add: total_weight_def [symmetric] add_divide_distrib)
qed

lemma extent_shifted:
  assumes "\<And>p. f (shifted a b p) = f p + c" "us \<noteq> []"
  shows "extent f (map (shifted a b) us) = (fst (extent f us) + c, snd (extent f us) + c)"
proof -
  have "set (map f (map (shifted a b) us)) = (\<lambda>x. x + c) ` set (map f us)" by (auto simp: assms(1))
  moreover have "Min ((\<lambda>x. x + c) ` set (map f us)) = Min (set (map f us)) + c"
    using assms(2) by (intro hom_Min_commute [symmetric]) (auto simp: min_def)
  moreover have "Max ((\<lambda>x. x + c) ` set (map f us)) = Max (set (map f us)) + c"
    using assms(2) by (intro hom_Max_commute [symmetric]) (auto simp: max_def)
  ultimately show ?thesis by (simp add: extent_def)
qed

lemma radius_shifted:
  assumes "\<And>p. f (shifted a b p) = f p + c" "us \<noteq> []" "0 < total_weight us"
  shows "radius_along f (map (shifted a b) us) = radius_along f us"
  by (simp add: radius_along_def mean_shifted [where f = f, OF assms(1,3)] extent_shifted [where f = f, OF assms(1,2)]
      split_beta Let_def)

lemma distances_shifted:
  assumes "0 < total_weight us"
  shows "centroid_distances (map (shifted a b) us) = centroid_distances us"
proof -
  have "weighted_mean ps_x (map (shifted a b) us) = weighted_mean ps_x us + of_int a"
    "weighted_mean ps_y (map (shifted a b) us) = weighted_mean ps_y us + of_int b"
    by (rule mean_shifted [OF _ assms], simp)+
  then show ?thesis by (simp add: centroid_distances_def comp_def)
qed

lemma rewrap_mod: "rewrap wraps n c = (if wraps \<and> 0 < n then c mod n else c)"
proof -
  have "js_rem (js_rem c n + n) n = c mod n" if n: "0 < n"
  proof -
    have "0 \<le> js_rem c n + n" using js_rem_abs_less [OF n, of c] by linarith
    then show ?thesis using n js_rem_mod [OF n, of c] by (simp add: js_rem_nonneg)
  qed
  then show ?thesis by (simp add: rewrap_def)
qed

text \<open>Where the positions of a map are taken to when everything is moved around it.\<close>

definition around :: "map_info \<Rightarrow> int \<Rightarrow> int \<Rightarrow> position \<Rightarrow> position" where
  "around m a b p = p\<lparr>ps_x := (ps_x p + a) mod m_xsize m, ps_y := (ps_y p + b) mod m_ysize m\<rparr>"

definition compact :: "map_info \<Rightarrow> position \<Rightarrow> bool" where
  "compact m p = (0 \<le> ps_x p \<and> 2 * ps_x p < m_xsize m \<and> 0 \<le> ps_y p \<and> 2 * ps_y p < m_ysize m \<and> 0 < ps_weight p)"

lemma unwrap_axis:
  assumes n: "0 < n" and x: "0 \<le> x" "2 * x < n" and r: "0 \<le> r" "2 * r < n" and w: "wraps \<or> a = 0"
  shows "unwrap_coordinate ((x + a) mod n) ((r + a) mod n) wraps n = x + ((r + a) mod n - r)"
proof (cases wraps)
  case True
  then show ?thesis using unwrap_moved [OF n x r, of a] by simp
next
  case False
  then have "a = 0" using w by simp
  then show ?thesis using False x r by (simp add: unwrap_coordinate_def)
qed

lemma unwrap_around:
  assumes p: "compact m p" and r: "compact m r"
    and w: "wrap_has_flag m WRAP_X \<or> a = 0" "wrap_has_flag m WRAP_Y \<or> b = 0"
  shows "unwrap_position m (around m a b r) (around m a b p)
    = shifted ((ps_x r + a) mod m_xsize m - ps_x r) ((ps_y r + b) mod m_ysize m - ps_y r) p"
proof -
  have n: "0 < m_xsize m" "0 < m_ysize m" using p by (auto simp: compact_def)
  have "unwrap_coordinate ((ps_x p + a) mod m_xsize m) ((ps_x r + a) mod m_xsize m) (wrap_has_flag m WRAP_X) (m_xsize m)
      = ps_x p + ((ps_x r + a) mod m_xsize m - ps_x r)"
    using p r w by (intro unwrap_axis n) (simp_all add: compact_def)
  moreover have "unwrap_coordinate ((ps_y p + b) mod m_ysize m) ((ps_y r + b) mod m_ysize m) (wrap_has_flag m WRAP_Y) (m_ysize m)
      = ps_y p + ((ps_y r + b) mod m_ysize m - ps_y r)"
    using p r w by (intro unwrap_axis n) (simp_all add: compact_def)
  ultimately show ?thesis using p by (simp add: unwrap_position_def around_def shifted_def compact_def)
qed

lemma unwrap_flat: "\<not> wrap_has_flag m WRAP_X \<Longrightarrow> \<not> wrap_has_flag m WRAP_Y \<Longrightarrow> 0 < ps_weight p \<Longrightarrow>
    unwrap_position m r p = p"
  by (simp add: unwrap_position_def unwrap_coordinate_def)

lemma rewrap_moved:
  assumes "0 < n" "wraps \<or> a = 0" "0 \<le> r" "r < n"
  shows "rewrap wraps n (c + ((r + a) mod n - r)) = rewrap wraps n (c + a)"
proof (cases wraps)
  case True
  have "(c + ((r + a) mod n - r)) mod n = (c - r + (r + a) mod n) mod n" by (simp add: algebra_simps)
  also have "\<dots> = (c + a) mod n" by (simp add: mod_add_right_eq)
  finally show ?thesis using True assms(1) by (simp add: rewrap_mod)
next
  case False
  then show ?thesis using assms by (simp add: rewrap_mod)
qed

text \<open>
  C12. The date line makes no difference: move the positions of an empire that is less than half the
  map wide around a wrapping map, across its edges or not.  Spread, radii and weight stay what they
  are on a flat map, and the centroid is the flat one, moved along and wrapped.
\<close>
theorem spread_ignores_date_line:
  assumes "ps \<noteq> []" "list_all (compact m) ps"
    and "wrap_has_flag m WRAP_X \<or> a = 0" "wrap_has_flag m WRAP_Y \<or> b = 0"
  shows "\<exists>flat. compute_wrapped_spread_and_centroid (m\<lparr>m_wrap_id := 0\<rparr>) ps = Some flat \<and>
    compute_wrapped_spread_and_centroid m (map (around m a b) ps) = Some (flat
      \<lparr>sp_centroid_x := rewrap (wrap_has_flag m WRAP_X) (m_xsize m) (sp_centroid_x flat + a),
       sp_centroid_y := rewrap (wrap_has_flag m WRAP_Y) (m_ysize m) (sp_centroid_y flat + b)\<rparr>)"
proof -
  obtain r rest where ps: "ps = r # rest" using assms(1) by (cases ps) auto
  have r: "compact m r" using assms(2) by (simp add: ps)
  have n: "0 < m_xsize m" "0 < m_ysize m" and rb: "0 \<le> ps_x r" "ps_x r < m_xsize m" "0 \<le> ps_y r" "ps_y r < m_ysize m"
    using r by (auto simp: compact_def)
  define A where "A = (ps_x r + a) mod m_xsize m - ps_x r"
  define B where "B = (ps_y r + b) mod m_ysize m - ps_y r"
  have us: "map (unwrap_position m (around m a b r)) (map (around m a b) ps) = map (shifted A B) ps"
    using assms(2) by (auto simp: list_all_iff unwrap_around [OF _ r assms(3,4)] A_def B_def)
  have flat: "map (unwrap_position (m\<lparr>m_wrap_id := 0\<rparr>) r) ps = ps"
    using assms(2) by (intro map_idI unwrap_flat) (auto simp: wrap_has_flag_def list_all_iff compact_def)
  have w: "0 < total_weight ps" using r by (simp add: total_weight_def ps compact_def)
  have nowrap: "\<not> wrap_has_flag (m\<lparr>m_wrap_id := 0\<rparr>) f" for f by (simp add: wrap_has_flag_def)
  have mean: "weighted_mean ps_x (map (shifted A B) ps) = weighted_mean ps_x ps + of_int A"
    "weighted_mean ps_y (map (shifted A B) ps) = weighted_mean ps_y ps + of_int B"
    by (rule mean_shifted [OF _ w], simp)+
  have ext: "extent ps_x (map (shifted A B) ps) = (fst (extent ps_x ps) + A, snd (extent ps_x ps) + A)"
    "extent ps_y (map (shifted A B) ps) = (fst (extent ps_y ps) + B, snd (extent ps_y ps) + B)"
    by (rule extent_shifted [OF _ assms(1)], simp)+
  have rad: "radius_along ps_x (map (shifted A B) ps) = radius_along ps_x ps"
    "radius_along ps_y (map (shifted A B) ps) = radius_along ps_y ps"
    by (rule radius_shifted [where c = A, OF _ assms(1) w], simp) (rule radius_shifted [where c = B, OF _ assms(1) w], simp)
  have weight: "sum_list (map ps_weight (map (shifted A B) ps)) = sum_list (map ps_weight ps)"
    by (simp add: comp_def)
  have cx: "rewrap (wrap_has_flag m WRAP_X) (m_xsize m) (c + A) = rewrap (wrap_has_flag m WRAP_X) (m_xsize m) (c + a)" for c
    unfolding A_def by (rule rewrap_moved [OF n(1) assms(3) rb(1,2)])
  have cy: "rewrap (wrap_has_flag m WRAP_Y) (m_ysize m) (c + B) = rewrap (wrap_has_flag m WRAP_Y) (m_ysize m) (c + b)" for c
    unfolding B_def by (rule rewrap_moved [OF n(2) assms(4) rb(3,4)])
  have moved: "compute_wrapped_spread_and_centroid m (map (around m a b) ps) = Some (spread_of_unwrapped m (map (shifted A B) ps))"
    unfolding us [symmetric] by (simp add: compute_wrapped_spread_and_centroid_def ps)
  have plane: "compute_wrapped_spread_and_centroid (m\<lparr>m_wrap_id := 0\<rparr>) ps = Some (spread_of_unwrapped (m\<lparr>m_wrap_id := 0\<rparr>) ps)"
    using flat by (simp add: compute_wrapped_spread_and_centroid_def ps)
  show ?thesis
    unfolding moved plane spread_of_unwrapped_def mean ext rad weight distances_shifted [OF w] floor_add_int [symmetric] cx cy
    by (simp add: rewrap_def nowrap split_beta)
qed

theorem spread_ignores_date_line_witness:
  "let m = \<lparr>m_topology_id = 0, m_wrap_id = 1, m_xsize = 20, m_ysize = 10\<rparr>;
       ps = [\<lparr>ps_x = 0, ps_y = 2, ps_weight = 3\<rparr>, \<lparr>ps_x = 6, ps_y = 4, ps_weight = 1\<rparr>]
   in \<exists>flat. compute_wrapped_spread_and_centroid (m\<lparr>m_wrap_id := 0\<rparr>) ps = Some flat \<and>
     map_option sp_spread (compute_wrapped_spread_and_centroid m (map (around m 17 0) ps)) = Some (sp_spread flat)"
proof -
  let ?m = "\<lparr>m_topology_id = 0, m_wrap_id = 1, m_xsize = 20, m_ysize = 10\<rparr>"
  let ?ps = "[\<lparr>ps_x = 0, ps_y = 2, ps_weight = 3\<rparr>, \<lparr>ps_x = 6, ps_y = 4, ps_weight = 1\<rparr>]"
  show ?thesis
    using spread_ignores_date_line [of ?ps ?m 17 0] by (auto simp: compact_def wrap_has_flag_def Let_def)
qed

end
