(* ===== verification/Observer_Follow.thy ===== *)
theory Observer_Follow
  imports Observer Camera Centroid Map_Images
begin

text \<open>
  The follow mode of an observer (\<open>civclient.js\<close>): what the view is centred on, how the parent page
  learns of it, and the polling until the data of the followed player is there.  The three interval
  variables are \<open>fo_auto\<close>, \<open>fo_initial\<close> and \<open>fo_search\<close>: what the running interval does, with the
  number of its attempts so far.  A tick is an event; \<open>now\<close> is the clock in milliseconds, \<open>aspect\<close> the
  shape of the window.  A tile of the map has coordinates.
\<close>

datatype auto_center = CenterFollowed | CenterGlobal | CenterWorldmap

datatype initial_poll = PollFollowed | PollGlobal | PollWorldmap | PollStatic

record follow_client = observer_client +
  fo_follow :: "int option"                 \<comment> \<open>\<open>observer_follow_player\<close>\<close>
  fo_auto_ms :: int                         \<comment> \<open>\<open>OBSERVER_AUTO_CENTER_MS\<close>\<close>
  fo_auto :: "auto_center option"
  fo_initial :: "(initial_poll \<times> nat) option"
  fo_search :: "(string \<times> nat) option"
  fo_interaction :: int                     \<comment> \<open>\<open>observer_user_interaction_time\<close>\<close>
  fo_listeners :: bool
  fo_last_unit_spread :: "int option"
  fo_last_radius :: "real option"
  fo_last_global :: "int option"
  fo_last_worldmap :: "real option"
  fo_zoom_mode :: "string option"
  fo_camera :: camera
  fo_aspect :: real

abbreviation (input) MAX_INITIAL_CENTER_ATTEMPTS :: nat where "MAX_INITIAL_CENTER_ATTEMPTS \<equiv> 20"
abbreviation (input) OBSERVER_INTERACTION_COOLDOWN_MS :: int where "OBSERVER_INTERACTION_COOLDOWN_MS \<equiv> 45000"

subsection \<open>Centring and telling the parent\<close>

definition centre_on :: "int \<Rightarrow> int \<times> int \<Rightarrow> follow_client \<Rightarrow> follow_client" where
  "centre_on now pos s = s\<lparr>fo_camera := center_tile_mapcanvas_3d (cl_map s) now (Some pos) (fo_camera s)\<rparr>"

definition tile_xy :: "tile \<Rightarrow> int \<times> int" where
  "tile_xy t = (the (t_x t), the (t_y t))"

definition set_camera_dy :: "int \<Rightarrow> follow_client \<Rightarrow> follow_client" where
  "set_camera_dy dy s = s\<lparr>fo_camera := (fo_camera s)\<lparr>cam_offset := (cam_offset (fo_camera s))\<lparr>v_y := of_int dy\<rparr>\<rparr>\<rparr>"

definition set_camera_dz :: "real \<Rightarrow> follow_client \<Rightarrow> follow_client" where
  "set_camera_dz dz s = s\<lparr>fo_camera := (fo_camera s)\<lparr>cam_offset := (cam_offset (fo_camera s))\<lparr>v_z := dz\<rparr>\<rparr>\<rparr>"

definition observer_centered :: "string \<Rightarrow> jval list \<Rightarrow> effect" where
  "observer_centered center_type data =
     Ui ''notify_parent_iframe'' (JStr ''observer_centered'' # JStr center_type # data)"

definition location :: "int \<times> int \<Rightarrow> jval list" where
  "location p = [JNum (fst p), JNum (snd p)]"

text \<open>The first time something was centred, and the first time nothing was there.\<close>

definition report_centered :: "string \<Rightarrow> jval list \<Rightarrow> follow_client \<Rightarrow> follow_client" where
  "report_centered center_type data s =
     (if ob_centered_notified s then s
      else emit (observer_centered center_type data)
             (s\<lparr>ob_centered_notified := True, ob_parent_notified := True\<rparr>))"

definition report_nothing :: "jval list \<Rightarrow> follow_client \<Rightarrow> follow_client" where
  "report_nothing data s =
     (if ob_parent_notified s then s
      else emit (observer_centered ''none'' data) (s\<lparr>ob_parent_notified := True\<rparr>))"

definition notify_observer_centered_fallback :: "int \<Rightarrow> string \<Rightarrow> jval list \<Rightarrow> follow_client \<Rightarrow> follow_client" where
  "notify_observer_centered_fallback now reason extra_data s =
     (case find_first_explored_tile s of
        Some t \<Rightarrow> report_centered ''fallback_explored'' (JStr reason # location (tile_xy t) @ extra_data)
                   (centre_on now (tile_xy t) s)
      | None \<Rightarrow> report_nothing (JStr reason # extra_data) s)"

subsection \<open>The user's own camera\<close>

definition observer_mark_user_interaction :: "int \<Rightarrow> follow_client \<Rightarrow> follow_client" where
  "observer_mark_user_interaction now s = (if fo_listeners s then s\<lparr>fo_interaction := now\<rparr> else s)"

definition observer_is_interaction_cooldown_active :: "int \<Rightarrow> follow_client \<Rightarrow> bool" where
  "observer_is_interaction_cooldown_active now s =
     (fo_interaction s \<noteq> 0 \<and> now - fo_interaction s < OBSERVER_INTERACTION_COOLDOWN_MS)"

definition init_observer_interaction_detection :: "bool \<Rightarrow> follow_client \<Rightarrow> follow_client" where
  "init_observer_interaction_detection canvas s =
     (if fo_listeners s \<or> \<not> canvas then s else s\<lparr>fo_listeners := True\<rparr>)"

subsection \<open>A followed player\<close>

definition changed :: "'a::linordered_idom option \<Rightarrow> 'a \<Rightarrow> 'a \<Rightarrow> bool" where
  "changed previous now_value threshold = (case previous of None \<Rightarrow> True | Some v \<Rightarrow> \<bar>now_value - v\<bar> \<ge> threshold)"

definition sp_centroid :: "spread_data \<Rightarrow> int \<times> int" where
  "sp_centroid d = (sp_centroid_x d, sp_centroid_y d)"

definition center_on_player_units_with_zoom :: "int \<Rightarrow> int \<Rightarrow> follow_client \<Rightarrow> bool \<times> follow_client" where
  "center_on_player_units_with_zoom now player_id s =
     (case get_player_units_centroid_and_spread s player_id of
        None \<Rightarrow> (False, s)
      | Some d \<Rightarrow>
          (let s1 = set_camera_dy (calculate_zoom_for_unit_spread (sp_spread d)) (centre_on now (sp_centroid d) s)
           in (True, if changed (fo_last_unit_spread s) (sp_spread d) 5
                     then s1\<lparr>fo_last_unit_spread := Some (sp_spread d)\<rparr> else s1)))"

definition center_on_player_territory_with_zoom :: "int \<Rightarrow> int \<Rightarrow> follow_client \<Rightarrow> follow_client option" where
  "center_on_player_territory_with_zoom now player_id s =
     map_option (\<lambda>d.
       let s1 = set_camera_dy (calculate_zoom_for_territory_spread (sp_effective_radius d)) (centre_on now (sp_centroid d) s)
       in if changed (fo_last_radius s) (sp_effective_radius d) 2
          then s1\<lparr>fo_last_radius := Some (sp_effective_radius d)\<rparr> else s1)
     (get_player_territory_centroid_and_spread s player_id)"

text \<open>The largest city of the player, the first one of that size.\<close>

definition larger_city :: "int \<Rightarrow> int \<times> city option \<Rightarrow> city \<Rightarrow> int \<times> city option" where
  "larger_city k b c = (if owned_city k c \<and> c_size c > fst b then (c_size c, Some c) else b)"

definition target_city :: "follow_client \<Rightarrow> player \<Rightarrow> int \<Rightarrow> city option" where
  "target_city s pl k =
     (case player_capital s pl of Some c \<Rightarrow> Some c
      | None \<Rightarrow> snd (foldl (larger_city k) (0, None) (st_vals (cl_cities s))))"

definition center_first_time :: "int \<Rightarrow> player \<Rightarrow> int \<Rightarrow> follow_client \<Rightarrow> follow_client" where
  "center_first_time now pl k s =
     (case Option.bind (target_city s pl k) (\<lambda>c. map_option (Pair c) (city_tile s (Some c))) of
        Some (c, t) \<Rightarrow> report_centered ''city'' (JStr (c_name c) # location (tile_xy t)) (centre_on now (tile_xy t) s)
      | None \<Rightarrow>
          (case find_first_explored_tile s of
             Some t \<Rightarrow> report_centered ''explored_tile'' (location (tile_xy t)) (centre_on now (tile_xy t) s)
           | None \<Rightarrow> report_nothing [JStr ''no_visible_tiles'', JNum k] s))"

definition observer_center_on_followed_player :: "int \<Rightarrow> follow_client \<Rightarrow> follow_client" where
  "observer_center_on_followed_player now s =
     (case fo_follow s of None \<Rightarrow> s
      | Some k \<Rightarrow>
          (case st_get (cl_players s) k of None \<Rightarrow> s
           | Some pl \<Rightarrow>
               if \<not> p_is_alive pl then s
               else if \<not> ob_centered_notified s then center_first_time now pl k s
               else if observer_is_interaction_cooldown_active now s then s
               else (case center_on_player_territory_with_zoom now k s of
                       Some s1 \<Rightarrow> s1
                     | None \<Rightarrow>
                         (case find_first_explored_tile s of
                            Some t \<Rightarrow> report_centered ''explored_tile'' (location (tile_xy t)) (centre_on now (tile_xy t) s)
                          | None \<Rightarrow> report_nothing [JStr ''no_visible_tiles'', JNum k] s))))"

subsection \<open>All players\<close>

definition center_on_all_players_with_zoom :: "int \<Rightarrow> follow_client \<Rightarrow> (spread_data \<times> follow_client) option" where
  "center_on_all_players_with_zoom now s =
     map_option (\<lambda>d.
       let s1 = set_camera_dy (calculate_zoom_for_global_spread (sp_spread d)) (centre_on now (sp_centroid d) s)
       in (d, if changed (fo_last_global s) (sp_spread d) 10
              then s1\<lparr>fo_last_global := Some (sp_spread d)\<rparr> else s1))
     (get_all_players_units_centroid_and_spread s)"

definition count_owners :: "int list \<Rightarrow> int" where
  "count_owners owners = int (length (remdups owners))"

definition observer_center_global_view :: "int \<Rightarrow> follow_client \<Rightarrow> follow_client" where
  "observer_center_global_view now s =
     (if ob_centered_notified s \<and> observer_is_interaction_cooldown_active now s then s
      else case center_on_all_players_with_zoom now s of
             Some (d, s1) \<Rightarrow> (let us = placed_units s (\<lambda>u. counted_player s (u_owner u))
                              in report_centered ''global_units''
                                   [JNum (count_owners (map u_owner us)), JNum (int (length us)), JNum (sp_spread d)] s1)
           | None \<Rightarrow>
               (case find_first_explored_tile s of
                  Some t \<Rightarrow> report_centered ''fallback_explored'' (JStr ''no_player_units'' # location (tile_xy t))
                             (centre_on now (tile_xy t) s)
                | None \<Rightarrow> report_nothing [JStr ''no_visible_content''] s))"

text \<open>Unlike the other modes, the height is only set when the radius changed enough.\<close>

definition center_on_all_territories_with_zoom :: "int \<Rightarrow> follow_client \<Rightarrow> (spread_data \<times> follow_client) option" where
  "center_on_all_territories_with_zoom now s =
     map_option (\<lambda>d.
       let r = max (sp_radius_x d) (sp_radius_y d);
           s1 = set_camera_dz 80 (centre_on now (sp_centroid d) s)
       in (d, if changed (fo_last_worldmap s) r 3
              then (set_camera_dy (calculate_zoom_for_worldmap_territory (fo_aspect s) (sp_radius_x d) (sp_radius_y d)) s1)
                     \<lparr>fo_last_worldmap := Some r\<rparr>
              else s1))
     (get_all_players_territory_centroid_and_spread s)"

definition observer_worldmap_center_dynamic :: "int \<Rightarrow> follow_client \<Rightarrow> follow_client" where
  "observer_worldmap_center_dynamic now s =
     (if ob_centered_notified s \<and> observer_is_interaction_cooldown_active now s then s
      else case center_on_all_territories_with_zoom now s of
             Some (d, s1) \<Rightarrow> (let us = placed_units s (\<lambda>u. counted_player s (u_owner u));
                                  cs = placed_cities s (\<lambda>c. counted_player s (c_owner c))
                              in report_centered ''worldmap_territory''
                                   [JNum (count_owners (map c_owner cs @ map u_owner us)), JNum (int (length cs)),
                                    JNum (int (length us)), JNum (sp_spread d)] s1)
           | None \<Rightarrow>
               (case find_first_explored_tile s of
                  Some t \<Rightarrow> report_centered ''fallback_explored'' [JStr ''no_player_territory''] (centre_on now (tile_xy t) s)
                | None \<Rightarrow> report_nothing [JStr ''worldmap_no_data''] s))"

text \<open>The whole map at once; the parent is told whatever it was told before.\<close>

definition observer_worldmap_fit_entire_map :: "int \<Rightarrow> follow_client \<Rightarrow> bool \<times> follow_client" where
  "observer_worldmap_fit_entire_map now s =
     (if m_xsize (cl_map s) = 0 \<or> m_ysize (cl_map s) = 0 then (False, s)
      else (let dy = worldmap_fit_height (fo_aspect s) (cl_map s);
                s1 = set_camera_dz 80 (set_camera_dy dy
                       (centre_on now (m_xsize (cl_map s) div 2, m_ysize (cl_map s) div 2) s))
            in (True, emit (observer_centered ''worldmap_static''
                              [JNum (m_xsize (cl_map s)), JNum (m_ysize (cl_map s)), JNum dy])
                       (s1\<lparr>ob_centered_notified := True, ob_parent_notified := True\<rparr>))))"

subsection \<open>The intervals\<close>

text \<open>\<open>cleanup_observer_follow_mode\<close>, also called when the page is left.\<close>

definition cleanup_observer_follow_mode :: "follow_client \<Rightarrow> follow_client" where
  "cleanup_observer_follow_mode s =
     s\<lparr>fo_auto := None, fo_initial := None, fo_search := None, fo_follow := None,
       fo_last_unit_spread := None, fo_last_radius := None, fo_last_global := None,
       fo_last_worldmap := None, fo_zoom_mode := None, fo_interaction := 0, fo_listeners := False\<rparr>"

definition auto_center :: "int \<Rightarrow> auto_center \<Rightarrow> follow_client \<Rightarrow> follow_client" where
  "auto_center now a =
     (case a of CenterFollowed \<Rightarrow> observer_center_on_followed_player now
      | CenterGlobal \<Rightarrow> observer_center_global_view now
      | CenterWorldmap \<Rightarrow> observer_worldmap_center_dynamic now)"

definition start_observer_follow_intervals :: "int \<Rightarrow> follow_client \<Rightarrow> follow_client" where
  "start_observer_follow_intervals now s =
     (if fo_follow s = None then s
      else (observer_center_on_followed_player now s)
             \<lparr>fo_auto := Some CenterFollowed, fo_initial := Some (PollFollowed, 0)\<rparr>)"

definition start_observer_global_view_intervals :: "int \<Rightarrow> follow_client \<Rightarrow> follow_client" where
  "start_observer_global_view_intervals now s =
     (observer_center_global_view now s)\<lparr>fo_auto := Some CenterGlobal, fo_initial := Some (PollGlobal, 0)\<rparr>"

text \<open>Any mode but \<open>dynamic\<close> is the static one; without the parameter it is \<open>dynamic\<close>.\<close>

definition start_observer_worldmap_intervals :: "int \<Rightarrow> follow_client \<Rightarrow> follow_client" where
  "start_observer_worldmap_intervals now s =
     (let zoom_mode = (case url_var s ''zoom_mode'' of None \<Rightarrow> ''dynamic'' | Some z \<Rightarrow> if z = [] then ''dynamic'' else z);
          s1 = s\<lparr>fo_zoom_mode := Some zoom_mode\<rparr>
      in if zoom_mode = ''dynamic''
         then (observer_worldmap_center_dynamic now s1)\<lparr>fo_auto := Some CenterWorldmap, fo_initial := Some (PollWorldmap, 0)\<rparr>
         else (case observer_worldmap_fit_entire_map now s1 of
                 (done_now, s2) \<Rightarrow> if done_now then s2 else s2\<lparr>fo_initial := Some (PollStatic, 0)\<rparr>))"

text \<open>The search for the followed player, by name, user name or number.\<close>

definition is_followed :: "string \<Rightarrow> player \<Rightarrow> bool" where
  "is_followed param pl =
     (p_name pl = param \<or> (p_username pl \<noteq> [] \<and> p_username pl = param) \<or> int_text (p_playerno pl) = param)"

definition find_followed :: "string \<Rightarrow> follow_client \<Rightarrow> int option" where
  "find_followed param s = map_option p_playerno (List.find (is_followed param) (st_vals (cl_players s)))"

definition read_autocenter :: "follow_client \<Rightarrow> follow_client" where
  "read_autocenter s =
     (case Option.bind (url_var s ''autocenter'') parse_number of
        Some n \<Rightarrow> if 1000 \<le> n \<and> n \<le> 60000 then s\<lparr>fo_auto_ms := n\<rparr> else s
      | None \<Rightarrow> s)"

definition start_unfollowed :: "int \<Rightarrow> follow_client \<Rightarrow> follow_client" where
  "start_unfollowed now s =
     (if url_var s ''camera'' = Some ''worldmap'' then start_observer_worldmap_intervals now s
      else start_observer_global_view_intervals now s)"

text \<open>\<open>canvas\<close>: whether the map canvas is there.  A malformed name throws after the cleanup.\<close>

definition init_observer_follow_mode :: "bool \<Rightarrow> int \<Rightarrow> follow_client \<Rightarrow> follow_client option" where
  "init_observer_follow_mode canvas now s =
     (let s1 = cleanup_observer_follow_mode s
      in if \<not> fc_observing s1 then Some s1
         else (let s2 = read_autocenter (init_observer_interaction_detection canvas s1)
               in case url_var s2 ''follow'' of
                    None \<Rightarrow> Some (start_unfollowed now s2)
                  | Some raw \<Rightarrow>
                      if raw = [] \<or> raw = ''global'' then Some (start_unfollowed now s2)
                      else map_option
                             (\<lambda>param. case find_followed param s2 of
                                Some k \<Rightarrow> start_observer_follow_intervals now (s2\<lparr>fo_follow := Some k\<rparr>)
                              | None \<Rightarrow> s2\<lparr>fo_search := Some (param, 0)\<rparr>)
                             (decodeURIComponent raw)))"

subsection \<open>The ticks\<close>

definition auto_tick :: "int \<Rightarrow> follow_client \<Rightarrow> follow_client" where
  "auto_tick now s = (case fo_auto s of None \<Rightarrow> s | Some a \<Rightarrow> auto_center now a s)"

definition poll_ready :: "initial_poll \<Rightarrow> follow_client \<Rightarrow> bool" where
  "poll_ready p s =
     (case p of PollFollowed \<Rightarrow> has_cities_for_player s (fo_follow s) \<or> has_units_for_player s (fo_follow s)
      | PollGlobal \<Rightarrow> has_units_for_any_player s
      | PollWorldmap \<Rightarrow> has_units_for_any_player s
      | PollStatic \<Rightarrow> m_xsize (cl_map s) \<noteq> 0 \<and> m_ysize (cl_map s) \<noteq> 0)"

definition poll_success :: "initial_poll \<Rightarrow> int \<Rightarrow> follow_client \<Rightarrow> follow_client" where
  "poll_success p now =
     (case p of PollFollowed \<Rightarrow> observer_center_on_followed_player now
      | PollGlobal \<Rightarrow> observer_center_global_view now
      | PollWorldmap \<Rightarrow> observer_worldmap_center_dynamic now
      | PollStatic \<Rightarrow> \<lambda>s. snd (observer_worldmap_fit_entire_map now s))"

definition poll_timeout :: "initial_poll \<Rightarrow> int \<Rightarrow> follow_client \<Rightarrow> follow_client" where
  "poll_timeout p now s =
     (case p of PollFollowed \<Rightarrow> notify_observer_centered_fallback now ''player_data_timeout'' [JNum (the (fo_follow s))] s
      | PollGlobal \<Rightarrow> notify_observer_centered_fallback now ''global_units_timeout'' [] s
      | PollWorldmap \<Rightarrow> notify_observer_centered_fallback now ''worldmap_territory_timeout'' [] s
      | PollStatic \<Rightarrow> notify_observer_centered_fallback now ''worldmap_map_timeout'' [] s)"

definition initial_tick :: "int \<Rightarrow> follow_client \<Rightarrow> follow_client" where
  "initial_tick now s =
     (case fo_initial s of None \<Rightarrow> s
      | Some (p, n) \<Rightarrow>
          (if poll_ready p s then poll_success p now (s\<lparr>fo_initial := None\<rparr>)
           else if Suc n \<ge> MAX_INITIAL_CENTER_ATTEMPTS then poll_timeout p now (s\<lparr>fo_initial := None\<rparr>)
           else s\<lparr>fo_initial := Some (p, Suc n)\<rparr>))"

definition search_tick :: "int \<Rightarrow> follow_client \<Rightarrow> follow_client" where
  "search_tick now s =
     (case fo_search s of None \<Rightarrow> s
      | Some (param, n) \<Rightarrow>
          (case find_followed param s of
             Some k \<Rightarrow> start_observer_follow_intervals now (s\<lparr>fo_follow := Some k, fo_search := None\<rparr>)
           | None \<Rightarrow>
               if Suc n \<ge> MAX_INITIAL_CENTER_ATTEMPTS
               then notify_observer_centered_fallback now ''player_not_found'' [] (s\<lparr>fo_search := None\<rparr>)
               else s\<lparr>fo_search := Some (param, Suc n)\<rparr>))"

end
