(* ===== verification/Follow_Facts.thy ===== *)
theory Follow_Facts
  imports Observer_Follow Observer_Facts Object_Facts
begin

text \<open>
  The follow mode as a state machine: whatever arrives from the server between the ticks, the parent
  page is told at most once that the view is centred and at most once that there is nothing to
  centre on; the polling ends; and the automatic centring leaves a view the user just changed alone.
\<close>

subsection \<open>Counting the reports\<close>

definition is_centred_report :: "effect \<Rightarrow> bool" where
  "is_centred_report e = (case e of
     Ui n (JStr a # JStr b # _) \<Rightarrow> n = ''notify_parent_iframe'' \<and> a = ''observer_centered'' \<and> b \<noteq> ''none''
   | _ \<Rightarrow> False)"

definition is_nothing_report :: "effect \<Rightarrow> bool" where
  "is_nothing_report e = (case e of
     Ui n (JStr a # JStr b # _) \<Rightarrow> n = ''notify_parent_iframe'' \<and> a = ''observer_centered'' \<and> b = ''none''
   | _ \<Rightarrow> False)"

definition centred_count :: "'a client_scheme \<Rightarrow> nat" where
  "centred_count s = length (filter is_centred_report (cl_out s))"

definition nothing_count :: "'a client_scheme \<Rightarrow> nat" where
  "nothing_count s = length (filter is_nothing_report (cl_out s))"

definition reports_match :: "follow_client \<Rightarrow> bool" where
  "reports_match s = (centred_count s = of_bool (ob_centered_notified s)
     \<and> nothing_count s \<le> of_bool (ob_parent_notified s) \<and> (ob_centered_notified s \<longrightarrow> ob_parent_notified s))"

lemma count_emit [simp]:
  "centred_count (emit e s) = centred_count s + of_bool (is_centred_report e)"
  "nothing_count (emit e s) = nothing_count s + of_bool (is_nothing_report e)"
  by (simp_all add: centred_count_def nothing_count_def)

lemma report_kinds [simp]:
  "is_centred_report (observer_centered k d) = (k \<noteq> ''none'')" "is_nothing_report (observer_centered k d) = (k = ''none'')"
  by (simp_all add: is_centred_report_def is_nothing_report_def observer_centered_def)

text \<open>The parts of the state the reports depend on.\<close>

definition report_state :: "follow_client \<Rightarrow> effect list \<times> bool \<times> bool" where
  "report_state s = (cl_out s, ob_centered_notified s, ob_parent_notified s)"

lemma reports_match_cong: "report_state s = report_state t \<Longrightarrow> reports_match s = reports_match t"
  by (simp add: report_state_def reports_match_def centred_count_def nothing_count_def)

lemma report_state_frame [simp]:
  "report_state (centre_on now p s) = report_state s"
  "report_state (set_camera_dy dy s) = report_state s" "report_state (set_camera_dz dz s) = report_state s"
  by (simp_all add: report_state_def centre_on_def set_camera_dy_def set_camera_dz_def)

lemma report_state_fields [simp]:
  "report_state (s\<lparr>fo_auto := a\<rparr>) = report_state s" "report_state (s\<lparr>fo_initial := b\<rparr>) = report_state s"
  "report_state (s\<lparr>fo_search := c\<rparr>) = report_state s" "report_state (s\<lparr>fo_follow := d\<rparr>) = report_state s"
  "report_state (s\<lparr>fo_last_radius := r\<rparr>) = report_state s" "report_state (s\<lparr>fo_last_global := g\<rparr>) = report_state s"
  "report_state (s\<lparr>fo_last_worldmap := w\<rparr>) = report_state s" "report_state (s\<lparr>fo_zoom_mode := z\<rparr>) = report_state s"
  "report_state (s\<lparr>fo_interaction := i\<rparr>) = report_state s" "report_state (s\<lparr>fo_auto_ms := ms\<rparr>) = report_state s"
  "report_state (s\<lparr>fo_listeners := l\<rparr>) = report_state s"
  by (simp_all add: report_state_def)

lemma report_centered_match:
  assumes "reports_match s" "k \<noteq> ''none''"
  shows "reports_match (report_centered k d s) \<and> ob_centered_notified (report_centered k d s)"
proof (cases "ob_centered_notified s")
  case True
  then show ?thesis using assms by (simp add: report_centered_def)
next
  case False
  let ?t = "s\<lparr>ob_centered_notified := True, ob_parent_notified := True\<rparr>"
  have "centred_count ?t = 0" "nothing_count ?t \<le> 1" "ob_centered_notified (emit e ?t)" "ob_parent_notified (emit e ?t)" for e
    using assms(1) False
    by (auto simp: reports_match_def centred_count_def nothing_count_def emit_def of_bool_def split: if_splits)
  then show ?thesis using False assms(2) by (simp add: report_centered_def reports_match_def)
qed

lemma report_nothing_match:
  assumes "reports_match s"
  shows "reports_match (report_nothing d s)"
proof (cases "ob_parent_notified s")
  case True
  then show ?thesis using assms by (simp add: report_nothing_def)
next
  case False
  let ?t = "s\<lparr>ob_parent_notified := True\<rparr>"
  have "\<not> ob_centered_notified s" using assms False by (simp add: reports_match_def)
  then have "centred_count ?t = 0" "nothing_count ?t = 0" "\<not> ob_centered_notified (emit e ?t)" "ob_parent_notified (emit e ?t)" for e
    using assms False by (auto simp: reports_match_def centred_count_def nothing_count_def emit_def)
  then show ?thesis using False by (simp add: report_nothing_def reports_match_def)
qed

lemma match_centre [simp]: "reports_match (centre_on now p s) = reports_match s"
  by (rule reports_match_cong) simp

lemma fallback_match: "reports_match s \<Longrightarrow> reports_match (notify_observer_centered_fallback now r d s)"
  by (simp add: notify_observer_centered_fallback_def report_centered_match report_nothing_match split: option.split)

lemma followed_match:
  assumes "reports_match s"
  shows "reports_match (observer_center_on_followed_player now s)"
proof -
  have t: "reports_match s1" if "center_on_player_territory_with_zoom now k s = Some s1" for k s1
  proof -
    have "report_state s1 = report_state s"
      using that by (auto simp: center_on_player_territory_with_zoom_def Let_def)
    then show ?thesis using assms reports_match_cong by blast
  qed
  have first: "reports_match (center_first_time now pl k s)" for pl k
    using assms by (simp add: center_first_time_def report_centered_match report_nothing_match split: option.split)
  show ?thesis
    using assms t first
    by (simp add: observer_center_on_followed_player_def report_centered_match report_nothing_match
        split: option.split)
qed

lemma global_match:
  assumes "reports_match s"
  shows "reports_match (observer_center_global_view now s)"
proof -
  have t: "reports_match s1" if "center_on_all_players_with_zoom now s = Some (d, s1)" for d s1
  proof -
    have "report_state s1 = report_state s"
      using that by (auto simp: center_on_all_players_with_zoom_def Let_def)
    then show ?thesis using assms reports_match_cong by blast
  qed
  show ?thesis
    using assms t
    by (auto simp: observer_center_global_view_def report_centered_match report_nothing_match Let_def
        split: option.split)
qed

lemma worldmap_match:
  assumes "reports_match s"
  shows "reports_match (observer_worldmap_center_dynamic now s)"
proof -
  have t: "reports_match s1" if "center_on_all_territories_with_zoom now s = Some (d, s1)" for d s1
  proof -
    have "report_state s1 = report_state s"
      using that by (auto simp: center_on_all_territories_with_zoom_def Let_def)
    then show ?thesis using assms reports_match_cong by blast
  qed
  show ?thesis
  proof (cases "center_on_all_territories_with_zoom now s")
    case None
    then show ?thesis using assms
      by (simp add: observer_worldmap_center_dynamic_def report_centered_match report_nothing_match split: option.split)
  next
    case (Some ds)
    then have "reports_match (snd ds)" using t [of "fst ds" "snd ds"] by simp
    then show ?thesis using assms Some
      by (simp add: observer_worldmap_center_dynamic_def report_centered_match Let_def split_beta)
  qed
qed

lemma auto_match: "reports_match s \<Longrightarrow> reports_match (auto_center now a s)"
  by (cases a) (simp_all add: auto_center_def followed_match global_match worldmap_match)

text \<open>The static fit reports without looking at the flag.\<close>

lemma static_match:
  assumes "reports_match s" "\<not> ob_centered_notified s"
  shows "reports_match (snd (observer_worldmap_fit_entire_map now s))"
proof (cases "m_xsize (cl_map s) = 0 \<or> m_ysize (cl_map s) = 0")
  case True
  then show ?thesis using assms by (auto simp: observer_worldmap_fit_entire_map_def)
next
  case False
  define dy where "dy = worldmap_fit_height (fo_aspect s) (cl_map s)"
  define t where "t = set_camera_dz 80 (set_camera_dy dy (centre_on now (m_xsize (cl_map s) div 2, m_ysize (cl_map s) div 2) s))"
  have rs: "report_state t = report_state s" by (simp add: t_def)
  then have "reports_match t" "\<not> ob_centered_notified t"
    using assms reports_match_cong [OF rs] by (simp_all add: report_state_def)
  then have "reports_match (report_centered ''worldmap_static'' d t)" for d
    using report_centered_match by simp
  then show ?thesis
    using False \<open>\<not> ob_centered_notified t\<close>
    by (simp add: observer_worldmap_fit_entire_map_def Let_def dy_def [symmetric] t_def [symmetric] report_centered_def)
qed

subsection \<open>The events\<close>

datatype follow_event = AutoTick int | InitialTick int | SearchTick int | Interacts int | World client

text \<open>What the packets change between the ticks, as far as the follow mode reads it.\<close>

definition set_world :: "client \<Rightarrow> follow_client \<Rightarrow> follow_client" where
  "set_world w s = s\<lparr>cl_map := cl_map w, cl_tiles := cl_tiles w, cl_units := cl_units w,
     cl_cities := cl_cities w, cl_players := cl_players w, cl_nations := cl_nations w\<rparr>"

fun follow_step :: "follow_event \<Rightarrow> follow_client \<Rightarrow> follow_client" where
  "follow_step (AutoTick now) s = auto_tick now s"
| "follow_step (InitialTick now) s = initial_tick now s"
| "follow_step (SearchTick now) s = search_tick now s"
| "follow_step (Interacts now) s = observer_mark_user_interaction now s"
| "follow_step (World w) s = set_world w s"

text \<open>While the static map is waited for, nothing else runs and nothing was centred.\<close>

definition static_alone :: "follow_client \<Rightarrow> bool" where
  "static_alone s = (\<forall>n. fo_initial s = Some (PollStatic, n) \<longrightarrow>
     fo_auto s = None \<and> fo_search s = None \<and> \<not> ob_centered_notified s)"

definition follow_inv :: "follow_client \<Rightarrow> bool" where
  "follow_inv s = (reports_match s \<and> static_alone s)"

lemma report_interval_frame [simp]:
  "fo_initial (report_centered k d s) = fo_initial s" "fo_search (report_centered k d s) = fo_search s"
  "fo_auto (report_centered k d s) = fo_auto s"
  "fo_initial (report_nothing d s) = fo_initial s" "fo_search (report_nothing d s) = fo_search s"
  "fo_auto (report_nothing d s) = fo_auto s"
  "fo_initial (centre_on now p s) = fo_initial s" "fo_search (centre_on now p s) = fo_search s"
  "fo_auto (centre_on now p s) = fo_auto s"
  "fo_initial (set_camera_dy dy s) = fo_initial s" "fo_search (set_camera_dy dy s) = fo_search s"
  "fo_auto (set_camera_dy dy s) = fo_auto s"
  "fo_initial (set_camera_dz dz s) = fo_initial s" "fo_search (set_camera_dz dz s) = fo_search s"
  "fo_auto (set_camera_dz dz s) = fo_auto s"
  by (simp_all add: report_centered_def report_nothing_def emit_def centre_on_def set_camera_dy_def set_camera_dz_def)

definition intervals :: "follow_client \<Rightarrow> auto_center option \<times> (initial_poll \<times> nat) option \<times> (string \<times> nat) option" where
  "intervals s = (fo_auto s, fo_initial s, fo_search s)"

lemma intervals_simple [simp]:
  "intervals (report_centered k d s) = intervals s" "intervals (report_nothing d s) = intervals s"
  "intervals (centre_on now p s) = intervals s" "intervals (set_camera_dy dy s) = intervals s"
  "intervals (set_camera_dz dz s) = intervals s" "intervals (s\<lparr>fo_last_radius := r\<rparr>) = intervals s"
  "intervals (s\<lparr>fo_last_global := g\<rparr>) = intervals s" "intervals (s\<lparr>fo_last_worldmap := w\<rparr>) = intervals s"
  "intervals (s\<lparr>fo_zoom_mode := z\<rparr>) = intervals s"
  by (simp_all add: intervals_def)

lemma intervals_fallback [simp]: "intervals (notify_observer_centered_fallback now r d s) = intervals s"
  by (simp add: notify_observer_centered_fallback_def split: option.split)

lemma intervals_followed [simp]: "intervals (observer_center_on_followed_player now s) = intervals s"
proof -
  have "intervals s1 = intervals s" if "center_on_player_territory_with_zoom now k s = Some s1" for k s1
    using that by (auto simp: center_on_player_territory_with_zoom_def Let_def)
  then show ?thesis
    by (simp add: observer_center_on_followed_player_def center_first_time_def split: option.split)
qed

lemma intervals_global [simp]: "intervals (observer_center_global_view now s) = intervals s"
proof -
  have "intervals (snd ds) = intervals s" if "center_on_all_players_with_zoom now s = Some ds" for ds
    using that by (auto simp: center_on_all_players_with_zoom_def Let_def)
  then show ?thesis
    by (simp add: observer_center_global_view_def Let_def split_beta split: option.split)
qed

lemma intervals_worldmap [simp]: "intervals (observer_worldmap_center_dynamic now s) = intervals s"
proof -
  have "intervals (snd ds) = intervals s" if "center_on_all_territories_with_zoom now s = Some ds" for ds
    using that by (auto simp: center_on_all_territories_with_zoom_def Let_def)
  then show ?thesis
    by (simp add: observer_worldmap_center_dynamic_def Let_def split_beta split: option.split)
qed

lemma intervals_static [simp]: "intervals (snd (observer_worldmap_fit_entire_map now s)) = intervals s"
proof -
  have "intervals (t\<lparr>ob_centered_notified := a, ob_parent_notified := b\<rparr>) = intervals t"
    "intervals (emit e t) = intervals t" for a b e t
    by (simp_all add: intervals_def emit_def)
  then show ?thesis by (simp add: observer_worldmap_fit_entire_map_def Let_def)
qed

lemma intervals_auto [simp]: "intervals (auto_center now a s) = intervals s"
  by (cases a) (simp_all add: auto_center_def)

lemma intervals_success [simp]: "intervals (poll_success p now s) = intervals s"
  by (cases p) (simp_all add: poll_success_def)

lemma intervals_timeout [simp]: "intervals (poll_timeout p now s) = intervals s"
  by (cases p) (simp_all add: poll_timeout_def)

lemma match_fields [simp]:
  "reports_match (s\<lparr>fo_auto := a\<rparr>) = reports_match s" "reports_match (s\<lparr>fo_initial := b\<rparr>) = reports_match s"
  "reports_match (s\<lparr>fo_search := c\<rparr>) = reports_match s" "reports_match (s\<lparr>fo_follow := d\<rparr>) = reports_match s"
  "reports_match (s\<lparr>fo_zoom_mode := z\<rparr>) = reports_match s" "reports_match (s\<lparr>fo_interaction := i\<rparr>) = reports_match s"
  "reports_match (s\<lparr>fo_auto_ms := m\<rparr>) = reports_match s" "reports_match (s\<lparr>fo_listeners := l\<rparr>) = reports_match s"
  by (rule reports_match_cong, simp)+

lemma start_follow_match: "reports_match s \<Longrightarrow> reports_match (start_observer_follow_intervals now s)"
  by (simp add: start_observer_follow_intervals_def followed_match)

lemma success_match:
  "reports_match s \<Longrightarrow> p = PollStatic \<longrightarrow> \<not> ob_centered_notified s \<Longrightarrow> reports_match (poll_success p now s)"
  by (cases p) (simp_all add: poll_success_def followed_match global_match worldmap_match static_match)

lemma timeout_match: "reports_match s \<Longrightarrow> reports_match (poll_timeout p now s)"
  by (cases p) (simp_all add: poll_timeout_def fallback_match)

lemma static_alone_none: "fo_initial s = None \<Longrightarrow> static_alone s"
  by (simp add: static_alone_def)

lemma static_alone_other: "fo_initial s = Some (p, n) \<Longrightarrow> p \<noteq> PollStatic \<Longrightarrow> static_alone s"
  by (simp add: static_alone_def)

lemma fo_initial_intervals: "intervals s = intervals t \<Longrightarrow> fo_initial s = fo_initial t"
  by (simp add: intervals_def)

lemma follow_step_inv:
  assumes "follow_inv s"
  shows "follow_inv (follow_step e s)"
proof (cases e)
  case (AutoTick now)
  show ?thesis
  proof (cases "fo_auto s")
    case None
    then show ?thesis using assms AutoTick by (simp add: auto_tick_def)
  next
    case (Some a)
    then have "static_alone (auto_center now a s)"
      using assms fo_initial_intervals [OF intervals_auto, of now a s] by (auto simp: follow_inv_def static_alone_def)
    then show ?thesis using assms AutoTick Some by (simp add: auto_tick_def follow_inv_def auto_match)
  qed
next
  case (InitialTick now)
  show ?thesis
  proof (cases "fo_initial s")
    case None
    then show ?thesis using assms InitialTick by (simp add: initial_tick_def)
  next
    case (Some pn)
    obtain p n where pn: "pn = (p, n)" by (cases pn)
    let ?t = "s\<lparr>fo_initial := None\<rparr>"
    have t: "reports_match ?t" using assms by (simp add: follow_inv_def)
    have static: "p = PollStatic \<longrightarrow> \<not> ob_centered_notified ?t \<and> fo_auto s = None \<and> fo_search s = None"
      using assms Some pn by (simp add: follow_inv_def static_alone_def)
    have off: "static_alone (poll_success p now ?t)" "static_alone (poll_timeout p now ?t)"
      using fo_initial_intervals [OF intervals_success, of p now ?t] fo_initial_intervals [OF intervals_timeout, of p now ?t]
      by (simp_all add: static_alone_none)
    have again: "static_alone (s\<lparr>fo_initial := Some (p, Suc n)\<rparr>)" using static by (auto simp: static_alone_def)
    show ?thesis
      using InitialTick Some pn t static off again success_match [OF t] timeout_match [OF t] assms
      by (simp add: initial_tick_def follow_inv_def)
  qed
next
  case (SearchTick now)
  show ?thesis
  proof (cases "fo_search s")
    case None
    then show ?thesis using assms SearchTick by (simp add: search_tick_def)
  next
    case (Some pn)
    obtain param n where pn: "pn = (param, n)" by (cases pn)
    have initial: "fo_initial s \<noteq> Some (PollStatic, k)" for k
      using assms Some by (auto simp: follow_inv_def static_alone_def)
    have start: "static_alone (start_observer_follow_intervals now (s\<lparr>fo_follow := Some k, fo_search := None\<rparr>))" for k
      by (rule static_alone_other [of _ PollFollowed 0]) (simp_all add: start_observer_follow_intervals_def)
    have fall: "static_alone (notify_observer_centered_fallback now r [] (s\<lparr>fo_search := None\<rparr>))" for r
      using fo_initial_intervals [OF intervals_fallback, of now r "[]" "s\<lparr>fo_search := None\<rparr>"] initial
      by (simp add: static_alone_def)
    show ?thesis
      using assms SearchTick Some pn initial start fall
      by (auto simp: search_tick_def follow_inv_def start_follow_match fallback_match static_alone_def split: option.split)
  qed
next
  case (Interacts now)
  then show ?thesis using assms
    by (simp add: observer_mark_user_interaction_def follow_inv_def static_alone_def)
next
  case (World w)
  have "report_state (set_world w s) = report_state s" by (simp add: report_state_def set_world_def)
  then show ?thesis using assms World reports_match_cong [of "set_world w s" s]
    by (simp add: follow_inv_def static_alone_def) (simp add: set_world_def)
qed

lemma follow_steps_inv: "follow_inv s \<Longrightarrow> follow_inv (fold follow_step evs s)"
  by (induction evs arbitrary: s) (simp_all add: follow_step_inv)

lemma read_autocenter_frame:
  "report_state (read_autocenter s) = report_state s" "intervals (read_autocenter s) = intervals s"
  by (simp_all add: read_autocenter_def split: option.split) (simp_all add: intervals_def split: option.split)

lemma start_unfollowed_inv:
  assumes "reports_match s" "\<not> ob_centered_notified s" "fo_auto s = None" "fo_initial s = None" "fo_search s = None"
  shows "follow_inv (start_unfollowed now s)"
proof -
  have dyn: "follow_inv (t\<lparr>fo_auto := Some a, fo_initial := Some (p, 0)\<rparr>)" if "reports_match t" "p \<noteq> PollStatic" for t a p
    using that by (simp add: follow_inv_def static_alone_def)
  have fit: "follow_inv (snd (observer_worldmap_fit_entire_map now (s\<lparr>fo_zoom_mode := z\<rparr>)))" for z
  proof -
    have "reports_match (snd (observer_worldmap_fit_entire_map now (s\<lparr>fo_zoom_mode := z\<rparr>)))"
      by (rule static_match) (use assms in simp_all)
    moreover have "fo_initial (snd (observer_worldmap_fit_entire_map now (s\<lparr>fo_zoom_mode := z\<rparr>))) = None"
      using fo_initial_intervals [OF intervals_static, of now "s\<lparr>fo_zoom_mode := z\<rparr>"] assms(4) by simp
    ultimately show ?thesis by (simp add: follow_inv_def static_alone_none)
  qed
  have wait: "follow_inv ((snd (observer_worldmap_fit_entire_map now (s\<lparr>fo_zoom_mode := z\<rparr>)))\<lparr>fo_initial := Some (PollStatic, 0)\<rparr>)"
    if "\<not> fst (observer_worldmap_fit_entire_map now (s\<lparr>fo_zoom_mode := z\<rparr>))" for z
  proof -
    have "snd (observer_worldmap_fit_entire_map now (s\<lparr>fo_zoom_mode := z\<rparr>)) = s\<lparr>fo_zoom_mode := z\<rparr>"
      using that by (auto simp: observer_worldmap_fit_entire_map_def Let_def split: if_splits)
    then show ?thesis using assms by (simp add: follow_inv_def static_alone_def)
  qed
  show ?thesis
    using assms fit wait
    by (simp add: start_unfollowed_def start_observer_worldmap_intervals_def start_observer_global_view_intervals_def
        dyn global_match worldmap_match Let_def split_beta)
qed

lemma cleaned_state:
  "fo_auto (cleanup_observer_follow_mode s) = None" "fo_initial (cleanup_observer_follow_mode s) = None"
  "fo_search (cleanup_observer_follow_mode s) = None"
  "report_state (cleanup_observer_follow_mode s) = report_state s"
  by (simp_all add: cleanup_observer_follow_mode_def report_state_def)

lemma init_follow_inv:
  assumes "reports_match s" "\<not> ob_centered_notified s" "init_observer_follow_mode canvas now s = Some s0"
  shows "follow_inv s0"
proof -
  define c where "c = cleanup_observer_follow_mode s"
  define t where "t = read_autocenter (init_observer_interaction_detection canvas c)"
  have c: "report_state c = report_state s" "fo_auto c = None" "fo_initial c = None" "fo_search c = None"
    by (simp_all add: c_def cleaned_state)
  have l: "report_state (init_observer_interaction_detection canvas c) = report_state c"
    "intervals (init_observer_interaction_detection canvas c) = intervals c"
    by (simp_all add: init_observer_interaction_detection_def intervals_def)
  have t: "report_state t = report_state s" "intervals t = intervals c"
    by (simp_all add: t_def read_autocenter_frame l c)
  then have idle: "fo_auto t = None" "fo_initial t = None" "fo_search t = None" using c by (simp_all add: intervals_def)
  have m: "reports_match t" "\<not> ob_centered_notified t" "reports_match c"
    using assms(1,2) reports_match_cong [OF t(1)] reports_match_cong [OF c(1)] t(1) by (simp_all add: report_state_def)
  have unf: "follow_inv (start_unfollowed now t)" by (rule start_unfollowed_inv [OF m(1,2) idle])
  have fol: "follow_inv (start_observer_follow_intervals now (t\<lparr>fo_follow := Some k\<rparr>))" for k
    using m(1) start_follow_match [of "t\<lparr>fo_follow := Some k\<rparr>" now]
    by (simp add: follow_inv_def) (simp add: start_observer_follow_intervals_def static_alone_def)
  have sea: "follow_inv (t\<lparr>fo_search := Some (p, 0)\<rparr>)" for p
    using m(1) idle by (simp add: follow_inv_def static_alone_none)
  have clean: "follow_inv c" using m(3) c by (simp add: follow_inv_def static_alone_none)
  show ?thesis
    using assms(3) unf fol sea clean
    by (auto simp: init_observer_follow_mode_def c_def [symmetric] t_def [symmetric] Let_def split: if_splits option.splits)
qed


definition follow0 :: follow_client where
  "follow0 = observer_client.extend (observer_client.truncate observer0)
     \<lparr>fo_follow = None, fo_auto_ms = 5000, fo_auto = None, fo_initial = None, fo_search = None,
      fo_interaction = 0, fo_listeners = False, fo_last_unit_spread = None, fo_last_radius = None,
      fo_last_global = None, fo_last_worldmap = None, fo_zoom_mode = None,
      fo_camera = \<lparr>cam_offset = vec 50 410 242, cam_current = vec 0 0 0, cam_slide_init = False,
        cam_position = vec 0 0 0, cam_target = vec 0 0 0,
        cam_slide = \<lparr>sd_active = False, sd_dx = 0, sd_dy = 0, sd_i = 0, sd_prev = 0, sd_start = 0\<rparr>\<rparr>,
      fo_aspect = 2\<rparr>"

subsection \<open>The polling ends\<close>

fun is_search_tick :: "follow_event \<Rightarrow> bool" where
  "is_search_tick (SearchTick now) = True"
| "is_search_tick _ = False"

fun is_initial_tick :: "follow_event \<Rightarrow> bool" where
  "is_initial_tick (InitialTick now) = True"
| "is_initial_tick _ = False"

text \<open>How many ticks the two polls can still take.\<close>

definition search_left :: "follow_client \<Rightarrow> nat" where
  "search_left s = (case fo_search s of None \<Rightarrow> 0 | Some (p, n) \<Rightarrow> Suc (MAX_INITIAL_CENTER_ATTEMPTS - Suc n))"

definition initial_left :: "follow_client \<Rightarrow> nat" where
  "initial_left s = (case fo_initial s of None \<Rightarrow> 0 | Some (p, n) \<Rightarrow> Suc (MAX_INITIAL_CENTER_ATTEMPTS - Suc n))"

lemma left_intervals: "intervals s = intervals t \<Longrightarrow> search_left s = search_left t \<and> initial_left s = initial_left t"
  by (simp add: intervals_def search_left_def initial_left_def)

lemma auto_tick_intervals: "intervals (auto_tick now s) = intervals s"
  by (simp add: auto_tick_def split: option.split)

lemma initial_tick_left:
  "search_left (initial_tick now s) = search_left s \<and> initial_left (initial_tick now s) \<le> initial_left s - 1"
proof (cases "fo_initial s")
  case None
  then show ?thesis by (simp add: initial_tick_def initial_left_def)
next
  case (Some pn)
  obtain p n where pn: "pn = (p, n)" by (cases pn)
  let ?t = "s\<lparr>fo_initial := None\<rparr>"
  have t: "search_left ?t = search_left s" "initial_left ?t = 0" by (simp_all add: search_left_def initial_left_def)
  have ends: "search_left (poll_success p now ?t) = search_left s \<and> initial_left (poll_success p now ?t) = 0"
    "search_left (poll_timeout p now ?t) = search_left s \<and> initial_left (poll_timeout p now ?t) = 0"
    using left_intervals [OF intervals_success, of p now ?t] left_intervals [OF intervals_timeout, of p now ?t] t by simp_all
  show ?thesis using ends
    by (simp add: initial_tick_def Some pn) (auto simp: search_left_def initial_left_def Some pn)
qed

lemma search_tick_left: "search_left (search_tick now s) \<le> search_left s - 1"
proof (cases "fo_search s")
  case None
  then show ?thesis by (simp add: search_tick_def search_left_def)
next
  case (Some pn)
  obtain p n where pn: "pn = (p, n)" by (cases pn)
  have start: "fo_search (start_observer_follow_intervals now (s\<lparr>fo_follow := Some k, fo_search := None\<rparr>)) = None" for k
    using intervals_followed [of now "s\<lparr>fo_follow := Some k, fo_search := None\<rparr>"]
    by (simp add: start_observer_follow_intervals_def intervals_def)
  have fall: "fo_search (notify_observer_centered_fallback now r [] (s\<lparr>fo_search := None\<rparr>)) = None" for r
    using intervals_fallback [of now r "[]" "s\<lparr>fo_search := None\<rparr>"] by (simp add: intervals_def)
  show ?thesis using start fall
    by (auto simp: search_tick_def search_left_def Some pn split: option.split)
qed

lemma other_event_intervals:
  "\<not> is_search_tick e \<Longrightarrow> \<not> is_initial_tick e \<Longrightarrow> intervals (follow_step e s) = intervals s"
proof (cases e)
  case (AutoTick now)
  then show ?thesis by (simp add: auto_tick_intervals)
next
  case (Interacts now)
  then show ?thesis by (simp add: intervals_def observer_mark_user_interaction_def)
next
  case (World w)
  then show ?thesis by (simp add: intervals_def set_world_def)
qed simp_all

lemma follow_step_left:
  "search_left (follow_step e s) \<le> search_left s - of_bool (is_search_tick e)"
proof (cases "is_search_tick e \<or> is_initial_tick e")
  case False
  then show ?thesis using left_intervals [OF other_event_intervals, of e s] by simp
next
  case True
  then show ?thesis
    using search_tick_left [of _ s] initial_tick_left [of _ s] by (cases e) simp_all
qed

lemma follow_step_initial_left:
  assumes "fo_search s = None"
  shows "initial_left (follow_step e s) \<le> initial_left s - of_bool (is_initial_tick e)
    \<and> fo_search (follow_step e s) = None"
proof (cases "is_initial_tick e")
  case True
  then obtain now where e: "e = InitialTick now" by (cases e) simp_all
  have "fo_search (initial_tick now s) = None"
    using initial_tick_left [of now s] assms by (simp add: search_left_def split: option.splits prod.splits)
  then show ?thesis using initial_tick_left [of now s] by (simp add: e)
next
  case False
  show ?thesis
  proof (cases "is_search_tick e")
    case True
    then obtain now where "e = SearchTick now" by (cases e) simp_all
    then show ?thesis using assms by (simp add: search_tick_def)
  next
    case no: False
    from other_event_intervals [OF no False, of s] left_intervals [OF other_event_intervals [OF no False, of s]]
    show ?thesis using assms False by (simp add: intervals_def)
  qed
qed

lemma search_left_steps:
  "search_left (fold follow_step evs s) \<le> search_left s - length (filter is_search_tick evs)"
proof (induction evs arbitrary: s)
  case Nil
  then show ?case by simp
next
  case (Cons e evs)
  from Cons.IH [of "follow_step e s"] follow_step_left [of e s] show ?case
    by (auto simp: of_bool_def split: if_splits)
qed

lemma initial_left_steps:
  "fo_search s = None \<Longrightarrow>
     initial_left (fold follow_step evs s) \<le> initial_left s - length (filter is_initial_tick evs)"
proof (induction evs arbitrary: s)
  case Nil
  then show ?case by simp
next
  case (Cons e evs)
  from Cons.IH [OF follow_step_initial_left [OF Cons.prems, of e, THEN conjunct2]] follow_step_initial_left [OF Cons.prems, of e] show ?case
    by (auto simp: of_bool_def split: if_splits)
qed

lemma left_bounds: "search_left s \<le> 20" "initial_left s \<le> 20"
  by (simp_all add: search_left_def initial_left_def split: option.split prod.split)

text \<open>
  C25. The polls end: after twenty ticks of the search for the followed player, whatever happens
  between them, the search is over; and when no search runs, twenty ticks of the initial poll end it.
\<close>
theorem follow_polls_end:
  "(20 \<le> length (filter is_search_tick evs) \<longrightarrow> fo_search (fold follow_step evs s) = None)
   \<and> (fo_search s = None \<and> 20 \<le> length (filter is_initial_tick evs) \<longrightarrow> fo_initial (fold follow_step evs s) = None)"
proof (intro conjI impI)
  assume "20 \<le> length (filter is_search_tick evs)"
  then have "search_left (fold follow_step evs s) = 0"
    using search_left_steps [of evs s] left_bounds(1) [of s] by linarith
  then show "fo_search (fold follow_step evs s) = None" by (auto simp: search_left_def split: option.splits)
next
  assume "fo_search s = None \<and> 20 \<le> length (filter is_initial_tick evs)"
  then have "initial_left (fold follow_step evs s) = 0"
    using initial_left_steps [of s evs] left_bounds(2) [of s] by linarith
  then show "fo_initial (fold follow_step evs s) = None" by (auto simp: initial_left_def split: option.splits)
qed

theorem follow_polls_end_witness:
  "fo_search (fold follow_step (replicate 20 (SearchTick 7)) (follow0\<lparr>fo_search := Some (''AI*1'', 3)\<rparr>)) = None"
  using follow_polls_end [of "replicate 20 (SearchTick 7)"] by simp


text \<open>
  For 45 seconds after the user moved the camera, the automatic centring does nothing at all once
  the view was centred for the first time, and after that it is no longer held back.
\<close>
theorem user_view_kept:
  assumes "ob_centered_notified s" "fo_listeners s" "t \<noteq> 0"
  shows "(now - t < 45000 \<longrightarrow> auto_tick now (observer_mark_user_interaction t s) = observer_mark_user_interaction t s)
    \<and> (45000 \<le> now - t \<longrightarrow> \<not> observer_is_interaction_cooldown_active now (observer_mark_user_interaction t s))"
proof -
  let ?s = "observer_mark_user_interaction t s"
  have c: "observer_is_interaction_cooldown_active now ?s = (now - t < 45000)"
    using assms by (simp add: observer_mark_user_interaction_def observer_is_interaction_cooldown_active_def)
  have n: "ob_centered_notified ?s" using assms by (simp add: observer_mark_user_interaction_def)
  have "auto_center now a ?s = ?s" if "now - t < 45000" for a
    using c n that
    by (cases a) (simp_all add: auto_center_def observer_center_on_followed_player_def observer_center_global_view_def
        observer_worldmap_center_dynamic_def split: option.split)
  then show ?thesis using c by (auto simp: auto_tick_def split: option.split)
qed

theorem user_view_kept_witness:
  "auto_tick 40000 (observer_mark_user_interaction 1000 (follow0\<lparr>ob_centered_notified := True, fo_listeners := True,
      fo_auto := Some CenterGlobal\<rparr>))
   = observer_mark_user_interaction 1000 (follow0\<lparr>ob_centered_notified := True, fo_listeners := True,
      fo_auto := Some CenterGlobal\<rparr>)"
  using user_view_kept [of "follow0\<lparr>ob_centered_notified := True, fo_listeners := True, fo_auto := Some CenterGlobal\<rparr>"
      1000 40000] by simp

end
