(* ===== verification/Autojoin.thy ===== *)
theory Autojoin
  imports Observer Js_Text
begin

text \<open>
  Joining without the name dialog and attaching to a player (\<open>civclient.js\<close>): the user name, the
  delay of the connection, embed mode, and the commands that ask the server to observe.  What
  \<open>Math.random\<close> gives is an argument: \<open>suffix\<close> is \<open>Math.random().toString(36).substring(2, 10)\<close>, \<open>picks\<close>
  are the eight indices into the alphabet of \<open>generate_observer_name\<close>.
\<close>

record join_client = observer_client +
  jn_active :: bool             \<comment> \<open>\<open>autojoin_active\<close>\<close>
  jn_embed :: bool              \<comment> \<open>\<open>embed_mode\<close>\<close>
  jn_audio :: bool              \<comment> \<open>\<open>audio_enabled\<close>\<close>
  jn_sounds :: bool
  jn_keyboard :: bool           \<comment> \<open>\<open>keyboard_input_enabled\<close>\<close>

text \<open>\<open>$.getUrlVar(name)\<close> where the code tests it for truth: an empty value counts as none.\<close>

definition url_given :: "'a packet_client_scheme \<Rightarrow> string \<Rightarrow> string option" where
  "url_given s name = (case url_var s name of None \<Rightarrow> None | Some v \<Rightarrow> if v = [] then None else Some v)"

subsection \<open>The user name\<close>

definition should_autojoin :: "'a packet_client_scheme \<Rightarrow> bool" where
  "should_autojoin s = (url_var s ''autojoin'' = Some ''1'' \<or> url_var s ''autojoin'' = Some ''true'')"

definition name_alphabet :: string where
  "name_alphabet = ''abcdefghijklmnopqrstuvwxyz0123456789''"

definition generate_observer_name :: "nat list \<Rightarrow> string" where
  "generate_observer_name picks = ''observer_'' @ map (\<lambda>i. name_alphabet ! i) picks"

definition name_start :: "char \<Rightarrow> bool" where
  "name_start c = (is_upper c \<or> is_lower c \<or> c = CHR ''_'')"

definition name_char :: "char \<Rightarrow> bool" where
  "name_char c = (name_start c \<or> is_digit c)"

definition validate_autojoin_username :: "string option \<Rightarrow> bool" where
  "validate_autojoin_username name =
     (case name of None \<Rightarrow> False
      | Some n \<Rightarrow> \<not> (length n < 3 \<or> length n > 31) \<and> name_start (hd n) \<and> list_all name_char (tl n))"

text \<open>\<open>replace(/_[a-z0-9]{4,8}$/, '')\<close>: an underscore and four to eight lower case letters or digits at the end.\<close>

definition suffix_char :: "char \<Rightarrow> bool" where
  "suffix_char c = (is_lower c \<or> is_digit c)"

definition without_suffix :: "string \<Rightarrow> string" where
  "without_suffix t =
     (let tail = takeWhile suffix_char (rev t); rest = dropWhile suffix_char (rev t)
      in if 4 \<le> length tail \<and> length tail \<le> 8 \<and> rest \<noteq> [] \<and> hd rest = CHR ''_'' then rev (tl rest) else t)"

definition get_autojoin_username :: "string \<Rightarrow> nat list \<Rightarrow> 'a packet_client_scheme \<Rightarrow> string" where
  "get_autojoin_username suffix picks s =
     (let random_suffix = CHR ''_'' # suffix
      in case url_given s ''name'' of
           None \<Rightarrow> generate_observer_name picks
         | Some name_param \<Rightarrow>
             (let base_name = without_suffix (trim name_param);
                  whole = base_name @ random_suffix;
                  unique_name = (if length whole > 31 then take 22 base_name @ random_suffix else whole)
              in if validate_autojoin_username (Some unique_name) then unique_name
                 else generate_observer_name picks))"

subsection \<open>Embed mode\<close>

definition apply_embed_mode_settings :: "join_client \<Rightarrow> join_client" where
  "apply_embed_mode_settings s =
     (if \<not> jn_embed s then s
      else emits ([Ui ''body class'' [JStr ''embed-mode''], Ui ''OrbitControls enabled'' [JBool False]]
             @ map (\<lambda>e. Ui ''hide'' [JStr e])
                 [''game_menu_panel'', ''game_chatbox_panel'', ''turn_done_button'', ''unit_orders_bar'',
                  ''minimap_panel'', ''info_panel'', ''civ_status_bar'', ''.chatbox_dialog'', ''#game_chatbox_panel parent''])
             (s\<lparr>jn_audio := False, jn_sounds := False, jn_keyboard := False\<rparr>))"

definition init_embed_mode :: "join_client \<Rightarrow> join_client" where
  "init_embed_mode s =
     (if url_var s ''embed'' = Some ''1'' \<or> url_var s ''embed'' = Some ''true''
      then apply_embed_mode_settings (s\<lparr>jn_embed := True\<rparr>) else s)"

definition is_embed_mode :: "join_client \<Rightarrow> bool" where
  "is_embed_mode s = jn_embed s"

subsection \<open>Attaching to a player\<close>

text \<open>A player without a name is skipped.\<close>

definition find_player_name_case_insensitive :: "'a client_scheme \<Rightarrow> string \<Rightarrow> string option" where
  "find_player_name_case_insensitive s name =
     (if name = [] \<or> \<not> safe_player_name name then None
      else map_option p_name
             (List.find (\<lambda>p. p_name p \<noteq> [] \<and> toLowerCase (p_name p) = toLowerCase name) (st_vals (cl_players s))))"

definition get_observe_player_param :: "'a packet_client_scheme \<Rightarrow> string option" where
  "get_observe_player_param s = map_option trim (url_given s ''observe_player'')"

text \<open>An empty name stands for none.\<close>

definition request_observe_player :: "string option \<Rightarrow> 'a observer_client_scheme \<Rightarrow> 'a observer_client_scheme" where
  "request_observe_player player_name s =
     (let given = (case player_name of Some n \<Rightarrow> if n = [] then None else Some n | None \<Rightarrow> None)
      in case given of
           None \<Rightarrow> emit (send_message ''/observe '') (s\<lparr>ob_observe_player := player_name\<rparr>)
         | Some n \<Rightarrow>
             (if \<not> safe_player_name n then s
              else (let n' = (case find_player_name_case_insensitive s n of Some a \<Rightarrow> a | None \<Rightarrow> n)
                    in emit (send_message (''/observe '' @ n')) (s\<lparr>ob_observe_player := Some n'\<rparr>))))"

definition init_observe_player_mode :: "'a observer_client_scheme \<Rightarrow> 'a observer_client_scheme" where
  "init_observe_player_mode s =
     (case get_observe_player_param s of None \<Rightarrow> s
      | Some p \<Rightarrow> if p = [] then s else s\<lparr>ob_observe_player := Some p\<rparr>)"

text \<open>A player that is not known is asked for all the same.\<close>

definition execute_observe_player_attachment :: "'a observer_client_scheme \<Rightarrow> 'a observer_client_scheme" where
  "execute_observe_player_attachment s =
     (case ob_observe_player s of None \<Rightarrow> s
      | Some p \<Rightarrow>
          (if p = [] \<or> \<not> safe_player_name p then s
           else emits [send_message (''/observe '' @ p), setup_observer_timeout_with_retry p] s))"

definition is_attached_observer :: "'a observer_client_scheme \<Rightarrow> bool" where
  "is_attached_observer s = (ob_observe_player s \<noteq> None \<and> ob_observe_player s \<noteq> Some [])"

subsection \<open>Starting\<close>

text \<open>The stagger parameter is an unsigned number; every delay by name is 0.\<close>

definition get_observer_stagger_delay :: "'a packet_client_scheme \<Rightarrow> nat" where
  "get_observer_stagger_delay s =
     (case url_given s ''stagger'' of
        Some v \<Rightarrow> (let ds = takeWhile is_digit (dropWhile is_space v)
                  in if ds \<noteq> [] \<and> text_nat 0 ds \<le> 5000 then text_nat 0 ds else 0)
      | None \<Rightarrow> 0)"

definition init_autojoin_mode :: "string \<Rightarrow> nat list \<Rightarrow> nat list \<Rightarrow> join_client \<Rightarrow> join_client" where
  "init_autojoin_mode suffix picks picks2 s =
     (if \<not> should_autojoin s then s
      else (let name = get_autojoin_username suffix picks s;
                name' = (case url_given s ''name'' of
                           Some n \<Rightarrow> if validate_autojoin_username (Some (trim n)) then name else generate_observer_name picks2
                         | None \<Rightarrow> name);
                s1 = emits [Ui ''dialog close'' [], Ui ''hide'' [JStr ''fciv-intro'']]
                       (s\<lparr>jn_active := True, pk_username := name'\<rparr>);
                s2 = init_observe_player_mode (init_embed_mode s1);
                stagger = get_observer_stagger_delay s2
            in emit (if stagger > 0 then Ui ''setTimeout'' [JStr ''init_sprites'', JNum (int stagger)]
                     else Ui ''init_sprites'' []) s2))"

subsection \<open>Giving up\<close>

text \<open>\<open>socket_open\<close> is \<open>ws.readyState === 1\<close>.\<close>

definition send_surrender_game :: "bool \<Rightarrow> 'a observer_client_scheme \<Rightarrow> 'a observer_client_scheme" where
  "send_surrender_game socket_open s =
     (if \<not> client_is_observer s \<and> ob_socket s \<and> socket_open then emit (send_message ''/surrender '') s else s)"

definition surrender_game :: "bool \<Rightarrow> 'a observer_client_scheme \<Rightarrow> 'a observer_client_scheme" where
  "surrender_game socket_open s = emit (Ui ''set_default_mapview_active'' []) (send_surrender_game socket_open s)"

end
