(* ===== verification/Autojoin_Facts.thy ===== *)
theory Autojoin_Facts
  imports Autojoin Observer_Facts
begin

text \<open>
  The names the client connects with are always valid, and whatever is in the address or in the names
  of the players, a command to observe carries a safe name or none.
\<close>

subsection \<open>User names\<close>

definition random_suffix :: "string \<Rightarrow> bool" where
  "random_suffix t = (length t \<le> 8 \<and> list_all suffix_char t)"

definition random_picks :: "nat list \<Rightarrow> bool" where
  "random_picks ps = (length ps = 8 \<and> list_all (\<lambda>i. i < 36) ps)"

lemma alphabet_chars: "list_all suffix_char name_alphabet" "length name_alphabet = 36"
  by (simp_all add: name_alphabet_def suffix_char_def is_lower_def is_digit_def char_code_def)

lemma suffix_name_char: "suffix_char c \<Longrightarrow> name_char c"
  by (auto simp: suffix_char_def name_char_def name_start_def)

lemma generated_name_valid:
  assumes "random_picks ps"
  shows "validate_autojoin_username (Some (generate_observer_name ps))"
proof -
  have "suffix_char (name_alphabet ! i)" if "i \<in> set ps" for i
  proof -
    have "i < length name_alphabet" using assms that by (auto simp: random_picks_def list_all_iff alphabet_chars(2))
    then show ?thesis using alphabet_chars(1) by (simp add: list_all_length)
  qed
  then have "list_all name_char (map (\<lambda>i. name_alphabet ! i) ps)" by (simp add: list_all_iff suffix_name_char)
  moreover have "list_all name_char ''bserver_''" "name_start CHR ''o''"
    by (simp_all add: name_char_def name_start_def is_lower_def is_upper_def is_digit_def char_code_def)
  ultimately show ?thesis
    using assms by (simp add: validate_autojoin_username_def generate_observer_name_def random_picks_def)
qed

lemma autojoin_username_valid:
  "random_picks ps \<Longrightarrow> validate_autojoin_username (Some (get_autojoin_username suffix ps s))"
  by (simp add: get_autojoin_username_def generated_name_valid Let_def split: option.split)

lemma join_frame [simp]:
  "pk_username (emit e t) = pk_username t" "pk_username (emits es t) = pk_username t"
  by (simp_all add: emit_def emits_def)

lemma init_observe_username [simp]: "pk_username (init_observe_player_mode t) = pk_username t"
  by (simp add: init_observe_player_mode_def split: option.split)

lemma init_embed_username [simp]: "pk_username (init_embed_mode t) = pk_username t"
  by (simp add: init_embed_mode_def apply_embed_mode_settings_def)

text \<open>
  Joining automatically always leaves a valid user name, of 3 to 31 letters, digits and
  underscores that does not start with a digit, whatever name the address asks for and whatever the
  random numbers are; and a name that was asked for, is valid and has no suffix of its own is kept
  in front of the random suffix, cut to 22 characters.
\<close>
theorem autojoin_name_valid:
  assumes "should_autojoin s" "random_suffix suffix" "random_picks picks" "random_picks picks2"
  shows "validate_autojoin_username (Some (pk_username (init_autojoin_mode suffix picks picks2 s)))
    \<and> (\<forall>n. url_given s ''name'' = Some n \<longrightarrow> validate_autojoin_username (Some (trim n)) \<longrightarrow> without_suffix (trim n) = trim n \<longrightarrow>
         length suffix = 8 \<longrightarrow>
         pk_username (init_autojoin_mode suffix picks picks2 s) = take 22 (trim n) @ ''_'' @ suffix)"
proof -
  define name where "name = (case url_given s ''name'' of
      Some n \<Rightarrow> if validate_autojoin_username (Some (trim n)) then get_autojoin_username suffix picks s
                else generate_observer_name picks2
    | None \<Rightarrow> get_autojoin_username suffix picks s)"
  have u: "pk_username (init_autojoin_mode suffix picks picks2 s) = name"
    using assms(1) by (simp add: init_autojoin_mode_def name_def Let_def)
  have valid: "validate_autojoin_username (Some name)"
    using assms(3,4) by (simp add: name_def autojoin_username_valid generated_name_valid split: option.split)
  have kept: "name = take 22 (trim n) @ ''_'' @ suffix"
    if n: "url_given s ''name'' = Some n" "validate_autojoin_username (Some (trim n))" "without_suffix (trim n) = trim n"
      "length suffix = 8" for n
  proof -
    define b where "b = trim n"
    have b: "3 \<le> length b" "name_start (hd b)" "list_all name_char (tl b)"
      using n(2) by (simp_all add: validate_autojoin_username_def b_def)
    define w where "w = (if length (b @ CHR ''_'' # suffix) > 31 then take 22 b @ CHR ''_'' # suffix else b @ CHR ''_'' # suffix)"
    have w: "w = take 22 b @ CHR ''_'' # suffix" using n(4) by (auto simp: w_def)
    obtain c cs where bc: "b = c # cs" using b(1) by (cases b) auto
    have tail: "list_all name_char (take 21 cs)" using b(3) by (auto simp: bc list_all_iff dest: in_set_takeD)
    have us: "name_char CHR ''_''" by (simp add: name_char_def name_start_def)
    have sx: "list_all name_char suffix" using assms(2) by (auto simp: random_suffix_def list_all_iff suffix_name_char)
    have "w = c # take 21 cs @ CHR ''_'' # suffix" by (simp add: w bc)
    moreover have "3 \<le> length w" "length w \<le> 31" using b(1) n(4) by (simp_all add: w)
    ultimately have "validate_autojoin_username (Some w)"
      using b(2) tail us sx n(4) by (auto simp: validate_autojoin_username_def bc)
    then have "get_autojoin_username suffix picks s = w"
      using n(1,3) by (simp add: get_autojoin_username_def Let_def b_def [symmetric] w_def)
    then show ?thesis using n(1,2) by (simp add: name_def w b_def)
  qed
  show ?thesis unfolding u using valid kept by blast
qed

definition join0 :: "(string \<times> string) list \<Rightarrow> join_client" where
  "join0 url = observer_client.extend (observer_client.truncate (observer0\<lparr>pk_url := url\<rparr>))
     \<lparr>jn_active = False, jn_embed = False, jn_audio = True, jn_sounds = True, jn_keyboard = True\<rparr>"

lemma join0_url: "url_var (join0 url) k = map_of url k"
  by (simp add: join0_def url_var_def observer_client.defs)

theorem autojoin_name_valid_witness:
  "pk_username (init_autojoin_mode ''abcd1234'' (replicate 8 0) (replicate 8 0)
      (join0 [(''autojoin'', ''1''), (''name'', ''Global'')])) = ''Global_abcd1234''"
proof -
  let ?s = "join0 [(''autojoin'', ''1''), (''name'', ''Global'')]"
  have "should_autojoin ?s" "url_given ?s ''name'' = Some ''Global''"
    by (simp_all add: should_autojoin_def url_given_def join0_url)
  moreover have "random_suffix ''abcd1234''"
    by (simp add: random_suffix_def suffix_char_def is_lower_def is_digit_def char_code_def)
  moreover have "random_picks (replicate 8 0)" by (simp add: random_picks_def list_all_iff)
  moreover have t: "trim ''Global'' = ''Global''" by (simp add: trim_def is_space_def char_code_def)
  moreover have "validate_autojoin_username (Some ''Global'')"
    by (simp add: validate_autojoin_username_def name_char_def name_start_def is_lower_def is_upper_def is_digit_def char_code_def)
  moreover have "without_suffix ''Global'' = ''Global''"
    by (simp add: without_suffix_def suffix_char_def is_lower_def is_digit_def char_code_def)
  ultimately show ?thesis
    using autojoin_name_valid [of ?s "''abcd1234''" "replicate 8 0" "replicate 8 0"] by simp
qed

text \<open>The name of the comment's own example loses its last word when it has no random suffix yet.\<close>

lemma suffix_eats_name: "without_suffix ''global_view'' = ''global''" "without_suffix ''global_view_abc12345'' = ''global_view''"
  by (simp_all add: without_suffix_def suffix_char_def is_lower_def is_digit_def char_code_def)

subsection \<open>Commands\<close>

lemma lower_char_ascii:
  assumes "is_upper c \<or> is_lower c \<or> is_digit c \<or> c \<in> set ''_*-''" "lower_char c' = lower_char c"
  shows "is_upper c' \<or> is_lower c' \<or> is_digit c' \<or> c' \<in> set ''_*-''"
proof -
  have low: "is_lower (lower_char d) \<or> is_digit (lower_char d) \<or> lower_char d \<in> set ''_*-''"
    if d: "is_upper d \<or> is_lower d \<or> is_digit d \<or> d \<in> set ''_*-''" for d
  proof (cases "is_upper d")
    case True
    then have "char_code d + 32 < 256" "97 \<le> char_code d + 32" "char_code d + 32 \<le> 122"
      by (auto simp: is_upper_def)
    then show ?thesis using True by (simp add: lower_char_def is_lower_def char_code_def)
  next
    case False
    then show ?thesis using d by (simp add: lower_char_def)
  qed
  show ?thesis
  proof (cases "is_upper c'")
    case True
    then show ?thesis by simp
  next
    case False
    then have "c' = lower_char c" using assms(2) by (simp add: lower_char_def)
    then show ?thesis using low [OF assms(1)] by simp
  qed
qed

lemma toLowerCase_safe:
  assumes "toLowerCase a = toLowerCase b" "safe_player_name b"
  shows "safe_player_name a"
proof -
  have len: "length a = length b" using arg_cong [OF assms(1), of length] by (simp add: toLowerCase_def)
  have "is_upper (a ! i) \<or> is_lower (a ! i) \<or> is_digit (a ! i) \<or> a ! i \<in> set ''_*-''" if i: "i < length a" for i
  proof (rule lower_char_ascii)
    show "is_upper (b ! i) \<or> is_lower (b ! i) \<or> is_digit (b ! i) \<or> b ! i \<in> set ''_*-''"
      using assms(2) i len by (auto simp: safe_player_name_def list_all_length)
    show "lower_char (a ! i) = lower_char (b ! i)"
      using assms(1) i len by (metis nth_map toLowerCase_def)
  qed
  then show ?thesis using assms(2) len by (auto simp: safe_player_name_def list_all_length)
qed

lemma found_name_safe: "find_player_name_case_insensitive s n = Some a \<Longrightarrow> safe_player_name a"
  by (auto simp: find_player_name_case_insensitive_def dest!: find_in_set intro: toLowerCase_safe split: if_splits)

text \<open>What may ask the server for something to observe, and what is in the address before.\<close>

datatype observe_event = AddressGiven "(string \<times> string) list" | LoggedIn "string option option"
  | PlayerRequested "string option" | Attach | Resolved "player store"

fun observe_step :: "observe_event \<Rightarrow> observer_client \<Rightarrow> observer_client" where
  "observe_step (AddressGiven url) s = init_observe_player_mode (s\<lparr>pk_url := url\<rparr>)"
| "observe_step (LoggedIn p) s = request_observe_game p s"
| "observe_step (PlayerRequested p) s = request_observe_player p s"
| "observe_step Attach s = execute_observe_player_attachment s"
| "observe_step (Resolved ps) s = s\<lparr>cl_players := ps\<rparr>"

definition safe_observe :: "effect \<Rightarrow> bool" where
  "safe_observe e = (\<forall>p. e = Send p \<longrightarrow> (\<exists>n. e = send_message (''/observe '' @ n) \<and> (n = [] \<or> safe_player_name n)))"

lemma safe_observe_simps [simp]:
  "safe_observe (setup_observer_timeout_with_retry c)"
  "safe_observe (send_message ''/observe '')"
  "safe_player_name n \<Longrightarrow> safe_observe (send_message (''/observe '' @ n))"
proof -
  show "safe_observe (setup_observer_timeout_with_retry c)"
    by (simp add: safe_observe_def setup_observer_timeout_with_retry_def)
  show "safe_observe (send_message ''/observe '')"
    unfolding safe_observe_def by (intro allI impI exI [of _ "[]"]) simp
  show "safe_player_name n \<Longrightarrow> safe_observe (send_message (''/observe '' @ n))"
    unfolding safe_observe_def by (intro allI impI exI [of _ n]) simp
qed

lemma observe_step_safe:
  "\<exists>es. cl_out (observe_step e s) = cl_out s @ es \<and> list_all safe_observe es"
proof (cases e)
  case (AddressGiven url)
  then show ?thesis by (intro exI [of _ "[]"]) (simp add: init_observe_player_mode_def split: option.split)
next
  case (LoggedIn p)
  define target where "target = (case p of None \<Rightarrow> ob_observe_player s | Some q \<Rightarrow> q)"
  show ?thesis
  proof (cases "\<exists>n. target = Some n \<and> n \<noteq> [] \<and> safe_player_name n")
    case True
    then obtain n where n: "target = Some n" "n \<noteq> []" "safe_player_name n" by blast
    then show ?thesis
      by (intro exI [of _ "[send_message (''/observe '' @ n), setup_observer_timeout_with_retry n]"])
        (simp add: LoggedIn request_observe_game_def target_def [symmetric] del: append.simps)
  next
    case False
    then show ?thesis
      by (intro exI [of _ "[send_message ''/observe '', setup_observer_timeout_with_retry ''global'']"])
        (auto simp: LoggedIn request_observe_game_def target_def [symmetric] split: option.split)
  qed
next
  case (PlayerRequested p)
  show ?thesis
  proof (cases "\<exists>n. p = Some n \<and> n \<noteq> []")
    case False
    then have "cl_out (observe_step e s) = cl_out s @ [send_message ''/observe '']"
      by (auto simp: PlayerRequested request_observe_player_def Let_def split: option.split)
    then show ?thesis by (intro exI [of _ "[send_message ''/observe '']"]) simp
  next
    case True
    then obtain n where n: "p = Some n" "n \<noteq> []" by blast
    show ?thesis
    proof (cases "safe_player_name n")
      case False
      then show ?thesis using n by (intro exI [of _ "[]"]) (simp add: PlayerRequested request_observe_player_def)
    next
      case safe: True
      define n' where "n' = (case find_player_name_case_insensitive s n of Some a \<Rightarrow> a | None \<Rightarrow> n)"
      have "safe_player_name n'" using safe by (auto simp: n'_def dest: found_name_safe split: option.split)
      moreover have "cl_out (observe_step e s) = cl_out s @ [send_message (''/observe '' @ n')]"
        using n safe by (simp add: PlayerRequested request_observe_player_def n'_def [symmetric] Let_def del: append.simps)
      ultimately show ?thesis by (intro exI [of _ "[send_message (''/observe '' @ n')]"]) (simp del: append.simps)
    qed
  qed
next
  case Attach
  show ?thesis
  proof (cases "\<exists>n. ob_observe_player s = Some n \<and> n \<noteq> [] \<and> safe_player_name n")
    case True
    then obtain n where n: "ob_observe_player s = Some n" "n \<noteq> []" "safe_player_name n" by blast
    then show ?thesis
      by (intro exI [of _ "[send_message (''/observe '' @ n), setup_observer_timeout_with_retry n]"])
        (simp add: Attach execute_observe_player_attachment_def del: append.simps)
  next
    case False
    then show ?thesis
      by (intro exI [of _ "[]"]) (auto simp: Attach execute_observe_player_attachment_def split: option.split)
  qed
next
  case (Resolved ps)
  then show ?thesis by (intro exI [of _ "[]"]) simp
qed


text \<open>
  C40. A player named in the address in its encoded form, such as \<open>AI%2A1\<close>, is not attached to: the
  percent sign is no safe character, and the client asks to observe the whole game instead, as if
  no player had been named.
\<close>
theorem encoded_player_observes_all:
  assumes "url_given s ''observe_player'' = Some p" "CHR ''%'' \<in> set (trim p)"
  shows "cl_out (request_observe_game None (init_observe_player_mode s))
    = cl_out s @ [send_message ''/observe '', setup_observer_timeout_with_retry ''global'']"
proof -
  have ne: "trim p \<noteq> []" using assms(2) by auto
  have "\<not> (is_upper CHR ''%'' \<or> is_lower CHR ''%'' \<or> is_digit CHR ''%'' \<or> CHR ''%'' \<in> set ''_*-'')"
    by (simp add: is_upper_def is_lower_def is_digit_def char_code_def)
  then have "\<not> safe_player_name (trim p)" using assms(2) by (auto simp: safe_player_name_def list_all_iff)
  then show ?thesis using assms(1) ne
    by (simp add: init_observe_player_mode_def get_observe_player_param_def request_observe_game_def)
qed

theorem encoded_player_observes_all_witness:
  "cl_out (request_observe_game None (init_observe_player_mode (join0 [(''observe_player'', ''AI%2A1'')])))
    = cl_out (join0 [(''observe_player'', ''AI%2A1'')]) @ [send_message ''/observe '', setup_observer_timeout_with_retry ''global'']"
proof -
  have "trim ''AI%2A1'' = ''AI%2A1''" by (simp add: trim_def is_space_def char_code_def)
  then show ?thesis
    using encoded_player_observes_all [of "join0 [(''observe_player'', ''AI%2A1'')]" "''AI%2A1''"]
    by (simp add: url_given_def join0_url)
qed

end
