(* ===== verification/Scene_Objects.thy ===== *)
theory Scene_Objects
  imports Camera Orders
begin

text \<open>
  \<open>webgl/object_position_handler.js\<close>: the models, flags and labels of units, cities, extras and
  forests in the scene of the 3D view, with the height offsets of \<open>webgl/heightmap.js\<close> and the model
  table of \<open>webgl/preload.js\<close>.  An object of the scene is a node: a number, what it shows, and its
  position; turning a model is left out.  The dictionaries of the code (\<open>unit_positions\<close> and the
  others) hold nodes by the index of the tile.  Removing a node that is not in the scene does nothing.
  What only the view reads (hit points, veteran levels, walls, the ids of some extras), which images
  are loaded, and what \<open>Math.random\<close> gives is the record \<open>look\<close>, an argument.  A tile of the map has
  coordinates.  The spaceship is an effect.
\<close>

record node =
  nd_id :: nat
  nd_kind :: string
  nd_pos :: vec3

record look =
  lk_hp :: "int \<Rightarrow> int"
  lk_veteran :: "int \<Rightarrow> int"
  lk_walls :: "int \<Rightarrow> bool"
  lk_graphic_str :: "int \<Rightarrow> string"           \<comment> \<open>by nation\<close>
  lk_nation_id :: "int \<Rightarrow> string"             \<comment> \<open>the text of \<open>pcity['nation_id']\<close>\<close>
  lk_sprite :: "string \<Rightarrow> bool"
  lk_improvements :: improvement_tables
  lk_EXTRA_MINE :: int
  lk_EXTRA_RUINS :: int
  lk_EXTRA_FORTRESS :: int
  lk_EXTRA_OIL_WELL :: int
  lk_EXTRA_FALLOUT :: int
  lk_EXTRA_POLLUTION :: int
  lk_EXTRA_BUOY :: int
  lk_fish :: int                              \<comment> \<open>1 to 3\<close>
  lk_tree :: int                              \<comment> \<open>0 to 5\<close>
  lk_palm :: int                              \<comment> \<open>0 or 1\<close>
  lk_cactus :: int                            \<comment> \<open>0 to 11\<close>
  lk_offset :: "string \<Rightarrow> nat \<Rightarrow> int \<times> int"   \<comment> \<open>0 to 24 each (29 for a cactus), for the models of a tile\<close>
  lk_dirs :: "string \<Rightarrow> (int \<times> int) list"     \<comment> \<open>the directions drawn to place a building\<close>

record scene_client = focus_client +
  sn_scene :: "node list option"
  sn_next :: nat
  sn_models :: "string list"                  \<comment> \<open>the names in \<open>webgl_models\<close>\<close>
  sn_unloaded :: "string store"               \<comment> \<open>\<open>tiles_of_unloaded_models_map\<close>\<close>
  sn_loading :: "string list"                 \<comment> \<open>the names in \<open>models_loading_map\<close>\<close>
  sn_unit :: "node store"
  sn_flag :: "node store"
  sn_label :: "node store"
  sn_activities :: "string store"
  sn_health :: "node store"
  sn_healthpercentage :: "int store"
  sn_selected :: "node option"                \<comment> \<open>\<open>selected_unit_indicator\<close>\<close>
  sn_highlight :: "int \<times> int"
  sn_anim :: "(node \<times> node option) store"    \<comment> \<open>\<open>anim_objs\<close>: mesh and flag by unit\<close>
  sn_city :: "node store"
  sn_city_label :: "node store"
  sn_walls :: "node store"
  sn_disorder :: "node store"
  sn_light :: "node store"
  sn_building :: "node store"
  sn_city_model :: "string store"             \<comment> \<open>\<open>webgl_model_name\<close> by city\<close>
  sn_label_hash :: "string store"             \<comment> \<open>\<open>webgl_label_hash\<close> by city\<close>
  sn_added :: "(int \<times> string) list"          \<comment> \<open>the buildings a city was given a model for\<close>
  sn_extra :: "int \<Rightarrow> int \<Rightarrow> node list option"  \<comment> \<open>by extra and tile\<close>
  sn_tile_models :: "node list store"

subsection \<open>The scene\<close>

definition make_node :: "string \<Rightarrow> vec3 \<Rightarrow> 'a scene_client_scheme \<Rightarrow> node \<times> 'a scene_client_scheme" where
  "make_node kind pos s =
     (\<lparr>nd_id = sn_next s, nd_kind = kind, nd_pos = pos\<rparr>, s\<lparr>sn_next := Suc (sn_next s)\<rparr>)"

definition scene_add :: "node \<Rightarrow> 'a scene_client_scheme \<Rightarrow> 'a scene_client_scheme" where
  "scene_add n s = s\<lparr>sn_scene := map_option (\<lambda>ns. ns @ [n]) (sn_scene s)\<rparr>"

definition scene_remove :: "node option \<Rightarrow> 'a scene_client_scheme \<Rightarrow> 'a scene_client_scheme" where
  "scene_remove x s =
     (case x of None \<Rightarrow> s
      | Some n \<Rightarrow> s\<lparr>sn_scene := map_option (filter (\<lambda>m. nd_id m \<noteq> nd_id n)) (sn_scene s)\<rparr>)"

definition has_scene :: "'a scene_client_scheme \<Rightarrow> bool" where
  "has_scene s = (sn_scene s \<noteq> None)"

text \<open>Whether a copy of a model can be had; a missing one is loaded, for the tile.\<close>

definition webgl_get_model :: "string \<Rightarrow> tile \<Rightarrow> 'a scene_client_scheme \<Rightarrow> bool \<times> 'a scene_client_scheme" where
  "webgl_get_model filename ptile s =
     (if filename \<in> set (sn_models s) then (True, s)
      else (let s1 = s\<lparr>sn_unloaded := st_put (t_index ptile) filename (sn_unloaded s)\<rparr>
            in (False, if filename \<in> set (sn_loading s1) then s1
                       else emit (Ui ''load_model'' [JStr filename]) (s1\<lparr>sn_loading := filename # sn_loading s1\<rparr>))))"

definition tile_coords :: "'a client_scheme \<Rightarrow> tile \<Rightarrow> int \<times> int" where
  "tile_coords s t = map_to_scene_coords (cl_map s) (the (t_x t)) (the (t_y t))"

text \<open>A position relative to scene coordinates: \<open>x\<close> and \<open>z\<close> beside them, \<open>y\<close> is the height.\<close>

definition beside :: "int \<times> int \<Rightarrow> real \<Rightarrow> real \<Rightarrow> real \<Rightarrow> vec3" where
  "beside pos dx height dz = vec (of_int (fst pos) + dx) height (of_int (snd pos) + dz)"

subsection \<open>Height offsets\<close>

definition coast_tile :: "'a client_scheme \<Rightarrow> tile \<Rightarrow> bool option" where
  "coast_tile s t = do {
     ocean \<leftarrow> is_ocean_tile (rs_terrains (cl_ruleset s)) (Some t);
     if ocean then Some False else is_ocean_tile_near (cl_map s) (cl_tiles s) (rs_terrains (cl_ruleset s)) t
   }"

definition terrain_name :: "'a client_scheme \<Rightarrow> tile \<Rightarrow> string option" where
  "terrain_name s t = map_option te_name (tile_terrain (rs_terrains (cl_ruleset s)) t)"

definition ship_height :: "string \<Rightarrow> real option" where
  "ship_height name =
     map_of [(''Caravel'', 7), (''Galleon'', 5.4), (''Frigate'', 7.2), (''Destroyer'', 4), (''Battleship'', 4),
             (''Transport'', 4), (''Fighter'', 18), (''Bomber'', 18), (''Helicopter'', 12), (''Cruiser'', 4),
             (''Ironclad'', 4.2), (''Zeppelin'', 28)] name"

definition get_unit_height_offset :: "'a client_scheme \<Rightarrow> unit_rec option \<Rightarrow> real option" where
  "get_unit_height_offset s punit =
     (case punit of None \<Rightarrow> Some 0
      | Some u \<Rightarrow>
          (case index_to_tile (cl_tiles s) (u_tile u) of None \<Rightarrow> Some 0
           | Some t \<Rightarrow> do {
               ptype \<leftarrow> unit_type_of s u;
               (case ship_height (ut_name ptype) of Some h \<Rightarrow> Some h
                | None \<Rightarrow>
                    (if tile_has_extra (Some t) (rs_EXTRA_RIVER (cl_ruleset s)) then Some 1
                     else do {
                       coast \<leftarrow> coast_tile s t;
                       if coast then Some (- 4)
                       else do {
                         name \<leftarrow> terrain_name s t;
                         Some (if name = ''Hills'' \<or> name = ''Mountains'' then - 5
                               else if tile_city s (Some t) \<noteq> None then 4 else - 2)
                       }
                     }))
             }))"

definition get_forest_offset :: "'a client_scheme \<Rightarrow> tile \<Rightarrow> real option" where
  "get_forest_offset s t = do {
     coast \<leftarrow> coast_tile s t;
     if coast then do {
       name \<leftarrow> terrain_name s t;
       Some (if name = ''Hills'' then - 8 else if name = ''Mountains'' then - 12 else - 7)
     } else Some (- 6)
   }"

definition get_city_height_offset :: "'a client_scheme \<Rightarrow> city option \<Rightarrow> real option" where
  "get_city_height_offset s pcity =
     (case pcity of None \<Rightarrow> Some 0
      | Some c \<Rightarrow>
          (case index_to_tile (cl_tiles s) (c_tile c) of None \<Rightarrow> Some 0
           | Some t \<Rightarrow> do {
               coast \<leftarrow> coast_tile s t;
               if coast then do {
                 name \<leftarrow> terrain_name s t;
                 Some (if name = ''Hills'' then - 6 else if name = ''Mountains'' then - 10 else - 2.2)
               }
               else Some (case terrain_name s t of None \<Rightarrow> 1.8
                          | Some name \<Rightarrow> if name = ''Hills'' then - 6 else if name = ''Mountains'' then - 10 else 1.8)
             }))"

subsection \<open>Units\<close>

text \<open>The letter of an own unit's activity (\<open>webgl/text.js\<close>).\<close>

definition activity_letter :: "int \<Rightarrow> string option" where
  "activity_letter activity =
     map_of [(ACTIVITY_CLEAN, ''c''), (ACTIVITY_POLLUTION, ''c''), (ACTIVITY_MINE, ''m''), (ACTIVITY_PLANT, ''M''),
             (ACTIVITY_IRRIGATE, ''i''), (ACTIVITY_CULTIVATE, ''I''), (ACTIVITY_FORTIFIED, ''F''),
             (ACTIVITY_BASE, ''B''), (ACTIVITY_SENTRY, ''S''), (ACTIVITY_PILLAGE, ''P''), (ACTIVITY_GOTO, ''G''),
             (ACTIVITY_EXPLORE, ''X''), (ACTIVITY_TRANSFORM, ''T''), (ACTIVITY_FORTIFYING, ''F''),
             (ACTIVITY_GEN_ROAD, ''R''), (ACTIVITY_CONVERT, ''C'')] activity"

definition get_unit_activity_text :: "'a client_scheme \<Rightarrow> unit_rec \<Rightarrow> string option" where
  "get_unit_activity_text s punit =
     (case playing s of None \<Rightarrow> None
      | Some me \<Rightarrow>
          (if u_owner punit \<noteq> p_playerno me then None
           else case Option.bind (u_activity punit) activity_letter of Some l \<Rightarrow> Some l
                | None \<Rightarrow>
                    (if unit_has_goto s punit then Some ''G''
                     else if u_ssa_controller punit = Some SSA_AUTOSETTLER then Some ''A''
                     else if u_ssa_controller punit = Some SSA_AUTOEXPLORE then Some ''X''
                     else None)))"

text \<open>What \<open>get_unit_activity_text(unit) + tile_units(ptile).length\<close> is compared by.\<close>

definition activity_key :: "string option \<Rightarrow> nat \<Rightarrow> string" where
  "activity_key text n = (case text of None \<Rightarrow> [] | Some t \<Rightarrow> t) @ nat_text n"

definition get_unit_nation_flag_sprite :: "look \<Rightarrow> 'a client_scheme \<Rightarrow> unit_rec \<Rightarrow> string option" where
  "get_unit_nation_flag_sprite lk s punit = do {
     owner \<leftarrow> st_get (cl_players s) (u_owner punit);
     _ \<leftarrow> st_get (cl_nations s) (p_nation owner);
     Some (''f.shield.'' @ lk_graphic_str lk (p_nation owner))
   }"

text \<open>Where a unit is shown: at the first tile of its animation, else at \<open>ptile\<close> with the height so far.\<close>

definition unit_place :: "'a client_scheme \<Rightarrow> tile \<Rightarrow> unit_rec \<Rightarrow> real \<Rightarrow> ((int \<times> int) \<times> real) option" where
  "unit_place s ptile u height =
     (case u_anim_list u of None \<Rightarrow> None
      | Some [] \<Rightarrow> Some (tile_coords s ptile, height)
      | Some ((k, _) # _) \<Rightarrow> do {
          stile \<leftarrow> st_get (cl_tiles s) k;
          off \<leftarrow> get_unit_height_offset s (Some u);
          Some (tile_coords s stile, 5 + t_height stile * 100 + off)
        })"

definition resting :: "unit_rec \<Rightarrow> bool" where
  "resting u = (u_anim_list u = Some [])"

definition add_unit_flag :: "look \<Rightarrow> tile \<Rightarrow> string \<Rightarrow> vec3 \<Rightarrow> 'a scene_client_scheme \<Rightarrow> node option \<times> 'a scene_client_scheme" where
  "add_unit_flag lk ptile key pos s =
     (if st_get (sn_flag s) (t_index ptile) = None \<and> has_scene s \<and> lk_sprite lk key
      then (let (n, s1) = make_node key pos s
            in (Some n, (scene_add n s1)\<lparr>sn_flag := st_put (t_index ptile) n (sn_flag s1)\<rparr>))
      else (None, s))"

definition indicate_focus_unit :: "tile \<Rightarrow> unit_rec \<Rightarrow> vec3 \<Rightarrow> 'a scene_client_scheme \<Rightarrow> 'a scene_client_scheme" where
  "indicate_focus_unit ptile u pos s =
     (if has_scene s \<and> map_option u_id (get_focus_unit_on_tile s ptile) = Some (u_id u)
      then (let s1 = (if sn_selected s = None then s
                      else (scene_remove (sn_selected s) s)\<lparr>sn_selected := None, sn_highlight := (- 1, - 1)\<rparr>)
            in if resting u
               then (let (n, s2) = make_node ''selected unit'' pos s1
                     in (scene_add n s2)\<lparr>sn_selected := Some n, sn_highlight := (the (t_x ptile), the (t_y ptile))\<rparr>)
               else s1)
      else s)"

text \<open>A unit appears on a tile where none was shown.\<close>

definition show_new_unit :: "look \<Rightarrow> tile \<Rightarrow> unit_rec \<Rightarrow> real \<Rightarrow> 'a scene_client_scheme \<Rightarrow> 'a scene_client_scheme option" where
  "show_new_unit lk ptile u height s = do {
     ptype \<leftarrow> unit_type_of s u;
     let (found, s1) = webgl_get_model (ut_name ptype) ptile s;
     if \<not> found then Some s1
     else do {
       (pos, h) \<leftarrow> unit_place s1 ptile u height;
       let (mesh, s2) = make_node (ut_name ptype) (beside pos (- 12) (h - 2) (- 4)) s1;
       let s3 = scene_add mesh (s2\<lparr>sn_unit := st_put (t_index ptile) mesh (sn_unit s2)\<rparr>);
       key \<leftarrow> get_unit_nation_flag_sprite lk s3 u;
       let (flag, s4) = add_unit_flag lk ptile key (beside pos (- 10) (h + 20) (- 20)) s3;
       let s5 = indicate_focus_unit ptile u (beside pos (- 4) (h + 2) (- 4)) s4;
       Some (s5\<lparr>sn_anim := st_put (u_id u) (mesh, flag) (sn_anim s5)\<rparr>)
     }
   }"

definition update_unit_label :: "look \<Rightarrow> tile \<Rightarrow> unit_rec \<Rightarrow> vec3 \<Rightarrow> 'a scene_client_scheme \<Rightarrow> 'a scene_client_scheme" where
  "update_unit_label lk ptile u pos s =
     (let i = t_index ptile; n = length (t_units ptile); text = get_unit_activity_text s u
      in if st_get (sn_activities s) i \<noteq> Some (activity_key text n) \<and> resting u
         then (let s1 = scene_remove (st_get (sn_label s) i) s;
                   s2 = (if has_scene s1 \<and> (text \<noteq> None \<or> n > 1 \<or> lk_veteran lk (u_id u) > 0)
                         then (let (l, s2) = make_node ''unit label'' pos s1
                               in (scene_add l s2)\<lparr>sn_label := st_put i l (sn_label s2)\<rparr>)
                         else s1)
               in s2\<lparr>sn_activities := st_put i (activity_key text n) (sn_activities s2)\<rparr>)
         else s)"

definition update_unit_health :: "look \<Rightarrow> tile \<Rightarrow> unit_rec \<Rightarrow> vec3 \<Rightarrow> 'a scene_client_scheme \<Rightarrow> 'a scene_client_scheme" where
  "update_unit_health lk ptile u pos s =
     (let i = t_index ptile; hp = lk_hp lk (u_id u)
      in if st_get (sn_healthpercentage s) i \<noteq> Some hp \<and> resting u
         then (let (n, s1) = make_node ''unit health'' pos (scene_remove (st_get (sn_health s) i) s)
               in (scene_add n s1)\<lparr>sn_health := st_put i n (sn_health s1),
                    sn_healthpercentage := st_put i hp (sn_healthpercentage s1)\<rparr>)
         else s)"

text \<open>The unit that is shown on a tile is drawn again, or another one in its place.\<close>

definition show_unit_again :: "look \<Rightarrow> tile \<Rightarrow> unit_rec \<Rightarrow> real \<Rightarrow> 'a scene_client_scheme \<Rightarrow> 'a scene_client_scheme option" where
  "show_unit_again lk ptile u height s = do {
     ptype \<leftarrow> unit_type_of s u;
     (pos, h) \<leftarrow> unit_place s ptile u height;
     let i = t_index ptile;
     let s1 = scene_remove (st_get (sn_flag s) i) (scene_remove (st_get (sn_unit s) i) s);
     let s2 = s1\<lparr>sn_unit := st_del i (sn_unit s1), sn_flag := st_del i (sn_flag s1)\<rparr>;
     let s3 = update_unit_label lk ptile u (beside pos 7 (h + 20) (- 12)) s2;
     let s4 = update_unit_health lk ptile u (beside pos (- 16) (h + 24) (- 10)) s3;
     let s5 = indicate_focus_unit ptile u (beside pos (- 12) (h + 2) (- 7)) s4;
     let (found, s6) = webgl_get_model (ut_name ptype) ptile s5;
     if \<not> found then Some s6
     else do {
       let (mesh, s7) = make_node (ut_name ptype) (beside pos (- 12) (h - 2) (- 4)) s6;
       let s8 = scene_add mesh (s7\<lparr>sn_unit := st_put i mesh (sn_unit s7)\<rparr>);
       key \<leftarrow> get_unit_nation_flag_sprite lk s8 u;
       let (flag, s9) = add_unit_flag lk ptile key (beside pos (- 16) (h + 18) (- 10)) s8;
       Some (s9\<lparr>sn_anim := st_put (u_id u) (mesh, flag) (sn_anim s9)\<rparr>)
     }
   }"

definition remove_shown_unit :: "int \<Rightarrow> 'a scene_client_scheme \<Rightarrow> 'a scene_client_scheme" where
  "remove_shown_unit i s =
     (scene_remove (st_get (sn_health s) i) (scene_remove (st_get (sn_label s) i)
        (scene_remove (st_get (sn_flag s) i) (scene_remove (st_get (sn_unit s) i) s))))
       \<lparr>sn_unit := st_del i (sn_unit s), sn_flag := st_del i (sn_flag s), sn_label := st_del i (sn_label s),
        sn_activities := st_del i (sn_activities s), sn_health := st_del i (sn_health s),
        sn_healthpercentage := st_del i (sn_healthpercentage s)\<rparr>"

definition update_unit_position :: "look \<Rightarrow> tile option \<Rightarrow> 'a scene_client_scheme \<Rightarrow> 'a scene_client_scheme option" where
  "update_unit_position lk ptile s = do {
     t \<leftarrow> ptile;
     let visible = find_visible_unit s (Some t);
     off \<leftarrow> get_unit_height_offset s visible;
     let height = 5 + max (t_height t) 0.45 * 100 + off;
     (case visible of
        None \<Rightarrow> Some (if st_get (sn_unit s) (t_index t) = None then s else remove_shown_unit (t_index t) s)
      | Some u \<Rightarrow> (if st_get (sn_unit s) (t_index t) = None then show_new_unit lk t u height s
                  else show_unit_again lk t u height s))
   }"

definition webgl_clear_unit_focus :: "'a scene_client_scheme \<Rightarrow> 'a scene_client_scheme" where
  "webgl_clear_unit_focus s =
     (if has_scene s \<and> sn_selected s \<noteq> None
      then (scene_remove (sn_selected s) s)\<lparr>sn_selected := None, sn_highlight := (- 1, - 1)\<rparr>
      else s\<lparr>sn_highlight := (- 1, - 1)\<rparr>)"

end
