(* ===== verification/Scene_Cities.thy ===== *)
theory Scene_Cities
  imports Scene_Objects
begin

text \<open>
  The cities, their buildings, the extras and the forests of \<open>webgl/object_position_handler.js\<close>, and
  the redrawing of tiles when a model has been loaded (\<open>webgl/preload.js\<close>).
\<close>

subsection \<open>Placing buildings\<close>

definition map_step :: "'a client_scheme \<Rightarrow> tile \<Rightarrow> int \<Rightarrow> tile option" where
  "map_step s t dir = mapstep (cl_map s) (cl_tiles s) t dir"

text \<open>\<open>mapstep\<close> of a tile that is not there: a direction the map has throws.\<close>

definition step_from :: "'a client_scheme \<Rightarrow> tile option \<Rightarrow> int \<Rightarrow> tile option option" where
  "step_from s t dir =
     (case t of Some t1 \<Rightarrow> Some (map_step s t1 dir)
      | None \<Rightarrow> if is_valid_dir (cl_map s) dir then None else Some None)"

definition tile_far :: "tile \<Rightarrow> tile option \<Rightarrow> real \<Rightarrow> bool" where
  "tile_far a b d =
     (map_tile_distance (Some (the (t_x a), the (t_y a))) (map_option (\<lambda>t. (the (t_x t), the (t_y t))) b) > d)"

text \<open>Foreign, unknown and city tiles and tiles with a model are taken.\<close>

definition unknown_or_foreign :: "'a client_scheme \<Rightarrow> city \<Rightarrow> tile option \<Rightarrow> bool" where
  "unknown_or_foreign s c next =
     (tile_get_known next = Some TILE_UNKNOWN \<or> Option.bind next t_owner \<noteq> Some (c_owner c) \<or> tile_city s next \<noteq> None)"

definition built_on :: "'a scene_client_scheme \<Rightarrow> tile option \<Rightarrow> bool" where
  "built_on s next =
     opt_test (\<lambda>t. st_get (sn_city s) (t_index t) \<noteq> None \<or> st_get (sn_building s) (t_index t) \<noteq> None) next"

text \<open>
  The loop of \<open>add_wonder\<close> over the drawn pairs of directions: the tile for the model and the tile one
  step away, \<open>None\<close> when no place was found.
\<close>

fun place_wonder :: "'a scene_client_scheme \<Rightarrow> string \<Rightarrow> city \<Rightarrow> tile \<Rightarrow> tile \<Rightarrow> (int \<times> int) list
    \<Rightarrow> (tile \<times> tile) option option" where
  "place_wonder s name c orig pt [] = Some None"
| "place_wonder s name c orig pt ((d1, d2) # ds) = do {
     let ntile = map_step s pt d1;
     next \<leftarrow> (if name = ''Colossus'' then Some ntile else step_from s ntile d1);
     let pt1 = (if tile_far pt next 3 then orig else pt);
     let again = (case map_step s pt1 d2 of Some t \<Rightarrow> t | None \<Rightarrow> orig);
     ocean \<leftarrow> is_ocean_tile (rs_terrains (cl_ruleset s)) next;
     dry \<leftarrow> (if ocean \<or> unknown_or_foreign s c next \<or> built_on s next \<or> name \<noteq> ''Lighthouse'' then Some False
            else case next of None \<Rightarrow> Some False
              | Some t \<Rightarrow> map_option Not (is_ocean_tile_near (cl_map s) (cl_tiles s) (rs_terrains (cl_ruleset s)) t));
     (case (next, ntile) of
        (Some n, Some nt) \<Rightarrow>
          (if ocean \<or> unknown_or_foreign s c next \<or> built_on s next \<or> dry then place_wonder s name c orig again ds
           else Some (Some (n, nt)))
      | _ \<Rightarrow> place_wonder s name c orig again ds)
   }"

definition scene_coords_at :: "map_info \<Rightarrow> real \<Rightarrow> real \<Rightarrow> int \<times> int" where
  "scene_coords_at m x y =
     (\<lfloor>- 470 + x * of_int (mapview_model_size (m_xsize m)) / of_int (m_xsize m)\<rfloor>,
      \<lfloor>30 + y * of_int (mapview_model_size (m_ysize m)) / of_int (m_ysize m)\<rfloor>)"

definition coords_back :: "'a client_scheme \<Rightarrow> tile \<Rightarrow> int \<times> int" where
  "coords_back s t = scene_coords_at (cl_map s) (of_int (the (t_x t)) - 0.4) (of_int (the (t_y t)) - 0.4)"

definition wonder_place :: "'a client_scheme \<Rightarrow> string \<Rightarrow> tile \<Rightarrow> tile \<Rightarrow> ((int \<times> int) \<times> real) option" where
  "wonder_place s name next ntile = do {
     ocean \<leftarrow> (if name = ''Statue of Liberty'' then is_ocean_tile (rs_terrains (cl_ruleset s)) (Some next) else Some False);
     let h = 5 + t_height next * 100
       + (if name = ''Lighthouse'' then 4.2 else if name = ''Hanging Gardens'' \<or> name = ''Oracle'' then - 0.1
          else if name = ''SunTzusWarAcademy'' then 0.5
          else if name = ''Statue of Liberty'' then (if ocean then 20.1 else 21.3) else 0);
     Some (if name = ''Colossus'' then (coords_back s ntile, h + 4.2)
           else if name = ''Eiffel Tower'' then (coords_back s ntile, 22 + t_height ntile * 100)
           else (tile_coords s next, h))
   }"

text \<open>The name of a model: blanks, apostrophes and dots are taken out.\<close>

definition model_name :: "string \<Rightarrow> string" where
  "model_name = filter (\<lambda>c. c \<noteq> CHR '' '' \<and> c \<noteq> CHR 0x27 \<and> c \<noteq> CHR ''.'')"

definition without_blanks :: "string \<Rightarrow> string" where
  "without_blanks = filter (\<lambda>c. c \<noteq> CHR '' '')"

definition city_shows :: "look \<Rightarrow> 'a scene_client_scheme \<Rightarrow> city \<Rightarrow> string \<Rightarrow> bool" where
  "city_shows lk s c name =
     (city_has_building s c (improvement_id_by_name (lk_improvements lk) name) \<and> (c_id c, name) \<notin> set (sn_added s))"

text \<open>A model of a building enters the scene; without a scene this throws.\<close>

definition add_building_node :: "city \<Rightarrow> string \<Rightarrow> tile \<Rightarrow> vec3 \<Rightarrow> 'a scene_client_scheme \<Rightarrow> 'a scene_client_scheme option" where
  "add_building_node c name spot pos s =
     (if \<not> has_scene s then None
      else (let (n, s1) = make_node name pos s
            in Some (scene_add n (s1\<lparr>sn_added := (c_id c, name) # sn_added s1,
                                     sn_building := st_put (t_index spot) n (sn_building s1)\<rparr>))))"

definition add_wonder :: "look \<Rightarrow> tile \<Rightarrow> city \<Rightarrow> string \<Rightarrow> 'a scene_client_scheme \<Rightarrow> 'a scene_client_scheme option" where
  "add_wonder lk ptile c name s =
     (if \<not> city_shows lk s c name then Some s
      else (let (found, s1) = webgl_get_model (model_name name) ptile s
            in if \<not> found then Some s1
               else do {
                 place \<leftarrow> place_wonder s1 name c ptile ptile (lk_dirs lk name);
                 (case place of None \<Rightarrow> Some s1
                  | Some (next, ntile) \<Rightarrow> do {
                      (pos, h) \<leftarrow> wonder_place s1 name next ntile;
                      add_building_node c name next (beside pos (- 10) (h - 7) (- 6)) s1
                    })
               }))"

text \<open>The loop of \<open>add_city_building\<close>; only a harbor stands in the ocean.\<close>

fun place_building :: "'a scene_client_scheme \<Rightarrow> bool \<Rightarrow> city \<Rightarrow> tile \<Rightarrow> tile \<Rightarrow> (int \<times> int) list \<Rightarrow> tile option option" where
  "place_building s harbor c orig pt [] = Some None"
| "place_building s harbor c orig pt ((d1, d2) # ds) = do {
     let next = map_step s pt d1;
     let pt1 = (if tile_far pt next 2 then orig else pt);
     let again = (case map_step s pt1 d2 of Some t \<Rightarrow> t | None \<Rightarrow> orig);
     ocean \<leftarrow> is_ocean_tile (rs_terrains (cl_ruleset s)) next;
     (case next of None \<Rightarrow> place_building s harbor c orig again ds
      | Some n \<Rightarrow>
          (if ocean \<noteq> harbor \<or> tile_has_extra next (rs_EXTRA_RIVER (cl_ruleset s))
              \<or> unknown_or_foreign s c next \<or> built_on s next
           then place_building s harbor c orig again ds
           else Some (Some n)))
   }"

definition building_height :: "string \<Rightarrow> real" where
  "building_height name =
     (if name = ''Temple'' then - 0.6 else if name = ''Temple_roman'' then 1.6
      else if name = ''Factory'' \<or> name = ''Marketplace'' then - 1.2
      else if name = ''University'' then - 0.8 else if name = ''Granary'' then 1
      else if js_includes name ''Barracks'' then - 0.9 else if js_includes name ''Aqueduct'' then - 1.35
      else if js_includes name ''Courthouse'' then - 0.9 else if js_includes name ''Cathedral'' then - 1.2
      else if js_includes name ''Harbor'' then 1.2
      else if name = ''SETIProgram'' \<or> name = ''Bank'' \<or> name = ''NuclearPlant'' \<or> name = ''Airport'' then - 0.6
      else 0)"

definition add_city_building :: "look \<Rightarrow> tile \<Rightarrow> city \<Rightarrow> string \<Rightarrow> 'a scene_client_scheme \<Rightarrow> 'a scene_client_scheme option" where
  "add_city_building lk ptile c building_name s =
     (if \<not> city_shows lk s c building_name then Some s
      else (let name = (if building_name = ''Temple'' \<and> (c_style c = 1 \<or> c_style c = 6 \<or> c_style c = 7)
                        then ''Temple_roman'' else building_name);
                (found, s1) = webgl_get_model (without_blanks name) ptile s
            in if \<not> found then Some s1
               else do {
                 place \<leftarrow> place_building s1 (name = ''Harbor'') c ptile ptile (lk_dirs lk building_name);
                 (case place of None \<Rightarrow> Some s1
                  | Some next \<Rightarrow>
                      add_building_node c building_name next
                        (beside (tile_coords s1 next) (- 14) (7 + t_height next * 100 + building_height name - 5)
                           (if name = ''University'' then - 2 else - 14)) s1)
               }))"

definition wonder_models :: "string list" where
  "wonder_models = [''Pyramids'', ''Lighthouse'', ''Statue of Liberty'', ''Colossus'', ''Eiffel Tower'',
     ''Hanging Gardens'', ''Oracle'', ''Great Library'', ''Sun Tzu's War Academy'', ''J.S. Bach's Cathedral'',
     ''Isaac Newton's College'']"

definition building_models :: "string list" where
  "building_models = [''Library'', ''Temple'', ''Barracks'', ''Barracks II'', ''Barracks III'', ''Granary'',
     ''Colosseum'', ''Aqueduct'', ''Cathedral'', ''SETI Program'', ''Courthouse'', ''University'', ''Factory'',
     ''Marketplace'', ''Bank'', ''Windmill'', ''Nuclear Plant'', ''Airport'', ''Harbor'']"

definition add_city_buildings :: "look \<Rightarrow> tile \<Rightarrow> city \<Rightarrow> 'a scene_client_scheme \<Rightarrow> 'a scene_client_scheme option" where
  "add_city_buildings lk ptile c s = do {
     s1 \<leftarrow> each (add_wonder lk ptile c) wonder_models s;
     s2 \<leftarrow> each (add_city_building lk ptile c) building_models s1;
     Some (emit (Ui ''add_spaceship'' [JNum (t_index ptile), JNum (c_id c)]) s2)
   }"

subsection \<open>Cities\<close>

definition get_citywalls_models :: "city \<Rightarrow> string" where
  "get_citywalls_models c = (if c_style c = 0 \<or> c_style c = 5 then ''citywalls_stone'' else ''citywalls_roman'')"

definition get_citywalls_scale :: "city \<Rightarrow> real" where
  "get_citywalls_scale c =
     (let scale = (if c_size c \<ge> 3 \<and> c_size c \<le> 6 then 9.5 else if c_size c > 6 \<and> c_size c \<le> 9 then 10.5
                   else if c_size c > 9 \<and> c_size c \<le> 11 then 11 else if c_size c > 11 then 12.5 else 9)
      in if get_citywalls_models c = ''citywalls_stone'' then scale else scale * 0.19)"

definition style_height :: "city \<Rightarrow> real" where
  "style_height c = (if c_style c = 1 then 0.82 else if c_style c = 3 then 2
     else if c_style c = 4 \<or> c_style c = 9 then 1 else 0)"

definition label_hash :: "look \<Rightarrow> city \<Rightarrow> nat \<Rightarrow> string" where
  "label_hash lk c units =
     c_name c @ int_text (c_size c) @ int_text (c_production_value c) @ ''.'' @ int_text (c_production_kind c)
       @ nat_text units @ lk_nation_id lk (c_id c)"

text \<open>A label is drawn with the flag and the colour of the owner's nation, which must be there.\<close>

definition label_owner :: "'a client_scheme \<Rightarrow> city \<Rightarrow> nation option" where
  "label_owner s c = Option.bind (st_get (cl_players s) (c_owner c)) (\<lambda>p. st_get (cl_nations s) (p_nation p))"

definition add_city_walls :: "look \<Rightarrow> tile \<Rightarrow> city \<Rightarrow> vec3 \<Rightarrow> 'a scene_client_scheme \<Rightarrow> 'a scene_client_scheme" where
  "add_city_walls lk ptile c pos s =
     (if has_scene s \<and> lk_walls lk (c_id c) \<and> st_get (sn_walls s) (t_index ptile) = None
      then (let (found, s1) = webgl_get_model (get_citywalls_models c) ptile s
            in if \<not> found then s1
               else (let (n, s2) = make_node (get_citywalls_models c) pos s1
                     in (scene_add n s2)\<lparr>sn_walls := st_put (t_index ptile) n (sn_walls s2)\<rparr>))
      else s)"

definition add_city_light :: "tile \<Rightarrow> vec3 \<Rightarrow> 'a scene_client_scheme \<Rightarrow> 'a scene_client_scheme" where
  "add_city_light ptile pos s =
     (if has_scene s \<and> st_get (sn_light s) (t_index ptile) = None
      then (let (n, s1) = make_node ''city light'' pos s
            in (scene_add n s1)\<lparr>sn_light := st_put (t_index ptile) n (sn_light s1)\<rparr>)
      else s)"

definition show_new_city :: "look \<Rightarrow> tile \<Rightarrow> city \<Rightarrow> real \<Rightarrow> 'a scene_client_scheme \<Rightarrow> 'a scene_client_scheme option" where
  "show_new_city lk ptile c height0 s = do {
     let i = t_index ptile;
     let pos = tile_coords s ptile;
     name \<leftarrow> city_to_3d_model_name s c;
     let (found, s1) = webgl_get_model name ptile (s\<lparr>sn_city_model := st_put (c_id c) name (sn_city_model s)\<rparr>);
     if \<not> found then Some s1
     else do {
       let height = height0 - style_height c;
       let (n, s2) = make_node name (beside pos (- 12) (height - 2) (- 11)) s1;
       let s3 = scene_add n (s2\<lparr>sn_city := st_put i n (sn_city s2)\<rparr>);
       let s4 = add_city_walls lk ptile c (beside pos (- 11) (height - 6) (- 11)) s3;
       _ \<leftarrow> label_owner s4 c;
       let (l, s5) = make_node ''city label'' (beside pos 10 (height + 27) (- 25)) s4;
       let s6 = scene_add l (s5\<lparr>sn_city_label := st_put i l (sn_city_label s5),
                  sn_label_hash := st_put (c_id c) (label_hash lk c (length (t_units ptile))) (sn_label_hash s5)\<rparr>);
       s7 \<leftarrow> add_city_buildings lk ptile c s6;
       Some (add_city_light ptile (beside pos (- 10) (height + 3) (- 10)) s7)
     }
   }"

text \<open>The model of a city that was shown changes; without the new model nothing else is done.\<close>

definition change_city_model :: "look \<Rightarrow> tile \<Rightarrow> city \<Rightarrow> string \<Rightarrow> real \<Rightarrow> 'a scene_client_scheme \<Rightarrow> bool \<times> 'a scene_client_scheme" where
  "change_city_model lk ptile c name height s =
     (let i = t_index ptile;
          (found, s1) = webgl_get_model name ptile s
      in if \<not> found then (False, s1)
         else (let (n, s2) = make_node name (beside (tile_coords s ptile) (- 12) (height - 2) (- 10))
                               (scene_remove (st_get (sn_city s1) i) s1);
                   s3 = scene_add n (s2\<lparr>sn_city := st_put i n (sn_city s2),
                                         sn_city_model := st_put (c_id c) name (sn_city_model s2)\<rparr>)
               in (True, if has_scene s3 \<and> lk_walls lk (c_id c)
                         then (scene_remove (st_get (sn_walls s3) i) s3)\<lparr>sn_walls := st_del i (sn_walls s3)\<rparr>
                         else s3)))"

text \<open>\<open>Inl\<close> when the model was missing, with nothing else done; else the height to go on with.\<close>

definition show_city_again :: "look \<Rightarrow> tile \<Rightarrow> city \<Rightarrow> real \<Rightarrow> 'a scene_client_scheme
    \<Rightarrow> ('a scene_client_scheme + real \<times> 'a scene_client_scheme) option" where
  "show_city_again lk ptile c height0 s = do {
     let pos = tile_coords s ptile;
     name \<leftarrow> city_to_3d_model_name s c;
     let same = (st_get (sn_city_model s) (c_id c) = Some name);
     let height = (if same then height0 else height0 - style_height c);
     let (found, s1) = (if same then (True, s) else change_city_model lk ptile c name height s);
     if \<not> found then Some (Inl s1)
     else do {
       let s2 = add_city_walls lk ptile c (beside pos (- 11) (height - 6) (- 11)) s1;
       s3 \<leftarrow> add_city_buildings lk ptile c s2;
       let s4 = add_city_light ptile (beside pos (- 10) (height + 3) (- 10)) s3;
       let hash = label_hash lk c (length (t_units ptile));
       if st_get (sn_label_hash s4) (c_id c) = Some hash then Some (Inr (height, s4))
       else do {
         _ \<leftarrow> label_owner s4 c;
         Some (Inr (height, emit (Ui ''update_city_label'' [JNum (c_id c)])
                     (s4\<lparr>sn_label_hash := st_put (c_id c) hash (sn_label_hash s4)\<rparr>)))
       }
     }
   }"

definition remove_shown_city :: "int \<Rightarrow> 'a scene_client_scheme \<Rightarrow> 'a scene_client_scheme" where
  "remove_shown_city i s =
     (let s1 = scene_remove (st_get (sn_disorder s) i) (scene_remove (st_get (sn_walls s) i)
                 (scene_remove (st_get (sn_city_label s) i) (scene_remove (st_get (sn_city s) i) s)));
          s2 = s1\<lparr>sn_city := st_del i (sn_city s), sn_city_label := st_del i (sn_city_label s),
                  sn_walls := st_del i (sn_walls s), sn_disorder := st_del i (sn_disorder s)\<rparr>
      in if has_scene s2 then (scene_remove (st_get (sn_light s2) i) s2)\<lparr>sn_light := st_del i (sn_light s2)\<rparr> else s2)"

definition update_city_disorder :: "tile \<Rightarrow> city \<Rightarrow> real \<Rightarrow> 'a scene_client_scheme \<Rightarrow> 'a scene_client_scheme" where
  "update_city_disorder ptile c height s =
     (let i = t_index ptile
      in if \<not> has_scene s then s
         else if st_get (sn_disorder s) i = None \<and> c_unhappy c
         then (let (n, s1) = make_node ''city disorder'' (beside (tile_coords s ptile) (- 5) (height + 14) (- 10)) s
               in (scene_add n s1)\<lparr>sn_disorder := st_put i n (sn_disorder s1)\<rparr>)
         else if st_get (sn_disorder s) i \<noteq> None \<and> \<not> c_unhappy c
         then (scene_remove (st_get (sn_disorder s) i) s)\<lparr>sn_disorder := st_del i (sn_disorder s)\<rparr>
         else s)"

definition update_city_position :: "look \<Rightarrow> tile option \<Rightarrow> 'a scene_client_scheme \<Rightarrow> 'a scene_client_scheme option" where
  "update_city_position lk ptile s = do {
     t \<leftarrow> ptile;
     let pcity = tile_city s (Some t);
     off \<leftarrow> get_city_height_offset s pcity;
     let height = 5 + t_height t * 100 + off;
     (case pcity of
        None \<Rightarrow> Some (if st_get (sn_city s) (t_index t) = None then s else remove_shown_city (t_index t) s)
      | Some c \<Rightarrow>
          (if st_get (sn_city s) (t_index t) = None then show_new_city lk t c height s
           else do {
             r \<leftarrow> show_city_again lk t c height s;
             Some (case r of Inl s1 \<Rightarrow> s1 | Inr (h, s1) \<Rightarrow> update_city_disorder t c h s1)
           }))
   }"

end
