(* ===== verification/Scene_Extras.thy ===== *)
theory Scene_Extras
  imports Scene_Cities
begin

text \<open>
  The extras, forests and cactuses of a tile (\<open>webgl/object_position_handler.js\<close>), drawing
  everything, and redrawing the tiles that waited for a model (\<open>webgl/preload.js\<close>).
\<close>

subsection \<open>Extras\<close>

text \<open>The name of the model is replaced when one of four extras lies on the tile, whatever was asked for.\<close>

definition shown_extra_name :: "look \<Rightarrow> tile \<Rightarrow> string \<Rightarrow> string" where
  "shown_extra_name lk t name =
     (let n1 = (if tile_has_extra (Some t) (lk_EXTRA_OIL_WELL lk) then ''Oil Well'' else name);
          n2 = (if tile_has_extra (Some t) (lk_EXTRA_FALLOUT lk) then ''Fallout'' else n1);
          n3 = (if tile_has_extra (Some t) (lk_EXTRA_BUOY lk) then ''Buoy'' else n2)
      in if tile_has_extra (Some t) (lk_EXTRA_POLLUTION lk) then ''Pollution'' else n3)"

text \<open>The height of the models of an extra and their number.\<close>

definition extra_models :: "string \<Rightarrow> real \<times> nat" where
  "extra_models name =
     (case map_of [(''Hut'', (- 5, 1)), (''Fish'', (- 0.5, 3)), (''Buffalo'', (- 1.9, 3)), (''Fruit'', (0, 5)),
        (''Whales'', (0.3, 1)), (''Mine'', (- 7, 1)), (''Spice'', (- 7, 2)), (''Iron'', (- 7.5, 1)),
        (''Ivory'', (- 7.5, 1)), (''Coal'', (- 7.5, 1)), (''Gold'', (- 7.5, 1)), (''Wine'', (- 9.5, 1)),
        (''Oil'', (- 6, 1)), (''Gems'', (- 2, 3)), (''Wheat'', (- 0.5, 14)), (''Ruins'', (- 8, 1)),
        (''Oasis'', (- 5.45, 1)), (''Furs'', (- 2, 1)), (''Resources'', (- 6.2, 1)), (''Game'', (2.2, 3)),
        (''Pheasant'', (0.5, 2)), (''Airbase'', (- 5, 1)), (''Fortress'', (- 4.1, 1)), (''Peat'', (- 6, 1)),
        (''Oil Well'', (- 6, 1)), (''Fallout'', (- 3, 1)), (''Pollution'', (- 3, 1)), (''Buoy'', (- 2.5, 1))] name of
        Some e \<Rightarrow> e | None \<Rightarrow> (0, 1 :: nat))"

definition model_of_extra :: "look \<Rightarrow> string \<Rightarrow> string" where
  "model_of_extra lk name = (if name = ''Fish'' then name @ int_text (lk_fish lk) else name)"

definition set_extra :: "int \<Rightarrow> int \<Rightarrow> node list option \<Rightarrow> 'a scene_client_scheme \<Rightarrow> 'a scene_client_scheme" where
  "set_extra e i ns s = s\<lparr>sn_extra := (\<lambda>e' i'. if e' = e \<and> i' = i then ns else sn_extra s e' i')\<rparr>"

text \<open>
  \<open>spread - Math.floor(Math.random() * (2 * spread + 1))\<close> beside the middle of the tile, for one of
  several models; the numbers drawn are in the record \<open>look\<close>.
\<close>

definition scattered :: "look \<Rightarrow> string \<Rightarrow> nat \<Rightarrow> int \<Rightarrow> int \<times> int \<Rightarrow> real \<Rightarrow> vec3" where
  "scattered lk name k spread pos height =
     (case lk_offset lk name k of (a, b) \<Rightarrow> beside pos (of_int (- 10 + spread - a)) height (of_int (- 10 + spread - b)))"

text \<open>The loop over the models; the list of the tile is made anew for each of them.\<close>

primrec extra_loop :: "look \<Rightarrow> string \<Rightarrow> real \<Rightarrow> int \<Rightarrow> nat \<Rightarrow> tile \<Rightarrow> nat \<Rightarrow> 'a scene_client_scheme \<Rightarrow> 'a scene_client_scheme" where
  "extra_loop lk name height e num t 0 s = s"
| "extra_loop lk name height e num t (Suc left) s =
     (let (found, s1) = webgl_get_model (without_blanks name) t s
      in if \<not> found then s1
         else (let pos = tile_coords s1 t;
                   p = (if num = 1 then beside pos (- 10) height (- 10) else scattered lk name (num - Suc left) 12 pos height);
                   (n, s2) = make_node name p s1
               in extra_loop lk name height e num t left (scene_add n (set_extra e (t_index t) (Some [n]) s2))))"

definition remove_nodes :: "node list \<Rightarrow> 'a scene_client_scheme \<Rightarrow> 'a scene_client_scheme" where
  "remove_nodes ns s = foldl (\<lambda>s n. scene_remove (Some n) s) s ns"

definition extra_shown :: "look \<Rightarrow> int \<Rightarrow> tile \<Rightarrow> bool" where
  "extra_shown lk e t =
     list_ex (tile_has_extra (Some t))
       [e, lk_EXTRA_OIL_WELL lk, lk_EXTRA_FALLOUT lk, lk_EXTRA_POLLUTION lk, lk_EXTRA_BUOY lk]"

definition update_tile_extra_update_model :: "look \<Rightarrow> int \<Rightarrow> string \<Rightarrow> tile \<Rightarrow> 'a scene_client_scheme \<Rightarrow> 'a scene_client_scheme" where
  "update_tile_extra_update_model lk e extra_name t s =
     (case sn_extra s e (t_index t) of
        None \<Rightarrow>
          (if extra_shown lk e t
           then (let name = shown_extra_name lk t extra_name; (dh, num) = extra_models name
                 in extra_loop lk (model_of_extra lk name) (5 + t_height t * 100 + dh + 1) e num t num s)
           else s)
      | Some ns \<Rightarrow>
          (if has_scene s \<and> \<not> tile_has_extra (Some t) e
           then set_extra e (t_index t) None (remove_nodes ns s) else s))"

subsection \<open>Forests and cactuses\<close>

definition tree_model :: "int \<Rightarrow> string" where
  "tree_model rnd = (if rnd = 0 then ''Tree1'' else if rnd = 1 then ''Tree2'' else if rnd = 2 then ''Tree3''
     else if rnd = 3 then ''Pine1'' else if rnd = 4 then ''Pine2'' else ''Tree4'')"

definition palm_model :: "int \<Rightarrow> string" where
  "palm_model rnd = (if rnd = 0 then ''Palm1'' else ''Palm2'')"

text \<open>A missing model throws when it is moved.\<close>

primrec tree_loop :: "look \<Rightarrow> string \<Rightarrow> int \<Rightarrow> real \<Rightarrow> nat \<Rightarrow> tile \<Rightarrow> nat \<Rightarrow> 'a scene_client_scheme \<Rightarrow> 'a scene_client_scheme option" where
  "tree_loop lk name spread height num t 0 s = Some s"
| "tree_loop lk name spread height num t (Suc left) s =
     (let (found, s1) = webgl_get_model name t s
      in if \<not> found then None
         else (let (n, s2) = make_node name (scattered lk name (num - Suc left) spread (tile_coords s1 t) height) s1
               in tree_loop lk name spread height num t left
                    (scene_add n (s2\<lparr>sn_tile_models := st_upd (t_index t) (\<lambda>ns. ns @ [n]) (sn_tile_models s2)\<rparr>))))"

definition plant_trees :: "look \<Rightarrow> string \<Rightarrow> int \<Rightarrow> real \<Rightarrow> nat \<Rightarrow> tile \<Rightarrow> 'a scene_client_scheme \<Rightarrow> 'a scene_client_scheme option" where
  "plant_trees lk name spread height num t s =
     tree_loop lk name spread height num t num (s\<lparr>sn_tile_models := st_put (t_index t) [] (sn_tile_models s)\<rparr>)"

definition fell_trees :: "int \<Rightarrow> 'a scene_client_scheme \<Rightarrow> 'a scene_client_scheme" where
  "fell_trees i s =
     (case st_get (sn_tile_models s) i of None \<Rightarrow> s
      | Some ns \<Rightarrow> (remove_nodes ns s)\<lparr>sn_tile_models := st_del i (sn_tile_models s)\<rparr>)"

definition known_tile :: "tile \<Rightarrow> bool" where
  "known_tile t = (tile_get_known (Some t) \<noteq> Some TILE_UNKNOWN)"

definition update_tile_forest :: "look \<Rightarrow> tile \<Rightarrow> 'a scene_client_scheme \<Rightarrow> 'a scene_client_scheme option" where
  "update_tile_forest lk t s = do {
     name \<leftarrow> terrain_name s t;
     if has_scene s \<and> st_get (sn_tile_models s) (t_index t) = None \<and> name = ''Forest'' \<and> known_tile t
     then do {
       off \<leftarrow> get_forest_offset s t;
       plant_trees lk (tree_model (lk_tree lk)) 12
         (4.8 + t_height t * 100 + off - (if tree_model (lk_tree lk) = ''Tree4'' then 1.2 else 0)) 7 t s
     }
     else Some (if has_scene s \<and> st_get (sn_tile_models s) (t_index t) \<noteq> None \<and> name \<noteq> ''Forest''
                   \<and> name \<noteq> ''Jungle'' \<and> known_tile t
                then fell_trees (t_index t) s else s)
   }"

definition update_tile_jungle :: "look \<Rightarrow> tile \<Rightarrow> 'a scene_client_scheme \<Rightarrow> 'a scene_client_scheme option" where
  "update_tile_jungle lk t s = do {
     name \<leftarrow> terrain_name s t;
     if has_scene s \<and> st_get (sn_tile_models s) (t_index t) = None \<and> name = ''Jungle'' \<and> known_tile t
     then do {
       off \<leftarrow> get_forest_offset s t;
       plant_trees lk (palm_model (lk_palm lk)) 12 (5 + t_height t * 100 + off) 6 t s
     }
     else Some (if has_scene s \<and> st_get (sn_tile_models s) (t_index t) \<noteq> None \<and> name \<noteq> ''Jungle''
                   \<and> name \<noteq> ''Forest'' \<and> known_tile t
                then fell_trees (t_index t) s else s)
   }"

definition update_tile_cactus :: "look \<Rightarrow> tile \<Rightarrow> 'a scene_client_scheme \<Rightarrow> 'a scene_client_scheme option" where
  "update_tile_cactus lk t s = do {
     name \<leftarrow> terrain_name s t;
     if lk_cactus lk = 1 \<and> has_scene s \<and> st_get (sn_tile_models s) (t_index t) = None \<and> name = ''Desert'' \<and> known_tile t
     then do {
       off \<leftarrow> get_forest_offset s t;
       plant_trees lk ''Cactus1'' 15 (5 + t_height t * 100 + off) 1 t s
     }
     else Some s
   }"

subsection \<open>Tiles\<close>

definition special_resources :: "string list" where
  "special_resources = [''Fish'', ''Whales'', ''Oasis'', ''Wine'', ''Iron'', ''Spice'', ''Ivory'', ''Oil'', ''Coal'',
     ''Fruit'', ''Furs'', ''Gold'', ''Gems'', ''Silk'', ''Resources'', ''Fallout'', ''Game'', ''Buffalo'', ''Pheasant'',
     ''Wheat'', ''Peat'', ''Buoy'']"

definition update_tile_resource :: "look \<Rightarrow> tile \<Rightarrow> 'a scene_client_scheme \<Rightarrow> 'a scene_client_scheme option" where
  "update_tile_resource lk t s = do {
     extra_id \<leftarrow> tile_resource (rs_extras (cl_ruleset s)) (Some t);
     Some (case Option.bind extra_id (st_get (rs_extras (cl_ruleset s))) of None \<Rightarrow> s
           | Some x \<Rightarrow> (if has_scene s \<and> sn_extra s (x_id x) (t_index t) = None \<and> x_rule_name x \<in> set special_resources
                       then update_tile_extra_update_model lk (x_id x) (x_rule_name x) t s else s))
   }"

definition update_tile_extras :: "look \<Rightarrow> tile option \<Rightarrow> 'a scene_client_scheme \<Rightarrow> 'a scene_client_scheme option" where
  "update_tile_extras lk ptile s =
     (case ptile of None \<Rightarrow> Some s
      | Some t \<Rightarrow>
          (if \<not> known_tile t then Some s
           else do {
             let s1 = update_tile_extra_update_model lk (lk_EXTRA_MINE lk) ''Mine'' t s;
             let s2 = update_tile_extra_update_model lk (rs_EXTRA_HUT (cl_ruleset s)) ''Hut'' t s1;
             let s3 = update_tile_extra_update_model lk (lk_EXTRA_RUINS lk) ''Ruins'' t s2;
             let s4 = update_tile_extra_update_model lk (rs_EXTRA_AIRBASE (cl_ruleset s)) ''Airbase'' t s3;
             let s5 = update_tile_extra_update_model lk (lk_EXTRA_FORTRESS lk) ''Fortress'' t s4;
             s6 \<leftarrow> update_tile_forest lk t s5;
             s7 \<leftarrow> update_tile_jungle lk t s6;
             s8 \<leftarrow> update_tile_cactus lk t s7;
             update_tile_resource lk t s8
           }))"

subsection \<open>Everything at once\<close>

text \<open>Not all dictionaries are emptied: disorder signs, lights, buildings and forests are kept.\<close>

definition forget_objects :: "'a scene_client_scheme \<Rightarrow> 'a scene_client_scheme" where
  "forget_objects s =
     s\<lparr>sn_unit := [], sn_city := [], sn_city_label := [], sn_walls := [], sn_flag := [], sn_label := [],
       sn_activities := [], sn_health := [], sn_healthpercentage := [], sn_extra := (\<lambda>_ _. None)\<rparr>"

definition add_all_objects_to_scene :: "look \<Rightarrow> 'a scene_client_scheme \<Rightarrow> 'a scene_client_scheme option" where
  "add_all_objects_to_scene lk s = do {
     s1 \<leftarrow> each (\<lambda>u s. update_unit_position lk (index_to_tile (cl_tiles s) (u_tile u)) s)
            (st_vals (cl_units s)) (forget_objects s);
     s2 \<leftarrow> each (\<lambda>c s. update_city_position lk (city_tile s (Some c)) s) (st_vals (cl_cities s1)) s1;
     each (\<lambda>t s. update_tile_extras lk (Some t) s) (st_vals (cl_tiles s2)) s2
   }"

subsection \<open>A model has been loaded\<close>

text \<open>One tile of the loop over \<open>tiles_of_unloaded_models_map\<close>, as it is when the loop comes to it.\<close>

definition redraw_waiting :: "look \<Rightarrow> string \<Rightarrow> int \<Rightarrow> 'a scene_client_scheme \<Rightarrow> 'a scene_client_scheme option" where
  "redraw_waiting lk filename i s =
     (case st_get (cl_tiles s) i of None \<Rightarrow> Some s
      | Some t \<Rightarrow>
          (if st_get (sn_unloaded s) i \<noteq> Some filename then Some s
           else do {
             s1 \<leftarrow> update_unit_position lk (Some t) s;
             s2 \<leftarrow> update_city_position lk (Some t) s1;
             s3 \<leftarrow> update_tile_extras lk (Some t) s2;
             Some (s3\<lparr>sn_unloaded := st_del i (sn_unloaded s3), sn_loading := removeAll filename (sn_loading s3)\<rparr>)
           }))"

definition model_loaded :: "look \<Rightarrow> string \<Rightarrow> 'a scene_client_scheme \<Rightarrow> 'a scene_client_scheme option" where
  "model_loaded lk filename s =
     (let s1 = s\<lparr>sn_models := filename # sn_models s\<rparr>
      in each (redraw_waiting lk filename) (st_keys (sn_unloaded s1)) s1)"

end
