(* ===== verification/Scene_Facts.thy ===== *)
theory Scene_Facts
  imports Scene_Extras Unit_Facts
begin

text \<open>
  What stays in the scene.  Every dictionary entry of the view is a slot that holds the nodes it
  knows; the scene is tidy when each of its nodes is in some slot, so that it can still be removed.
  All operations on units, cities, forests and single models keep it tidy; an extra of several models
  does not.
\<close>

subsection \<open>Slots\<close>

datatype slot = SUnit int | SFlag int | SLabel int | SHealth int | SCity int | SCityLabel int | SWalls int
  | SDisorder int | SLight int | SBuilding int | SExtra int int | STrees int | SSelected

definition opt_list :: "'b option \<Rightarrow> 'b list" where
  "opt_list x = (case x of None \<Rightarrow> [] | Some v \<Rightarrow> [v])"

definition opt_lists :: "'b list option \<Rightarrow> 'b list" where
  "opt_lists x = (case x of None \<Rightarrow> [] | Some v \<Rightarrow> v)"

lemma opt_list_simps [simp]: "opt_list None = []" "opt_list (Some v) = [v]" "opt_lists None = []" "opt_lists (Some vs) = vs"
  "opt_list x = [] \<longleftrightarrow> x = None"
  by (simp_all add: opt_list_def opt_lists_def split: option.split)

fun shown :: "'a scene_client_scheme \<Rightarrow> slot \<Rightarrow> node list" where
   "shown s (SUnit i) = opt_list (st_get (sn_unit s) i)"
| "shown s (SFlag i) = opt_list (st_get (sn_flag s) i)"
| "shown s (SLabel i) = opt_list (st_get (sn_label s) i)"
| "shown s (SHealth i) = opt_list (st_get (sn_health s) i)"
| "shown s (SCity i) = opt_list (st_get (sn_city s) i)"
| "shown s (SCityLabel i) = opt_list (st_get (sn_city_label s) i)"
| "shown s (SWalls i) = opt_list (st_get (sn_walls s) i)"
| "shown s (SDisorder i) = opt_list (st_get (sn_disorder s) i)"
| "shown s (SLight i) = opt_list (st_get (sn_light s) i)"
| "shown s (SBuilding i) = opt_list (st_get (sn_building s) i)"
| "shown s (SExtra e i) = opt_lists (sn_extra s e i)"
| "shown s (STrees i) = opt_lists (st_get (sn_tile_models s) i)"
| "shown s SSelected = opt_list (sn_selected s)"

definition kept :: "node list \<Rightarrow> (slot \<Rightarrow> node list) \<Rightarrow> bool" where
  "kept ns f = list_all (\<lambda>n. \<exists>x. n \<in> set (f x)) ns"

definition tidy :: "'a scene_client_scheme \<Rightarrow> bool" where
  "tidy s = (\<forall>ns. sn_scene s = Some ns \<longrightarrow> kept ns (shown s))"

lemma kept_put: "kept ns f \<Longrightarrow> f x = [] \<Longrightarrow> kept (ns @ [n]) (f(x := [n]))"
  unfolding kept_def list_all_iff by (metis Un_iff empty_iff fun_upd_apply list.set(1) list.set_intros(1) set_ConsD set_append)

lemma kept_drop:
  assumes "kept ns f" "set (f x) \<subseteq> {m}"
  shows "kept (filter (\<lambda>k. nd_id k \<noteq> nd_id m) ns) (f(x := []))"
  unfolding kept_def list_all_iff
proof (intro ballI)
  fix k assume k: "k \<in> set (filter (\<lambda>k. nd_id k \<noteq> nd_id m) ns)"
  then obtain y where y: "k \<in> set (f y)" using assms(1) by (auto simp: kept_def list_all_iff)
  have "y \<noteq> x" using y k assms(2) by auto
  then show "\<exists>y. k \<in> set ((f(x := [])) y)" using y by (intro exI [of _ y]) simp
qed

lemma kept_filter: "kept ns f \<Longrightarrow> kept (filter P ns) f"
  by (auto simp: kept_def list_all_iff)

lemma kept_clear: "kept ns f \<Longrightarrow> f x = [] \<Longrightarrow> kept ns (f(x := []))"
  by (simp add: fun_upd_idem)

subsection \<open>Slots under field updates\<close>

named_theorems slot_simps \<open>the slots after an update of one dictionary\<close>

lemma shown_put_unit [slot_simps]:
  "sn_unit t = sn_unit s \<Longrightarrow> shown (s\<lparr>sn_unit := st_put i n (sn_unit t)\<rparr>) = (shown s)(SUnit i := [n])"
  "sn_unit t = sn_unit s \<Longrightarrow> shown (s\<lparr>sn_unit := st_del i (sn_unit t)\<rparr>) = (shown s)(SUnit i := [])"
  by (rule ext, case_tac x, simp_all add: js.get_put js.get_del)+

lemma shown_put_flag [slot_simps]:
  "sn_flag t = sn_flag s \<Longrightarrow> shown (s\<lparr>sn_flag := st_put i n (sn_flag t)\<rparr>) = (shown s)(SFlag i := [n])"
  "sn_flag t = sn_flag s \<Longrightarrow> shown (s\<lparr>sn_flag := st_del i (sn_flag t)\<rparr>) = (shown s)(SFlag i := [])"
  by (rule ext, case_tac x, simp_all add: js.get_put js.get_del)+

lemma shown_put_label [slot_simps]:
  "sn_label t = sn_label s \<Longrightarrow> shown (s\<lparr>sn_label := st_put i n (sn_label t)\<rparr>) = (shown s)(SLabel i := [n])"
  "sn_label t = sn_label s \<Longrightarrow> shown (s\<lparr>sn_label := st_del i (sn_label t)\<rparr>) = (shown s)(SLabel i := [])"
  by (rule ext, case_tac x, simp_all add: js.get_put js.get_del)+

lemma shown_put_health [slot_simps]:
  "sn_health t = sn_health s \<Longrightarrow> shown (s\<lparr>sn_health := st_put i n (sn_health t)\<rparr>) = (shown s)(SHealth i := [n])"
  "sn_health t = sn_health s \<Longrightarrow> shown (s\<lparr>sn_health := st_del i (sn_health t)\<rparr>) = (shown s)(SHealth i := [])"
  by (rule ext, case_tac x, simp_all add: js.get_put js.get_del)+

lemma shown_put_city [slot_simps]:
  "sn_city t = sn_city s \<Longrightarrow> shown (s\<lparr>sn_city := st_put i n (sn_city t)\<rparr>) = (shown s)(SCity i := [n])"
  "sn_city t = sn_city s \<Longrightarrow> shown (s\<lparr>sn_city := st_del i (sn_city t)\<rparr>) = (shown s)(SCity i := [])"
  by (rule ext, case_tac x, simp_all add: js.get_put js.get_del)+

lemma shown_put_city_label [slot_simps]:
  "sn_city_label t = sn_city_label s \<Longrightarrow> shown (s\<lparr>sn_city_label := st_put i n (sn_city_label t)\<rparr>) = (shown s)(SCityLabel i := [n])"
  "sn_city_label t = sn_city_label s \<Longrightarrow> shown (s\<lparr>sn_city_label := st_del i (sn_city_label t)\<rparr>) = (shown s)(SCityLabel i := [])"
  by (rule ext, case_tac x, simp_all add: js.get_put js.get_del)+

lemma shown_put_walls [slot_simps]:
  "sn_walls t = sn_walls s \<Longrightarrow> shown (s\<lparr>sn_walls := st_put i n (sn_walls t)\<rparr>) = (shown s)(SWalls i := [n])"
  "sn_walls t = sn_walls s \<Longrightarrow> shown (s\<lparr>sn_walls := st_del i (sn_walls t)\<rparr>) = (shown s)(SWalls i := [])"
  by (rule ext, case_tac x, simp_all add: js.get_put js.get_del)+

lemma shown_put_disorder [slot_simps]:
  "sn_disorder t = sn_disorder s \<Longrightarrow> shown (s\<lparr>sn_disorder := st_put i n (sn_disorder t)\<rparr>) = (shown s)(SDisorder i := [n])"
  "sn_disorder t = sn_disorder s \<Longrightarrow> shown (s\<lparr>sn_disorder := st_del i (sn_disorder t)\<rparr>) = (shown s)(SDisorder i := [])"
  by (rule ext, case_tac x, simp_all add: js.get_put js.get_del)+

lemma shown_put_light [slot_simps]:
  "sn_light t = sn_light s \<Longrightarrow> shown (s\<lparr>sn_light := st_put i n (sn_light t)\<rparr>) = (shown s)(SLight i := [n])"
  "sn_light t = sn_light s \<Longrightarrow> shown (s\<lparr>sn_light := st_del i (sn_light t)\<rparr>) = (shown s)(SLight i := [])"
  by (rule ext, case_tac x, simp_all add: js.get_put js.get_del)+

lemma shown_put_building [slot_simps]:
  "sn_building t = sn_building s \<Longrightarrow> shown (s\<lparr>sn_building := st_put i n (sn_building t)\<rparr>) = (shown s)(SBuilding i := [n])"
  "sn_building t = sn_building s \<Longrightarrow> shown (s\<lparr>sn_building := st_del i (sn_building t)\<rparr>) = (shown s)(SBuilding i := [])"
  by (rule ext, case_tac x, simp_all add: js.get_put js.get_del)+

lemma shown_others [slot_simps]:
  "shown (s\<lparr>sn_selected := sel\<rparr>) = (shown s)(SSelected := opt_list sel)"
  "shown (s\<lparr>sn_next := y_sn_next\<rparr>) = shown s"
  "shown (s\<lparr>sn_models := y_sn_models\<rparr>) = shown s"
  "shown (s\<lparr>sn_unloaded := y_sn_unloaded\<rparr>) = shown s"
  "shown (s\<lparr>sn_loading := y_sn_loading\<rparr>) = shown s"
  "shown (s\<lparr>sn_activities := y_sn_activities\<rparr>) = shown s"
  "shown (s\<lparr>sn_healthpercentage := y_sn_healthpercentage\<rparr>) = shown s"
  "shown (s\<lparr>sn_highlight := y_sn_highlight\<rparr>) = shown s"
  "shown (s\<lparr>sn_anim := y_sn_anim\<rparr>) = shown s"
  "shown (s\<lparr>sn_city_model := y_sn_city_model\<rparr>) = shown s"
  "shown (s\<lparr>sn_label_hash := y_sn_label_hash\<rparr>) = shown s"
  "shown (s\<lparr>sn_added := y_sn_added\<rparr>) = shown s"
  "shown (s\<lparr>sn_scene := y_sn_scene\<rparr>) = shown s"
  "shown (s\<lparr>cl_out := y_cl_out\<rparr>) = shown s"
  by (rule ext, case_tac x, simp_all)+

lemma shown_extra [slot_simps]:
  "shown (set_extra e i ns s) = (shown s)(SExtra e i := opt_lists ns)"
  by (rule ext, case_tac x) (auto simp: set_extra_def)

lemma shown_trees [slot_simps]:
  "sn_tile_models t = sn_tile_models s \<Longrightarrow>
     shown (s\<lparr>sn_tile_models := st_put i ns (sn_tile_models t)\<rparr>) = (shown s)(STrees i := ns)"
  "sn_tile_models t = sn_tile_models s \<Longrightarrow>
     shown (s\<lparr>sn_tile_models := st_del i (sn_tile_models t)\<rparr>) = (shown s)(STrees i := [])"
  by (rule ext, case_tac x, simp_all add: js.get_put js.get_del)+

subsection \<open>Frames\<close>

lemma scene_add_frame [simp, frame_simps]:
  "sn_unit (scene_add n s) = sn_unit s"
  "sn_flag (scene_add n s) = sn_flag s"
  "sn_label (scene_add n s) = sn_label s"
  "sn_activities (scene_add n s) = sn_activities s"
  "sn_health (scene_add n s) = sn_health s"
  "sn_healthpercentage (scene_add n s) = sn_healthpercentage s"
  "sn_selected (scene_add n s) = sn_selected s"
  "sn_highlight (scene_add n s) = sn_highlight s"
  "sn_anim (scene_add n s) = sn_anim s"
  "sn_city (scene_add n s) = sn_city s"
  "sn_city_label (scene_add n s) = sn_city_label s"
  "sn_walls (scene_add n s) = sn_walls s"
  "sn_disorder (scene_add n s) = sn_disorder s"
  "sn_light (scene_add n s) = sn_light s"
  "sn_building (scene_add n s) = sn_building s"
  "sn_city_model (scene_add n s) = sn_city_model s"
  "sn_label_hash (scene_add n s) = sn_label_hash s"
  "sn_added (scene_add n s) = sn_added s"
  "sn_extra (scene_add n s) = sn_extra s"
  "sn_tile_models (scene_add n s) = sn_tile_models s"
  "sn_models (scene_add n s) = sn_models s"
  "cl_tiles (scene_add n s) = cl_tiles s"
  "cl_units (scene_add n s) = cl_units s"
  "cl_cities (scene_add n s) = cl_cities s"
  "cl_map (scene_add n s) = cl_map s"
  "cl_ruleset (scene_add n s) = cl_ruleset s"
  "cl_players (scene_add n s) = cl_players s"
  "cl_nations (scene_add n s) = cl_nations s"
  "sn_unloaded (scene_add n s) = sn_unloaded s"
  "sn_loading (scene_add n s) = sn_loading s"
  "sn_next (scene_add n s) = sn_next s"
  "cl_out (scene_add n s) = cl_out s"
  by (simp_all add: scene_add_def Let_def split: option.split)

lemma scene_remove_frame [simp, frame_simps]:
  "sn_unit (scene_remove r s) = sn_unit s"
  "sn_flag (scene_remove r s) = sn_flag s"
  "sn_label (scene_remove r s) = sn_label s"
  "sn_activities (scene_remove r s) = sn_activities s"
  "sn_health (scene_remove r s) = sn_health s"
  "sn_healthpercentage (scene_remove r s) = sn_healthpercentage s"
  "sn_selected (scene_remove r s) = sn_selected s"
  "sn_highlight (scene_remove r s) = sn_highlight s"
  "sn_anim (scene_remove r s) = sn_anim s"
  "sn_city (scene_remove r s) = sn_city s"
  "sn_city_label (scene_remove r s) = sn_city_label s"
  "sn_walls (scene_remove r s) = sn_walls s"
  "sn_disorder (scene_remove r s) = sn_disorder s"
  "sn_light (scene_remove r s) = sn_light s"
  "sn_building (scene_remove r s) = sn_building s"
  "sn_city_model (scene_remove r s) = sn_city_model s"
  "sn_label_hash (scene_remove r s) = sn_label_hash s"
  "sn_added (scene_remove r s) = sn_added s"
  "sn_extra (scene_remove r s) = sn_extra s"
  "sn_tile_models (scene_remove r s) = sn_tile_models s"
  "sn_models (scene_remove r s) = sn_models s"
  "cl_tiles (scene_remove r s) = cl_tiles s"
  "cl_units (scene_remove r s) = cl_units s"
  "cl_cities (scene_remove r s) = cl_cities s"
  "cl_map (scene_remove r s) = cl_map s"
  "cl_ruleset (scene_remove r s) = cl_ruleset s"
  "cl_players (scene_remove r s) = cl_players s"
  "cl_nations (scene_remove r s) = cl_nations s"
  "sn_unloaded (scene_remove r s) = sn_unloaded s"
  "sn_loading (scene_remove r s) = sn_loading s"
  "sn_next (scene_remove r s) = sn_next s"
  "cl_out (scene_remove r s) = cl_out s"
  by (simp_all add: scene_remove_def Let_def split: option.split)

lemma make_node_frame [simp, frame_simps]:
  "sn_unit (snd (make_node k p s)) = sn_unit s"
  "sn_flag (snd (make_node k p s)) = sn_flag s"
  "sn_label (snd (make_node k p s)) = sn_label s"
  "sn_activities (snd (make_node k p s)) = sn_activities s"
  "sn_health (snd (make_node k p s)) = sn_health s"
  "sn_healthpercentage (snd (make_node k p s)) = sn_healthpercentage s"
  "sn_selected (snd (make_node k p s)) = sn_selected s"
  "sn_highlight (snd (make_node k p s)) = sn_highlight s"
  "sn_anim (snd (make_node k p s)) = sn_anim s"
  "sn_city (snd (make_node k p s)) = sn_city s"
  "sn_city_label (snd (make_node k p s)) = sn_city_label s"
  "sn_walls (snd (make_node k p s)) = sn_walls s"
  "sn_disorder (snd (make_node k p s)) = sn_disorder s"
  "sn_light (snd (make_node k p s)) = sn_light s"
  "sn_building (snd (make_node k p s)) = sn_building s"
  "sn_city_model (snd (make_node k p s)) = sn_city_model s"
  "sn_label_hash (snd (make_node k p s)) = sn_label_hash s"
  "sn_added (snd (make_node k p s)) = sn_added s"
  "sn_extra (snd (make_node k p s)) = sn_extra s"
  "sn_tile_models (snd (make_node k p s)) = sn_tile_models s"
  "sn_models (snd (make_node k p s)) = sn_models s"
  "cl_tiles (snd (make_node k p s)) = cl_tiles s"
  "cl_units (snd (make_node k p s)) = cl_units s"
  "cl_cities (snd (make_node k p s)) = cl_cities s"
  "cl_map (snd (make_node k p s)) = cl_map s"
  "cl_ruleset (snd (make_node k p s)) = cl_ruleset s"
  "cl_players (snd (make_node k p s)) = cl_players s"
  "cl_nations (snd (make_node k p s)) = cl_nations s"
  "sn_unloaded (snd (make_node k p s)) = sn_unloaded s"
  "sn_loading (snd (make_node k p s)) = sn_loading s"
  "cl_out (snd (make_node k p s)) = cl_out s"
  "sn_scene (snd (make_node k p s)) = sn_scene s"
  by (simp_all add: make_node_def Let_def split: option.split)

lemma get_model_frame [simp, frame_simps]:
  "sn_unit (snd (webgl_get_model k t s)) = sn_unit s"
  "sn_flag (snd (webgl_get_model k t s)) = sn_flag s"
  "sn_label (snd (webgl_get_model k t s)) = sn_label s"
  "sn_activities (snd (webgl_get_model k t s)) = sn_activities s"
  "sn_health (snd (webgl_get_model k t s)) = sn_health s"
  "sn_healthpercentage (snd (webgl_get_model k t s)) = sn_healthpercentage s"
  "sn_selected (snd (webgl_get_model k t s)) = sn_selected s"
  "sn_highlight (snd (webgl_get_model k t s)) = sn_highlight s"
  "sn_anim (snd (webgl_get_model k t s)) = sn_anim s"
  "sn_city (snd (webgl_get_model k t s)) = sn_city s"
  "sn_city_label (snd (webgl_get_model k t s)) = sn_city_label s"
  "sn_walls (snd (webgl_get_model k t s)) = sn_walls s"
  "sn_disorder (snd (webgl_get_model k t s)) = sn_disorder s"
  "sn_light (snd (webgl_get_model k t s)) = sn_light s"
  "sn_building (snd (webgl_get_model k t s)) = sn_building s"
  "sn_city_model (snd (webgl_get_model k t s)) = sn_city_model s"
  "sn_label_hash (snd (webgl_get_model k t s)) = sn_label_hash s"
  "sn_added (snd (webgl_get_model k t s)) = sn_added s"
  "sn_extra (snd (webgl_get_model k t s)) = sn_extra s"
  "sn_tile_models (snd (webgl_get_model k t s)) = sn_tile_models s"
  "sn_models (snd (webgl_get_model k t s)) = sn_models s"
  "cl_tiles (snd (webgl_get_model k t s)) = cl_tiles s"
  "cl_units (snd (webgl_get_model k t s)) = cl_units s"
  "cl_cities (snd (webgl_get_model k t s)) = cl_cities s"
  "cl_map (snd (webgl_get_model k t s)) = cl_map s"
  "cl_ruleset (snd (webgl_get_model k t s)) = cl_ruleset s"
  "cl_players (snd (webgl_get_model k t s)) = cl_players s"
  "cl_nations (snd (webgl_get_model k t s)) = cl_nations s"
  "sn_next (snd (webgl_get_model k t s)) = sn_next s"
  "sn_scene (snd (webgl_get_model k t s)) = sn_scene s"
  by (simp_all add: webgl_get_model_def emit_def Let_def split: option.split)

lemma shown_scene_add [simp, slot_simps]: "shown (scene_add n s) = shown s"
  by (rule ext, case_tac x) (simp_all add: scene_add_def split: option.split)

lemma shown_scene_remove [simp, slot_simps]: "shown (scene_remove r s) = shown s"
  by (rule ext, case_tac x) (simp_all add: scene_remove_def split: option.split)

lemma shown_make_node [simp, slot_simps]: "shown (snd (make_node k p s)) = shown s"
  by (rule ext, case_tac x) (simp_all add: make_node_def split: option.split)

lemma shown_get_model [simp, slot_simps]: "shown (snd (webgl_get_model k t s)) = shown s"
  by (rule ext, case_tac x) (simp_all add: webgl_get_model_def emit_def Let_def split: option.split)

lemma scene_after [simp]:
  "sn_scene (scene_add n s) = map_option (\<lambda>ns. ns @ [n]) (sn_scene s)"
  "sn_scene (scene_remove None s) = sn_scene s"
  "sn_scene (scene_remove (Some m) s) = map_option (filter (\<lambda>k. nd_id k \<noteq> nd_id m)) (sn_scene s)"
  "has_scene (scene_remove x s) = has_scene s" "has_scene (scene_add n s) = has_scene s"
  by (simp_all add: scene_add_def scene_remove_def has_scene_def split: option.split)

lemma node_kind [simp]: "nd_kind (fst (make_node k p s)) = k" "nd_pos (fst (make_node k p s)) = p"
  "nd_id (fst (make_node k p s)) = sn_next s" "sn_next (snd (make_node k p s)) = Suc (sn_next s)"
  by (simp_all add: make_node_def)

subsection \<open>Tidy operations\<close>

lemma tidy_same: "tidy s \<Longrightarrow> shown s' = shown s \<Longrightarrow> sn_scene s' = sn_scene s \<Longrightarrow> tidy s'"
  by (simp add: tidy_def)

lemma tidy_put:
  "tidy s \<Longrightarrow> shown s' = (shown s)(x := [n]) \<Longrightarrow> shown s x = []
     \<Longrightarrow> sn_scene s' = map_option (\<lambda>ns. ns @ [n]) (sn_scene s) \<Longrightarrow> tidy s'"
  by (auto simp: tidy_def kept_put)

lemma tidy_drop:
  assumes "tidy s" "shown s' = (shown s)(x := [])" "shown s x = opt_list r" "sn_scene s' = sn_scene (scene_remove r s)"
  shows "tidy s'"
proof (cases r)
  case None
  then show ?thesis using assms by (auto simp: tidy_def kept_clear split: option.splits)
next
  case (Some m)
  then show ?thesis using assms kept_drop [of _ "shown s" x m] by (auto simp: tidy_def split: option.splits)
qed

lemma tidy_replace:
  assumes "tidy s" "shown s' = (shown s)(x := [n])" "shown s x = opt_list r"
    and "sn_scene s' = map_option (\<lambda>ns. ns @ [n]) (sn_scene (scene_remove r s))"
  shows "tidy s'"
proof (cases r)
  case None
  then show ?thesis using assms by (intro tidy_put [OF assms(1,2)]) simp_all
next
  case (Some m)
  have "kept (filter (\<lambda>k. nd_id k \<noteq> nd_id m) ns @ [n]) ((shown s)(x := [n]))" if "sn_scene s = Some ns" for ns
    using kept_put [of _ "(shown s)(x := [])" x n] kept_drop [of ns "shown s" x m] assms(1,3) that Some
    by (simp add: tidy_def)
  then show ?thesis using assms Some by (auto simp: tidy_def split: option.splits)
qed

lemma tidy_removed: "tidy s \<Longrightarrow> shown s' = shown s \<Longrightarrow> sn_scene s' = sn_scene (scene_remove r s) \<Longrightarrow> tidy s'"
  by (cases r) (auto simp: tidy_def kept_filter split: option.splits)

lemma tidy_get_model [simp]: "tidy (snd (webgl_get_model k t s)) = tidy s"
  by (auto simp: tidy_def)

lemma tidy_make_node [simp]: "tidy (snd (make_node k p s)) = tidy s"
  by (auto simp: tidy_def)

lemma tidy_add_unit_flag: "tidy s \<Longrightarrow> tidy (snd (add_unit_flag lk t key pos s))"
proof -
  assume s: "tidy s"
  show ?thesis
  proof (cases "st_get (sn_flag s) (t_index t) = None \<and> has_scene s \<and> lk_sprite lk key")
    case True
    then show ?thesis
      by (intro tidy_put [OF s, of _ "SFlag (t_index t)" "fst (make_node key pos s)"])
        (simp_all add: add_unit_flag_def split_beta slot_simps)
  next
    case False
    then show ?thesis unfolding add_unit_flag_def using s by (simp only: if_False snd_conv)
  qed
qed

lemma tidy_indicate: "tidy s \<Longrightarrow> tidy (indicate_focus_unit t u pos s)"
proof -
  assume s: "tidy s"
  define s1 where "s1 = (if sn_selected s = None then s
      else (scene_remove (sn_selected s) s)\<lparr>sn_selected := None, sn_highlight := (- 1, - 1)\<rparr>)"
  have s1: "tidy s1"
  proof (cases "sn_selected s = None")
    case True
    then show ?thesis using s by (simp add: s1_def)
  next
    case False
    then show ?thesis
      by (intro tidy_drop [OF s, of _ SSelected "sn_selected s"]) (simp_all only: s1_def if_False, simp_all add: slot_simps)
  qed
  have e: "sn_selected s1 = None" by (simp add: s1_def)
  have "tidy ((scene_add (fst (make_node k p s1)) (snd (make_node k p s1)))
      \<lparr>sn_selected := Some (fst (make_node k p s1)), sn_highlight := h\<rparr>)" for k p h
    by (rule tidy_put [OF s1, of _ SSelected "fst (make_node k p s1)"]) (simp_all add: slot_simps e)
  then show ?thesis using s s1 by (simp add: indicate_focus_unit_def s1_def [symmetric] split_beta Let_def)
qed

lemma tidy_update_unit_label: "tidy s \<Longrightarrow> tidy (update_unit_label lk t u pos s)"
proof -
  assume s: "tidy s"
  let ?r = "st_get (sn_label s) (t_index t)"
  let ?s1 = "scene_remove ?r s"
  have "tidy ((scene_add (fst (make_node k p ?s1)) (snd (make_node k p ?s1)))
      \<lparr>sn_label := st_put (t_index t) (fst (make_node k p ?s1)) (sn_label ?s1), sn_activities := a\<rparr>)" for k p a
    by (rule tidy_replace [OF s, of _ "SLabel (t_index t)" _ ?r]) (simp_all add: slot_simps)
  moreover have "tidy (?s1\<lparr>sn_activities := a\<rparr>)" for a
    by (rule tidy_removed [OF s, of _ ?r]) (simp_all add: slot_simps)
  ultimately show ?thesis using s by (simp add: update_unit_label_def Let_def split_beta)
qed

lemma tidy_update_unit_health: "tidy s \<Longrightarrow> tidy (update_unit_health lk t u pos s)"
proof -
  assume s: "tidy s"
  let ?r = "st_get (sn_health s) (t_index t)"
  let ?s1 = "scene_remove ?r s"
  have "tidy ((scene_add (fst (make_node k p ?s1)) (snd (make_node k p ?s1)))
      \<lparr>sn_health := st_put (t_index t) (fst (make_node k p ?s1)) (sn_health (snd (make_node k p ?s1))), sn_healthpercentage := a\<rparr>)" for k p a
    by (rule tidy_replace [OF s, of _ "SHealth (t_index t)" _ ?r]) (simp_all add: slot_simps)
  then show ?thesis using s by (simp add: update_unit_health_def Let_def split_beta)
qed

lemma scene_removed: "sn_scene (scene_remove r s) = map_option (filter (\<lambda>k. \<forall>m. r = Some m \<longrightarrow> nd_id k \<noteq> nd_id m)) (sn_scene s)"
  by (cases r; cases "sn_scene s") simp_all

lemma in_opt_list [simp]: "k \<in> set (opt_list x) \<longleftrightarrow> x = Some k"
  by (auto simp: opt_list_def split: option.split)

lemma in_opt_lists [simp]: "k \<in> set (opt_lists x) \<longleftrightarrow> (\<exists>ns. x = Some ns \<and> k \<in> set ns)"
  by (auto simp: opt_lists_def split: option.split)

lemma tidy_filter:
  assumes "tidy s" "sn_scene s' = map_option (filter Q) (sn_scene s)"
    and "\<And>x k. k \<in> set (shown s x) \<Longrightarrow> Q k \<Longrightarrow> k \<in> set (shown s' x)"
  shows "tidy s'"
  using assms by (auto simp: tidy_def kept_def list_all_iff; blast)

lemma tidy_unit_removed:
  "tidy s \<Longrightarrow> tidy ((scene_remove (st_get (sn_flag s) i) (scene_remove (st_get (sn_unit s) i) s))
     \<lparr>sn_unit := st_del i (sn_unit s), sn_flag := st_del i (sn_flag s)\<rparr>)"
  by (erule tidy_filter, simp add: scene_removed option.map_comp comp_def, case_tac x) (auto simp: js.get_del)

lemma tidy_remove_shown_unit: "tidy s \<Longrightarrow> tidy (remove_shown_unit i s)"
  unfolding remove_shown_unit_def
  by (erule tidy_filter, simp add: scene_removed option.map_comp comp_def, case_tac x) (auto simp: js.get_del)

lemma tidy_no_scene: "\<not> has_scene s \<Longrightarrow> tidy s"
  by (simp add: tidy_def has_scene_def)

lemma tidy_remove_shown_city: "tidy s \<Longrightarrow> tidy (remove_shown_city i s)"
proof (cases "has_scene s")
  case False
  then have "\<not> has_scene (remove_shown_city i s)"
    by (simp add: remove_shown_city_def Let_def has_scene_def scene_removed)
  then show ?thesis by (rule tidy_no_scene)
next
  case True
  then have h: "sn_scene s \<noteq> None" by (simp add: has_scene_def)
  show "tidy s \<Longrightarrow> ?thesis"
    using h by (elim tidy_filter, simp add: remove_shown_city_def Let_def has_scene_def scene_removed option.map_comp comp_def,
      case_tac x) (auto simp: js.get_del remove_shown_city_def Let_def has_scene_def scene_removed)
qed

lemma tidy_fields [simp]:
  "tidy (s\<lparr>sn_anim := a\<rparr>) = tidy s" "tidy (s\<lparr>sn_city_model := m\<rparr>) = tidy s" "tidy (s\<lparr>sn_label_hash := h\<rparr>) = tidy s"
  "tidy (s\<lparr>sn_highlight := p\<rparr>) = tidy s" "tidy (s\<lparr>sn_added := d\<rparr>) = tidy s" "tidy (emit e s) = tidy s"
  "tidy (s\<lparr>sn_unloaded := u\<rparr>) = tidy s" "tidy (s\<lparr>sn_loading := l\<rparr>) = tidy s" "tidy (s\<lparr>sn_models := ms\<rparr>) = tidy s"
  by (simp_all add: tidy_def slot_simps emit_def)

lemma tidy_new:
  "tidy s \<Longrightarrow> st_get (sn_unit s) i = None \<Longrightarrow> us = sn_unit s \<Longrightarrow> tidy (scene_add n (s\<lparr>sn_unit := st_put i n us\<rparr>))"
  "tidy s \<Longrightarrow> st_get (sn_city s) i = None \<Longrightarrow> cs = sn_city s \<Longrightarrow> tidy (scene_add n (s\<lparr>sn_city := st_put i n cs\<rparr>))"
  "tidy s \<Longrightarrow> st_get (sn_building s) i = None \<Longrightarrow> bs = sn_building s
     \<Longrightarrow> tidy (scene_add n (s\<lparr>sn_building := st_put i n bs\<rparr>))"
  "tidy s \<Longrightarrow> st_get (sn_city_label s) i = None \<Longrightarrow> ls = sn_city_label s
     \<Longrightarrow> tidy (scene_add n (s\<lparr>sn_city_label := st_put i n ls\<rparr>))"
  "tidy s \<Longrightarrow> st_get (sn_walls s) i = None \<Longrightarrow> ws = sn_walls s \<Longrightarrow> tidy ((scene_add n s)\<lparr>sn_walls := st_put i n ws\<rparr>)"
  "tidy s \<Longrightarrow> st_get (sn_light s) i = None \<Longrightarrow> hs = sn_light s \<Longrightarrow> tidy ((scene_add n s)\<lparr>sn_light := st_put i n hs\<rparr>)"
  "tidy s \<Longrightarrow> st_get (sn_disorder s) i = None \<Longrightarrow> ds = sn_disorder s
     \<Longrightarrow> tidy ((scene_add n s)\<lparr>sn_disorder := st_put i n ds\<rparr>)"
        apply (erule tidy_put [of _ _ "SUnit i" n]; simp add: slot_simps)
       apply (erule tidy_put [of _ _ "SCity i" n]; simp add: slot_simps)
      apply (erule tidy_put [of _ _ "SBuilding i" n]; simp add: slot_simps)
     apply (erule tidy_put [of _ _ "SCityLabel i" n]; simp add: slot_simps)
    apply (erule tidy_put [of _ _ "SWalls i" n]; simp add: slot_simps)
   apply (erule tidy_put [of _ _ "SLight i" n]; simp add: slot_simps)
  apply (erule tidy_put [of _ _ "SDisorder i" n]; simp add: slot_simps)
  done

lemma tidy_show_new_unit:
  assumes "tidy s" "st_get (sn_unit s) (t_index t) = None" "show_new_unit lk t u h s = Some s'"
  shows "tidy s'"
  using assms
  by (auto simp: show_new_unit_def Let_def split_beta bind_eq_Some_conv split: if_splits
    intro!: tidy_indicate tidy_add_unit_flag tidy_new)

lemma label_frame [simp]:
  "sn_unit (update_unit_label lk t u p s) = sn_unit s" "sn_flag (update_unit_label lk t u p s) = sn_flag s"
  "sn_unit (update_unit_health lk t u p s) = sn_unit s" "sn_flag (update_unit_health lk t u p s) = sn_flag s"
  "sn_unit (indicate_focus_unit t u p s) = sn_unit s" "sn_flag (indicate_focus_unit t u p s) = sn_flag s"
  by (simp_all add: update_unit_label_def update_unit_health_def indicate_focus_unit_def Let_def split_beta)

lemma tidy_show_unit_again:
  assumes "tidy s" "show_unit_again lk t u h s = Some s'"
  shows "tidy s'"
  using assms
  by (auto simp: show_unit_again_def Let_def split_beta bind_eq_Some_conv js.get_del split: if_splits
    intro!: tidy_indicate tidy_add_unit_flag tidy_new tidy_update_unit_label tidy_update_unit_health tidy_unit_removed)

lemma tidy_update_unit_position:
  assumes "tidy s" "update_unit_position lk t s = Some s'"
  shows "tidy s'"
  using assms by (auto simp: update_unit_position_def Let_def bind_eq_Some_conv split: option.splits if_splits
      intro: tidy_show_new_unit tidy_show_unit_again tidy_remove_shown_unit)

lemma tidy_clear_unit_focus: "tidy s \<Longrightarrow> tidy (webgl_clear_unit_focus s)"
  unfolding webgl_clear_unit_focus_def
  by (auto simp: slot_simps intro: tidy_drop [of s _ SSelected "sn_selected s"])

lemma place_wonder_free: "place_wonder s name c orig pt ds = Some (Some (n, nt)) \<Longrightarrow> \<not> built_on s (Some n)"
proof (induction ds arbitrary: pt name)
  case (Cons d ds)
  show ?case
  proof (cases d)
    case (Pair d1 d2)
    show ?thesis using Cons.prems unfolding Pair place_wonder.simps Let_def bind_eq_Some_conv
      by (elim exE conjE) (auto dest: Cons.IH split: option.splits if_split_asm)
  qed
qed simp

lemma place_building_free: "place_building s hb c orig pt ds = Some (Some n) \<Longrightarrow> \<not> built_on s (Some n)"
proof (induction ds arbitrary: pt)
  case (Cons d ds)
  show ?case
  proof (cases d)
    case (Pair d1 d2)
    show ?thesis using Cons.prems unfolding Pair place_building.simps Let_def bind_eq_Some_conv
      by (elim exE conjE) (auto dest: Cons.IH split: option.splits if_split_asm)
  qed
qed simp

text \<open>What the buildings of a city leave alone.\<close>

definition same_cities :: "'a scene_client_scheme \<Rightarrow> 'a scene_client_scheme \<Rightarrow> bool" where
  "same_cities s s' = (sn_city s' = sn_city s \<and> sn_city_label s' = sn_city_label s \<and> (tidy s \<longrightarrow> tidy s'))"

lemma same_cities_refl: "same_cities s s" by (simp add: same_cities_def)

lemma same_cities_trans: "same_cities s s1 \<Longrightarrow> same_cities s1 s2 \<Longrightarrow> same_cities s s2"
  by (simp add: same_cities_def)

lemma same_cities_get_model [simp]: "same_cities s (snd (webgl_get_model k t s))"
  by (simp add: same_cities_def)

lemma add_building_node_same:
  "add_building_node c name spot pos s = Some s' \<Longrightarrow> \<not> built_on s (Some spot) \<Longrightarrow> same_cities s s'"
  by (auto simp: add_building_node_def Let_def split_beta same_cities_def built_on_def split: if_splits intro!: tidy_new)

lemma add_wonder_same: "add_wonder lk t c name s = Some s' \<Longrightarrow> same_cities s s'"
  unfolding add_wonder_def
  by (auto simp: Let_def split_beta bind_eq_Some_conv same_cities_refl split: if_splits option.splits
    dest!: place_wonder_free add_building_node_same intro: same_cities_trans [OF same_cities_get_model])

lemma add_city_building_same: "add_city_building lk t c name s = Some s' \<Longrightarrow> same_cities s s'"
  unfolding add_city_building_def
  by (auto simp: Let_def split_beta bind_eq_Some_conv same_cities_refl split: if_splits option.splits
    dest!: place_building_free add_building_node_same intro: same_cities_trans [OF same_cities_get_model])

lemma each_same:
  "(\<And>n s s'. f n s = Some s' \<Longrightarrow> same_cities s s') \<Longrightarrow> each f ns s = Some s' \<Longrightarrow> same_cities s s'"
proof (induction ns arbitrary: s)
  case (Cons n ns)
  then obtain s1 where s1: "f n s = Some s1" "each f ns s1 = Some s'" by (auto simp: bind_eq_Some_conv)
  show ?case using Cons.prems(1) [OF s1(1)] Cons.IH [OF Cons.prems(1) s1(2)] by (rule same_cities_trans)
qed (simp add: same_cities_refl)

lemma same_cities_emit: "same_cities s (emit e s)"
  by (simp add: same_cities_def) (simp add: emit_def)

lemma add_city_buildings_same:
  assumes "add_city_buildings lk t c s = Some s'"
  shows "same_cities s s'"
proof -
  obtain s1 s2 where s: "each (add_wonder lk t c) wonder_models s = Some s1"
      "each (add_city_building lk t c) building_models s1 = Some s2"
      "s' = emit (Ui ''add_spaceship'' [JNum (t_index t), JNum (c_id c)]) s2"
    using assms by (auto simp: add_city_buildings_def bind_eq_Some_conv)
  have "same_cities s s1" using s(1) by (rule each_same [rotated]) (rule add_wonder_same)
  moreover have "same_cities s1 s2" using s(2) by (rule each_same [rotated]) (rule add_city_building_same)
  ultimately have "same_cities s s2" by (rule same_cities_trans)
  then show ?thesis unfolding s(3) by (rule same_cities_trans [OF _ same_cities_emit])
qed

lemma add_city_walls_same: "same_cities s (add_city_walls lk t c pos s)"
  unfolding add_city_walls_def by (auto simp: same_cities_def Let_def split_beta intro!: tidy_new)

lemma add_city_light_same: "same_cities s (add_city_light t pos s)"
  unfolding add_city_light_def by (auto simp: same_cities_def Let_def split_beta intro!: tidy_new)

text \<open>A city label belongs to a city that is shown.\<close>

definition labelled :: "'a scene_client_scheme \<Rightarrow> bool" where
  "labelled s = (\<forall>i. st_get (sn_city s) i = None \<longrightarrow> st_get (sn_city_label s) i = None)"

lemma same_cities_labelled: "same_cities s s' \<Longrightarrow> labelled s \<Longrightarrow> labelled s'"
  by (simp add: same_cities_def labelled_def)

lemma same_cities_tidy: "same_cities s s' \<Longrightarrow> tidy s \<Longrightarrow> tidy s'"
  by (simp add: same_cities_def)

lemma show_new_city_ok:
  assumes "tidy s" "labelled s" "st_get (sn_city s) (t_index t) = None" "show_new_city lk t c h s = Some s'"
  shows "tidy s' \<and> labelled s'"
proof -
  let ?i = "t_index t"
  obtain name where name: "city_to_3d_model_name s c = Some name"
    using assms(4) by (auto simp: show_new_city_def Let_def bind_eq_Some_conv)
  define s0 where "s0 = s\<lparr>sn_city_model := st_put (c_id c) name (sn_city_model s)\<rparr>"
  define s1 where "s1 = snd (webgl_get_model name t s0)"
  have s1: "tidy s1" "labelled s1" "sn_city s1 = sn_city s" "sn_city_label s1 = sn_city_label s"
    using assms(1,2) by (simp_all add: s1_def s0_def labelled_def)
  show ?thesis
  proof (cases "fst (webgl_get_model name t s0)")
    case False
    then have "s' = s1" using assms(4) name by (simp add: show_new_city_def Let_def split_beta s0_def s1_def)
    then show ?thesis using s1 by simp
  next
    case True
    define pos where "pos = tile_coords s t"
    define n where "n = make_node name (beside pos (- 12) (h - style_height c - 2) (- 11)) s1"
    define s3 where "s3 = scene_add (fst n) ((snd n)\<lparr>sn_city := st_put ?i (fst n) (sn_city (snd n))\<rparr>)"
    have s3: "tidy s3" "sn_city s3 = st_put ?i (fst n) (sn_city s)" "sn_city_label s3 = sn_city_label s"
      using s1 assms(3) by (auto simp: s3_def n_def intro!: tidy_new)
    define s4 where "s4 = add_city_walls lk t c (beside pos (- 11) (h - style_height c - 6) (- 11)) s3"
    have s4: "same_cities s3 s4" unfolding s4_def by (rule add_city_walls_same)
    define l where "l = make_node ''city label'' (beside pos 10 (h - style_height c + 27) (- 25)) s4"
    define s6 where "s6 = scene_add (fst l) ((snd l)\<lparr>sn_city_label := st_put ?i (fst l) (sn_city_label (snd l)),
        sn_label_hash := st_put (c_id c) (label_hash lk c (length (t_units t))) (sn_label_hash (snd l))\<rparr>)"
    obtain s7 where s7: "add_city_buildings lk t c s6 = Some s7"
        and s': "s' = add_city_light t (beside pos (- 10) (h - style_height c + 3) (- 10)) s7"
      using assms(4) True
      unfolding show_new_city_def name bind.bind_lunit Let_def split_beta pos_def [symmetric] s0_def [symmetric]
        s1_def [symmetric] n_def [symmetric] s3_def [symmetric] s4_def [symmetric] l_def [symmetric] s6_def [symmetric]
      by (auto simp: bind_eq_Some_conv)
    have "st_get (sn_city_label s4) ?i = None" using s4 s3 assms(2,3) by (simp add: same_cities_def labelled_def)
    then have "tidy s6" using s4 s3(1)
      by (intro tidy_put [of s4 s6 "SCityLabel ?i" "fst l"])
        (simp_all add: s6_def l_def slot_simps same_cities_def)
    moreover have "labelled s6"
      using s4 s3 assms(2) by (auto simp: same_cities_def labelled_def s6_def l_def js.get_put)
    ultimately show ?thesis unfolding s'
      using add_city_buildings_same [OF s7] add_city_light_same [of s7 t]
      by (meson same_cities_labelled same_cities_tidy)
  qed
qed

lemma change_city_model_ok:
  assumes "tidy s" "labelled s"
  shows "tidy (snd (change_city_model lk t c name h s))" "labelled (snd (change_city_model lk t c name h s))"
proof -
  let ?i = "t_index t"
  define s1 where "s1 = snd (webgl_get_model name t s)"
  define n where "n = make_node name (beside (tile_coords s t) (- 12) (h - 2) (- 10)) (scene_remove (st_get (sn_city s1) ?i) s1)"
  define s3 where "s3 = scene_add (fst n) ((snd n)\<lparr>sn_city := st_put ?i (fst n) (sn_city (snd n)),
      sn_city_model := st_put (c_id c) name (sn_city_model (snd n))\<rparr>)"
  have s1: "tidy s1" using assms by (simp add: s1_def)
  have s3: "tidy s3" "labelled s3"
  proof -
    show "tidy s3" by (rule tidy_replace [OF s1, of _ "SCity ?i" "fst n" "st_get (sn_city s1) ?i"])
      (simp_all add: s3_def n_def slot_simps)
    show "labelled s3" using assms(2) by (auto simp: s3_def n_def s1_def labelled_def js.get_put)
  qed
  define s4 where "s4 = (scene_remove (st_get (sn_walls s3) ?i) s3)\<lparr>sn_walls := st_del ?i (sn_walls s3)\<rparr>"
  have s4: "tidy s4" by (rule tidy_drop [OF s3(1), of _ "SWalls ?i" "st_get (sn_walls s3) ?i"]) (simp_all add: s4_def slot_simps)
  have s4': "labelled s4" using s3(2) by (simp add: s4_def labelled_def)
  have "snd (change_city_model lk t c name h s) \<in> {s1, s3, s4}"
    by (simp add: change_city_model_def Let_def split_beta s1_def [symmetric] n_def [symmetric]
      s3_def [symmetric] s4_def [symmetric])
  moreover have "labelled s1" using assms(2) by (simp add: s1_def labelled_def)
  ultimately show "tidy (snd (change_city_model lk t c name h s))" "labelled (snd (change_city_model lk t c name h s))"
    using s1 s3 s4 s4' by auto
qed

lemma labelled_fields [simp]:
  "labelled (s\<lparr>sn_label_hash := h\<rparr>) = labelled s" "labelled (emit e s) = labelled s"
  by (simp_all add: labelled_def emit_def)

lemma show_city_again_ok:
  assumes "tidy s" "labelled s" "show_city_again lk t c h s = Some r"
    and "r = Inl s' \<or> r = Inr (h', s')"
  shows "tidy s' \<and> labelled s'"
proof -
  obtain name where name: "city_to_3d_model_name s c = Some name"
    using assms(3) by (auto simp: show_city_again_def Let_def bind_eq_Some_conv)
  define same where "same = (st_get (sn_city_model s) (c_id c) = Some name)"
  define height where "height = (if same then h else h - style_height c)"
  define r1 where "r1 = (if same then (True, s) else change_city_model lk t c name height s)"
  have r1: "tidy (snd r1)" "labelled (snd r1)"
    using assms(1,2) change_city_model_ok by (auto simp: r1_def)
  define s2 where "s2 = add_city_walls lk t c (beside (tile_coords s t) (- 11) (height - 6) (- 11)) (snd r1)"
  have s2: "same_cities (snd r1) s2" unfolding s2_def by (rule add_city_walls_same)
  have built: "tidy x \<and> labelled x"
    if "add_city_buildings lk t c s2 = Some s3" "x = add_city_light t p s3" for s3 x p
    unfolding that(2) using r1 s2 add_city_buildings_same [OF that(1)] add_city_light_same [of s3 t p]
    by (meson same_cities_labelled same_cities_tidy)
  show ?thesis
    using assms(3,4) r1 built
    unfolding show_city_again_def name bind.bind_lunit Let_def
      same_def [symmetric] height_def [symmetric] r1_def [symmetric]
    by (auto simp: Let_def split_beta bind_eq_Some_conv s2_def [symmetric] split: if_splits)
qed

lemma disorder_ok: "tidy s \<Longrightarrow> tidy (update_city_disorder t c h s)" "labelled (update_city_disorder t c h s) = labelled s"
proof -
  assume s: "tidy s"
  have "tidy ((scene_remove (st_get (sn_disorder s) (t_index t)) s)\<lparr>sn_disorder := st_del (t_index t) (sn_disorder s)\<rparr>)"
    by (rule tidy_drop [OF s, of _ "SDisorder (t_index t)" "st_get (sn_disorder s) (t_index t)"]) (simp_all add: slot_simps)
  then show "tidy (update_city_disorder t c h s)"
    using s by (auto simp: update_city_disorder_def Let_def split_beta intro!: tidy_new)
next
  show "labelled (update_city_disorder t c h s) = labelled s"
    by (simp add: update_city_disorder_def Let_def split_beta labelled_def)
qed

lemma labelled_remove_shown_city: "labelled s \<Longrightarrow> labelled (remove_shown_city i s)"
  by (simp add: remove_shown_city_def Let_def labelled_def js.get_del)

lemma update_city_position_ok:
  assumes "tidy s" "labelled s" "update_city_position lk pt s = Some s'"
  shows "tidy s' \<and> labelled s'"
proof -
  obtain t off where t: "pt = Some t" "get_city_height_offset s (tile_city s (Some t)) = Some off"
    using assms(3) by (auto simp: update_city_position_def Let_def bind_eq_Some_conv)
  define h where "h = 5 + t_height t * 100 + off"
  show ?thesis
  proof (cases "tile_city s (Some t)")
    case None
    then have "s' = s \<or> s' = remove_shown_city (t_index t) s"
      using assms(3) t by (auto simp: update_city_position_def Let_def split: if_splits)
    then show ?thesis using assms(1,2) tidy_remove_shown_city labelled_remove_shown_city by blast
  next
    case (Some c)
    show ?thesis
    proof (cases "st_get (sn_city s) (t_index t) = None")
      case True
      then have "show_new_city lk t c h s = Some s'"
        using assms(3) t Some by (simp add: update_city_position_def Let_def h_def)
      then show ?thesis using show_new_city_ok assms(1,2) True by blast
    next
      case False
      then obtain r where r: "show_city_again lk t c h s = Some r"
          "s' = (case r of Inl s1 \<Rightarrow> s1 | Inr (h, s1) \<Rightarrow> update_city_disorder t c h s1)"
        using assms(3) t Some by (auto simp: update_city_position_def Let_def h_def bind_eq_Some_conv)
      then show ?thesis using show_city_again_ok [OF assms(1,2) r(1)]
        by (auto simp: disorder_ok split: sum.split_asm prod.split_asm)
    qed
  qed
qed

subsection \<open>Cities and labels under the other operations\<close>

definition cities_kept :: "'a scene_client_scheme \<Rightarrow> 'a scene_client_scheme \<Rightarrow> bool" where
  "cities_kept s s' = (sn_city s' = sn_city s \<and> sn_city_label s' = sn_city_label s)"

lemma cities_kept_labelled: "cities_kept s s' \<Longrightarrow> labelled s \<Longrightarrow> labelled s'"
  by (simp add: cities_kept_def labelled_def)

lemma unit_part_cities [simp]:
  "sn_city (update_unit_label lk t u p s) = sn_city s" "sn_city_label (update_unit_label lk t u p s) = sn_city_label s"
  "sn_city (update_unit_health lk t u p s) = sn_city s" "sn_city_label (update_unit_health lk t u p s) = sn_city_label s"
  "sn_city (indicate_focus_unit t u p s) = sn_city s" "sn_city_label (indicate_focus_unit t u p s) = sn_city_label s"
  "sn_city (snd (add_unit_flag lk t key p s)) = sn_city s"
  "sn_city_label (snd (add_unit_flag lk t key p s)) = sn_city_label s"
  by (simp_all add: update_unit_label_def update_unit_health_def indicate_focus_unit_def add_unit_flag_def Let_def split_beta)

lemma update_unit_position_cities:
  assumes "update_unit_position lk t s = Some s'"
  shows "cities_kept s s'"
  using assms
  by (auto simp: update_unit_position_def show_new_unit_def show_unit_again_def remove_shown_unit_def cities_kept_def
    Let_def split_beta bind_eq_Some_conv split: option.splits if_splits)

lemma clear_unit_focus_cities: "cities_kept s (webgl_clear_unit_focus s)"
  by (simp add: webgl_clear_unit_focus_def cities_kept_def)

subsection \<open>Forests and extras\<close>

lemma tidy_grow:
  assumes "tidy s" "sn_scene s' = map_option (\<lambda>ns. ns @ [n]) (sn_scene s)" "n \<in> set (shown s' x)"
    and "\<And>y k. k \<in> set (shown s y) \<Longrightarrow> k \<in> set (shown s' y)"
  shows "tidy s'"
  using assms by (auto simp: tidy_def kept_def list_all_iff; blast)

lemma sn_scene_remove_nodes:
  "sn_scene (remove_nodes ns s) = map_option (filter (\<lambda>k. nd_id k \<notin> nd_id ` set ns)) (sn_scene s)"
proof (induction ns arbitrary: s)
  case (Cons n ns)
  then show ?case by (cases "sn_scene s") (simp_all add: remove_nodes_def conj_commute)
next
  case Nil
  show ?case by (cases "sn_scene s") (simp_all add: remove_nodes_def)
qed

lemma remove_nodes_frame [simp]:
  "shown (remove_nodes ns s) = shown s" "sn_tile_models (remove_nodes ns s) = sn_tile_models s"
  "sn_city (remove_nodes ns s) = sn_city s" "sn_city_label (remove_nodes ns s) = sn_city_label s"
  by (induction ns arbitrary: s) (simp_all add: remove_nodes_def)

lemma tidy_fell_trees: "tidy s \<Longrightarrow> tidy (fell_trees i s)"
proof (cases "st_get (sn_tile_models s) i")
  case (Some ns)
  show "tidy s \<Longrightarrow> ?thesis"
    by (erule tidy_filter [where Q = "\<lambda>k. nd_id k \<notin> nd_id ` set ns"])
      (simp_all add: fell_trees_def Some sn_scene_remove_nodes, auto simp: slot_simps Some split: if_splits)
qed (simp add: fell_trees_def)

lemma tree_loop_ok:
  "tree_loop lk name sp h num t k s = Some s' \<Longrightarrow> tidy s \<Longrightarrow> st_get (sn_tile_models s) (t_index t) \<noteq> None
     \<Longrightarrow> tidy s' \<and> cities_kept s s'"
proof (induction k arbitrary: s)
  case (Suc k)
  let ?i = "t_index t"
  define s1 where "s1 = snd (webgl_get_model name t s)"
  define n where "n = make_node name (scattered lk name (num - Suc k) sp (tile_coords s1 t) h) s1"
  define s2 where "s2 = scene_add (fst n) ((snd n)\<lparr>sn_tile_models := st_upd ?i (\<lambda>ns. ns @ [fst n]) (sn_tile_models (snd n))\<rparr>)"
  have r: "tree_loop lk name sp h num t k s2 = Some s'"
    using Suc.prems(1) unfolding tree_loop.simps Let_def split_beta s1_def [symmetric] n_def [symmetric] s2_def [symmetric]
    by (simp split: if_splits)
  have "sn_tile_models s2 = st_upd ?i (\<lambda>ns. ns @ [fst n]) (sn_tile_models s)" by (simp add: s2_def n_def s1_def)
  then have m: "st_get (sn_tile_models s2) j = (if j = ?i then map_option (\<lambda>ns. ns @ [fst n]) (st_get (sn_tile_models s) j)
      else st_get (sn_tile_models s) j)" for j
    using Suc.prems(3) by (auto simp: st_get_upd)
  have "tidy s2"
  proof (rule tidy_grow [OF Suc.prems(2), of s2 "fst n" "STrees ?i"])
    show "fst n \<in> set (shown s2 (STrees ?i))" using Suc.prems(3) by (auto simp: m)
    show "k \<in> set (shown s y) \<Longrightarrow> k \<in> set (shown s2 y)" for y k
      by (cases y) (auto simp: m, auto simp: s2_def n_def s1_def)
  qed (simp add: s2_def n_def s1_def)
  moreover have "cities_kept s s2" by (simp add: cities_kept_def s2_def n_def s1_def)
  ultimately show ?case using Suc.IH [OF r] Suc.prems(3) by (auto simp: m cities_kept_def)
qed (simp add: cities_kept_def)

lemma plant_trees_ok:
  assumes "plant_trees lk name sp h num t s = Some s'" "tidy s" "st_get (sn_tile_models s) (t_index t) = None"
  shows "tidy s' \<and> cities_kept s s'"
proof -
  let ?s = "s\<lparr>sn_tile_models := st_put (t_index t) [] (sn_tile_models s)\<rparr>"
  have "shown ?s = shown s" using assms(3) by (simp add: slot_simps fun_upd_idem)
  then have "tidy ?s" using assms(2) by (simp add: tidy_def)
  then show ?thesis
    using assms(1) tree_loop_ok [of lk name sp h num t num ?s s'] by (simp add: plant_trees_def js.get_put cities_kept_def)
qed

lemma fell_trees_cities: "cities_kept s (fell_trees i s)"
  by (simp add: fell_trees_def cities_kept_def split: option.split)

lemma cities_kept_refl: "cities_kept s s" by (simp add: cities_kept_def)

lemma update_trees_ok:
  "update_tile_forest lk t s = Some s' \<Longrightarrow> tidy s \<Longrightarrow> tidy s' \<and> cities_kept s s'"
  "update_tile_jungle lk t s = Some s' \<Longrightarrow> tidy s \<Longrightarrow> tidy s' \<and> cities_kept s s'"
  "update_tile_cactus lk t s = Some s' \<Longrightarrow> tidy s \<Longrightarrow> tidy s' \<and> cities_kept s s'"
  by (auto simp: update_tile_forest_def update_tile_jungle_def update_tile_cactus_def bind_eq_Some_conv
    cities_kept_refl fell_trees_cities split: if_split_asm dest!: plant_trees_ok intro: tidy_fell_trees)

lemma set_extra_frame [simp]:
  "sn_scene (set_extra e i ns s) = sn_scene s" "sn_city (set_extra e i ns s) = sn_city s"
  "sn_city_label (set_extra e i ns s) = sn_city_label s" "sn_unit (set_extra e i ns s) = sn_unit s"
  "sn_unloaded (set_extra e i ns s) = sn_unloaded s" "cl_tiles (set_extra e i ns s) = cl_tiles s"
  by (simp_all add: set_extra_def)

lemma one_extra_ok:
  assumes "tidy s" "snd (extra_models (shown_extra_name lk t name)) = 1"
  shows "tidy (update_tile_extra_update_model lk e name t s)"
    "cities_kept s (update_tile_extra_update_model lk e name t s)"
proof -
  let ?i = "t_index t"
  let ?name = "model_of_extra lk (shown_extra_name lk t name)"
  obtain dh where dh: "extra_models (shown_extra_name lk t name) = (dh, 1)"
    using assms(2) by (metis prod.collapse)
  define s1 where "s1 = snd (webgl_get_model (without_blanks ?name) t s)"
  define n where "n = make_node ?name (beside (tile_coords s1 t) (- 10) (5 + t_height t * 100 + dh + 1) (- 10)) s1"
  define s2 where "s2 = scene_add (fst n) (set_extra e ?i (Some [fst n]) (snd n))"
  define s3 where "s3 = set_extra e ?i None (remove_nodes (the (sn_extra s e ?i)) s)"
  have s1: "tidy s1" using assms(1) by (simp add: s1_def)
  have s2: "tidy s2" if "sn_extra s e ?i = None"
    by (rule tidy_put [OF s1, of _ "SExtra e ?i" "fst n"]) (simp_all add: s2_def n_def slot_simps that s1_def)
  have s3: "tidy s3" if "sn_extra s e ?i = Some ns" for ns
    by (rule tidy_filter [OF assms(1), where Q = "\<lambda>k. nd_id k \<notin> nd_id ` set ns"])
      (simp add: s3_def sn_scene_remove_nodes that,
       auto simp: s3_def slot_simps that split: if_splits)
  have r: "update_tile_extra_update_model lk e name t s \<in> {s, s1} \<union> (if sn_extra s e ?i = None then {s2} else {s3})"
    by (cases "sn_extra s e ?i")
      (simp_all add: update_tile_extra_update_model_def dh Let_def split_beta
        s1_def n_def s2_def s3_def)
  then show "tidy (update_tile_extra_update_model lk e name t s)"
    using assms(1) s1 s2 s3 by (auto split: if_splits)
  show "cities_kept s (update_tile_extra_update_model lk e name t s)"
    using r by (auto simp: cities_kept_def s1_def s2_def s3_def n_def split: if_splits)
qed

subsection \<open>Every course of events\<close>

text \<open>
  The calls of the view from the packet handlers, each with the values the view reads at the time;
  between them the rest of the client changes.
\<close>

datatype scene_event = SeClient focus_client | SeUnit "tile option" | SeCity "tile option" | SeFocusOff
  | SeForest tile | SeJungle tile | SeCactus tile | SeExtra int string tile

fun scene_step :: "look \<times> scene_event \<Rightarrow> 'a scene_client_scheme \<Rightarrow> 'a scene_client_scheme option" where
  "scene_step (lk, SeClient w) s = Some (focus_client.extend w (focus_client.more s))"
| "scene_step (lk, SeUnit t) s = update_unit_position lk t s"
| "scene_step (lk, SeCity t) s = update_city_position lk t s"
| "scene_step (lk, SeFocusOff) s = Some (webgl_clear_unit_focus s)"
| "scene_step (lk, SeForest t) s = update_tile_forest lk t s"
| "scene_step (lk, SeJungle t) s = update_tile_jungle lk t s"
| "scene_step (lk, SeCactus t) s = update_tile_cactus lk t s"
| "scene_step (lk, SeExtra e name t) s = Some (update_tile_extra_update_model lk e name t s)"

fun one_model :: "look \<times> scene_event \<Rightarrow> bool" where
  "one_model (lk, SeExtra e name t) = (snd (extra_models (shown_extra_name lk t name)) = 1)"
| "one_model _ = True"

lemma extend_view [simp]:
  "shown (focus_client.extend w (focus_client.more s)) = shown s"
  "sn_scene (focus_client.extend w (focus_client.more s)) = sn_scene s"
  "sn_city (focus_client.extend w (focus_client.more s)) = sn_city s"
  "sn_city_label (focus_client.extend w (focus_client.more s)) = sn_city_label s"
  for s :: "'a scene_client_scheme"
proof -
  show "shown (focus_client.extend w (focus_client.more s)) = shown s"
    by (rule ext, case_tac x; cases s; simp add: focus_client.defs)
qed (cases s; simp add: focus_client.defs)+

lemma scene_step_ok:
  assumes "scene_step le s = Some s'" "one_model le" "tidy s" "labelled s"
  shows "tidy s' \<and> labelled s'"
proof (cases le)
  case (Pair lk ev)
  show ?thesis
  proof (cases ev)
    case (SeClient w)
    then have "s' = focus_client.extend w (focus_client.more s)" using assms(1) Pair by simp
    then show ?thesis using assms(3,4) by (simp add: tidy_def labelled_def)
  next
    case (SeCity t)
    then show ?thesis using assms Pair update_city_position_ok [of s lk t s'] by simp
  next
    case (SeUnit t)
    then show ?thesis
      using assms Pair tidy_update_unit_position [of s lk t s'] update_unit_position_cities [of lk t s s']
      by (auto intro: cities_kept_labelled)
  qed (use assms Pair in \<open>auto intro: tidy_clear_unit_focus one_extra_ok
      cities_kept_labelled [OF clear_unit_focus_cities] cities_kept_labelled [OF one_extra_ok(2)]
      dest!: update_trees_ok dest: cities_kept_labelled\<close>)
qed

lemma scene_run_ok:
  assumes "each scene_step evs s = Some s'" "list_all one_model evs" "tidy s" "labelled s"
  shows "tidy s'"
  using assms
proof (induction evs arbitrary: s)
  case (Cons le evs)
  then obtain s1 where "scene_step le s = Some s1" "each scene_step evs s1 = Some s'"
    by (auto simp: bind_eq_Some_conv)
  then show ?case using Cons scene_step_ok [of le s s1] by auto
qed simp


text \<open>A view with an empty scene and the models named, for the concrete instances.\<close>

definition look0 :: look where
  "look0 = \<lparr>lk_hp = (\<lambda>_. 10), lk_veteran = (\<lambda>_. 0), lk_walls = (\<lambda>_. False), lk_graphic_str = (\<lambda>_. ''x''),
     lk_nation_id = (\<lambda>_. ''0''), lk_sprite = (\<lambda>_. True),
     lk_improvements = \<lparr>it_improvements = [], it_name_index = []\<rparr>,
     lk_EXTRA_MINE = 0, lk_EXTRA_RUINS = 2, lk_EXTRA_FORTRESS = 3, lk_EXTRA_OIL_WELL = 4, lk_EXTRA_FALLOUT = 5,
     lk_EXTRA_POLLUTION = 6, lk_EXTRA_BUOY = 7, lk_fish = 1, lk_tree = 0, lk_palm = 0, lk_cactus = 0,
     lk_offset = (\<lambda>_ _. (0, 0)), lk_dirs = (\<lambda>_. [])\<rparr>"

definition scene0 :: "string list \<Rightarrow> scene_client" where
  "scene0 models = focus0 \<lparr>sn_scene = Some [], sn_next = 0, sn_models = models, sn_unloaded = [], sn_loading = [],
     sn_unit = [], sn_flag = [], sn_label = [], sn_activities = [], sn_health = [], sn_healthpercentage = [],
     sn_selected = None, sn_highlight = (- 1, - 1), sn_anim = [], sn_city = [], sn_city_label = [], sn_walls = [],
     sn_disorder = [], sn_light = [], sn_building = [], sn_city_model = [], sn_label_hash = [], sn_added = [],
     sn_extra = (\<lambda>_ _. None), sn_tile_models = []\<rparr>"

lemma scene0_fields [simp]:
  "sn_scene (scene0 ms) = Some []" "sn_models (scene0 ms) = ms" "sn_extra (scene0 ms) = (\<lambda>_ _. None)"
  "sn_city_label (scene0 ms) = []" "sn_tile_models (scene0 ms) = []" "sn_next (scene0 ms) = 0" "sn_unloaded (scene0 ms) = []" "sn_loading (scene0 ms) = []"
  "sn_unit (scene0 ms) = []" "cl_tiles (scene0 ms) = []" "cl_units (scene0 ms) = []" "sn_city (scene0 ms) = []"
  by (simp_all add: scene0_def focus0_def client0_def)

definition extras_tile :: "int \<Rightarrow> 32 word list \<Rightarrow> tile" where
  "extras_tile i bytes = tile0\<lparr>t_index := i, t_x := Some i, t_y := Some 0, t_extras := Some (BitVector bytes)\<rparr>"

lemma extras_tile_fields [simp]:
  "t_index (extras_tile i bytes) = i" "t_extras (extras_tile i bytes) = Some (BitVector bytes)"
  by (simp_all add: extras_tile_def)


end
