(* ===== verification/Scene_Loading.thy ===== *)
theory Scene_Loading
  imports Scene_Facts
begin

text \<open>
  Redrawing the tiles that waited for a model.  A redraw of one tile changes what is shown on that tile
  and what it waits for, and nothing of the other tiles.
\<close>

subsection \<open>One tile at a time\<close>

definition view :: "'a scene_client_scheme \<Rightarrow> int \<Rightarrow> string option \<times> node option \<times> node option \<times> (int \<Rightarrow> node list option)" where
  "view s i = (st_get (sn_unloaded s) i, st_get (sn_unit s) i, st_get (sn_city s) i, \<lambda>e. sn_extra s e i)"

definition elsewhere :: "int \<Rightarrow> 'a scene_client_scheme \<Rightarrow> 'a scene_client_scheme \<Rightarrow> bool" where
  "elsewhere j s s' = (cl_tiles s' = cl_tiles s \<and> (\<forall>i. i \<noteq> j \<longrightarrow> view s' i = view s i))"

lemma elsewhere_refl [simp]: "elsewhere j s s" by (simp add: elsewhere_def)

lemma elsewhere_trans: "elsewhere j s s1 \<Longrightarrow> elsewhere j s1 s2 \<Longrightarrow> elsewhere j s s2"
  by (simp add: elsewhere_def)

lemma unit_part_view [simp]:
  "cl_tiles (update_unit_label lk t u p s) = cl_tiles s" "view (update_unit_label lk t u p s) = view s"
  "cl_tiles (update_unit_health lk t u p s) = cl_tiles s" "view (update_unit_health lk t u p s) = view s"
  "cl_tiles (indicate_focus_unit t u p s) = cl_tiles s" "view (indicate_focus_unit t u p s) = view s"
  "cl_tiles (snd (add_unit_flag lk t key p s)) = cl_tiles s" "view (snd (add_unit_flag lk t key p s)) = view s"
  "cl_tiles (scene_add n s) = cl_tiles s" "view (scene_add n s) = view s"
  "cl_tiles (scene_remove r s) = cl_tiles s" "view (scene_remove r s) = view s"
  "view (snd (make_node k p s)) = view s"
  by (simp_all add: update_unit_label_def update_unit_health_def indicate_focus_unit_def add_unit_flag_def
    Let_def split_beta view_def fun_eq_iff)

lemma view_fields [simp]:
  "view (s\<lparr>sn_anim := a\<rparr>) = view s" "view (s\<lparr>sn_flag := f\<rparr>) = view s" "view (s\<lparr>sn_city_model := m\<rparr>) = view s"
  "view (s\<lparr>sn_city_label := l\<rparr>) = view s" "view (s\<lparr>sn_label_hash := h\<rparr>) = view s" "view (s\<lparr>sn_added := d\<rparr>) = view s"
  "view (s\<lparr>sn_building := b\<rparr>) = view s" "view (s\<lparr>sn_walls := w\<rparr>) = view s" "view (s\<lparr>sn_light := g\<rparr>) = view s"
  "view (s\<lparr>sn_disorder := o'\<rparr>) = view s" "view (s\<lparr>sn_tile_models := ts\<rparr>) = view s" "view (emit e s) = view s"
  "view (s\<lparr>sn_label := l'\<rparr>) = view s" "view (s\<lparr>sn_activities := ac\<rparr>) = view s" "view (s\<lparr>sn_health := hl\<rparr>) = view s"
  "view (s\<lparr>sn_healthpercentage := hp\<rparr>) = view s" "view (s\<lparr>sn_loading := lo\<rparr>) = view s" "view (s\<lparr>sn_models := mo\<rparr>) = view s"
  by (simp_all add: view_def emit_def fun_eq_iff)

lemma elsewhere_put [simp]:
  "us = sn_unit s1 \<Longrightarrow> elsewhere i s (s1\<lparr>sn_unit := st_put i n us\<rparr>) = elsewhere i s s1"
  "us = sn_unit s1 \<Longrightarrow> elsewhere i s (s1\<lparr>sn_unit := st_del i us\<rparr>) = elsewhere i s s1"
  "cs = sn_city s1 \<Longrightarrow> elsewhere i s (s1\<lparr>sn_city := st_put i m cs\<rparr>) = elsewhere i s s1"
  "cs = sn_city s1 \<Longrightarrow> elsewhere i s (s1\<lparr>sn_city := st_del i cs\<rparr>) = elsewhere i s s1"
  "ul = sn_unloaded s1 \<Longrightarrow> elsewhere i s (s1\<lparr>sn_unloaded := st_del i ul\<rparr>) = elsewhere i s s1"
  "elsewhere i s (set_extra e i ns s1) = elsewhere i s s1"
  by (auto simp: elsewhere_def view_def js.get_put js.get_del set_extra_def fun_eq_iff)

lemma elsewhere_model [simp]: "elsewhere (t_index t) s (snd (webgl_get_model name t s1)) = elsewhere (t_index t) s s1"
  by (auto simp: elsewhere_def view_def webgl_get_model_def Let_def emit_def js.get_put)

lemma elsewhere_cong: "view s1 = view s2 \<Longrightarrow> cl_tiles s1 = cl_tiles s2 \<Longrightarrow> elsewhere j s s1 = elsewhere j s s2"
  by (simp add: elsewhere_def)

lemma elsewhere_ops [simp]:
  "elsewhere j s (update_unit_label lk t u p s1) = elsewhere j s s1"
  "elsewhere j s (update_unit_health lk t u p s1) = elsewhere j s s1"
  "elsewhere j s (indicate_focus_unit t u p s1) = elsewhere j s s1"
  "elsewhere j s (snd (add_unit_flag lk t key p s1)) = elsewhere j s s1"
  "elsewhere j s (scene_add n s1) = elsewhere j s s1" "elsewhere j s (scene_remove r s1) = elsewhere j s s1"
  "elsewhere j s (snd (make_node k p s1)) = elsewhere j s s1" "elsewhere j s (emit e s1) = elsewhere j s s1"
  by (rule elsewhere_cong; simp)+

lemma elsewhere_fields [simp]:
  "elsewhere j s (s1\<lparr>sn_anim := a\<rparr>) = elsewhere j s s1" "elsewhere j s (s1\<lparr>sn_flag := f\<rparr>) = elsewhere j s s1"
  "elsewhere j s (s1\<lparr>sn_label := l'\<rparr>) = elsewhere j s s1" "elsewhere j s (s1\<lparr>sn_activities := ac\<rparr>) = elsewhere j s s1"
  "elsewhere j s (s1\<lparr>sn_health := hl\<rparr>) = elsewhere j s s1" "elsewhere j s (s1\<lparr>sn_healthpercentage := hp\<rparr>) = elsewhere j s s1"
  "elsewhere j s (s1\<lparr>sn_city_model := m\<rparr>) = elsewhere j s s1" "elsewhere j s (s1\<lparr>sn_city_label := l\<rparr>) = elsewhere j s s1"
  "elsewhere j s (s1\<lparr>sn_label_hash := h\<rparr>) = elsewhere j s s1" "elsewhere j s (s1\<lparr>sn_added := d\<rparr>) = elsewhere j s s1"
  "elsewhere j s (s1\<lparr>sn_building := b\<rparr>) = elsewhere j s s1" "elsewhere j s (s1\<lparr>sn_walls := w\<rparr>) = elsewhere j s s1"
  "elsewhere j s (s1\<lparr>sn_light := g\<rparr>) = elsewhere j s s1" "elsewhere j s (s1\<lparr>sn_disorder := o'\<rparr>) = elsewhere j s s1"
  "elsewhere j s (s1\<lparr>sn_tile_models := ts\<rparr>) = elsewhere j s s1" "elsewhere j s (s1\<lparr>sn_loading := lo\<rparr>) = elsewhere j s s1"
  by (rule elsewhere_cong; simp)+

subsection \<open>Units\<close>

lemma show_new_unit_at: "show_new_unit lk t u h s = Some s' \<Longrightarrow> elsewhere (t_index t) s s'"
  by (auto simp: show_new_unit_def Let_def split_beta bind_eq_Some_conv split: if_splits)

lemma show_unit_again_at: "show_unit_again lk t u h s = Some s' \<Longrightarrow> elsewhere (t_index t) s s'"
  by (auto simp: show_unit_again_def Let_def split_beta bind_eq_Some_conv split: if_splits)

lemma update_unit_position_at: "update_unit_position lk (Some t) s = Some s' \<Longrightarrow> elsewhere (t_index t) s s'"
  by (auto simp: update_unit_position_def remove_shown_unit_def Let_def bind_eq_Some_conv
    split: option.splits if_splits dest: show_new_unit_at show_unit_again_at)

subsection \<open>Cities\<close>

lemma add_building_node_at:
  "add_building_node c name spot pos s1 = Some s' \<Longrightarrow> elsewhere j s s1 \<Longrightarrow> elsewhere j s s'"
  by (auto simp: add_building_node_def Let_def split_beta split: if_splits)

lemma add_wonder_at: "add_wonder lk t c name s = Some s' \<Longrightarrow> elsewhere (t_index t) s s'"
  unfolding add_wonder_def Let_def split_beta
  by (auto simp: bind_eq_Some_conv split: if_split_asm option.split_asm elim!: add_building_node_at)

lemma add_city_building_at: "add_city_building lk t c name s = Some s' \<Longrightarrow> elsewhere (t_index t) s s'"
proof -
  assume a: "add_city_building lk t c name s = Some s'"
  define name1 where "name1 = (if name = ''Temple'' \<and> (c_style c = 1 \<or> c_style c = 6 \<or> c_style c = 7)
    then ''Temple_roman'' else name)"
  show ?thesis
    using a unfolding add_city_building_def Let_def split_beta name1_def [symmetric]
    by (auto simp: bind_eq_Some_conv split: if_split_asm option.split_asm elim!: add_building_node_at)
qed

lemma each_at:
  "(\<And>n s s'. f n s = Some s' \<Longrightarrow> elsewhere j s s') \<Longrightarrow> each f ns s = Some s' \<Longrightarrow> elsewhere j s s'"
proof (induction ns arbitrary: s)
  case (Cons n ns)
  then obtain s1 where s1: "f n s = Some s1" "each f ns s1 = Some s'" by (auto simp: bind_eq_Some_conv)
  show ?case using Cons.prems(1) [OF s1(1)] Cons.IH [OF Cons.prems(1) s1(2)] by (rule elsewhere_trans)
qed simp

lemma add_city_buildings_at:
  assumes "add_city_buildings lk t c s = Some s'"
  shows "elsewhere (t_index t) s s'"
proof -
  obtain s1 s2 where s: "each (add_wonder lk t c) wonder_models s = Some s1"
      "each (add_city_building lk t c) building_models s1 = Some s2"
      "s' = emit (Ui ''add_spaceship'' [JNum (t_index t), JNum (c_id c)]) s2"
    using assms by (auto simp: add_city_buildings_def bind_eq_Some_conv)
  have "elsewhere (t_index t) s s1" using s(1) by (rule each_at [rotated]) (rule add_wonder_at)
  moreover have "elsewhere (t_index t) s1 s2" using s(2) by (rule each_at [rotated]) (rule add_city_building_at)
  ultimately show ?thesis unfolding s(3) by (auto intro: elsewhere_trans)
qed

lemma add_city_walls_at [simp]: "elsewhere (t_index t) s (add_city_walls lk t c pos s1) = elsewhere (t_index t) s s1"
  by (simp add: add_city_walls_def Let_def split_beta)

lemma add_city_light_at [simp]: "elsewhere j s (add_city_light t pos s1) = elsewhere j s s1"
  by (simp add: add_city_light_def Let_def split_beta)

lemma add_city_buildings_after:
  "add_city_buildings lk t c s1 = Some s' \<Longrightarrow> elsewhere (t_index t) s s1 \<Longrightarrow> elsewhere (t_index t) s s'"
  using elsewhere_trans add_city_buildings_at by blast

lemma show_new_city_at: "show_new_city lk t c h s = Some s' \<Longrightarrow> elsewhere (t_index t) s s'"
  unfolding show_new_city_def Let_def split_beta
  by (auto simp: bind_eq_Some_conv split: if_split_asm elim!: add_city_buildings_after)

lemma change_city_model_at [simp]:
  "elsewhere (t_index t) s (snd (change_city_model lk t c name h s1)) = elsewhere (t_index t) s s1"
  unfolding change_city_model_def Let_def split_beta by simp

lemma show_city_again_at:
  assumes "show_city_again lk t c h s = Some r" "r = Inl s' \<or> r = Inr (h', s')"
  shows "elsewhere (t_index t) s s'"
proof -
  obtain name where name: "city_to_3d_model_name s c = Some name"
    using assms(1) by (auto simp: show_city_again_def Let_def bind_eq_Some_conv)
  define same where "same = (st_get (sn_city_model s) (c_id c) = Some name)"
  define height where "height = (if same then h else h - style_height c)"
  define r1 where "r1 = (if same then (True, s) else change_city_model lk t c name height s)"
  have r1: "elsewhere (t_index t) s (snd r1)" by (simp add: r1_def)
  show ?thesis
    using assms r1
    unfolding show_city_again_def name bind.bind_lunit Let_def split_beta
      same_def [symmetric] height_def [symmetric] r1_def [symmetric]
    by (auto simp: bind_eq_Some_conv split: if_split_asm elim!: add_city_buildings_after)
qed

lemma city_part_at [simp]:
  "elsewhere j s (remove_shown_city j s1) = elsewhere j s s1"
  "elsewhere j s (update_city_disorder t c h s1) = elsewhere j s s1"
  by (simp_all add: remove_shown_city_def update_city_disorder_def Let_def split_beta)

lemma update_city_position_at:
  assumes "update_city_position lk (Some t) s = Some s'"
  shows "elsewhere (t_index t) s s'"
proof -
  have again: "elsewhere (t_index t) s (case r of Inl s1 \<Rightarrow> s1 | Inr (h, s1) \<Rightarrow> update_city_disorder t c h s1)"
    if "show_city_again lk t c h s = Some r" for c h r
    using show_city_again_at [OF that] by (cases r) auto
  show ?thesis
    using assms unfolding update_city_position_def Let_def bind.bind_lunit
    by (cases "tile_city s (Some t)"; cases "st_get (sn_city s) (t_index t)")
      (auto simp only: bind_eq_Some_conv option.case option.inject if_P if_not_P option.distinct not_False_eq_True
        intro: again show_new_city_at elsewhere_refl city_part_at(1) [THEN iffD2])
qed

subsection \<open>Extras and forests\<close>

lemma remove_nodes_at [simp]: "elsewhere j s (remove_nodes ns s1) = elsewhere j s s1"
  by (induction ns arbitrary: s1) (simp_all add: remove_nodes_def)

lemma extra_loop_at [simp]: "elsewhere (t_index t) s (extra_loop lk name h e num t k s1) = elsewhere (t_index t) s s1"
  by (induction k arbitrary: s1) (simp_all add: Let_def split_beta)

lemma update_extra_at [simp]:
  "elsewhere (t_index t) s (update_tile_extra_update_model lk e name t s1) = elsewhere (t_index t) s s1"
  by (simp add: update_tile_extra_update_model_def Let_def split_beta split: option.split)

lemma tree_loop_at: "tree_loop lk name sp h num t k s1 = Some s' \<Longrightarrow> elsewhere (t_index t) s s' = elsewhere (t_index t) s s1"
  by (induction k arbitrary: s1) (auto simp: Let_def split_beta split: if_split_asm)

lemma fell_trees_at [simp]: "elsewhere j s (fell_trees i s1) = elsewhere j s s1"
  by (simp add: fell_trees_def split: option.split)

lemma plant_trees_at: "plant_trees lk name sp h num t s1 = Some s' \<Longrightarrow> elsewhere (t_index t) s s' = elsewhere (t_index t) s s1"
  unfolding plant_trees_def by (drule tree_loop_at) simp

lemma update_trees_at:
  "update_tile_forest lk t s1 = Some s' \<Longrightarrow> elsewhere (t_index t) s s' = elsewhere (t_index t) s s1"
  "update_tile_jungle lk t s1 = Some s' \<Longrightarrow> elsewhere (t_index t) s s' = elsewhere (t_index t) s s1"
  "update_tile_cactus lk t s1 = Some s' \<Longrightarrow> elsewhere (t_index t) s s' = elsewhere (t_index t) s s1"
  by (auto simp: update_tile_forest_def update_tile_jungle_def update_tile_cactus_def bind_eq_Some_conv
    plant_trees_at split: if_split_asm)

lemma update_tile_extras_at: "update_tile_extras lk (Some t) s = Some s' \<Longrightarrow> elsewhere (t_index t) s s'"
  by (auto simp: update_tile_extras_def update_tile_resource_def Let_def bind_eq_Some_conv update_trees_at
    split: if_split_asm option.split)

subsection \<open>The loop over the waiting tiles\<close>

definition keyed :: "'a scene_client_scheme \<Rightarrow> bool" where
  "keyed s = (\<forall>i t. st_get (cl_tiles s) i = Some t \<longrightarrow> t_index t = i)"

lemma redraw_waiting_at:
  assumes "redraw_waiting lk f j s = Some s'" "keyed s"
  shows "elsewhere j s s'"
proof (cases "st_get (cl_tiles s) j")
  case None
  then show ?thesis using assms(1) by (simp add: redraw_waiting_def)
next
  case (Some t)
  then have j: "t_index t = j" using assms(2) by (simp add: keyed_def)
  have m: "elsewhere j s s3" if "update_unit_position lk (Some t) s = Some s1"
      "update_city_position lk (Some t) s1 = Some s2" "update_tile_extras lk (Some t) s2 = Some s3" for s1 s2 s3
    using update_unit_position_at [OF that(1)] update_city_position_at [OF that(2)] update_tile_extras_at [OF that(3)]
    unfolding j by (meson elsewhere_trans)
  show ?thesis using assms(1) Some
    by (auto simp: redraw_waiting_def bind_eq_Some_conv split: if_split_asm intro: m)
qed

lemma redraw_waiting_done:
  assumes "redraw_waiting lk f j s = Some s'" "st_get (cl_tiles s) j \<noteq> None"
  shows "st_get (sn_unloaded s') j \<noteq> Some f"
  using assms by (auto simp: redraw_waiting_def bind_eq_Some_conv js.get_del split: if_split_asm)

text \<open>A tile that waits for another model, or for none, is passed over.\<close>

lemma redraw_waiting_skip: "st_get (sn_unloaded s) j \<noteq> Some f \<Longrightarrow> redraw_waiting lk f j s = Some s' \<Longrightarrow> s' = s"
  by (simp add: redraw_waiting_def split: option.split_asm)

lemma keyed_elsewhere: "elsewhere j s s' \<Longrightarrow> keyed s \<Longrightarrow> keyed s'"
  by (simp add: elsewhere_def keyed_def)

lemma redraw_loop_other:
  assumes "each (redraw_waiting lk f) js s = Some s'" "keyed s" "st_get (sn_unloaded s) i \<noteq> Some f"
  shows "view s' i = view s i"
  using assms
proof (induction js arbitrary: s)
  case (Cons j js)
  then obtain s1 where s1: "redraw_waiting lk f j s = Some s1" "each (redraw_waiting lk f) js s1 = Some s'"
    by (auto simp: bind_eq_Some_conv)
  note e = redraw_waiting_at [OF s1(1) Cons.prems(2)]
  have v: "view s1 i = view s i"
    using e redraw_waiting_skip [OF _ s1(1)] Cons.prems(3) by (cases "i = j") (auto simp: elsewhere_def)
  then show ?case using Cons.IH [OF s1(2) keyed_elsewhere [OF e Cons.prems(2)]] Cons.prems(3) by (simp add: view_def)
qed simp

lemma redraw_loop_waiting:
  assumes "each (redraw_waiting lk f) js s = Some s'" "keyed s" "st_get (cl_tiles s) i \<noteq> None" "i \<in> set js"
    and "st_get (sn_unloaded s) i = Some f"
  shows "st_get (sn_unloaded s') i = None"
  using assms
proof (induction js arbitrary: s)
  case (Cons j js)
  then obtain s1 where s1: "redraw_waiting lk f j s = Some s1" "each (redraw_waiting lk f) js s1 = Some s'"
    by (auto simp: bind_eq_Some_conv)
  note e = redraw_waiting_at [OF s1(1) Cons.prems(2)]
  note k = keyed_elsewhere [OF e Cons.prems(2)]
  show ?case
  proof (cases "i = j")
    case True
    then have n: "st_get (sn_unloaded s1) i = None"
      using s1(1) Cons.prems(3,5) by (auto simp: redraw_waiting_def bind_eq_Some_conv js.get_del)
    have "view s' i = view s1 i" by (rule redraw_loop_other [OF s1(2) k]) (simp add: n)
    then show ?thesis using n by (simp add: view_def)
  next
    case False
    then have "view s1 i = view s i" "cl_tiles s1 = cl_tiles s" using e by (auto simp: elsewhere_def)
    then show ?thesis using Cons.IH [OF s1(2) k] Cons.prems False by (simp add: view_def)
  qed
qed simp

lemma redraw_loop_tiles:
  "each (redraw_waiting lk f) js s = Some s' \<Longrightarrow> keyed s \<Longrightarrow> cl_tiles s' = cl_tiles s"
proof (induction js arbitrary: s)
  case (Cons j js)
  then obtain s1 where s1: "redraw_waiting lk f j s = Some s1" "each (redraw_waiting lk f) js s1 = Some s'"
    by (auto simp: bind_eq_Some_conv)
  note e = redraw_waiting_at [OF s1(1) Cons.prems(2)]
  then show ?case using Cons.IH [OF s1(2) keyed_elsewhere [OF e Cons.prems(2)]] by (simp add: elsewhere_def)
qed simp

lemma waiting_key: "st_get m i = Some f \<Longrightarrow> i \<in> set (st_keys m)"
  by (force simp: st_get_def st_keys_def dest: map_of_SomeD)

text \<open>
  C39. A tile is redrawn for one model only.  The view remembers one missing model for each tile.  When
  that model has come, the tile is redrawn and no longer waits for any, even if the redraw has missed
  another model; when that one comes, the unit, the city and the extras of the tile stay as they are.
\<close>

theorem model_loaded_redraws_once:
  assumes "\<forall>k u. st_get (cl_tiles s) k = Some u \<longrightarrow> t_index u = k"
    and "st_get (sn_unloaded s) i = Some f" "st_get (cl_tiles s) i = Some t"
    and "model_loaded lk f s = Some s1" "model_loaded lk' g s1 = Some s2"
  shows "st_get (sn_unloaded s1) i = None \<and> st_get (sn_unit s2) i = st_get (sn_unit s1) i
    \<and> st_get (sn_city s2) i = st_get (sn_city s1) i \<and> (\<forall>e. sn_extra s2 e i = sn_extra s1 e i)"
proof -
  let ?s = "s\<lparr>sn_models := f # sn_models s\<rparr>"
  let ?s1 = "s1\<lparr>sn_models := g # sn_models s1\<rparr>"
  have k: "keyed ?s" using assms(1) by (simp add: keyed_def)
  have r: "each (redraw_waiting lk f) (st_keys (sn_unloaded s)) ?s = Some s1"
    using assms(4) by (simp add: model_loaded_def)
  have n: "st_get (sn_unloaded s1) i = None"
    by (rule redraw_loop_waiting [OF r k]) (use assms(2,3) waiting_key in auto)
  have k1: "keyed ?s1" using redraw_loop_tiles [OF r k] assms(1) by (simp add: keyed_def)
  have r1: "each (redraw_waiting lk' g) (st_keys (sn_unloaded s1)) ?s1 = Some s2"
    using assms(5) by (simp add: model_loaded_def)
  have "view s2 i = view ?s1 i" by (rule redraw_loop_other [OF r1 k1]) (simp add: n)
  then show ?thesis using n by (auto simp: view_def fun_eq_iff)
qed

text \<open>
  A tile with a hut and a mine, with neither model loaded: the hut arrives first and takes the tile off
  the list, the mine arrives later and is not shown.
\<close>

definition mine_tile :: tile where
  "mine_tile = (extras_tile 0 [3])\<lparr>t_known := Some TILE_KNOWN_SEEN\<rparr>"

definition plain_extra :: "int \<Rightarrow> extra" where
  "plain_extra i = \<lparr>x_id = i, x_name = [], x_rule_name = [], x_causes = [], x_rmcauses = [], x_buildable = False,
     x_reqs = [], x_base = None, x_road = None\<rparr>"

definition mine_rules :: ruleset where
  "mine_rules = ruleset0\<lparr>rs_EXTRA_HUT := 1, rs_EXTRA_AIRBASE := 8, rs_extras := [(0, plain_extra 0), (1, plain_extra 1)],
     rs_terrains := [(0, \<lparr>te_id = 0, te_name = ''Plains'', te_graphic_str = ''plains'', te_graphic_alt = [],
       te_pillage_time = 0\<rparr>)]\<rparr>"

lemma mine_bits: "bv_isSet (BitVector [3]) 0" "bv_isSet (BitVector [3]) 1" "\<not> bv_isSet (BitVector [3]) 2"
  "\<not> bv_isSet (BitVector [3]) 3" "\<not> bv_isSet (BitVector [3]) 4" "\<not> bv_isSet (BitVector [3]) 5"
  "\<not> bv_isSet (BitVector [3]) 6" "\<not> bv_isSet (BitVector [3]) 7" "\<not> bv_isSet (BitVector [3]) 8"
  "bv_toBitSet (BitVector [3]) = [0, 1]"
  by code_simp+

lemma mine_tile_simps [simp]: "t_index mine_tile = 0" "t_units mine_tile = []" "t_worked mine_tile = None"
  "t_terrain mine_tile = 0" "tile_has_extra (Some mine_tile) e = bv_isSet (BitVector [3]) e"
  "tile_city s (Some mine_tile) = None" "known_tile mine_tile"
  by (simp_all add: mine_tile_def extras_tile_def tile0_def tile_has_extra_def tile_city_def known_tile_def tile_get_known_def)

lemma mine_shown: "extra_shown look0 0 mine_tile" "extra_shown look0 1 mine_tile" "\<not> extra_shown look0 2 mine_tile"
  "\<not> extra_shown look0 8 mine_tile" "\<not> extra_shown look0 3 mine_tile" "shown_extra_name look0 mine_tile name = name"
  by (simp_all add: extra_shown_def shown_extra_name_def look0_def mine_bits)

lemma update_extra_frame [simp]:
  "cl_ruleset (update_tile_extra_update_model lk e name t s) = cl_ruleset s"
  "sn_tile_models (update_tile_extra_update_model lk e name t s) = sn_tile_models s"
  "e' \<noteq> e \<Longrightarrow> sn_extra (update_tile_extra_update_model lk e name t s) e' i = sn_extra s e' i"
proof -
  have "cl_ruleset (extra_loop lk name h e num t k s) = cl_ruleset s \<and> sn_tile_models (extra_loop lk name h e num t k s) = sn_tile_models s
      \<and> (e' \<noteq> e \<longrightarrow> sn_extra (extra_loop lk name h e num t k s) e' i = sn_extra s e' i)" for name h num k
    by (induction k arbitrary: s) (simp_all add: Let_def split_beta set_extra_def)
  moreover have "cl_ruleset (remove_nodes ns s) = cl_ruleset s \<and> sn_extra (remove_nodes ns s) = sn_extra s" for ns
    by (induction ns arbitrary: s) (simp_all add: remove_nodes_def)
  ultimately show
    "cl_ruleset (update_tile_extra_update_model lk e name t s) = cl_ruleset s"
    "sn_tile_models (update_tile_extra_update_model lk e name t s) = sn_tile_models s"
    "e' \<noteq> e \<Longrightarrow> sn_extra (update_tile_extra_update_model lk e name t s) e' i = sn_extra s e' i"
    by (simp_all add: update_tile_extra_update_model_def Let_def split_beta set_extra_def split: option.split)
qed

lemma update_extra_nothing:
  "\<not> extra_shown lk e t \<Longrightarrow> sn_extra s e (t_index t) = None \<Longrightarrow> update_tile_extra_update_model lk e name t s = s"
  by (simp add: update_tile_extra_update_model_def)

lemma mine_update:
  assumes "cl_ruleset s = mine_rules" "sn_tile_models s = []"
    and "sn_extra s 2 0 = None" "sn_extra s 3 0 = None" "sn_extra s 8 0 = None"
  shows "update_tile_extras look0 (Some mine_tile) s =
    Some (update_tile_extra_update_model look0 1 ''Hut'' mine_tile (update_tile_extra_update_model look0 0 ''Mine'' mine_tile s))"
proof -
  have l: "lk_EXTRA_MINE look0 = 0" "lk_EXTRA_RUINS look0 = 2" "lk_EXTRA_FORTRESS look0 = 3" by (simp_all add: look0_def)
  have rs: "rs_EXTRA_HUT mine_rules = 1" "rs_EXTRA_AIRBASE mine_rules = 8"
      "rs_extras mine_rules = [(0, plain_extra 0), (1, plain_extra 1)]"
    by (simp_all add: mine_rules_def)
  have n: "terrain_name x mine_tile = Some ''Plains''" if "cl_ruleset x = mine_rules" for x :: "'a scene_client_scheme"
    using that by (simp add: terrain_name_def tile_terrain_def mine_rules_def st_get_def)
  have c: "bv_toBitSet (the (t_extras mine_tile)) = [0, 1]" "t_extras mine_tile \<noteq> None"
    by (simp_all add: mine_tile_def mine_bits)
  have "tile_resource (rs_extras mine_rules) (Some mine_tile) = Some None"
    using c by (auto simp: tile_resource_def rs st_get_def plain_extra_def is_extra_caused_by_def bv_isSet_def bv_byte_def)
  then show ?thesis
    using assms by (simp add: update_tile_extras_def Let_def l rs update_extra_nothing mine_shown n
      update_tile_forest_def update_tile_jungle_def update_tile_cactus_def update_tile_resource_def st_get_def)
qed

definition mine_scene :: scene_client where
  "mine_scene = (scene0 [])\<lparr>cl_tiles := [(0, mine_tile)], cl_ruleset := mine_rules\<rparr>"

lemma mine_scene_fields: "cl_tiles mine_scene = [(0, mine_tile)]" "cl_ruleset mine_scene = mine_rules"
  "sn_extra mine_scene = (\<lambda>_ _. None)" "sn_tile_models mine_scene = []" "sn_models mine_scene = []"
  "sn_unloaded mine_scene = []" "sn_loading mine_scene = []" "sn_unit mine_scene = []" "sn_city mine_scene = []"
  "sn_scene mine_scene = Some []"
  by (simp_all add: mine_scene_def)

lemma mine_one: "extra_models ''Hut'' = (- 5, 1)" "extra_models ''Mine'' = (- 7, 1)" "model_of_extra look0 ''Hut'' = ''Hut''"
  "model_of_extra look0 ''Mine'' = ''Mine''" "without_blanks ''Hut'' = ''Hut''" "without_blanks ''Mine'' = ''Mine''"
  by (simp_all add: extra_models_def model_of_extra_def without_blanks_def)

lemma mine_extra:
  assumes "name = ''Hut'' \<and> e = 1 \<or> name = ''Mine'' \<and> e = 0" "sn_extra s e 0 = None"
  shows "update_tile_extra_update_model look0 e name mine_tile s =
    (let r = webgl_get_model name mine_tile s; n = make_node name (beside (tile_coords (snd r) mine_tile) (- 10)
       (5 + t_height mine_tile * 100 + fst (extra_models name) + 1) (- 10)) (snd r)
     in if fst r then scene_add (fst n) (set_extra e 0 (Some [fst n]) (snd n)) else snd r)"
  using assms by (auto simp: update_tile_extra_update_model_def mine_shown mine_one Let_def split_beta)

lemma mine_waits:
  assumes "st_get (sn_unit s) 0 = None" "st_get (sn_city s) 0 = None"
  shows "update_unit_position look0 (Some mine_tile) s = Some s" "update_city_position look0 (Some mine_tile) s = Some s"
  using assms by (simp_all add: update_unit_position_def update_city_position_def find_visible_unit_def List.map_filter_def
    get_unit_height_offset_def get_city_height_offset_def)

theorem model_loaded_redraws_once_witness:
  "\<exists>s s1 s2. update_tile_extras look0 (Some mine_tile) mine_scene = Some s
     \<and> model_loaded look0 ''Hut'' s = Some s1 \<and> model_loaded look0 ''Mine'' s1 = Some s2
     \<and> sn_extra s2 1 0 \<noteq> None \<and> sn_extra s2 0 0 = None \<and> set (sn_models s2) = {''Hut'', ''Mine''}"
proof -
  define s where "s = update_tile_extra_update_model look0 1 ''Hut'' mine_tile
    (update_tile_extra_update_model look0 0 ''Mine'' mine_tile mine_scene)"
  have s: "update_tile_extras look0 (Some mine_tile) mine_scene = Some s"
    unfolding s_def by (rule mine_update) (simp_all add: mine_scene_fields)
  have f: "sn_extra s = (\<lambda>_ _. None)" "sn_unloaded s = [(0, ''Hut'')]" "sn_unit s = []" "sn_city s = []" "sn_models s = []"
      "cl_tiles s = [(0, mine_tile)]" "cl_ruleset s = mine_rules" "sn_tile_models s = []"
    by (simp_all add: s_def mine_extra mine_scene_fields Let_def webgl_get_model_def emit_def)
  define m where "m = s\<lparr>sn_models := [''Hut'']\<rparr>"
  define s3 where "s3 = update_tile_extra_update_model look0 1 ''Hut'' mine_tile
    (update_tile_extra_update_model look0 0 ''Mine'' mine_tile m)"
  have s3: "update_tile_extras look0 (Some mine_tile) m = Some s3"
    unfolding s3_def by (rule mine_update) (simp_all add: m_def f)
  have f3: "sn_extra s3 0 0 = None" "sn_extra s3 1 0 \<noteq> None" "sn_unloaded s3 = [(0, ''Mine'')]" "sn_models s3 = [''Hut'']"
      "cl_tiles s3 = [(0, mine_tile)]"
    by (simp_all add: s3_def mine_extra m_def f Let_def webgl_get_model_def emit_def set_extra_def)
  have fm: "sn_unloaded m = [(0, ''Hut'')]" "cl_tiles m = [(0, mine_tile)]" "st_get (sn_unit m) 0 = None" "st_get (sn_city m) 0 = None"
    by (simp_all add: m_def f st_get_def)
  have get: "st_get [(0, x)] 0 = Some x" for x :: 'b by (simp add: st_get_def)
  define s1 where "s1 = s3\<lparr>sn_unloaded := [], sn_loading := removeAll ''Hut'' (sn_loading s3)\<rparr>"
  have s1: "model_loaded look0 ''Hut'' s = Some s1"
    using s3 by (simp add: model_loaded_def f st_keys_def m_def [symmetric] fm get redraw_waiting_def mine_waits
      f3 s1_def st_del_def)
  define s2 where "s2 = s1\<lparr>sn_models := [''Mine'', ''Hut'']\<rparr>"
  have s2: "model_loaded look0 ''Mine'' s1 = Some s2"
    by (simp add: model_loaded_def s1_def s2_def st_keys_def f3)
  have "st_get (sn_unloaded s1) 0 = None \<and> st_get (sn_unit s2) 0 = st_get (sn_unit s1) 0
    \<and> st_get (sn_city s2) 0 = st_get (sn_city s1) 0 \<and> (\<forall>e. sn_extra s2 e 0 = sn_extra s1 e 0)"
    by (rule model_loaded_redraws_once [OF _ _ _ s1 s2]) (auto simp: f st_get_def split: if_splits)
  then show ?thesis using s s1 s2 f3 by (auto simp: s1_def s2_def)
qed

end
