(* ===== verification/Heightmap.thy ===== *)
theory Heightmap
  imports Camera Orders
begin

text \<open>
  The landscape of the 3D view: \<open>webgl/heightmap.js\<close> computes a height for every vertex from the heights
  of the tiles, \<open>webgl/mapview.js\<close> builds the mesh from it, and \<open>webgl/tile_visibility_handler.js\<close> colours
  its vertices by what is known.  A cell of the heightmap is \<open>None\<close> when JavaScript has \<open>NaN\<close>; the
  rounding of \<open>Float32Array\<close> is left out.  A loop over all tiles throws where the body throws.
\<close>

type_synonym heightmap = "real option list"

definition heightmap_resolution :: "int \<Rightarrow> nat \<Rightarrow> nat" where
  "heightmap_resolution len quality = nat len * quality + 1"

definition init_heightmap :: "map_info \<Rightarrow> nat \<Rightarrow> heightmap" where
  "init_heightmap m quality =
     replicate (heightmap_resolution (m_xsize m) quality * heightmap_resolution (m_ysize m) quality) (Some 0)"

subsection \<open>The heights of the tiles\<close>

definition on_grid :: "map_info \<Rightarrow> int \<times> int \<Rightarrow> bool" where
  "on_grid m c = (0 \<le> fst c \<and> fst c < m_xsize m \<and> 0 \<le> snd c \<and> snd c < m_ysize m)"

definition tile_at :: "map_info \<Rightarrow> tile store \<Rightarrow> int \<times> int \<Rightarrow> tile option" where
  "tile_at m ts c = map_pos_to_tile m ts (fst c) (snd c)"

definition tile_unknown :: "tile option \<Rightarrow> bool" where
  "tile_unknown t = (tile_get_known t = Some TILE_UNKNOWN)"

definition around :: "int \<Rightarrow> int \<Rightarrow> (int \<times> int) list" where
  "around x y = [(x - 1, y - 1), (x - 1, y), (x - 1, y + 1), (x, y - 1), (x, y + 1), (x + 1, y - 1), (x + 1, y), (x + 1, y + 1)]"

text \<open>An unknown tile takes the heights of its known neighbours in turn until it is above 0.51.\<close>

fun neighbour_height :: "map_info \<Rightarrow> tile store \<Rightarrow> (int \<times> int) list \<Rightarrow> real \<Rightarrow> real" where
  "neighbour_height m ts [] h = h"
| "neighbour_height m ts (c # cs) h =
     (if \<not> on_grid m c \<or> h > 0.51 then neighbour_height m ts cs h
      else neighbour_height m ts cs
             (case tile_at m ts c of None \<Rightarrow> h | Some n \<Rightarrow> if tile_unknown (Some n) then h else t_height n))"

definition shape_tile :: "map_info \<Rightarrow> ruleset \<Rightarrow> int \<times> int \<Rightarrow> tile store \<Rightarrow> tile store option" where
  "shape_tile m rs c ts = do {
     t \<leftarrow> tile_at m ts c;
     ocean \<leftarrow> is_ocean_tile (rs_terrains rs) (Some t);
     land_near \<leftarrow> (if ocean then is_land_tile_near m ts (rs_terrains rs) t else Some False);
     ocean_near \<leftarrow> (if ocean then Some False else is_ocean_tile_near m ts (rs_terrains rs) t);
     let h1 = (if ocean \<and> land_near then 0.45 else t_height t);
     let h2 = (if ocean_near \<and> \<not> tile_has_extra (Some t) (rs_EXTRA_RIVER rs) then 0.55 else h1);
     let h3 = (if tile_unknown (Some t) then neighbour_height m ts (around (fst c) (snd c)) 0.51 else h2);
     Some (st_put (fst c + snd c * m_xsize m) (t\<lparr>t_height := h3\<rparr>) ts)
   }"

definition map_columns :: "map_info \<Rightarrow> (int \<times> int) list" where
  "map_columns m = List.product [0..m_xsize m - 1] [0..m_ysize m - 1]"

subsection \<open>The cells\<close>

definition cell_pos :: "nat \<Rightarrow> nat \<Rightarrow> real" where
  "cell_pos quality k = real k / real quality - 0.5"

text \<open>A cell in the middle of a tile.\<close>

definition middle_height :: "ruleset \<Rightarrow> tile \<Rightarrow> real option" where
  "middle_height rs t = do {
     pterrain \<leftarrow> tile_terrain (rs_terrains rs) t;
     Some (if te_name pterrain = ''Mountains'' then t_height t * 1.02
           else if tile_has_extra (Some t) (rs_EXTRA_RIVER rs) then t_height t * 0.98 else t_height t)
   }"

definition corners :: "real \<Rightarrow> real \<Rightarrow> (int \<times> int) list" where
  "corners gx gy = [(\<lfloor>gx\<rfloor>, \<lfloor>gy\<rfloor>), (\<lfloor>gx\<rfloor>, \<lceil>gy\<rceil>), (\<lceil>gx\<rceil>, \<lfloor>gy\<rfloor>), (\<lceil>gx\<rceil>, \<lceil>gy\<rceil>)]"

definition river_corners :: "map_info \<Rightarrow> ruleset \<Rightarrow> tile store \<Rightarrow> (int \<times> int) list \<Rightarrow> nat" where
  "river_corners m rs ts cs = length (filter (\<lambda>c. on_grid m c \<and> tile_has_extra (tile_at m ts c) (rs_EXTRA_RIVER rs)) cs)"

definition corner_height :: "ruleset \<Rightarrow> nat \<Rightarrow> nat \<Rightarrow> nat \<Rightarrow> tile \<Rightarrow> real option" where
  "corner_height rs rivers x y t = do {
     pterrain \<leftarrow> tile_terrain (rs_terrains rs) t;
     let h = (if te_name pterrain = ''Hills'' \<or> te_name pterrain = ''Mountains''
              then t_height t + (real (x * y mod 10) / 10 - 0.5) / 50 - 0.01 else t_height t);
     Some (if tile_has_extra (Some t) (rs_EXTRA_RIVER rs) then t_height t * 1.045 - real rivers / 4 * 0.02 else h)
   }"

definition distance_to :: "real \<Rightarrow> real \<Rightarrow> int \<times> int \<Rightarrow> real" where
  "distance_to gx gy c = sqrt ((gx - of_int (fst c)) * (gx - of_int (fst c)) + (gy - of_int (snd c)) * (gy - of_int (snd c)))"

text \<open>
  The loop over the corners with \<open>sum\<close> and \<open>norm\<close>; at the distance 0 the code divides infinity by
  infinity, which is \<open>NaN\<close>, as is 0 by 0 when no corner is on the map.
\<close>

fun blend :: "(int \<times> int \<Rightarrow> real) \<Rightarrow> (int \<times> int \<Rightarrow> real option) \<Rightarrow> (int \<times> int) list \<Rightarrow> real \<times> real \<Rightarrow> (real \<times> real) option option" where
  "blend far height [] (acc, weight) = Some (Some (acc, weight))"
| "blend far height (c # cs) (acc, weight) = do {
     h \<leftarrow> height c;
     (if far c = 0 then Some None
      else blend far height cs (acc + h / far c / far c, weight + 1 / far c / far c))
   }"

definition blended :: "(real \<times> real) option \<Rightarrow> real option" where
  "blended r = (case r of None \<Rightarrow> None | Some (acc, weight) \<Rightarrow> if weight = 0 then None else Some (acc / weight))"

definition cell_height :: "map_info \<Rightarrow> ruleset \<Rightarrow> tile store \<Rightarrow> nat \<Rightarrow> nat \<Rightarrow> nat \<Rightarrow> real option option" where
  "cell_height m rs ts quality x y =
     (let gx = cell_pos quality x; gy = cell_pos quality y
      in if of_int \<lfloor>gx\<rfloor> = gx \<and> of_int \<lfloor>gy\<rfloor> = gy
         then do { t \<leftarrow> tile_at m ts (\<lfloor>gx\<rfloor>, \<lfloor>gy\<rfloor>); h \<leftarrow> middle_height rs t; Some (Some h) }
         else (let cs = corners gx gy; rivers = river_corners m rs ts cs
               in map_option blended
                    (blend (distance_to gx gy) (\<lambda>c. Option.bind (tile_at m ts c) (corner_height rs rivers x y))
                      (filter (on_grid m) cs) (0, 0))))"

definition set_cell :: "map_info \<Rightarrow> ruleset \<Rightarrow> tile store \<Rightarrow> nat \<Rightarrow> nat \<times> nat \<Rightarrow> heightmap \<Rightarrow> heightmap option" where
  "set_cell m rs ts quality c hm =
     map_option (\<lambda>h. hm[snd c * heightmap_resolution (m_xsize m) quality + fst c := h])
       (cell_height m rs ts quality (fst c) (snd c))"

definition update_heightmap :: "map_info \<Rightarrow> ruleset \<Rightarrow> nat \<Rightarrow> tile store \<Rightarrow> heightmap \<Rightarrow> (tile store \<times> heightmap) option" where
  "update_heightmap m rs quality ts hm = do {
     ts1 \<leftarrow> each (shape_tile m rs) (map_columns m) ts;
     hm1 \<leftarrow> each (set_cell m rs ts1 quality)
              (List.product [0..<heightmap_resolution (m_xsize m) quality] [0..<heightmap_resolution (m_ysize m) quality]) hm;
     Some (ts1, hm1)
   }"

definition generate_heightmap_hash :: "map_info \<Rightarrow> tile store \<Rightarrow> real option" where
  "generate_heightmap_hash m ts =
     each (\<lambda>c hash. map_option (\<lambda>t. hash + t_height t) (tile_at m ts c)) (map_columns m) 0"

subsection \<open>The mesh\<close>

record mesh =
  ms_vertices :: "vec3 list"
  ms_uvs :: "(real \<times> real) list"
  ms_indices :: "nat list"

text \<open>
  The height of vertex \<open>(ix, iy)\<close>.  The code steps through the heightmap with the width of the mesh it
  builds; outside the array, and where the cell is \<open>NaN\<close>, the height is 0.
\<close>

definition heightmap_scale :: "nat \<Rightarrow> nat" where
  "heightmap_scale mesh_quality = (if mesh_quality = 2 then 2 else 1)"

definition vertex_height :: "map_info \<Rightarrow> nat \<Rightarrow> heightmap \<Rightarrow> nat \<Rightarrow> nat \<Rightarrow> real" where
  "vertex_height m q hm ix iy =
     (let xquality = heightmap_resolution (m_xsize m) q; yquality = heightmap_resolution (m_ysize m) q;
          sx = ix mod xquality; sy = iy mod yquality;
          heightIndex = sy * heightmap_scale q * xquality + sx * heightmap_scale q
      in if heightIndex < length hm then (case hm ! heightIndex of None \<Rightarrow> 0 | Some h \<Rightarrow> h * 100) else 0)"

definition vertex :: "map_info \<Rightarrow> nat \<Rightarrow> heightmap \<Rightarrow> nat \<Rightarrow> nat \<Rightarrow> vec3" where
  "vertex m q hm ix iy =
     (let width = of_int (mapview_model_size (m_xsize m)); height = of_int (mapview_model_size (m_ysize m));
          gridX = heightmap_resolution (m_xsize m) q; gridY = heightmap_resolution (m_ysize m) q
      in vec (real ix * (width / real gridX) - width / 2) (- (real iy * (height / real gridY) - height / 2))
           (vertex_height m q hm ix iy))"

definition land_indices :: "nat \<Rightarrow> nat \<Rightarrow> nat list" where
  "land_indices gridX gridY =
     concat (map (\<lambda>iy. concat (map (\<lambda>ix.
        let a = ix + (gridX + 1) * iy; b = ix + (gridX + 1) * (iy + 1);
            c = (ix + 1) + (gridX + 1) * (iy + 1); d = (ix + 1) + (gridX + 1) * iy
        in [a, b, d, b, c, d]) [0..<gridX])) [0..<gridY])"

definition init_land_geometry :: "map_info \<Rightarrow> nat \<Rightarrow> heightmap \<Rightarrow> mesh" where
  "init_land_geometry m q hm =
     (let gridX = heightmap_resolution (m_xsize m) q; gridY = heightmap_resolution (m_ysize m) q
      in \<lparr>ms_vertices = concat (map (\<lambda>iy. map (\<lambda>ix. vertex m q hm ix iy) [0..<gridX + 1]) [0..<gridY + 1]),
          ms_uvs = concat (map (\<lambda>iy. map (\<lambda>ix. (real ix / real gridX, 1 - real iy / real gridY)) [0..<gridX + 1]) [0..<gridY + 1]),
          ms_indices = land_indices gridX gridY\<rparr>)"

definition update_land_geometry :: "map_info \<Rightarrow> nat \<Rightarrow> heightmap \<Rightarrow> mesh \<Rightarrow> mesh" where
  "update_land_geometry m q hm g =
     (let gridX = heightmap_resolution (m_xsize m) q; gridY = heightmap_resolution (m_ysize m) q
      in g\<lparr>ms_vertices := foldl (\<lambda>vs iy. foldl (\<lambda>vs ix. vs[iy * (gridX + 1) + ix := vertex m q hm ix iy]) vs [0..<gridX + 1])
             (ms_vertices g) [0..<gridY + 1]\<rparr>)"

subsection \<open>Keeping the landscape up to date\<close>

record land_client = focus_client +
  ls_geometry_dirty :: bool
  ls_known_dirty :: bool
  ls_hash :: real
  ls_quality :: nat                         \<comment> \<open>\<open>terrain_quality\<close>\<close>
  ls_heightmap :: heightmap
  ls_lofi :: mesh
  ls_land :: mesh
  ls_colors :: "(real \<times> real \<times> real) list"

text \<open>Both meshes are laid down by a rotation around the x axis and moved to the place of the map.\<close>

definition lay_down :: "map_info \<Rightarrow> vec3 \<Rightarrow> vec3" where
  "lay_down m v =
     vec (v_x v + of_int (mapview_model_size (m_xsize m) div 2 - 500)) (v_z v)
       (- v_y v + of_int (mapview_model_size (m_ysize m) div 2))"

definition place_mesh :: "map_info \<Rightarrow> mesh \<Rightarrow> mesh" where
  "place_mesh m g = g\<lparr>ms_vertices := map (lay_down m) (ms_vertices g)\<rparr>"

definition update_map_terrain_geometry :: "'a land_client_scheme \<Rightarrow> 'a land_client_scheme option" where
  "update_map_terrain_geometry s =
     (if \<not> ls_geometry_dirty s then Some (s\<lparr>ls_geometry_dirty := False\<rparr>)
      else do {
        hash \<leftarrow> generate_heightmap_hash (cl_map s) (cl_tiles s);
        if hash = ls_hash s then Some (s\<lparr>ls_geometry_dirty := False\<rparr>)
        else do {
          (ts, hm) \<leftarrow> update_heightmap (cl_map s) (cl_ruleset s) (ls_quality s) (cl_tiles s) (ls_heightmap s);
          Some (s\<lparr>cl_tiles := ts, ls_heightmap := hm,
                  ls_lofi := place_mesh (cl_map s) (update_land_geometry (cl_map s) 2 hm (ls_lofi s)),
                  ls_land := place_mesh (cl_map s) (update_land_geometry (cl_map s) (ls_quality s) hm (ls_land s)),
                  ls_hash := hash, ls_geometry_dirty := False\<rparr>)
        }
      })"

definition webgl_update_tile_known :: "tile option \<Rightarrow> tile option \<Rightarrow> 'a land_client_scheme \<Rightarrow> 'a land_client_scheme" where
  "webgl_update_tile_known old_tile new_tile s =
     (case (old_tile, new_tile) of
        (Some a, Some b) \<Rightarrow>
          (let s1 = (if t_height b \<noteq> t_height a then s\<lparr>ls_geometry_dirty := True\<rparr> else s)
           in if tile_get_known (Some b) \<noteq> tile_get_known (Some a) then s1\<lparr>ls_known_dirty := True\<rparr> else s1)
      | _ \<Rightarrow> s)"

definition tile_xy :: "tile \<Rightarrow> int \<times> int" where
  "tile_xy t = (the (t_x t), the (t_y t))"

text \<open>Whether a tile is in the square around a city without its corners (\<open>webgl/city.js\<close>).\<close>

definition is_city_tile :: "map_info \<Rightarrow> tile \<Rightarrow> tile \<Rightarrow> bool" where
  "is_city_tile m ptile ctile =
     (let d = map_distance_vector m (tile_xy ptile) (tile_xy ctile)
      in d \<notin> {(2, 2), (- 2, - 2), (- 2, 2), (2, - 2)}
         \<and> fst d \<le> 2 \<and> snd d \<le> 2 \<and> fst d \<ge> - 2 \<and> snd d \<ge> - 2)"

definition get_vertex_color_from_tile :: "'a land_client_scheme \<Rightarrow> tile \<Rightarrow> (real \<times> real \<times> real) option" where
  "get_vertex_color_from_tile s t =
     (let known = tile_get_known (Some t);
          color = (if known = Some TILE_KNOWN_SEEN then 1.06 else if known = Some TILE_KNOWN_UNSEEN then 0.54 else 0)
      in if active_city s \<noteq> None \<and> (known = Some TILE_KNOWN_SEEN \<or> known = Some TILE_KNOWN_UNSEEN)
         then do {
           ctile \<leftarrow> city_tile s (active_city s);
           Some (if t_index t = t_index ctile \<or> is_city_tile (cl_map s) t ctile then 1.06 else 0.30, 0, 0)
         }
         else Some (color, 0, 0))"

text \<open>The tile a vertex shows: the cells right of the middle of a tile's left edge.\<close>

definition vertex_tile :: "nat \<Rightarrow> nat \<Rightarrow> nat \<Rightarrow> int" where
  "vertex_tile quality resolution k = \<lfloor>real (k mod resolution) / real quality - 0.040\<rfloor>"

definition vertex_color :: "'a land_client_scheme \<Rightarrow> nat \<Rightarrow> nat \<Rightarrow> (real \<times> real \<times> real) option" where
  "vertex_color s ix iy =
     (let q = ls_quality s; m = cl_map s
      in case map_pos_to_tile m (cl_tiles s) (vertex_tile q (heightmap_resolution (m_xsize m) q) ix)
                (vertex_tile q (heightmap_resolution (m_ysize m) q) iy) of
           None \<Rightarrow> Some (0, 0, 0)
         | Some t \<Rightarrow> get_vertex_color_from_tile s t)"

definition update_tiles_known_vertex_colors :: "'a land_client_scheme \<Rightarrow> 'a land_client_scheme option" where
  "update_tiles_known_vertex_colors s =
     (let m = cl_map s; gridX = heightmap_resolution (m_xsize m) (ls_quality s);
          gridY = heightmap_resolution (m_ysize m) (ls_quality s)
      in map_option (\<lambda>colors. s\<lparr>ls_colors := colors\<rparr>)
           (each (\<lambda>(iy, ix) colors. map_option (\<lambda>c. colors @ [c]) (vertex_color s ix iy))
              (List.product [0..<gridY + 1] [0..<gridX + 1]) []))"

definition update_map_known_tiles :: "'a land_client_scheme \<Rightarrow> 'a land_client_scheme option" where
  "update_map_known_tiles s =
     (if ls_known_dirty s
      then do {
        s1 \<leftarrow> update_tiles_known_vertex_colors s;
        s2 \<leftarrow> update_map_terrain_geometry s1;
        Some (s2\<lparr>ls_known_dirty := False\<rparr>)
      }
      else Some (s\<lparr>ls_known_dirty := False\<rparr>))"

end
