(* ===== verification/Heightmap_Facts.thy ===== *)
theory Heightmap_Facts
  imports Heightmap Geometry_Facts Samples
begin

text \<open>
  The heightmap has a number in every cell, close to the heights of the tiles, and so has the mesh; an
  update of the mesh gives the mesh that would be built anew.
\<close>

subsection \<open>Tiles with heights in a range\<close>

definition shaped :: "map_info \<Rightarrow> ruleset \<Rightarrow> real \<Rightarrow> real \<Rightarrow> tile store \<Rightarrow> bool" where
  "shaped m rs lo hi ts \<longleftrightarrow> allocated m ts \<and>
     (\<forall>k t. st_get ts k = Some t \<longrightarrow> lo \<le> t_height t \<and> t_height t \<le> hi \<and> tile_terrain (rs_terrains rs) t \<noteq> None)"

lemma shaped_at:
  assumes "shaped m rs lo hi ts" "on_grid m c"
  obtains t where "tile_at m ts c = Some t" "st_get ts (fst c + snd c * m_xsize m) = Some t"
    "lo \<le> t_height t" "t_height t \<le> hi" "tile_terrain (rs_terrains rs) t \<noteq> None"
proof -
  have "st_get ts (fst c + snd c * m_xsize m) \<noteq> None"
    using assms by (auto simp: shaped_def allocated_def on_grid_def)
  moreover have "tile_at m ts c = st_get ts (fst c + snd c * m_xsize m)"
    using assms(2) by (simp add: tile_at_def map_pos_to_tile_def Let_def on_grid_def)
  ultimately show ?thesis using assms(1) that by (auto simp: shaped_def)
qed

lemma ocean_known:
  assumes "shaped m rs lo hi ts" "\<And>u. t = Some u \<Longrightarrow> \<exists>k. st_get ts k = Some u"
  shows "is_ocean_tile (rs_terrains rs) t \<noteq> None"
  using assms by (fastforce simp: is_ocean_tile_def shaped_def bind_eq_None_conv split: option.split)

lemma mapstep_known: "mapstep m ts t d = Some u \<Longrightarrow> \<exists>k. st_get ts k = Some u"
  by (auto simp: mapstep_def map_pos_to_tile_def Let_def split: if_split_asm option.split_asm)

lemma near_loop_total: "(\<And>d. P (mapstep m ts t d) \<noteq> None) \<Longrightarrow> near_loop P m ts t ds \<noteq> None"
  by (induction ds) (auto simp: bind_eq_None_conv)

lemma near_known:
  assumes "shaped m rs lo hi ts"
  shows "is_land_tile_near m ts (rs_terrains rs) t \<noteq> None" "is_ocean_tile_near m ts (rs_terrains rs) t \<noteq> None"
  unfolding is_land_tile_near_def is_ocean_tile_near_def
  by (intro near_loop_total; use ocean_known [OF assms] mapstep_known in \<open>force\<close>)+

lemma neighbour_height_bounds:
  assumes "shaped m rs lo hi ts" "lo \<le> h" "h \<le> hi"
  shows "lo \<le> neighbour_height m ts cs h \<and> neighbour_height m ts cs h \<le> hi"
  using assms(2,3)
proof (induction cs arbitrary: h)
  case (Cons c cs)
  have "lo \<le> (case tile_at m ts c of None \<Rightarrow> h | Some n \<Rightarrow> if tile_unknown (Some n) then h else t_height n)
      \<and> (case tile_at m ts c of None \<Rightarrow> h | Some n \<Rightarrow> if tile_unknown (Some n) then h else t_height n) \<le> hi"
    if "on_grid m c"
    using Cons.prems by (rule_tac shaped_at [OF assms(1) that]) auto
  then show ?case using Cons by simp
qed simp

lemma allocated_put:
  assumes "allocated m ts" "st_get ts k = Some t" "t_index t' = t_index t" "t_x t' = t_x t" "t_y t' = t_y t"
  shows "allocated m (st_put k t' ts)"
  using assms unfolding allocated_def by (auto simp: js.get_put)

lemma shape_tile_ok:
  assumes "shaped m rs lo hi ts" "on_grid m c" "lo \<le> 0.45" "0.55 \<le> hi"
  shows "\<exists>ts'. shape_tile m rs c ts = Some ts' \<and> shaped m rs lo hi ts'"
proof (rule shaped_at [OF assms(1,2)])
  fix t assume t: "tile_at m ts c = Some t" "st_get ts (fst c + snd c * m_xsize m) = Some t"
    "lo \<le> t_height t" "t_height t \<le> hi" "tile_terrain (rs_terrains rs) t \<noteq> None"
  obtain ocean where o: "is_ocean_tile (rs_terrains rs) (Some t) = Some ocean"
    using ocean_known [OF assms(1), of "Some t"] t(2) by auto
  obtain land where l: "(if ocean then is_land_tile_near m ts (rs_terrains rs) t else Some False) = Some land"
    using near_known(1) [OF assms(1)] by (cases ocean) auto
  obtain near where n: "(if ocean then Some False else is_ocean_tile_near m ts (rs_terrains rs) t) = Some near"
    using near_known(2) [OF assms(1)] by (cases ocean) auto
  obtain h where h: "shape_tile m rs c ts = Some (st_put (fst c + snd c * m_xsize m) (t\<lparr>t_height := h\<rparr>) ts)" "lo \<le> h" "h \<le> hi"
    using t assms(3,4) neighbour_height_bounds [OF assms(1), of "0.51" "around (fst c) (snd c)"]
    unfolding shape_tile_def t(1) o l n bind.bind_lunit Let_def by auto
  have "allocated m (st_put (fst c + snd c * m_xsize m) (t\<lparr>t_height := h\<rparr>) ts)"
    using assms(1) by (intro allocated_put [OF _ t(2)]) (simp_all add: shaped_def)
  then have "shaped m rs lo hi (st_put (fst c + snd c * m_xsize m) (t\<lparr>t_height := h\<rparr>) ts)"
    using assms(1) h t(5) by (auto simp: shaped_def js.get_put tile_terrain_def)
  then show ?thesis using h(1) by blast
qed

lemma shape_loop_ok:
  assumes "shaped m rs lo hi ts" "\<forall>c\<in>set cs. on_grid m c" "lo \<le> 0.45" "0.55 \<le> hi"
  shows "\<exists>ts'. each (shape_tile m rs) cs ts = Some ts' \<and> shaped m rs lo hi ts'"
  using assms
proof (induction cs arbitrary: ts)
  case (Cons c cs)
  then obtain ts1 where "shape_tile m rs c ts = Some ts1" "shaped m rs lo hi ts1"
    using shape_tile_ok by (metis list.set_intros(1))
  then show ?case using Cons by simp
qed simp

subsection \<open>Cells\<close>

lemma cell_pos_bounds:
  assumes "0 < q" "x < heightmap_resolution w q" "0 < w"
  shows "- 0.5 \<le> cell_pos q x" "cell_pos q x \<le> of_int w - 0.5"
proof -
  have "real x \<le> of_int w * real q" using assms by (simp add: heightmap_resolution_def) (metis less_Suc_eq_le
      nat_0_le of_int_of_nat_eq of_nat_le_iff of_nat_mult order_less_imp_le)
  then show "cell_pos q x \<le> of_int w - 0.5" using assms(1) by (simp add: cell_pos_def divide_le_eq)
qed (simp add: cell_pos_def)

lemma near_grid: "- 0.5 \<le> g \<Longrightarrow> g \<le> of_int w - 0.5 \<Longrightarrow> 0 < w \<Longrightarrow> (\<lfloor>g\<rfloor> \<in> {0..<w} \<or> \<lceil>g\<rceil> \<in> {0..<w})" for g :: real
proof (cases "g < 0")
  case True
  assume "- 0.5 \<le> g" "g \<le> of_int w - 0.5" "0 < w"
  then have "\<lceil>g\<rceil> = 0" using True by (simp add: ceiling_eq_iff)
  then show ?thesis using \<open>0 < w\<close> by simp
next
  case False
  assume "- 0.5 \<le> g" "g \<le> of_int w - 0.5" "0 < w"
  then have "\<lfloor>g\<rfloor> < w" by (simp add: floor_less_iff)
  then show ?thesis using False by simp
qed

lemma blend_bounds:
  assumes "\<And>c. c \<in> set cs \<Longrightarrow> far c \<noteq> 0 \<and> (\<exists>h. height c = Some h \<and> lo \<le> h \<and> h \<le> hi)"
    and "weight * lo \<le> acc" "acc \<le> weight * hi" "0 \<le> weight" "cs \<noteq> [] \<or> 0 < weight"
  shows "\<exists>a w. blend far height cs (acc, weight) = Some (Some (a, w)) \<and> 0 < w \<and> w * lo \<le> a \<and> a \<le> w * hi"
  using assms
proof (induction cs arbitrary: acc weight)
  case (Cons c cs)
  obtain h where h: "height c = Some h" "lo \<le> h" "h \<le> hi" "far c \<noteq> 0" using Cons.prems(1) [of c] by auto
  define v where "v = 1 / far c / far c"
  have "0 < far c * far c" using h(4) by (simp add: zero_less_mult_iff) linarith
  then have v: "0 < v" by (simp add: v_def)
  have "\<exists>a w. blend far height cs (acc + h * v, weight + v) = Some (Some (a, w)) \<and> 0 < w \<and> w * lo \<le> a \<and> a \<le> w * hi"
  proof (rule Cons.IH)
    show "(weight + v) * lo \<le> acc + h * v" "acc + h * v \<le> (weight + v) * hi"
      using Cons.prems(2,3) mult_right_mono [OF h(2) less_imp_le [OF v]] mult_right_mono [OF h(3) less_imp_le [OF v]]
      by (simp_all add: algebra_simps)
  qed (use Cons.prems v in auto)
  then show ?case using h by (simp add: v_def)
qed simp

lemma distance_pos:
  assumes "c \<in> set (corners gx gy)" "\<not> (of_int \<lfloor>gx\<rfloor> = gx \<and> of_int \<lfloor>gy\<rfloor> = gy)"
  shows "distance_to gx gy c \<noteq> 0"
proof
  assume "distance_to gx gy c = 0"
  then have "gx = of_int (fst c) \<and> gy = of_int (snd c)" by (simp add: distance_to_def sum_squares_eq_zero_iff)
  then show False using assms(2) by auto
qed

lemma corners_on_grid:
  assumes "- 0.5 \<le> gx" "gx \<le> of_int (m_xsize m) - 0.5" "0 < m_xsize m"
    and "- 0.5 \<le> gy" "gy \<le> of_int (m_ysize m) - 0.5" "0 < m_ysize m"
  shows "filter (on_grid m) (corners gx gy) \<noteq> []"
  using near_grid [OF assms(1-3)] near_grid [OF assms(4-6)] by (auto simp: corners_def on_grid_def filter_empty_conv)

lemma corner_height_bounds:
  assumes "lo \<le> t_height t" "t_height t \<le> hi" "0 \<le> lo" "tile_terrain (rs_terrains rs) t \<noteq> None" "rivers \<le> 4"
  shows "\<exists>h. corner_height rs rivers x y t = Some h \<and> lo - 0.02 \<le> h \<and> h \<le> 1.045 * hi"
proof -
  define r where "r = real (x * y mod 10)"
  define e where "e = (r / 10 - 0.5) / 50"
  have "0 \<le> r" "r \<le> 9" by (auto simp: r_def)
  then have "- 0.01 \<le> e" "e \<le> 0.008" by (simp_all add: e_def)
  moreover have "real rivers \<le> 4" "0 \<le> real rivers" using assms(5) by auto
  ultimately show ?thesis using assms(1-4)
    unfolding corner_height_def Let_def r_def [symmetric] e_def [symmetric] by auto
qed

lemma middle_height_bounds:
  assumes "lo \<le> t_height t" "t_height t \<le> hi" "0 \<le> lo" "lo \<le> 1" "tile_terrain (rs_terrains rs) t \<noteq> None"
  shows "\<exists>h. middle_height rs t = Some h \<and> lo - 0.02 \<le> h \<and> h \<le> 1.045 * hi"
  using assms by (auto simp: middle_height_def)

lemma cell_height_bounds:
  assumes s: "shaped m rs lo hi ts" and b: "0 \<le> lo" "lo \<le> 1" and q: "0 < q" "0 < m_xsize m" "0 < m_ysize m"
    and x: "x < heightmap_resolution (m_xsize m) q" and y: "y < heightmap_resolution (m_ysize m) q"
  shows "\<exists>h. cell_height m rs ts q x y = Some (Some h) \<and> lo - 0.02 \<le> h \<and> h \<le> 1.045 * hi"
proof -
  define gx gy where "gx = cell_pos q x" and "gy = cell_pos q y"
  have gx: "- 0.5 \<le> gx" "gx \<le> of_int (m_xsize m) - 0.5" using cell_pos_bounds [OF q(1) x q(2)] by (simp_all add: gx_def)
  have gy: "- 0.5 \<le> gy" "gy \<le> of_int (m_ysize m) - 0.5" using cell_pos_bounds [OF q(1) y q(3)] by (simp_all add: gy_def)
  show ?thesis
  proof (cases "of_int \<lfloor>gx\<rfloor> = gx \<and> of_int \<lfloor>gy\<rfloor> = gy")
    case True
    then have "on_grid m (\<lfloor>gx\<rfloor>, \<lfloor>gy\<rfloor>)" using gx gy by (auto simp: on_grid_def floor_less_iff le_floor_iff)
    then obtain t where t: "tile_at m ts (\<lfloor>gx\<rfloor>, \<lfloor>gy\<rfloor>) = Some t" "lo \<le> t_height t" "t_height t \<le> hi"
        "tile_terrain (rs_terrains rs) t \<noteq> None"
      using shaped_at [OF s] by metis
    then show ?thesis using True middle_height_bounds [OF t(2,3) b t(4)]
      by (auto simp: cell_height_def Let_def gx_def [symmetric] gy_def [symmetric])
  next
    case False
    let ?cs = "corners gx gy"
    let ?height = "\<lambda>c. Option.bind (tile_at m ts c) (corner_height rs (river_corners m rs ts ?cs) x y)"
    have r: "river_corners m rs ts ?cs \<le> 4"
      unfolding river_corners_def by (rule order_trans [OF length_filter_le]) (simp add: corners_def)
    have "\<exists>a w. blend (distance_to gx gy) ?height (filter (on_grid m) ?cs) (0, 0) = Some (Some (a, w))
        \<and> 0 < w \<and> w * (lo - 0.02) \<le> a \<and> a \<le> w * (1.045 * hi)"
    proof (rule blend_bounds)
      fix c assume c: "c \<in> set (filter (on_grid m) ?cs)"
      then obtain t where t: "tile_at m ts c = Some t" "lo \<le> t_height t" "t_height t \<le> hi" "tile_terrain (rs_terrains rs) t \<noteq> None"
        using shaped_at [OF s, of c thesis] by simp
      then show "distance_to gx gy c \<noteq> 0 \<and> (\<exists>h. ?height c = Some h \<and> lo - 0.02 \<le> h \<and> h \<le> 1.045 * hi)"
        using distance_pos [OF _ False] c corner_height_bounds [OF t(2,3) b(1) t(4) r] by simp
    qed (use corners_on_grid [OF gx q(2) gy q(3)] in simp_all)
    then obtain a w where "blend (distance_to gx gy) ?height (filter (on_grid m) ?cs) (0, 0) = Some (Some (a, w))"
        "0 < w" "w * (lo - 0.02) \<le> a" "a \<le> w * (1.045 * hi)" by blast
    then show ?thesis using False
      by (auto simp: cell_height_def Let_def blended_def gx_def [symmetric] gy_def [symmetric] le_divide_eq divide_le_eq mult.commute)
  qed
qed

subsection \<open>The array\<close>

lemma each_cell:
  assumes "\<forall>c\<in>set cs. \<exists>h. f c = Some h" "inj_on idx (set cs \<union> D)" "\<forall>c\<in>set cs. idx c < length hm"
    and "\<forall>c\<in>D. idx c < length hm \<and> f c = Some (hm ! idx c)"
  shows "\<exists>hm'. each (\<lambda>c hm. map_option (\<lambda>h. hm[idx c := h]) (f c)) cs hm = Some hm' \<and> length hm' = length hm
    \<and> (\<forall>c\<in>set cs \<union> D. f c = Some (hm' ! idx c))"
  using assms
proof (induction cs arbitrary: hm D)
  case (Cons c cs)
  obtain h where h: "f c = Some h" using Cons.prems(1) by auto
  have "\<forall>d\<in>insert c D. idx d < length (hm[idx c := h]) \<and> f d = Some (hm[idx c := h] ! idx d)"
  proof
    fix d assume "d \<in> insert c D"
    then have "idx d = idx c \<Longrightarrow> d = c" using inj_on_eq_iff [OF Cons.prems(2), of d c] by auto
    then show "idx d < length (hm[idx c := h]) \<and> f d = Some (hm[idx c := h] ! idx d)"
      using Cons.prems(3,4) h \<open>d \<in> insert c D\<close> by (cases "idx d = idx c") auto
  qed
  then obtain hm' where "each (\<lambda>c hm. map_option (\<lambda>h. hm[idx c := h]) (f c)) cs (hm[idx c := h]) = Some hm'"
      "length hm' = length hm" "\<forall>d\<in>set cs \<union> insert c D. f d = Some (hm' ! idx d)"
    using Cons.IH [of "insert c D" "hm[idx c := h]"] Cons.prems(1,2,3) by auto
  then show ?case using h by auto
qed simp

lemma grid_index:
  fixes x y w :: nat
  assumes "x < w" "x' < w" "y * w + x = y' * w + x'"
  shows "x = x' \<and> y = y'"
proof -
  have "(y * w + x) mod w = x" "(y' * w + x') mod w = x'" using assms(1,2) by simp_all
  then have "x = x'" using assms(3) by simp
  then show ?thesis using assms by simp
qed

lemma grid_index_bound: "x < w \<Longrightarrow> y < h \<Longrightarrow> y * w + x < w * h" for x y w h :: nat
proof -
  assume "x < w" "y < h"
  then have "y * w + x < Suc y * w" "Suc y * w \<le> h * w" by (simp, intro mult_le_mono1, simp)
  then show ?thesis by (simp add: mult.commute)
qed

lemma vertex_height_cell:
  assumes "q \<noteq> 2" "length hm = heightmap_resolution (m_xsize m) q * heightmap_resolution (m_ysize m) q"
    and "\<forall>i<length hm. \<exists>h. hm ! i = Some h \<and> lo \<le> h \<and> h \<le> hi"
  shows "lo * 100 \<le> vertex_height m q hm ix iy" "vertex_height m q hm ix iy \<le> hi * 100"
proof -
  let ?w = "heightmap_resolution (m_xsize m) q" let ?h = "heightmap_resolution (m_ysize m) q"
  let ?i = "iy mod ?h * ?w + ix mod ?w"
  have "ix mod ?w < ?w" "iy mod ?h < ?h" by (simp_all add: heightmap_resolution_def)
  then have i: "?i < length hm" using grid_index_bound assms(2) by simp
  then obtain h where h: "hm ! ?i = Some h" "lo \<le> h" "h \<le> hi" using assms(3) by blast
  have "vertex_height m q hm ix iy = h * 100"
    using i h(1) assms(1) by (simp add: vertex_height_def Let_def heightmap_scale_def)
  then show "lo * 100 \<le> vertex_height m q hm ix iy" "vertex_height m q hm ix iy \<le> hi * 100"
    using h(2,3) by simp_all
qed



subsection \<open>The mesh\<close>

lemma row_loop:
  "b + n \<le> length vs \<Longrightarrow> foldl (\<lambda>vs ix. vs[b + ix := f ix]) vs [0..<n] = take b vs @ map f [0..<n] @ drop (b + n) vs"
proof (induction n)
  case (Suc n)
  then have "drop (b + n) vs = vs ! (b + n) # drop (Suc (b + n)) vs" by (simp add: Cons_nth_drop_Suc)
  then show ?case using Suc by (simp add: list_update_append)
qed simp

lemma rows_loop:
  "k * w \<le> length vs \<Longrightarrow> foldl (\<lambda>vs iy. foldl (\<lambda>vs ix. vs[iy * w + ix := f ix iy]) vs [0..<w]) vs [0..<k]
     = concat (map (\<lambda>iy. map (\<lambda>ix. f ix iy) [0..<w]) [0..<k]) @ drop (k * w) vs"
proof (induction k)
  case (Suc k)
  let ?done = "concat (map (\<lambda>iy. map (\<lambda>ix. f ix iy) [0..<w]) [0..<k])"
  have l: "length ?done = k * w" by (induction k) simp_all
  have "foldl (\<lambda>vs ix. vs[k * w + ix := f ix k]) (?done @ drop (k * w) vs) [0..<w]
      = take (k * w) (?done @ drop (k * w) vs) @ map (\<lambda>ix. f ix k) [0..<w] @ drop (k * w + w) (?done @ drop (k * w) vs)"
    using Suc.prems l by (intro row_loop) simp
  then show ?case using Suc l by (simp add: add.commute)
qed simp

lemma land_indices_bound:
  assumes "i \<in> set (land_indices gridX gridY)"
  shows "i < (gridX + 1) * (gridY + 1)"
proof -
  obtain ix iy where xy: "ix < gridX" "iy < gridY" and i: "i \<in> {iy * (gridX + 1) + ix, (iy + 1) * (gridX + 1) + ix,
      iy * (gridX + 1) + (ix + 1), (iy + 1) * (gridX + 1) + (ix + 1)}"
    using assms by (auto simp: land_indices_def Let_def algebra_simps)
  have g: "y * (gridX + 1) + x < (gridX + 1) * (gridY + 1)" if "x < gridX + 1" "y < gridY + 1" for x y
    using that by (rule grid_index_bound)
  have "ix < gridX + 1" "ix + 1 < gridX + 1" "iy < gridY + 1" "iy + 1 < gridY + 1" using xy by auto
  then show ?thesis using i g by blast
qed

lemma init_vertices_length:
  "length (ms_vertices (init_land_geometry m q hm))
     = (heightmap_resolution (m_xsize m) q + 1) * (heightmap_resolution (m_ysize m) q + 1)"
  by (simp add: init_land_geometry_def Let_def length_concat comp_def sum_list_triv mult.commute del: upt_Suc)

lemma land_update_init:
  assumes "length (ms_vertices g) = (heightmap_resolution (m_xsize m) q + 1) * (heightmap_resolution (m_ysize m) q + 1)"
    and "ms_indices g = ms_indices (init_land_geometry m q old)" "ms_uvs g = ms_uvs (init_land_geometry m q old)"
  shows "update_land_geometry m q hm g = init_land_geometry m q hm"
proof -
  let ?w = "heightmap_resolution (m_xsize m) q + 1" and ?h = "heightmap_resolution (m_ysize m) q + 1"
  have v: "ms_vertices (init_land_geometry m q hm) = concat (map (\<lambda>iy. map (\<lambda>ix. vertex m q hm ix iy) [0..<?w]) [0..<?h])"
    by (simp add: init_land_geometry_def Let_def del: upt_Suc)
  have "ms_vertices (update_land_geometry m q hm g) = ms_vertices (init_land_geometry m q hm)"
    unfolding v update_land_geometry_def Let_def mesh.simps
    using rows_loop [of ?h ?w "ms_vertices g" "vertex m q hm"] assms(1) by (simp add: mult.commute del: upt_Suc)
  moreover have "ms_indices (update_land_geometry m q hm g) = ms_indices (init_land_geometry m q hm)"
      "ms_uvs (update_land_geometry m q hm g) = ms_uvs (init_land_geometry m q hm)"
    using assms(2,3) by (simp_all add: update_land_geometry_def init_land_geometry_def Let_def del: upt_Suc)
  ultimately show ?thesis by (intro mesh.equality) simp_all
qed



text \<open>A vertex in the cell of a tile has the colour of that tile.\<close>

lemma vertex_tile_cell:
  assumes "8 * x < k mod r" "k mod r \<le> 8 * x + 8"
  shows "vertex_tile 8 r k = int x"
proof -
  have "real (8 * x) + 1 \<le> real (k mod r)" "real (k mod r) \<le> real (8 * x) + 8" using assms by linarith+
  then show ?thesis by (simp add: vertex_tile_def floor_eq_iff)
qed

text \<open>After an update that found changed heights the land is the one built anew from its heightmap.\<close>

lemma terrain_update_rebuilds:
  assumes "update_map_terrain_geometry s = Some s'" "ls_geometry_dirty s" "generate_heightmap_hash (cl_map s) (cl_tiles s) \<noteq> Some (ls_hash s)"
    and "ls_land s = place_mesh (cl_map s) (init_land_geometry (cl_map s) (ls_quality s) old)"
  shows "ls_land s' = place_mesh (cl_map s) (init_land_geometry (cl_map s) (ls_quality s) (ls_heightmap s'))"
proof -
  let ?g = "place_mesh (cl_map s) (init_land_geometry (cl_map s) (ls_quality s) old)"
  have "length (ms_vertices ?g) = (heightmap_resolution (m_xsize (cl_map s)) (ls_quality s) + 1)
      * (heightmap_resolution (m_ysize (cl_map s)) (ls_quality s) + 1)"
    by (simp add: place_mesh_def init_vertices_length)
  moreover have "ms_indices ?g = ms_indices (init_land_geometry (cl_map s) (ls_quality s) old)"
      "ms_uvs ?g = ms_uvs (init_land_geometry (cl_map s) (ls_quality s) old)"
    by (simp_all add: place_mesh_def)
  ultimately have "update_land_geometry (cl_map s) (ls_quality s) hm ?g = init_land_geometry (cl_map s) (ls_quality s) hm" for hm
    using land_update_init by blast
  then show ?thesis using assms by (auto simp: update_map_terrain_geometry_def bind_eq_Some_conv split: if_split_asm)
qed

end
