(* ===== verification/Unit_Menu.thy ===== *)
theory Unit_Menu
  imports Orders Tech
begin

text \<open>
  The context menu of the units in focus (\<open>control.js\<close>): which orders \<open>update_unit_order_commands\<close>
  offers, and what \<open>handle_context_menu_callback\<close> does with the one that was chosen.  The menu is an
  object, so an entry keeps the place where its key was first set; its name is the text shown.  What
  the ruleset says of terrains, extras and types and only the menu reads is the record \<open>menu_rules\<close>.
\<close>

type_synonym menu = "(string \<times> string) list"

record menu_rules =
  mr_mining_time :: "int \<Rightarrow> int"               \<comment> \<open>by terrain\<close>
  mr_cultivate_time :: "int \<Rightarrow> int"
  mr_irrigation_time :: "int \<Rightarrow> int"
  mr_plant_time :: "int \<Rightarrow> int"
  mr_EXTRA_MINE :: int
  mr_EXTRA_FALLOUT :: int
  mr_EXTRA_POLLUTION :: int
  mr_EXTRA_IRRIGATION :: int
  mr_EXTRA_FARMLAND :: int
  mr_gui_type_base0 :: string                 \<comment> \<open>unqualified\<close>
  mr_gui_type_base1 :: string
  mr_obsoleted_by :: "int \<Rightarrow> int"              \<comment> \<open>by unit type\<close>
  mr_improvements :: improvement_tables
  mr_pillage_select :: bool

text \<open>Assignments to the menu in order, each under a condition.  None of the conditions reads the menu.\<close>

definition offers :: "(bool \<times> string \<times> string) list \<Rightarrow> menu \<Rightarrow> menu" where
  "offers xs mn = foldl (\<lambda>mn (b, k, v). if b then AList.update k v mn else mn) mn xs"

text \<open>The state of a technology for the player; a name that is not found is no key of the inventions.\<close>

definition invention :: "'a client_scheme \<Rightarrow> string \<Rightarrow> int" where
  "invention s name =
     (case tech_id_by_name (cl_techs s) name of None \<Rightarrow> TECH_UNKNOWN
      | Some tid \<Rightarrow> player_invention_state (playing s) tid)"

definition unit_tile :: "'a client_scheme \<Rightarrow> unit_rec \<Rightarrow> tile option" where
  "unit_tile s u = index_to_tile (cl_tiles s) (u_tile u)"

text \<open>First loop: the city under the unit.\<close>

definition city_offers :: "'a client_scheme \<Rightarrow> unit_rec \<Rightarrow> (bool \<times> string \<times> string) list option" where
  "city_offers s u = Some [(tile_city s (unit_tile s u) \<noteq> None, ''show_city'', ''Show city'')]"

text \<open>Second loop: founding, joining, exploring.  A unit off the known tiles is passed over.\<close>

definition build_offers :: "'a client_scheme \<Rightarrow> unit_rec \<Rightarrow> (bool \<times> string \<times> string) list option" where
  "build_offers s u =
     (case unit_tile s u of None \<Rightarrow> Some []
      | Some t \<Rightarrow> do {
          ptype \<leftarrow> unit_type_of s u;
          let pcity = tile_city s (Some t);
          let found = (utype_can_do_action (Some ptype) ACTION_FOUND_CITY \<and> pcity = None
                       \<and> (case u_movesleft u of None \<Rightarrow> False | Some n \<Rightarrow> n > 0));
          Some [(found, ''build'', ''Build city (B)''),
                (\<not> found \<and> utype_can_do_action (Some ptype) ACTION_JOIN_CITY \<and> pcity \<noteq> None, ''build'', ''Join city (B)''),
                (ut_name ptype = ''Explorer'', ''explore'', ''Auto explore (X)'')]
        })"

text \<open>The orders of a unit that improves terrain.\<close>

definition worker_offers :: "menu_rules \<Rightarrow> 'a client_scheme \<Rightarrow> unit_type \<Rightarrow> tile \<Rightarrow> (bool \<times> string \<times> string) list option" where
  "worker_offers mr s ptype t = do {
     let has = tile_has_extra (Some t);
     let road = has (rs_EXTRA_ROAD (cl_ruleset s));
     terrain \<leftarrow> tile_terrain (rs_terrains (cl_ruleset s)) t;
     Some [(ut_name ptype = ''Settlers'', ''autosettlers'', ''Auto settler (A)''),
           (ut_name ptype = ''Workers'', ''autosettlers'', ''Auto workers (A)''),
           (ut_name ptype = ''Engineers'', ''autosettlers'', ''Auto engineers (A)''),
           (\<not> road \<and> \<not> (has (rs_EXTRA_RIVER (cl_ruleset s)) \<and> invention s ''Bridge Building'' = TECH_UNKNOWN), ''road'', ''Build road (R)''),
           (road \<and> invention s ''Railroad'' = TECH_KNOWN \<and> \<not> has (rs_EXTRA_RAIL (cl_ruleset s)), ''railroad'', ''Build railroad (R)''),
           (\<not> has (mr_EXTRA_MINE mr) \<and> mr_mining_time mr (te_id terrain) > 0, ''mine'', ''Mine (M)''),
           (ut_name ptype = ''Engineers'', ''mine'', ''Oil well''),
           (has (mr_EXTRA_FALLOUT mr) \<or> has (mr_EXTRA_POLLUTION mr), ''clean'', ''Remove pollution (P)''),
           (mr_cultivate_time mr (te_id terrain) > 0, ''cultivate'', ''Cultivate (I)''),
           (mr_irrigation_time mr (te_id terrain) > 0 \<and> \<not> has (mr_EXTRA_IRRIGATION mr), ''irrigation'', ''Irrigation (I)''),
           (mr_irrigation_time mr (te_id terrain) > 0 \<and> has (mr_EXTRA_IRRIGATION mr) \<and> \<not> has (mr_EXTRA_FARMLAND mr)
              \<and> invention s ''Refrigeration'' = TECH_KNOWN, ''irrigation'', ''Build farmland (I)''),
           (mr_plant_time mr (te_id terrain) > 0, ''plant'', ''Plant (M)''),
           (invention s ''Construction'' = TECH_KNOWN, ''fortress'', mr_gui_type_base0 mr @ '' (Shift-F)''),
           (invention s ''Radio'' = TECH_KNOWN, ''airbase'', mr_gui_type_base1 mr @ '' (E)'')]
   }"

definition is_worker :: "unit_type \<Rightarrow> bool" where
  "is_worker ptype = (ut_name ptype \<in> {''Settlers'', ''Workers'', ''Engineers''})"

text \<open>The units of a tile and their types; a unit or a type that is not known throws.\<close>

fun units_with_types :: "'a client_scheme \<Rightarrow> int list \<Rightarrow> (unit_rec \<times> unit_type) list option" where
  "units_with_types s [] = Some []"
| "units_with_types s (k # ks) = do {
     u \<leftarrow> st_get (cl_units s) k;
     ptype \<leftarrow> unit_type_of s u;
     rest \<leftarrow> units_with_types s ks;
     Some ((u, ptype) # rest)
   }"

definition load_offer :: "'a client_scheme \<Rightarrow> unit_rec \<Rightarrow> tile \<Rightarrow> bool option" where
  "load_offer s u t =
     (if tile_city s (Some t) = None then Some False
      else map_option (list_ex (\<lambda>(_, ptype). ut_transport_capacity ptype > 0))
             (units_with_types s (filter (\<lambda>k. k \<noteq> u_id u) (t_units t))))"

definition cargo_on :: "'a client_scheme \<Rightarrow> unit_type \<Rightarrow> tile \<Rightarrow> bool option" where
  "cargo_on s ptype t =
     (if ut_transport_capacity ptype > 0 \<and> length (t_units t) \<ge> 2
      then map_option (list_ex (\<lambda>u. u_transported u)) (those (map (st_get (cl_units s)) (t_units t)))
      else Some False)"

definition pillage_offer :: "menu_rules \<Rightarrow> 'a focus_client_scheme \<Rightarrow> unit_rec \<Rightarrow> tile \<Rightarrow> bool option" where
  "pillage_offer mr s u t =
     (case playing s of None \<Rightarrow> Some False
      | Some me \<Rightarrow>
          (if client_is_observer s then Some False
           else do {
             targets \<leftarrow> get_what_can_unit_pillage_from s (mr_pillage_select mr) (Some u) (Some t);
             Some (targets \<noteq> [] \<and> (case tile_city s (Some t) of None \<Rightarrow> True | Some c \<Rightarrow> c_owner c \<noteq> p_playerno me))
           }))"

definition upgrade_offer :: "menu_rules \<Rightarrow> 'a client_scheme \<Rightarrow> unit_rec \<Rightarrow> bool" where
  "upgrade_offer mr s u =
     opt_test (can_player_build_unit_direct (playing s)) (st_get (cl_unit_types s) (mr_obsoleted_by mr (u_type u)))"

text \<open>Third loop: the orders of one unit.\<close>

definition order_offers :: "menu_rules \<Rightarrow> 'a focus_client_scheme \<Rightarrow> unit_rec \<Rightarrow> (bool \<times> string \<times> string) list option" where
  "order_offers mr s u =
     (case unit_tile s u of None \<Rightarrow> Some []
      | Some t \<Rightarrow> do {
          ptype \<leftarrow> unit_type_of s u;
          let pcity = tile_city s (Some t);
          work \<leftarrow> (if is_worker ptype then worker_offers mr s ptype t else Some [(True, ''fortify'', ''Fortify (F)'')]);
          pillage \<leftarrow> pillage_offer mr s u t;
          load \<leftarrow> load_offer s u t;
          cargo \<leftarrow> cargo_on s ptype t;
          let busy = (u_activity u \<noteq> Some ACTIVITY_IDLE \<or> u_ssa_controller u \<noteq> Some SSA_NONE \<or> u_has_orders u = Some True);
          Some (work @
            [(True, ''action_selection'', ''Do... (D)''),
             (utype_can_do_action (Some ptype) ACTION_TRANSFORM_TERRAIN, ''transform'', ''Transform terrain (O)''),
             (utype_can_do_action (Some ptype) ACTION_NUKE, ''nuke'', ''Detonate Nuke At (Shift-N)''),
             (utype_can_do_action_result (cl_actions s) (Some ptype) ACTRES_PARADROP
                \<or> utype_can_do_action_result (cl_actions s) (Some ptype) ACTRES_PARADROP_CONQUER, ''paradrop'', ''Paradrop''),
             (pillage, ''pillage'', ''Pillage (Shift-P)''),
             (opt_test (\<lambda>c. opt_test (\<lambda>h. h > 0 \<and> h \<noteq> c_id c) (u_homecity u)) pcity, ''homecity'', ''Change homecity of unit (H)''),
             (opt_test (\<lambda>c. city_has_building s c (improvement_id_by_name (mr_improvements mr) ''Airport'')) pcity, ''airlift'', ''Airlift (Shift-L)''),
             (pcity \<noteq> None \<and> upgrade_offer mr s u, ''upgrade'', ''Upgrade unit (U)''),
             (ut_name ptype \<noteq> ''Explorer'', ''explore'', ''Auto explore (X)''),
             (load, ''unit_load'', ''Load on transport (L)''),
             (cargo, ''unit_show_cargo'', ''Activate cargo units''),
             (cargo \<and> pcity \<noteq> None, ''unit_unload'', ''Unload units from transport (T)''),
             (busy, ''idle'', ''Cancel orders (Shift-J)''),
             (\<not> busy, ''noorders'', ''No orders (J)'')])
        })"

definition menu_loop :: "(unit_rec \<Rightarrow> (bool \<times> string \<times> string) list option) \<Rightarrow> unit_rec list \<Rightarrow> menu \<Rightarrow> menu option" where
  "menu_loop f funits mn = each (\<lambda>u mn. map_option (\<lambda>xs. offers xs mn) (f u)) funits mn"

definition menu_of :: "menu_rules \<Rightarrow> 'a focus_client_scheme \<Rightarrow> unit_rec list \<Rightarrow> menu option" where
  "menu_of mr s funits = do {
     m1 \<leftarrow> menu_loop (city_offers s) funits [];
     m2 \<leftarrow> menu_loop (build_offers s) funits m1;
     m3 \<leftarrow> menu_loop (order_offers mr s) funits
            (offers [(True, ''goto'', ''Unit goto (G)''), (True, ''tile_info'', ''Tile info'')] m2);
     Some (offers [(True, ''sentry'', ''Sentry (S)''), (True, ''wait'', ''Wait (W)''), (True, ''disband'', ''Disband (Shift-D)'')] m3)
   }"

definition update_unit_order_commands :: "menu_rules \<Rightarrow> 'a focus_client_scheme \<Rightarrow> menu option" where
  "update_unit_order_commands mr s = menu_of mr s (focus_units s)"

subsection \<open>The chosen entry\<close>

definition find_a_focus_unit_tile_to_center_on :: "'a focus_client_scheme \<Rightarrow> tile option" where
  "find_a_focus_unit_tile_to_center_on s =
     (case focus_units s of [] \<Rightarrow> None | u # _ \<Rightarrow> index_to_tile (cl_tiles s) (u_tile u))"

definition show_focus_city :: "'a focus_client_scheme \<Rightarrow> 'a focus_client_scheme" where
  "show_focus_city s =
     (case find_a_focus_unit_tile_to_center_on s of None \<Rightarrow> s
      | Some t \<Rightarrow> emit (Ui ''show_city_dialog'' (case tile_city s (Some t) of None \<Rightarrow> [] | Some c \<Rightarrow> [JNum (c_id c)])) s)"

text \<open>The cases of the \<open>switch\<close>; \<open>None\<close> is a key without a case.\<close>

definition context_menu_command :: "bool \<Rightarrow> (unit_rec list \<Rightarrow> unit_rec list) \<Rightarrow> bool \<Rightarrow> string
    \<Rightarrow> ('a focus_client_scheme \<Rightarrow> 'a focus_client_scheme option) option" where
  "context_menu_command pillage_select srt touch key =
     map_of [(''build'', request_unit_build_city),
             (''tile_info'', (\<lambda>s. Some (popit_req (find_a_focus_unit_tile_to_center_on s) s))),
             (''goto'', (\<lambda>s. Some (activate_goto touch s))),
             (''explore'', (\<lambda>s. Some (key_unit_auto_explore s))),
             (''fortify'', (\<lambda>s. Some (key_unit_fortify s))),
             (''road'', key_unit_road),
             (''railroad'', key_unit_road),
             (''plant'', (\<lambda>s. Some (key_unit_plant s))),
             (''mine'', (\<lambda>s. Some (key_unit_mine s))),
             (''autosettlers'', (\<lambda>s. Some (key_unit_auto_settle s))),
             (''clean'', (\<lambda>s. Some (key_unit_clean s))),
             (''cultivate'', (\<lambda>s. Some (key_unit_cultivate s))),
             (''irrigation'', (\<lambda>s. Some (key_unit_irrigate s))),
             (''fortress'', (\<lambda>s. Some (key_unit_fortress s))),
             (''airbase'', (\<lambda>s. Some (key_unit_airbase s))),
             (''transform'', (\<lambda>s. Some (key_unit_transform s))),
             (''nuke'', (\<lambda>s. Some (key_unit_nuke touch s))),
             (''paradrop'', (\<lambda>s. Some (key_unit_paradrop s))),
             (''pillage'', key_unit_pillage pillage_select),
             (''homecity'', (\<lambda>s. Some (key_unit_homecity s))),
             (''airlift'', (\<lambda>s. Some (key_unit_airlift s))),
             (''sentry'', (\<lambda>s. Some (key_unit_sentry s))),
             (''wait'', key_unit_wait srt),
             (''noorders'', key_unit_noorders srt),
             (''idle'', (\<lambda>s. Some (key_unit_idle s))),
             (''upgrade'', key_unit_upgrade srt),
             (''disband'', (\<lambda>s. Some (key_unit_disband s))),
             (''unit_load'', key_unit_load),
             (''unit_unload'', key_unit_unload),
             (''unit_show_cargo'', key_unit_show_cargo),
             (''action_selection'', (\<lambda>s. Some (key_unit_action_select s))),
             (''show_city'', (\<lambda>s. Some (show_focus_city s)))] key"

definition handle_context_menu_callback :: "bool \<Rightarrow> (unit_rec list \<Rightarrow> unit_rec list) \<Rightarrow> bool \<Rightarrow> string
    \<Rightarrow> 'a focus_client_scheme \<Rightarrow> 'a focus_client_scheme option" where
  "handle_context_menu_callback pillage_select srt touch key s = do {
     s1 \<leftarrow> (case context_menu_command pillage_select srt touch key of None \<Rightarrow> Some s | Some f \<Rightarrow> f s);
     Some (if key \<noteq> ''goto'' \<and> touch then deactivate_goto False s1 else s1)
   }"

end
