(* ===== verification/Unit_Menu_Facts.thy ===== *)
theory Unit_Menu_Facts
  imports Unit_Menu Unit_Facts
begin

text \<open>
  The menu of a group of units is put together from those of its units, and every entry has a case in
  the callback.
\<close>

definition keys :: "menu \<Rightarrow> string set" where
  "keys mn = fst ` set mn"

definition offered :: "(bool \<times> string \<times> string) list \<Rightarrow> string set" where
  "offered xs = {k. \<exists>v. (True, k, v) \<in> set xs}"

lemma keys_offers: "keys (offers xs mn) = keys mn \<union> offered xs"
proof (induction xs arbitrary: mn)
  case (Cons x xs)
  obtain b k v where x: "x = (b, k, v)" by (cases x)
  have "keys (AList.update k v mn) = insert k (keys mn)" by (simp add: keys_def AList.dom_update)
  then show ?case using Cons by (auto simp: offers_def x offered_def)
qed (simp add: offers_def offered_def)

lemma distinct_offers: "distinct (map fst mn) \<Longrightarrow> distinct (map fst (offers xs mn))"
  by (induction xs arbitrary: mn) (auto simp: offers_def distinct_update split: prod.split)

lemma offered_append [simp]: "offered (xs @ ys) = offered xs \<union> offered ys"
  by (auto simp: offered_def)

lemma menu_loop_keys:
  assumes "menu_loop f us mn = Some mn'"
  shows "keys mn' = keys mn \<union> (\<Union>u\<in>set us. \<Union>xs\<in>set_option (f u). offered xs)
    \<and> (\<forall>u\<in>set us. f u \<noteq> None) \<and> (distinct (map fst mn) \<longrightarrow> distinct (map fst mn'))"
  using assms
proof (induction us arbitrary: mn)
  case (Cons u us)
  then obtain xs where "f u = Some xs" "menu_loop f us (offers xs mn) = Some mn'"
    by (auto simp: menu_loop_def bind_eq_Some_conv)
  then show ?case using Cons.IH [of "offers xs mn"] distinct_offers [of mn xs] by (auto simp: keys_offers)
qed (simp add: menu_loop_def)

definition handled :: "string \<Rightarrow> bool" where
  "handled k = (k \<in> {''build'', ''tile_info'', ''goto'', ''explore'', ''fortify'', ''road'', ''railroad'', ''plant'', ''mine'',
     ''autosettlers'', ''clean'', ''cultivate'', ''irrigation'', ''fortress'', ''airbase'', ''transform'', ''nuke'', ''paradrop'',
     ''pillage'', ''homecity'', ''airlift'', ''sentry'', ''wait'', ''noorders'', ''idle'', ''upgrade'', ''disband'', ''unit_load'',
     ''unit_unload'', ''unit_show_cargo'', ''action_selection'', ''show_city''})"

lemma handled_command: "handled k \<Longrightarrow> context_menu_command ps srt touch k \<noteq> None"
  unfolding handled_def by (elim insertE emptyE; simp only: context_menu_command_def; simp)

lemma handled_keys:
  "handled ''build''" "handled ''tile_info''" "handled ''goto''" "handled ''explore''" "handled
  ''fortify''" "handled ''road''" "handled ''railroad''" "handled ''plant''" "handled ''mine''"
  "handled ''autosettlers''" "handled ''clean''" "handled ''cultivate''" "handled ''irrigation''"
  "handled ''fortress''" "handled ''airbase''" "handled ''transform''" "handled ''nuke''" "handled
  ''paradrop''" "handled ''pillage''" "handled ''homecity''" "handled ''airlift''" "handled
  ''sentry''" "handled ''wait''" "handled ''noorders''" "handled ''idle''" "handled ''upgrade''"
  "handled ''disband''" "handled ''unit_load''" "handled ''unit_unload''" "handled
  ''unit_show_cargo''" "handled ''action_selection''" "handled ''show_city''"
  by (simp_all add: handled_def)

definition items_handled :: "(bool \<times> string \<times> string) list \<Rightarrow> bool" where
  "items_handled xs = list_all (\<lambda>(b, k, v). handled k) xs"

lemma offered_handled: "items_handled xs \<Longrightarrow> k \<in> offered xs \<Longrightarrow> handled k"
  by (auto simp: items_handled_def offered_def list_all_iff)

lemma build_items: "build_offers s u = Some xs \<Longrightarrow> items_handled xs"
  by (auto simp: build_offers_def Let_def items_handled_def handled_keys bind_eq_Some_conv split: option.split_asm)

lemma worker_items: "worker_offers mr s ptype t = Some xs \<Longrightarrow> items_handled xs"
  by (auto simp: worker_offers_def Let_def items_handled_def handled_keys bind_eq_Some_conv)

lemma order_items: "order_offers mr s u = Some xs \<Longrightarrow> items_handled xs"
  by (auto simp: order_offers_def Let_def items_handled_def handled_keys bind_eq_Some_conv
    split: option.split_asm if_split_asm dest!: worker_items)

definition unit_keys :: "menu_rules \<Rightarrow> 'a focus_client_scheme \<Rightarrow> unit_rec \<Rightarrow> string set" where
  "unit_keys mr s u = (\<Union>f\<in>{city_offers s, build_offers s, order_offers mr s}. \<Union>xs\<in>set_option (f u). offered xs)"

definition base_keys :: "string set" where
  "base_keys = {''goto'', ''tile_info'', ''sentry'', ''wait'', ''disband''}"

lemma menu_of_keys:
  assumes "menu_of mr s us = Some mn"
  shows "keys mn = base_keys \<union> (\<Union>u\<in>set us. unit_keys mr s u)" "distinct (map fst mn)"
    and "\<forall>u\<in>set us. build_offers s u \<noteq> None \<and> order_offers mr s u \<noteq> None"
proof -
  let ?b1 = "[(True, ''goto'', ''Unit goto (G)''), (True, ''tile_info'', ''Tile info'')]"
  let ?b2 = "[(True, ''sentry'', ''Sentry (S)''), (True, ''wait'', ''Wait (W)''), (True, ''disband'', ''Disband (Shift-D)'')]"
  obtain m1 m2 m3 where m: "menu_loop (city_offers s) us [] = Some m1" "menu_loop (build_offers s) us m1 = Some m2"
      "menu_loop (order_offers mr s) us (offers ?b1 m2) = Some m3" "mn = offers ?b2 m3"
    using assms by (auto simp: menu_of_def bind_eq_Some_conv)
  note k = menu_loop_keys [OF m(1)] menu_loop_keys [OF m(2)] menu_loop_keys [OF m(3)]
  have b: "offered ?b1 = {''goto'', ''tile_info''}" "offered ?b2 = {''sentry'', ''wait'', ''disband''}"
    by (auto simp: offered_def)
  show "keys mn = base_keys \<union> (\<Union>u\<in>set us. unit_keys mr s u)"
    using k unfolding m(4) keys_offers b by (auto simp: unit_keys_def base_keys_def keys_def)
  show "distinct (map fst mn)"
    using k distinct_offers [of m2 ?b1] distinct_offers [of m3 ?b2] unfolding m(4) by simp
  show "\<forall>u\<in>set us. build_offers s u \<noteq> None \<and> order_offers mr s u \<noteq> None" using k by blast
qed

lemma menu_loop_total: "\<forall>u\<in>set us. f u \<noteq> None \<Longrightarrow> \<exists>mn'. menu_loop f us mn = Some mn'"
proof (induction us arbitrary: mn)
  case (Cons u us)
  then obtain xs where "f u = Some xs" by auto
  then show ?case using Cons by (simp add: menu_loop_def)
qed (simp add: menu_loop_def)

lemma menu_of_total:
  assumes "\<forall>u\<in>set us. build_offers s u \<noteq> None \<and> order_offers mr s u \<noteq> None"
  shows "\<exists>mn. menu_of mr s us = Some mn"
proof -
  let ?b = "offers [(True, ''goto'', ''Unit goto (G)''), (True, ''tile_info'', ''Tile info'')]"
  obtain m1 where m1: "menu_loop (city_offers s) us [] = Some m1"
    using menu_loop_total [of us "city_offers s" "[]"] by (auto simp: city_offers_def)
  obtain m2 where m2: "menu_loop (build_offers s) us m1 = Some m2" using menu_loop_total assms by blast
  obtain m3 where m3: "menu_loop (order_offers mr s) us (?b m2) = Some m3" using menu_loop_total assms by blast
  show ?thesis unfolding menu_of_def m1 by (simp add: m2 m3)
qed

lemma unit_keys_handled: "k \<in> unit_keys mr s u \<Longrightarrow> handled k"
  by (auto simp: unit_keys_def offered_def city_offers_def items_handled_def list_all_iff handled_keys
    dest!: build_items order_items)

text \<open>
  C17. The context menu of a group.  When the menu of the units in focus can be put together, it has no
  entry twice, it offers exactly what the menus of the single units offer, and every entry that can be
  chosen has a case in handle_context_menu_callback.
\<close>

theorem menu_offers_what_units_offer:
  assumes "menu_of mr s us = Some mn" "us \<noteq> []"
  shows "distinct (map fst mn)
    \<and> (\<forall>k. k \<in> fst ` set mn \<longleftrightarrow> (\<exists>u\<in>set us. \<exists>m. menu_of mr s [u] = Some m \<and> k \<in> fst ` set m))
    \<and> (\<forall>k\<in>fst ` set mn. context_menu_command ps srt touch k \<noteq> None)"
proof (intro conjI allI ballI)
  note k = menu_of_keys [OF assms(1)]
  show "distinct (map fst mn)" by (rule k(2))
  have single: "\<exists>m. menu_of mr s [u] = Some m \<and> keys m = base_keys \<union> unit_keys mr s u" if "u \<in> set us" for u
  proof -
    have "\<exists>m. menu_of mr s [u] = Some m" using k(3) that by (intro menu_of_total) simp
    then obtain m where m: "menu_of mr s [u] = Some m" by blast
    then show ?thesis using menu_of_keys(1) [OF m] by auto
  qed
  show "x \<in> fst ` set mn \<longleftrightarrow> (\<exists>u\<in>set us. \<exists>m. menu_of mr s [u] = Some m \<and> x \<in> fst ` set m)" (is "?l = ?r") for x
  proof
    assume ?l
    then have x: "x \<in> base_keys \<or> (\<exists>u\<in>set us. x \<in> unit_keys mr s u)" using k(1) by (simp add: keys_def)
    obtain u0 where u0: "u0 \<in> set us" using assms(2) by (cases us) auto
    from x obtain u where u: "u \<in> set us" "x \<in> base_keys \<union> unit_keys mr s u" using u0 by blast
    obtain m where m: "menu_of mr s [u] = Some m" "keys m = base_keys \<union> unit_keys mr s u" using single [OF u(1)] by blast
    show ?r using u m unfolding keys_def by blast
  next
    assume ?r
    then obtain u m where u: "u \<in> set us" "menu_of mr s [u] = Some m" "x \<in> fst ` set m" by blast
    obtain m' where m: "menu_of mr s [u] = Some m'" "keys m' = base_keys \<union> unit_keys mr s u" using single [OF u(1)] by blast
    have "x \<in> base_keys \<union> unit_keys mr s u" using u(2,3) m by (simp add: keys_def)
    then show ?l using u(1) k(1) unfolding keys_def by blast
  qed
  show "context_menu_command ps srt touch x \<noteq> None" if "x \<in> fst ` set mn" for x
  proof (rule handled_command)
    have "x \<in> base_keys \<or> (\<exists>u\<in>set us. x \<in> unit_keys mr s u)" using that k(1) by (auto simp: keys_def)
    then show "handled x" using unit_keys_handled by (auto simp: base_keys_def handled_keys)
  qed
qed

text \<open>Two units in focus, one on a tile of the map and one outside it.\<close>

definition menu_rules0 :: menu_rules where
  "menu_rules0 = \<lparr>mr_mining_time = (\<lambda>_. 0), mr_cultivate_time = (\<lambda>_. 0), mr_irrigation_time = (\<lambda>_. 0), mr_plant_time = (\<lambda>_. 0),
     mr_EXTRA_MINE = 0, mr_EXTRA_FALLOUT = 0, mr_EXTRA_POLLUTION = 0, mr_EXTRA_IRRIGATION = 0, mr_EXTRA_FARMLAND = 0,
     mr_gui_type_base0 = [], mr_gui_type_base1 = [], mr_obsoleted_by = (\<lambda>_. 9),
     mr_improvements = \<lparr>it_improvements = [], it_name_index = []\<rparr>, mr_pillage_select = False\<rparr>"

definition menu_client :: "unit focus_client_scheme" where
  "menu_client = (focus0 ())\<lparr>cl_tiles := [(0, tile0)], cl_unit_types := [(0, unit_type0\<lparr>ut_name := ''Explorer''\<rparr>)]\<rparr>"

lemma menu_client_simps:
  "index_to_tile (cl_tiles menu_client) 0 = Some tile0" "index_to_tile (cl_tiles menu_client) 7 = None"
  "unit_type_of menu_client unit0 = Some (unit_type0\<lparr>ut_name := ''Explorer''\<rparr>)" "tile_city menu_client (Some tile0) = None"
  "playing menu_client = None"
  by (simp_all add: menu_client_def index_to_tile_def unit_type_of_def tile_city_def playing_def st_get_def tile0_def)

lemma menu_sample: "\<exists>mn. menu_of menu_rules0 menu_client [unit0, unit0\<lparr>u_tile := 7\<rparr>] = Some mn"
  by (rule menu_of_total) (simp add: build_offers_def order_offers_def unit_tile_def menu_client_simps is_worker_def
      pillage_offer_def load_offer_def cargo_on_def Let_def)

theorem menu_offers_what_units_offer_witness:
  "\<exists>mn. menu_of menu_rules0 menu_client [unit0, unit0\<lparr>u_tile := 7\<rparr>] = Some mn \<and> distinct (map fst mn)"
proof -
  obtain mn where mn: "menu_of menu_rules0 menu_client [unit0, unit0\<lparr>u_tile := 7\<rparr>] = Some mn" using menu_sample by blast
  then show ?thesis using menu_offers_what_units_offer [OF mn, of False id False] by blast
qed

text \<open>On a touch screen the callback takes back the goto that the entry for the bomb has started.\<close>

lemma touch_nuke_taken_back:
  "handle_context_menu_callback ps srt True ''nuke'' s = Some s' \<Longrightarrow> \<not> fc_goto_active s'"
  by (auto simp: handle_context_menu_callback_def bind_eq_Some_conv deactivate_goto_def emits_def)

end
