(* ===== verification/Stream_Capture.thy ===== *)
theory Stream_Capture
  imports Js_Text
begin

text \<open>
  The streamer of \<open>src/streaming/stream.js\<close>: it opens the observer page in a browser, records the screen
  with \<open>ffmpeg\<close>, and on a signal stops, uploads the recording and closes the browser.  What the browser,
  \<open>ffmpeg\<close>, the storage, the parser of addresses and the environment answer is the record \<open>world\<close>; what
  the code asks of them is recorded in order in \<open>cp_calls\<close>.  Logging is left out.
\<close>

datatype outcome = Done | Throws "string option"    \<comment> \<open>\<open>Throws None\<close> throws \<open>undefined\<close>\<close>

datatype launch_outcome = Launched | LaunchFails string | PageFails string | ViewportFails string

datatype nav_outcome = Loaded | GotoFails string | NoCanvas string | EvaluateFails string | NoWebgl

record world =
  w_env :: "string \<Rightarrow> string option"                \<comment> \<open>\<open>process.env\<close>\<close>
  w_url :: "string \<Rightarrow> (string \<times> string) option"    \<comment> \<open>\<open>new URL\<close>: protocol and hostname, or an exception\<close>
  w_twice :: "string \<Rightarrow> string"                     \<comment> \<open>text of twice the number of a text that is no run of digits\<close>
  w_launch :: launch_outcome
  w_nav :: "int \<Rightarrow> nav_outcome"                     \<comment> \<open>by attempt\<close>
  w_spawn :: "int \<Rightarrow> string option"                 \<comment> \<open>by attempt: the exception of \<open>spawn\<close>\<close>
  w_exits :: bool                                   \<comment> \<open>\<open>ffmpeg\<close> ends within 10 seconds\<close>
  w_exists :: bool                                  \<comment> \<open>the recording is a file\<close>
  w_storage :: "string option"                      \<comment> \<open>exception of \<open>statSync\<close> or \<open>Storage\<close>\<close>
  w_close :: "string option"                        \<comment> \<open>exception of closing the browser\<close>

datatype call =
    Launch "string list"
  | NewPage
  | SetViewport string "string option"
  | Goto string int
  | WaitForCanvas int
  | CheckWebgl
  | Sleep int
  | Spawn "string list"
  | WaitForSignal
  | Kill string
  | Upload string string string int                 \<comment> \<open>bucket, file, destination, limit of time\<close>
  | CloseBrowser

subsection \<open>Texts\<close>

fun split_on :: "char \<Rightarrow> string \<Rightarrow> string list" where
  "split_on d [] = [[]]"
| "split_on d (c # cs) =
     (if c = d then [] # split_on d cs
      else (case split_on d cs of [] \<Rightarrow> [[c]] | w # ws \<Rightarrow> (c # w) # ws))"

definition ends_with :: "string \<Rightarrow> string \<Rightarrow> bool" where
  "ends_with p s = (length p \<le> length s \<and> drop (length s - length p) s = p)"

fun replace_char_once :: "char \<Rightarrow> string \<Rightarrow> string \<Rightarrow> string" where
  "replace_char_once d t [] = []"
| "replace_char_once d t (c # cs) = (if c = d then t @ cs else c # replace_char_once d t cs)"

text \<open>\<open>parseInt(text, 10)\<close>; \<open>None\<close> is \<open>NaN\<close>.\<close>

definition digits_value :: "string \<Rightarrow> int option" where
  "digits_value s = (let ds = takeWhile is_digit s in if ds = [] then None else Some (int (text_nat 0 ds)))"

definition parseInt :: "string \<Rightarrow> int option" where
  "parseInt s =
     (case dropWhile is_space s of [] \<Rightarrow> None
      | c # cs \<Rightarrow> if c = CHR ''-'' then map_option uminus (digits_value cs)
                  else if c = CHR ''+'' then digits_value cs else digits_value (c # cs))"

text \<open>The last part of a path (\<open>path.basename\<close>).\<close>

definition basename :: "string \<Rightarrow> string" where
  "basename p = rev (takeWhile (\<lambda>c. c \<noteq> CHR ''/'') (dropWhile (\<lambda>c. c = CHR ''/'') (rev p)))"

text \<open>\<open>a || b\<close> on texts and numbers.\<close>

definition text_or :: "string option \<Rightarrow> string \<Rightarrow> string" where
  "text_or v d = (case v of None \<Rightarrow> d | Some s \<Rightarrow> if s = [] then d else s)"

definition int_or :: "int option \<Rightarrow> int \<Rightarrow> int" where
  "int_or v d = (case v of None \<Rightarrow> d | Some k \<Rightarrow> if k = 0 then d else k)"

subsection \<open>What is accepted\<close>

definition safe_path_char :: "char \<Rightarrow> bool" where
  "safe_path_char c = (is_upper c \<or> is_lower c \<or> is_digit c \<or> c \<in> set ''/_.-'')"

definition isValidPath :: "string option \<Rightarrow> bool" where
  "isValidPath filePath =
     (case filePath of None \<Rightarrow> False
      | Some p \<Rightarrow> p \<noteq> [] \<and> list_all safe_path_char p \<and> \<not> js_includes p ''..'')"

definition host_allowed :: "string \<Rightarrow> string \<Rightarrow> bool" where
  "host_allowed hostname allowed = (hostname = allowed \<or> ends_with (CHR ''.'' # allowed) hostname)"

definition allowed_hosts :: "world \<Rightarrow> string list" where
  "allowed_hosts w =
     map (\<lambda>h. toLowerCase (trim h)) (split_on (CHR '','')
       (text_or (w_env w ''ALLOWED_OBSERVER_HOSTS'')
         ''localhost,host.docker.internal,freeciv.clashai.live,freeciv.agentclash.gg,127.0.0.1''))"

definition isValidObserverUrl :: "world \<Rightarrow> string option \<Rightarrow> bool" where
  "isValidObserverUrl w url =
     (case url of None \<Rightarrow> False
      | Some u \<Rightarrow> u \<noteq> [] \<and>
          (case w_url w u of None \<Rightarrow> False
           | Some (protocol, hostname) \<Rightarrow>
               protocol \<in> {''http:'', ''https:''} \<and> list_ex (host_allowed (toLowerCase hostname)) (allowed_hosts w)))"

subsection \<open>Configuration\<close>

record stream_config =
  sc_observerUrl :: string
  sc_streamKey :: string
  sc_devMode :: string
  sc_localRtmpUrl :: string
  sc_resolution :: string
  sc_fps :: int
  sc_bitrate :: string
  sc_backupPath :: string
  sc_display :: string
  sc_maxRetries :: int
  sc_retryDelay :: int

definition getConfigFromEnv :: "world \<Rightarrow> stream_config" where
  "getConfigFromEnv w =
     (let env = w_env w
      in \<lparr>sc_observerUrl = text_or (env ''OBSERVER_URL'') [],
          sc_streamKey = text_or (env ''STREAM_KEY'') [],
          sc_devMode = text_or (env ''DEV_MODE'') [],
          sc_localRtmpUrl = text_or (env ''LOCAL_RTMP_URL'') ''rtmp://localhost:1935/stream/live'',
          sc_resolution = text_or (env ''RESOLUTION'') ''1280x720'',
          sc_fps = int_or (Option.bind (env ''FPS'') parseInt) 30,
          sc_bitrate = text_or (env ''BITRATE'') ''2500k'',
          sc_backupPath = text_or (env ''BACKUP_PATH'') ''/backup/recording.mp4'',
          sc_display = text_or (env ''DISPLAY'') '':99'',
          sc_maxRetries = int_or (Option.bind (env ''MAX_RETRIES'') parseInt) 3,
          sc_retryDelay = int_or (Option.bind (env ''RETRY_DELAY_MS'') parseInt) 5000\<rparr>)"

definition GCS_BUCKET :: "world \<Rightarrow> string" where
  "GCS_BUCKET w = text_or (w_env w ''GCS_BACKUP_BUCKET'') []"

definition GCS_PREFIX :: "world \<Rightarrow> string" where
  "GCS_PREFIX w = text_or (w_env w ''GCS_BACKUP_PREFIX'') ''stream-backups''"

definition GCS_UPLOAD_TIMEOUT_MS :: "world \<Rightarrow> int" where
  "GCS_UPLOAD_TIMEOUT_MS w = int_or (Option.bind (w_env w ''GCS_UPLOAD_TIMEOUT_MS'') parseInt) 300000"

definition YOUTUBE_RTMPS_URL :: "world \<Rightarrow> string" where
  "YOUTUBE_RTMPS_URL w = text_or (w_env w ''YOUTUBE_RTMPS_URL'') ''rtmps://a.rtmps.youtube.com/live2''"

record capture =
  cp_config :: stream_config
  cp_width :: string                       \<comment> \<open>the text of the number\<close>
  cp_height :: "string option"
  cp_browser :: bool
  cp_ffmpeg :: bool
  cp_shutting :: bool                      \<comment> \<open>\<open>isShuttingDown\<close>\<close>
  cp_last_log :: int                       \<comment> \<open>\<open>lastProgressLog\<close>\<close>
  cp_calls :: "call list"

text \<open>The constructor; \<open>None\<close> when it throws.\<close>

definition newStreamCapture :: "stream_config \<Rightarrow> capture option" where
  "newStreamCapture c =
     (let backupPath = text_or (Some (sc_backupPath c)) ''/backup/recording.mp4'';
          resolution = text_or (Some (sc_resolution c)) ''1280x720'';
          parts = split_on (CHR ''x'') resolution
      in if \<not> isValidPath (Some backupPath) then None
         else Some \<lparr>cp_config =
                \<lparr>sc_observerUrl = sc_observerUrl c, sc_streamKey = sc_streamKey c, sc_devMode = sc_devMode c,
                 sc_localRtmpUrl = text_or (Some (sc_localRtmpUrl c)) ''rtmp://localhost:1935/stream/live'',
                 sc_resolution = resolution, sc_fps = int_or (Some (sc_fps c)) 30,
                 sc_bitrate = text_or (Some (sc_bitrate c)) ''2500k'', sc_backupPath = backupPath,
                 sc_display = text_or (Some (sc_display c)) '':99'', sc_maxRetries = int_or (Some (sc_maxRetries c)) 3,
                 sc_retryDelay = int_or (Some (sc_retryDelay c)) 5000\<rparr>,
              cp_width = hd parts, cp_height = (if length parts < 2 then None else Some (parts ! 1)),
              cp_browser = False, cp_ffmpeg = False, cp_shutting = False, cp_last_log = 0, cp_calls = []\<rparr>)"

definition calls :: "call list \<Rightarrow> capture \<Rightarrow> capture" where
  "calls cs s = s\<lparr>cp_calls := cp_calls s @ cs\<rparr>"

subsection \<open>The browser\<close>

definition browser_args :: "stream_config \<Rightarrow> string list" where
  "browser_args c =
     [''--no-sandbox'', ''--disable-setuid-sandbox'', ''--use-gl=swiftshader'', ''--use-angle=swiftshader'',
      ''--enable-webgl'', ''--enable-webgl2'', ''--disable-dev-shm-usage'', ''--disable-background-networking'',
      ''--disable-default-apps'', ''--disable-extensions'', ''--disable-sync'', ''--disable-translate'',
      ''--disable-backgrounding-occluded-windows'', ''--disable-renderer-backgrounding'',
      ''--disable-features=TranslateUI'', ''--disable-ipc-flooding-protection'', ''--renderer-process-limit=1'',
      ''--single-process'', ''--memory-pressure-off'', ''--max-gum-fps=30'',
      ''--window-size='' @ replace_char_once (CHR ''x'') '','' (sc_resolution c), ''--no-first-run'', ''--mute-audio'']"

definition launchBrowser :: "world \<Rightarrow> capture \<Rightarrow> capture \<times> outcome" where
  "launchBrowser w s =
     (let s1 = calls [Launch (browser_args (cp_config s))] s;
          s2 = calls [NewPage] (s1\<lparr>cp_browser := True\<rparr>);
          s3 = calls [SetViewport (cp_width s) (cp_height s)] s2
      in case w_launch w of
           LaunchFails e \<Rightarrow> (s1, Throws (Some e))
         | PageFails e \<Rightarrow> (s2, Throws (Some e))
         | ViewportFails e \<Rightarrow> (s3, Throws (Some e))
         | Launched \<Rightarrow> (s3, Done))"

text \<open>
  The loop over attempts of \<open>navigateToGame\<close> and \<open>startFfmpeg\<close>: \<open>body\<close> is the block of the \<open>try\<close>, \<open>last\<close>
  the last error.
\<close>

function retry :: "(int \<Rightarrow> capture \<Rightarrow> capture \<times> string option) \<Rightarrow> int \<Rightarrow> int \<Rightarrow> int \<Rightarrow> string option \<Rightarrow> capture
    \<Rightarrow> capture \<times> outcome" where
  "retry body maxRetries retryDelay attempt lastError s =
     (if attempt > maxRetries then (s, Throws lastError)
      else (case body attempt s of
              (s1, None) \<Rightarrow> (s1, Done)
            | (s1, Some e) \<Rightarrow>
                retry body maxRetries retryDelay (attempt + 1) (Some e)
                  (if attempt < maxRetries then calls [Sleep retryDelay] s1 else s1)))"
  by pat_completeness auto
termination by (relation "measure (\<lambda>(_, m, _, k, _, _). nat (m + 1 - k))") auto

declare retry.simps [simp del]

definition retries :: "(int \<Rightarrow> capture \<Rightarrow> capture \<times> string option) \<Rightarrow> capture \<Rightarrow> capture \<times> outcome" where
  "retries body s = retry body (sc_maxRetries (cp_config s)) (sc_retryDelay (cp_config s)) 1 None s"

definition nav_attempt :: "world \<Rightarrow> int \<Rightarrow> capture \<Rightarrow> capture \<times> string option" where
  "nav_attempt w k s =
     (let s1 = calls [Goto (sc_observerUrl (cp_config s)) 60000] s; s2 = calls [WaitForCanvas 90000] s1;
          s3 = calls [CheckWebgl] s2
      in case w_nav w k of
           GotoFails e \<Rightarrow> (s1, Some e)
         | NoCanvas e \<Rightarrow> (s2, Some e)
         | EvaluateFails e \<Rightarrow> (s3, Some e)
         | NoWebgl \<Rightarrow> (s3, Some ''WebGL context not available'')
         | Loaded \<Rightarrow> (s3, None))"

definition navigateToGame :: "world \<Rightarrow> capture \<Rightarrow> capture \<times> outcome" where
  "navigateToGame w = retries (nav_attempt w)"

subsection \<open>The recorder\<close>

definition buildFfmpegOutput :: "world \<Rightarrow> stream_config \<Rightarrow> string list \<times> string" where
  "buildFfmpegOutput w c =
     (if sc_devMode c = ''file'' then ([''-f'', ''mp4'', sc_backupPath c], ''file only'')
      else if sc_devMode c = ''local''
      then ([''-f'', ''tee'', ''-map'', ''0:v'',
             ''[f=flv:flvflags=no_duration_filesize:bsfs/v=dump_extra]'' @ sc_localRtmpUrl c @ ''|[f=mp4]'' @ sc_backupPath c],
            sc_localRtmpUrl c)
      else ([''-f'', ''tee'', ''-map'', ''0:v'',
             ''[f=flv:bsfs/v=dump_extra]'' @ (YOUTUBE_RTMPS_URL w @ ''/'' @ sc_streamKey c) @ ''|[f=mp4]'' @ sc_backupPath c],
            YOUTUBE_RTMPS_URL w @ ''/***''))"

text \<open>\<open>text * 2\<close>\<close>

definition twice_text :: "world \<Rightarrow> string \<Rightarrow> string" where
  "twice_text w s =
     (let t = trim s
      in if t = [] then ''0'' else if list_all is_digit t then nat_text (text_nat 0 t * 2) else w_twice w t)"

definition ffmpeg_args :: "world \<Rightarrow> stream_config \<Rightarrow> string list" where
  "ffmpeg_args w c =
     [''-f'', ''x11grab'', ''-video_size'', sc_resolution c, ''-framerate'', int_text (sc_fps c), ''-i'', sc_display c,
      ''-c:v'', ''libx264'', ''-preset'', ''veryfast'', ''-tune'', ''zerolatency'',
      ''-b:v'', sc_bitrate c, ''-maxrate'', sc_bitrate c,
      ''-bufsize'', twice_text w (replace_char_once (CHR ''k'') [] (sc_bitrate c)) @ ''k'',
      ''-g'', int_text (sc_fps c * 2), ''-keyint_min'', int_text (sc_fps c * 2), ''-sc_threshold'', ''0'',
      ''-flags'', ''+global_header'', ''-pix_fmt'', ''yuv420p'', ''-an''] @ fst (buildFfmpegOutput w c)"

definition ffmpeg_attempt :: "world \<Rightarrow> int \<Rightarrow> capture \<Rightarrow> capture \<times> string option" where
  "ffmpeg_attempt w k s =
     (let s1 = calls [Spawn (ffmpeg_args w (cp_config s))] s
      in case w_spawn w k of Some e \<Rightarrow> (s1, Some e) | None \<Rightarrow> (s1\<lparr>cp_ffmpeg := True\<rparr>, None))"

definition startFfmpeg :: "world \<Rightarrow> capture \<Rightarrow> capture \<times> outcome" where
  "startFfmpeg w = retries (ffmpeg_attempt w)"

text \<open>A message of \<open>ffmpeg\<close>; the second part is what is logged.  Progress is logged every 10 seconds.\<close>

definition ffmpeg_message :: "int \<Rightarrow> string \<Rightarrow> capture \<Rightarrow> capture \<times> string option" where
  "ffmpeg_message now data s =
     (let msg = trim data
      in if js_includes msg ''frame='' \<or> js_includes msg ''fps=''
         then if now - cp_last_log s > 10000
              then (s\<lparr>cp_last_log := now\<rparr>, Some (''[FFmpeg Progress] '' @ take 80 msg)) else (s, None)
         else (s, Some (''[FFmpeg] '' @ msg)))"

subsection \<open>Shutdown\<close>

text \<open>The upload may fail or run into the limit of time; both are caught.\<close>

definition uploadBackupToGCS :: "world \<Rightarrow> capture \<Rightarrow> capture \<times> outcome" where
  "uploadBackupToGCS w s =
     (let backupPath = sc_backupPath (cp_config s)
      in if GCS_BUCKET w = [] \<or> \<not> w_exists w then (s, Done)
         else case w_storage w of Some e \<Rightarrow> (s, Throws (Some e))
         | None \<Rightarrow> (calls [Upload (GCS_BUCKET w) backupPath (GCS_PREFIX w @ ''/'' @ basename backupPath) (GCS_UPLOAD_TIMEOUT_MS w)] s,
                    Done))"

definition stop_ffmpeg :: "world \<Rightarrow> capture \<Rightarrow> capture" where
  "stop_ffmpeg w s =
     (if cp_ffmpeg s then calls (if w_exits w then [Kill ''SIGTERM''] else [Kill ''SIGTERM'', Sleep 10000, Kill ''SIGKILL'']) s
      else s)"

definition close_browser :: "world \<Rightarrow> capture \<Rightarrow> capture \<times> outcome" where
  "close_browser w s =
     (if cp_browser s
      then (calls [CloseBrowser] s, case w_close w of None \<Rightarrow> Done | Some e \<Rightarrow> Throws (Some e))
      else (s, Done))"

definition shutdown :: "world \<Rightarrow> capture \<Rightarrow> capture \<times> outcome" where
  "shutdown w s =
     (if cp_shutting s then (s, Done)
      else (case uploadBackupToGCS w (stop_ffmpeg w (s\<lparr>cp_shutting := True\<rparr>)) of
              (s1, Done) \<Rightarrow> close_browser w s1
            | (s1, Throws e) \<Rightarrow> (s1, Throws e)))"

subsection \<open>The program\<close>

definition and_then :: "capture \<times> outcome \<Rightarrow> (capture \<Rightarrow> capture \<times> outcome) \<Rightarrow> capture \<times> outcome" where
  "and_then r f = (case r of (s, Done) \<Rightarrow> f s | (s, Throws e) \<Rightarrow> (s, Throws e))"

definition wait_for_signal :: "capture \<Rightarrow> capture \<times> outcome" where
  "wait_for_signal s = (calls [WaitForSignal] s, Done)"

text \<open>The handler reads the message of the error, which throws when the error is \<open>undefined\<close>.\<close>

definition log_fatal :: "outcome \<Rightarrow> outcome" where
  "log_fatal r = (if r = Throws None then Throws (Some ''Cannot read properties of undefined'') else r)"

definition run :: "world \<Rightarrow> capture \<Rightarrow> capture \<times> outcome" where
  "run w s =
     (let (s1, r) = and_then (and_then (and_then (launchBrowser w s) (navigateToGame w)) (startFfmpeg w)) wait_for_signal;
          (s2, r2) = shutdown w s1
      in (s2, if r2 = Done then log_fatal r else r2))"

text \<open>The calls made and the exit code.\<close>

definition main :: "world \<Rightarrow> call list \<times> int" where
  "main w =
     (let config = getConfigFromEnv w
      in if sc_observerUrl config = [] \<or> \<not> isValidObserverUrl w (Some (sc_observerUrl config)) then ([], 1)
         else if sc_devMode config = [] \<and> sc_streamKey config = [] then ([], 1)
         else case newStreamCapture config of None \<Rightarrow> ([], 1)
              | Some s \<Rightarrow> (let (s1, r) = run w s in (cp_calls s1, if r = Done then 0 else 1)))"

end
