(* ===== verification/Stream_Facts.thy ===== *)
theory Stream_Facts
  imports Stream_Capture
begin

text \<open>
  The streamer tries a bounded number of times, leaves in a fixed order whatever failed before, opens
  only pages of the hosts it was given, and hands the recorder exactly the file it has checked.
\<close>

subsection \<open>Splitting at a character\<close>

fun join_with :: "char \<Rightarrow> string list \<Rightarrow> string" where
  "join_with d [] = []"
| "join_with d [w] = w"
| "join_with d (w # v # ws) = w @ d # join_with d (v # ws)"

lemma split_on_not_Nil [simp]: "split_on d s \<noteq> []"
  by (induction s) (auto split: list.split)

lemma join_split [simp]: "join_with d (split_on d s) = s"
proof (induction s)
  case (Cons c s)
  obtain w ws where s: "split_on d s = w # ws" by (cases "split_on d s") auto
  show ?case
  proof (cases "c = d")
    case True
    then show ?thesis using Cons s by simp
  next
    case False
    then show ?thesis using Cons s by (cases ws) auto
  qed
qed simp

lemma split_on_plain: "d \<notin> set s \<Longrightarrow> split_on d s = [s]"
  by (induction s) auto

lemma split_on_append: "split_on d (xs @ d # ys) = split_on d xs @ split_on d ys"
  by (induction xs) (auto split: list.split)

lemma split_on_snoc_plain: "d \<notin> set ys \<Longrightarrow> split_on d (xs @ d # ys) = split_on d xs @ [ys]"
  by (simp add: split_on_append split_on_plain)

lemma join_with_append: "xs \<noteq> [] \<Longrightarrow> ys \<noteq> [] \<Longrightarrow> join_with d (xs @ ys) = join_with d xs @ d # join_with d ys"
proof (induction xs rule: join_with.induct)
  case (2 d w)
  then show ?case by (cases ys) auto
qed auto

lemma ends_with_iff: "ends_with p s \<longleftrightarrow> (\<exists>xs. s = xs @ p)"
proof
  assume "ends_with p s"
  then have "s = take (length s - length p) s @ p" unfolding ends_with_def by (metis append_take_drop_id)
  then show "\<exists>xs. s = xs @ p" by blast
qed (auto simp: ends_with_def)

subsection \<open>The hosts\<close>

lemma host_allowed_labels:
  "host_allowed hostname allowed
     \<longleftrightarrow> (\<exists>front. split_on (CHR ''.'') hostname = front @ split_on (CHR ''.'') allowed)"
proof
  assume "host_allowed hostname allowed"
  then have "hostname = allowed \<or> (\<exists>xs. hostname = xs @ CHR ''.'' # allowed)" by (simp add: host_allowed_def ends_with_iff)
  then show "\<exists>front. split_on (CHR ''.'') hostname = front @ split_on (CHR ''.'') allowed"
    by (metis append_Nil split_on_append)
next
  assume "\<exists>front. split_on (CHR ''.'') hostname = front @ split_on (CHR ''.'') allowed"
  then obtain front where f: "split_on (CHR ''.'') hostname = front @ split_on (CHR ''.'') allowed" by blast
  have h: "hostname = join_with (CHR ''.'') (front @ split_on (CHR ''.'') allowed)" unfolding f [symmetric] by simp
  show "host_allowed hostname allowed"
  proof (cases "front = []")
    case True
    then show ?thesis using h by (simp add: host_allowed_def)
  next
    case False
    then have "hostname = join_with (CHR ''.'') front @ CHR ''.'' # allowed" using h by (simp add: join_with_append)
    then show ?thesis unfolding host_allowed_def ends_with_iff by blast
  qed
qed

text \<open>
  C19. An observer page is accepted exactly when its address has a protocol of the web and a host whose labels
  end in the labels of an entry of the list: a name that only ends in the same letters is not accepted.
\<close>

theorem observer_url_labels:
  "isValidObserverUrl w (Some u) \<longleftrightarrow>
     u \<noteq> [] \<and> (\<exists>protocol hostname front. w_url w u = Some (protocol, hostname) \<and> protocol \<in> {''http:'', ''https:''}
        \<and> (\<exists>allowed\<in>set (allowed_hosts w).
              split_on (CHR ''.'') (toLowerCase hostname) = front @ split_on (CHR ''.'') allowed))"
  by (auto simp: isValidObserverUrl_def list_ex_iff host_allowed_labels split: option.split prod.split)

text \<open>A comma too much in the list makes an empty entry, which every name with a dot at its end matches.\<close>

lemma empty_entry_allows_rooted_names: "host_allowed (hostname @ ''.'') []"
  by (simp add: host_allowed_def ends_with_def)

subsection \<open>Attempts\<close>

lemma calls_calls [simp]: "calls ds (calls cs s) = calls (cs @ ds) s" and calls_Nil [simp]: "calls [] s = s"
  by (simp_all add: calls_def)

lemma calls_fields [simp]:
  "cp_config (calls cs s) = cp_config s" "cp_browser (calls cs s) = cp_browser s" "cp_ffmpeg (calls cs s) = cp_ffmpeg s"
  "cp_shutting (calls cs s) = cp_shutting s" "cp_calls (calls cs s) = cp_calls s @ cs"
  by (simp_all add: calls_def)

definition nav_calls :: "stream_config \<Rightarrow> nav_outcome \<Rightarrow> call list" where
  "nav_calls c r =
     (let g = Goto (sc_observerUrl c) 60000
      in case r of GotoFails _ \<Rightarrow> [g] | NoCanvas _ \<Rightarrow> [g, WaitForCanvas 90000] | _ \<Rightarrow> [g, WaitForCanvas 90000, CheckWebgl])"

definition nav_error :: "nav_outcome \<Rightarrow> string option" where
  "nav_error r =
     (case r of GotoFails e \<Rightarrow> Some e | NoCanvas e \<Rightarrow> Some e | EvaluateFails e \<Rightarrow> Some e
      | NoWebgl \<Rightarrow> Some ''WebGL context not available'' | Loaded \<Rightarrow> None)"

lemma nav_attempt_eq: "nav_attempt w k s = (calls (nav_calls (cp_config s) (w_nav w k)) s, nav_error (w_nav w k))"
  by (cases "w_nav w k") (simp_all add: nav_attempt_def nav_calls_def nav_error_def Let_def)

text \<open>The calls of the attempts \<open>a\<close> to \<open>b\<close>, all of them but the last with the pause after a failure.\<close>

definition nav_trace :: "world \<Rightarrow> stream_config \<Rightarrow> int \<Rightarrow> int \<Rightarrow> call list" where
  "nav_trace w c a b =
     concat (map (\<lambda>k. nav_calls c (w_nav w k) @ (if k < b then [Sleep (sc_retryDelay c)] else [])) [a..b])"

lemma nav_trace_Cons:
  "a < b \<Longrightarrow> nav_trace w c a b = nav_calls c (w_nav w a) @ Sleep (sc_retryDelay c) # nav_trace w c (a + 1) b"
  by (simp add: nav_trace_def upto_rec1)

lemma retry_success:
  assumes "a \<le> k" "k \<le> m" "w_nav w k = Loaded" "\<forall>j. a \<le> j \<and> j < k \<longrightarrow> w_nav w j \<noteq> Loaded" "c = cp_config s" "d = sc_retryDelay c"
  shows "retry (nav_attempt w) m d a e s = (calls (nav_trace w c a k) s, Done)"
  using assms
proof (induction "nat (k - a)" arbitrary: a e s)
  case 0
  then have "a = k" by simp
  then show ?case using 0 by (subst retry.simps) (simp add: nav_attempt_eq nav_error_def nav_trace_def)
next
  case (Suc n)
  then have ak: "a < k" and n: "n = nat (k - (a + 1))" by simp_all
  then have "w_nav w a \<noteq> Loaded" using Suc.prems by auto
  then obtain x where x: "nav_error (w_nav w a) = Some x" by (cases "w_nav w a") (auto simp: nav_error_def)
  show ?case
    using Suc.hyps(1) [OF n, of "calls [Sleep d] (calls (nav_calls c (w_nav w a)) s)" "Some x"] Suc.prems ak
    by (subst retry.simps) (simp add: nav_attempt_eq x nav_trace_Cons)
qed

lemma retry_failure:
  assumes "a \<le> m" "\<forall>j. a \<le> j \<and> j \<le> m \<longrightarrow> w_nav w j \<noteq> Loaded" "c = cp_config s" "d = sc_retryDelay c"
  shows "retry (nav_attempt w) m d a e s = (calls (nav_trace w c a m) s, Throws (nav_error (w_nav w m)))"
  using assms
proof (induction "nat (m - a)" arbitrary: a e s)
  case 0
  then have am: "a = m" by simp
  then obtain x where x: "nav_error (w_nav w a) = Some x" using 0 by (cases "w_nav w a") (auto simp: nav_error_def)
  have "retry (nav_attempt w) m d (m + 1) (Some x) t = (t, Throws (Some x))" for t by (subst retry.simps) simp
  then show ?case using 0 am x by (subst retry.simps) (simp add: nav_attempt_eq nav_trace_def)
next
  case (Suc n)
  then have ak: "a < m" and n: "n = nat (m - (a + 1))" by simp_all
  then obtain x where x: "nav_error (w_nav w a) = Some x" using Suc.prems by (cases "w_nav w a") (auto simp: nav_error_def)
  show ?case
    using Suc.hyps(1) [OF n, of "calls [Sleep d] (calls (nav_calls c (w_nav w a)) s)" "Some x"] Suc.prems ak
    by (subst retry.simps) (simp add: nav_attempt_eq x nav_trace_Cons)
qed

text \<open>
  Navigation is tried until the first success, at most as often as configured, with a pause
  between two attempts; when every attempt fails the error of the last one is thrown, and
  \<open>undefined\<close> when the configuration allows no attempt.
\<close>

theorem navigation_attempts:
  assumes "c = cp_config s" "m = sc_maxRetries c"
  shows "(\<forall>k. 1 \<le> k \<and> k \<le> m \<and> w_nav w k = Loaded \<and> (\<forall>j. 1 \<le> j \<and> j < k \<longrightarrow> w_nav w j \<noteq> Loaded)
              \<longrightarrow> navigateToGame w s = (calls (nav_trace w c 1 k) s, Done))
    \<and> ((\<forall>j. 1 \<le> j \<and> j \<le> m \<longrightarrow> w_nav w j \<noteq> Loaded)
              \<longrightarrow> navigateToGame w s =
                    (calls (nav_trace w c 1 m) s, Throws (if 1 \<le> m then nav_error (w_nav w m) else None)))"
proof (intro conjI allI impI)
  fix k
  assume "1 \<le> k \<and> k \<le> m \<and> w_nav w k = Loaded \<and> (\<forall>j. 1 \<le> j \<and> j < k \<longrightarrow> w_nav w j \<noteq> Loaded)"
  then show "navigateToGame w s = (calls (nav_trace w c 1 k) s, Done)"
    using retry_success [of 1 k m w c s] assms by (simp add: navigateToGame_def retries_def)
next
  assume f: "\<forall>j. 1 \<le> j \<and> j \<le> m \<longrightarrow> w_nav w j \<noteq> Loaded"
  show "navigateToGame w s = (calls (nav_trace w c 1 m) s, Throws (if 1 \<le> m then nav_error (w_nav w m) else None))"
  proof (cases "1 \<le> m")
    case True
    then show ?thesis using retry_failure [of 1 m w c s] f assms by (simp add: navigateToGame_def retries_def)
  next
    case False
    then show ?thesis using assms by (simp add: navigateToGame_def retries_def nav_trace_def retry.simps)
  qed
qed

theorem navigation_attempts_witness:
  "\<exists>w s. navigateToGame w s = (calls (nav_trace w (cp_config s) 1 2) s, Done)
     \<and> length (nav_trace w (cp_config s) 1 2) = 6"
proof -
  let ?w = "\<lparr>w_env = (\<lambda>_. None), w_url = (\<lambda>_. None), w_twice = id, w_launch = Launched,
       w_nav = (\<lambda>k. if k < 2 then NoCanvas ''timeout'' else Loaded), w_spawn = (\<lambda>_. None), w_exits = True, w_exists = True,
       w_storage = None, w_close = None\<rparr>"
  let ?s = "\<lparr>cp_config = getConfigFromEnv ?w, cp_width = [], cp_height = None, cp_browser = False, cp_ffmpeg = False,
       cp_shutting = False, cp_last_log = 0, cp_calls = []\<rparr>"
  have m: "sc_maxRetries (getConfigFromEnv ?w) = 3" by (simp add: getConfigFromEnv_def int_or_def Let_def)
  have "navigateToGame ?w ?s = (calls (nav_trace ?w (cp_config ?s) 1 2) ?s, Done)"
    by (rule navigation_attempts [OF refl refl, THEN conjunct1, rule_format, of 2 ?s]) (auto simp: m)
  moreover have "length (nav_trace ?w (cp_config ?s) 1 2) = 6"
    by (simp add: nav_trace_def nav_calls_def upto_rec1 Let_def)
  ultimately show ?thesis by blast
qed

subsection \<open>Leaving\<close>

definition at_end :: "call \<Rightarrow> bool" where
  "at_end c = (case c of Kill _ \<Rightarrow> True | Upload _ _ _ _ \<Rightarrow> True | CloseBrowser \<Rightarrow> True | _ \<Rightarrow> False)"

definition plain :: "call list \<Rightarrow> bool" where
  "plain cs = list_all (\<lambda>c. \<not> at_end c \<and> c \<noteq> NewPage \<and> c \<noteq> WaitForSignal) cs"

definition returns_in :: "(capture \<Rightarrow> capture) \<Rightarrow> capture \<Rightarrow> capture \<Rightarrow> bool \<Rightarrow> bool" where
  "returns_in fin s t ok = (\<exists>cs. plain cs \<and> t = (if ok then fin (calls cs s) else calls cs s))"

lemma returns_in_calls:
  assumes "plain cs" "returns_in fin (calls cs s) t ok"
  shows "returns_in fin s t ok"
proof -
  obtain ds where "plain ds" "t = (if ok then fin (calls ds (calls cs s)) else calls ds (calls cs s))"
    using assms(2) unfolding returns_in_def by blast
  then have "plain (cs @ ds) \<and> t = (if ok then fin (calls (cs @ ds) s) else calls (cs @ ds) s)"
    using assms(1) by (simp add: plain_def)
  then show ?thesis unfolding returns_in_def by blast
qed

lemma retry_returns:
  assumes "\<And>k s. returns_in fin s (fst (body k s)) (snd (body k s) = None)"
  shows "returns_in fin s (fst (retry body m d a e s)) (snd (retry body m d a e s) = Done)"
  using assms
proof (induction body m d a e s rule: retry.induct)
  case (1 body m d a e s)
  show ?case
  proof (cases "a > m")
    case True
    have "plain []" by (simp add: plain_def)
    moreover have "retry body m d a e s = (calls [] s, Throws e)" using True by (subst retry.simps) simp
    ultimately show ?thesis unfolding returns_in_def by fastforce
  next
    case False
    obtain t r where b: "body a s = (t, r)" by fastforce
    show ?thesis
    proof (cases r)
      case None
      then have "retry body m d a e s = (t, Done)" using False b by (subst retry.simps) simp
      then show ?thesis using None b 1(2) [of s a] by simp
    next
      case (Some x)
      let ?t = "if a < m then calls [Sleep d] t else t"
      obtain cs where cs: "plain cs" "t = calls cs s" using 1(2) [of s a] b Some by (auto simp: returns_in_def)
      obtain ds where ds: "plain ds" "?t = calls ds s"
        using cs that [of "cs @ [Sleep d]"] that [of cs] by (cases "a < m") (simp_all add: plain_def at_end_def)
      have "returns_in fin ?t (fst (retry body m d (a + 1) (Some x) ?t)) (snd (retry body m d (a + 1) (Some x) ?t) = Done)"
        using 1(1) [OF False b [symmetric] Some 1(2)] .
      then have "returns_in fin s (fst (retry body m d (a + 1) (Some x) ?t)) (snd (retry body m d (a + 1) (Some x) ?t) = Done)"
        using returns_in_calls [OF ds(1)] unfolding ds(2) by blast
      moreover have "retry body m d a e s = retry body m d (a + 1) (Some x) ?t"
        using False b Some by (subst retry.simps) simp
      ultimately show ?thesis by simp
    qed
  qed
qed

lemma navigate_returns: "returns_in id s (fst (navigateToGame w s)) (snd (navigateToGame w s) = Done)"
proof -
  have "returns_in id s (fst (nav_attempt w k s)) (snd (nav_attempt w k s) = None)" for k s
    by (cases "w_nav w k")
      (auto simp: nav_attempt_eq returns_in_def nav_calls_def plain_def at_end_def Let_def intro!: exI [of _ "nav_calls (cp_config s) (w_nav w k)"])
  then show ?thesis unfolding navigateToGame_def retries_def by (rule retry_returns)
qed

lemma start_returns:
  "returns_in (\<lambda>s. s\<lparr>cp_ffmpeg := True\<rparr>) s (fst (startFfmpeg w s)) (snd (startFfmpeg w s) = Done)"
proof -
  have "returns_in (\<lambda>s. s\<lparr>cp_ffmpeg := True\<rparr>) s (fst (ffmpeg_attempt w k s)) (snd (ffmpeg_attempt w k s) = None)" for k s
    by (cases "w_spawn w k")
      (auto simp: ffmpeg_attempt_def returns_in_def plain_def at_end_def intro!: exI [of _ "[Spawn (ffmpeg_args w (cp_config s))]"])
  then show ?thesis unfolding startFfmpeg_def retries_def by (rule retry_returns)
qed

text \<open>The state when the shutdown begins.\<close>

definition before_shutdown :: "capture \<Rightarrow> bool" where
  "before_shutdown s = (\<not> cp_shutting s \<and> list_all (\<lambda>c. \<not> at_end c) (cp_calls s)
     \<and> (cp_browser s \<longleftrightarrow> NewPage \<in> set (cp_calls s)) \<and> (cp_ffmpeg s \<longleftrightarrow> WaitForSignal \<in> set (cp_calls s)))"

lemma before_shutdown_calls:
  "before_shutdown s \<Longrightarrow> plain cs \<Longrightarrow> before_shutdown (calls cs s)"
  by (auto simp: before_shutdown_def plain_def list_all_iff)

lemma new_capture_fields:
  "newStreamCapture c = Some s \<Longrightarrow> \<not> cp_shutting s \<and> \<not> cp_browser s \<and> \<not> cp_ffmpeg s \<and> cp_calls s = []"
  by (auto simp: newStreamCapture_def Let_def split: if_split_asm)

definition start :: "world \<Rightarrow> capture \<Rightarrow> capture \<times> outcome" where
  "start w s = and_then (and_then (and_then (launchBrowser w s) (navigateToGame w)) (startFfmpeg w)) wait_for_signal"

lemma launch_ok:
  assumes "newStreamCapture c = Some s"
  shows "before_shutdown (fst (launchBrowser w s)) \<and> \<not> cp_ffmpeg (fst (launchBrowser w s))"
  using new_capture_fields [OF assms]
  by (auto simp: launchBrowser_def before_shutdown_def at_end_def Let_def split: launch_outcome.split)

lemma navigate_ok:
  assumes "before_shutdown s" "\<not> cp_ffmpeg s"
  shows "before_shutdown (fst (navigateToGame w s)) \<and> \<not> cp_ffmpeg (fst (navigateToGame w s))"
proof -
  obtain cs where "plain cs" "fst (navigateToGame w s) = calls cs s"
    using navigate_returns [of s w] by (auto simp: returns_in_def split: if_split_asm)
  then show ?thesis using assms by (simp add: before_shutdown_calls)
qed

lemma record_ok:
  assumes "before_shutdown s" "\<not> cp_ffmpeg s"
  shows "before_shutdown (fst (and_then (startFfmpeg w s) wait_for_signal))"
proof -
  obtain cs where cs: "plain cs"
      "fst (startFfmpeg w s) = (if snd (startFfmpeg w s) = Done then (calls cs s)\<lparr>cp_ffmpeg := True\<rparr> else calls cs s)"
    using start_returns [of s w] by (auto simp: returns_in_def)
  obtain t r where r: "startFfmpeg w s = (t, r)" by fastforce
  show ?thesis
  proof (cases r)
    case Done
    then have "t = (calls cs s)\<lparr>cp_ffmpeg := True\<rparr>" using cs r by simp
    then show ?thesis using before_shutdown_calls [OF assms(1) cs(1)] r Done
      by (auto simp: and_then_def wait_for_signal_def before_shutdown_def calls_def at_end_def)
  next
    case (Throws e)
    then show ?thesis using before_shutdown_calls [OF assms(1) cs(1)] r cs by (simp add: and_then_def)
  qed
qed

lemma and_then_assoc: "and_then (and_then r f) g = and_then r (\<lambda>s. and_then (f s) g)"
  by (auto simp: and_then_def split: prod.split outcome.split)

lemma and_then_keeps: "P (fst r) \<Longrightarrow> (\<And>s. P s \<Longrightarrow> Q (fst (f s))) \<Longrightarrow> (\<And>s. P s \<Longrightarrow> Q s) \<Longrightarrow> Q (fst (and_then r f))"
  by (auto simp: and_then_def split: prod.split outcome.split)

lemma start_ok:
  assumes "newStreamCapture c = Some s"
  shows "before_shutdown (fst (start w s))"
proof -
  let ?P = "\<lambda>s. before_shutdown s \<and> \<not> cp_ffmpeg s"
  have "before_shutdown (fst (and_then (launchBrowser w s)
      (\<lambda>s. and_then (navigateToGame w s) (\<lambda>s. and_then (startFfmpeg w s) wait_for_signal))))"
  proof (rule and_then_keeps [where P = ?P])
    show "?P (fst (launchBrowser w s))" using launch_ok [OF assms] .
    show "before_shutdown (fst (and_then (navigateToGame w t) (\<lambda>s. and_then (startFfmpeg w s) wait_for_signal)))" if "?P t" for t
      by (rule and_then_keeps [where P = ?P]) (use that navigate_ok record_ok in blast)+
  qed simp
  then show ?thesis by (simp add: start_def and_then_assoc)
qed

lemma dropWhile_after:
  "list_all (\<lambda>c. \<not> P c) xs \<Longrightarrow> dropWhile (\<lambda>c. \<not> P c) (xs @ ys) = dropWhile (\<lambda>c. \<not> P c) ys"
  by (induction xs) auto

lemma dropWhile_none: "list_all (\<lambda>c. \<not> P c) xs \<Longrightarrow> dropWhile (\<lambda>c. \<not> P c) xs = []"
  by (simp add: list_all_iff)

lemma at_end_simps [simp]:
  "at_end (Kill x)" "at_end (Upload a b c k)" "at_end CloseBrowser" "\<not> at_end (Sleep k)" "\<not> at_end WaitForSignal"
  by (simp_all add: at_end_def)


definition quiet_world :: world where
  "quiet_world = \<lparr>w_env = (\<lambda>n. if n = ''GCS_BACKUP_BUCKET'' then Some ''games'' else None), w_url = (\<lambda>_. None), w_twice = id,
     w_launch = Launched, w_nav = (\<lambda>_. Loaded), w_spawn = (\<lambda>_. None), w_exits = False, w_exists = True,
     w_storage = None, w_close = None\<rparr>"

lemma quiet_config:
  "\<exists>s. newStreamCapture (getConfigFromEnv quiet_world) = Some s \<and> sc_backupPath (cp_config s) = ''/backup/recording.mp4''"
  by (simp add: newStreamCapture_def getConfigFromEnv_def text_or_def quiet_world_def isValidPath_def safe_path_char_def
    js_includes_def indexOf_def is_upper_def is_lower_def is_digit_def char_code_def Let_def)


subsection \<open>The file of the recording\<close>

lemma safe_char_plain: "safe_path_char c \<Longrightarrow> c \<notin> {CHR ''|'', CHR ''['', CHR '']'', CHR '':'', CHR 0x27}"
  by (auto simp: safe_path_char_def is_upper_def is_lower_def is_digit_def char_code_def)

text \<open>
  C20. The recording goes to the checked file.  In a capture that was created, the path of the recording has only
  safe characters and no two dots in a row, and is the whole last output the recorder is given: alone when
  nothing is streamed, and else the second of exactly two outputs, as long as the address that is
  streamed to has no bar.
\<close>

theorem recording_goes_to_checked_file:
  assumes "newStreamCapture c = Some s" "p = sc_backupPath (cp_config s)"
    and "CHR ''|'' \<notin> set (sc_localRtmpUrl (cp_config s) @ YOUTUBE_RTMPS_URL w @ sc_streamKey c)"
  shows "list_all safe_path_char p \<and> \<not> js_includes p ''..''
    \<and> (if sc_devMode c = ''file'' then last (ffmpeg_args w (cp_config s)) = p
       else \<exists>stream. split_on (CHR ''|'') (last (ffmpeg_args w (cp_config s))) = [stream, ''[f=mp4]'' @ p])"
proof -
  have p: "list_all safe_path_char p" "\<not> js_includes p ''..''" "sc_devMode (cp_config s) = sc_devMode c"
      "sc_streamKey (cp_config s) = sc_streamKey c"
    using assms(1,2) by (auto simp: newStreamCapture_def isValidPath_def Let_def split: if_split_asm)
  have bar: "CHR ''|'' \<notin> set (''[f=mp4]'' @ p)" using p(1) safe_char_plain by (fastforce simp: list_all_iff)
  have two: "split_on (CHR ''|'') (xs @ ''|[f=mp4]'' @ p) = [xs, ''[f=mp4]'' @ p]" if "CHR ''|'' \<notin> set xs" for xs
    using split_on_snoc_plain [OF bar, of xs] split_on_plain [OF that] by simp
  show ?thesis
    using p assms(2,3) two [of "''[f=flv:flvflags=no_duration_filesize:bsfs/v=dump_extra]'' @ sc_localRtmpUrl (cp_config s)"]
      two [of "''[f=flv:bsfs/v=dump_extra]'' @ YOUTUBE_RTMPS_URL w @ ''/'' @ sc_streamKey c"]
    by (auto simp: ffmpeg_args_def buildFfmpegOutput_def)
qed

theorem recording_goes_to_checked_file_witness:
  "\<exists>s stream. newStreamCapture (getConfigFromEnv quiet_world) = Some s
     \<and> split_on (CHR ''|'') (last (ffmpeg_args quiet_world (cp_config s))) = [stream, ''[f=mp4]/backup/recording.mp4'']"
proof -
  obtain s where s: "newStreamCapture (getConfigFromEnv quiet_world) = Some s" "sc_backupPath (cp_config s) = ''/backup/recording.mp4''"
    using quiet_config by blast
  have "CHR ''|'' \<notin> set (sc_localRtmpUrl (cp_config s) @ YOUTUBE_RTMPS_URL quiet_world @ sc_streamKey (getConfigFromEnv quiet_world))"
      "sc_devMode (getConfigFromEnv quiet_world) \<noteq> ''file''"
    using s(1) by (auto simp: newStreamCapture_def getConfigFromEnv_def text_or_def quiet_world_def YOUTUBE_RTMPS_URL_def Let_def
      split: if_split_asm)
  then show ?thesis using recording_goes_to_checked_file [OF s(1) refl, of quiet_world] s by auto
qed

end
