(* ===== verification/Spec2Isabelle.thy ===== *)
theory Spec2Isabelle
  imports Worklist_Facts City_Map_Facts City_Facts Ruleset_Facts Unit_Facts Orders_Facts
    Observer_Facts Chat_Facts Object_Facts Messages_Facts Rates_Facts Map_Images_Facts
    Camera_Facts Centroid_Facts Follow_Facts Autojoin_Facts Scene_Loading Heightmap_Facts
    Unit_Menu_Facts Stream_Facts
begin

text \<open>
  Verification library of the freeciv3d web client.

  The program.  The client is the JavaScript of \<open>src/freeciv-web/src/main/webapp/javascript\<close> (file
  names below are relative to it).  It keeps the world the server tells it about in global
  dictionaries (\<open>tiles\<close>, \<open>units\<close>, \<open>cities\<close>, \<open>players\<close>, the ruleset tables); the packet handlers of
  \<open>packhand.js\<close> fill them; \<open>control.js\<close>, \<open>city.js\<close>, \<open>action_dialog.js\<close>, \<open>diplomacy.js\<close> and \<open>rates.js\<close>
  turn what the user does into requests to the server; \<open>civclient.js\<close> and \<open>clinet.js\<close> connect, follow
  the game as an observer and report to the page around the client.  The 3D view reads the same
  dictionaries, through three images of the map (\<open>webgl/roads.js\<close> and its siblings) and a camera.

  How it is modelled.  Every function is a definition of its own name on an explicit state.  The
  globals that several parts share are the record \<open>client\<close> (theory \<open>Client\<close>); a part adds its own
  variables by extending the record (\<open>game_client\<close>, \<open>packet_client\<close>, \<open>observer_client\<close>,
  \<open>follow_client\<close> and others), and its operations work on every extension where they can.  What the
  code does to the outside (a request to the server, a call of the interface or of the view, a timer)
  is a value of \<open>effect\<close>, appended in order to \<open>cl_out\<close>.  A JavaScript exception is \<open>None\<close>, and a
  value that may be \<open>null\<close> or \<open>undefined\<close> is an option.  Dictionaries are association lists in the order
  in which JavaScript enumerates them (\<open>Js_Store\<close>).  Numbers are \<open>int\<close>, 32-bit and 8-bit words where
  the code has bit operators or typed arrays, and reals in the camera and the centroids, where the
  code has floating point numbers.  Html, css and sprites are not part of the state.

  Theories and what they model.
  \<open>Prelude\<close>, \<open>Js_Store\<close>, \<open>Client\<close>, \<open>World\<close>, \<open>Samples\<close>: operators of JavaScript, dictionaries, shared
  state, the objects, and default objects for the examples.
  \<open>Fc_Types\<close>, \<open>Bit_Vector\<close>, \<open>Geometry\<close>, \<open>Terrain\<close>: \<open>fc_types.js\<close>, \<open>bitvector.js\<close>, \<open>map.js\<close>, \<open>tile.js\<close>,
  \<open>terrain.js\<close>, \<open>extra.js\<close>.
  \<open>Worklist\<close>, \<open>City_Map\<close>, \<open>City\<close>: the production tab, the numbering of the workable tiles and the rest of
  \<open>city.js\<close>.  \<open>Js_Text\<close>: \<open>utility.js\<close>, \<open>banlist.js\<close>, \<open>speech.js\<close>.
  \<open>Ruleset\<close>, \<open>Tech\<close>: \<open>requirements.js\<close>, \<open>improvement.js\<close>, \<open>actions.js\<close>, \<open>unittype.js\<close>, \<open>government.js\<close>,
  \<open>tech.js\<close>, \<open>reqtree.js\<close>.
  \<open>Units\<close>, \<open>Focus\<close>, \<open>Unit_Packets\<close>, \<open>Action_Dialog\<close>, \<open>Orders\<close>: \<open>unit.js\<close>, \<open>player.js\<close>, \<open>control.js\<close>,
  \<open>action_dialog.js\<close> and the handlers of \<open>packhand.js\<close> that feed them.
  \<open>Map_Packets\<close>, \<open>Object_Packets\<close>, \<open>Ruleset_Packets\<close>: the other handlers of \<open>packhand.js\<close>, with
  \<open>client_main.js\<close> and \<open>connection.js\<close>.  \<open>Diplomacy\<close>: \<open>diplomacy.js\<close>.  \<open>Chat\<close>: messages of \<open>control.js\<close>.
  \<open>Event_Aggregator\<close>, \<open>Messages\<close>: \<open>libs/EventAggregator.js\<close> and the message window of \<open>messages.js\<close>.
  \<open>Rates\<close>: \<open>rates.js\<close> on \<open>libs/slider.js\<close> on \<open>libs/range.js\<close>.
  \<open>Map_Images\<close>, \<open>Camera\<close>: \<open>webgl/borders.js\<close>, \<open>webgl/roads.js\<close>, \<open>webgl/map_tiletype.js\<close>,
  \<open>webgl/camera.js\<close>, \<open>webgl/maputil.js\<close>.
  \<open>Scene_Objects\<close>, \<open>Scene_Cities\<close>, \<open>Scene_Extras\<close>: \<open>webgl/object_position_handler.js\<close>, with the height offsets of
  \<open>webgl/heightmap.js\<close> and the loaded models of \<open>webgl/preload.js\<close>; \<open>Scene_Loading\<close> is about the latter.
  \<open>Heightmap\<close>: \<open>webgl/heightmap.js\<close>, the land meshes of \<open>webgl/mapview.js\<close> and their colours
  (\<open>webgl/tile_visibility_handler.js\<close>).  \<open>Unit_Menu\<close>: the context menu of \<open>control.js\<close>.
  \<open>Stream_Capture\<close>: \<open>src/streaming/stream.js\<close>, the program beside the client that opens the observer page,
  records it and uploads the recording; it has a state and an environment of its own.
  \<open>Observer\<close>, \<open>Centroid\<close>, \<open>Observer_Follow\<close>, \<open>Autojoin\<close>: \<open>clinet.js\<close> and \<open>civclient.js\<close>: connection and
  retries, where the view is centred, the follow mode, joining by address.
  Each \<open>..._Facts\<close> theory proves what makes the parts of that name correct.

  Interfaces.  \<open>kv_store\<close> and \<open>ordered_store\<close> (\<open>Js_Store\<close>) are the laws of the dictionaries and
  \<open>flag_set\<close> (\<open>Bit_Vector\<close>) those of a set of flags.  \<open>quiet_handler\<close> (\<open>Aggregator_Facts\<close>) is what an
  event aggregator needs of its handler; it is interpreted for a handler that collects and for
  \<open>update_chatbox\<close> while the window is in the page.

  What the lemmas show.  Invariants under every sequence of events: the index of units by tile, the
  selection of the worklist, the retries and the buffer of an observer, the reports of the follow
  mode, the roads image, the objects in the scene, the bounds of a slider.  Refinements: bit vectors against sets, the treaty
  window against the treaties of the server, the aggregator against a sequence of batches, the
  message window against the log.  Equivalences: buffered tile packets against packets in order,
  the cached city tile table against the rank by distance, an updated landscape against one built
  anew, an empire across the date line against
  the same empire inside the map.  Safety of what is sent: rates, commands to observe, encoded
  messages.  Termination and liveness: the technology search, polling, the focus, retries and
  delayed batches.  Bounds: the heights of the landscape.  Several theorems state a defect the way the code has it.

  Bounds and fuel.  \<open>onchange\<close> of the rates dialog has two levels of callbacks; \<open>onchange_fuel\<close> shows
  that more change nothing, because a frozen dialog ignores them.  \<open>is_tech_req_for_goal\<close> and the tree
  layout have fuel, and the facts prove a bound on acyclic rulesets that is enough.  The buffer of
  early tile packets, the retries and the attempts of the polls have the limits of the code.

  Not modelled.  The view itself (textures, shaders, mouse picking: \<open>webgl/\<close>, \<open>webgpu/\<close>, \<open>2dcanvas/\<close>
  otherwise), dialogs that only print data (help, nations, reports, intelligence), pregame, options
  and save games (html and requests to the web server), sounds and speech, and the libraries of
  other projects (jQuery plugins, three.js, the language model runtime).  In the modelled files
  functions that only build html are left out; their requests and state changes are kept.
\<close>

end
